(* ===== verification/Prelude.thy ===== *)
theory Prelude
  imports Complex_Main "HOL-Library.AList" "HOL-Library.Word"
begin

text \<open>
  Shared vocabulary of the development: the Python values every component uses (UUIDs,
  timestamps, strings, insertion-ordered dictionaries, JSON documents) and the shape of a
  Python operation that may raise, with the lemmas and hints the component proofs rest on.

  \<^item> A UUID is a 128-bit word; \<open>str_uuid\<close> is Python's \<open>str(UUID)\<close>.
  \<^item> A \<open>datetime\<close> is the integer number of microseconds since the epoch in UTC, the
    resolution of Python's \<open>datetime\<close>.
  \<^item> A Python \<open>str\<close> is a \<open>string\<close> whose characters stand for the first 256
    code points.
  \<^item> A Python \<open>dict\<close> is an association list in insertion order: overwriting a key
    keeps its position, a new key goes to the end (this is \<open>AList.update\<close>).
  \<^item> An operation that reads and writes a state and may raise is a function
    \<open>'s \<Rightarrow> ('e + 'a) \<times> 's\<close>: the state survives an exception, as it does in Python;
    where a transaction rolls it back, the model says so explicitly.
\<close>

section \<open>Scalars\<close>

unbundle bit_operations_syntax

type_synonym uuid = "128 word"
type_synonym time = int

definition seconds :: "int \<Rightarrow> time" where
  "seconds n = n * 1000000"

definition minutes :: "int \<Rightarrow> time" where
  "minutes n = seconds (60 * n)"

section \<open>Strings\<close>

text \<open>
  \<open>str.strip()\<close>, \<open>str.lower()\<close>, \<open>str.startswith()\<close>, \<open>sub in s\<close> and \<open>str(int)\<close>
  on the first 256 code points.
\<close>

definition is_space :: "char \<Rightarrow> bool" where
  "is_space c =
     (let n = (of_char c :: nat) in (9 \<le> n \<and> n \<le> 13) \<or> (28 \<le> n \<and> n \<le> 32) \<or> n = 133 \<or> n = 160)"

definition strip :: "string \<Rightarrow> string" where
  "strip s = rev (dropWhile is_space (rev (dropWhile is_space s)))"

definition lower_char :: "char \<Rightarrow> char" where
  "lower_char c =
     (let n = (of_char c :: nat) in
      if (65 \<le> n \<and> n \<le> 90) \<or> (192 \<le> n \<and> n \<le> 222 \<and> n \<noteq> 215) then char_of (n + 32) else c)"

definition lower :: "string \<Rightarrow> string" where
  "lower s = map lower_char s"

text \<open>\<open>str.upper()\<close>; the two code points whose upper case lies beyond the first 256 are kept.\<close>

definition upper_char :: "char \<Rightarrow> string" where
  "upper_char c =
     (let n = (of_char c :: nat) in
      if (97 \<le> n \<and> n \<le> 122) \<or> (224 \<le> n \<and> n \<le> 254 \<and> n \<noteq> 247) then [char_of (n - 32)]
      else if n = 223 then ''SS'' else [c])"

definition upper :: "string \<Rightarrow> string" where
  "upper s = concat (map upper_char s)"

definition startswith :: "string \<Rightarrow> string \<Rightarrow> bool" where
  "startswith s p = (take (length p) s = p)"

definition removeprefix :: "string \<Rightarrow> string \<Rightarrow> string" where
  "removeprefix s p = (if startswith s p then drop (length p) s else s)"

fun contains_str :: "string \<Rightarrow> string \<Rightarrow> bool" where
  "contains_str p [] = (p = [])"
| "contains_str p (c # s) = (startswith (c # s) p \<or> contains_str p s)"

fun split_on :: "char \<Rightarrow> string \<Rightarrow> string list" where
  "split_on d [] = [[]]"
| "split_on d (c # s) =
     (if c = d then [] # split_on d s
      else (case split_on d s of [] \<Rightarrow> [[c]] | w # ws \<Rightarrow> (c # w) # ws))"

definition digit_char :: "nat \<Rightarrow> char" where
  "digit_char n = char_of (if n < 10 then 48 + n else 87 + n)"

fun str_nat :: "nat \<Rightarrow> string" where
  "str_nat n = (if n < 10 then [digit_char n] else str_nat (n div 10) @ [digit_char (n mod 10)])"

declare str_nat.simps [simp del]

definition str_int :: "int \<Rightarrow> string" where
  "str_int i = (if i < 0 then CHR ''-'' # str_nat (nat (- i)) else str_nat (nat i))"

fun hexn :: "nat \<Rightarrow> nat \<Rightarrow> string" where
  "hexn 0 x = []"
| "hexn (Suc n) x = hexn n (x div 16) @ [digit_char (x mod 16)]"

definition str_uuid :: "uuid \<Rightarrow> string" where
  "str_uuid u =
     (let h = hexn 32 (unat u) in
      take 8 h @ ''-'' @ take 4 (drop 8 h) @ ''-'' @ take 4 (drop 12 h) @ ''-''
        @ take 4 (drop 16 h) @ ''-'' @ drop 20 h)"

lemma digit_char_inj: "m < 16 \<Longrightarrow> n < 16 \<Longrightarrow> digit_char m = digit_char n \<Longrightarrow> m = n"
  by (auto simp: digit_char_def char_of_eq_iff take_bit_eq_mod split: if_splits
      dest!: arg_cong [where f = "of_char :: char \<Rightarrow> nat"])

lemma length_hexn [simp]: "length (hexn n x) = n"
  by (induction n arbitrary: x) auto

lemma hexn_inj: "x < 16 ^ n \<Longrightarrow> y < 16 ^ n \<Longrightarrow> hexn n x = hexn n y \<Longrightarrow> x = y"
proof (induction n arbitrary: x y)
  case 0
  then show ?case by simp
next
  case (Suc n)
  from Suc.prems(3) have "hexn n (x div 16) = hexn n (y div 16)"
    and d: "digit_char (x mod 16) = digit_char (y mod 16)" by auto
  moreover have "x div 16 < 16 ^ n" "y div 16 < 16 ^ n"
    using Suc.prems(1,2) by (auto simp: less_mult_imp_div_less mult.commute)
  ultimately have "x div 16 = y div 16" using Suc.IH by blast
  moreover have "x mod 16 = y mod 16" by (rule digit_char_inj [OF _ _ d]) auto
  ultimately show ?case by (metis div_mult_mod_eq)
qed

lemma str_uuid_inj: "str_uuid u = str_uuid v \<Longrightarrow> u = v"
proof -
  assume eq: "str_uuid u = str_uuid v"
  let ?h = "hexn 32 (unat u)" and ?k = "hexn 32 (unat v)"
  from eq have parts: "take 8 ?h = take 8 ?k" "take 4 (drop 8 ?h) = take 4 (drop 8 ?k)"
    "take 4 (drop 12 ?h) = take 4 (drop 12 ?k)" "take 4 (drop 16 ?h) = take 4 (drop 16 ?k)"
    "drop 20 ?h = drop 20 ?k"
    by (simp_all add: str_uuid_def Let_def append_eq_append_conv)
  have split: "xs = take 8 xs @ take 4 (drop 8 xs) @ take 4 (drop 12 xs) @ take 4 (drop 16 xs) @ drop 20 xs"
    for xs :: string
  proof -
    have "drop 16 xs = take 4 (drop 16 xs) @ drop 20 xs"
      using append_take_drop_id [of 4 "drop 16 xs"] by simp
    moreover have "drop 12 xs = take 4 (drop 12 xs) @ drop 16 xs"
      using append_take_drop_id [of 4 "drop 12 xs"] by simp
    moreover have "drop 8 xs = take 4 (drop 8 xs) @ drop 12 xs"
      using append_take_drop_id [of 4 "drop 8 xs"] by simp
    ultimately show ?thesis using append_take_drop_id [of 8 xs] by metis
  qed
  have "?h = ?k" using split [of ?h] split [of ?k] parts by metis
  moreover have "unat u < 16 ^ 32" "unat v < 16 ^ 32"
    using unsigned_less [of u, where ?'a = nat] unsigned_less [of v, where ?'a = nat] by simp_all
  ultimately have "unat u = unat v" using hexn_inj by blast
  then show "u = v" by (rule unsigned_word_eqI)
qed

lemma str_uuid_nonempty [simp]: "str_uuid u \<noteq> []"
  by (simp add: str_uuid_def Let_def)

lemma str_uuid_eq_iff [simp]: "str_uuid u = str_uuid v \<longleftrightarrow> u = v"
  using str_uuid_inj by blast

lemma str_nat_inj: "str_nat m = str_nat n \<Longrightarrow> m = n"
proof (induction m arbitrary: n rule: str_nat.induct)
  case (1 m)
  have ne: "str_nat k \<noteq> []" for k by (subst str_nat.simps) auto
  show ?case
  proof (cases "m < 10 \<or> n < 10")
    case True
    then show ?thesis using "1.prems" ne ne [symmetric] digit_char_inj [of m n]
      by (subst (asm) (1 2) str_nat.simps) (auto split: if_splits)
  next
    case False
    then have "str_nat (m div 10) = str_nat (n div 10)"
      and d: "digit_char (m mod 10) = digit_char (n mod 10)"
      using "1.prems" by (subst (asm) (1 2) str_nat.simps, simp)+
    then have "m div 10 = n div 10" using "1.IH" False by simp
    moreover have "m mod 10 = n mod 10" using digit_char_inj [OF _ _ d] by simp
    ultimately show ?thesis by (metis div_mult_mod_eq)
  qed
qed

text \<open>\<open>sep.join(parts)\<close>, and \<open>repr\<close> of a string and of a list of strings.\<close>

fun join :: "string \<Rightarrow> string list \<Rightarrow> string" where
  "join sep [] = []"
| "join sep [x] = x"
| "join sep (x # y # zs) = x @ sep @ join sep (y # zs)"

definition repr_char :: "char \<Rightarrow> char \<Rightarrow> string" where
  "repr_char quote c =
     (let n = (of_char c :: nat) in
      if c = quote \<or> n = 92 then [char_of (92 :: nat), c]
      else if n = 9 then [char_of (92 :: nat), CHR ''t'']
      else if n = 10 then [char_of (92 :: nat), CHR ''n'']
      else if n = 13 then [char_of (92 :: nat), CHR ''r'']
      else if n < 32 \<or> (127 \<le> n \<and> n \<le> 160) \<or> n = 173
        then char_of (92 :: nat) # CHR ''x'' # hexn 2 n
      else [c])"

definition repr_str :: "string \<Rightarrow> string" where
  "repr_str s =
     (let q = (if char_of (39 :: nat) \<in> set s \<and> char_of (34 :: nat) \<notin> set s
               then char_of (34 :: nat) else char_of (39 :: nat))
      in q # concat (map (repr_char q) s) @ [q])"

definition repr_list :: "string list \<Rightarrow> string" where
  "repr_list xs = ''['' @ join '', '' (map repr_str xs) @ '']''"

lemma find_SomeD: "find P xs = Some x \<Longrightarrow> x \<in> set xs \<and> P x"
  by (induction xs) (auto split: if_splits)

lemma find_unique:
  assumes "x \<in> set xs" and "P x" and "\<And>y. y \<in> set xs \<Longrightarrow> P y \<Longrightarrow> y = x"
  shows "find P xs = Some x"
proof (cases "find P xs")
  case None
  then show ?thesis using assms(1,2) by (simp add: find_None_iff)
next
  case (Some y)
  then show ?thesis using find_SomeD [OF Some] assms(3) by simp
qed

text \<open>
  \<open>Enum(value)\<close>: the member with this value, or \<open>None\<close> where Python raises \<open>ValueError\<close>.
\<close>

definition enum_of :: "('e \<Rightarrow> string) \<Rightarrow> 'e list \<Rightarrow> string \<Rightarrow> 'e option" where
  "enum_of value members s = find (\<lambda>m. value m = s) members"

lemma enum_of_value:
  "inj value \<Longrightarrow> m \<in> set members \<Longrightarrow> enum_of value members (value m) = Some m"
  by (induction members) (auto simp: enum_of_def inj_eq)

section \<open>Dictionaries\<close>

type_synonym ('k, 'v) dict = "('k \<times> 'v) list"

abbreviation dget :: "('k, 'v) dict \<Rightarrow> 'k \<Rightarrow> 'v option" where
  "dget d k \<equiv> map_of d k"

abbreviation dset :: "'k \<Rightarrow> 'v \<Rightarrow> ('k, 'v) dict \<Rightarrow> ('k, 'v) dict" where
  "dset k v d \<equiv> AList.update k v d"

abbreviation dvals :: "('k, 'v) dict \<Rightarrow> 'v list" where
  "dvals d \<equiv> map snd d"

definition wf_dict :: "('k, 'v) dict \<Rightarrow> bool" where
  "wf_dict d \<longleftrightarrow> distinct (map fst d)"

lemma dget_dset [simp]: "dget (dset k v d) = (dget d)(k \<mapsto> v)"
  by (rule update_conv')

lemma wf_dict_Nil [simp, intro]: "wf_dict []"
  by (simp add: wf_dict_def)

lemma wf_dict_dset [simp, intro]: "wf_dict d \<Longrightarrow> wf_dict (dset k v d)"
  by (simp add: wf_dict_def distinct_update)

lemma in_dvals_iff: "wf_dict d \<Longrightarrow> v \<in> set (dvals d) \<longleftrightarrow> (\<exists>k. dget d k = Some v)"
  by (force simp: wf_dict_def dest: map_of_SomeD intro: map_of_is_SomeI)

lemma dget_in_dvals: "dget d k = Some v \<Longrightarrow> v \<in> set (dvals d)"
  by (force dest: map_of_SomeD)

lemma dset_new: "dget d k = None \<Longrightarrow> dset k v d = d @ [(k, v)]"
  by (induction d) (auto split: if_splits)

lemma length_dset: "length (dset k v d) = (if dget d k = None then Suc (length d) else length d)"
  by (induction d) auto

lemma set_dvals_dset: "set (dvals (dset k v d)) \<subseteq> insert v (set (dvals d))"
  by (induction d) auto

lemma dget_fold_dset_Some:
  "dget (fold (\<lambda>item d. dset (f item) item d) items d) k = Some it \<Longrightarrow>
     (it \<in> set items \<and> f it = k) \<or> dget d k = Some it"
proof (induction items arbitrary: d)
  case (Cons a items)
  from Cons.IH [of "dset (f a) a d"] Cons.prems show ?case by (auto split: if_splits)
qed simp

lemma dget_fold_dset_None:
  "dget (fold (\<lambda>item d. dset (f item) item d) items d) k = None \<Longrightarrow>
     dget d k = None \<and> (\<forall>item \<in> set items. f item \<noteq> k)"
proof (induction items arbitrary: d)
  case (Cons a items)
  from Cons.IH [of "dset (f a) a d"] Cons.prems show ?case by (auto split: if_splits)
qed simp

lemma set_dvals_dset_key:
  assumes "wf_dict d"
  shows "set (dvals (dset k v d)) = insert v {u. \<exists>j. j \<noteq> k \<and> dget d j = Some u}"
  using in_dvals_iff [OF wf_dict_dset [OF assms], of _ k v] by (auto simp: set_eq_iff split: if_splits)

text \<open>
  A dictionary whose values carry their own key (\<open>repository.executions[execution.id]\<close>).
\<close>

definition keyed :: "('v \<Rightarrow> 'k) \<Rightarrow> ('k, 'v) dict \<Rightarrow> bool" where
  "keyed key d \<longleftrightarrow> (\<forall>k v. dget d k = Some v \<longrightarrow> key v = k)"

lemma keyed_Nil [simp, intro]: "keyed key []"
  by (simp add: keyed_def)

lemma keyed_dset [simp, intro]: "keyed key d \<Longrightarrow> key v = k \<Longrightarrow> keyed key (dset k v d)"
  by (simp add: keyed_def)

lemma keyedD: "keyed key d \<Longrightarrow> dget d k = Some v \<Longrightarrow> key v = k"
  by (simp add: keyed_def)

text \<open>
  A dictionary that loses no key, and whose values change along a preorder only.
\<close>

definition advances :: "('v \<Rightarrow> 'v \<Rightarrow> bool) \<Rightarrow> ('k, 'v) dict \<Rightarrow> ('k, 'v) dict \<Rightarrow> bool" where
  "advances P d d' \<longleftrightarrow> (\<forall>k v. dget d k = Some v \<longrightarrow> (\<exists>v'. dget d' k = Some v' \<and> P v v'))"

lemma advancesD: "advances P d d' \<Longrightarrow> dget d k = Some v \<Longrightarrow> \<exists>v'. dget d' k = Some v' \<and> P v v'"
  by (simp add: advances_def)

lemma advances_refl: "(\<And>v. P v v) \<Longrightarrow> advances P d d"
  by (simp add: advances_def)

lemma advances_trans:
  assumes "advances P d e" and "advances P e f" and "\<And>u v w. P u v \<Longrightarrow> P v w \<Longrightarrow> P u w"
  shows "advances P d f"
  using assms unfolding advances_def by meson

lemma advances_dset:
  "(\<And>v. P v v) \<Longrightarrow> (\<And>u. dget d k = Some u \<Longrightarrow> P u v) \<Longrightarrow> advances P d (dset k v d)"
  by (simp add: advances_def)

lemma advances_map:
  "(\<And>v. P v (g v)) \<Longrightarrow> advances P d (map (\<lambda>(k, v). (k, g v)) d)"
  by (auto simp: advances_def map_of_map comp_def)

section \<open>Operations that may raise\<close>

type_synonym ('s, 'e, 'a) oper = "'s \<Rightarrow> ('e + 'a) \<times> 's"

definition returnS :: "'a \<Rightarrow> ('s, 'e, 'a) oper" where
  "returnS a s = (Inr a, s)"

definition raiseS :: "'e \<Rightarrow> ('s, 'e, 'a) oper" where
  "raiseS e s = (Inl e, s)"

definition readS :: "('s \<Rightarrow> 'a) \<Rightarrow> ('s, 'e, 'a) oper" where
  "readS f s = (Inr (f s), s)"

definition writeS :: "('s \<Rightarrow> 's) \<Rightarrow> ('s, 'e, unit) oper" where
  "writeS f s = (Inr (), f s)"

definition liftS :: "'e + 'a \<Rightarrow> ('s, 'e, 'a) oper" where
  "liftS r s = (r, s)"

definition bindS :: "('s, 'e, 'a) oper \<Rightarrow> ('a \<Rightarrow> ('s, 'e, 'b) oper) \<Rightarrow> ('s, 'e, 'b) oper" where
  "bindS m f s = (case m s of (Inl e, s') \<Rightarrow> (Inl e, s') | (Inr a, s') \<Rightarrow> f a s')"

definition seqS :: "('s, 'e, unit) oper \<Rightarrow> ('s, 'e, 'b) oper \<Rightarrow> ('s, 'e, 'b) oper" where
  "seqS m n = bindS m (\<lambda>_. n)"

text \<open>\<open>if x is None: raise e\<close>.\<close>

definition requireS :: "'e \<Rightarrow> 'a option \<Rightarrow> ('s, 'e, 'a) oper" where
  "requireS e x = (case x of None \<Rightarrow> raiseS e | Some a \<Rightarrow> returnS a)"

lemmas oper_defs = returnS_def raiseS_def readS_def writeS_def liftS_def requireS_def

lemma bindS_Inr_iff:
  "bindS m f s = (Inr b, s') \<longleftrightarrow> (\<exists>a t. m s = (Inr a, t) \<and> f a t = (Inr b, s'))"
  by (auto simp: bindS_def split: prod.splits sum.splits)

lemma bindS_Inl_iff:
  "bindS m f s = (Inl e, s') \<longleftrightarrow>
     m s = (Inl e, s') \<or> (\<exists>a t. m s = (Inr a, t) \<and> f a t = (Inl e, s'))"
  by (auto simp: bindS_def split: prod.splits sum.splits)

lemma seqS_iff:
  "seqS m n s = (Inr b, s') \<longleftrightarrow> (\<exists>t. m s = (Inr (), t) \<and> n t = (Inr b, s'))"
  "seqS m n s = (Inl e, s') \<longleftrightarrow>
     m s = (Inl e, s') \<or> (\<exists>t. m s = (Inr (), t) \<and> n t = (Inl e, s'))"
  by (auto simp: seqS_def bindS_Inr_iff bindS_Inl_iff)

lemma basic_oper_iff:
  "returnS a s = (r, s') \<longleftrightarrow> r = Inr a \<and> s' = s"
  "raiseS e s = (r', s') \<longleftrightarrow> r' = Inl e \<and> s' = s"
  "readS g s = (r, s') \<longleftrightarrow> r = Inr (g s) \<and> s' = s"
  "writeS w s = (r'', s') \<longleftrightarrow> r'' = Inr () \<and> s' = w s"
  "liftS q s = (r, s') \<longleftrightarrow> r = q \<and> s' = s"
  by (auto simp: oper_defs)

lemma requireS_iff:
  "requireS e x s = (Inr a, s') \<longleftrightarrow> x = Some a \<and> s' = s"
  "requireS e x s = (Inl e', s') \<longleftrightarrow> x = None \<and> e' = e \<and> s' = s"
  by (auto simp: requireS_def oper_defs split: option.splits)

lemmas oper_iffs = bindS_Inr_iff bindS_Inl_iff seqS_iff basic_oper_iff requireS_iff

text \<open>Forward evaluation: used to compute an operation on a known state.\<close>

lemma bindS_simps [simp]:
  "bindS (returnS a) f s = f a s"
  "bindS (raiseS e) f s = (Inl e, s)"
  "bindS (readS g) f s = f (g s) s"
  "bindS (writeS w) f' s = f' () (w s)"
  "bindS (liftS (Inr a)) f s = f a s"
  "bindS (liftS (Inl e)) f s = (Inl e, s)"
  "bindS (requireS e (Some a)) f s = f a s"
  "bindS (requireS e None) f s = (Inl e, s)"
  by (simp_all add: bindS_def oper_defs)

lemma seqS_simps [simp]: "seqS (writeS w) n s = n (w s)"
  by (simp add: seqS_def)

text \<open>An operation that leaves a part of the state, as \<open>f\<close> reads it, as it is.\<close>

definition preserves :: "('s \<Rightarrow> 'b) \<Rightarrow> ('s, 'e, 'a) oper \<Rightarrow> bool" where
  "preserves f m \<longleftrightarrow> (\<forall>s. f (snd (m s)) = f s)"

named_theorems preserving

lemma preservesD: "preserves f m \<Longrightarrow> m s = (r, s') \<Longrightarrow> f s' = f s"
  unfolding preserves_def by (metis snd_conv)

lemma preserves_basic [preserving]:
  "preserves f (returnS a)" "preserves f (raiseS e)" "preserves f (readS g)" "preserves f (liftS r)"
  "preserves f (requireS e x)"
  by (auto simp: preserves_def oper_defs split: sum.splits option.splits)

lemma preserves_writeS [preserving]: "(\<And>s. f (w s) = f s) \<Longrightarrow> preserves f (writeS w)"
  by (simp add: preserves_def writeS_def)

lemma preserves_bindS [preserving]:
  "preserves f m \<Longrightarrow> (\<And>a. preserves f (g a)) \<Longrightarrow> preserves f (bindS m g)"
  by (auto simp: preserves_def bindS_def split: prod.splits sum.splits) (metis snd_conv)+

lemma preserves_seqS [preserving]: "preserves f m \<Longrightarrow> preserves f n \<Longrightarrow> preserves f (seqS m n)"
  unfolding seqS_def by (rule preserves_bindS)

lemma preserves_cases [preserving]:
  "(x = None \<Longrightarrow> preserves f n) \<Longrightarrow> (\<And>a. x = Some a \<Longrightarrow> preserves f (g a)) \<Longrightarrow>
   preserves f (case x of None \<Rightarrow> n | Some a \<Rightarrow> g a)"
  "(b \<Longrightarrow> preserves f m) \<Longrightarrow> (\<not> b \<Longrightarrow> preserves f n) \<Longrightarrow> preserves f (if b then m else n)"
  "(\<And>x y. p = (x, y) \<Longrightarrow> preserves f (h x y)) \<Longrightarrow> preserves f (case p of (x, y) \<Rightarrow> h x y)"
  by (auto split: option.split prod.split)

lemma preserves_Let [preserving]: "(\<And>y. preserves f (g y)) \<Longrightarrow> preserves f (Let y g)"
  by simp

text \<open>An operation whose result state is related to the state it started in.\<close>

definition follows :: "('s \<Rightarrow> 's \<Rightarrow> bool) \<Rightarrow> ('s, 'e, 'a) oper \<Rightarrow> bool" where
  "follows R m \<longleftrightarrow> (\<forall>s. R s (snd (m s)))"

named_theorems following

lemma followsI: "(\<And>s r s'. m s = (r, s') \<Longrightarrow> R s s') \<Longrightarrow> follows R m"
  unfolding follows_def by (metis prod.collapse)

lemma followsD: "follows R m \<Longrightarrow> m s = (r, s') \<Longrightarrow> R s s'"
  unfolding follows_def by (metis snd_conv)

lemma follows_basic [following]:
  "reflp R \<Longrightarrow> follows R (returnS a)" "reflp R \<Longrightarrow> follows R (raiseS e)" "reflp R \<Longrightarrow> follows R (readS g)"
  "reflp R \<Longrightarrow> follows R (liftS r)" "reflp R \<Longrightarrow> follows R (requireS e x)"
  by (auto simp: follows_def oper_defs reflp_def split: sum.splits option.splits)

lemma follows_writeS [following]: "(\<And>s. R s (w s)) \<Longrightarrow> follows R (writeS w)"
  by (simp add: follows_def writeS_def)

lemma follows_bindS [following]:
  assumes "transp R" and "follows R m" and "\<And>a. follows R (g a)"
  shows "follows R (bindS m g)"
proof (rule followsI)
  fix s r s' assume "bindS m g s = (r, s')"
  then show "R s s'"
    using followsD [OF assms(2), of s] followsD [OF assms(3)] transpD [OF assms(1)]
    by (auto simp: bindS_def split: prod.splits sum.splits)
qed

lemma follows_seqS [following]: "transp R \<Longrightarrow> follows R m \<Longrightarrow> follows R n \<Longrightarrow> follows R (seqS m n)"
  unfolding seqS_def by (rule follows_bindS)

lemma follows_cases [following]:
  "(x = None \<Longrightarrow> follows R n) \<Longrightarrow> (\<And>a. x = Some a \<Longrightarrow> follows R (g a)) \<Longrightarrow>
   follows R (case x of None \<Rightarrow> n | Some a \<Rightarrow> g a)"
  "(b \<Longrightarrow> follows R m) \<Longrightarrow> (\<not> b \<Longrightarrow> follows R n) \<Longrightarrow> follows R (if b then m else n)"
  "(\<And>x y. p = (x, y) \<Longrightarrow> follows R (h x y)) \<Longrightarrow> follows R (case p of (x, y) \<Rightarrow> h x y)"
  by (auto split: option.split prod.split)

lemma follows_Let [following]: "(\<And>y. follows R (g y)) \<Longrightarrow> follows R (Let y g)"
  by simp

lemma follows_preserves: "preserves f m \<Longrightarrow> (\<And>s s'. f s' = f s \<Longrightarrow> R s s') \<Longrightarrow> follows R m"
  by (auto simp: preserves_def follows_def)

text \<open>A sequence of state changes none of which can raise, in order.\<close>

definition writesS :: "('s \<Rightarrow> 's) list \<Rightarrow> ('s, 'e, unit) oper" where
  "writesS ws s = (Inr (), fold (\<lambda>w t. w t) ws s)"

lemma seqS_writesS [simp]: "seqS (writesS ws) n s = n (fold (\<lambda>w t. w t) ws s)"
  by (simp add: seqS_def bindS_def writesS_def)

text \<open>The same for operations that may raise.\<close>

fun stepsS :: "('s, 'e, unit) oper list \<Rightarrow> ('s, 'e, unit) oper" where
  "stepsS [] = returnS ()"
| "stepsS (m # ms) = seqS m (stepsS ms)"

declare stepsS.simps [simp del]

lemma seqS_stepsS [simp]:
  "seqS (stepsS []) n = n"
  "seqS (stepsS (m # ms)) n = seqS m (seqS (stepsS ms) n)"
  by (auto simp: stepsS.simps seqS_def bindS_def returnS_def fun_eq_iff split: prod.splits sum.splits)

text \<open>
  A database transaction: an exception leaves the state as it was before the operation.
\<close>

definition transaction :: "('s, 'e, 'a) oper \<Rightarrow> ('s, 'e, 'a) oper" where
  "transaction m s = (case m s of (Inl e, _) \<Rightarrow> (Inl e, s) | (Inr a, s') \<Rightarrow> (Inr a, s'))"

lemma transaction_Inl [simp]:
  "transaction m s = (Inl e, s') \<longleftrightarrow> s' = s \<and> (\<exists>t. m s = (Inl e, t))"
  by (auto simp: transaction_def split: prod.splits sum.splits)

lemma transaction_Inr [simp]: "transaction m s = (Inr a, s') \<longleftrightarrow> m s = (Inr a, s')"
  by (auto simp: transaction_def split: prod.splits sum.splits)

text \<open>
  \<open>try: m except BaseException: cleanup; raise\<close>, and \<open>except E as error: raise other\<close>.
\<close>

definition on_errorS :: "('s, 'e, 'a) oper \<Rightarrow> ('s, 'e, unit) oper \<Rightarrow> ('s, 'e, 'a) oper" where
  "on_errorS m cleanup s =
     (case m s of
        (Inr a, s') \<Rightarrow> (Inr a, s')
      | (Inl e, s') \<Rightarrow> (case cleanup s' of (Inl e', s'') \<Rightarrow> (Inl e', s'') | (Inr _, s'') \<Rightarrow> (Inl e, s'')))"

definition map_errorS :: "('e \<Rightarrow> 'e) \<Rightarrow> ('s, 'e, 'a) oper \<Rightarrow> ('s, 'e, 'a) oper" where
  "map_errorS f m s = (case m s of (Inl e, s') \<Rightarrow> (Inl (f e), s') | (Inr a, s') \<Rightarrow> (Inr a, s'))"

lemma on_errorS_Inr: "on_errorS m c s = (Inr a, s') \<longleftrightarrow> m s = (Inr a, s')"
  by (auto simp: on_errorS_def split: prod.splits sum.splits)

lemma map_errorS_Inr: "map_errorS f m s = (Inr a, s') \<longleftrightarrow> m s = (Inr a, s')"
  by (auto simp: map_errorS_def split: prod.splits sum.splits)

lemma preserves_map_errorS [preserving]: "preserves f m \<Longrightarrow> preserves f (map_errorS g m)"
  by (auto simp: preserves_def map_errorS_def split: prod.splits sum.splits) (metis snd_conv)+

lemma preserves_on_errorS [preserving]:
  "preserves f m \<Longrightarrow> preserves f c \<Longrightarrow> preserves f (on_errorS m c)"
  by (auto simp: preserves_def on_errorS_def split: prod.splits sum.splits) (metis snd_conv)+

lemma follows_map_errorS [following]: "follows R m \<Longrightarrow> follows R (map_errorS g m)"
  by (auto simp: follows_def map_errorS_def split: prod.splits sum.splits) (metis snd_conv)+

lemma follows_on_errorS [following]:
  assumes "transp R" and "follows R m" and "follows R c"
  shows "follows R (on_errorS m c)"
proof (rule followsI)
  fix s r s' assume "on_errorS m c s = (r, s')"
  then show "R s s'"
    using followsD [OF assms(2), of s] followsD [OF assms(3)] transpD [OF assms(1)]
    by (auto simp: on_errorS_def split: prod.splits sum.splits)
qed

text \<open>\<open>try: m finally: c\<close>: an exception of the cleanup replaces the outcome of \<open>m\<close>.\<close>

definition finallyS :: "('s, 'e, 'a) oper \<Rightarrow> ('s, 'e, unit) oper \<Rightarrow> ('s, 'e, 'a) oper" where
  "finallyS m c s =
     (case m s of (r, s') \<Rightarrow> (case c s' of (Inl e, s'') \<Rightarrow> (Inl e, s'') | (Inr _, s'') \<Rightarrow> (r, s'')))"

lemma finallyS_Inr_iff:
  "finallyS m c s = (Inr a, s') \<longleftrightarrow> (\<exists>t. m s = (Inr a, t) \<and> c t = (Inr (), s'))"
  by (auto simp: finallyS_def split: prod.splits sum.splits)

lemma preserves_finallyS [preserving]:
  "preserves f m \<Longrightarrow> preserves f c \<Longrightarrow> preserves f (finallyS m c)"
  by (auto simp: preserves_def finallyS_def split: prod.splits sum.splits) (metis snd_conv)+

lemma follows_finallyS [following]:
  assumes "transp R" and "follows R m" and "follows R c"
  shows "follows R (finallyS m c)"
proof (rule followsI)
  fix s r s' assume "finallyS m c s = (r, s')"
  then show "R s s'"
    using followsD [OF assms(2), of s] followsD [OF assms(3)] transpD [OF assms(1)]
    by (auto simp: finallyS_def split: prod.splits sum.splits)
qed

section \<open>JSON documents\<close>

text \<open>
  What \<open>json.loads\<close> returns and \<open>dict[str, Any]\<close> holds. A finite Python float is the
  rational number it denotes; the non-finite floats are not represented.
\<close>

datatype json =
    JNull
  | JBool bool
  | JInt int
  | JFloat rat
  | JStr string
  | JList "json list"
  | JObj "(string \<times> json) list"

text \<open>Python truth value testing, \<open>bool(value)\<close>, and \<open>dict.get(key)\<close> (\<open>None\<close> when absent).\<close>

fun truthy :: "json \<Rightarrow> bool" where
  "truthy JNull = False"
| "truthy (JBool b) = b"
| "truthy (JInt i) = (i \<noteq> 0)"
| "truthy (JFloat q) = (q \<noteq> 0)"
| "truthy (JStr s) = (s \<noteq> [])"
| "truthy (JList xs) = (xs \<noteq> [])"
| "truthy (JObj kvs) = (kvs \<noteq> [])"

definition obj_get :: "(string \<times> json) list \<Rightarrow> string \<Rightarrow> json" where
  "obj_get kvs k = (case map_of kvs k of None \<Rightarrow> JNull | Some v \<Rightarrow> v)"

definition obj_get_default :: "(string \<times> json) list \<Rightarrow> string \<Rightarrow> json \<Rightarrow> json" where
  "obj_get_default kvs k d = (case map_of kvs k of None \<Rightarrow> d | Some v \<Rightarrow> v)"

text \<open>
  \<open>int(value)\<close> of a decoded JSON value: \<open>None\<close> where Python raises. A float is truncated
  towards zero; a string is read as Python reads a decimal literal, with surrounding space, a
  sign and single underscores between digits.
\<close>

definition digit_value :: "char \<Rightarrow> nat option" where
  "digit_value c = (let n = (of_char c :: nat) in if 48 \<le> n \<and> n \<le> 57 then Some (n - 48) else None)"

fun read_digits :: "nat \<Rightarrow> string \<Rightarrow> nat option" where
  "read_digits acc [] = Some acc"
| "read_digits acc (c # cs) =
     (case digit_value c of
        Some d \<Rightarrow> read_digits (10 * acc + d) cs
      | None \<Rightarrow>
          if c = CHR ''_'' then
            (case cs of [] \<Rightarrow> None
             | c' # cs' \<Rightarrow> (case digit_value c' of None \<Rightarrow> None | Some _ \<Rightarrow> read_digits acc cs))
          else None)"

definition read_nat :: "string \<Rightarrow> nat option" where
  "read_nat s =
     (case s of [] \<Rightarrow> None
      | c # cs \<Rightarrow> (case digit_value c of None \<Rightarrow> None | Some d \<Rightarrow> read_digits d cs))"

definition py_int_str :: "string \<Rightarrow> int option" where
  "py_int_str s =
     (case strip s of
        [] \<Rightarrow> None
      | c # cs \<Rightarrow>
          if c = CHR ''-'' then map_option (\<lambda>n. - int n) (read_nat cs)
          else if c = CHR ''+'' then map_option int (read_nat cs)
          else map_option int (read_nat (c # cs)))"

definition py_int :: "json \<Rightarrow> int option" where
  "py_int j =
     (case j of
        JInt i \<Rightarrow> Some i
      | JBool b \<Rightarrow> Some (if b then 1 else 0)
      | JFloat q \<Rightarrow> Some (if q < 0 then \<lceil>q\<rceil> else \<lfloor>q\<rfloor>)
      | JStr s \<Rightarrow> py_int_str s
      | _ \<Rightarrow> None)"

text \<open>
  \<open>str(value)\<close> of a decoded JSON value; how floats and containers are printed is a parameter.
\<close>

definition py_str :: "(json \<Rightarrow> string) \<Rightarrow> json \<Rightarrow> string" where
  "py_str rp j =
     (case j of
        JStr s \<Rightarrow> s
      | JInt i \<Rightarrow> str_int i
      | JBool b \<Rightarrow> (if b then ''True'' else ''False'')
      | JNull \<Rightarrow> ''None''
      | _ \<Rightarrow> rp j)"

text \<open>
  \<open>UUID(text)\<close>: \<open>urn:\<close> and \<open>uuid:\<close> are removed everywhere, braces at the ends, all hyphens,
  and 32 hexadecimal digits must be left (what else \<open>int(text, 16)\<close> would read, underscores,
  signs and spaces, is refused here). \<open>None\<close> where Python raises \<open>ValueError\<close>.
\<close>

definition hex_value :: "char \<Rightarrow> nat option" where
  "hex_value c =
     (let n = (of_char c :: nat) in
      if 48 \<le> n \<and> n \<le> 57 then Some (n - 48)
      else if 97 \<le> n \<and> n \<le> 102 then Some (n - 87)
      else if 65 \<le> n \<and> n \<le> 70 then Some (n - 55) else None)"

fun read_hex :: "nat \<Rightarrow> string \<Rightarrow> nat option" where
  "read_hex acc [] = Some acc"
| "read_hex acc (c # cs) =
     (case hex_value c of None \<Rightarrow> None | Some d \<Rightarrow> read_hex (16 * acc + d) cs)"

function remove_all :: "string \<Rightarrow> string \<Rightarrow> string" where
  "remove_all p s =
     (case s of [] \<Rightarrow> []
      | c # cs \<Rightarrow> if p \<noteq> [] \<and> startswith s p then remove_all p (drop (length p) s)
                 else c # remove_all p cs)"
  by pat_completeness auto
termination
  by (relation "measure (\<lambda>(p, s). length s)") (auto simp: length_greater_0_conv [symmetric] simp del: length_greater_0_conv)

declare remove_all.simps [simp del]

definition is_brace :: "char \<Rightarrow> bool" where
  "is_brace c = (c = CHR ''{'' \<or> c = CHR ''}'')"

definition uuid_of_str :: "string \<Rightarrow> uuid option" where
  "uuid_of_str s =
     (let t = remove_all ''uuid:'' (remove_all ''urn:'' s);
          h = filter (\<lambda>c. c \<noteq> CHR ''-'')
                (rev (dropWhile is_brace (rev (dropWhile is_brace t)))) in
      if length h \<noteq> 32 then None else map_option word_of_nat (read_hex 0 h))"

text \<open>Reading back what \<open>str_uuid\<close> writes.\<close>

lemma remove_all_absent: "p \<noteq> [] \<Longrightarrow> hd p \<notin> set s \<Longrightarrow> remove_all p s = s"
proof (induction s)
  case Nil
  then show ?case by (simp add: remove_all.simps)
next
  case (Cons c cs)
  then have "\<not> startswith (c # cs) p" by (cases p) (auto simp: startswith_def)
  then show ?case using Cons by (simp add: remove_all.simps [of p "c # cs"])
qed

lemma hex_value_digit_char: "n < 16 \<Longrightarrow> hex_value (digit_char n) = Some n"
  by (auto simp: hex_value_def digit_char_def Let_def take_bit_eq_mod)

lemma hex_digits: "c \<in> set (hexn n x) \<Longrightarrow> hex_value c \<noteq> None"
  by (induction n arbitrary: x) (auto simp: hex_value_digit_char)

lemma read_hex_append:
  "read_hex acc (s @ t) = (case read_hex acc s of None \<Rightarrow> None | Some a \<Rightarrow> read_hex a t)"
  by (induction s arbitrary: acc) (auto split: option.splits)

lemma read_hex_hexn: "read_hex acc (hexn n x) = Some (acc * 16 ^ n + x mod 16 ^ n)"
proof (induction n arbitrary: x)
  case 0
  then show ?case by simp
next
  case (Suc n)
  have "x mod 16 ^ Suc n = 16 * (x div 16 mod 16 ^ n) + x mod 16"
    by (simp add: mod_mult2_eq mult.commute)
  then show ?case by (simp add: Suc read_hex_append hex_value_digit_char algebra_simps)
qed

lemma uuid_of_str_uuid [simp]: "uuid_of_str (str_uuid u) = Some u"
proof -
  let ?h = "hexn 32 (unat u)"
  have hex: "hex_value c \<noteq> None" if "c \<in> set (take i (drop j ?h))" for c i j
    using that hex_digits [of c 32 "unat u"] by (meson in_set_dropD in_set_takeD)
  have notin: "c \<notin> set (take i (drop j ?h))" if "hex_value c = None" for c i j
    using hex [of c i j] that by blast
  have str: "str_uuid u = take 8 (drop 0 ?h) @ ''-'' @ take 4 (drop 8 ?h) @ ''-'' @ take 4 (drop 12 ?h)
      @ ''-'' @ take 4 (drop 16 ?h) @ ''-'' @ take 12 (drop 20 ?h)"
    by (simp add: str_uuid_def Let_def)
  have absent: "c \<notin> set (str_uuid u)" if "hex_value c = None" "c \<noteq> CHR ''-''" for c
    unfolding str
    using notin [OF that(1), of 8 0] notin [OF that(1), of 12 20] notin [OF that(1)] that(2) by simp
  have t: "remove_all ''uuid:'' (remove_all ''urn:'' (str_uuid u)) = str_uuid u"
    using absent [of "CHR ''u''"] by (simp add: remove_all_absent hex_value_def)
  have nb: "\<not> is_brace c" if "c \<in> set (str_uuid u)" for c
    using that absent [of "CHR ''{''"] absent [of "CHR ''}''"]
    by (auto simp: is_brace_def hex_value_def)
  have id: "dropWhile is_brace xs = xs" if "\<And>c. c \<in> set xs \<Longrightarrow> \<not> is_brace c" for xs
    using that by (cases xs) auto
  have keep: "filter (\<lambda>c. c \<noteq> CHR ''-'') (take i (drop j ?h)) = take i (drop j ?h)" for i j
    using notin [of "CHR ''-''" i j] by (intro filter_True) (auto simp: hex_value_def)
  have split: "take 8 xs @ take 4 (drop 8 xs) @ take 4 (drop 12 xs) @ take 4 (drop 16 xs) @ drop 20 xs = xs"
    for xs :: string
    using append_take_drop_id [of 4 "drop 16 xs"] append_take_drop_id [of 4 "drop 12 xs"]
      append_take_drop_id [of 4 "drop 8 xs"] append_take_drop_id [of 8 xs] by simp
  have "filter (\<lambda>c. c \<noteq> CHR ''-'') (str_uuid u) = ?h"
    unfolding str filter_append keep using split [of ?h] by simp
  moreover have "dropWhile is_brace (str_uuid u) = str_uuid u"
    "dropWhile is_brace (rev (str_uuid u)) = rev (str_uuid u)"
    by (rule id; use nb in auto)+
  ultimately show ?thesis
    using unsigned_less [of u, where ?'a = nat]
    by (simp add: uuid_of_str_def t read_hex_hexn)
qed

end
