(* ===== verification/Contracts.thy ===== *)
theory Contracts
  imports Prelude
begin

text \<open>
  \<open>packages/python_common\<close>: the contract models every service exchanges
  (\<open>contracts.py\<close>: secret references, external references, event envelopes, with the
  pydantic field constraints as the conditions under which a value can be built) and the
  redaction of structured log context (\<open>logging.py\<close>).
\<close>

section \<open>Contract models\<close>

text \<open>
  \<open>Field(min_length=a, max_length=b)\<close> on a string; \<open>None\<close> passes an optional field.
\<close>

definition field_length :: "nat \<Rightarrow> nat \<Rightarrow> string \<Rightarrow> bool" where
  "field_length lo hi s \<longleftrightarrow> lo \<le> length s \<and> length s \<le> hi"

definition optional_length :: "nat \<Rightarrow> string option \<Rightarrow> bool" where
  "optional_length hi v = (case v of None \<Rightarrow> True | Some s \<Rightarrow> length s \<le> hi)"

record secret_reference =
  sr_store :: string
  sr_namespace :: string
  sr_key :: string
  sr_version :: "string option"

text \<open>The validator \<open>reject_secret_values\<close>: an identifier holds no \<open>=\<close> and no newline.\<close>

definition reject_secret_values :: "string \<Rightarrow> string + string" where
  "reject_secret_values value =
     (if CHR ''='' \<in> set value \<or> CHR 0x0A \<in> set value
      then Inl ''secret references must contain identifiers, not values''
      else Inr value)"

definition SecretReference ::
  "string \<Rightarrow> string \<Rightarrow> string \<Rightarrow> string option \<Rightarrow> string + secret_reference" where
  "SecretReference store namespace key version =
     (if \<not> field_length 1 64 store \<or> \<not> field_length 1 128 namespace \<or>
         \<not> field_length 1 256 key \<or> \<not> optional_length 128 version
      then Inl ''validation error''
      else (case reject_secret_values store of Inl e \<Rightarrow> Inl e | Inr store' \<Rightarrow>
           (case reject_secret_values namespace of Inl e \<Rightarrow> Inl e | Inr namespace' \<Rightarrow>
           (case reject_secret_values key of Inl e \<Rightarrow> Inl e | Inr key' \<Rightarrow>
              Inr \<lparr>sr_store = store', sr_namespace = namespace', sr_key = key',
                   sr_version = version\<rparr>))))"

record external_reference =
  xr_provider :: string
  xr_account_id :: string
  xr_repository :: "string option"
  xr_resource_type :: string
  xr_external_id :: string

definition ExternalReference ::
  "string \<Rightarrow> string \<Rightarrow> string option \<Rightarrow> string \<Rightarrow> string \<Rightarrow> string + external_reference" where
  "ExternalReference provider account_id repository resource_type external_id =
     (if field_length 1 64 provider \<and> field_length 1 256 account_id \<and>
         optional_length 512 repository \<and> field_length 1 64 resource_type \<and>
         field_length 1 512 external_id
      then Inr \<lparr>xr_provider = provider, xr_account_id = account_id, xr_repository = repository,
                xr_resource_type = resource_type, xr_external_id = external_id\<rparr>
      else Inl ''validation error'')"

record event_envelope =
  ev_specversion :: string
  ev_id :: uuid
  ev_source :: string
  ev_type :: string
  ev_time :: time
  ev_subject :: string
  ev_organization_id :: uuid
  ev_aggregate_version :: int
  ev_correlation_id :: uuid
  ev_causation_id :: "uuid option"
  ev_traceparent :: "string option"
  ev_data :: "(string \<times> json) list"

text \<open>
  An envelope built with the defaults of \<open>specversion\<close>, \<open>time\<close> (the clock's \<open>now\<close>),
  \<open>causation_id\<close> and \<open>traceparent\<close>; the aggregate version must be at least one.
\<close>

definition EventEnvelope ::
  "time \<Rightarrow> uuid \<Rightarrow> string \<Rightarrow> string \<Rightarrow> string \<Rightarrow> uuid \<Rightarrow> int \<Rightarrow> uuid \<Rightarrow>
     (string \<times> json) list \<Rightarrow> string + event_envelope" where
  "EventEnvelope now eid source etype subject org aggregate_version correlation_id data =
     (if aggregate_version < 1 then Inl ''validation error''
      else Inr \<lparr>ev_specversion = ''1.0'', ev_id = eid, ev_source = source, ev_type = etype,
                ev_time = now, ev_subject = subject, ev_organization_id = org,
                ev_aggregate_version = aggregate_version, ev_correlation_id = correlation_id,
                ev_causation_id = None, ev_traceparent = None, ev_data = data\<rparr>)"

definition wf_secret_reference :: "secret_reference \<Rightarrow> bool" where
  "wf_secret_reference r \<longleftrightarrow>
     (\<forall>s \<in> {sr_store r, sr_namespace r, sr_key r}.
        s \<noteq> [] \<and> length s \<le> 256 \<and> CHR ''='' \<notin> set s \<and> CHR 0x0A \<notin> set s)"

lemma SecretReference_InrD:
  "SecretReference a b c v = Inr r \<Longrightarrow>
     wf_secret_reference r \<and> sr_store r = a \<and> sr_namespace r = b \<and> sr_key r = c \<and> sr_version r = v"
  by (auto simp: SecretReference_def reject_secret_values_def wf_secret_reference_def
      field_length_def split: if_splits)

text \<open>\<open>model_dump()\<close> of a secret reference, and reading one back from a JSON object.\<close>

definition opt_str :: "string option \<Rightarrow> json" where
  "opt_str v = (case v of None \<Rightarrow> JNull | Some s \<Rightarrow> JStr s)"

definition dump_secret_reference :: "secret_reference \<Rightarrow> json" where
  "dump_secret_reference r =
     JObj [(''store'', JStr (sr_store r)), (''namespace'', JStr (sr_namespace r)),
           (''key'', JStr (sr_key r)), (''version'', opt_str (sr_version r))]"

definition dump_external_reference :: "external_reference \<Rightarrow> json" where
  "dump_external_reference r =
     JObj [(''provider'', JStr (xr_provider r)), (''account_id'', JStr (xr_account_id r)),
           (''repository'', opt_str (xr_repository r)),
           (''resource_type'', JStr (xr_resource_type r)),
           (''external_id'', JStr (xr_external_id r))]"

text \<open>
  \<open>Model(**document)\<close>: every required field a string, an optional one a string or null, and
  no other key (\<open>extra="forbid"\<close>).
\<close>

definition str_field :: "(string \<times> json) list \<Rightarrow> string \<Rightarrow> string option" where
  "str_field kvs k = (case map_of kvs k of Some (JStr s) \<Rightarrow> Some s | _ \<Rightarrow> None)"

definition opt_str_field :: "(string \<times> json) list \<Rightarrow> string \<Rightarrow> string option option" where
  "opt_str_field kvs k =
     (case map_of kvs k of
        None \<Rightarrow> Some None
      | Some JNull \<Rightarrow> Some None
      | Some (JStr s) \<Rightarrow> Some (Some s)
      | _ \<Rightarrow> None)"

definition secret_reference_of_json :: "json \<Rightarrow> string + secret_reference" where
  "secret_reference_of_json j =
     (case j of
        JObj kvs \<Rightarrow>
          if \<not> set (map fst kvs) \<subseteq> {''store'', ''namespace'', ''key'', ''version''}
          then Inl ''validation error''
          else (case (str_field kvs ''store'', str_field kvs ''namespace'', str_field kvs ''key'',
                      opt_str_field kvs ''version'') of
                  (Some a, Some b, Some c, Some v) \<Rightarrow> SecretReference a b c v
                | _ \<Rightarrow> Inl ''validation error'')
      | _ \<Rightarrow> Inl ''argument after ** must be a mapping'')"

definition external_reference_of_json :: "json \<Rightarrow> string + external_reference" where
  "external_reference_of_json j =
     (case j of
        JObj kvs \<Rightarrow>
          if \<not> set (map fst kvs)
               \<subseteq> {''provider'', ''account_id'', ''repository'', ''resource_type'', ''external_id''}
          then Inl ''validation error''
          else (case (str_field kvs ''provider'', str_field kvs ''account_id'',
                      opt_str_field kvs ''repository'', str_field kvs ''resource_type'',
                      str_field kvs ''external_id'') of
                  (Some a, Some b, Some c, Some d, Some e) \<Rightarrow> ExternalReference a b c d e
                | _ \<Rightarrow> Inl ''validation error'')
      | _ \<Rightarrow> Inl ''argument after ** must be a mapping'')"

definition valid_secret_reference :: "secret_reference \<Rightarrow> bool" where
  "valid_secret_reference r \<longleftrightarrow>
     SecretReference (sr_store r) (sr_namespace r) (sr_key r) (sr_version r) = Inr r"

definition valid_external_reference :: "external_reference \<Rightarrow> bool" where
  "valid_external_reference r \<longleftrightarrow>
     ExternalReference (xr_provider r) (xr_account_id r) (xr_repository r) (xr_resource_type r)
       (xr_external_id r) = Inr r"

lemma truthy_dump [simp]:
  "truthy (dump_secret_reference r)" "truthy (dump_external_reference x)"
  by (simp_all add: dump_secret_reference_def dump_external_reference_def)

lemma reference_roundtrip:
  "valid_secret_reference r \<Longrightarrow> secret_reference_of_json (dump_secret_reference r) = Inr r"
  "valid_external_reference x \<Longrightarrow> external_reference_of_json (dump_external_reference x) = Inr x"
  by (auto simp: secret_reference_of_json_def dump_secret_reference_def str_field_def opt_str_def
      opt_str_field_def valid_secret_reference_def external_reference_of_json_def
      dump_external_reference_def valid_external_reference_def split: option.splits)

lemma SecretReference_valid: "SecretReference a b c v = Inr r \<Longrightarrow> valid_secret_reference r"
  by (auto simp: SecretReference_def valid_secret_reference_def reject_secret_values_def
      split: if_splits)

lemma ExternalReference_valid: "ExternalReference a b c d e = Inr r \<Longrightarrow> valid_external_reference r"
  by (auto simp: ExternalReference_def valid_external_reference_def split: if_splits)

section \<open>Redaction of log context\<close>

definition SENSITIVE_KEYS :: "string list" where
  "SENSITIVE_KEYS =
     [''authorization'', ''cookie'', ''password'', ''private_key'', ''secret'', ''token'']"

definition is_sensitive :: "string \<Rightarrow> bool" where
  "is_sensitive key = (\<exists>term \<in> set SENSITIVE_KEYS. contains_str term (lower key))"

definition REDACTED :: json where
  "REDACTED = JStr ''[REDACTED]''"

lemma size_snd_in_obj [termination_simp]:
  "p \<in> set kvs \<Longrightarrow> size (snd p) < Suc (size_list (size_prod (\<lambda>_. 0) size) kvs)"
  by (induction kvs) auto

function (sequential) redact :: "json \<Rightarrow> json" where
  "redact (JObj kvs) =
     JObj (map (\<lambda>p. (fst p, if is_sensitive (fst p) then REDACTED else redact (snd p))) kvs)"
| "redact (JList xs) = JList (map redact xs)"
| "redact v = v"
  by pat_completeness auto
termination
  by (relation "measure size") (auto simp: size_snd_in_obj size_list_estimation' less_Suc_eq_le)

text \<open>
  What redaction promises: below the document, no object holds anything but the marker
  under a sensitive key.
\<close>

function (sequential) no_secrets :: "json \<Rightarrow> bool" where
  "no_secrets (JObj kvs) =
     list_all (\<lambda>p. if is_sensitive (fst p) then snd p = REDACTED else no_secrets (snd p)) kvs"
| "no_secrets (JList xs) = list_all no_secrets xs"
| "no_secrets v = True"
  by pat_completeness auto
termination
  by (relation "measure size") (auto simp: size_snd_in_obj size_list_estimation' less_Suc_eq_le)

lemma no_secrets_redact: "no_secrets (redact j)"
  by (induction j rule: redact.induct) (auto simp: list_all_iff)

lemma redact_fixpoint: "no_secrets j \<Longrightarrow> redact j = j"
  by (induction j rule: redact.induct)
     (auto simp: list_all_iff map_idI prod_eq_iff intro!: map_idI split: if_splits)

end
