(* ===== verification/CpDomain.thy ===== *)
theory CpDomain
  imports Contracts
begin

text \<open>
  \<open>services/control_plane/.../domain\<close>: the aggregates of the control plane
  (\<open>models.py\<close>), its errors (\<open>errors.py\<close>) and its role checks (\<open>permissions.py\<close>).
  A method that mutates its object is a function from the old value to the new one, or to
  the exception it raises.
\<close>

section \<open>Errors\<close>

datatype domain_error =
    InvalidTransition string
  | PermissionDenied string
  | NotFound string
  | Conflict string

fun error_code :: "domain_error \<Rightarrow> string" where
  "error_code (InvalidTransition _) = ''invalid_transition''"
| "error_code (PermissionDenied _) = ''permission_denied''"
| "error_code (NotFound _) = ''not_found''"
| "error_code (Conflict _) = ''conflict''"

section \<open>Enumerations\<close>

datatype role = OWNER | ADMIN | DEVELOPER | REVIEWER | CLIENT

fun role_value :: "role \<Rightarrow> string" where
  "role_value OWNER = ''OWNER''"
| "role_value ADMIN = ''ADMIN''"
| "role_value DEVELOPER = ''DEVELOPER''"
| "role_value REVIEWER = ''REVIEWER''"
| "role_value CLIENT = ''CLIENT''"

datatype intake_status =
    IS_RECEIVED | IS_CLARIFICATION_REQUIRED | IS_SPECIFICATION_DRAFTED
  | IS_AWAITING_APPROVAL | IS_SPECIFICATION_APPROVED

fun intake_status_value :: "intake_status \<Rightarrow> string" where
  "intake_status_value IS_RECEIVED = ''INTAKE_RECEIVED''"
| "intake_status_value IS_CLARIFICATION_REQUIRED = ''CLARIFICATION_REQUIRED''"
| "intake_status_value IS_SPECIFICATION_DRAFTED = ''SPECIFICATION_DRAFTED''"
| "intake_status_value IS_AWAITING_APPROVAL = ''AWAITING_APPROVAL''"
| "intake_status_value IS_SPECIFICATION_APPROVED = ''SPECIFICATION_APPROVED''"

datatype specification_status = SS_DRAFT | SS_AWAITING_APPROVAL | SS_APPROVED | SS_SUPERSEDED

fun specification_status_value :: "specification_status \<Rightarrow> string" where
  "specification_status_value SS_DRAFT = ''DRAFT''"
| "specification_status_value SS_AWAITING_APPROVAL = ''AWAITING_APPROVAL''"
| "specification_status_value SS_APPROVED = ''APPROVED''"
| "specification_status_value SS_SUPERSEDED = ''SUPERSEDED''"

datatype work_item_status =
    WS_IN_REVIEW | WS_REVIEWED | WS_READY | WS_BUILDING | WS_VERIFICATION
  | WS_DELIVERED | WS_FAILED | WS_AWAITING_HUMAN

fun work_item_status_value :: "work_item_status \<Rightarrow> string" where
  "work_item_status_value WS_IN_REVIEW = ''WORK_ITEMS_GENERATED''"
| "work_item_status_value WS_REVIEWED = ''WORK_ITEMS_REVIEWED''"
| "work_item_status_value WS_READY = ''READY_FOR_EXECUTION''"
| "work_item_status_value WS_BUILDING = ''BUILDING''"
| "work_item_status_value WS_VERIFICATION = ''VERIFICATION''"
| "work_item_status_value WS_DELIVERED = ''DELIVERED''"
| "work_item_status_value WS_FAILED = ''FAILED''"
| "work_item_status_value WS_AWAITING_HUMAN = ''AWAITING_HUMAN''"

section \<open>Aggregates\<close>

record organization =
  og_id :: uuid
  og_name :: string
  og_created_at :: time

record project =
  pj_id :: uuid
  pj_organization_id :: uuid
  pj_name :: string
  pj_description :: string
  pj_execution_approval_required :: bool
  pj_created_at :: time

record intake_request =
  ik_id :: uuid
  ik_organization_id :: uuid
  ik_project_id :: uuid
  ik_client_id :: "uuid option"
  ik_submitted_by :: string
  ik_problem :: string
  ik_intended_users :: string
  ik_required_functionality :: "string list"
  ik_exclusions :: "string list"
  ik_constraints :: "string list"
  ik_status :: intake_status
  ik_created_at :: time

definition mark_specification_drafted :: "intake_request \<Rightarrow> domain_error + intake_request" where
  "mark_specification_drafted i =
     (if ik_status i \<notin> {IS_RECEIVED, IS_CLARIFICATION_REQUIRED}
      then Inl (InvalidTransition
             (''cannot draft specification from '' @ intake_status_value (ik_status i)))
      else Inr (i\<lparr>ik_status := IS_SPECIFICATION_DRAFTED\<rparr>))"

definition mark_awaiting_approval :: "intake_request \<Rightarrow> domain_error + intake_request" where
  "mark_awaiting_approval i =
     (if ik_status i \<noteq> IS_SPECIFICATION_DRAFTED
      then Inl (InvalidTransition
             (''cannot request approval from '' @ intake_status_value (ik_status i)))
      else Inr (i\<lparr>ik_status := IS_AWAITING_APPROVAL\<rparr>))"

definition mark_approved :: "intake_request \<Rightarrow> domain_error + intake_request" where
  "mark_approved i =
     (if ik_status i \<noteq> IS_AWAITING_APPROVAL
      then Inl (InvalidTransition
             (''cannot approve intake from '' @ intake_status_value (ik_status i)))
      else Inr (i\<lparr>ik_status := IS_SPECIFICATION_APPROVED\<rparr>))"

record specification_version =
  sv_id :: uuid
  sv_specification_id :: uuid
  sv_version :: int
  sv_title :: string
  sv_problem :: string
  sv_intended_users :: string
  sv_requirements :: "string list"
  sv_exclusions :: "string list"
  sv_constraints :: "string list"
  sv_created_by :: string
  sv_created_at :: time

record specification_record =
  sp_id :: uuid
  sp_organization_id :: uuid
  sp_project_id :: uuid
  sp_intake_id :: uuid
  sp_current_version_id :: uuid
  sp_current_version :: int
  sp_status :: specification_status

definition submit_for_approval :: "specification_record \<Rightarrow> domain_error + specification_record" where
  "submit_for_approval s =
     (if sp_status s \<noteq> SS_DRAFT
      then Inl (InvalidTransition
             (''cannot submit specification from '' @ specification_status_value (sp_status s)))
      else Inr (s\<lparr>sp_status := SS_AWAITING_APPROVAL\<rparr>))"

definition specification_approve :: "specification_record \<Rightarrow> domain_error + specification_record" where
  "specification_approve s =
     (if sp_status s \<noteq> SS_AWAITING_APPROVAL
      then Inl (InvalidTransition
             (''cannot approve specification from '' @ specification_status_value (sp_status s)))
      else Inr (s\<lparr>sp_status := SS_APPROVED\<rparr>))"

record approval =
  ap_id :: uuid
  ap_organization_id :: uuid
  ap_subject_type :: string
  ap_subject_id :: uuid
  ap_subject_version :: int
  ap_decision :: string
  ap_actor_subject :: string
  ap_reason :: "string option"
  ap_created_at :: time

record budget =
  bg_max_duration_seconds :: int
  bg_max_attempts :: int
  bg_max_turns :: int
  bg_max_cost_minor :: int
  bg_currency :: string

text \<open>
  \<open>str.isupper()\<close> on the first 256 code points: at least one cased character and no
  lower-case one. The micro sign, the ordinal indicators and the sharp s are lower case.
\<close>

definition is_upper_char :: "char \<Rightarrow> bool" where
  "is_upper_char c =
     (let n = (of_char c :: nat) in (65 \<le> n \<and> n \<le> 90) \<or> (192 \<le> n \<and> n \<le> 222 \<and> n \<noteq> 215))"

definition is_lower_char :: "char \<Rightarrow> bool" where
  "is_lower_char c =
     (let n = (of_char c :: nat) in
      (97 \<le> n \<and> n \<le> 122) \<or> (223 \<le> n \<and> n \<noteq> 247) \<or> n \<in> {170, 181, 186})"

definition str_isupper :: "string \<Rightarrow> bool" where
  "str_isupper s = ((\<exists>c \<in> set s. is_upper_char c) \<and> (\<forall>c \<in> set s. \<not> is_lower_char c))"

text \<open>\<open>Budget.__post_init__\<close>: the left summand is the message of its \<open>ValueError\<close>.\<close>

definition Budget :: "int \<Rightarrow> int \<Rightarrow> int \<Rightarrow> int \<Rightarrow> string \<Rightarrow> string + budget" where
  "Budget max_duration_seconds max_attempts max_turns max_cost_minor currency =
     (if min (min max_duration_seconds max_attempts) max_turns < 1
      then Inl ''duration, attempts and turns must be positive''
      else if max_cost_minor < 0 then Inl ''cost cannot be negative''
      else if length currency \<noteq> 3 \<or> \<not> str_isupper currency
      then Inl ''currency must be a three-letter uppercase code''
      else Inr \<lparr>bg_max_duration_seconds = max_duration_seconds, bg_max_attempts = max_attempts,
                bg_max_turns = max_turns, bg_max_cost_minor = max_cost_minor,
                bg_currency = currency\<rparr>)"

definition wf_budget :: "budget \<Rightarrow> bool" where
  "wf_budget b \<longleftrightarrow>
     1 \<le> bg_max_duration_seconds b \<and> 1 \<le> bg_max_attempts b \<and> 1 \<le> bg_max_turns b \<and>
     0 \<le> bg_max_cost_minor b \<and> length (bg_currency b) = 3"

lemma Budget_wf: "Budget d a t c cur = Inr b \<Longrightarrow> wf_budget b"
  by (auto simp: Budget_def wf_budget_def split: if_splits)

record work_item =
  wi_id :: uuid
  wi_organization_id :: uuid
  wi_project_id :: uuid
  wi_specification_version_id :: uuid
  wi_title :: string
  wi_description :: string
  wi_acceptance_criteria :: "string list"
  wi_status :: work_item_status
  wi_repository_connection_id :: "uuid option"
  wi_provider_configuration_id :: "uuid option"
  wi_runner_pool_id :: "uuid option"
  wi_budget :: "budget option"
  wi_version :: int

definition mark_reviewed :: "work_item \<Rightarrow> domain_error + work_item" where
  "mark_reviewed w =
     (if wi_status w \<noteq> WS_IN_REVIEW
      then Inl (InvalidTransition
             (''cannot review work item from '' @ work_item_status_value (wi_status w)))
      else Inr (w\<lparr>wi_status := WS_REVIEWED, wi_version := wi_version w + 1\<rparr>))"

definition mark_ready ::
  "uuid \<Rightarrow> uuid \<Rightarrow> uuid \<Rightarrow> budget \<Rightarrow> work_item \<Rightarrow> domain_error + work_item" where
  "mark_ready repository_connection_id provider_configuration_id runner_pool_id b w =
     (if wi_status w \<noteq> WS_REVIEWED
      then Inl (InvalidTransition
             (''cannot ready work item from '' @ work_item_status_value (wi_status w)))
      else Inr (w\<lparr>wi_repository_connection_id := Some repository_connection_id,
                  wi_provider_configuration_id := Some provider_configuration_id,
                  wi_runner_pool_id := Some runner_pool_id,
                  wi_budget := Some b,
                  wi_status := WS_READY,
                  wi_version := wi_version w + 1\<rparr>))"

named_theorems cp_transitions

lemma mark_specification_drafted_iff [cp_transitions]:
  "mark_specification_drafted i = Inr i' \<longleftrightarrow>
     ik_status i \<in> {IS_RECEIVED, IS_CLARIFICATION_REQUIRED} \<and>
     i' = i\<lparr>ik_status := IS_SPECIFICATION_DRAFTED\<rparr>"
  by (auto simp: mark_specification_drafted_def)

lemma mark_awaiting_approval_iff [cp_transitions]:
  "mark_awaiting_approval i = Inr i' \<longleftrightarrow>
     ik_status i = IS_SPECIFICATION_DRAFTED \<and> i' = i\<lparr>ik_status := IS_AWAITING_APPROVAL\<rparr>"
  by (auto simp: mark_awaiting_approval_def)

lemma mark_approved_iff [cp_transitions]:
  "mark_approved i = Inr i' \<longleftrightarrow>
     ik_status i = IS_AWAITING_APPROVAL \<and> i' = i\<lparr>ik_status := IS_SPECIFICATION_APPROVED\<rparr>"
  by (auto simp: mark_approved_def)

lemma submit_for_approval_iff [cp_transitions]:
  "submit_for_approval s = Inr s' \<longleftrightarrow>
     sp_status s = SS_DRAFT \<and> s' = s\<lparr>sp_status := SS_AWAITING_APPROVAL\<rparr>"
  by (auto simp: submit_for_approval_def)

lemma specification_approve_iff [cp_transitions]:
  "specification_approve s = Inr s' \<longleftrightarrow>
     sp_status s = SS_AWAITING_APPROVAL \<and> s' = s\<lparr>sp_status := SS_APPROVED\<rparr>"
  by (auto simp: specification_approve_def)

lemma mark_reviewed_iff [cp_transitions]:
  "mark_reviewed w = Inr w' \<longleftrightarrow>
     wi_status w = WS_IN_REVIEW \<and> w' = w\<lparr>wi_status := WS_REVIEWED, wi_version := wi_version w + 1\<rparr>"
  by (auto simp: mark_reviewed_def)

lemma mark_ready_iff [cp_transitions]:
  "mark_ready r p q b w = Inr w' \<longleftrightarrow>
     wi_status w = WS_REVIEWED \<and>
     w' = w\<lparr>wi_repository_connection_id := Some r, wi_provider_configuration_id := Some p,
            wi_runner_pool_id := Some q, wi_budget := Some b, wi_status := WS_READY,
            wi_version := wi_version w + 1\<rparr>"
  by (auto simp: mark_ready_def)

section \<open>Permissions\<close>

definition PROJECT_EDITORS :: "role set" where
  "PROJECT_EDITORS = {OWNER, ADMIN, DEVELOPER}"

definition REVIEWERS :: "role set" where
  "REVIEWERS = {OWNER, ADMIN, REVIEWER}"

definition INTAKE_CREATORS :: "role set" where
  "INTAKE_CREATORS = PROJECT_EDITORS \<union> {CLIENT}"

definition EXECUTION_REQUESTERS :: "role set" where
  "EXECUTION_REQUESTERS = PROJECT_EDITORS \<union> {REVIEWER}"

definition require_role :: "role option \<Rightarrow> role set \<Rightarrow> domain_error + role" where
  "require_role actual allowed =
     (case actual of
        None \<Rightarrow> Inl (PermissionDenied ''the current membership cannot perform this action'')
      | Some r \<Rightarrow>
          if r \<notin> allowed
          then Inl (PermissionDenied ''the current membership cannot perform this action'')
          else Inr r)"

lemma require_role_Inr_iff: "require_role a A = Inr r \<longleftrightarrow> a = Some r \<and> r \<in> A"
  by (auto simp: require_role_def split: option.splits)

lemma require_role_Inl_iff:
  "require_role a A = Inl e \<longleftrightarrow>
     (\<forall>r. a = Some r \<longrightarrow> r \<notin> A) \<and>
     e = PermissionDenied ''the current membership cannot perform this action''"
  by (auto simp: require_role_def split: option.splits)

lemmas role_sets = PROJECT_EDITORS_def REVIEWERS_def INTAKE_CREATORS_def EXECUTION_REQUESTERS_def

end
