(* ===== verification/TenantStore.thy ===== *)
theory TenantStore
  imports Prelude
begin

text \<open>
  The lookup discipline the repositories of all three services share: an object is stored
  under its identifier, and a read names the organization it is made for, so that it finds
  the object only where the object belongs to that organization. The locale states the
  contract; the theories of the repositories interpret it on each of their stores. A
  read-modify-write made for one organization then never changes what another one reads.
\<close>

locale tenant_store =
  fixes get :: "uuid \<Rightarrow> 'k \<Rightarrow> 's \<Rightarrow> 'v option"
    and put :: "'v \<Rightarrow> 's \<Rightarrow> 's"
    and key_of :: "'v \<Rightarrow> 'k"
    and org_of :: "'v \<Rightarrow> uuid"
    and inv :: "'s \<Rightarrow> bool"
  assumes get_put: "get o' k (put v s) =
      (if key_of v = k then if org_of v = o' then Some v else None else get o' k s)"
    and get_sound: "inv s \<Longrightarrow> get o' k s = Some v \<Longrightarrow> key_of v = k \<and> org_of v = o'"
    and get_unique: "get o1 k s = Some v1 \<Longrightarrow> get o2 k s = Some v2 \<Longrightarrow> v1 = v2"
    and inv_put: "inv s \<Longrightarrow> inv (put v s)"
begin

lemma get_put_same: "get (org_of v) (key_of v) (put v s) = Some v"
  by (simp add: get_put)

lemma get_put_other_key: "key_of v \<noteq> k \<Longrightarrow> get o' k (put v s) = get o' k s"
  by (simp add: get_put)

lemma foreign_read: "inv s \<Longrightarrow> get o1 k s = Some v \<Longrightarrow> o2 \<noteq> o1 \<Longrightarrow> get o2 k s = None"
  by (metis get_sound get_unique option.exhaust)

text \<open>Writing back an object read for an organization is invisible to every other one.\<close>

lemma update_isolated:
  assumes "inv s" and "get o1 k s = Some v" and "key_of v' = k" and "org_of v' = o1" and "o2 \<noteq> o1"
  shows "get o2 k' (put v' s) = get o2 k' s"
  using assms foreign_read [OF assms(1,2)] by (auto simp: get_put)

text \<open>So is adding an object under an identifier no organization uses.\<close>

lemma insert_isolated:
  assumes "get o2 (key_of v) s = None" and "o2 \<noteq> org_of v"
  shows "get o2 k' (put v s) = get o2 k' s"
  using assms by (auto simp: get_put)

end

text \<open>
  The way the memory repositories implement such a read: a dictionary lookup followed by a
  comparison of the owner.
\<close>

definition owned :: "('v \<Rightarrow> uuid) \<Rightarrow> uuid \<Rightarrow> 'v option \<Rightarrow> 'v option" where
  "owned org_of organization_id x =
     (case x of None \<Rightarrow> None | Some v \<Rightarrow> if org_of v = organization_id then Some v else None)"

lemma owned_Some_iff: "owned f o' x = Some v \<longleftrightarrow> x = Some v \<and> f v = o'"
  by (auto simp: owned_def split: option.splits)

lemma owned_None [simp]: "owned f o' None = None"
  by (simp add: owned_def)

lemma owned_Some: "owned f o' (Some v) = (if f v = o' then Some v else None)"
  by (simp add: owned_def)

text \<open>Any field of a state that is such a dictionary is a tenant store.\<close>

lemma tenant_store_of_dict:
  assumes "\<And>v s. dict_of (put v s) = dset (key_of v) v (dict_of s)"
    and "\<And>o' k s. get o' k s = owned org_of o' (dget (dict_of s) k)"
  shows "tenant_store get put key_of org_of (\<lambda>s. keyed key_of (dict_of s))"
  by unfold_locales (auto simp: assms owned_Some_iff owned_Some keyed_def split: if_splits)

section \<open>Tables under row level security\<close>

text \<open>\<open>session.get(Row, key)\<close> and the rows a \<open>select\<close> ranges over.\<close>

definition row_of :: "('v \<Rightarrow> uuid) \<Rightarrow> uuid option \<Rightarrow> ('k, 'v) dict \<Rightarrow> 'k \<Rightarrow> 'v option" where
  "row_of org_of current d k =
     (case current of None \<Rightarrow> None | Some organization_id \<Rightarrow> owned org_of organization_id (dget d k))"

definition visible :: "('v \<Rightarrow> uuid) \<Rightarrow> uuid option \<Rightarrow> ('k, 'v) dict \<Rightarrow> 'v list" where
  "visible org_of current d = filter (\<lambda>r. current = Some (org_of r)) (dvals d)"

text \<open>\<open>session.add(row)\<close>, raising where a key is in use.\<close>

definition insert_orS :: "'e \<Rightarrow> ('s \<Rightarrow> bool) \<Rightarrow> ('s \<Rightarrow> 's) \<Rightarrow> ('s, 'e, unit) oper" where
  "insert_orS err used w s = (if used s then (Inl err, s) else (Inr (), w s))"

lemma insertS_iff:
  "insert_orS err used w s = (Inr u, s') \<longleftrightarrow> \<not> used s \<and> s' = w s"
  "insert_orS err used w s = (Inl e, s') \<longleftrightarrow> used s \<and> e = err \<and> s' = s"
  by (auto simp: insert_orS_def)

lemma seqS_insertS [simp]:
  "seqS (insert_orS err used w) m s = (if used s then (Inl err, s) else m (w s))"
  by (simp add: seqS_def bindS_def insert_orS_def)

lemma row_of_Some:
  "row_of f c d k = Some v \<longleftrightarrow> c = Some (f v) \<and> dget d k = Some v"
  by (auto simp: row_of_def owned_Some_iff split: option.splits)

lemma row_of_current [simp]: "row_of f (Some o') d k = owned f o' (dget d k)"
  by (simp add: row_of_def)

lemma preserves_insertS [preserving]:
  "(\<And>s. f (w s) = f s) \<Longrightarrow> preserves f (insert_orS err used w)"
  by (simp add: preserves_def insert_orS_def)

lemma follows_insertS [following]:
  "reflp R \<Longrightarrow> (\<And>s. \<not> used s \<Longrightarrow> R s (w s)) \<Longrightarrow> follows R (insert_orS err used w)"
  by (simp add: follows_def insert_orS_def reflp_def)

end
