(* ===== verification/CpRepository.thy ===== *)
theory CpRepository
  imports CpDomain TenantStore
begin

text \<open>
  \<open>application/ports.py\<close> and \<open>adapters/memory.py\<close> of the control plane: the
  \<open>UnitOfWork\<close> protocol (with the repository it carries) as a record of operations on an
  abstract state, and the in-memory implementation of it. A dictionary attribute of
  \<open>MemoryControlPlaneRepository\<close> is a field of \<open>cp_memory\<close>; the two attributes of
  \<open>MemoryUnitOfWork\<close> are its last two fields.

  The memory repository hands out the stored object itself, so a domain method called on it
  changes the store at once; the model changes the store at the following \<open>update_\<close> call.
  The two differ only where an exception is raised between them, which happens in no
  reachable state (theory \<open>CpLifecycle\<close>).
\<close>

section \<open>The protocols\<close>

record cp_audit =
  ca_organization_id :: uuid
  ca_actor_subject :: string
  ca_action :: string
  ca_target_type :: string
  ca_target_id :: uuid
  ca_correlation_id :: uuid
  ca_details :: "(string \<times> json) list"

text \<open>
  What a use case may raise: an error of the domain, of a \<open>Budget\<close> or an event, a \<open>KeyError\<close>; and,
  over PostgreSQL, a \<open>ValueError\<close> for a column that holds no value of its enumeration and the
  integrity error of the database.
\<close>

datatype cp_error =
    DomainE domain_error
  | ValidationE string
  | KeyE
  | ValueE string
  | IntegrityE

record 's cp_uow =
  uw_enter :: "'s \<Rightarrow> 's"
  uw_exit :: "bool \<Rightarrow> 's \<Rightarrow> 's"
  uw_set_organization :: "uuid \<Rightarrow> ('s, cp_error, unit) oper"
  uw_commit :: "('s, cp_error, unit) oper"
  rp_role_for :: "uuid \<Rightarrow> string \<Rightarrow> ('s, cp_error, role option) oper"
  rp_add_organization :: "organization \<Rightarrow> string \<Rightarrow> ('s, cp_error, unit) oper"
  rp_list_organizations_for_subject :: "string \<Rightarrow> ('s, cp_error, (organization \<times> role) list) oper"
  rp_add_project :: "project \<Rightarrow> ('s, cp_error, unit) oper"
  rp_get_project :: "uuid \<Rightarrow> uuid \<Rightarrow> ('s, cp_error, project option) oper"
  rp_list_projects :: "uuid \<Rightarrow> ('s, cp_error, project list) oper"
  rp_add_intake :: "intake_request \<Rightarrow> ('s, cp_error, unit) oper"
  rp_get_intake :: "uuid \<Rightarrow> uuid \<Rightarrow> ('s, cp_error, intake_request option) oper"
  rp_update_intake :: "intake_request \<Rightarrow> ('s, cp_error, unit) oper"
  rp_list_intakes :: "uuid \<Rightarrow> ('s, cp_error, intake_request list) oper"
  rp_add_specification :: "specification_record \<Rightarrow> specification_version \<Rightarrow> ('s, cp_error, unit) oper"
  rp_get_specification :: "uuid \<Rightarrow> uuid \<Rightarrow> ('s, cp_error, specification_record option) oper"
  rp_get_specification_version :: "uuid \<Rightarrow> uuid \<Rightarrow> ('s, cp_error, specification_version option) oper"
  rp_update_specification :: "specification_record \<Rightarrow> ('s, cp_error, unit) oper"
  rp_list_specifications :: "uuid \<Rightarrow> ('s, cp_error, specification_record list) oper"
  rp_add_approval :: "approval \<Rightarrow> ('s, cp_error, unit) oper"
  rp_add_work_item :: "work_item \<Rightarrow> ('s, cp_error, unit) oper"
  rp_get_work_item :: "uuid \<Rightarrow> uuid \<Rightarrow> ('s, cp_error, work_item option) oper"
  rp_update_work_item :: "work_item \<Rightarrow> ('s, cp_error, unit) oper"
  rp_list_work_items :: "uuid \<Rightarrow> ('s, cp_error, work_item list) oper"
  rp_list_audits :: "uuid \<Rightarrow> ('s, cp_error, cp_audit list) oper"
  rp_add_audit :: "cp_audit \<Rightarrow> ('s, cp_error, unit) oper"
  rp_add_outbox :: "event_envelope \<Rightarrow> ('s, cp_error, unit) oper"

section \<open>The memory implementation\<close>

record cp_memory =
  mm_organizations :: "(uuid, organization) dict"
  mm_memberships :: "(uuid \<times> string, role) dict"
  mm_projects :: "(uuid, project) dict"
  mm_intakes :: "(uuid, intake_request) dict"
  mm_specifications :: "(uuid, specification_record) dict"
  mm_specification_versions :: "(uuid, specification_version) dict"
  mm_approvals :: "(uuid, approval) dict"
  mm_work_items :: "(uuid, work_item) dict"
  mm_audits :: "cp_audit list"
  mm_outbox :: "event_envelope list"
  mm_organization_id :: "uuid option"
  mm_committed :: bool

definition memory_init :: cp_memory where
  "memory_init =
     \<lparr>mm_organizations = [], mm_memberships = [], mm_projects = [], mm_intakes = [],
      mm_specifications = [], mm_specification_versions = [], mm_approvals = [],
      mm_work_items = [], mm_audits = [], mm_outbox = [],
      mm_organization_id = None, mm_committed = False\<rparr>"

definition memory_role_for :: "uuid \<Rightarrow> string \<Rightarrow> cp_memory \<Rightarrow> role option" where
  "memory_role_for organization_id subject s = dget (mm_memberships s) (organization_id, subject)"

definition memory_add_organization :: "organization \<Rightarrow> string \<Rightarrow> cp_memory \<Rightarrow> cp_memory" where
  "memory_add_organization organization owner_subject s =
     s\<lparr>mm_organizations := dset (og_id organization) organization (mm_organizations s),
       mm_memberships := dset (og_id organization, owner_subject) OWNER (mm_memberships s)\<rparr>"

text \<open>The result is \<open>None\<close> where \<open>self.organizations[organization_id]\<close> raises \<open>KeyError\<close>.\<close>

definition memory_list_organizations_for_subject ::
  "string \<Rightarrow> cp_memory \<Rightarrow> (organization \<times> role) list option" where
  "memory_list_organizations_for_subject subject s =
     those (map (\<lambda>((organization_id, member_subject), r).
                   map_option (\<lambda>o'. (o', r)) (dget (mm_organizations s) organization_id))
             (filter (\<lambda>((organization_id, member_subject), r). member_subject = subject)
                (mm_memberships s)))"

definition memory_add_project :: "project \<Rightarrow> cp_memory \<Rightarrow> cp_memory" where
  "memory_add_project p s = s\<lparr>mm_projects := dset (pj_id p) p (mm_projects s)\<rparr>"

definition memory_get_project :: "uuid \<Rightarrow> uuid \<Rightarrow> cp_memory \<Rightarrow> project option" where
  "memory_get_project organization_id project_id s =
     owned pj_organization_id organization_id (dget (mm_projects s) project_id)"

definition memory_list_projects :: "uuid \<Rightarrow> cp_memory \<Rightarrow> project list" where
  "memory_list_projects organization_id s =
     filter (\<lambda>item. pj_organization_id item = organization_id) (dvals (mm_projects s))"

definition memory_add_intake :: "intake_request \<Rightarrow> cp_memory \<Rightarrow> cp_memory" where
  "memory_add_intake i s = s\<lparr>mm_intakes := dset (ik_id i) i (mm_intakes s)\<rparr>"

definition memory_get_intake :: "uuid \<Rightarrow> uuid \<Rightarrow> cp_memory \<Rightarrow> intake_request option" where
  "memory_get_intake organization_id intake_id s =
     owned ik_organization_id organization_id (dget (mm_intakes s) intake_id)"

definition memory_update_intake :: "intake_request \<Rightarrow> cp_memory \<Rightarrow> cp_memory" where
  "memory_update_intake i s = s\<lparr>mm_intakes := dset (ik_id i) i (mm_intakes s)\<rparr>"

definition memory_list_intakes :: "uuid \<Rightarrow> cp_memory \<Rightarrow> intake_request list" where
  "memory_list_intakes organization_id s =
     filter (\<lambda>item. ik_organization_id item = organization_id) (dvals (mm_intakes s))"

definition memory_add_specification ::
  "specification_record \<Rightarrow> specification_version \<Rightarrow> cp_memory \<Rightarrow> cp_memory" where
  "memory_add_specification sp v s =
     s\<lparr>mm_specifications := dset (sp_id sp) sp (mm_specifications s),
       mm_specification_versions := dset (sv_id v) v (mm_specification_versions s)\<rparr>"

definition memory_get_specification ::
  "uuid \<Rightarrow> uuid \<Rightarrow> cp_memory \<Rightarrow> specification_record option" where
  "memory_get_specification organization_id specification_id s =
     owned sp_organization_id organization_id (dget (mm_specifications s) specification_id)"

definition memory_get_specification_version ::
  "uuid \<Rightarrow> uuid \<Rightarrow> cp_memory \<Rightarrow> specification_version option" where
  "memory_get_specification_version organization_id version_id s =
     (case dget (mm_specification_versions s) version_id of
        None \<Rightarrow> None
      | Some v \<Rightarrow>
          (case dget (mm_specifications s) (sv_specification_id v) of
             None \<Rightarrow> None
           | Some sp \<Rightarrow> if sp_organization_id sp \<noteq> organization_id then None else Some v))"

definition memory_update_specification :: "specification_record \<Rightarrow> cp_memory \<Rightarrow> cp_memory" where
  "memory_update_specification sp s =
     s\<lparr>mm_specifications := dset (sp_id sp) sp (mm_specifications s)\<rparr>"

definition memory_list_specifications :: "uuid \<Rightarrow> cp_memory \<Rightarrow> specification_record list" where
  "memory_list_specifications organization_id s =
     filter (\<lambda>item. sp_organization_id item = organization_id) (dvals (mm_specifications s))"

definition memory_add_approval :: "approval \<Rightarrow> cp_memory \<Rightarrow> cp_memory" where
  "memory_add_approval a s = s\<lparr>mm_approvals := dset (ap_id a) a (mm_approvals s)\<rparr>"

definition memory_add_work_item :: "work_item \<Rightarrow> cp_memory \<Rightarrow> cp_memory" where
  "memory_add_work_item w s = s\<lparr>mm_work_items := dset (wi_id w) w (mm_work_items s)\<rparr>"

definition memory_get_work_item :: "uuid \<Rightarrow> uuid \<Rightarrow> cp_memory \<Rightarrow> work_item option" where
  "memory_get_work_item organization_id work_item_id s =
     owned wi_organization_id organization_id (dget (mm_work_items s) work_item_id)"

definition memory_update_work_item :: "work_item \<Rightarrow> cp_memory \<Rightarrow> cp_memory" where
  "memory_update_work_item w s = s\<lparr>mm_work_items := dset (wi_id w) w (mm_work_items s)\<rparr>"

definition memory_list_work_items :: "uuid \<Rightarrow> cp_memory \<Rightarrow> work_item list" where
  "memory_list_work_items organization_id s =
     filter (\<lambda>item. wi_organization_id item = organization_id) (dvals (mm_work_items s))"

definition memory_list_audits :: "uuid \<Rightarrow> cp_memory \<Rightarrow> cp_audit list" where
  "memory_list_audits organization_id s =
     filter (\<lambda>item. ca_organization_id item = organization_id) (mm_audits s)"

definition memory_add_audit :: "cp_audit \<Rightarrow> cp_memory \<Rightarrow> cp_memory" where
  "memory_add_audit a s = s\<lparr>mm_audits := mm_audits s @ [a]\<rparr>"

definition memory_add_outbox :: "event_envelope \<Rightarrow> cp_memory \<Rightarrow> cp_memory" where
  "memory_add_outbox event s = s\<lparr>mm_outbox := mm_outbox s @ [event]\<rparr>"

text \<open>\<open>MemoryUnitOfWork\<close>: leaving the block does nothing, so nothing is rolled back.\<close>

definition memory_enter :: "cp_memory \<Rightarrow> cp_memory" where
  "memory_enter s = s\<lparr>mm_committed := False\<rparr>"

definition memory_exit :: "bool \<Rightarrow> cp_memory \<Rightarrow> cp_memory" where
  "memory_exit raised s = s"

definition memory_set_organization :: "uuid \<Rightarrow> cp_memory \<Rightarrow> cp_memory" where
  "memory_set_organization organization_id s = s\<lparr>mm_organization_id := Some organization_id\<rparr>"

definition memory_commit :: "cp_memory \<Rightarrow> cp_memory" where
  "memory_commit s = s\<lparr>mm_committed := True\<rparr>"

definition MemoryUnitOfWork :: "cp_memory cp_uow" where
  "MemoryUnitOfWork =
     \<lparr>uw_enter = memory_enter, uw_exit = memory_exit,
      uw_set_organization = (\<lambda>o'. writeS (memory_set_organization o')), uw_commit = writeS memory_commit,
      rp_role_for = (\<lambda>o' subject. readS (memory_role_for o' subject)),
      rp_add_organization = (\<lambda>o' subject. writeS (memory_add_organization o' subject)),
      rp_list_organizations_for_subject =
        (\<lambda>subject. bindS (readS (memory_list_organizations_for_subject subject)) (requireS KeyE)),
      rp_add_project = (\<lambda>p. writeS (memory_add_project p)),
      rp_get_project = (\<lambda>o' k. readS (memory_get_project o' k)),
      rp_list_projects = (\<lambda>o'. readS (memory_list_projects o')),
      rp_add_intake = (\<lambda>i. writeS (memory_add_intake i)),
      rp_get_intake = (\<lambda>o' k. readS (memory_get_intake o' k)),
      rp_update_intake = (\<lambda>i. writeS (memory_update_intake i)),
      rp_list_intakes = (\<lambda>o'. readS (memory_list_intakes o')),
      rp_add_specification = (\<lambda>sp v. writeS (memory_add_specification sp v)),
      rp_get_specification = (\<lambda>o' k. readS (memory_get_specification o' k)),
      rp_get_specification_version = (\<lambda>o' k. readS (memory_get_specification_version o' k)),
      rp_update_specification = (\<lambda>sp. writeS (memory_update_specification sp)),
      rp_list_specifications = (\<lambda>o'. readS (memory_list_specifications o')),
      rp_add_approval = (\<lambda>a. writeS (memory_add_approval a)),
      rp_add_work_item = (\<lambda>w. writeS (memory_add_work_item w)),
      rp_get_work_item = (\<lambda>o' k. readS (memory_get_work_item o' k)),
      rp_update_work_item = (\<lambda>w. writeS (memory_update_work_item w)),
      rp_list_work_items = (\<lambda>o'. readS (memory_list_work_items o')),
      rp_list_audits = (\<lambda>o'. readS (memory_list_audits o')),
      rp_add_audit = (\<lambda>a. writeS (memory_add_audit a)),
      rp_add_outbox = (\<lambda>event. writeS (memory_add_outbox event))\<rparr>"

lemmas memory_defs =
  MemoryUnitOfWork_def memory_enter_def memory_exit_def memory_set_organization_def
  memory_commit_def memory_role_for_def memory_add_organization_def memory_add_project_def
  memory_get_project_def memory_add_intake_def memory_get_intake_def memory_update_intake_def
  memory_add_specification_def memory_get_specification_def
  memory_update_specification_def memory_add_approval_def
  memory_add_work_item_def memory_get_work_item_def memory_update_work_item_def
  memory_add_audit_def memory_add_outbox_def

lemma memory_get_specification_version_Some_iff:
  "memory_get_specification_version organization_id version_id s = Some v \<longleftrightarrow>
     dget (mm_specification_versions s) version_id = Some v \<and>
     (\<exists>sp. dget (mm_specifications s) (sv_specification_id v) = Some sp \<and>
           sp_organization_id sp = organization_id)"
  by (auto simp: memory_get_specification_version_def split: option.splits)

interpretation cp_projects: tenant_store memory_get_project memory_add_project pj_id
  pj_organization_id "\<lambda>s. keyed pj_id (mm_projects s)"
  by (rule tenant_store_of_dict) (simp_all add: memory_defs)

interpretation cp_intakes: tenant_store memory_get_intake memory_update_intake ik_id
  ik_organization_id "\<lambda>s. keyed ik_id (mm_intakes s)"
  by (rule tenant_store_of_dict) (simp_all add: memory_defs)

interpretation cp_specifications: tenant_store memory_get_specification
  memory_update_specification sp_id sp_organization_id "\<lambda>s. keyed sp_id (mm_specifications s)"
  by (rule tenant_store_of_dict) (simp_all add: memory_defs)

interpretation cp_work_items: tenant_store memory_get_work_item memory_update_work_item wi_id
  wi_organization_id "\<lambda>s. keyed wi_id (mm_work_items s)"
  by (rule tenant_store_of_dict) (simp_all add: memory_defs)

end
