(* ===== verification/CpService.thy ===== *)
theory CpService
  imports CpRepository
begin

text \<open>
  \<open>application/service.py\<close> of the control plane: the use cases of
  \<open>ControlPlaneService\<close>, over any unit of work \<open>U\<close>. What the code draws from
  \<open>uuid4()\<close> and \<open>datetime.now()\<close> is an argument, in the order it is drawn. An
  exception raised inside the \<open>async with\<close> block leaves through \<open>__aexit__\<close>.
\<close>

definition domainS :: "domain_error + 'a \<Rightarrow> ('s, cp_error, 'a) oper" where
  "domainS r = liftS (map_sum DomainE id r)"

definition validationS :: "string + 'a \<Rightarrow> ('s, cp_error, 'a) oper" where
  "validationS r = liftS (map_sum ValidationE id r)"

lemma domainS_iff:
  "domainS r s = (Inr a, s') \<longleftrightarrow> r = Inr a \<and> s' = s"
  "domainS r s = (Inl e, s') \<longleftrightarrow> (\<exists>d. r = Inl d \<and> e = DomainE d) \<and> s' = s"
  by (cases r; auto simp: domainS_def liftS_def)+

lemma validationS_iff:
  "validationS v s = (Inr a, s') \<longleftrightarrow> v = Inr a \<and> s' = s"
  "validationS v s = (Inl e, s') \<longleftrightarrow> (\<exists>d. v = Inl d \<and> e = ValidationE d) \<and> s' = s"
  by (cases v; auto simp: validationS_def liftS_def)+

lemma bind_domainS_simps [simp]:
  "bindS (domainS (Inr a)) f s = f a s"
  "bindS (domainS (Inl d)) f s = (Inl (DomainE d), s)"
  "bindS (validationS (Inr a)) f s = f a s"
  by (simp_all add: domainS_def validationS_def bindS_def liftS_def)

text \<open>\<open>async with self._uow: ...\<close>.\<close>

definition with_uow :: "'s cp_uow \<Rightarrow> ('s, cp_error, 'a) oper \<Rightarrow> ('s, cp_error, 'a) oper" where
  "with_uow U m s =
     (case m (uw_enter U s) of
        (Inl e, s') \<Rightarrow> (Inl e, uw_exit U True s')
      | (Inr a, s') \<Rightarrow> (Inr a, uw_exit U False s'))"

lemma with_uow_Inr_iff:
  "with_uow U m s = (Inr a, s') \<longleftrightarrow>
     (\<exists>t. m (uw_enter U s) = (Inr a, t) \<and> s' = uw_exit U False t)"
  by (auto simp: with_uow_def split: prod.splits sum.splits)

lemma with_uow_Inl_iff:
  "with_uow U m s = (Inl e, s') \<longleftrightarrow>
     (\<exists>t. m (uw_enter U s) = (Inl e, t) \<and> s' = uw_exit U True t)"
  by (auto simp: with_uow_def split: prod.splits sum.splits)

text \<open>The check \<open>require_role(await role_for(organization, actor), allowed)\<close>.\<close>

definition authorizeS :: "'s cp_uow \<Rightarrow> uuid \<Rightarrow> string \<Rightarrow> role set \<Rightarrow> ('s, cp_error, role) oper" where
  "authorizeS U organization_id actor allowed =
     bindS (rp_role_for U organization_id actor) (\<lambda>actual. domainS (require_role actual allowed))"

definition audit :: "'s cp_uow \<Rightarrow> uuid \<Rightarrow> string \<Rightarrow> string \<Rightarrow> string \<Rightarrow> uuid \<Rightarrow> uuid \<Rightarrow>
    (string \<times> json) list \<Rightarrow> ('s, cp_error, unit) oper" where
  "audit U organization_id actor_subject action target_type target_id correlation_id details =
     rp_add_audit U \<lparr>ca_organization_id = organization_id, ca_actor_subject = actor_subject,
       ca_action = action, ca_target_type = target_type, ca_target_id = target_id,
       ca_correlation_id = correlation_id, ca_details = details\<rparr>"

definition required_intake :: "'s cp_uow \<Rightarrow> uuid \<Rightarrow> uuid \<Rightarrow> ('s, cp_error, intake_request) oper" where
  "required_intake U organization_id intake_id =
     bindS (rp_get_intake U organization_id intake_id)
       (requireS (DomainE (NotFound ''intake not found'')))"

definition required_specification ::
  "'s cp_uow \<Rightarrow> uuid \<Rightarrow> uuid \<Rightarrow> ('s, cp_error, specification_record) oper" where
  "required_specification U organization_id specification_id =
     bindS (rp_get_specification U organization_id specification_id)
       (requireS (DomainE (NotFound ''specification not found'')))"

definition required_work_item :: "'s cp_uow \<Rightarrow> uuid \<Rightarrow> uuid \<Rightarrow> ('s, cp_error, work_item) oper" where
  "required_work_item U organization_id work_item_id =
     bindS (rp_get_work_item U organization_id work_item_id)
       (requireS (DomainE (NotFound ''work item not found'')))"

section \<open>The use cases\<close>

definition create_organization ::
  "'s cp_uow \<Rightarrow> uuid \<Rightarrow> time \<Rightarrow> uuid \<Rightarrow> time \<Rightarrow> string \<Rightarrow> string \<Rightarrow> uuid \<Rightarrow>
     ('s, cp_error, organization) oper" where
  "create_organization U org_id now event_id now' actor_subject name correlation_id =
     (let o' = \<lparr>og_id = org_id, og_name = strip name, og_created_at = now\<rparr> in
      with_uow U
       (seqS (stepsS [uw_set_organization U org_id, rp_add_organization U o' actor_subject])
       (bindS (validationS (EventEnvelope now' event_id ''urn:mvp-master:control-plane''
                 ''com.mvp.membership.changed.v1''
                 (''organization/'' @ str_uuid org_id @ ''/membership/'' @ actor_subject)
                 org_id 1 correlation_id
                 [(''subject'', JStr actor_subject), (''role'', JStr ''OWNER''),
                  (''active'', JBool True), (''project_ids'', JList []), (''client_ids'', JList [])]))
       (\<lambda>event.
        seqS (stepsS
          [rp_add_outbox U event,
           audit U org_id actor_subject ''organization.created'' ''organization'' org_id
             correlation_id [(''name'', JStr (og_name o'))],
           uw_commit U])
        (returnS o')))))"

definition organizations_for ::
  "'s cp_uow \<Rightarrow> string \<Rightarrow> ('s, cp_error, (organization \<times> role) list) oper" where
  "organizations_for U actor_subject =
     with_uow U
       (rp_list_organizations_for_subject U actor_subject)"

record cp_dashboard =
  db_projects :: "project list"
  db_intakes :: "intake_request list"
  db_specifications :: "specification_record list"
  db_work_items :: "work_item list"
  db_audits :: "cp_audit list"

definition dashboard :: "'s cp_uow \<Rightarrow> string \<Rightarrow> uuid \<Rightarrow> ('s, cp_error, cp_dashboard) oper" where
  "dashboard U actor_subject organization_id =
     with_uow U
       (seqS (stepsS [uw_set_organization U organization_id])
       (bindS (authorizeS U organization_id actor_subject (PROJECT_EDITORS \<union> REVIEWERS)) (\<lambda>_.
        bindS (rp_list_projects U organization_id) (\<lambda>projects.
        bindS (rp_list_intakes U organization_id) (\<lambda>intakes.
        bindS (rp_list_specifications U organization_id) (\<lambda>specifications.
        bindS (rp_list_work_items U organization_id) (\<lambda>work_items.
        bindS (rp_list_audits U organization_id) (\<lambda>audits.
        returnS \<lparr>db_projects = projects, db_intakes = intakes, db_specifications = specifications,
          db_work_items = work_items, db_audits = audits\<rparr>))))))))"

definition create_project ::
  "'s cp_uow \<Rightarrow> uuid \<Rightarrow> time \<Rightarrow> string \<Rightarrow> uuid \<Rightarrow> string \<Rightarrow> string \<Rightarrow> uuid \<Rightarrow>
     ('s, cp_error, project) oper" where
  "create_project U project_id now actor_subject organization_id name description correlation_id =
     (let p = \<lparr>pj_id = project_id, pj_organization_id = organization_id, pj_name = strip name,
               pj_description = strip description, pj_execution_approval_required = True,
               pj_created_at = now\<rparr> in
      with_uow U
       (seqS (stepsS [uw_set_organization U organization_id])
       (bindS (authorizeS U organization_id actor_subject PROJECT_EDITORS) (\<lambda>_.
        seqS (stepsS
          [rp_add_project U p,
           audit U organization_id actor_subject ''project.created'' ''project'' project_id
             correlation_id [(''name'', JStr (pj_name p))],
           uw_commit U])
        (returnS p)))))"

definition submit_intake ::
  "'s cp_uow \<Rightarrow> uuid \<Rightarrow> time \<Rightarrow> string \<Rightarrow> uuid \<Rightarrow> uuid \<Rightarrow> uuid option \<Rightarrow> string \<Rightarrow> string \<Rightarrow>
     string list \<Rightarrow> string list \<Rightarrow> string list \<Rightarrow> uuid \<Rightarrow> ('s, cp_error, intake_request) oper" where
  "submit_intake U intake_id now actor_subject organization_id project_id client_id problem
     intended_users required_functionality exclusions constraints correlation_id =
     (let i = \<lparr>ik_id = intake_id, ik_organization_id = organization_id, ik_project_id = project_id,
               ik_client_id = client_id, ik_submitted_by = actor_subject, ik_problem = strip problem,
               ik_intended_users = strip intended_users,
               ik_required_functionality = map strip required_functionality,
               ik_exclusions = map strip exclusions, ik_constraints = map strip constraints,
               ik_status = IS_RECEIVED, ik_created_at = now\<rparr> in
      with_uow U
       (seqS (stepsS [uw_set_organization U organization_id])
       (bindS (authorizeS U organization_id actor_subject INTAKE_CREATORS) (\<lambda>_.
        bindS (rp_get_project U organization_id project_id) (\<lambda>found.
        bindS (requireS (DomainE (NotFound ''project not found'')) found) (\<lambda>_.
        seqS (stepsS
          [rp_add_intake U i,
           audit U organization_id actor_subject ''intake.submitted'' ''intake'' intake_id
             correlation_id [(''project_id'', JStr (str_uuid project_id))],
           uw_commit U])
        (returnS i)))))))"

definition draft_specification ::
  "'s cp_uow \<Rightarrow> uuid \<Rightarrow> uuid \<Rightarrow> time \<Rightarrow> string \<Rightarrow> uuid \<Rightarrow> uuid \<Rightarrow> string \<Rightarrow> uuid \<Rightarrow>
     ('s, cp_error, specification_record \<times> specification_version) oper" where
  "draft_specification U specification_id version_id now actor_subject organization_id intake_id
     title correlation_id =
     with_uow U
       (seqS (stepsS [uw_set_organization U organization_id])
       (bindS (authorizeS U organization_id actor_subject (PROJECT_EDITORS \<union> REVIEWERS)) (\<lambda>_.
        bindS (required_intake U organization_id intake_id) (\<lambda>found.
        bindS (domainS (mark_specification_drafted found)) (\<lambda>i.
        let v = \<lparr>sv_id = version_id, sv_specification_id = specification_id, sv_version = 1,
                 sv_title = strip title, sv_problem = ik_problem i,
                 sv_intended_users = ik_intended_users i,
                 sv_requirements = ik_required_functionality i,
                 sv_exclusions = ik_exclusions i, sv_constraints = ik_constraints i,
                 sv_created_by = actor_subject, sv_created_at = now\<rparr>;
            sp = \<lparr>sp_id = specification_id, sp_organization_id = organization_id,
                  sp_project_id = ik_project_id i, sp_intake_id = ik_id i,
                  sp_current_version_id = sv_id v, sp_current_version = sv_version v,
                  sp_status = SS_DRAFT\<rparr> in
        seqS (stepsS
          [rp_update_intake U i, rp_add_specification U sp v,
           audit U organization_id actor_subject ''specification.drafted'' ''specification''
             (sp_id sp) correlation_id
             [(''version'', JInt 1), (''intake_id'', JStr (str_uuid (ik_id i)))],
           uw_commit U])
        (returnS (sp, v)))))))"

definition submit_specification ::
  "'s cp_uow \<Rightarrow> string \<Rightarrow> uuid \<Rightarrow> uuid \<Rightarrow> uuid \<Rightarrow> ('s, cp_error, specification_record) oper" where
  "submit_specification U actor_subject organization_id specification_id correlation_id =
     with_uow U
       (seqS (stepsS [uw_set_organization U organization_id])
       (bindS (authorizeS U organization_id actor_subject (PROJECT_EDITORS \<union> REVIEWERS)) (\<lambda>_.
        bindS (required_specification U organization_id specification_id) (\<lambda>found.
        bindS (required_intake U organization_id (sp_intake_id found)) (\<lambda>found_intake.
        bindS (domainS (submit_for_approval found)) (\<lambda>sp.
        bindS (domainS (mark_awaiting_approval found_intake)) (\<lambda>i.
        seqS (stepsS
          [rp_update_specification U sp, rp_update_intake U i,
           audit U organization_id actor_subject ''specification.submitted'' ''specification''
             (sp_id sp) correlation_id [(''version'', JInt (sp_current_version sp))],
           uw_commit U])
        (returnS sp))))))))"

definition approve_specification ::
  "'s cp_uow \<Rightarrow> uuid \<Rightarrow> time \<Rightarrow> uuid \<Rightarrow> string \<Rightarrow> uuid \<Rightarrow> uuid \<Rightarrow> string option \<Rightarrow> uuid \<Rightarrow>
     ('s, cp_error, specification_record \<times> work_item) oper" where
  "approve_specification U approval_id now work_item_id actor_subject organization_id
     specification_id reason correlation_id =
     with_uow U
       (seqS (stepsS [uw_set_organization U organization_id])
       (bindS (authorizeS U organization_id actor_subject REVIEWERS) (\<lambda>_.
        bindS (required_specification U organization_id specification_id) (\<lambda>found.
        bindS (rp_get_specification_version U organization_id (sp_current_version_id found))
         (\<lambda>found_version.
        bindS (requireS (DomainE (NotFound ''specification version not found'')) found_version) (\<lambda>v.
        bindS (required_intake U organization_id (sp_intake_id found)) (\<lambda>found_intake.
        bindS (domainS (specification_approve found)) (\<lambda>sp.
        bindS (domainS (mark_approved found_intake)) (\<lambda>i.
        let a = \<lparr>ap_id = approval_id, ap_organization_id = organization_id,
                 ap_subject_type = ''specification'', ap_subject_id = sp_id sp,
                 ap_subject_version = sp_current_version sp, ap_decision = ''APPROVED'',
                 ap_actor_subject = actor_subject, ap_reason = reason, ap_created_at = now\<rparr>;
            w = \<lparr>wi_id = work_item_id, wi_organization_id = organization_id,
                 wi_project_id = sp_project_id sp, wi_specification_version_id = sv_id v,
                 wi_title = sv_title v, wi_description = sv_problem v,
                 wi_acceptance_criteria = sv_requirements v, wi_status = WS_IN_REVIEW,
                 wi_repository_connection_id = None, wi_provider_configuration_id = None,
                 wi_runner_pool_id = None, wi_budget = None, wi_version = 1\<rparr> in
        seqS (stepsS
          [rp_update_specification U sp, rp_update_intake U i, rp_add_approval U a,
           rp_add_work_item U w,
           audit U organization_id actor_subject ''specification.approved'' ''specification''
             (sp_id sp) correlation_id
             [(''version'', JInt (sp_current_version sp)),
              (''work_item_id'', JStr (str_uuid (wi_id w)))],
           uw_commit U])
        (returnS (sp, w)))))))))))"

definition review_work_item ::
  "'s cp_uow \<Rightarrow> string \<Rightarrow> uuid \<Rightarrow> uuid \<Rightarrow> uuid \<Rightarrow> ('s, cp_error, work_item) oper" where
  "review_work_item U actor_subject organization_id work_item_id correlation_id =
     with_uow U
       (seqS (stepsS [uw_set_organization U organization_id])
       (bindS (authorizeS U organization_id actor_subject REVIEWERS) (\<lambda>_.
        bindS (required_work_item U organization_id work_item_id) (\<lambda>found.
        bindS (domainS (mark_reviewed found)) (\<lambda>w.
        seqS (stepsS
          [rp_update_work_item U w,
           audit U organization_id actor_subject ''work_item.reviewed'' ''work_item'' (wi_id w)
             correlation_id [(''version'', JInt (wi_version w))],
           uw_commit U])
        (returnS w))))))"

text \<open>\<open>asdict(budget)\<close>.\<close>

definition budget_asdict :: "budget \<Rightarrow> json" where
  "budget_asdict b =
     JObj [(''max_duration_seconds'', JInt (bg_max_duration_seconds b)),
           (''max_attempts'', JInt (bg_max_attempts b)),
           (''max_turns'', JInt (bg_max_turns b)),
           (''max_cost_minor'', JInt (bg_max_cost_minor b)),
           (''currency'', JStr (bg_currency b))]"

definition ready_event_data :: "uuid \<Rightarrow> uuid \<Rightarrow> uuid \<Rightarrow> budget \<Rightarrow> work_item \<Rightarrow> (string \<times> json) list" where
  "ready_event_data repository_connection_id provider_configuration_id runner_pool_id b w =
     [(''work_item_id'', JStr (str_uuid (wi_id w))),
      (''project_id'', JStr (str_uuid (wi_project_id w))),
      (''repository_connection_id'', JStr (str_uuid repository_connection_id)),
      (''provider_configuration_id'', JStr (str_uuid provider_configuration_id)),
      (''runner_pool_id'', JStr (str_uuid runner_pool_id)),
      (''budget'', budget_asdict b),
      (''title'', JStr (wi_title w)),
      (''description'', JStr (wi_description w)),
      (''acceptance_criteria'', JList (map JStr (wi_acceptance_criteria w)))]"

definition ready_work_item ::
  "'s cp_uow \<Rightarrow> uuid \<Rightarrow> time \<Rightarrow> string \<Rightarrow> uuid \<Rightarrow> uuid \<Rightarrow> uuid \<Rightarrow> uuid \<Rightarrow> uuid \<Rightarrow> budget \<Rightarrow> uuid \<Rightarrow>
     ('s, cp_error, work_item) oper" where
  "ready_work_item U event_id now actor_subject organization_id work_item_id
     repository_connection_id provider_configuration_id runner_pool_id b correlation_id =
     with_uow U
       (seqS (stepsS [uw_set_organization U organization_id])
       (bindS (authorizeS U organization_id actor_subject EXECUTION_REQUESTERS) (\<lambda>_.
        bindS (required_work_item U organization_id work_item_id) (\<lambda>found.
        bindS (domainS (mark_ready repository_connection_id provider_configuration_id
                          runner_pool_id b found)) (\<lambda>w.
        seqS (stepsS [rp_update_work_item U w])
        (bindS (validationS (EventEnvelope now event_id ''urn:mvp-master:control-plane''
                  ''com.mvp.work_item.ready.v1'' (''work-item/'' @ str_uuid (wi_id w))
                  organization_id (wi_version w) correlation_id
                  (ready_event_data repository_connection_id provider_configuration_id
                     runner_pool_id b w))) (\<lambda>event.
        seqS (stepsS
          [rp_add_outbox U event,
           audit U organization_id actor_subject ''work_item.readied'' ''work_item'' (wi_id w)
             correlation_id
             [(''event_id'', JStr (str_uuid event_id)), (''version'', JInt (wi_version w))],
           uw_commit U])
        (returnS w))))))))"

lemmas service_defs =
  create_organization_def organizations_for_def dashboard_def create_project_def
  submit_intake_def draft_specification_def submit_specification_def approve_specification_def
  review_work_item_def ready_work_item_def

lemmas required_defs = required_intake_def required_specification_def required_work_item_def

lemmas service_iffs =
  oper_iffs with_uow_Inr_iff with_uow_Inl_iff domainS_iff validationS_iff required_defs
  authorizeS_def require_role_Inr_iff require_role_Inl_iff

lemma EventEnvelope_Inr_iff:
  "EventEnvelope now eid src ty sub org v corr d = Inr ev \<longleftrightarrow>
     1 \<le> v \<and> ev = \<lparr>ev_specversion = ''1.0'', ev_id = eid, ev_source = src, ev_type = ty,
                ev_time = now, ev_subject = sub, ev_organization_id = org,
                ev_aggregate_version = v, ev_correlation_id = corr,
                ev_causation_id = None, ev_traceparent = None, ev_data = d\<rparr>"
  by (auto simp: EventEnvelope_def)

end
