(* ===== verification/CpPostgres.thy ===== *)
theory CpPostgres
  imports CpService
begin

text \<open>
  \<open>adapters/postgres.py\<close> of the control plane: its tables as dictionaries by primary key,
  \<open>PostgresControlPlaneRepository\<close> over them and \<open>PostgresUnitOfWork\<close>, whose session sees its own
  changes and gives them up unless it is committed.

  Row level security (migration 0001) shows and accepts the rows of a tenant table only where their
  organization is the one \<open>set_organization\<close> selected for the transaction; the two routing tables
  have no policy. A row the database refuses, for a key in use or for its organization, raises; the
  code meets that exception when the session is flushed, the model when the row is added, and either
  way nothing of the transaction is kept. The rows of a \<open>select\<close> come in the order they were
  written in. The width of the text columns and the gaps in the numbers of the audit events are
  left out. What the database's \<open>now()\<close> returns, and the rendering of a timestamp in an event, are
  arguments.
\<close>

section \<open>Rows\<close>

text \<open>Three of the row classes have exactly the fields of the dataclass they store.\<close>

type_synonym organization_row = organization
type_synonym project_row = project
type_synonym approval_row = approval

record cp_membership_row =
  cm_organization_id :: uuid
  cm_subject :: string
  cm_role :: string

type_synonym cp_routing_row = cp_membership_row

record cp_intake_row =
  ci_id :: uuid
  ci_organization_id :: uuid
  ci_project_id :: uuid
  ci_client_id :: "uuid option"
  ci_submitted_by :: string
  ci_problem :: string
  ci_intended_users :: string
  ci_required_functionality :: "string list"
  ci_exclusions :: "string list"
  ci_constraints :: "string list"
  ci_status :: string
  ci_created_at :: time

record cp_specification_row =
  cs_id :: uuid
  cs_organization_id :: uuid
  cs_project_id :: uuid
  cs_intake_id :: uuid
  cs_current_version_id :: uuid
  cs_current_version :: int
  cs_status :: string

record cp_version_row =
  cv_id :: uuid
  cv_organization_id :: uuid
  cv_specification_id :: uuid
  cv_version :: int
  cv_title :: string
  cv_problem :: string
  cv_intended_users :: string
  cv_requirements :: "string list"
  cv_exclusions :: "string list"
  cv_constraints :: "string list"
  cv_created_by :: string
  cv_created_at :: time

record cp_work_item_row =
  ck_id :: uuid
  ck_organization_id :: uuid
  ck_project_id :: uuid
  ck_specification_version_id :: uuid
  ck_title :: string
  ck_description :: string
  ck_acceptance_criteria :: "string list"
  ck_status :: string
  ck_repository_connection_id :: "uuid option"
  ck_provider_configuration_id :: "uuid option"
  ck_runner_pool_id :: "uuid option"
  ck_budget :: "json option"
  ck_version :: int

record cp_audit_row =
  cu_id :: int
  cu_audit :: cp_audit
  cu_created_at :: time

record cp_outbox_row =
  cx_id :: uuid
  cx_organization_id :: uuid
  cx_event_type :: string
  cx_payload :: json
  cx_created_at :: time
  cx_published_at :: "time option"

record cp_tables =
  tb_organizations :: "(uuid, organization_row) dict"
  tb_memberships :: "(uuid \<times> string, cp_membership_row) dict"
  tb_membership_routing :: "(string \<times> uuid, cp_routing_row) dict"
  tb_projects :: "(uuid, project_row) dict"
  tb_intakes :: "(uuid, cp_intake_row) dict"
  tb_specifications :: "(uuid, cp_specification_row) dict"
  tb_specification_versions :: "(uuid, cp_version_row) dict"
  tb_approvals :: "(uuid, approval_row) dict"
  tb_work_items :: "(uuid, cp_work_item_row) dict"
  tb_audits :: "cp_audit_row list"
  tb_outbox :: "(uuid, cp_outbox_row) dict"
  tb_outbox_routing :: "(uuid, uuid) dict"

definition no_tables :: cp_tables where
  "no_tables =
     \<lparr>tb_organizations = [], tb_memberships = [], tb_membership_routing = [], tb_projects = [],
      tb_intakes = [], tb_specifications = [], tb_specification_versions = [], tb_approvals = [],
      tb_work_items = [], tb_audits = [], tb_outbox = [], tb_outbox_routing = []\<rparr>"

text \<open>The tables as the transaction sees them, as they are committed, and the selected organization.\<close>

record cp_session =
  ses_tables :: cp_tables
  ses_committed :: cp_tables
  ses_organization :: "uuid option"

type_synonym 'a cp_query = "(cp_session, cp_error, 'a) oper"

section \<open>Objects and rows\<close>

definition Role :: "string \<Rightarrow> role option" where
  "Role = enum_of role_value [OWNER, ADMIN, DEVELOPER, REVIEWER, CLIENT]"

definition IntakeStatus :: "string \<Rightarrow> intake_status option" where
  "IntakeStatus = enum_of intake_status_value
     [IS_RECEIVED, IS_CLARIFICATION_REQUIRED, IS_SPECIFICATION_DRAFTED, IS_AWAITING_APPROVAL,
      IS_SPECIFICATION_APPROVED]"

definition SpecificationStatus :: "string \<Rightarrow> specification_status option" where
  "SpecificationStatus = enum_of specification_status_value
     [SS_DRAFT, SS_AWAITING_APPROVAL, SS_APPROVED, SS_SUPERSEDED]"

definition WorkItemStatus :: "string \<Rightarrow> work_item_status option" where
  "WorkItemStatus = enum_of work_item_status_value
     [WS_IN_REVIEW, WS_REVIEWED, WS_READY, WS_BUILDING, WS_VERIFICATION, WS_DELIVERED, WS_FAILED,
      WS_AWAITING_HUMAN]"

definition role_of_column :: "string \<Rightarrow> cp_error + role" where
  "role_of_column value =
     (case Role value of None \<Rightarrow> Inl (ValueE ''not a valid Role'') | Some r \<Rightarrow> Inr r)"

definition intake_row :: "intake_request \<Rightarrow> cp_intake_row" where
  "intake_row i =
     \<lparr>ci_id = ik_id i, ci_organization_id = ik_organization_id i, ci_project_id = ik_project_id i,
      ci_client_id = ik_client_id i, ci_submitted_by = ik_submitted_by i, ci_problem = ik_problem i,
      ci_intended_users = ik_intended_users i, ci_required_functionality = ik_required_functionality i,
      ci_exclusions = ik_exclusions i, ci_constraints = ik_constraints i,
      ci_status = intake_status_value (ik_status i), ci_created_at = ik_created_at i\<rparr>"

definition intake_of_row :: "cp_intake_row \<Rightarrow> cp_error + intake_request" where
  "intake_of_row row =
     (case IntakeStatus (ci_status row) of
        None \<Rightarrow> Inl (ValueE ''not a valid IntakeStatus'')
      | Some status \<Rightarrow> Inr
          \<lparr>ik_id = ci_id row, ik_organization_id = ci_organization_id row,
           ik_project_id = ci_project_id row, ik_client_id = ci_client_id row,
           ik_submitted_by = ci_submitted_by row, ik_problem = ci_problem row,
           ik_intended_users = ci_intended_users row,
           ik_required_functionality = ci_required_functionality row,
           ik_exclusions = ci_exclusions row, ik_constraints = ci_constraints row,
           ik_status = status, ik_created_at = ci_created_at row\<rparr>)"

definition specification_row :: "specification_record \<Rightarrow> cp_specification_row" where
  "specification_row sp =
     \<lparr>cs_id = sp_id sp, cs_organization_id = sp_organization_id sp, cs_project_id = sp_project_id sp,
      cs_intake_id = sp_intake_id sp, cs_current_version_id = sp_current_version_id sp,
      cs_current_version = sp_current_version sp,
      cs_status = specification_status_value (sp_status sp)\<rparr>"

definition specification_of_row :: "cp_specification_row \<Rightarrow> cp_error + specification_record" where
  "specification_of_row row =
     (case SpecificationStatus (cs_status row) of
        None \<Rightarrow> Inl (ValueE ''not a valid SpecificationStatus'')
      | Some status \<Rightarrow> Inr
          \<lparr>sp_id = cs_id row, sp_organization_id = cs_organization_id row,
           sp_project_id = cs_project_id row, sp_intake_id = cs_intake_id row,
           sp_current_version_id = cs_current_version_id row,
           sp_current_version = cs_current_version row, sp_status = status\<rparr>)"

text \<open>A version is stored with the organization of its specification.\<close>

definition version_row :: "uuid \<Rightarrow> specification_version \<Rightarrow> cp_version_row" where
  "version_row organization_id v =
     \<lparr>cv_id = sv_id v, cv_organization_id = organization_id, cv_specification_id = sv_specification_id v,
      cv_version = sv_version v, cv_title = sv_title v, cv_problem = sv_problem v,
      cv_intended_users = sv_intended_users v, cv_requirements = sv_requirements v,
      cv_exclusions = sv_exclusions v, cv_constraints = sv_constraints v,
      cv_created_by = sv_created_by v, cv_created_at = sv_created_at v\<rparr>"

definition version_of_row :: "cp_version_row \<Rightarrow> specification_version" where
  "version_of_row row =
     \<lparr>sv_id = cv_id row, sv_specification_id = cv_specification_id row, sv_version = cv_version row,
      sv_title = cv_title row, sv_problem = cv_problem row, sv_intended_users = cv_intended_users row,
      sv_requirements = cv_requirements row, sv_exclusions = cv_exclusions row,
      sv_constraints = cv_constraints row, sv_created_by = cv_created_by row,
      sv_created_at = cv_created_at row\<rparr>"

definition work_item_row :: "work_item \<Rightarrow> cp_work_item_row" where
  "work_item_row w =
     \<lparr>ck_id = wi_id w, ck_organization_id = wi_organization_id w, ck_project_id = wi_project_id w,
      ck_specification_version_id = wi_specification_version_id w, ck_title = wi_title w,
      ck_description = wi_description w, ck_acceptance_criteria = wi_acceptance_criteria w,
      ck_status = work_item_status_value (wi_status w),
      ck_repository_connection_id = wi_repository_connection_id w,
      ck_provider_configuration_id = wi_provider_configuration_id w,
      ck_runner_pool_id = wi_runner_pool_id w, ck_budget = map_option budget_asdict (wi_budget w),
      ck_version = wi_version w\<rparr>"

text \<open>\<open>int(data[key])\<close> and \<open>str(data[key])\<close>; a value neither of them reads raises.\<close>

definition budget_int :: "(string \<times> json) list \<Rightarrow> string \<Rightarrow> cp_error + int" where
  "budget_int data key =
     (case map_of data key of
        None \<Rightarrow> Inl KeyE
      | Some v \<Rightarrow> (case py_int v of None \<Rightarrow> Inl (ValueE ''invalid literal for int()'') | Some i \<Rightarrow> Inr i))"

definition budget_of_column :: "(json \<Rightarrow> string) \<Rightarrow> json option \<Rightarrow> cp_error + budget option" where
  "budget_of_column repr column =
     (case column of
        None \<Rightarrow> Inr None
      | Some data \<Rightarrow>
          if \<not> truthy data then Inr None
          else (case data of
            JObj kvs \<Rightarrow>
              (case budget_int kvs ''max_duration_seconds'' of Inl e \<Rightarrow> Inl e | Inr duration \<Rightarrow>
              (case budget_int kvs ''max_attempts'' of Inl e \<Rightarrow> Inl e | Inr attempts \<Rightarrow>
              (case budget_int kvs ''max_turns'' of Inl e \<Rightarrow> Inl e | Inr turns \<Rightarrow>
              (case budget_int kvs ''max_cost_minor'' of Inl e \<Rightarrow> Inl e | Inr cost \<Rightarrow>
              (case map_of kvs ''currency'' of None \<Rightarrow> Inl KeyE | Some currency \<Rightarrow>
               (case Budget duration attempts turns cost (py_str repr currency) of
                  Inl message \<Rightarrow> Inl (ValidationE message) | Inr b \<Rightarrow> Inr (Some b)))))))
          | _ \<Rightarrow> Inl (ValueE ''the budget is not an object'')))"

definition work_item_of_row :: "(json \<Rightarrow> string) \<Rightarrow> cp_work_item_row \<Rightarrow> cp_error + work_item" where
  "work_item_of_row repr row =
     (case budget_of_column repr (ck_budget row) of
        Inl e \<Rightarrow> Inl e
      | Inr b \<Rightarrow>
          (case WorkItemStatus (ck_status row) of
             None \<Rightarrow> Inl (ValueE ''not a valid WorkItemStatus'')
           | Some status \<Rightarrow> Inr
               \<lparr>wi_id = ck_id row, wi_organization_id = ck_organization_id row,
                wi_project_id = ck_project_id row,
                wi_specification_version_id = ck_specification_version_id row,
                wi_title = ck_title row, wi_description = ck_description row,
                wi_acceptance_criteria = ck_acceptance_criteria row, wi_status = status,
                wi_repository_connection_id = ck_repository_connection_id row,
                wi_provider_configuration_id = ck_provider_configuration_id row,
                wi_runner_pool_id = ck_runner_pool_id row, wi_budget = b,
                wi_version = ck_version row\<rparr>))"

text \<open>\<open>event.model_dump(mode="json")\<close>.\<close>

definition dump_event_envelope :: "(time \<Rightarrow> string) \<Rightarrow> event_envelope \<Rightarrow> json" where
  "dump_event_envelope isoformat e =
     JObj [(''specversion'', JStr (ev_specversion e)), (''id'', JStr (str_uuid (ev_id e))),
           (''source'', JStr (ev_source e)), (''type'', JStr (ev_type e)),
           (''time'', JStr (isoformat (ev_time e))), (''subject'', JStr (ev_subject e)),
           (''organization_id'', JStr (str_uuid (ev_organization_id e))),
           (''aggregate_version'', JInt (ev_aggregate_version e)),
           (''correlation_id'', JStr (str_uuid (ev_correlation_id e))),
           (''causation_id'', opt_str (map_option str_uuid (ev_causation_id e))),
           (''traceparent'', opt_str (ev_traceparent e)), (''data'', JObj (ev_data e))]"

section \<open>The repository\<close>

text \<open>
  \<open>session.add(row)\<close> of a table with a tenant policy and of one without; a change of rows; the
  rows a \<open>select\<close> for an organization ranges over.
\<close>

definition cq_add :: "uuid \<Rightarrow> (cp_tables \<Rightarrow> bool) \<Rightarrow> (cp_tables \<Rightarrow> cp_tables) \<Rightarrow> unit cp_query" where
  "cq_add organization_id used w =
     insert_orS IntegrityE
       (\<lambda>s. ses_organization s \<noteq> Some organization_id \<or> used (ses_tables s))
       (\<lambda>s. s\<lparr>ses_tables := w (ses_tables s)\<rparr>)"

definition cq_add_free :: "(cp_tables \<Rightarrow> bool) \<Rightarrow> (cp_tables \<Rightarrow> cp_tables) \<Rightarrow> unit cp_query" where
  "cq_add_free used w =
     insert_orS IntegrityE (\<lambda>s. used (ses_tables s)) (\<lambda>s. s\<lparr>ses_tables := w (ses_tables s)\<rparr>)"

definition cq_write :: "(cp_tables \<Rightarrow> cp_tables) \<Rightarrow> unit cp_query" where
  "cq_write w = writeS (\<lambda>s. s\<lparr>ses_tables := w (ses_tables s)\<rparr>)"

definition selected :: "('v \<Rightarrow> uuid) \<Rightarrow> uuid \<Rightarrow> (cp_tables \<Rightarrow> ('k, 'v) dict) \<Rightarrow> cp_session \<Rightarrow> 'v list" where
  "selected org_of organization_id table s =
     filter (\<lambda>row. org_of row = organization_id)
       (visible org_of (ses_organization s) (table (ses_tables s)))"

text \<open>The one row of a \<open>select\<close> by organization and primary key.\<close>

definition selected_row ::
  "('v \<Rightarrow> uuid) \<Rightarrow> uuid \<Rightarrow> (cp_tables \<Rightarrow> ('k, 'v) dict) \<Rightarrow> 'k \<Rightarrow> cp_session \<Rightarrow> 'v option" where
  "selected_row org_of organization_id table k s =
     owned org_of organization_id (row_of org_of (ses_organization s) (table (ses_tables s)) k)"

text \<open>\<open>self._intake(row) if row else None\<close> and \<open>tuple(self._intake(row) for row in rows)\<close>.\<close>

definition decode_row :: "('r \<Rightarrow> cp_error + 'a) \<Rightarrow> 'r option \<Rightarrow> 'a option cp_query" where
  "decode_row decode found =
     (case found of None \<Rightarrow> returnS None | Some row \<Rightarrow> liftS (map_sum id Some (decode row)))"

fun decode_rows :: "('r \<Rightarrow> cp_error + 'a) \<Rightarrow> 'r list \<Rightarrow> cp_error + 'a list" where
  "decode_rows decode [] = Inr []"
| "decode_rows decode (row # rows) =
     (case decode row of
        Inl e \<Rightarrow> Inl e
      | Inr a \<Rightarrow> (case decode_rows decode rows of Inl e \<Rightarrow> Inl e | Inr as \<Rightarrow> Inr (a # as)))"

definition cq_set_organization :: "uuid \<Rightarrow> unit cp_query" where
  "cq_set_organization organization_id = writeS (\<lambda>s. s\<lparr>ses_organization := Some organization_id\<rparr>)"

definition cq_role_for :: "uuid \<Rightarrow> string \<Rightarrow> role option cp_query" where
  "cq_role_for organization_id subject =
     bindS (readS (selected_row cm_organization_id organization_id tb_memberships (organization_id, subject)))
      (\<lambda>found.
      case found of
        None \<Rightarrow> returnS None
      | Some row \<Rightarrow>
          if cm_role row = [] then returnS None
          else liftS (map_sum id Some (role_of_column (cm_role row))))"

definition cq_add_organization :: "organization \<Rightarrow> string \<Rightarrow> unit cp_query" where
  "cq_add_organization organization owner_subject =
     (let row = \<lparr>cm_organization_id = og_id organization, cm_subject = owner_subject,
                 cm_role = role_value OWNER\<rparr> in
      stepsS
        [cq_add (og_id organization) (\<lambda>t. dget (tb_organizations t) (og_id organization) \<noteq> None)
           (\<lambda>t. t\<lparr>tb_organizations := dset (og_id organization) organization (tb_organizations t)\<rparr>),
         cq_add (og_id organization)
           (\<lambda>t. dget (tb_memberships t) (og_id organization, owner_subject) \<noteq> None)
           (\<lambda>t. t\<lparr>tb_memberships := dset (og_id organization, owner_subject) row (tb_memberships t)\<rparr>),
         cq_add_free (\<lambda>t. dget (tb_membership_routing t) (owner_subject, og_id organization) \<noteq> None)
           (\<lambda>t. t\<lparr>tb_membership_routing :=
              dset (owner_subject, og_id organization) row (tb_membership_routing t)\<rparr>)])"

text \<open>The loop over the routes of a subject: each selects its organization and reads it.\<close>

fun cq_organizations_of :: "cp_routing_row list \<Rightarrow> (organization \<times> role) list cp_query" where
  "cq_organizations_of [] = returnS []"
| "cq_organizations_of (route # routes) =
     seqS (cq_set_organization (cm_organization_id route))
     (bindS (readS (\<lambda>s. row_of og_id (ses_organization s) (tb_organizations (ses_tables s))
                          (cm_organization_id route))) (\<lambda>found.
      case found of
        None \<Rightarrow> cq_organizations_of routes
      | Some organization \<Rightarrow>
          bindS (liftS (role_of_column (cm_role route))) (\<lambda>r.
          bindS (cq_organizations_of routes) (\<lambda>rest.
          returnS ((organization, r) # rest)))))"

definition cq_list_organizations_for_subject :: "string \<Rightarrow> (organization \<times> role) list cp_query" where
  "cq_list_organizations_for_subject subject =
     bindS (readS (\<lambda>s. filter (\<lambda>route. cm_subject route = subject)
                          (dvals (tb_membership_routing (ses_tables s))))) cq_organizations_of"

definition cq_add_project :: "project \<Rightarrow> unit cp_query" where
  "cq_add_project p =
     cq_add (pj_organization_id p) (\<lambda>t. dget (tb_projects t) (pj_id p) \<noteq> None)
       (\<lambda>t. t\<lparr>tb_projects := dset (pj_id p) p (tb_projects t)\<rparr>)"

definition cq_get_project :: "uuid \<Rightarrow> uuid \<Rightarrow> project option cp_query" where
  "cq_get_project organization_id project_id =
     readS (selected_row pj_organization_id organization_id tb_projects project_id)"

definition cq_list_projects :: "uuid \<Rightarrow> project list cp_query" where
  "cq_list_projects organization_id = readS (selected pj_organization_id organization_id tb_projects)"

definition cq_add_intake :: "intake_request \<Rightarrow> unit cp_query" where
  "cq_add_intake i =
     cq_add (ik_organization_id i) (\<lambda>t. dget (tb_intakes t) (ik_id i) \<noteq> None)
       (\<lambda>t. t\<lparr>tb_intakes := dset (ik_id i) (intake_row i) (tb_intakes t)\<rparr>)"

definition cq_get_intake :: "uuid \<Rightarrow> uuid \<Rightarrow> intake_request option cp_query" where
  "cq_get_intake organization_id intake_id =
     bindS (readS (selected_row ci_organization_id organization_id tb_intakes intake_id))
       (decode_row intake_of_row)"

text \<open>\<open>row = await session.get(Row, id); if row: row.status = ...\<close>.\<close>

definition cq_update ::
  "('v \<Rightarrow> uuid) \<Rightarrow> (cp_tables \<Rightarrow> ('k, 'v) dict) \<Rightarrow> 'k \<Rightarrow> ('v \<Rightarrow> cp_tables \<Rightarrow> cp_tables) \<Rightarrow> unit cp_query" where
  "cq_update org_of table k w =
     bindS (readS (\<lambda>s. row_of org_of (ses_organization s) (table (ses_tables s)) k)) (\<lambda>found.
     case found of None \<Rightarrow> returnS () | Some row \<Rightarrow> cq_write (w row))"

definition cq_update_intake :: "intake_request \<Rightarrow> unit cp_query" where
  "cq_update_intake i =
     cq_update ci_organization_id tb_intakes (ik_id i) (\<lambda>row t.
       t\<lparr>tb_intakes := dset (ik_id i) (row\<lparr>ci_status := intake_status_value (ik_status i)\<rparr>) (tb_intakes t)\<rparr>)"

definition cq_list_intakes :: "uuid \<Rightarrow> intake_request list cp_query" where
  "cq_list_intakes organization_id =
     bindS (readS (selected ci_organization_id organization_id tb_intakes))
       (\<lambda>rows. liftS (decode_rows intake_of_row rows))"

definition cq_add_specification :: "specification_record \<Rightarrow> specification_version \<Rightarrow> unit cp_query" where
  "cq_add_specification sp v =
     stepsS
       [cq_add (sp_organization_id sp)
          (\<lambda>t. dget (tb_specifications t) (sp_id sp) \<noteq> None \<or>
             (\<exists>row \<in> set (dvals (tb_specifications t)). cs_intake_id row = sp_intake_id sp))
          (\<lambda>t. t\<lparr>tb_specifications := dset (sp_id sp) (specification_row sp) (tb_specifications t)\<rparr>),
        cq_add (sp_organization_id sp)
          (\<lambda>t. dget (tb_specification_versions t) (sv_id v) \<noteq> None \<or>
             (\<exists>row \<in> set (dvals (tb_specification_versions t)).
                cv_specification_id row = sv_specification_id v \<and> cv_version row = sv_version v))
          (\<lambda>t. t\<lparr>tb_specification_versions :=
             dset (sv_id v) (version_row (sp_organization_id sp) v) (tb_specification_versions t)\<rparr>)]"

definition cq_get_specification :: "uuid \<Rightarrow> uuid \<Rightarrow> specification_record option cp_query" where
  "cq_get_specification organization_id specification_id =
     bindS (readS (selected_row cs_organization_id organization_id tb_specifications specification_id))
       (decode_row specification_of_row)"

definition cq_get_specification_version :: "uuid \<Rightarrow> uuid \<Rightarrow> specification_version option cp_query" where
  "cq_get_specification_version organization_id version_id =
     readS (\<lambda>s. map_option version_of_row
       (selected_row cv_organization_id organization_id tb_specification_versions version_id s))"

definition cq_update_specification :: "specification_record \<Rightarrow> unit cp_query" where
  "cq_update_specification sp =
     cq_update cs_organization_id tb_specifications (sp_id sp) (\<lambda>row t.
       t\<lparr>tb_specifications := dset (sp_id sp)
          (row\<lparr>cs_status := specification_status_value (sp_status sp),
              cs_current_version := sp_current_version sp,
              cs_current_version_id := sp_current_version_id sp\<rparr>) (tb_specifications t)\<rparr>)"

definition cq_list_specifications :: "uuid \<Rightarrow> specification_record list cp_query" where
  "cq_list_specifications organization_id =
     bindS (readS (selected cs_organization_id organization_id tb_specifications))
       (\<lambda>rows. liftS (decode_rows specification_of_row rows))"

definition cq_add_approval :: "approval \<Rightarrow> unit cp_query" where
  "cq_add_approval a =
     cq_add (ap_organization_id a) (\<lambda>t. dget (tb_approvals t) (ap_id a) \<noteq> None)
       (\<lambda>t. t\<lparr>tb_approvals := dset (ap_id a) a (tb_approvals t)\<rparr>)"

definition cq_add_work_item :: "work_item \<Rightarrow> unit cp_query" where
  "cq_add_work_item w =
     cq_add (wi_organization_id w) (\<lambda>t. dget (tb_work_items t) (wi_id w) \<noteq> None)
       (\<lambda>t. t\<lparr>tb_work_items := dset (wi_id w) (work_item_row w) (tb_work_items t)\<rparr>)"

definition cq_get_work_item :: "(json \<Rightarrow> string) \<Rightarrow> uuid \<Rightarrow> uuid \<Rightarrow> work_item option cp_query" where
  "cq_get_work_item repr organization_id work_item_id =
     bindS (readS (selected_row ck_organization_id organization_id tb_work_items work_item_id))
       (decode_row (work_item_of_row repr))"

definition cq_update_work_item :: "work_item \<Rightarrow> unit cp_query" where
  "cq_update_work_item w =
     cq_update ck_organization_id tb_work_items (wi_id w) (\<lambda>row t.
       t\<lparr>tb_work_items := dset (wi_id w)
          (row\<lparr>ck_status := work_item_status_value (wi_status w),
              ck_repository_connection_id := wi_repository_connection_id w,
              ck_provider_configuration_id := wi_provider_configuration_id w,
              ck_runner_pool_id := wi_runner_pool_id w,
              ck_budget := map_option budget_asdict (wi_budget w),
              ck_version := wi_version w\<rparr>) (tb_work_items t)\<rparr>)"

definition cq_list_work_items :: "(json \<Rightarrow> string) \<Rightarrow> uuid \<Rightarrow> work_item list cp_query" where
  "cq_list_work_items repr organization_id =
     bindS (readS (selected ck_organization_id organization_id tb_work_items))
       (\<lambda>rows. liftS (decode_rows (work_item_of_row repr) rows))"

text \<open>The last hundred audit events, the latest first, without their number and time.\<close>

definition cq_list_audits :: "uuid \<Rightarrow> cp_audit list cp_query" where
  "cq_list_audits organization_id =
     readS (\<lambda>s. take 100 (rev (map cu_audit
       (filter (\<lambda>row. ca_organization_id (cu_audit row) = organization_id \<and>
                       ses_organization s = Some (ca_organization_id (cu_audit row)))
          (tb_audits (ses_tables s))))))"

definition cq_add_audit :: "time \<Rightarrow> cp_audit \<Rightarrow> unit cp_query" where
  "cq_add_audit now a =
     cq_add (ca_organization_id a) (\<lambda>t. False)
       (\<lambda>t. t\<lparr>tb_audits := tb_audits t @
          [\<lparr>cu_id = int (length (tb_audits t)) + 1, cu_audit = a, cu_created_at = now\<rparr>]\<rparr>)"

definition cq_add_outbox :: "(time \<Rightarrow> string) \<Rightarrow> time \<Rightarrow> event_envelope \<Rightarrow> unit cp_query" where
  "cq_add_outbox isoformat now event =
     stepsS
       [cq_add (ev_organization_id event) (\<lambda>t. dget (tb_outbox t) (ev_id event) \<noteq> None)
          (\<lambda>t. t\<lparr>tb_outbox := dset (ev_id event)
             \<lparr>cx_id = ev_id event, cx_organization_id = ev_organization_id event,
              cx_event_type = ev_type event, cx_payload = dump_event_envelope isoformat event,
              cx_created_at = now, cx_published_at = None\<rparr> (tb_outbox t)\<rparr>),
        cq_add_free (\<lambda>t. dget (tb_outbox_routing t) (ev_id event) \<noteq> None)
          (\<lambda>t. t\<lparr>tb_outbox_routing := dset (ev_id event) (ev_organization_id event) (tb_outbox_routing t)\<rparr>)]"

section \<open>The unit of work\<close>

text \<open>
  A new session begins on the committed tables with no organization selected. Closing it gives up
  what was not committed, with an exception or without; a commit ends the transaction and with it
  the setting of the organization, which is local to it.
\<close>

definition cq_enter :: "cp_session \<Rightarrow> cp_session" where
  "cq_enter s = s\<lparr>ses_tables := ses_committed s, ses_organization := None\<rparr>"

definition cq_exit :: "bool \<Rightarrow> cp_session \<Rightarrow> cp_session" where
  "cq_exit raised s = s\<lparr>ses_tables := ses_committed s, ses_organization := None\<rparr>"

definition cq_commit :: "unit cp_query" where
  "cq_commit = writeS (\<lambda>s. s\<lparr>ses_committed := ses_tables s, ses_organization := None\<rparr>)"

definition PostgresUnitOfWork ::
  "(json \<Rightarrow> string) \<Rightarrow> (time \<Rightarrow> string) \<Rightarrow> time \<Rightarrow> cp_session cp_uow" where
  "PostgresUnitOfWork repr isoformat now =
     \<lparr>uw_enter = cq_enter, uw_exit = cq_exit,
      uw_set_organization = cq_set_organization, uw_commit = cq_commit,
      rp_role_for = cq_role_for, rp_add_organization = cq_add_organization,
      rp_list_organizations_for_subject = cq_list_organizations_for_subject,
      rp_add_project = cq_add_project, rp_get_project = cq_get_project,
      rp_list_projects = cq_list_projects,
      rp_add_intake = cq_add_intake, rp_get_intake = cq_get_intake,
      rp_update_intake = cq_update_intake, rp_list_intakes = cq_list_intakes,
      rp_add_specification = cq_add_specification,
      rp_get_specification = cq_get_specification,
      rp_get_specification_version = cq_get_specification_version,
      rp_update_specification = cq_update_specification,
      rp_list_specifications = cq_list_specifications,
      rp_add_approval = cq_add_approval,
      rp_add_work_item = cq_add_work_item, rp_get_work_item = cq_get_work_item repr,
      rp_update_work_item = cq_update_work_item, rp_list_work_items = cq_list_work_items repr,
      rp_list_audits = cq_list_audits, rp_add_audit = cq_add_audit now,
      rp_add_outbox = cq_add_outbox isoformat now\<rparr>"

end
