(* ===== verification/CpLifecycle.thy ===== *)
theory CpLifecycle
  imports CpService
begin

text \<open>
  The control plane as a state machine over its memory repository: one rule per use case of
  \<open>ControlPlaneService\<close>, labelled with the organization it names and run by any actor with any arguments, successful or not. The only
  assumption about the environment is the documented one on \<open>uuid4()\<close>, that a drawn
  identifier is not in use. The start states hold any memberships and no work.

  The invariant ties the aggregates together: an intake and its specification move in step,
  a work item stems from an approved specification version and a recorded approval, and a
  ready work item has put exactly one event into the outbox.
\<close>

section \<open>The step relation\<close>

definition cp_start :: "cp_memory \<Rightarrow> bool" where
  "cp_start s \<longleftrightarrow>
     mm_projects s = [] \<and> mm_intakes s = [] \<and> mm_specifications s = [] \<and>
     mm_specification_versions s = [] \<and> mm_approvals s = [] \<and> mm_work_items s = [] \<and>
     mm_outbox s = []"

inductive cp_step :: "uuid option \<Rightarrow> cp_memory \<Rightarrow> cp_memory \<Rightarrow> bool" where
  organization: "create_organization MemoryUnitOfWork org now eid now' actor name corr s = (r1, s') \<Longrightarrow>
     dget (mm_organizations s) org = None \<Longrightarrow> cp_step (Some org) s s'"
| list: "organizations_for MemoryUnitOfWork actor s = (r2, s') \<Longrightarrow> cp_step None s s'"
| dashboard: "dashboard MemoryUnitOfWork actor org s = (r3, s') \<Longrightarrow> cp_step (Some org) s s'"
| project: "create_project MemoryUnitOfWork pid now actor org name descr corr s = (r4, s') \<Longrightarrow>
     dget (mm_projects s) pid = None \<Longrightarrow> cp_step (Some org) s s'"
| intake: "submit_intake MemoryUnitOfWork iid now actor org pid cid prob users req excl con corr s
       = (r5, s') \<Longrightarrow> dget (mm_intakes s) iid = None \<Longrightarrow> cp_step (Some org) s s'"
| draft: "draft_specification MemoryUnitOfWork sid vid now actor org iid title corr s = (r6, s') \<Longrightarrow>
     dget (mm_specifications s) sid = None \<Longrightarrow> dget (mm_specification_versions s) vid = None \<Longrightarrow>
     cp_step (Some org) s s'"
| submit: "submit_specification MemoryUnitOfWork actor org sid corr s = (r7, s') \<Longrightarrow> cp_step (Some org) s s'"
| approve: "approve_specification MemoryUnitOfWork aid now wid actor org sid reason corr s = (r8, s') \<Longrightarrow>
     dget (mm_approvals s) aid = None \<Longrightarrow> dget (mm_work_items s) wid = None \<Longrightarrow> cp_step (Some org) s s'"
| review: "review_work_item MemoryUnitOfWork actor org wid corr s = (r9, s') \<Longrightarrow> cp_step (Some org) s s'"
| ready: "ready_work_item MemoryUnitOfWork eid now actor org wid rc pc rp b corr s = (r10, s') \<Longrightarrow>
     wf_budget b \<Longrightarrow> cp_step (Some org) s s'"

inductive cp_reachable :: "cp_memory \<Rightarrow> bool" where
  start: "cp_start s \<Longrightarrow> cp_reachable s"
| step: "cp_reachable s \<Longrightarrow> cp_step l s s' \<Longrightarrow> cp_reachable s'"

section \<open>The invariant\<close>

definition keys_inv :: "cp_memory \<Rightarrow> bool" where
  "keys_inv s \<longleftrightarrow>
     keyed ik_id (mm_intakes s) \<and> keyed sp_id (mm_specifications s) \<and>
     keyed sv_id (mm_specification_versions s) \<and> keyed wi_id (mm_work_items s) \<and>
     keyed pj_id (mm_projects s)"

fun intake_phase :: "specification_status \<Rightarrow> intake_status" where
  "intake_phase SS_DRAFT = IS_SPECIFICATION_DRAFTED"
| "intake_phase SS_AWAITING_APPROVAL = IS_AWAITING_APPROVAL"
| "intake_phase SS_APPROVED = IS_SPECIFICATION_APPROVED"
| "intake_phase SS_SUPERSEDED = IS_SPECIFICATION_APPROVED"

definition in_step :: "cp_memory \<Rightarrow> specification_record \<Rightarrow> bool" where
  "in_step s sp \<longleftrightarrow>
     (\<exists>i. dget (mm_intakes s) (sp_intake_id sp) = Some i \<and>
          ik_organization_id i = sp_organization_id sp \<and> ik_status i = intake_phase (sp_status sp)) \<and>
     (\<exists>v. dget (mm_specification_versions s) (sp_current_version_id sp) = Some v \<and>
          sv_specification_id v = sp_id sp \<and> sv_version v = sp_current_version sp)"

definition specification_inv :: "cp_memory \<Rightarrow> bool" where
  "specification_inv s \<longleftrightarrow>
     (\<forall>k sp. dget (mm_specifications s) k = Some sp \<longrightarrow> in_step s sp) \<and>
     (\<forall>k1 sp1 k2 sp2. dget (mm_specifications s) k1 = Some sp1 \<longrightarrow>
        dget (mm_specifications s) k2 = Some sp2 \<longrightarrow> sp_intake_id sp1 = sp_intake_id sp2 \<longrightarrow> k1 = k2)"

definition approved_by_reviewer :: "cp_memory \<Rightarrow> specification_record \<Rightarrow> approval \<Rightarrow> bool" where
  "approved_by_reviewer s sp a \<longleftrightarrow>
     ap_subject_id a = sp_id sp \<and> ap_subject_version a = sp_current_version sp \<and>
     ap_decision a = ''APPROVED'' \<and> ap_organization_id a = sp_organization_id sp \<and>
     (\<exists>r \<in> REVIEWERS. dget (mm_memberships s) (ap_organization_id a, ap_actor_subject a) = Some r)"

definition traced :: "cp_memory \<Rightarrow> work_item \<Rightarrow> bool" where
  "traced s w \<longleftrightarrow>
     (\<exists>v sp k a. dget (mm_specification_versions s) (wi_specification_version_id w) = Some v \<and>
        dget (mm_specifications s) (sv_specification_id v) = Some sp \<and>
        sp_status sp = SS_APPROVED \<and> sp_current_version_id sp = sv_id v \<and>
        sp_organization_id sp = wi_organization_id w \<and>
        wi_title w = sv_title v \<and> wi_description w = sv_problem v \<and>
        wi_acceptance_criteria w = sv_requirements v \<and>
        dget (mm_approvals s) k = Some a \<and> approved_by_reviewer s sp a)"

definition ready_events :: "cp_memory \<Rightarrow> uuid \<Rightarrow> event_envelope list" where
  "ready_events s k =
     filter (\<lambda>e. ev_type e = ''com.mvp.work_item.ready.v1'' \<and>
                 ev_subject e = ''work-item/'' @ str_uuid k) (mm_outbox s)"

fun status_version :: "work_item_status \<Rightarrow> int" where
  "status_version WS_IN_REVIEW = 1"
| "status_version WS_REVIEWED = 2"
| "status_version _ = 3"

definition wi_shape :: "work_item \<Rightarrow> bool" where
  "wi_shape w \<longleftrightarrow>
     wi_status w \<in> {WS_IN_REVIEW, WS_REVIEWED, WS_READY} \<and>
     wi_version w = status_version (wi_status w) \<and>
     (if wi_status w = WS_READY
      then (\<exists>b. wi_budget w = Some b \<and> wf_budget b) \<and> wi_repository_connection_id w \<noteq> None \<and>
           wi_provider_configuration_id w \<noteq> None \<and> wi_runner_pool_id w \<noteq> None
      else wi_budget w = None)"

definition announced :: "cp_memory \<Rightarrow> uuid \<Rightarrow> bool" where
  "announced s k \<longleftrightarrow>
     (case dget (mm_work_items s) k of
        Some w \<Rightarrow> if wi_status w = WS_READY
                  then \<exists>e. ready_events s k = [e] \<and> ev_aggregate_version e = wi_version w \<and>
                           ev_organization_id e = wi_organization_id w
                  else ready_events s k = []
      | None \<Rightarrow> ready_events s k = [])"

definition work_item_inv :: "cp_memory \<Rightarrow> bool" where
  "work_item_inv s \<longleftrightarrow>
     (\<forall>k w. dget (mm_work_items s) k = Some w \<longrightarrow> traced s w \<and> wi_shape w)"

definition outbox_inv :: "cp_memory \<Rightarrow> bool" where
  "outbox_inv s \<longleftrightarrow> (\<forall>k. announced s k)"

definition cp_inv :: "cp_memory \<Rightarrow> bool" where
  "cp_inv s \<longleftrightarrow> keys_inv s \<and> specification_inv s \<and> work_item_inv s \<and> outbox_inv s"

lemmas cp_inv_defs = cp_inv_def keys_inv_def specification_inv_def work_item_inv_def
  outbox_inv_def in_step_def traced_def approved_by_reviewer_def announced_def ready_events_def

lemma cp_inv_start: "cp_start s \<Longrightarrow> cp_inv s"
  by (simp add: cp_start_def cp_inv_defs)

section \<open>What each use case does to the memory repository\<close>

lemmas effect_simps = service_iffs memory_defs cp_transitions Let_def audit_def owned_Some_iff
  EventEnvelope_Inr_iff memory_get_specification_version_Some_iff

definition same_data :: "cp_memory \<Rightarrow> cp_memory \<Rightarrow> bool" where
  "same_data s s' \<longleftrightarrow> (\<exists>f g. s' = s\<lparr>mm_organization_id := f, mm_committed := g\<rparr>)"

lemma same_dataI [intro]:
  "same_data s (s\<lparr>mm_organization_id := f, mm_committed := g\<rparr>)"
  "same_data s (s\<lparr>mm_committed := g, mm_organization_id := f\<rparr>)"
  "same_data s (s\<lparr>mm_organization_id := f\<rparr>)"
  "same_data s (s\<lparr>mm_committed := g\<rparr>)"
  "same_data s s"
  by (cases s; auto simp: same_data_def)+

lemma create_project_effect:
  "create_project MemoryUnitOfWork pid now actor org name descr corr s = (Inr p, s') \<Longrightarrow>
   \<exists>a. s' = s\<lparr>mm_organization_id := Some org,
              mm_projects := dset pid p (mm_projects s), mm_audits := mm_audits s @ [a], mm_committed := True\<rparr> \<and>
       ca_organization_id a = org \<and>
       pj_id p = pid \<and> pj_organization_id p = org"
  by (auto simp: create_project_def effect_simps)

lemma create_organization_effect:
  "create_organization MemoryUnitOfWork org now eid now' actor name corr s = (Inr o', s') \<Longrightarrow>
   \<exists>a e. s' = s\<lparr>mm_organization_id := Some org,
              mm_organizations := dset org o' (mm_organizations s),
              mm_memberships := dset (org, actor) OWNER (mm_memberships s),
              mm_outbox := mm_outbox s @ [e], mm_audits := mm_audits s @ [a], mm_committed := True\<rparr> \<and>
       ca_organization_id a = org \<and>
       ev_type e = ''com.mvp.membership.changed.v1'' \<and> ev_organization_id e = org"
  by (clarsimp simp: create_organization_def effect_simps)
     (rule exI, rule exI, rule conjI, rule refl, simp)

lemma submit_intake_effect:
  "submit_intake MemoryUnitOfWork iid now actor org pid cid prob users req excl con corr s
     = (Inr i, s') \<Longrightarrow>
   \<exists>a. s' = s\<lparr>mm_organization_id := Some org,
              mm_intakes := dset iid i (mm_intakes s), mm_audits := mm_audits s @ [a], mm_committed := True\<rparr> \<and>
       ca_organization_id a = org \<and>
       ik_id i = iid \<and> ik_organization_id i = org \<and> ik_status i = IS_RECEIVED \<and>
       (\<exists>p. dget (mm_projects s) (ik_project_id i) = Some p \<and> pj_organization_id p = org)"
  by (auto simp: submit_intake_def effect_simps)

lemma draft_specification_effect:
  "draft_specification MemoryUnitOfWork sid vid now actor org iid title corr s = (Inr (sp, v), s') \<Longrightarrow>
   \<exists>i a. dget (mm_intakes s) iid = Some i \<and> ik_organization_id i = org \<and>
       ik_status i \<in> {IS_RECEIVED, IS_CLARIFICATION_REQUIRED} \<and>
       s' = s\<lparr>mm_organization_id := Some org,
              mm_intakes := dset (ik_id i) (i\<lparr>ik_status := IS_SPECIFICATION_DRAFTED\<rparr>) (mm_intakes s),
              mm_specifications := dset sid sp (mm_specifications s),
              mm_specification_versions := dset vid v (mm_specification_versions s),
              mm_audits := mm_audits s @ [a], mm_committed := True\<rparr> \<and>
       ca_organization_id a = org \<and>
       sp_id sp = sid \<and> sp_organization_id sp = org \<and> sp_project_id sp = ik_project_id i \<and>
       sp_intake_id sp = ik_id i \<and>
       sp_current_version_id sp = vid \<and> sp_current_version sp = 1 \<and> sp_status sp = SS_DRAFT \<and>
       sv_id v = vid \<and> sv_specification_id v = sid \<and> sv_version v = 1 \<and>
       sv_requirements v = ik_required_functionality i \<and> sv_problem v = ik_problem i"
  by (clarsimp simp: draft_specification_def effect_simps) (intro exI conjI, rule refl, simp_all)

lemma submit_specification_effect:
  "submit_specification MemoryUnitOfWork actor org sid corr s = (Inr sp', s') \<Longrightarrow>
   \<exists>sp i a. dget (mm_specifications s) sid = Some sp \<and> sp_organization_id sp = org \<and>
       dget (mm_intakes s) (sp_intake_id sp) = Some i \<and> ik_organization_id i = org \<and>
       sp_status sp = SS_DRAFT \<and> ik_status i = IS_SPECIFICATION_DRAFTED \<and>
       sp' = sp\<lparr>sp_status := SS_AWAITING_APPROVAL\<rparr> \<and>
       s' = s\<lparr>mm_organization_id := Some org,
              mm_specifications := dset (sp_id sp) sp' (mm_specifications s),
              mm_intakes := dset (ik_id i) (i\<lparr>ik_status := IS_AWAITING_APPROVAL\<rparr>) (mm_intakes s),
              mm_audits := mm_audits s @ [a], mm_committed := True\<rparr> \<and>
       ca_organization_id a = org"
  by (clarsimp simp: submit_specification_def effect_simps) (intro exI conjI, rule refl, simp_all)

lemma approve_specification_effect:
  "approve_specification MemoryUnitOfWork aid now wid actor org sid reason corr s = (Inr (sp', w), s') \<Longrightarrow>
   \<exists>sp i v a r. dget (mm_specifications s) sid = Some sp \<and> sp_organization_id sp = org \<and>
       dget (mm_specification_versions s) (sp_current_version_id sp) = Some v \<and>
       (\<exists>sp2. dget (mm_specifications s) (sv_specification_id v) = Some sp2 \<and>
              sp_organization_id sp2 = org) \<and>
       dget (mm_intakes s) (sp_intake_id sp) = Some i \<and> ik_organization_id i = org \<and>
       sp_status sp = SS_AWAITING_APPROVAL \<and> ik_status i = IS_AWAITING_APPROVAL \<and>
       dget (mm_memberships s) (org, actor) = Some r \<and> r \<in> REVIEWERS \<and>
       sp' = sp\<lparr>sp_status := SS_APPROVED\<rparr> \<and>
       w = \<lparr>wi_id = wid, wi_organization_id = org, wi_project_id = sp_project_id sp,
            wi_specification_version_id = sv_id v, wi_title = sv_title v,
            wi_description = sv_problem v, wi_acceptance_criteria = sv_requirements v,
            wi_status = WS_IN_REVIEW, wi_repository_connection_id = None,
            wi_provider_configuration_id = None, wi_runner_pool_id = None,
            wi_budget = None, wi_version = 1\<rparr> \<and>
       s' = s\<lparr>mm_organization_id := Some org,
              mm_specifications := dset (sp_id sp) sp' (mm_specifications s),
              mm_intakes := dset (ik_id i) (i\<lparr>ik_status := IS_SPECIFICATION_APPROVED\<rparr>) (mm_intakes s),
              mm_approvals := dset aid
                \<lparr>ap_id = aid, ap_organization_id = org, ap_subject_type = ''specification'',
                 ap_subject_id = sp_id sp, ap_subject_version = sp_current_version sp,
                 ap_decision = ''APPROVED'', ap_actor_subject = actor, ap_reason = reason,
                 ap_created_at = now\<rparr> (mm_approvals s),
              mm_work_items := dset wid w (mm_work_items s),
              mm_audits := mm_audits s @ [a], mm_committed := True\<rparr> \<and>
       ca_organization_id a = org"
  by (clarsimp simp: approve_specification_def effect_simps) (intro exI conjI, rule refl, simp_all)

lemma review_work_item_effect:
  "review_work_item MemoryUnitOfWork actor org wid corr s = (Inr w', s') \<Longrightarrow>
   \<exists>w a. dget (mm_work_items s) wid = Some w \<and> wi_organization_id w = org \<and>
       wi_status w = WS_IN_REVIEW \<and>
       w' = w\<lparr>wi_status := WS_REVIEWED, wi_version := wi_version w + 1\<rparr> \<and>
       s' = s\<lparr>mm_organization_id := Some org,
              mm_work_items := dset (wi_id w) w' (mm_work_items s), mm_audits := mm_audits s @ [a], mm_committed := True\<rparr> \<and>
       ca_organization_id a = org"
  by (clarsimp simp: review_work_item_def effect_simps) (intro exI conjI, rule refl, simp_all)

lemma ready_work_item_effect:
  "ready_work_item MemoryUnitOfWork eid now actor org wid rc pc rp b corr s = (Inr w', s') \<Longrightarrow>
   \<exists>w a e. s' = s\<lparr>mm_organization_id := Some org,
              mm_work_items := dset (wi_id w) w' (mm_work_items s),
              mm_outbox := mm_outbox s @ [e], mm_audits := mm_audits s @ [a],
              mm_committed := True\<rparr> \<and>
       ca_organization_id a = org \<and>
       w' = w\<lparr>wi_repository_connection_id := Some rc, wi_provider_configuration_id := Some pc,
              wi_runner_pool_id := Some rp, wi_budget := Some b, wi_status := WS_READY,
              wi_version := wi_version w + 1\<rparr> \<and>
       dget (mm_work_items s) wid = Some w \<and> wi_organization_id w = org \<and>
       wi_status w = WS_REVIEWED \<and>
       ev_type e = ''com.mvp.work_item.ready.v1'' \<and> ev_id e = eid \<and>
       ev_subject e = ''work-item/'' @ str_uuid (wi_id w) \<and> ev_organization_id e = org \<and>
       ev_aggregate_version e = wi_version w + 1 \<and> ev_data e = ready_event_data rc pc rp b w'"
  by (clarsimp simp: ready_work_item_def effect_simps)
     (rule exI, rule exI, rule conjI, rule refl, simp)

text \<open>A use case that raises leaves the data alone.\<close>

lemma failed_effect:
  "create_organization MemoryUnitOfWork org now eid now' actor name corr s = (Inl e, s') \<Longrightarrow> same_data s s'"
  "organizations_for MemoryUnitOfWork actor s = (r2, s') \<Longrightarrow> same_data s s'"
  "dashboard MemoryUnitOfWork actor org s = (r3, s') \<Longrightarrow> same_data s s'"
  "create_project MemoryUnitOfWork pid now actor org name descr corr s = (Inl e, s') \<Longrightarrow> same_data s s'"
  "submit_intake MemoryUnitOfWork iid now actor org pid cid prob users req excl con corr s
     = (Inl e, s') \<Longrightarrow> same_data s s'"
  "draft_specification MemoryUnitOfWork sid vid now actor org iid title corr s = (Inl e, s') \<Longrightarrow> same_data s s'"
  "submit_specification MemoryUnitOfWork actor org sid corr s = (Inl e, s') \<Longrightarrow> same_data s s'"
  "approve_specification MemoryUnitOfWork aid now wid actor org sid reason corr s = (Inl e, s') \<Longrightarrow> same_data s s'"
  "review_work_item MemoryUnitOfWork actor org wid corr s = (Inl e, s') \<Longrightarrow> same_data s s'"
          apply (auto simp: create_organization_def effect_simps EventEnvelope_def)[1]
         apply (cases r2; auto simp: organizations_for_def effect_simps)[1]
        apply (cases r3; auto simp: dashboard_def effect_simps)[1]
       apply (auto simp: create_project_def effect_simps)[1]
      apply (auto simp: submit_intake_def effect_simps)[1]
     apply (auto simp: draft_specification_def effect_simps)[1]
    apply (auto simp: submit_specification_def effect_simps)[1]
   apply (auto simp: approve_specification_def effect_simps)[1]
  apply (auto simp: review_work_item_def effect_simps)[1]
  done

section \<open>The invariant is preserved\<close>

text \<open>
  The parts of the invariant, each with the fields it depends on: a step that keeps the
  fields keeps the part.
\<close>

definition reviewers_kept :: "cp_memory \<Rightarrow> cp_memory \<Rightarrow> bool" where
  "reviewers_kept s s' \<longleftrightarrow>
     (\<forall>k r. dget (mm_memberships s) k = Some r \<longrightarrow> r \<in> REVIEWERS \<longrightarrow>
        (\<exists>r' \<in> REVIEWERS. dget (mm_memberships s') k = Some r'))"

lemma reviewers_kept_same [simp]: "mm_memberships s' = mm_memberships s \<Longrightarrow> reviewers_kept s s'"
  by (auto simp: reviewers_kept_def)

lemma approved_by_reviewer_kept:
  "reviewers_kept s s' \<Longrightarrow> approved_by_reviewer s sp a \<Longrightarrow> approved_by_reviewer s' sp a"
  by (auto simp: reviewers_kept_def approved_by_reviewer_def)

text \<open>Approved specifications, their versions and approvals are never touched again.\<close>

definition history_kept :: "cp_memory \<Rightarrow> cp_memory \<Rightarrow> bool" where
  "history_kept s s' \<longleftrightarrow>
     reviewers_kept s s' \<and>
     (\<forall>k v. dget (mm_specification_versions s) k = Some v \<longrightarrow>
        dget (mm_specification_versions s') k = Some v) \<and>
     (\<forall>k sp. dget (mm_specifications s) k = Some sp \<longrightarrow> sp_status sp = SS_APPROVED \<longrightarrow>
        dget (mm_specifications s') k = Some sp) \<and>
     (\<forall>k a. dget (mm_approvals s) k = Some a \<longrightarrow> dget (mm_approvals s') k = Some a)"

lemma traced_kept: "history_kept s s' \<Longrightarrow> traced s w \<Longrightarrow> traced s' w"
  unfolding traced_def
  by (elim exE, rule exI, rule exI, rule exI, rule exI)
     (auto simp: history_kept_def intro: approved_by_reviewer_kept)

lemma work_item_inv_kept:
  "history_kept s s' \<Longrightarrow> mm_work_items s' = mm_work_items s \<Longrightarrow> work_item_inv s \<Longrightarrow> work_item_inv s'"
  by (auto simp: work_item_inv_def intro: traced_kept)

lemma specification_inv_kept:
  "mm_intakes s' = mm_intakes s \<Longrightarrow> mm_specifications s' = mm_specifications s \<Longrightarrow>
   mm_specification_versions s' = mm_specification_versions s \<Longrightarrow>
   specification_inv s \<Longrightarrow> specification_inv s'"
  by (simp add: specification_inv_def in_step_def)

lemma announced_kept:
  "ready_events s' k = ready_events s k \<Longrightarrow> dget (mm_work_items s') k = dget (mm_work_items s) k \<Longrightarrow>
   announced s' k \<longleftrightarrow> announced s k"
  by (simp add: announced_def cong: option.case_cong)

lemma outbox_inv_kept:
  "ready_events s' = ready_events s \<Longrightarrow> mm_work_items s' = mm_work_items s \<Longrightarrow>
   outbox_inv s \<Longrightarrow> outbox_inv s'"
  by (simp add: outbox_inv_def announced_kept [of s' _ s])

lemma ready_events_same [intro]: "mm_outbox s' = mm_outbox s \<Longrightarrow> ready_events s' = ready_events s"
  by (rule ext) (simp add: ready_events_def)

lemma ready_events_append:
  "mm_outbox s' = mm_outbox s @ [e] \<Longrightarrow>
   ready_events s' k = ready_events s k @
     (if ev_type e = ''com.mvp.work_item.ready.v1'' \<and> ev_subject e = ''work-item/'' @ str_uuid k
      then [e] else [])"
  by (simp add: ready_events_def)

lemma history_kept_same:
  "mm_memberships s' = mm_memberships s \<Longrightarrow>
   mm_specification_versions s' = mm_specification_versions s \<Longrightarrow>
   mm_specifications s' = mm_specifications s \<Longrightarrow> mm_approvals s' = mm_approvals s \<Longrightarrow>
   history_kept s s'"
  by (simp add: history_kept_def)

lemma same_data_inv:
  assumes "same_data s s'" and "cp_inv s"
  shows "cp_inv s'"
  using assms history_kept_same [of s' s] work_item_inv_kept [of s s']
    specification_inv_kept [of s' s] outbox_inv_kept [of s' s] ready_events_same [of s' s]
  by (auto simp: same_data_def cp_inv_def keys_inv_def)

lemma create_organization_inv:
  assumes "create_organization MemoryUnitOfWork org now eid now' actor name corr s = (Inr o', s')"
    and "cp_inv s"
  shows "cp_inv s'"
proof -
  obtain a e where s': "s' = s\<lparr>mm_organization_id := Some org,
      mm_organizations := dset org o' (mm_organizations s),
      mm_memberships := dset (org, actor) OWNER (mm_memberships s),
      mm_outbox := mm_outbox s @ [e], mm_audits := mm_audits s @ [a], mm_committed := True\<rparr>"
    and e: "ev_type e = ''com.mvp.membership.changed.v1''"
    using create_organization_effect [OF assms(1)] by blast
  have "history_kept s s'" by (auto simp: s' history_kept_def reviewers_kept_def role_sets)
  then have "work_item_inv s'"
    using assms(2) by (auto simp: cp_inv_def s' intro: work_item_inv_kept)
  moreover have "specification_inv s'"
    using assms(2) by (auto simp: cp_inv_def s' intro: specification_inv_kept)
  moreover have "ready_events s' = ready_events s"
    using ready_events_append [of s' s e] e by (intro ext) (simp add: s')
  then have "outbox_inv s'" using assms(2) by (auto simp: cp_inv_def s' intro: outbox_inv_kept)
  moreover have "keys_inv s'" using assms(2) by (simp add: s' cp_inv_def keys_inv_def)
  ultimately show ?thesis by (simp add: cp_inv_def)
qed

lemma create_project_inv:
  assumes "create_project MemoryUnitOfWork pid now actor org name descr corr s = (Inr p, s')"
    and "cp_inv s"
  shows "cp_inv s'"
proof -
  obtain a where "s' = s\<lparr>mm_organization_id := Some org, mm_projects := dset pid p (mm_projects s),
      mm_audits := mm_audits s @ [a], mm_committed := True\<rparr>" "pj_id p = pid"
    using create_project_effect [OF assms(1)] by blast
  then show ?thesis
    using assms(2) history_kept_same [of s' s] work_item_inv_kept [of s s']
      specification_inv_kept [of s' s] outbox_inv_kept [of s' s] ready_events_same [of s' s]
    by (simp add: cp_inv_def keys_inv_def)
qed

lemma submit_intake_inv:
  assumes "submit_intake MemoryUnitOfWork iid now actor org pid cid prob users req excl con corr s
      = (Inr i, s')"
    and "cp_inv s" and fresh: "dget (mm_intakes s) iid = None"
  shows "cp_inv s'"
proof -
  obtain a where s': "s' = s\<lparr>mm_organization_id := Some org, mm_intakes := dset iid i (mm_intakes s),
      mm_audits := mm_audits s @ [a], mm_committed := True\<rparr>" and i: "ik_id i = iid"
    using submit_intake_effect [OF assms(1)] by blast
  have "specification_inv s'"
    using assms(2) fresh by (fastforce simp: cp_inv_def s' specification_inv_def in_step_def)
  then show ?thesis
    using assms(2) i history_kept_same [of s' s] work_item_inv_kept [of s s'] outbox_inv_kept [of s' s] ready_events_same [of s' s]
    by (simp add: cp_inv_def keys_inv_def s')
qed

lemma draft_specification_inv:
  assumes "draft_specification MemoryUnitOfWork sid vid now actor org iid title corr s = (Inr r, s')"
    and inv: "cp_inv s" and fresh: "dget (mm_specifications s) sid = None"
      "dget (mm_specification_versions s) vid = None"
  shows "cp_inv s'"
proof -
  obtain sp v where r: "r = (sp, v)" by fastforce
  obtain i a where i: "dget (mm_intakes s) iid = Some i" "ik_organization_id i = org"
      "ik_status i \<in> {IS_RECEIVED, IS_CLARIFICATION_REQUIRED}"
    and s': "s' = s\<lparr>mm_organization_id := Some org,
      mm_intakes := dset (ik_id i) (i\<lparr>ik_status := IS_SPECIFICATION_DRAFTED\<rparr>) (mm_intakes s),
      mm_specifications := dset sid sp (mm_specifications s),
      mm_specification_versions := dset vid v (mm_specification_versions s),
      mm_audits := mm_audits s @ [a], mm_committed := True\<rparr>"
    and sp: "sp_id sp = sid" "sp_organization_id sp = org" "sp_intake_id sp = ik_id i"
      "sp_current_version_id sp = vid" "sp_current_version sp = 1" "sp_status sp = SS_DRAFT"
    and v: "sv_id v = vid" "sv_specification_id v = sid" "sv_version v = 1"
    using draft_specification_effect [OF assms(1) [unfolded r]] by blast
  have key: "ik_id i = iid" using inv i(1) by (auto simp: cp_inv_def keys_inv_def dest: keyedD)
  have unused: "dget (mm_specifications s) k = Some sp' \<Longrightarrow> sp_intake_id sp' \<noteq> iid" for k sp'
    using inv i by (cases "sp_status sp'") (force simp: cp_inv_def specification_inv_def in_step_def)+
  have "history_kept s s'" using fresh by (auto simp: s' history_kept_def)
  then have "work_item_inv s'" using inv by (auto simp: cp_inv_def s' intro: work_item_inv_kept)
  moreover have new: "in_step s' sp" by (simp add: in_step_def s' sp v key i)
  moreover have "in_step s' sp'" if *: "dget (mm_specifications s') k = Some sp'" for k sp'
  proof (cases "k = sid")
    case True
    then show ?thesis using * new by (simp add: s')
  next
    case False
    then have old: "dget (mm_specifications s) k = Some sp'" using * by (simp add: s')
    moreover have "in_step s sp'" using inv old by (auto simp: cp_inv_def specification_inv_def)
    ultimately show ?thesis
      using unused [OF old] fresh key by (auto simp: in_step_def s')
  qed
  moreover have "k1 = k2" if "dget (mm_specifications s') k1 = Some sp1"
      "dget (mm_specifications s') k2 = Some sp2" "sp_intake_id sp1 = sp_intake_id sp2" for k1 k2 sp1 sp2
    using that inv unused sp key fresh
    by (auto simp: specification_inv_def cp_inv_def s' split: if_splits)
  ultimately have "specification_inv s'" by (auto simp: specification_inv_def)
  with \<open>work_item_inv s'\<close> show ?thesis
    using inv sp v key outbox_inv_kept [of s' s] ready_events_same [of s' s]
    by (auto simp: cp_inv_def keys_inv_def s')
qed

text \<open>A specification and its intake advance together.\<close>

lemma specification_advance:
  assumes inv: "specification_inv s" and sp: "dget (mm_specifications s) sid = Some sp"
    and i: "dget (mm_intakes s) (sp_intake_id sp) = Some i"
    and sps: "mm_specifications s' = dset sid (sp\<lparr>sp_status := st\<rparr>) (mm_specifications s)"
    and iks: "mm_intakes s' = dset (sp_intake_id sp) (i\<lparr>ik_status := intake_phase st\<rparr>) (mm_intakes s)"
    and svs: "mm_specification_versions s' = mm_specification_versions s"
  shows "specification_inv s'"
proof -
  have step: "in_step s sp'" if "dget (mm_specifications s) k = Some sp'" for k sp'
    using inv that by (auto simp: specification_inv_def)
  have uniq: "k1 = k2" if "dget (mm_specifications s) k1 = Some sp1"
      "dget (mm_specifications s) k2 = Some sp2" "sp_intake_id sp1 = sp_intake_id sp2" for k1 k2 sp1 sp2
    using inv that by (auto simp: specification_inv_def)
  have "in_step s' sp'" if *: "dget (mm_specifications s') k = Some sp'" for k sp'
  proof (cases "k = sid")
    case True
    then show ?thesis using * step [OF sp] i by (auto simp: sps iks svs in_step_def)
  next
    case False
    then have old: "dget (mm_specifications s) k = Some sp'" using * by (simp add: sps)
    then have "sp_intake_id sp' \<noteq> sp_intake_id sp" using uniq [OF old sp] False by auto
    then show ?thesis using step [OF old] by (auto simp: iks svs in_step_def)
  qed
  moreover have "k1 = k2" if "dget (mm_specifications s') k1 = Some sp1"
      "dget (mm_specifications s') k2 = Some sp2" "sp_intake_id sp1 = sp_intake_id sp2" for k1 k2 sp1 sp2
  proof -
    have old: "\<exists>q. dget (mm_specifications s) k = Some q \<and> sp_intake_id q = sp_intake_id r"
      if "dget (mm_specifications s') k = Some r" for k r
      using that sp by (cases "k = sid") (auto simp: sps)
    show ?thesis using old [OF that(1)] old [OF that(2)] that(3) uniq by metis
  qed
  ultimately show ?thesis by (auto simp: specification_inv_def)
qed

lemma cp_inv_keys:
  assumes "cp_inv s"
  shows "dget (mm_intakes s) k = Some i \<Longrightarrow> ik_id i = k"
    and "dget (mm_specifications s) k = Some sp \<Longrightarrow> sp_id sp = k"
    and "dget (mm_specification_versions s) k = Some v \<Longrightarrow> sv_id v = k"
    and "dget (mm_work_items s) k = Some w \<Longrightarrow> wi_id w = k"
  using assms by (auto simp: cp_inv_def keys_inv_def keyed_def)

lemma submit_specification_inv:
  assumes "submit_specification MemoryUnitOfWork actor org sid corr s = (Inr sp', s')"
    and inv: "cp_inv s"
  shows "cp_inv s'"
proof -
  obtain sp i a where sp: "dget (mm_specifications s) sid = Some sp" "sp_status sp = SS_DRAFT"
    and i: "dget (mm_intakes s) (sp_intake_id sp) = Some i"
    and s': "s' = s\<lparr>mm_organization_id := Some org,
      mm_specifications := dset (sp_id sp) (sp\<lparr>sp_status := SS_AWAITING_APPROVAL\<rparr>) (mm_specifications s),
      mm_intakes := dset (ik_id i) (i\<lparr>ik_status := IS_AWAITING_APPROVAL\<rparr>) (mm_intakes s),
      mm_audits := mm_audits s @ [a], mm_committed := True\<rparr>"
    using submit_specification_effect [OF assms(1)] by blast
  note key = cp_inv_keys(1) [OF inv i] cp_inv_keys(2) [OF inv sp(1)]
  have "specification_inv s'"
    using specification_advance [OF _ sp(1) i, where st = SS_AWAITING_APPROVAL and s' = s'] inv key
    by (simp add: cp_inv_def s')
  moreover have "history_kept s s'" using sp key by (auto simp: s' history_kept_def)
  ultimately show ?thesis
    using inv key work_item_inv_kept [of s s'] outbox_inv_kept [of s' s] ready_events_same [of s' s]
    by (auto simp: cp_inv_def keys_inv_def s')
qed

lemma approve_specification_inv:
  assumes "approve_specification MemoryUnitOfWork aid now wid actor org sid reason corr s = (Inr r, s')"
    and inv: "cp_inv s"
    and fresh: "dget (mm_approvals s) aid = None" "dget (mm_work_items s) wid = None"
  shows "cp_inv s'"
proof -
  obtain sp' w where r: "r = (sp', w)" by fastforce
  from approve_specification_effect [OF assms(1) [unfolded r]]
  obtain sp i v sp2 a q where
    sp: "dget (mm_specifications s) sid = Some sp" "sp_organization_id sp = org"
      "sp_status sp = SS_AWAITING_APPROVAL"
    and v: "dget (mm_specification_versions s) (sp_current_version_id sp) = Some v"
    and i: "dget (mm_intakes s) (sp_intake_id sp) = Some i"
    and q: "dget (mm_memberships s) (org, actor) = Some q" "q \<in> REVIEWERS"
    and w: "w = \<lparr>wi_id = wid, wi_organization_id = org, wi_project_id = sp_project_id sp,
            wi_specification_version_id = sv_id v, wi_title = sv_title v,
            wi_description = sv_problem v, wi_acceptance_criteria = sv_requirements v,
            wi_status = WS_IN_REVIEW, wi_repository_connection_id = None,
            wi_provider_configuration_id = None, wi_runner_pool_id = None,
            wi_budget = None, wi_version = 1\<rparr>"
    and s': "s' = s\<lparr>mm_organization_id := Some org,
              mm_specifications := dset (sp_id sp) (sp\<lparr>sp_status := SS_APPROVED\<rparr>) (mm_specifications s),
              mm_intakes := dset (ik_id i) (i\<lparr>ik_status := IS_SPECIFICATION_APPROVED\<rparr>) (mm_intakes s),
              mm_approvals := dset aid
                \<lparr>ap_id = aid, ap_organization_id = org, ap_subject_type = ''specification'',
                 ap_subject_id = sp_id sp, ap_subject_version = sp_current_version sp,
                 ap_decision = ''APPROVED'', ap_actor_subject = actor, ap_reason = reason,
                 ap_created_at = now\<rparr> (mm_approvals s),
              mm_work_items := dset wid w (mm_work_items s),
              mm_audits := mm_audits s @ [a], mm_committed := True\<rparr>"
    by blast
  note key = cp_inv_keys(1) [OF inv i] cp_inv_keys(2) [OF inv sp(1)] cp_inv_keys(3) [OF inv v]
  have owner: "sv_specification_id v = sid"
  proof -
    have "in_step s sp" using inv sp(1) by (auto simp: cp_inv_def specification_inv_def)
    then show ?thesis using v key by (simp add: in_step_def)
  qed
  have "specification_inv s'"
    using specification_advance [OF _ sp(1) i, where st = SS_APPROVED and s' = s'] inv key
    by (simp add: cp_inv_def s')
  moreover have hist: "history_kept s s'" using sp key fresh by (auto simp: s' history_kept_def)
  moreover have "traced s' w"
    unfolding traced_def
    by (rule exI [of _ v], rule exI [of _ "sp\<lparr>sp_status := SS_APPROVED\<rparr>"], rule exI [of _ aid])
       (use v key sp q owner in \<open>simp add: s' w approved_by_reviewer_def\<close>)
  then have "work_item_inv s'"
    using inv traced_kept [OF hist]
    by (auto simp: cp_inv_def work_item_inv_def s' w wi_shape_def)
  moreover have "announced s' k" for k
  proof (cases "k = wid")
    case True
    have "announced s wid" using inv by (simp add: cp_inv_def outbox_inv_def)
    then show ?thesis
      using True fresh ready_events_same [of s' s] by (simp add: announced_def s' w)
  next
    case False
    then show ?thesis
      using inv announced_kept [of s' k s] ready_events_same [of s' s]
      by (simp add: cp_inv_def outbox_inv_def s')
  qed
  ultimately show ?thesis
    using inv key by (auto simp: cp_inv_def keys_inv_def outbox_inv_def s' w)
qed

text \<open>A work item is replaced by a later state of itself.\<close>

lemma traced_update:
  "wi_specification_version_id w' = wi_specification_version_id w \<Longrightarrow>
   wi_organization_id w' = wi_organization_id w \<Longrightarrow> wi_title w' = wi_title w \<Longrightarrow>
   wi_description w' = wi_description w \<Longrightarrow> wi_acceptance_criteria w' = wi_acceptance_criteria w \<Longrightarrow>
   traced s w' \<longleftrightarrow> traced s w"
  by (simp add: traced_def)

lemma cp_inv_work_item:
  assumes "cp_inv s" and "dget (mm_work_items s) k = Some w"
  shows "traced s w" "wi_shape w" "announced s k"
  using assms by (auto simp: cp_inv_def work_item_inv_def outbox_inv_def)

lemma review_work_item_inv:
  assumes "review_work_item MemoryUnitOfWork actor org wid corr s = (Inr w', s')"
    and inv: "cp_inv s"
  shows "cp_inv s'"
proof -
  obtain w a where w: "dget (mm_work_items s) wid = Some w" "wi_status w = WS_IN_REVIEW"
    and w': "w' = w\<lparr>wi_status := WS_REVIEWED, wi_version := wi_version w + 1\<rparr>"
    and s': "s' = s\<lparr>mm_organization_id := Some org,
      mm_work_items := dset (wi_id w) w' (mm_work_items s), mm_audits := mm_audits s @ [a],
      mm_committed := True\<rparr>"
    using review_work_item_effect [OF assms(1)] by blast
  note key = cp_inv_keys(4) [OF inv w(1)] and old = cp_inv_work_item [OF inv w(1)]
  have hist: "history_kept s s'" by (rule history_kept_same) (simp_all add: s')
  have "traced s' w'" using traced_kept [OF hist old(1)] traced_update [of w' w s'] by (simp add: w')
  moreover have "wi_shape w'" using old(2) w(2) by (simp add: w' wi_shape_def)
  ultimately have "work_item_inv s'"
    using inv traced_kept [OF hist] key by (auto simp: cp_inv_def work_item_inv_def s')
  moreover have "announced s' k" for k
    using inv announced_kept [of s' k s] ready_events_same [of s' s] old(3) w key
    by (cases "k = wid") (simp_all add: cp_inv_def outbox_inv_def announced_def s' w')
  ultimately show ?thesis
    using inv key specification_inv_kept [of s' s]
    by (auto simp: cp_inv_def keys_inv_def outbox_inv_def s' w')
qed

lemma ready_work_item_inv:
  assumes "ready_work_item MemoryUnitOfWork eid now actor org wid rc pc rp b corr s = (Inr w', s')"
    and inv: "cp_inv s" and b: "wf_budget b"
  shows "cp_inv s'"
proof -
  obtain w a e where w: "dget (mm_work_items s) wid = Some w" "wi_organization_id w = org"
      "wi_status w = WS_REVIEWED"
    and w': "w' = w\<lparr>wi_repository_connection_id := Some rc, wi_provider_configuration_id := Some pc,
              wi_runner_pool_id := Some rp, wi_budget := Some b, wi_status := WS_READY,
              wi_version := wi_version w + 1\<rparr>"
    and s': "s' = s\<lparr>mm_organization_id := Some org,
              mm_work_items := dset (wi_id w) w' (mm_work_items s),
              mm_outbox := mm_outbox s @ [e], mm_audits := mm_audits s @ [a],
              mm_committed := True\<rparr>"
    and e: "ev_type e = ''com.mvp.work_item.ready.v1''" "ev_subject e = ''work-item/'' @ str_uuid (wi_id w)"
      "ev_organization_id e = org" "ev_aggregate_version e = wi_version w + 1"
    using ready_work_item_effect [OF assms(1)] by blast
  note key = cp_inv_keys(4) [OF inv w(1)] and old = cp_inv_work_item [OF inv w(1)]
  have hist: "history_kept s s'" by (rule history_kept_same) (simp_all add: s')
  have "traced s' w'" using traced_kept [OF hist old(1)] traced_update [of w' w s'] by (simp add: w')
  moreover have "wi_shape w'" using old(2) w(3) b by (simp add: w' wi_shape_def)
  ultimately have "work_item_inv s'"
    using inv traced_kept [OF hist] key by (auto simp: cp_inv_def work_item_inv_def s')
  moreover have events: "ready_events s' k = ready_events s k @ (if k = wid then [e] else [])" for k
    using ready_events_append [of s' s e k] e key by (auto simp: s')
  have "announced s' k" for k
  proof (cases "k = wid")
    case True
    then show ?thesis using old(3) w e events [of wid] key by (simp add: announced_def s' w')
  next
    case False
    then show ?thesis
      using inv announced_kept [of s' k s] events [of k] key by (simp add: cp_inv_def outbox_inv_def s')
  qed
  ultimately show ?thesis
    using inv key specification_inv_kept [of s' s]
    by (auto simp: cp_inv_def keys_inv_def outbox_inv_def s' w')
qed

text \<open>
  A use case that raises leaves the data alone; for the readying of a work item this rests on
  the invariant, which makes the version of the event it builds valid.
\<close>

lemma ready_work_item_failed:
  assumes "ready_work_item MemoryUnitOfWork eid now actor org wid rc pc rp b corr s = (Inl e, s')"
    and inv: "cp_inv s"
  shows "same_data s s'"
proof -
  have "0 \<le> wi_version w" if "dget (mm_work_items s) wid = Some w" for w
    using cp_inv_work_item(2) [OF inv that] by (cases "wi_status w") (auto simp: wi_shape_def)
  then show ?thesis
    using assms(1) by (fastforce simp: ready_work_item_def effect_simps EventEnvelope_def
      split: if_splits)
qed

lemma cp_step_inv: "cp_step l s s' \<Longrightarrow> cp_inv s \<Longrightarrow> cp_inv s'"
proof (induction rule: cp_step.induct)
  case (organization org now eid now' actor name corr s r1 s')
  then show ?case
    by (cases r1) (auto intro: create_organization_inv same_data_inv dest: failed_effect(1))
next
  case (list actor s r2 s')
  then show ?case by (blast intro: same_data_inv dest: failed_effect(2))
next
  case (dashboard actor org s r3 s')
  then show ?case by (blast intro: same_data_inv dest: failed_effect(3))
next
  case (project pid now actor org name descr corr s r4 s')
  then show ?case by (cases r4) (auto intro: create_project_inv same_data_inv dest: failed_effect(4))
next
  case (intake iid now actor org pid cid prob users req excl con corr s r5 s')
  then show ?case by (cases r5) (auto intro: submit_intake_inv same_data_inv dest: failed_effect(5))
next
  case (draft sid vid now actor org iid title corr s r6 s')
  then show ?case
    by (cases r6) (auto intro: draft_specification_inv same_data_inv dest: failed_effect(6))
next
  case (submit actor org sid corr s r7 s')
  then show ?case
    by (cases r7) (auto intro: submit_specification_inv same_data_inv dest: failed_effect(7))
next
  case (approve aid now wid actor org sid reason corr s r8 s')
  then show ?case
    by (cases r8) (auto intro: approve_specification_inv same_data_inv dest: failed_effect(8))
next
  case (review actor org wid corr s r9 s')
  then show ?case by (cases r9) (auto intro: review_work_item_inv same_data_inv dest: failed_effect(9))
next
  case (ready eid now actor org wid rc pc rp b corr s r10 s')
  then show ?case
    by (cases r10) (auto intro: ready_work_item_inv same_data_inv dest: ready_work_item_failed)
qed

lemma cp_reachable_inv: "cp_reachable s \<Longrightarrow> cp_inv s"
  by (induction rule: cp_reachable.induct) (auto intro: cp_inv_start cp_step_inv)

end
