(* ===== verification/CpLineage.thy ===== *)
theory CpLineage
  imports CpLifecycle
begin

text \<open>
  Where the objects of the control plane come from: an intake belongs to a project of its organization, a
  specification to the intake and the project of the intake, with the text of the intake in its current
  version, and a work item to the project of the specification it was approved with. No use case changes
  these links.
\<close>

definition intake_origin :: "cp_memory \<Rightarrow> intake_request \<Rightarrow> bool" where
  "intake_origin s i \<longleftrightarrow>
     (\<exists>p. dget (mm_projects s) (ik_project_id i) = Some p \<and> pj_organization_id p = ik_organization_id i)"

definition specification_origin :: "cp_memory \<Rightarrow> specification_record \<Rightarrow> bool" where
  "specification_origin s sp \<longleftrightarrow>
     (\<exists>i v. dget (mm_intakes s) (sp_intake_id sp) = Some i \<and> ik_project_id i = sp_project_id sp \<and>
        ik_organization_id i = sp_organization_id sp \<and>
        dget (mm_specification_versions s) (sp_current_version_id sp) = Some v \<and>
        sv_problem v = ik_problem i \<and> sv_requirements v = ik_required_functionality i)"

definition work_item_origin :: "cp_memory \<Rightarrow> work_item \<Rightarrow> bool" where
  "work_item_origin s w \<longleftrightarrow>
     (\<exists>v sp. dget (mm_specification_versions s) (wi_specification_version_id w) = Some v \<and>
        dget (mm_specifications s) (sv_specification_id v) = Some sp \<and>
        sp_project_id sp = wi_project_id w)"

definition origin_inv :: "cp_memory \<Rightarrow> bool" where
  "origin_inv s \<longleftrightarrow>
     (\<forall>k i. dget (mm_intakes s) k = Some i \<longrightarrow> intake_origin s i) \<and>
     (\<forall>k sp. dget (mm_specifications s) k = Some sp \<longrightarrow> specification_origin s sp) \<and>
     (\<forall>k w. dget (mm_work_items s) k = Some w \<longrightarrow> work_item_origin s w)"

text \<open>What every step keeps of the objects there are.\<close>

definition links_kept :: "cp_memory \<Rightarrow> cp_memory \<Rightarrow> bool" where
  "links_kept s s' \<longleftrightarrow>
     advances (=) (mm_projects s) (mm_projects s') \<and>
     advances (\<lambda>i i'. i' = i\<lparr>ik_status := ik_status i'\<rparr>) (mm_intakes s) (mm_intakes s') \<and>
     advances (\<lambda>sp sp'. sp' = sp\<lparr>sp_status := sp_status sp'\<rparr>) (mm_specifications s) (mm_specifications s') \<and>
     advances (=) (mm_specification_versions s) (mm_specification_versions s')"

lemma origins_kept:
  assumes "links_kept s s'"
  shows "intake_origin s i \<Longrightarrow> intake_origin s' (i\<lparr>ik_status := st\<rparr>)"
    and "specification_origin s sp \<Longrightarrow> specification_origin s' (sp\<lparr>sp_status := st'\<rparr>)"
    and "work_item_origin s w \<Longrightarrow> wi_specification_version_id w' = wi_specification_version_id w \<Longrightarrow>
      wi_project_id w' = wi_project_id w \<Longrightarrow> work_item_origin s' w'"
proof -
  note kept = assms [unfolded links_kept_def]
  note project = advancesD [OF kept [THEN conjunct1]]
  have intake: "\<exists>st. dget (mm_intakes s') k = Some (i\<lparr>ik_status := st\<rparr>)" if "dget (mm_intakes s) k = Some i" for k i
    using advancesD [OF kept [THEN conjunct2, THEN conjunct1] that] by metis
  have spec: "\<exists>st. dget (mm_specifications s') k = Some (sp\<lparr>sp_status := st\<rparr>)"
    if "dget (mm_specifications s) k = Some sp" for k sp
    using advancesD [OF kept [THEN conjunct2, THEN conjunct2, THEN conjunct1] that] by metis
  note version = advancesD [OF kept [THEN conjunct2, THEN conjunct2, THEN conjunct2]]
  show "intake_origin s i \<Longrightarrow> intake_origin s' (i\<lparr>ik_status := st\<rparr>)"
    by (auto simp: intake_origin_def dest: project)
  show "specification_origin s sp \<Longrightarrow> specification_origin s' (sp\<lparr>sp_status := st'\<rparr>)"
    unfolding specification_origin_def by (fastforce dest: intake version)
  show "work_item_origin s w \<Longrightarrow> wi_specification_version_id w' = wi_specification_version_id w \<Longrightarrow>
      wi_project_id w' = wi_project_id w \<Longrightarrow> work_item_origin s' w'"
    unfolding work_item_origin_def by (fastforce dest: spec version)
qed

text \<open>An invariant of one step: the new objects have their origin, the others keep it.\<close>

lemma origin_inv_step:
  assumes "origin_inv s" and "links_kept s s'"
    and "\<And>k i. dget (mm_intakes s') k = Some i \<Longrightarrow>
      (\<exists>i0. dget (mm_intakes s) k = Some i0 \<and> i = i0\<lparr>ik_status := ik_status i\<rparr>) \<or> intake_origin s' i"
    and "\<And>k sp. dget (mm_specifications s') k = Some sp \<Longrightarrow>
      (\<exists>sp0. dget (mm_specifications s) k = Some sp0 \<and> sp = sp0\<lparr>sp_status := sp_status sp\<rparr>) \<or> specification_origin s' sp"
    and "\<And>k w. dget (mm_work_items s') k = Some w \<Longrightarrow>
      (\<exists>w0. dget (mm_work_items s) k = Some w0 \<and> wi_project_id w = wi_project_id w0 \<and>
         wi_specification_version_id w = wi_specification_version_id w0) \<or> work_item_origin s' w"
  shows "origin_inv s'"
  unfolding origin_inv_def using assms(1,3-) origins_kept [OF assms(2)] unfolding origin_inv_def by metis

lemma origin_same_data: "same_data s s' \<Longrightarrow> origin_inv s \<Longrightarrow> origin_inv s'"
  by (auto simp: same_data_def origin_inv_def intake_origin_def specification_origin_def work_item_origin_def)

lemma create_project_origin:
  assumes "create_project MemoryUnitOfWork pid now actor org name descr corr s = (Inr p, s')"
    and "origin_inv s" and "dget (mm_projects s) pid = None"
  shows "origin_inv s'"
proof -
  obtain a where s': "s' = s\<lparr>mm_organization_id := Some org, mm_projects := dset pid p (mm_projects s),
      mm_audits := mm_audits s @ [a], mm_committed := True\<rparr>"
    using create_project_effect [OF assms(1)] by blast
  show ?thesis
    by (rule origin_inv_step [OF assms(2), where s' = s'])
      (use assms(3) in \<open>auto simp: s' links_kept_def intro!: advances_dset advances_refl\<close>)
qed

lemma create_organization_origin:
  assumes "create_organization MemoryUnitOfWork org now eid now' actor name corr s = (Inr o', s')"
    and "origin_inv s"
  shows "origin_inv s'"
  using create_organization_effect [OF assms(1)] assms(2)
  by (auto simp: origin_inv_def intake_origin_def specification_origin_def work_item_origin_def)

lemma submit_intake_origin:
  assumes "submit_intake MemoryUnitOfWork iid now actor org pid cid prob users req excl con corr s = (Inr i, s')"
    and "origin_inv s" and "dget (mm_intakes s) iid = None"
  shows "origin_inv s'"
proof -
  obtain a p where s': "s' = s\<lparr>mm_organization_id := Some org, mm_intakes := dset iid i (mm_intakes s),
      mm_audits := mm_audits s @ [a], mm_committed := True\<rparr>"
    and i: "ik_organization_id i = org" "dget (mm_projects s) (ik_project_id i) = Some p" "pj_organization_id p = org"
    using submit_intake_effect [OF assms(1)] by blast
  have "intake_origin s' i" using i by (simp add: intake_origin_def s')
  then show ?thesis
    by (intro origin_inv_step [OF assms(2), where s' = s'])
      (use assms(3) in \<open>auto simp: s' links_kept_def split: if_splits intro!: advances_dset advances_refl\<close>)
qed

lemma draft_specification_origin:
  assumes "draft_specification MemoryUnitOfWork sid vid now actor org iid title corr s = (Inr r, s')"
    and "origin_inv s" and inv: "cp_inv s" and fresh: "dget (mm_specifications s) sid = None"
    "dget (mm_specification_versions s) vid = None"
  shows "origin_inv s'"
proof -
  obtain sp v where r: "r = (sp, v)" by fastforce
  obtain i a where i: "dget (mm_intakes s) iid = Some i" "ik_organization_id i = org"
    and s': "s' = s\<lparr>mm_organization_id := Some org,
      mm_intakes := dset (ik_id i) (i\<lparr>ik_status := IS_SPECIFICATION_DRAFTED\<rparr>) (mm_intakes s),
      mm_specifications := dset sid sp (mm_specifications s),
      mm_specification_versions := dset vid v (mm_specification_versions s),
      mm_audits := mm_audits s @ [a], mm_committed := True\<rparr>"
    and sp: "sp_organization_id sp = org" "sp_project_id sp = ik_project_id i" "sp_intake_id sp = ik_id i"
      "sp_current_version_id sp = vid"
    and v: "sv_requirements v = ik_required_functionality i" "sv_problem v = ik_problem i"
    using draft_specification_effect [OF assms(1) [unfolded r]] by blast
  note key = cp_inv_keys(1) [OF inv i(1)]
  have new: "specification_origin s' sp" using i sp v by (simp add: specification_origin_def s')
  have "links_kept s s'"
    using fresh i key unfolding links_kept_def s' by (auto intro!: advances_dset advances_refl)
  then show ?thesis
    by (rule origin_inv_step [OF assms(2)])
      (use new i(1) key in \<open>auto simp: s' split: if_splits\<close>)
qed

lemma submit_specification_origin:
  assumes "submit_specification MemoryUnitOfWork actor org sid corr s = (Inr sp', s')"
    and "origin_inv s" and inv: "cp_inv s"
  shows "origin_inv s'"
proof -
  obtain sp i a where sp: "dget (mm_specifications s) sid = Some sp"
    and i: "dget (mm_intakes s) (sp_intake_id sp) = Some i"
    and s': "s' = s\<lparr>mm_organization_id := Some org,
      mm_specifications := dset (sp_id sp) (sp\<lparr>sp_status := SS_AWAITING_APPROVAL\<rparr>) (mm_specifications s),
      mm_intakes := dset (ik_id i) (i\<lparr>ik_status := IS_AWAITING_APPROVAL\<rparr>) (mm_intakes s),
      mm_audits := mm_audits s @ [a], mm_committed := True\<rparr>"
    using submit_specification_effect [OF assms(1)] by blast
  note key = cp_inv_keys(1) [OF inv i] cp_inv_keys(2) [OF inv sp]
  have "links_kept s s'"
    using sp i key unfolding links_kept_def s' by (auto intro!: advances_dset advances_refl)
  then show ?thesis
    by (rule origin_inv_step [OF assms(2)]) (use sp i key in \<open>auto simp: s' split: if_splits\<close>)
qed

lemma approve_specification_origin:
  assumes "approve_specification MemoryUnitOfWork aid now wid actor org sid reason corr s = (Inr r, s')"
    and "origin_inv s" and inv: "cp_inv s"
  shows "origin_inv s'"
proof -
  obtain sp' w where r: "r = (sp', w)" by fastforce
  from approve_specification_effect [OF assms(1) [unfolded r]]
  obtain sp i v a ap where sp: "dget (mm_specifications s) sid = Some sp"
    and v: "dget (mm_specification_versions s) (sp_current_version_id sp) = Some v"
    and i: "dget (mm_intakes s) (sp_intake_id sp) = Some i"
    and w: "wi_project_id w = sp_project_id sp" "wi_specification_version_id w = sv_id v"
    and s': "s' = s\<lparr>mm_organization_id := Some org,
      mm_specifications := dset (sp_id sp) (sp\<lparr>sp_status := SS_APPROVED\<rparr>) (mm_specifications s),
      mm_intakes := dset (ik_id i) (i\<lparr>ik_status := IS_SPECIFICATION_APPROVED\<rparr>) (mm_intakes s),
      mm_approvals := dset aid ap (mm_approvals s), mm_work_items := dset wid w (mm_work_items s),
      mm_audits := mm_audits s @ [a], mm_committed := True\<rparr>"
    by auto
  note key = cp_inv_keys(1) [OF inv i] cp_inv_keys(2) [OF inv sp] cp_inv_keys(3) [OF inv v]
  have "in_step s sp" using inv sp by (auto simp: cp_inv_def specification_inv_def)
  then have "sv_specification_id v = sid" using v key by (simp add: in_step_def)
  then have new: "work_item_origin s' w" using sp v key w by (simp add: work_item_origin_def s')
  have "links_kept s s'"
    using sp i key unfolding links_kept_def s' by (auto intro!: advances_dset advances_refl)
  then show ?thesis
    by (rule origin_inv_step [OF assms(2)]) (use new sp i key in \<open>auto simp: s' split: if_splits\<close>)
qed

lemma work_item_step_origin:
  assumes "origin_inv s" and "dget (mm_work_items s) wid = Some w" and "wi_id w = wid"
    and "mm_projects s' = mm_projects s" "mm_intakes s' = mm_intakes s" "mm_specifications s' = mm_specifications s"
    "mm_specification_versions s' = mm_specification_versions s"
    "mm_work_items s' = dset (wi_id w) w' (mm_work_items s)"
    and "wi_project_id w' = wi_project_id w" "wi_specification_version_id w' = wi_specification_version_id w"
  shows "origin_inv s'"
  using assms
  by (auto simp: origin_inv_def intake_origin_def specification_origin_def work_item_origin_def split: if_splits)

lemma cp_step_origin: "cp_step l s s' \<Longrightarrow> cp_inv s \<Longrightarrow> origin_inv s \<Longrightarrow> origin_inv s'"
proof (induction rule: cp_step.induct)
  case (organization org now eid now' actor name corr s r1 s')
  then show ?case
    by (cases r1) (auto intro: create_organization_origin origin_same_data dest: failed_effect(1))
next
  case (list actor s r2 s')
  then show ?case by (blast intro: origin_same_data dest: failed_effect(2))
next
  case (dashboard actor org s r3 s')
  then show ?case by (blast intro: origin_same_data dest: failed_effect(3))
next
  case (project pid now actor org name descr corr s r4 s')
  then show ?case by (cases r4) (auto intro: create_project_origin origin_same_data dest: failed_effect(4))
next
  case (intake iid now actor org pid cid prob users req excl con corr s r5 s')
  then show ?case by (cases r5) (auto intro: submit_intake_origin origin_same_data dest: failed_effect(5))
next
  case (draft sid vid now actor org iid title corr s r6 s')
  then show ?case
    by (cases r6) (auto intro: draft_specification_origin origin_same_data dest: failed_effect(6))
next
  case (submit actor org sid corr s r7 s')
  then show ?case
    by (cases r7) (auto intro: submit_specification_origin origin_same_data dest: failed_effect(7))
next
  case (approve aid now wid actor org sid reason corr s r8 s')
  then show ?case
    by (cases r8) (auto intro: approve_specification_origin origin_same_data dest: failed_effect(8))
next
  case (review actor org wid corr s r9 s')
  then show ?case
    by (cases r9, blast intro: origin_same_data dest: failed_effect(9))
      (auto dest!: review_work_item_effect intro: work_item_step_origin cp_inv_keys(4))
next
  case (ready eid now actor org wid rc pc rp b corr s r10 s')
  then show ?case
    by (cases r10, blast intro: origin_same_data dest: ready_work_item_failed)
      (auto dest!: ready_work_item_effect intro: work_item_step_origin cp_inv_keys(4))
qed

lemma cp_reachable_origin: "cp_reachable s \<Longrightarrow> origin_inv s"
proof (induction rule: cp_reachable.induct)
  case (start s)
  then show ?case by (simp add: cp_start_def origin_inv_def)
next
  case (step s l s')
  then show ?case by (blast intro: cp_step_origin cp_reachable_inv)
qed

end
