(* ===== verification/CpProperties.thy ===== *)
theory CpProperties
  imports CpLineage
begin

text \<open>
  The properties of the control plane: who may do what, the lifecycle from an intake to a
  ready work item in every reachable state, and the isolation of organizations. The run
  \<open>demo1\<close> to \<open>demo8\<close> takes one piece of work through all the use cases and serves
  the witnesses.
\<close>

section \<open>A complete run\<close>

definition demo1 :: cp_memory where
  "demo1 = snd (create_organization MemoryUnitOfWork 1 0 2 0 ''ann'' ''Acme'' 9 memory_init)"

definition demo2 :: cp_memory where
  "demo2 = snd (create_project MemoryUnitOfWork 10 0 ''ann'' 1 ''Shop'' ''A shop'' 9 demo1)"

definition demo3 :: cp_memory where
  "demo3 = snd (submit_intake MemoryUnitOfWork 20 0 ''ann'' 1 10 None ''No cart'' ''Buyers''
                  [''cart''] [] [] 9 demo2)"

definition demo4 :: cp_memory where
  "demo4 = snd (draft_specification MemoryUnitOfWork 30 31 0 ''ann'' 1 20 ''Cart'' 9 demo3)"

definition demo5 :: cp_memory where
  "demo5 = snd (submit_specification MemoryUnitOfWork ''ann'' 1 30 9 demo4)"

definition demo6 :: cp_memory where
  "demo6 = snd (approve_specification MemoryUnitOfWork 40 0 41 ''ann'' 1 30 None 9 demo5)"

definition demo7 :: cp_memory where
  "demo7 = snd (review_work_item MemoryUnitOfWork ''ann'' 1 41 9 demo6)"

definition demo_budget :: budget where
  "demo_budget = \<lparr>bg_max_duration_seconds = 3600, bg_max_attempts = 3, bg_max_turns = 20,
                  bg_max_cost_minor = 1000, bg_currency = ''USD''\<rparr>"

definition demo8 :: cp_memory where
  "demo8 = snd (ready_work_item MemoryUnitOfWork 50 0 ''ann'' 1 41 60 61 62 demo_budget 9 demo7)"

lemma strip_demo [simp]:
  "strip ''Acme'' = ''Acme''" "strip ''Shop'' = ''Shop''" "strip ''A shop'' = ''A shop''"
  "strip ''No cart'' = ''No cart''" "strip ''Buyers'' = ''Buyers''" "strip ''cart'' = ''cart''"
  "strip ''Cart'' = ''Cart''"
  by code_simp+

lemmas run_simps = with_uow_def authorizeS_def require_role_def required_defs memory_defs
  role_sets Let_def EventEnvelope_def audit_def owned_def requireS_def returnS_def raiseS_def
  readS_def liftS_def bindS_def seqS_def stepsS.simps writeS_def domainS_def validationS_def
  memory_get_specification_version_def

lemma demo1_fields:
  "mm_memberships demo1 = [((1, ''ann''), OWNER)]" "mm_projects demo1 = []" "mm_intakes demo1 = []"
  "mm_specifications demo1 = []" "mm_specification_versions demo1 = []" "mm_approvals demo1 = []"
  "mm_work_items demo1 = []"
  by (simp_all add: demo1_def create_organization_def run_simps memory_init_def)

lemma demo2_fields:
  "mm_memberships demo2 = [((1, ''ann''), OWNER)]"
  "dget (mm_projects demo2) 10 =
     Some \<lparr>pj_id = 10, pj_organization_id = 1, pj_name = ''Shop'', pj_description = ''A shop'',
           pj_execution_approval_required = True, pj_created_at = 0\<rparr>"
  "mm_intakes demo2 = []" "mm_specifications demo2 = []" "mm_specification_versions demo2 = []"
  "mm_approvals demo2 = []" "mm_work_items demo2 = []"
  by (simp_all add: demo2_def create_project_def run_simps demo1_fields)

definition demo_intake :: "intake_status \<Rightarrow> intake_request" where
  "demo_intake st =
     \<lparr>ik_id = 20, ik_organization_id = 1, ik_project_id = 10, ik_client_id = None,
      ik_submitted_by = ''ann'', ik_problem = ''No cart'', ik_intended_users = ''Buyers'',
      ik_required_functionality = [''cart''], ik_exclusions = [], ik_constraints = [],
      ik_status = st, ik_created_at = 0\<rparr>"

definition demo_version :: specification_version where
  "demo_version =
     \<lparr>sv_id = 31, sv_specification_id = 30, sv_version = 1, sv_title = ''Cart'',
      sv_problem = ''No cart'', sv_intended_users = ''Buyers'', sv_requirements = [''cart''],
      sv_exclusions = [], sv_constraints = [], sv_created_by = ''ann'', sv_created_at = 0\<rparr>"

definition demo_specification :: "specification_status \<Rightarrow> specification_record" where
  "demo_specification st =
     \<lparr>sp_id = 30, sp_organization_id = 1, sp_project_id = 10, sp_intake_id = 20,
      sp_current_version_id = 31, sp_current_version = 1, sp_status = st\<rparr>"

lemma demo3_fields:
  "mm_memberships demo3 = [((1, ''ann''), OWNER)]"
  "mm_intakes demo3 = [(20, demo_intake IS_RECEIVED)]"
  "mm_specifications demo3 = []" "mm_specification_versions demo3 = []"
  "mm_approvals demo3 = []" "mm_work_items demo3 = []"
  by (simp_all add: demo3_def submit_intake_def run_simps demo2_fields demo_intake_def)

lemma demo4_fields:
  "mm_memberships demo4 = [((1, ''ann''), OWNER)]"
  "mm_intakes demo4 = [(20, demo_intake IS_SPECIFICATION_DRAFTED)]"
  "mm_specifications demo4 = [(30, demo_specification SS_DRAFT)]"
  "mm_specification_versions demo4 = [(31, demo_version)]"
  "mm_approvals demo4 = []" "mm_work_items demo4 = []"
  by (simp_all add: demo4_def draft_specification_def run_simps demo3_fields demo_intake_def
      mark_specification_drafted_def demo_specification_def demo_version_def)

lemma demo5_fields:
  "mm_memberships demo5 = [((1, ''ann''), OWNER)]"
  "mm_intakes demo5 = [(20, demo_intake IS_AWAITING_APPROVAL)]"
  "mm_specifications demo5 = [(30, demo_specification SS_AWAITING_APPROVAL)]"
  "mm_specification_versions demo5 = [(31, demo_version)]"
  "mm_approvals demo5 = []" "mm_work_items demo5 = []"
  by (simp_all add: demo5_def submit_specification_def run_simps demo4_fields demo_intake_def
      submit_for_approval_def mark_awaiting_approval_def demo_specification_def demo_version_def)

definition demo_item :: work_item where
  "demo_item =
     \<lparr>wi_id = 41, wi_organization_id = 1, wi_project_id = 10, wi_specification_version_id = 31,
      wi_title = ''Cart'', wi_description = ''No cart'', wi_acceptance_criteria = [''cart''],
      wi_status = WS_IN_REVIEW, wi_repository_connection_id = None,
      wi_provider_configuration_id = None, wi_runner_pool_id = None, wi_budget = None,
      wi_version = 1\<rparr>"

lemma demo6_fields:
  "mm_memberships demo6 = [((1, ''ann''), OWNER)]" "mm_work_items demo6 = [(41, demo_item)]"
  by (simp_all add: demo6_def approve_specification_def run_simps demo5_fields demo_intake_def
      specification_approve_def mark_approved_def demo_specification_def demo_version_def
      demo_item_def)

lemma demo7_fields:
  "mm_memberships demo7 = [((1, ''ann''), OWNER)]"
  "mm_work_items demo7 = [(41, demo_item\<lparr>wi_status := WS_REVIEWED, wi_version := 2\<rparr>)]"
  by (simp_all add: demo7_def review_work_item_def run_simps demo6_fields mark_reviewed_def
      demo_item_def)

lemma demo8_fields:
  "mm_work_items demo8 =
     [(41, demo_item\<lparr>wi_repository_connection_id := Some 60, wi_provider_configuration_id := Some 61,
             wi_runner_pool_id := Some 62, wi_budget := Some demo_budget, wi_status := WS_READY,
             wi_version := 3\<rparr>)]"
  by (simp_all add: demo8_def ready_work_item_def run_simps demo7_fields mark_ready_def
      demo_item_def)

lemma demo_fresh:
  "dget (mm_projects demo1) 10 = None" "dget (mm_intakes demo2) 20 = None"
  "dget (mm_specifications demo3) 30 = None" "dget (mm_specification_versions demo3) 31 = None"
  "dget (mm_approvals demo5) 40 = None" "dget (mm_work_items demo5) 41 = None"
  by (simp_all add: demo1_fields demo2_fields demo3_fields demo5_fields)

lemma demo_budget_wf: "wf_budget demo_budget"
  by code_simp

lemma demo_reachable:
  "cp_reachable demo4" "cp_reachable demo5" "cp_reachable demo7" "cp_reachable demo8"
proof -
  have "cp_reachable memory_init"
    by (rule cp_reachable.start) (simp add: cp_start_def memory_init_def)
  then have "cp_reachable demo1" unfolding demo1_def
    by (rule cp_reachable.step) (rule cp_step.organization [OF prod.collapse [symmetric]], simp add: memory_init_def)
  then have "cp_reachable demo2" unfolding demo2_def
    by (rule cp_reachable.step) (rule cp_step.project [OF prod.collapse [symmetric] demo_fresh(1)])
  then have "cp_reachable demo3" unfolding demo3_def
    by (rule cp_reachable.step) (rule cp_step.intake [OF prod.collapse [symmetric] demo_fresh(2)])
  then show 4: "cp_reachable demo4" unfolding demo4_def
    by (rule cp_reachable.step) (rule cp_step.draft [OF prod.collapse [symmetric] demo_fresh(3,4)])
  then show 5: "cp_reachable demo5" unfolding demo5_def
    by (rule cp_reachable.step) (rule cp_step.submit [OF prod.collapse [symmetric]])
  then have "cp_reachable demo6" unfolding demo6_def
    by (rule cp_reachable.step) (rule cp_step.approve [OF prod.collapse [symmetric] demo_fresh(5,6)])
  then show "cp_reachable demo7" unfolding demo7_def
    by (rule cp_reachable.step) (rule cp_step.review [OF prod.collapse [symmetric]])
  then show "cp_reachable demo8" unfolding demo8_def
    by (rule cp_reachable.step) (rule cp_step.ready [OF prod.collapse [symmetric] demo_budget_wf])
qed


section \<open>Properties\<close>

text \<open>C3: A work item is ready only at the end of the whole lifecycle. In every reachable
  state of the control plane, a work item that is \<open>READY\<close> goes back to an approved specification, the
  current version of which gave it its title, description and criteria, to the intake with which
  these began, now approved as well, and to the project of both; all of them belong to its organization. The
  approval of a member with a reviewing role is recorded for the specification. The work item carries its
  repository, provider and runner pool and a valid budget, and the outbox holds exactly one event
  \<open>com.mvp.work_item.ready.v1\<close> for it, with its version and organization.\<close>

theorem ready_work_item_is_traced:
  assumes "cp_reachable s" and "dget (mm_work_items s) k = Some w" and "wi_status w = WS_READY"
  shows "(\<exists>v sp i p aid a r.
      dget (mm_specification_versions s) (wi_specification_version_id w) = Some v \<and>
      dget (mm_specifications s) (sv_specification_id v) = Some sp \<and>
      dget (mm_intakes s) (sp_intake_id sp) = Some i \<and>
      dget (mm_projects s) (wi_project_id w) = Some p \<and>
      sp_project_id sp = wi_project_id w \<and> ik_project_id i = wi_project_id w \<and>
      sp_organization_id sp = wi_organization_id w \<and> ik_organization_id i = wi_organization_id w \<and>
      pj_organization_id p = wi_organization_id w \<and>
      sp_status sp = SS_APPROVED \<and> ik_status i = IS_SPECIFICATION_APPROVED \<and>
      sp_current_version_id sp = wi_specification_version_id w \<and>
      wi_title w = sv_title v \<and> wi_description w = sv_problem v \<and> wi_acceptance_criteria w = sv_requirements v \<and>
      sv_problem v = ik_problem i \<and> sv_requirements v = ik_required_functionality i \<and>
      dget (mm_approvals s) aid = Some a \<and> ap_decision a = ''APPROVED'' \<and>
      ap_organization_id a = wi_organization_id w \<and> ap_subject_id a = sp_id sp \<and>
      ap_subject_version a = sp_current_version sp \<and>
      dget (mm_memberships s) (wi_organization_id w, ap_actor_subject a) = Some r \<and> r \<in> {OWNER, ADMIN, REVIEWER}) \<and>
    wi_repository_connection_id w \<noteq> None \<and> wi_provider_configuration_id w \<noteq> None \<and>
    wi_runner_pool_id w \<noteq> None \<and> (\<exists>b. wi_budget w = Some b \<and> wf_budget b) \<and>
    (\<exists>e. ready_events s k = [e] \<and> ev_aggregate_version e = wi_version w \<and>
         ev_organization_id e = wi_organization_id w)"
proof (intro conjI)
  note inv = cp_reachable_inv [OF assms(1)] and origin = cp_reachable_origin [OF assms(1)]
  note item = cp_inv_work_item [OF inv assms(2)]
  obtain v sp aid a where v: "dget (mm_specification_versions s) (wi_specification_version_id w) = Some v"
    and sp: "dget (mm_specifications s) (sv_specification_id v) = Some sp"
    and same: "sp_status sp = SS_APPROVED" "sp_current_version_id sp = sv_id v"
      "sp_organization_id sp = wi_organization_id w" "wi_title w = sv_title v" "wi_description w = sv_problem v"
      "wi_acceptance_criteria w = sv_requirements v"
    and a: "dget (mm_approvals s) aid = Some a" "approved_by_reviewer s sp a"
    using item(1) unfolding traced_def by blast
  obtain r where r: "dget (mm_memberships s) (wi_organization_id w, ap_actor_subject a) = Some r" "r \<in> REVIEWERS"
    using a(2) same(3) by (auto simp: approved_by_reviewer_def)
  have key: "sv_id v = wi_specification_version_id w" by (rule cp_inv_keys(3) [OF inv v])
  obtain i where i: "dget (mm_intakes s) (sp_intake_id sp) = Some i" "ik_project_id i = sp_project_id sp"
      "ik_organization_id i = sp_organization_id sp" "sv_problem v = ik_problem i"
      "sv_requirements v = ik_required_functionality i"
    using origin sp v same(2) key by (fastforce simp: origin_inv_def specification_origin_def)
  have "ik_status i = IS_SPECIFICATION_APPROVED"
    using inv sp i(1) same(1) by (fastforce simp: cp_inv_def specification_inv_def in_step_def)
  moreover have "sp_project_id sp = wi_project_id w"
    using origin assms(2) v sp by (fastforce simp: origin_inv_def work_item_origin_def)
  moreover obtain p where "dget (mm_projects s) (ik_project_id i) = Some p" "pj_organization_id p = ik_organization_id i"
    using origin i(1) by (fastforce simp: origin_inv_def intake_origin_def)
  ultimately show "\<exists>v sp i p aid a r.
      dget (mm_specification_versions s) (wi_specification_version_id w) = Some v \<and>
      dget (mm_specifications s) (sv_specification_id v) = Some sp \<and>
      dget (mm_intakes s) (sp_intake_id sp) = Some i \<and>
      dget (mm_projects s) (wi_project_id w) = Some p \<and>
      sp_project_id sp = wi_project_id w \<and> ik_project_id i = wi_project_id w \<and>
      sp_organization_id sp = wi_organization_id w \<and> ik_organization_id i = wi_organization_id w \<and>
      pj_organization_id p = wi_organization_id w \<and>
      sp_status sp = SS_APPROVED \<and> ik_status i = IS_SPECIFICATION_APPROVED \<and>
      sp_current_version_id sp = wi_specification_version_id w \<and>
      wi_title w = sv_title v \<and> wi_description w = sv_problem v \<and> wi_acceptance_criteria w = sv_requirements v \<and>
      sv_problem v = ik_problem i \<and> sv_requirements v = ik_required_functionality i \<and>
      dget (mm_approvals s) aid = Some a \<and> ap_decision a = ''APPROVED'' \<and>
      ap_organization_id a = wi_organization_id w \<and> ap_subject_id a = sp_id sp \<and>
      ap_subject_version a = sp_current_version sp \<and>
      dget (mm_memberships s) (wi_organization_id w, ap_actor_subject a) = Some r \<and> r \<in> {OWNER, ADMIN, REVIEWER}"
    using v sp i same a r key
    by (intro exI [of _ v] exI [of _ sp] exI [of _ i] exI [of _ p] exI [of _ aid] exI [of _ a] exI [of _ r])
      (simp add: approved_by_reviewer_def role_sets)
qed (use cp_inv_work_item(2,3) [OF cp_reachable_inv [OF assms(1)] assms(2)] assms(2,3) in
    \<open>auto simp: wi_shape_def announced_def\<close>)

theorem ready_work_item_is_traced_witness:
  "length (ready_events demo8 41) = 1 \<and> (\<exists>p. dget (mm_projects demo8) 10 = Some p \<and> pj_organization_id p = 1)"
  using ready_work_item_is_traced [OF demo_reachable(4), of 41]
  by (auto simp: demo8_fields demo_item_def)

text \<open>C23: The intake and the specification move in step. In every reachable state the intake
  of a specification exists, and \<open>submit_for_approval\<close> (\<open>approve\<close>) succeeds on the
  specification exactly when \<open>mark_awaiting_approval\<close> (\<open>mark_approved\<close>) succeeds on the intake.
  So the use cases, which change the specification object before they check the intake, never
  stop between the two.\<close>

theorem specification_and_intake_in_step:
  assumes "cp_reachable s" and "dget (mm_specifications s) k = Some sp"
  shows "\<exists>i. dget (mm_intakes s) (sp_intake_id sp) = Some i \<and>
    ((\<exists>sp'. submit_for_approval sp = Inr sp') \<longleftrightarrow> (\<exists>i'. mark_awaiting_approval i = Inr i')) \<and>
    ((\<exists>sp'. specification_approve sp = Inr sp') \<longleftrightarrow> (\<exists>i'. mark_approved i = Inr i'))"
proof -
  have "in_step s sp"
    using cp_reachable_inv [OF assms(1)] assms(2) by (auto simp: cp_inv_def specification_inv_def)
  then show ?thesis
    by (cases "sp_status sp") (auto simp: in_step_def cp_transitions)
qed

theorem specification_and_intake_in_step_witness:
  "\<exists>i'. mark_awaiting_approval (demo_intake IS_SPECIFICATION_DRAFTED) = Inr i'"
  using specification_and_intake_in_step [OF demo_reachable(1), of 30]
  by (auto simp: demo4_fields demo_specification_def demo_intake_def submit_for_approval_def)

text \<open>
  What happens up to the check of the role: the organization is selected and the membership is
  read, either of which the database may refuse.
\<close>

definition role_read :: "'s cp_uow \<Rightarrow> uuid \<Rightarrow> string \<Rightarrow> 's \<Rightarrow> (cp_error + role option) \<times> 's" where
  "role_read U org actor s =
     seqS (uw_set_organization U org) (rp_role_for U org actor) (uw_enter U s)"

definition denied :: "'s cp_uow \<Rightarrow> uuid \<Rightarrow> string \<Rightarrow> 's \<Rightarrow> (cp_error + 'a) \<times> 's" where
  "denied U org actor s =
     (case role_read U org actor s of
        (Inl e, t) \<Rightarrow> (Inl e, uw_exit U True t)
      | (Inr _, t) \<Rightarrow>
          (Inl (DomainE (PermissionDenied ''the current membership cannot perform this action'')),
           uw_exit U True t))"

definition permitted :: "'s cp_uow \<Rightarrow> uuid \<Rightarrow> string \<Rightarrow> role set \<Rightarrow> 's \<Rightarrow> bool" where
  "permitted U org actor allowed s = (\<exists>r \<in> allowed. fst (role_read U org actor s) = Inr (Some r))"

lemma authorized_or_denied:
  "\<not> permitted U org actor allowed s \<Longrightarrow>
   with_uow U (seqS (stepsS [uw_set_organization U org]) (bindS (authorizeS U org actor allowed) f)) s
     = denied U org actor s"
  unfolding seqS_stepsS
  by (auto simp: permitted_def denied_def role_read_def with_uow_def authorizeS_def require_role_def domainS_def
      bindS_def seqS_def liftS_def split: option.splits prod.splits sum.splits)

text \<open>C5: Only members with a permitted role can act. Over any unit of work, a caller whose
  membership in the organization is missing or has a role outside the use case's set gets
  \<open>PermissionDenied\<close> (or the error that kept the membership from being read), and nothing has
  happened but selecting the organization, reading the membership and leaving the unit of work
  through the exception.\<close>

theorem use_cases_require_role:
  "(\<not> permitted U org actor {OWNER, ADMIN, DEVELOPER, REVIEWER} s \<longrightarrow>
     dashboard U actor org s = denied U org actor s) \<and>
   (\<not> permitted U org actor {OWNER, ADMIN, DEVELOPER} s \<longrightarrow>
     create_project U pid now actor org name descr corr s = denied U org actor s) \<and>
   (\<not> permitted U org actor {OWNER, ADMIN, DEVELOPER, CLIENT} s \<longrightarrow>
     submit_intake U iid now actor org pid cid prob users req excl con corr s = denied U org actor s) \<and>
   (\<not> permitted U org actor {OWNER, ADMIN, DEVELOPER, REVIEWER} s \<longrightarrow>
     draft_specification U sid vid now actor org iid title corr s = denied U org actor s) \<and>
   (\<not> permitted U org actor {OWNER, ADMIN, DEVELOPER, REVIEWER} s \<longrightarrow>
     submit_specification U actor org sid corr s = denied U org actor s) \<and>
   (\<not> permitted U org actor {OWNER, ADMIN, REVIEWER} s \<longrightarrow>
     approve_specification U aid now wid actor org sid reason corr s = denied U org actor s) \<and>
   (\<not> permitted U org actor {OWNER, ADMIN, REVIEWER} s \<longrightarrow>
     review_work_item U actor org wid corr s = denied U org actor s) \<and>
   (\<not> permitted U org actor {OWNER, ADMIN, DEVELOPER, REVIEWER} s \<longrightarrow>
     ready_work_item U eid now actor org wid rc pc rp b corr s = denied U org actor s)"
  unfolding dashboard_def create_project_def submit_intake_def draft_specification_def
    submit_specification_def approve_specification_def review_work_item_def ready_work_item_def
    Let_def
  by (intro conjI impI; rule authorized_or_denied; simp add: permitted_def role_sets; blast)

theorem use_cases_require_role_witness:
  "approve_specification MemoryUnitOfWork 40 0 41 ''eve'' 1 30 None 9 demo5
     = denied MemoryUnitOfWork 1 ''eve'' demo5"
proof -
  have "\<not> permitted MemoryUnitOfWork 1 ''eve'' {OWNER, ADMIN, REVIEWER} demo5"
    by (simp add: permitted_def role_read_def memory_defs demo5_fields readS_def)
  from use_cases_require_role [THEN conjunct2, THEN conjunct2, THEN conjunct2, THEN conjunct2,
      THEN conjunct2, THEN conjunct1, rule_format, OF this]
  show ?thesis .
qed

section \<open>Isolation of organizations\<close>

text \<open>
  What the members of an organization can read through the repository: single objects by
  identifier, and lists.
\<close>

definition org_objects where
  "org_objects s org =
     (\<lambda>k. memory_get_project org k s, \<lambda>k. memory_get_intake org k s,
      \<lambda>k. memory_get_specification org k s, \<lambda>k. memory_get_specification_version org k s,
      \<lambda>k. memory_get_work_item org k s)"

definition org_lists where
  "org_lists s org =
     (memory_list_projects org s, memory_list_intakes org s, memory_list_specifications org s,
      memory_list_work_items org s, memory_list_audits org s)"

text \<open>
  What else carries the organization: its own record, the approvals in it and the events it announced. The
  repository has no operation that reads the last two.
\<close>

definition org_records where
  "org_records s org =
     (dget (mm_organizations s) org,
      filter (\<lambda>a. ap_organization_id a = org) (dvals (mm_approvals s)),
      filter (\<lambda>e. ev_organization_id e = org) (mm_outbox s))"

definition org_roles where
  "org_roles s org = (\<lambda>subject. memory_role_for org subject s)"

definition unseen_by :: "uuid \<Rightarrow> cp_memory \<Rightarrow> cp_memory \<Rightarrow> bool" where
  "unseen_by org s s' \<longleftrightarrow>
     org_objects s' org = org_objects s org \<and> org_lists s' org = org_lists s org \<and>
     org_records s' org = org_records s org \<and> org_roles s' org = org_roles s org"

lemma filter_dset_other:
  assumes "\<And>v'. dget d k = Some v' \<Longrightarrow> f v' \<noteq> o'" and "f v \<noteq> o'"
  shows "filter (\<lambda>x. f x = o') (dvals (dset k v d)) = filter (\<lambda>x. f x = o') (dvals d)"
  using assms by (induction d) auto

lemma version_read:
  "memory_get_specification_version org k s =
     Option.bind (dget (mm_specification_versions s) k) (\<lambda>v.
       if owned sp_organization_id org (dget (mm_specifications s) (sv_specification_id v)) = None
       then None else Some v)"
  by (auto simp: memory_get_specification_version_def owned_def split: option.splits)

lemmas unseen_defs = unseen_by_def org_objects_def org_lists_def org_records_def org_roles_def memory_get_project_def
  memory_get_intake_def memory_get_specification_def memory_get_work_item_def
  memory_list_projects_def memory_list_intakes_def memory_list_specifications_def
  memory_list_work_items_def memory_list_audits_def memory_role_for_def
  version_read

lemma same_data_unseen: "same_data s s' \<Longrightarrow> unseen_by org s s'"
  by (auto simp: same_data_def unseen_defs)

lemma filter_dset_cases:
  "dget d k = None \<Longrightarrow> f v = org \<Longrightarrow> org' \<noteq> org \<Longrightarrow>
     filter (\<lambda>x. f x = org') (dvals (dset k v d)) = filter (\<lambda>x. f x = org') (dvals d)"
  "dget d k = Some v0 \<Longrightarrow> f v0 = org \<Longrightarrow> f v = org \<Longrightarrow> org' \<noteq> org \<Longrightarrow>
     filter (\<lambda>x. f x = org') (dvals (dset k v d)) = filter (\<lambda>x. f x = org') (dvals d)"
  by (rule filter_dset_other; simp)+

lemma owned_dset_cases:
  "dget d k = None \<Longrightarrow> f v = org \<Longrightarrow> org' \<noteq> org \<Longrightarrow>
     owned f org' (if k' = k then Some v else dget d k') = owned f org' (dget d k')"
  "dget d k = Some v0 \<Longrightarrow> f v0 = org \<Longrightarrow> f v = org \<Longrightarrow> org' \<noteq> org \<Longrightarrow>
     owned f org' (if k' = k then Some v else dget d k') = owned f org' (dget d k')"
  by (auto simp: owned_def)

lemmas unseen_simps = unseen_defs filter_dset_cases owned_dset_cases

lemma use_case_unseen:
  assumes inv: "cp_inv s" and other: "org' \<noteq> org"
  shows "create_organization MemoryUnitOfWork org now eid now' actor name corr s = (r1, s') \<Longrightarrow>
      unseen_by org' s s'"
    and "create_project MemoryUnitOfWork pid now actor org name descr corr s = (r4, s') \<Longrightarrow>
      dget (mm_projects s) pid = None \<Longrightarrow> unseen_by org' s s'"
    and "submit_intake MemoryUnitOfWork iid now actor org pid cid prob users req excl con corr s
      = (r5, s') \<Longrightarrow> dget (mm_intakes s) iid = None \<Longrightarrow> unseen_by org' s s'"
    and "draft_specification MemoryUnitOfWork sid vid now actor org iid title corr s = (r6, s') \<Longrightarrow>
      dget (mm_specifications s) sid = None \<Longrightarrow> dget (mm_specification_versions s) vid = None \<Longrightarrow>
      unseen_by org' s s'"
    and "submit_specification MemoryUnitOfWork actor org sid corr s = (r7, s') \<Longrightarrow> unseen_by org' s s'"
    and "approve_specification MemoryUnitOfWork aid now wid actor org sid reason corr s = (r8, s') \<Longrightarrow>
      dget (mm_approvals s) aid = None \<Longrightarrow> dget (mm_work_items s) wid = None \<Longrightarrow> unseen_by org' s s'"
    and "review_work_item MemoryUnitOfWork actor org wid corr s = (r9, s') \<Longrightarrow> unseen_by org' s s'"
    and "ready_work_item MemoryUnitOfWork eid now actor org wid rc pc rp b corr s = (r10, s') \<Longrightarrow>
      unseen_by org' s s'"
  subgoal
    using other
    by (cases r1, blast intro: same_data_unseen dest: failed_effect(1))
       (auto simp: unseen_simps dest!: create_organization_effect)
  subgoal
    using other
    by (cases r4, blast intro: same_data_unseen dest: failed_effect(4))
       (auto simp: unseen_simps dest!: create_project_effect)
  subgoal
    using other
    by (cases r5, blast intro: same_data_unseen dest: failed_effect(5))
       (auto simp: unseen_simps dest!: submit_intake_effect)
  subgoal
    using other cp_inv_keys(1) [OF inv]
    by (cases r6, blast intro: same_data_unseen dest: failed_effect(6))
       (auto simp: unseen_simps dest!: draft_specification_effect)
  subgoal
    using other cp_inv_keys(1,2) [OF inv]
    by (cases r7, blast intro: same_data_unseen dest: failed_effect(7))
       (auto simp: unseen_simps dest!: submit_specification_effect)
  subgoal
    using other cp_inv_keys(1,2) [OF inv]
    by (cases r8, blast intro: same_data_unseen dest: failed_effect(8))
       (auto simp: unseen_simps dest!: approve_specification_effect)
  subgoal
    using other cp_inv_keys(4) [OF inv]
    by (cases r9, blast intro: same_data_unseen dest: failed_effect(9))
       (auto simp: unseen_simps dest!: review_work_item_effect)
  subgoal
    using other cp_inv_keys(4) [OF inv]
    by (cases r10, blast intro: same_data_unseen dest: ready_work_item_failed [OF _ inv])
       (auto simp: unseen_simps dest!: ready_work_item_effect)
  done

text \<open>C7: Organizations are isolated. Whatever an actor does in one organization of a reachable
  state, successfully or not, changes nothing of any other organization: not the projects, intakes,
  specifications, versions, work items, audit events and memberships its members read, singly or
  as lists, nor its own record, its approvals and the events in the outbox.\<close>

theorem organizations_are_isolated:
  assumes "cp_reachable s" and "cp_step (Some org) s s'" and "org' \<noteq> org"
  shows "unseen_by org' s s'"
  using assms(2)
  by cases (auto intro: same_data_unseen use_case_unseen [OF cp_reachable_inv [OF assms(1)] assms(3)]
      dest: failed_effect(3))

theorem organizations_are_isolated_witness:
  "unseen_by 2 demo7 demo8"
proof -
  have "cp_step (Some 1) demo7 demo8"
    unfolding demo8_def by (rule cp_step.ready [OF prod.collapse [symmetric] demo_budget_wf])
  from organizations_are_isolated [OF demo_reachable(3) this, of 2] show ?thesis by simp
qed

end
