(* ===== verification/CpRefinement.thy ===== *)
theory CpRefinement
  imports CpPostgres CpProperties
begin

text \<open>
  The control plane over PostgreSQL refines the control plane over its memory repository: the tables
  represent a memory, each repository operation on them matches the one on the memory it names, or
  the database refuses, and so every use case does. What \<open>CpLifecycle\<close> shows of the memory holds of
  the committed tables.
\<close>

section \<open>What the tables represent\<close>

definition membership_row :: "uuid \<Rightarrow> string \<Rightarrow> role \<Rightarrow> cp_membership_row" where
  "membership_row organization_id subject r =
     \<lparr>cm_organization_id = organization_id, cm_subject = subject, cm_role = role_value r\<rparr>"

definition rows_of :: "('k \<Rightarrow> 'j) \<Rightarrow> ('k \<Rightarrow> 'v \<Rightarrow> 'r) \<Rightarrow> ('k, 'v) dict \<Rightarrow> ('j, 'r) dict" where
  "rows_of key row d = map (\<lambda>(k, v). (key k, row k v)) d"

definition outbox_of :: "(time \<Rightarrow> string) \<Rightarrow> event_envelope \<Rightarrow> uuid \<times> uuid \<times> string \<times> json" where
  "outbox_of isoformat e =
     (ev_id e, ev_organization_id e, ev_type e, dump_event_envelope isoformat e)"

definition valid_budget :: "budget \<Rightarrow> bool" where
  "valid_budget b \<longleftrightarrow> Budget (bg_max_duration_seconds b) (bg_max_attempts b) (bg_max_turns b)
     (bg_max_cost_minor b) (bg_currency b) = Inr b"

text \<open>
  A version row carries an organization its object does not have: the one of its specification.
  The budgets stored are ones \<open>Budget\<close> accepts, so that they can be read again.
\<close>

definition represents :: "(time \<Rightarrow> string) \<Rightarrow> cp_tables \<Rightarrow> cp_memory \<Rightarrow> bool" where
  "represents isoformat t m \<longleftrightarrow>
     tb_organizations t = mm_organizations m \<and>
     tb_memberships t = rows_of id (\<lambda>(o', subject). membership_row o' subject) (mm_memberships m) \<and>
     tb_membership_routing t =
       rows_of prod.swap (\<lambda>(o', subject). membership_row o' subject) (mm_memberships m) \<and>
     tb_projects t = mm_projects m \<and>
     tb_intakes t = rows_of id (\<lambda>_. intake_row) (mm_intakes m) \<and>
     tb_specifications t = rows_of id (\<lambda>_. specification_row) (mm_specifications m) \<and>
     mm_specification_versions m = rows_of id (\<lambda>_. version_of_row) (tb_specification_versions t) \<and>
     (\<forall>k row. dget (tb_specification_versions t) k = Some row \<longrightarrow>
        (\<exists>sp. dget (mm_specifications m) (cv_specification_id row) = Some sp \<and>
              sp_organization_id sp = cv_organization_id row)) \<and>
     tb_approvals t = mm_approvals m \<and>
     tb_work_items t = rows_of id (\<lambda>_. work_item_row) (mm_work_items m) \<and>
     (\<forall>k w b. dget (mm_work_items m) k = Some w \<longrightarrow> wi_budget w = Some b \<longrightarrow> valid_budget b) \<and>
     map cu_audit (tb_audits t) = mm_audits m \<and>
     map (\<lambda>(k, row). (k, cx_organization_id row, cx_event_type row, cx_payload row)) (tb_outbox t)
       = map (outbox_of isoformat) (mm_outbox m) \<and>
     keys_inv m"

lemma rows_of_dget: "inj key \<Longrightarrow> dget (rows_of key row d) (key k) = map_option (row k) (dget d k)"
  by (induction d) (auto simp: rows_of_def inj_eq)

lemma rows_of_dset:
  "inj key \<Longrightarrow> dset (key k) (row k v) (rows_of key row d) = rows_of key row (dset k v d)"
  by (induction d) (auto simp: rows_of_def inj_eq)

lemma rows_of_id: "dget (rows_of id row d) k = map_option (row k) (dget d k)"
  using rows_of_dget [of id] by simp

lemma rows_of_id_dset: "dset k (row k v) (rows_of id row d) = rows_of id row (dset k v d)"
  using rows_of_dset [of id] by simp

lemma inj_swap_pair: "inj (prod.swap :: 'a \<times> 'b \<Rightarrow> 'b \<times> 'a)"
  by (rule inj_swap)

lemma routing_dget: "dget (rows_of prod.swap row d) (b, a) = map_option (row (a, b)) (dget d (a, b))"
  using rows_of_dget [OF inj_swap_pair, of row d "(a, b)"] by simp

lemma routing_dset:
  "dset (b, a) (row (a, b) v) (rows_of prod.swap row d) = rows_of prod.swap row (dset (a, b) v d)"
  using rows_of_dset [OF inj_swap_pair, of "(a, b)" row v d] by simp

lemma represents_same_data: "same_data m m' \<Longrightarrow> represents isoformat t m' \<longleftrightarrow> represents isoformat t m"
  by (auto simp: same_data_def represents_def keys_inv_def)

section \<open>Reading back\<close>

lemma column_roundtrips [simp]:
  "role_of_column (role_value r) = Inr r" "role_value r \<noteq> []"
  "intake_of_row (intake_row i) = Inr i" "specification_of_row (specification_row sp) = Inr sp"
  "version_of_row (version_row o' v) = v"
      apply (cases r; simp add: role_of_column_def Role_def enum_of_def)
     apply (cases r; simp)
    apply (cases "ik_status i"; simp add: intake_of_row_def intake_row_def IntakeStatus_def enum_of_def)
   apply (cases "sp_status sp";
      simp add: specification_of_row_def specification_row_def SpecificationStatus_def enum_of_def)
  apply (simp add: version_of_row_def version_row_def)
  done

lemma budget_column_roundtrip: "valid_budget b \<Longrightarrow> budget_of_column repr (Some (budget_asdict b)) = Inr (Some b)"
  by (simp add: budget_of_column_def budget_asdict_def budget_int_def py_int_def py_str_def valid_budget_def)

lemma work_item_roundtrip:
  assumes "\<And>b. wi_budget w = Some b \<Longrightarrow> valid_budget b"
  shows "work_item_of_row repr (work_item_row w) = Inr w"
proof -
  have "budget_of_column repr (map_option budget_asdict (wi_budget w)) = Inr (wi_budget w)"
    using assms budget_column_roundtrip by (cases "wi_budget w") (auto simp: budget_of_column_def)
  moreover have "WorkItemStatus (work_item_status_value (wi_status w)) = Some (wi_status w)"
    by (cases "wi_status w") (simp_all add: WorkItemStatus_def enum_of_def)
  ultimately show ?thesis by (simp add: work_item_of_row_def work_item_row_def)
qed

section \<open>Simulation\<close>

text \<open>
  An operation over the tables and one over the memory, started in states related by \<open>S\<close>: either
  both return the same value in states related by \<open>T\<close>, or the first raises, with nothing committed,
  and the second raises the same exception unless the database refused.
\<close>

definition refines ::
  "cp_tables \<Rightarrow> (cp_session \<Rightarrow> cp_memory \<Rightarrow> bool) \<Rightarrow> ('a \<Rightarrow> cp_session \<Rightarrow> cp_memory \<Rightarrow> bool) \<Rightarrow>
     'a cp_query \<Rightarrow> (cp_memory, cp_error, 'a) oper \<Rightarrow> bool" where
  "refines c S T p q \<longleftrightarrow>
     (\<forall>s m. S s m \<longrightarrow>
        (case p s of
           (Inr a, s') \<Rightarrow> \<exists>m'. q m = (Inr a, m') \<and> T a s' m'
         | (Inl e, s') \<Rightarrow> ses_committed s' = c \<and> (e = IntegrityE \<or> (\<exists>m'. q m = (Inl e, m')))))"

text \<open>Inside a transaction on the committed tables \<open>c\<close>, with \<open>F\<close> known of the memory.\<close>

definition inside ::
  "(time \<Rightarrow> string) \<Rightarrow> uuid \<Rightarrow> cp_tables \<Rightarrow> (cp_memory \<Rightarrow> bool) \<Rightarrow> cp_session \<Rightarrow> cp_memory \<Rightarrow> bool" where
  "inside isoformat org c F s m \<longleftrightarrow>
     represents isoformat (ses_tables s) m \<and> ses_organization s = Some org \<and> ses_committed s = c \<and> F m"

lemma refines_bind:
  assumes "refines c S T p q" and "\<And>a. refines c (T a) U (f a) (g a)"
  shows "refines c S U (bindS p f) (bindS q g)"
  unfolding refines_def
proof (intro allI impI)
  fix s m assume "S s m"
  with assms(1) have p: "case p s of (Inr a, s') \<Rightarrow> \<exists>m'. q m = (Inr a, m') \<and> T a s' m'
      | (Inl e, s') \<Rightarrow> ses_committed s' = c \<and> (e = IntegrityE \<or> (\<exists>m'. q m = (Inl e, m')))"
    unfolding refines_def by (elim allE impE) assumption+
  show "case bindS p f s of (Inr b, s') \<Rightarrow> \<exists>m'. bindS q g m = (Inr b, m') \<and> U b s' m'
      | (Inl e, s') \<Rightarrow> ses_committed s' = c \<and> (e = IntegrityE \<or> (\<exists>m'. bindS q g m = (Inl e, m')))"
  proof (cases "p s")
    case (Pair r s')
    show ?thesis
    proof (cases r)
      case (Inl e)
      then show ?thesis using p Pair by (auto simp: bindS_def)
    next
      case (Inr a)
      then obtain m' where q: "q m = (Inr a, m')" and "T a s' m'" using p Pair by auto
      moreover have "bindS p f s = f a s'" and "bindS q g m = g a m'" using Inr Pair q by (simp_all add: bindS_def)
      moreover have "case f a s' of (Inr b, u) \<Rightarrow> \<exists>v. g a m' = (Inr b, v) \<and> U b u v
          | (Inl e, u) \<Rightarrow> ses_committed u = c \<and> (e = IntegrityE \<or> (\<exists>v. g a m' = (Inl e, v)))"
        using assms(2) [of a] \<open>T a s' m'\<close> unfolding refines_def by (elim allE impE) assumption+
      ultimately show ?thesis by (auto split: prod.splits sum.splits)
    qed
  qed
qed

lemma refines_seq:
  "refines c S (\<lambda>_. T) p q \<Longrightarrow> refines c T U f g \<Longrightarrow> refines c S U (seqS p f) (seqS q g)"
  unfolding seqS_def by (rule refines_bind)

lemma refines_return: "refines c S (\<lambda>a s m. S s m \<and> a = x) (returnS x) (returnS x)"
  by (simp add: refines_def returnS_def)

lemma refines_read:
  assumes "\<And>s m. inside isoformat org c F s m \<Longrightarrow> p s = (Inr (f m), s)"
  shows "refines c (inside isoformat org c F) (\<lambda>a. inside isoformat org c (\<lambda>m. F m \<and> f m = a)) p (readS f)"
  using assms by (auto simp: refines_def inside_def readS_def)

lemma refines_lift:
  "refines c (inside isoformat org c F) (\<lambda>a. inside isoformat org c (\<lambda>m. F m \<and> r = Inr a)) (liftS r) (liftS r)"
  by (cases r) (auto simp: refines_def inside_def liftS_def)

lemmas refines_domain = refines_lift [of _ _ _ _ "map_sum DomainE id r" for r, folded domainS_def]

lemmas refines_validation = refines_lift [of _ _ _ _ "map_sum ValidationE id r" for r, folded validationS_def]

lemma refines_require:
  "refines c (inside isoformat org c F) (\<lambda>a. inside isoformat org c (\<lambda>m. F m \<and> x = Some a))
     (requireS e x) (requireS e x)"
  by (cases x) (auto simp: refines_def inside_def requireS_def returnS_def raiseS_def)

lemma refines_writes:
  assumes "\<And>s m. inside isoformat org c F s m \<Longrightarrow>
    (\<exists>s'. p s = (Inl IntegrityE, s') \<and> ses_committed s' = c) \<or>
    (\<exists>s'. p s = (Inr (), s') \<and> inside isoformat org c (\<lambda>_. True) s' (w m) \<and> Q m)"
  shows "refines c (inside isoformat org c F)
    (\<lambda>_. inside isoformat org c (\<lambda>m'. \<exists>m. F m \<and> Q m \<and> m' = w m)) p (writeS w)"
  unfolding refines_def
proof (intro allI impI)
  fix s m assume m: "inside isoformat org c F s m"
  then have "ses_committed s = c" "F m" by (simp_all add: inside_def)
  then show "case p s of (Inr a, s') \<Rightarrow> \<exists>m'. writeS w m = (Inr a, m') \<and>
        inside isoformat org c (\<lambda>m'. \<exists>m. F m \<and> Q m \<and> m' = w m) s' m'
      | (Inl e, s') \<Rightarrow> ses_committed s' = c \<and> (e = IntegrityE \<or> (\<exists>m'. writeS w m = (Inl e, m')))"
    using assms [OF m] by (fastforce simp: writeS_def inside_def)
qed

lemma refines_write:
  assumes "\<And>s m. inside isoformat org c F s m \<Longrightarrow>
    p s = (Inl IntegrityE, s) \<or>
    (\<exists>s'. p s = (Inr (), s') \<and> inside isoformat org c (\<lambda>_. True) s' (w m) \<and> Q m)"
  shows "refines c (inside isoformat org c F)
    (\<lambda>_. inside isoformat org c (\<lambda>m'. \<exists>m. F m \<and> Q m \<and> m' = w m)) p (writeS w)"
proof (rule refines_writes)
  fix s m assume m: "inside isoformat org c F s m"
  then have "ses_committed s = c" by (simp add: inside_def)
  then show "(\<exists>s'. p s = (Inl IntegrityE, s') \<and> ses_committed s' = c) \<or>
      (\<exists>s'. p s = (Inr (), s') \<and> inside isoformat org c (\<lambda>_. True) s' (w m) \<and> Q m)"
    using assms [OF m] by blast
qed

section \<open>The operations of the repository\<close>

lemma selected_row_current:
  "ses_organization s = Some org \<Longrightarrow>
     selected_row org_of org table k s = owned org_of org (dget (table (ses_tables s)) k)"
  by (auto simp: selected_row_def owned_def split: option.split)

lemma keys_of:
  assumes "represents isoformat t m"
  shows "dget (mm_projects m) k = Some p \<Longrightarrow> pj_id p = k" "dget (mm_intakes m) k = Some i \<Longrightarrow> ik_id i = k"
    "dget (mm_specifications m) k = Some sp \<Longrightarrow> sp_id sp = k"
    "dget (mm_specification_versions m) k = Some v \<Longrightarrow> sv_id v = k"
    "dget (mm_work_items m) k = Some w \<Longrightarrow> wi_id w = k"
  using assms by (auto simp: represents_def keys_inv_def keyed_def)

lemma role_for_reads:
  "inside isoformat org c F s m \<Longrightarrow> cq_role_for org actor s = (Inr (memory_role_for org actor m), s)"
  by (cases "dget (mm_memberships m) (org, actor)")
    (auto simp: cq_role_for_def inside_def represents_def selected_row_current rows_of_id owned_def
      membership_row_def memory_role_for_def bindS_def readS_def returnS_def liftS_def)

lemma get_project_reads:
  "inside isoformat org c F s m \<Longrightarrow> cq_get_project org k s = (Inr (memory_get_project org k m), s)"
  by (simp add: cq_get_project_def inside_def represents_def selected_row_current readS_def memory_get_project_def)

lemma owned_rows:
  "(\<And>v. org_of (row v) = of_obj v) \<Longrightarrow>
     owned org_of org (map_option row x) = map_option row (owned of_obj org x)"
  by (cases x) (auto simp: owned_def)

lemma decoded_row:
  assumes "\<And>v. x = Some v \<Longrightarrow> decode (row v) = Inr v"
  shows "decode_row decode (map_option row x) s = (Inr x, s)"
  using assms by (cases x) (auto simp: decode_row_def returnS_def liftS_def)

lemma get_intake_reads:
  assumes "inside isoformat org c F s m"
  shows "cq_get_intake org k s = (Inr (memory_get_intake org k m), s)"
proof -
  have "selected_row ci_organization_id org tb_intakes k s = map_option intake_row (memory_get_intake org k m)"
    using assms owned_rows [of ci_organization_id intake_row ik_organization_id]
    by (simp add: inside_def represents_def selected_row_current rows_of_id memory_get_intake_def intake_row_def)
  then show ?thesis
    using decoded_row [of "memory_get_intake org k m" intake_of_row intake_row s]
    by (simp add: cq_get_intake_def)
qed

lemma get_specification_reads:
  assumes "inside isoformat org c F s m"
  shows "cq_get_specification org k s = (Inr (memory_get_specification org k m), s)"
proof -
  have "selected_row cs_organization_id org tb_specifications k s =
      map_option specification_row (memory_get_specification org k m)"
    using assms owned_rows [of cs_organization_id specification_row sp_organization_id]
    by (simp add: inside_def represents_def selected_row_current rows_of_id memory_get_specification_def
        specification_row_def)
  then show ?thesis
    using decoded_row [of "memory_get_specification org k m" specification_of_row specification_row s]
    by (simp add: cq_get_specification_def)
qed

lemma get_work_item_reads:
  assumes "inside isoformat org c F s m"
  shows "cq_get_work_item repr org k s = (Inr (memory_get_work_item org k m), s)"
proof -
  have "selected_row ck_organization_id org tb_work_items k s =
      map_option work_item_row (memory_get_work_item org k m)"
    using assms owned_rows [of ck_organization_id work_item_row wi_organization_id]
    by (simp add: inside_def represents_def selected_row_current rows_of_id memory_get_work_item_def
        work_item_row_def)
  moreover have "work_item_of_row repr (work_item_row w) = Inr w" if "memory_get_work_item org k m = Some w" for w
  proof (rule work_item_roundtrip)
    show "valid_budget b" if "wi_budget w = Some b" for b
      using \<open>memory_get_work_item org k m = Some w\<close> that assms
      by (auto simp: memory_get_work_item_def owned_Some_iff inside_def represents_def)
  qed
  ultimately show ?thesis
    using decoded_row [of "memory_get_work_item org k m" "work_item_of_row repr" work_item_row s]
    by (simp add: cq_get_work_item_def)
qed

lemma get_specification_version_reads:
  assumes "inside isoformat org c F s m"
  shows "cq_get_specification_version org k s = (Inr (memory_get_specification_version org k m), s)"
proof -
  have versions: "dget (mm_specification_versions m) k =
      map_option version_of_row (dget (tb_specification_versions (ses_tables s)) k)"
    using assms by (simp add: inside_def represents_def rows_of_id)
  show ?thesis
  proof (cases "dget (tb_specification_versions (ses_tables s)) k")
    case None
    then show ?thesis
      using assms versions
      by (simp add: cq_get_specification_version_def inside_def selected_row_current readS_def
          memory_get_specification_version_def)
  next
    case (Some row)
    then obtain sp where "dget (mm_specifications m) (cv_specification_id row) = Some sp"
      and "sp_organization_id sp = cv_organization_id row"
      using assms unfolding inside_def represents_def by metis
    then show ?thesis
      using assms versions Some
      by (auto simp: cq_get_specification_version_def inside_def selected_row_current readS_def owned_Some
          memory_get_specification_version_def version_of_row_def)
  qed
qed

text \<open>Writing: the table is changed as the dictionary of the memory is, or the database refuses.\<close>

lemma cq_add_cases:
  assumes "inside isoformat org c F s m"
    and "\<not> used (ses_tables s) \<Longrightarrow> represents isoformat (w (ses_tables s)) m'"
  shows "cq_add org used w s = (Inl IntegrityE, s) \<or>
    (\<exists>s'. cq_add org used w s = (Inr (), s') \<and> inside isoformat org c (\<lambda>_. True) s' m' \<and>
       \<not> used (ses_tables s))"
  using assms by (auto simp: cq_add_def insert_orS_def inside_def)

lemma cq_update_some:
  assumes "inside isoformat org c F s m" and "dget (table (ses_tables s)) k = Some row" and "org_of row = org"
    and "represents isoformat (w row (ses_tables s)) m'"
  shows "\<exists>s'. cq_update org_of table k w s = (Inr (), s') \<and> inside isoformat org c (\<lambda>_. True) s' m'"
  using assms by (auto simp: cq_update_def cq_write_def inside_def bindS_def readS_def writeS_def owned_def)

lemma add_project_writes:
  assumes "\<And>m. F m \<Longrightarrow> pj_organization_id p = org"
  shows "refines c (inside isoformat org c F)
    (\<lambda>_. inside isoformat org c (\<lambda>m'. \<exists>m. F m \<and> dget (mm_projects m) (pj_id p) = None \<and>
       m' = memory_add_project p m)) (cq_add_project p) (writeS (memory_add_project p))"
proof (rule refines_write)
  fix s m assume m: "inside isoformat org c F s m"
  then have "pj_organization_id p = org" using assms unfolding inside_def by blast
  then show "cq_add_project p s = (Inl IntegrityE, s) \<or>
      (\<exists>s'. cq_add_project p s = (Inr (), s') \<and>
         inside isoformat org c (\<lambda>_. True) s' (memory_add_project p m) \<and> dget (mm_projects m) (pj_id p) = None)"
    using cq_add_cases [OF m, where w = "\<lambda>t. t\<lparr>tb_projects := dset (pj_id p) p (tb_projects t)\<rparr>"
        and used = "\<lambda>t. dget (tb_projects t) (pj_id p) \<noteq> None" and m' = "memory_add_project p m"] m
    by (auto simp: cq_add_project_def inside_def represents_def keys_inv_def memory_add_project_def)
qed

lemma add_intake_writes:
  assumes "\<And>m. F m \<Longrightarrow> ik_organization_id i = org"
  shows "refines c (inside isoformat org c F)
    (\<lambda>_. inside isoformat org c (\<lambda>m'. \<exists>m. F m \<and> dget (mm_intakes m) (ik_id i) = None \<and>
       m' = memory_add_intake i m)) (cq_add_intake i) (writeS (memory_add_intake i))"
proof (rule refines_write)
  fix s m assume m: "inside isoformat org c F s m"
  then have "ik_organization_id i = org" using assms unfolding inside_def by blast
  then show "cq_add_intake i s = (Inl IntegrityE, s) \<or>
      (\<exists>s'. cq_add_intake i s = (Inr (), s') \<and>
         inside isoformat org c (\<lambda>_. True) s' (memory_add_intake i m) \<and> dget (mm_intakes m) (ik_id i) = None)"
    using cq_add_cases [OF m,
        where w = "\<lambda>t. t\<lparr>tb_intakes := dset (ik_id i) (intake_row i) (tb_intakes t)\<rparr>"
        and used = "\<lambda>t. dget (tb_intakes t) (ik_id i) \<noteq> None" and m' = "memory_add_intake i m"] m
    by (auto simp: cq_add_intake_def inside_def represents_def keys_inv_def memory_add_intake_def rows_of_id
        rows_of_id_dset [of _ "\<lambda>_. intake_row"])
qed

lemma add_approval_writes:
  assumes "\<And>m. F m \<Longrightarrow> ap_organization_id a = org"
  shows "refines c (inside isoformat org c F)
    (\<lambda>_. inside isoformat org c (\<lambda>m'. \<exists>m. F m \<and> dget (mm_approvals m) (ap_id a) = None \<and>
       m' = memory_add_approval a m)) (cq_add_approval a) (writeS (memory_add_approval a))"
proof (rule refines_write)
  fix s m assume m: "inside isoformat org c F s m"
  then have "ap_organization_id a = org" using assms unfolding inside_def by blast
  then show "cq_add_approval a s = (Inl IntegrityE, s) \<or>
      (\<exists>s'. cq_add_approval a s = (Inr (), s') \<and>
         inside isoformat org c (\<lambda>_. True) s' (memory_add_approval a m) \<and> dget (mm_approvals m) (ap_id a) = None)"
    using cq_add_cases [OF m, where w = "\<lambda>t. t\<lparr>tb_approvals := dset (ap_id a) a (tb_approvals t)\<rparr>"
        and used = "\<lambda>t. dget (tb_approvals t) (ap_id a) \<noteq> None" and m' = "memory_add_approval a m"] m
    by (auto simp: cq_add_approval_def inside_def represents_def keys_inv_def memory_add_approval_def)
qed

lemma add_work_item_writes:
  assumes "\<And>m. F m \<Longrightarrow> wi_organization_id w = org" and "wi_budget w = None"
  shows "refines c (inside isoformat org c F)
    (\<lambda>_. inside isoformat org c (\<lambda>m'. \<exists>m. F m \<and> dget (mm_work_items m) (wi_id w) = None \<and>
       m' = memory_add_work_item w m)) (cq_add_work_item w) (writeS (memory_add_work_item w))"
proof (rule refines_write)
  fix s m assume m: "inside isoformat org c F s m"
  then have org: "wi_organization_id w = org" using assms(1) unfolding inside_def by blast
  let ?w = "\<lambda>t. t\<lparr>tb_work_items := dset (wi_id w) (work_item_row w) (tb_work_items t)\<rparr>"
  have "represents isoformat (?w (ses_tables s)) (memory_add_work_item w m)"
    using m assms(2)
    by (auto simp: inside_def represents_def keys_inv_def memory_add_work_item_def
        rows_of_id_dset [of _ "\<lambda>_. work_item_row"] split: if_splits)
  then show "cq_add_work_item w s = (Inl IntegrityE, s) \<or>
      (\<exists>s'. cq_add_work_item w s = (Inr (), s') \<and>
         inside isoformat org c (\<lambda>_. True) s' (memory_add_work_item w m) \<and> dget (mm_work_items m) (wi_id w) = None)"
    using cq_add_cases [OF m, where w = ?w and used = "\<lambda>t. dget (tb_work_items t) (wi_id w) \<noteq> None"
        and m' = "memory_add_work_item w m"] m org
    by (simp add: cq_add_work_item_def inside_def represents_def rows_of_id)
qed

lemma add_audit_writes:
  assumes "ca_organization_id a = org"
  shows "refines c (inside isoformat org c F)
    (\<lambda>_. inside isoformat org c (\<lambda>m'. \<exists>m. F m \<and> True \<and> m' = memory_add_audit a m))
    (cq_add_audit now a) (writeS (memory_add_audit a))"
proof (rule refines_write)
  fix s m assume m: "inside isoformat org c F s m"
  show "cq_add_audit now a s = (Inl IntegrityE, s) \<or>
      (\<exists>s'. cq_add_audit now a s = (Inr (), s') \<and>
         inside isoformat org c (\<lambda>_. True) s' (memory_add_audit a m) \<and> True)"
    using m assms
    by (auto simp: cq_add_audit_def cq_add_def insert_orS_def inside_def represents_def keys_inv_def
        memory_add_audit_def)
qed

text \<open>An object written back differs from the stored one only in what its methods change.\<close>

definition changed_intake :: "uuid \<Rightarrow> intake_request \<Rightarrow> cp_memory \<Rightarrow> bool" where
  "changed_intake org i m \<longleftrightarrow>
     (\<exists>i0. dget (mm_intakes m) (ik_id i) = Some i0 \<and> ik_organization_id i0 = org \<and>
           i = i0\<lparr>ik_status := ik_status i\<rparr>)"

definition changed_specification :: "uuid \<Rightarrow> specification_record \<Rightarrow> cp_memory \<Rightarrow> bool" where
  "changed_specification org sp m \<longleftrightarrow>
     (\<exists>sp0. dget (mm_specifications m) (sp_id sp) = Some sp0 \<and> sp_organization_id sp0 = org \<and>
            sp = sp0\<lparr>sp_status := sp_status sp\<rparr>)"

definition changed_work_item :: "uuid \<Rightarrow> work_item \<Rightarrow> cp_memory \<Rightarrow> bool" where
  "changed_work_item org w m \<longleftrightarrow>
     (\<exists>w0. dget (mm_work_items m) (wi_id w) = Some w0 \<and> wi_organization_id w0 = org \<and>
        w = w0\<lparr>wi_repository_connection_id := wi_repository_connection_id w,
               wi_provider_configuration_id := wi_provider_configuration_id w,
               wi_runner_pool_id := wi_runner_pool_id w, wi_budget := wi_budget w,
               wi_status := wi_status w, wi_version := wi_version w\<rparr>) \<and>
     (\<forall>b. wi_budget w = Some b \<longrightarrow> valid_budget b)"

lemma update_intake_writes:
  assumes "\<And>t m. represents isoformat t m \<Longrightarrow> F m \<Longrightarrow> changed_intake org i m"
  shows "refines c (inside isoformat org c F)
    (\<lambda>_. inside isoformat org c (\<lambda>m'. \<exists>m. F m \<and> True \<and> m' = memory_update_intake i m))
    (cq_update_intake i) (writeS (memory_update_intake i))"
proof (rule refines_write)
  fix s m assume m: "inside isoformat org c F s m"
  then have "changed_intake org i m" using assms unfolding inside_def by blast
  then obtain i0 where i0: "dget (mm_intakes m) (ik_id i) = Some i0" "ik_organization_id i0 = org"
      "i = i0\<lparr>ik_status := ik_status i\<rparr>" by (auto simp: changed_intake_def)
  let ?w = "\<lambda>row t. t\<lparr>tb_intakes := dset (ik_id i) (row\<lparr>ci_status := intake_status_value (ik_status i)\<rparr>) (tb_intakes t)\<rparr>"
  have row: "(intake_row i0)\<lparr>ci_status := intake_status_value (ik_status i)\<rparr> = intake_row i"
    by (subst (2) i0(3)) (simp add: intake_row_def)
  have "represents isoformat (?w (intake_row i0) (ses_tables s)) (memory_update_intake i m)"
    using m by (auto simp: inside_def represents_def keys_inv_def memory_update_intake_def row
        rows_of_id_dset [of _ "\<lambda>_. intake_row"])
  then show "cq_update_intake i s = (Inl IntegrityE, s) \<or>
      (\<exists>s'. cq_update_intake i s = (Inr (), s') \<and>
         inside isoformat org c (\<lambda>_. True) s' (memory_update_intake i m) \<and> True)"
    using cq_update_some [OF m, where table = tb_intakes and k = "ik_id i" and row = "intake_row i0"
        and org_of = ci_organization_id and w = ?w and m' = "memory_update_intake i m"] m i0
    by (simp add: cq_update_intake_def inside_def represents_def rows_of_id intake_row_def)
qed

lemma update_specification_writes:
  assumes "\<And>t m. represents isoformat t m \<Longrightarrow> F m \<Longrightarrow> changed_specification org sp m"
  shows "refines c (inside isoformat org c F)
    (\<lambda>_. inside isoformat org c (\<lambda>m'. \<exists>m. F m \<and> True \<and> m' = memory_update_specification sp m))
    (cq_update_specification sp) (writeS (memory_update_specification sp))"
proof (rule refines_write)
  fix s m assume m: "inside isoformat org c F s m"
  then have "changed_specification org sp m" using assms unfolding inside_def by blast
  then obtain sp0 where sp0: "dget (mm_specifications m) (sp_id sp) = Some sp0" "sp_organization_id sp0 = org"
      "sp = sp0\<lparr>sp_status := sp_status sp\<rparr>" by (auto simp: changed_specification_def)
  let ?w = "\<lambda>row t. t\<lparr>tb_specifications := dset (sp_id sp)
      (row\<lparr>cs_status := specification_status_value (sp_status sp), cs_current_version := sp_current_version sp,
          cs_current_version_id := sp_current_version_id sp\<rparr>) (tb_specifications t)\<rparr>"
  have row: "(specification_row sp0)\<lparr>cs_status := specification_status_value (sp_status sp),
      cs_current_version := sp_current_version sp, cs_current_version_id := sp_current_version_id sp\<rparr>
      = specification_row sp"
    using sp0(3) by (cases sp; cases sp0) (simp add: specification_row_def)
  have org: "sp_organization_id sp = sp_organization_id sp0" by (subst sp0(3)) simp
  have "represents isoformat (?w (specification_row sp0) (ses_tables s)) (memory_update_specification sp m)"
    using m sp0(1) by (auto simp: inside_def represents_def keys_inv_def memory_update_specification_def row org
        rows_of_id_dset [of _ "\<lambda>_. specification_row"]) (metis option.inject)
  then show "cq_update_specification sp s = (Inl IntegrityE, s) \<or>
      (\<exists>s'. cq_update_specification sp s = (Inr (), s') \<and>
         inside isoformat org c (\<lambda>_. True) s' (memory_update_specification sp m) \<and> True)"
    using cq_update_some [OF m, where table = tb_specifications and k = "sp_id sp" and row = "specification_row sp0"
        and org_of = cs_organization_id and w = ?w and m' = "memory_update_specification sp m"] m sp0
    by (simp add: cq_update_specification_def inside_def represents_def rows_of_id specification_row_def)
qed

lemma update_work_item_writes:
  assumes "\<And>t m. represents isoformat t m \<Longrightarrow> F m \<Longrightarrow> changed_work_item org w m"
  shows "refines c (inside isoformat org c F)
    (\<lambda>_. inside isoformat org c (\<lambda>m'. \<exists>m. F m \<and> True \<and> m' = memory_update_work_item w m))
    (cq_update_work_item w) (writeS (memory_update_work_item w))"
proof (rule refines_write)
  fix s m assume m: "inside isoformat org c F s m"
  then have "changed_work_item org w m" using assms unfolding inside_def by blast
  then obtain w0 where w0: "dget (mm_work_items m) (wi_id w) = Some w0" "wi_organization_id w0 = org"
      "w = w0\<lparr>wi_repository_connection_id := wi_repository_connection_id w,
             wi_provider_configuration_id := wi_provider_configuration_id w,
             wi_runner_pool_id := wi_runner_pool_id w, wi_budget := wi_budget w,
             wi_status := wi_status w, wi_version := wi_version w\<rparr>"
    and budget: "\<And>b. wi_budget w = Some b \<Longrightarrow> valid_budget b" by (auto simp: changed_work_item_def)
  let ?w = "\<lambda>row t. t\<lparr>tb_work_items := dset (wi_id w)
      (row\<lparr>ck_status := work_item_status_value (wi_status w),
          ck_repository_connection_id := wi_repository_connection_id w,
          ck_provider_configuration_id := wi_provider_configuration_id w,
          ck_runner_pool_id := wi_runner_pool_id w, ck_budget := map_option budget_asdict (wi_budget w),
          ck_version := wi_version w\<rparr>) (tb_work_items t)\<rparr>"
  have row: "(work_item_row w0)\<lparr>ck_status := work_item_status_value (wi_status w),
      ck_repository_connection_id := wi_repository_connection_id w,
      ck_provider_configuration_id := wi_provider_configuration_id w,
      ck_runner_pool_id := wi_runner_pool_id w, ck_budget := map_option budget_asdict (wi_budget w),
      ck_version := wi_version w\<rparr> = work_item_row w"
    using w0(3) by (cases w; cases w0) (simp add: work_item_row_def)
  have "represents isoformat (?w (work_item_row w0) (ses_tables s)) (memory_update_work_item w m)"
    using m budget by (auto simp: inside_def represents_def keys_inv_def memory_update_work_item_def row
        rows_of_id_dset [of _ "\<lambda>_. work_item_row"] split: if_splits)
  then show "cq_update_work_item w s = (Inl IntegrityE, s) \<or>
      (\<exists>s'. cq_update_work_item w s = (Inr (), s') \<and>
         inside isoformat org c (\<lambda>_. True) s' (memory_update_work_item w m) \<and> True)"
    using cq_update_some [OF m, where table = tb_work_items and k = "wi_id w" and row = "work_item_row w0"
        and org_of = ck_organization_id and w = ?w and m' = "memory_update_work_item w m"] m w0
    by (simp add: cq_update_work_item_def inside_def represents_def rows_of_id work_item_row_def)
qed

lemma add_specification_writes:
  assumes "\<And>m. F m \<Longrightarrow> sp_organization_id sp = org \<and> sv_specification_id v = sp_id sp"
  shows "refines c (inside isoformat org c F)
    (\<lambda>_. inside isoformat org c (\<lambda>m'. \<exists>m. F m \<and>
       (dget (mm_specifications m) (sp_id sp) = None \<and> dget (mm_specification_versions m) (sv_id v) = None) \<and>
       m' = memory_add_specification sp v m)) (cq_add_specification sp v) (writeS (memory_add_specification sp v))"
proof (rule refines_writes)
  fix s m assume m: "inside isoformat org c F s m"
  then have "F m" and rep: "represents isoformat (ses_tables s) m" by (simp_all add: inside_def)
  then have org: "sp_organization_id sp = org" and owner: "sv_specification_id v = sp_id sp" using assms by blast+
  let ?t = "ses_tables s"
  let ?t' = "?t\<lparr>tb_specifications := dset (sp_id sp) (specification_row sp) (tb_specifications ?t),
    tb_specification_versions := dset (sv_id v) (version_row org v) (tb_specification_versions ?t)\<rparr>"
  have version: "rows_of id (\<lambda>_. version_of_row) (dset (sv_id v) (version_row org v) d) =
      dset (sv_id v) v (rows_of id (\<lambda>_. version_of_row) d)" for d
    using rows_of_id_dset [of "sv_id v" "\<lambda>_. version_of_row" "version_row org v" d] by simp
  have owners: "\<exists>sp'. dget (dset (sp_id sp) sp (mm_specifications m)) (cv_specification_id row) = Some sp' \<and>
      sp_organization_id sp' = cv_organization_id row"
    if "dget (mm_specifications m) (sp_id sp) = None"
      "dget (dset (sv_id v) (version_row org v) (tb_specification_versions ?t)) k = Some row" for k row
  proof (cases "k = sv_id v")
    case True
    then show ?thesis using that(2) org owner by (auto simp: version_row_def)
  next
    case False
    then have "dget (tb_specification_versions ?t) k = Some row" using that(2) by simp
    then obtain sp' where "dget (mm_specifications m) (cv_specification_id row) = Some sp'"
        "sp_organization_id sp' = cv_organization_id row"
      using rep unfolding represents_def by metis
    then show ?thesis using that(1) by (cases "cv_specification_id row = sp_id sp") auto
  qed
  have new: "represents isoformat ?t' (memory_add_specification sp v m)"
    if "dget (mm_specifications m) (sp_id sp) = None"
    using rep owners [OF that] unfolding represents_def
    by (simp add: keys_inv_def memory_add_specification_def version
        rows_of_id_dset [of _ "\<lambda>_. specification_row"] del: dget_dset) (auto simp del: dget_dset)
  show "(\<exists>s'. cq_add_specification sp v s = (Inl IntegrityE, s') \<and> ses_committed s' = c) \<or>
      (\<exists>s'. cq_add_specification sp v s = (Inr (), s') \<and>
         inside isoformat org c (\<lambda>_. True) s' (memory_add_specification sp v m) \<and>
         dget (mm_specifications m) (sp_id sp) = None \<and> dget (mm_specification_versions m) (sv_id v) = None)"
    using m new rep org
    by (auto simp: cq_add_specification_def stepsS.simps cq_add_def insert_orS_def seqS_def bindS_def returnS_def
        inside_def represents_def rows_of_id)
qed

lemma add_outbox_writes:
  assumes "\<And>m. F m \<Longrightarrow> ev_organization_id e = org"
  shows "refines c (inside isoformat org c F)
    (\<lambda>_. inside isoformat org c (\<lambda>m'. \<exists>m. F m \<and> True \<and> m' = memory_add_outbox e m))
    (cq_add_outbox isoformat now e) (writeS (memory_add_outbox e))"
proof (rule refines_writes)
  fix s m assume m: "inside isoformat org c F s m"
  then have "F m" and rep: "represents isoformat (ses_tables s) m" by (simp_all add: inside_def)
  then have org: "ev_organization_id e = org" using assms by blast
  show "(\<exists>s'. cq_add_outbox isoformat now e s = (Inl IntegrityE, s') \<and> ses_committed s' = c) \<or>
      (\<exists>s'. cq_add_outbox isoformat now e s = (Inr (), s') \<and>
         inside isoformat org c (\<lambda>_. True) s' (memory_add_outbox e m) \<and> True)"
    using m rep org
    by (auto simp: cq_add_outbox_def stepsS.simps cq_add_def cq_add_free_def insert_orS_def seqS_def bindS_def
        returnS_def inside_def represents_def keys_inv_def memory_add_outbox_def outbox_of_def dset_new)
qed

lemma add_organization_writes:
  assumes "\<And>m. F m \<Longrightarrow> og_id o' = org"
  shows "refines c (inside isoformat org c F)
    (\<lambda>_. inside isoformat org c (\<lambda>m'. \<exists>m. F m \<and> dget (mm_organizations m) (og_id o') = None \<and>
       m' = memory_add_organization o' owner m))
    (cq_add_organization o' owner) (writeS (memory_add_organization o' owner))"
proof (rule refines_writes)
  fix s m assume m: "inside isoformat org c F s m"
  then have "F m" and rep: "represents isoformat (ses_tables s) m" by (simp_all add: inside_def)
  then have org: "og_id o' = org" using assms by blast
  let ?row = "\<lambda>(o', subject). membership_row o' subject"
  have memberships: "dset (a, b) (membership_row a b r) (rows_of id ?row d) = rows_of id ?row (dset (a, b) r d)"
    and routing: "dset (b, a) (membership_row a b r) (rows_of prod.swap ?row d)
      = rows_of prod.swap ?row (dset (a, b) r d)" for a b r d
    using rows_of_id_dset [of "(a, b)" ?row r d] routing_dset [of b a ?row r d] by simp_all
  have row: "\<lparr>cm_organization_id = a, cm_subject = owner, cm_role = ''OWNER''\<rparr> = membership_row a owner OWNER" for a
    by (simp add: membership_row_def)
  show "(\<exists>s'. cq_add_organization o' owner s = (Inl IntegrityE, s') \<and> ses_committed s' = c) \<or>
      (\<exists>s'. cq_add_organization o' owner s = (Inr (), s') \<and>
         inside isoformat org c (\<lambda>_. True) s' (memory_add_organization o' owner m) \<and>
         dget (mm_organizations m) (og_id o') = None)"
    using m rep org
    by (auto simp: cq_add_organization_def Let_def stepsS.simps cq_add_def cq_add_free_def insert_orS_def seqS_def
        bindS_def returnS_def inside_def represents_def keys_inv_def memory_add_organization_def row
        memberships routing)
qed

section \<open>A unit of work\<close>

definition opened :: "(time \<Rightarrow> string) \<Rightarrow> cp_tables \<Rightarrow> cp_memory \<Rightarrow> cp_session \<Rightarrow> cp_memory \<Rightarrow> bool" where
  "opened isoformat c m0 s m \<longleftrightarrow>
     ses_tables s = c \<and> ses_committed s = c \<and> represents isoformat c m0 \<and> m = m0"

lemma refines_set_organization:
  "refines c (opened isoformat c m0) (\<lambda>_. inside isoformat org c (\<lambda>m. m = memory_set_organization org m0))
     (cq_set_organization org) (writeS (memory_set_organization org))"
proof -
  have "represents isoformat c (memory_set_organization org m0)" if "represents isoformat c m0"
    using that by (auto simp: represents_def keys_inv_def memory_set_organization_def)
  then show ?thesis by (auto simp: refines_def opened_def inside_def cq_set_organization_def writeS_def)
qed

definition saved ::
  "(time \<Rightarrow> string) \<Rightarrow> (cp_memory \<Rightarrow> bool) \<Rightarrow> cp_session \<Rightarrow> cp_memory \<Rightarrow> bool" where
  "saved isoformat F s m \<longleftrightarrow> represents isoformat (ses_committed s) m \<and> F m"

lemma refines_commit:
  "refines c (inside isoformat org c F) (\<lambda>_. saved isoformat (\<lambda>m'. \<exists>m. F m \<and> m' = memory_commit m))
     cq_commit (writeS memory_commit)"
  by (auto simp: refines_def inside_def saved_def cq_commit_def writeS_def memory_commit_def represents_def
      keys_inv_def)

lemma refines_finish: "(\<And>s m. S s m \<Longrightarrow> U x s m) \<Longrightarrow> refines c S U (returnS x) (returnS x)"
  by (simp add: refines_def returnS_def)

lemma bindS_assoc: "bindS (bindS m f) g = bindS m (\<lambda>a. bindS (f a) g)"
  by (rule ext) (auto simp: bindS_def split: prod.splits sum.splits)

text \<open>
  The run of a use case over the tables, and the run of the same over the memory: the same value, and
  the tables committed represent the memory; or an exception with nothing committed, which the
  memory raises as well unless the database refused. \<open>G\<close> is what the tables checked on the way.
\<close>

definition matched ::
  "(time \<Rightarrow> string) \<Rightarrow> cp_tables \<Rightarrow> bool \<Rightarrow> (cp_error + 'a) \<times> cp_session \<Rightarrow>
     (cp_error + 'a) \<times> cp_memory \<Rightarrow> bool" where
  "matched isoformat c G run run' \<longleftrightarrow>
     (case run of
        (Inr a, s') \<Rightarrow> (\<exists>m'. run' = (Inr a, m') \<and> represents isoformat (ses_committed s') m' \<and> G)
      | (Inl e, s') \<Rightarrow> ses_committed s' = c \<and> (e = IntegrityE \<or> (\<exists>m'. run' = (Inl e, m'))))"

lemma refines_uow:
  assumes "refines c (opened isoformat c (memory_enter m)) (\<lambda>a s m'. represents isoformat (ses_committed s) m' \<and> G) p q"
    and "represents isoformat c m" and "ses_committed s = c"
  shows "matched isoformat c G (with_uow (PostgresUnitOfWork repr isoformat now) p s) (with_uow MemoryUnitOfWork q m)"
proof -
  have "opened isoformat c (memory_enter m) (cq_enter s) (memory_enter m)"
    using assms(2,3) represents_same_data [of m "memory_enter m"]
    by (auto simp: opened_def cq_enter_def memory_enter_def)
  with assms(1) have "case p (cq_enter s) of
        (Inr a, s') \<Rightarrow> \<exists>m'. q (memory_enter m) = (Inr a, m') \<and> represents isoformat (ses_committed s') m' \<and> G
      | (Inl e, s') \<Rightarrow> ses_committed s' = c \<and> (e = IntegrityE \<or> (\<exists>m'. q (memory_enter m) = (Inl e, m')))"
    unfolding refines_def by (elim allE impE) assumption+
  then show ?thesis
    by (auto simp: matched_def with_uow_def PostgresUnitOfWork_def MemoryUnitOfWork_def cq_exit_def memory_exit_def
        split: prod.splits sum.splits)
qed

lemma postgres_fields:
  "uw_set_organization (PostgresUnitOfWork repr isoformat now) = cq_set_organization"
  "uw_commit (PostgresUnitOfWork repr isoformat now) = cq_commit"
  "rp_role_for (PostgresUnitOfWork repr isoformat now) = cq_role_for"
  "rp_add_organization (PostgresUnitOfWork repr isoformat now) = cq_add_organization"
  "rp_add_project (PostgresUnitOfWork repr isoformat now) = cq_add_project"
  "rp_get_project (PostgresUnitOfWork repr isoformat now) = cq_get_project"
  "rp_add_intake (PostgresUnitOfWork repr isoformat now) = cq_add_intake"
  "rp_get_intake (PostgresUnitOfWork repr isoformat now) = cq_get_intake"
  "rp_update_intake (PostgresUnitOfWork repr isoformat now) = cq_update_intake"
  "rp_add_specification (PostgresUnitOfWork repr isoformat now) = cq_add_specification"
  "rp_get_specification (PostgresUnitOfWork repr isoformat now) = cq_get_specification"
  "rp_get_specification_version (PostgresUnitOfWork repr isoformat now) = cq_get_specification_version"
  "rp_update_specification (PostgresUnitOfWork repr isoformat now) = cq_update_specification"
  "rp_add_approval (PostgresUnitOfWork repr isoformat now) = cq_add_approval"
  "rp_add_work_item (PostgresUnitOfWork repr isoformat now) = cq_add_work_item"
  "rp_get_work_item (PostgresUnitOfWork repr isoformat now) = cq_get_work_item repr"
  "rp_update_work_item (PostgresUnitOfWork repr isoformat now) = cq_update_work_item"
  "rp_add_audit (PostgresUnitOfWork repr isoformat now) = cq_add_audit now"
  "rp_add_outbox (PostgresUnitOfWork repr isoformat now) = cq_add_outbox isoformat now"
  by (simp_all add: PostgresUnitOfWork_def)

lemma memory_fields:
  "uw_set_organization MemoryUnitOfWork o' = writeS (memory_set_organization o')"
  "uw_commit MemoryUnitOfWork = writeS memory_commit"
  "rp_role_for MemoryUnitOfWork o' subject = readS (memory_role_for o' subject)"
  "rp_add_organization MemoryUnitOfWork og owner = writeS (memory_add_organization og owner)"
  "rp_add_project MemoryUnitOfWork p = writeS (memory_add_project p)"
  "rp_get_project MemoryUnitOfWork o' k = readS (memory_get_project o' k)"
  "rp_add_intake MemoryUnitOfWork i = writeS (memory_add_intake i)"
  "rp_get_intake MemoryUnitOfWork o' k = readS (memory_get_intake o' k)"
  "rp_update_intake MemoryUnitOfWork i = writeS (memory_update_intake i)"
  "rp_add_specification MemoryUnitOfWork sp v = writeS (memory_add_specification sp v)"
  "rp_get_specification MemoryUnitOfWork o' k = readS (memory_get_specification o' k)"
  "rp_get_specification_version MemoryUnitOfWork o' k = readS (memory_get_specification_version o' k)"
  "rp_update_specification MemoryUnitOfWork sp = writeS (memory_update_specification sp)"
  "rp_add_approval MemoryUnitOfWork a = writeS (memory_add_approval a)"
  "rp_add_work_item MemoryUnitOfWork w = writeS (memory_add_work_item w)"
  "rp_get_work_item MemoryUnitOfWork o' k = readS (memory_get_work_item o' k)"
  "rp_update_work_item MemoryUnitOfWork w = writeS (memory_update_work_item w)"
  "rp_add_audit MemoryUnitOfWork au = writeS (memory_add_audit au)"
  "rp_add_outbox MemoryUnitOfWork e = writeS (memory_add_outbox e)"
  by (simp_all add: MemoryUnitOfWork_def)

lemmas body_simps = postgres_fields memory_fields seqS_stepsS authorizeS_def audit_def required_defs bindS_assoc

lemma refines_reads:
  "refines c (inside isoformat org c F) (\<lambda>a. inside isoformat org c (\<lambda>m. F m \<and> memory_role_for org actor m = a))
     (cq_role_for org actor) (readS (memory_role_for org actor))"
  "refines c (inside isoformat org c F) (\<lambda>a. inside isoformat org c (\<lambda>m. F m \<and> memory_get_project org k m = a))
     (cq_get_project org k) (readS (memory_get_project org k))"
  "refines c (inside isoformat org c F) (\<lambda>a. inside isoformat org c (\<lambda>m. F m \<and> memory_get_intake org k m = a))
     (cq_get_intake org k) (readS (memory_get_intake org k))"
  "refines c (inside isoformat org c F) (\<lambda>a. inside isoformat org c (\<lambda>m. F m \<and> memory_get_specification org k m = a))
     (cq_get_specification org k) (readS (memory_get_specification org k))"
  "refines c (inside isoformat org c F) (\<lambda>a. inside isoformat org c (\<lambda>m. F m \<and> memory_get_specification_version org k m = a))
     (cq_get_specification_version org k) (readS (memory_get_specification_version org k))"
  "refines c (inside isoformat org c F) (\<lambda>a. inside isoformat org c (\<lambda>m. F m \<and> memory_get_work_item org k m = a))
     (cq_get_work_item repr org k) (readS (memory_get_work_item org k))"
       apply (rule refines_read, erule role_for_reads)
      apply (rule refines_read, erule get_project_reads)
     apply (rule refines_read, erule get_intake_reads)
    apply (rule refines_read, erule get_specification_reads)
   apply (rule refines_read, erule get_specification_version_reads)
  apply (rule refines_read, erule get_work_item_reads)
  done

section \<open>The use cases\<close>

lemma map_sum_Inr_iff [simp]: "map_sum f id r = Inr a \<longleftrightarrow> r = Inr a"
  by (cases r) auto

lemmas found_simps = memory_get_project_def memory_get_intake_def memory_get_specification_def
  memory_get_work_item_def owned_Some_iff cp_transitions

lemma found_objects:
  assumes "represents isoformat t m"
  shows "memory_get_intake org k m = Some i0 \<Longrightarrow> mark_specification_drafted i0 = Inr i \<Longrightarrow> changed_intake org i m"
    "memory_get_intake org k m = Some i0 \<Longrightarrow> mark_awaiting_approval i0 = Inr i \<Longrightarrow> changed_intake org i m"
    "memory_get_intake org k m = Some i0 \<Longrightarrow> mark_approved i0 = Inr i \<Longrightarrow> changed_intake org i m"
    "memory_get_specification org k m = Some sp0 \<Longrightarrow> submit_for_approval sp0 = Inr sp \<Longrightarrow> changed_specification org sp m"
    "memory_get_specification org k m = Some sp0 \<Longrightarrow> specification_approve sp0 = Inr sp \<Longrightarrow> changed_specification org sp m"
    "memory_get_work_item org k m = Some w0 \<Longrightarrow> mark_reviewed w0 = Inr w \<Longrightarrow> changed_work_item org w m"
    "memory_get_work_item org k m = Some w0 \<Longrightarrow> mark_ready rc pc rp b w0 = Inr w \<Longrightarrow> valid_budget b \<Longrightarrow>
       changed_work_item org w m"
  using assms keys_of [OF assms]
  by (auto simp: changed_intake_def changed_specification_def changed_work_item_def found_simps represents_def)

lemma create_organization_refines:
  assumes "represents isoformat c m" and "ses_committed s = c"
  shows "matched isoformat c (dget (mm_organizations m) org = None)
    (create_organization (PostgresUnitOfWork repr isoformat db_now) org now eid now' actor name corr s)
    (create_organization MemoryUnitOfWork org now eid now' actor name corr m)"
  unfolding create_organization_def Let_def
  by (rule refines_uow [OF _ assms], simp only: body_simps,
      rule refines_seq, rule refines_set_organization,
      rule refines_seq, rule add_organization_writes, simp,
      rule refines_bind, rule refines_validation,
      rule refines_seq, rule add_outbox_writes, (auto simp: EventEnvelope_Inr_iff; fail),
      rule refines_seq, rule add_audit_writes, simp,
      rule refines_seq, rule refines_commit, rule refines_finish)
    (auto simp: saved_def memory_defs)

lemma create_project_refines:
  assumes "represents isoformat c m" and "ses_committed s = c"
  shows "matched isoformat c (dget (mm_projects m) pid = None)
    (create_project (PostgresUnitOfWork repr isoformat db_now) pid now actor org name descr corr s)
    (create_project MemoryUnitOfWork pid now actor org name descr corr m)"
  unfolding create_project_def Let_def
  by (rule refines_uow [OF _ assms], simp only: body_simps,
      rule refines_seq, rule refines_set_organization,
      rule refines_bind, rule refines_reads, rule refines_bind, rule refines_domain,
      rule refines_seq, rule add_project_writes, simp,
      rule refines_seq, rule add_audit_writes, simp,
      rule refines_seq, rule refines_commit, rule refines_finish)
    (auto simp: saved_def memory_defs)

lemma submit_intake_refines:
  assumes "represents isoformat c m" and "ses_committed s = c"
  shows "matched isoformat c (dget (mm_intakes m) iid = None)
    (submit_intake (PostgresUnitOfWork repr isoformat db_now) iid now actor org pid cid prob users req excl con corr s)
    (submit_intake MemoryUnitOfWork iid now actor org pid cid prob users req excl con corr m)"
  unfolding submit_intake_def Let_def
  by (rule refines_uow [OF _ assms], simp only: body_simps,
      rule refines_seq, rule refines_set_organization,
      rule refines_bind, rule refines_reads, rule refines_bind, rule refines_domain,
      rule refines_bind, rule refines_reads, rule refines_bind, rule refines_require,
      rule refines_seq, rule add_intake_writes, simp,
      rule refines_seq, rule add_audit_writes, simp,
      rule refines_seq, rule refines_commit, rule refines_finish)
    (auto simp: saved_def memory_defs)

lemma draft_specification_refines:
  assumes "represents isoformat c m" and "ses_committed s = c"
  shows "matched isoformat c (dget (mm_specifications m) sid = None \<and> dget (mm_specification_versions m) vid = None)
    (draft_specification (PostgresUnitOfWork repr isoformat db_now) sid vid now actor org iid title corr s)
    (draft_specification MemoryUnitOfWork sid vid now actor org iid title corr m)"
  unfolding draft_specification_def Let_def
  by (rule refines_uow [OF _ assms], simp only: body_simps,
      rule refines_seq, rule refines_set_organization,
      rule refines_bind, rule refines_reads, rule refines_bind, rule refines_domain,
      rule refines_bind, rule refines_reads, rule refines_bind, rule refines_require,
      rule refines_bind, rule refines_domain,
      rule refines_seq, rule update_intake_writes, (use found_objects(1) in simp; fail),
      rule refines_seq, rule add_specification_writes, simp,
      rule refines_seq, rule add_audit_writes, simp,
      rule refines_seq, rule refines_commit, rule refines_finish)
    (auto simp: saved_def memory_defs)

lemma found_intake_kept:
  assumes "represents isoformat t (memory_update_specification sp m)" and "memory_get_intake org k m = Some i0"
    and "mark_awaiting_approval i0 = Inr i \<or> mark_approved i0 = Inr i"
  shows "changed_intake org i (memory_update_specification sp m)"
proof -
  have "memory_get_intake org k (memory_update_specification sp m) = Some i0"
    using assms(2) by (simp add: memory_get_intake_def memory_update_specification_def)
  then show ?thesis using found_objects(2,3) [OF assms(1)] assms(3) by blast
qed

lemma submit_specification_refines:
  assumes "represents isoformat c m" and "ses_committed s = c"
  shows "matched isoformat c True
    (submit_specification (PostgresUnitOfWork repr isoformat db_now) actor org sid corr s)
    (submit_specification MemoryUnitOfWork actor org sid corr m)"
  unfolding submit_specification_def
  by (rule refines_uow [OF _ assms], simp only: body_simps,
      rule refines_seq, rule refines_set_organization,
      rule refines_bind, rule refines_reads, rule refines_bind, rule refines_domain,
      rule refines_bind, rule refines_reads, rule refines_bind, rule refines_require,
      rule refines_bind, rule refines_reads, rule refines_bind, rule refines_require,
      rule refines_bind, rule refines_domain, rule refines_bind, rule refines_domain,
      rule refines_seq, rule update_specification_writes, (use found_objects(4) in simp; fail),
      rule refines_seq, rule update_intake_writes, (use found_intake_kept in fastforce),
      rule refines_seq, rule add_audit_writes, simp,
      rule refines_seq, rule refines_commit, rule refines_finish)
    (auto simp: saved_def memory_defs)

lemma approve_specification_refines:
  assumes "represents isoformat c m" and "ses_committed s = c"
  shows "matched isoformat c (dget (mm_approvals m) aid = None \<and> dget (mm_work_items m) wid = None)
    (approve_specification (PostgresUnitOfWork repr isoformat db_now) aid now wid actor org sid reason corr s)
    (approve_specification MemoryUnitOfWork aid now wid actor org sid reason corr m)"
  unfolding approve_specification_def Let_def
  by (rule refines_uow [OF _ assms], simp only: body_simps,
      rule refines_seq, rule refines_set_organization,
      rule refines_bind, rule refines_reads, rule refines_bind, rule refines_domain,
      rule refines_bind, rule refines_reads, rule refines_bind, rule refines_require,
      rule refines_bind, rule refines_reads, rule refines_bind, rule refines_require,
      rule refines_bind, rule refines_reads, rule refines_bind, rule refines_require,
      rule refines_bind, rule refines_domain, rule refines_bind, rule refines_domain,
      rule refines_seq, rule update_specification_writes, (use found_objects(5) in simp; fail),
      rule refines_seq, rule update_intake_writes, (use found_intake_kept in fastforce),
      rule refines_seq, rule add_approval_writes, simp,
      rule refines_seq, rule add_work_item_writes, simp, simp,
      rule refines_seq, rule add_audit_writes, simp,
      rule refines_seq, rule refines_commit, rule refines_finish)
    (auto simp: saved_def memory_defs)

lemma review_work_item_refines:
  assumes "represents isoformat c m" and "ses_committed s = c"
  shows "matched isoformat c True
    (review_work_item (PostgresUnitOfWork repr isoformat db_now) actor org wid corr s)
    (review_work_item MemoryUnitOfWork actor org wid corr m)"
  unfolding review_work_item_def
  by (rule refines_uow [OF _ assms], simp only: body_simps,
      rule refines_seq, rule refines_set_organization,
      rule refines_bind, rule refines_reads, rule refines_bind, rule refines_domain,
      rule refines_bind, rule refines_reads, rule refines_bind, rule refines_require,
      rule refines_bind, rule refines_domain,
      rule refines_seq, rule update_work_item_writes, (use found_objects(6) in simp; fail),
      rule refines_seq, rule add_audit_writes, simp,
      rule refines_seq, rule refines_commit, rule refines_finish)
    (auto simp: saved_def memory_defs)

lemma ready_work_item_refines:
  assumes "represents isoformat c m" and "ses_committed s = c" and "valid_budget b"
  shows "matched isoformat c True
    (ready_work_item (PostgresUnitOfWork repr isoformat db_now) eid now actor org wid rc pc rp b corr s)
    (ready_work_item MemoryUnitOfWork eid now actor org wid rc pc rp b corr m)"
  unfolding ready_work_item_def
  by (rule refines_uow [OF _ assms(1,2)], simp only: body_simps,
      rule refines_seq, rule refines_set_organization,
      rule refines_bind, rule refines_reads, rule refines_bind, rule refines_domain,
      rule refines_bind, rule refines_reads, rule refines_bind, rule refines_require,
      rule refines_bind, rule refines_domain,
      rule refines_seq, rule update_work_item_writes, (use assms(3) found_objects(7) in fastforce),
      rule refines_bind, rule refines_validation,
      rule refines_seq, rule add_outbox_writes, (auto simp: EventEnvelope_Inr_iff; fail),
      rule refines_seq, rule add_audit_writes, simp,
      rule refines_seq, rule refines_commit, rule refines_finish)
    (auto simp: saved_def memory_defs)

section \<open>Every run\<close>

text \<open>
  The use cases over PostgreSQL in any order, by any actor with any arguments, successful or not, from
  empty tables. Nothing is assumed of the identifiers drawn: one in use is refused by its primary key.
  A budget comes from the constructor of \<open>Budget\<close>.
\<close>

inductive cp_pg_step :: "(json \<Rightarrow> string) \<Rightarrow> (time \<Rightarrow> string) \<Rightarrow> cp_session \<Rightarrow> cp_session \<Rightarrow> bool"
  for repr isoformat where
  pg_organization: "create_organization (PostgresUnitOfWork repr isoformat db_now) org now eid now' actor
       name corr s = (r1, s') \<Longrightarrow> cp_pg_step repr isoformat s s'"
| pg_list: "organizations_for (PostgresUnitOfWork repr isoformat db_now) actor s = (r2, s') \<Longrightarrow>
     cp_pg_step repr isoformat s s'"
| pg_dashboard: "dashboard (PostgresUnitOfWork repr isoformat db_now) actor org s = (r3, s') \<Longrightarrow>
     cp_pg_step repr isoformat s s'"
| pg_project: "create_project (PostgresUnitOfWork repr isoformat db_now) pid now actor org name descr corr s
     = (r4, s') \<Longrightarrow> cp_pg_step repr isoformat s s'"
| pg_intake: "submit_intake (PostgresUnitOfWork repr isoformat db_now) iid now actor org pid cid prob users
       req excl con corr s = (r5, s') \<Longrightarrow> cp_pg_step repr isoformat s s'"
| pg_draft: "draft_specification (PostgresUnitOfWork repr isoformat db_now) sid vid now actor org iid title
       corr s = (r6, s') \<Longrightarrow> cp_pg_step repr isoformat s s'"
| pg_submit: "submit_specification (PostgresUnitOfWork repr isoformat db_now) actor org sid corr s
     = (r7, s') \<Longrightarrow> cp_pg_step repr isoformat s s'"
| pg_approve: "approve_specification (PostgresUnitOfWork repr isoformat db_now) aid now wid actor org sid
       reason corr s = (r8, s') \<Longrightarrow> cp_pg_step repr isoformat s s'"
| pg_review: "review_work_item (PostgresUnitOfWork repr isoformat db_now) actor org wid corr s
     = (r9, s') \<Longrightarrow> cp_pg_step repr isoformat s s'"
| pg_ready: "ready_work_item (PostgresUnitOfWork repr isoformat db_now) eid now actor org wid rc pc rp b
       corr s = (r10, s') \<Longrightarrow> valid_budget b \<Longrightarrow> cp_pg_step repr isoformat s s'"

inductive cp_pg_reachable :: "(json \<Rightarrow> string) \<Rightarrow> (time \<Rightarrow> string) \<Rightarrow> cp_session \<Rightarrow> bool"
  for repr isoformat where
  pg_empty: "ses_committed s = no_tables \<Longrightarrow> cp_pg_reachable repr isoformat s"
| pg_step: "cp_pg_reachable repr isoformat s \<Longrightarrow> cp_pg_step repr isoformat s s' \<Longrightarrow>
     cp_pg_reachable repr isoformat s'"

lemma valid_budget_wf: "valid_budget b \<Longrightarrow> wf_budget b"
  unfolding valid_budget_def by (rule Budget_wf)

lemma preserves_organizations_of: "preserves ses_committed (cq_organizations_of routes)"
proof (induction routes)
  case (Cons route routes)
  show ?case
    unfolding cq_organizations_of.simps cq_set_organization_def by (intro preserving Cons.IH; simp)
qed (simp add: preserving)

lemma preserves_selected:
  "preserves ses_committed (cq_set_organization org)" "preserves ses_committed (cq_role_for org subject)"
  "preserves ses_committed (cq_list_organizations_for_subject subject)"
  "preserves ses_committed (cq_list_projects org)" "preserves ses_committed (cq_list_intakes org)"
  "preserves ses_committed (cq_list_specifications org)" "preserves ses_committed (cq_list_work_items repr org)"
  "preserves ses_committed (cq_list_audits org)"
  unfolding cq_set_organization_def cq_role_for_def cq_list_organizations_for_subject_def cq_list_projects_def
      cq_list_intakes_def cq_list_specifications_def cq_list_work_items_def cq_list_audits_def
  by ((intro preserving preserves_organizations_of; simp)+)[8]

lemma preserves_with_uow:
  "preserves ses_committed p \<Longrightarrow> preserves ses_committed (with_uow (PostgresUnitOfWork repr isoformat now) p)"
  unfolding preserves_def
proof
  fix s
  assume "\<forall>s. ses_committed (snd (p s)) = ses_committed s"
  then have "ses_committed (snd (p (cq_enter s))) = ses_committed (cq_enter s)" ..
  then show "ses_committed (snd (with_uow (PostgresUnitOfWork repr isoformat now) p s)) = ses_committed s"
    by (auto simp: with_uow_def PostgresUnitOfWork_def cq_enter_def cq_exit_def split: prod.splits sum.splits)
qed

lemma postgres_readers:
  "rp_list_organizations_for_subject (PostgresUnitOfWork repr isoformat now) = cq_list_organizations_for_subject"
  "rp_list_projects (PostgresUnitOfWork repr isoformat now) = cq_list_projects"
  "rp_list_intakes (PostgresUnitOfWork repr isoformat now) = cq_list_intakes"
  "rp_list_specifications (PostgresUnitOfWork repr isoformat now) = cq_list_specifications"
  "rp_list_work_items (PostgresUnitOfWork repr isoformat now) = cq_list_work_items repr"
  "rp_list_audits (PostgresUnitOfWork repr isoformat now) = cq_list_audits"
  by (simp_all add: PostgresUnitOfWork_def)

lemma postgres_queries_commit_nothing:
  "preserves ses_committed (organizations_for (PostgresUnitOfWork repr isoformat now) actor)"
  "preserves ses_committed (dashboard (PostgresUnitOfWork repr isoformat now) actor org)"
  by (unfold organizations_for_def dashboard_def postgres_readers body_simps domainS_def)
    (intro preserves_with_uow preserving preserves_selected)+

lemma matched_step:
  assumes "run = (r, s')" and "matched isoformat c G run run'" and "represents isoformat c m"
    and "\<And>r' m'. run' = (r', m') \<Longrightarrow> G \<Longrightarrow> cp_step l m m'"
  shows "\<exists>m'. (m' = m \<or> (\<exists>l. cp_step l m m')) \<and> represents isoformat (ses_committed s') m'"
proof (cases r)
  case (Inl e)
  then show ?thesis using assms(1-3) by (auto simp: matched_def)
next
  case (Inr a)
  then obtain m' where "run' = (Inr a, m')" and "represents isoformat (ses_committed s') m'" and G
    using assms(1,2) by (auto simp: matched_def)
  then show ?thesis using assms(4) by blast
qed

lemma cp_pg_step_simulated:
  assumes "cp_pg_step repr isoformat s s'" and m: "represents isoformat (ses_committed s) m"
  shows "\<exists>m'. (m' = m \<or> (\<exists>l. cp_step l m m')) \<and> represents isoformat (ses_committed s') m'"
  using assms(1)
proof cases
  case pg_organization
  then show ?thesis
    by (rule matched_step [OF _ create_organization_refines [OF m refl] m]) (auto intro: cp_step.organization)
next
  case pg_project
  then show ?thesis
    by (rule matched_step [OF _ create_project_refines [OF m refl] m]) (auto intro: cp_step.project)
next
  case pg_intake
  then show ?thesis
    by (rule matched_step [OF _ submit_intake_refines [OF m refl] m]) (auto intro: cp_step.intake)
next
  case pg_draft
  then show ?thesis
    by (rule matched_step [OF _ draft_specification_refines [OF m refl] m]) (auto intro: cp_step.draft)
next
  case pg_submit
  then show ?thesis
    by (rule matched_step [OF _ submit_specification_refines [OF m refl] m]) (auto intro: cp_step.submit)
next
  case pg_approve
  then show ?thesis
    by (rule matched_step [OF _ approve_specification_refines [OF m refl] m]) (auto intro: cp_step.approve)
next
  case pg_review
  then show ?thesis
    by (rule matched_step [OF _ review_work_item_refines [OF m refl] m]) (auto intro: cp_step.review)
next
  case pg_ready
  then show ?thesis
    by - (rule matched_step [OF _ ready_work_item_refines [OF m refl] m],
        auto intro: cp_step.ready valid_budget_wf)
next
  case pg_list
  then show ?thesis using m postgres_queries_commit_nothing(1) preservesD by metis
next
  case pg_dashboard
  then show ?thesis using m postgres_queries_commit_nothing(2) preservesD by metis
qed

text \<open>C8: in every reachable state of the database, the committed tables represent a memory that the use
  cases reach: whatever holds of the reachable memories holds of the rows.\<close>

theorem postgres_refines_memory:
  assumes "cp_pg_reachable repr isoformat s"
  shows "\<exists>m. cp_reachable m \<and> represents isoformat (ses_committed s) m"
  using assms
proof induction
  case (pg_empty s)
  have "cp_start memory_init" by (simp add: cp_start_def memory_init_def)
  moreover have "represents isoformat no_tables memory_init"
    by (simp add: represents_def no_tables_def memory_init_def rows_of_def keys_inv_def keyed_def)
  ultimately show ?case using pg_empty by (metis cp_reachable.start)
next
  case (pg_step s s')
  then show ?case using cp_pg_step_simulated cp_reachable.step by metis
qed

definition demo_db0 :: cp_session where
  "demo_db0 = \<lparr>ses_tables = no_tables, ses_committed = no_tables, ses_organization = None\<rparr>"

definition demo_db1 :: cp_session where
  "demo_db1 = snd (create_organization (PostgresUnitOfWork (\<lambda>_. []) (\<lambda>_. []) 0) 1 0 2 0 ''ann'' ''Acme'' 9 demo_db0)"

definition demo_db2 :: cp_session where
  "demo_db2 = snd (create_project (PostgresUnitOfWork (\<lambda>_. []) (\<lambda>_. []) 0) 10 0 ''ann'' 1 ''Shop'' ''A shop'' 9 demo_db1)"

lemma demo_db2_reachable: "cp_pg_reachable (\<lambda>_. []) (\<lambda>_. []) demo_db2"
proof (rule cp_pg_reachable.intros(2) [OF cp_pg_reachable.intros(2) [OF cp_pg_reachable.intros(1)]])
  show "ses_committed demo_db0 = no_tables" by (simp add: demo_db0_def)
  show "cp_pg_step (\<lambda>_. []) (\<lambda>_. []) demo_db0 demo_db1"
    unfolding demo_db1_def by (rule cp_pg_step.pg_organization [OF prod.collapse [symmetric]])
  show "cp_pg_step (\<lambda>_. []) (\<lambda>_. []) demo_db1 demo_db2"
    unfolding demo_db2_def by (rule cp_pg_step.pg_project [OF prod.collapse [symmetric]])
qed

lemmas pg_run_simps = run_simps postgres_fields cq_enter_def cq_exit_def cq_commit_def cq_set_organization_def
  cq_role_for_def cq_add_organization_def cq_add_project_def cq_add_audit_def cq_add_outbox_def cq_add_def
  cq_add_free_def insert_orS_def selected_row_def row_of_def

lemma demo_db1_committed:
  "tb_memberships (ses_committed demo_db1) = [((1, ''ann''), membership_row 1 ''ann'' OWNER)]"
  "tb_projects (ses_committed demo_db1) = []"
  "length (tb_outbox (ses_committed demo_db1)) = 1"
  by (simp_all add: demo_db1_def demo_db0_def create_organization_def pg_run_simps no_tables_def PostgresUnitOfWork_def
      membership_row_def)

lemma role_of_owner: "role_of_column ''OWNER'' = Inr OWNER"
  using column_roundtrips(1) [of OWNER] by simp

lemma demo_db2_committed:
  "map pj_name (dvals (tb_projects (ses_committed demo_db2))) = [''Shop'']"
  by (simp add: demo_db2_def create_project_def pg_run_simps PostgresUnitOfWork_def demo_db1_committed
    membership_row_def role_of_owner)

theorem postgres_refines_memory_witness:
  "map pj_name (dvals (tb_projects (ses_committed demo_db2))) = [''Shop''] \<and>
   (\<exists>m. cp_reachable m \<and> represents (\<lambda>_. []) (ses_committed demo_db2) m)"
  using postgres_refines_memory [OF demo_db2_reachable] demo_db2_committed by simp

end
