(* ===== verification/CpOutbox.thy ===== *)
theory CpOutbox
  imports CpRefinement
begin

text \<open>
  \<open>entrypoints/outbox.py\<close> of the control plane: the process that publishes the events of the outbox
  to the stream. One batch is one transaction over the tables, while what the stream has stored
  stays there when the transaction is given up.

  What NATS does with a message, the clock and \<open>json.dumps\<close> are parameters. A publication is either
  acknowledged, which the stream does when it has stored the message, or raises, and then the
  message may have been stored or not. Creating the stream, of which every error that NATS reports
  is suppressed, and closing the connection change nothing of this.
\<close>

section \<open>The program\<close>

text \<open>The arguments of \<open>jetstream.publish\<close>: the subject, the payload, the header \<open>Nats-Msg-Id\<close>.\<close>

record outbox_message =
  om_subject :: string
  om_payload :: string
  om_msg_id :: string

datatype publish_answer = Acknowledged | Unanswered bool

record outbox_host =
  oh_connects :: bool
  oh_publish :: "outbox_message list \<Rightarrow> outbox_message \<Rightarrow> publish_answer"
  oh_dumps :: "json \<Rightarrow> string"
  oh_now :: "nat \<Rightarrow> time"

record outbox_world =
  ow_session :: cp_session
  ow_stream :: "outbox_message list"

datatype outbox_error = ConnectionE | PublishE

type_synonym 'a outbox_oper = "(outbox_world, outbox_error, 'a) oper"

definition on_session :: "(cp_session \<Rightarrow> cp_session) \<Rightarrow> unit outbox_oper" where
  "on_session f = writeS (\<lambda>w. w\<lparr>ow_session := f (ow_session w)\<rparr>)"

definition on_tables :: "(cp_tables \<Rightarrow> cp_tables) \<Rightarrow> unit outbox_oper" where
  "on_tables f = on_session (\<lambda>s. s\<lparr>ses_tables := f (ses_tables s)\<rparr>)"

definition outbox_message_of :: "(json \<Rightarrow> string) \<Rightarrow> cp_outbox_row \<Rightarrow> outbox_message" where
  "outbox_message_of dumps row =
     \<lparr>om_subject = ''events.'' @ cx_event_type row, om_payload = dumps (cx_payload row),
      om_msg_id = str_uuid (cx_id row)\<rparr>"

definition jetstream_publish :: "outbox_host \<Rightarrow> outbox_message \<Rightarrow> unit outbox_oper" where
  "jetstream_publish host message w =
     (case oh_publish host (ow_stream w) message of
        Acknowledged \<Rightarrow> (Inr (), w\<lparr>ow_stream := ow_stream w @ [message]\<rparr>)
      | Unanswered stored \<Rightarrow>
          (Inl PublishE, if stored then w\<lparr>ow_stream := ow_stream w @ [message]\<rparr> else w))"

text \<open>\<open>order_by(OutboxRoutingRow.event_id).limit(100)\<close>.\<close>

definition outbox_routes :: "cp_tables \<Rightarrow> (uuid \<times> uuid) list" where
  "outbox_routes t = take 100 (sort_key fst (tb_outbox_routing t))"

text \<open>The body of the loop over the routes, with the count so far.\<close>

definition publish_route :: "outbox_host \<Rightarrow> nat \<Rightarrow> uuid \<times> uuid \<Rightarrow> nat outbox_oper" where
  "publish_route host published route =
     (case route of (event_id, organization_id) \<Rightarrow>
      seqS (on_session (\<lambda>s. s\<lparr>ses_organization := Some organization_id\<rparr>))
      (bindS (readS (\<lambda>w. row_of cx_organization_id (ses_organization (ow_session w))
                (tb_outbox (ses_tables (ow_session w))) event_id)) (\<lambda>found.
       case found of
         None \<Rightarrow>
           seqS (on_tables (\<lambda>t. t\<lparr>tb_outbox_routing := AList.delete event_id (tb_outbox_routing t)\<rparr>))
             (returnS published)
       | Some event \<Rightarrow>
           seqS (jetstream_publish host (outbox_message_of (oh_dumps host) event))
           (seqS (on_tables (\<lambda>t. t\<lparr>tb_outbox := dset event_id
                (event\<lparr>cx_published_at := Some (oh_now host published)\<rparr>) (tb_outbox t)\<rparr>))
           (seqS (on_tables (\<lambda>t. t\<lparr>tb_outbox_routing := AList.delete event_id (tb_outbox_routing t)\<rparr>))
             (returnS (published + 1)))))))"

fun publish_routes :: "outbox_host \<Rightarrow> nat \<Rightarrow> (uuid \<times> uuid) list \<Rightarrow> nat outbox_oper" where
  "publish_routes host published [] = returnS published"
| "publish_routes host published (route # routes) =
     bindS (publish_route host published route) (\<lambda>count. publish_routes host count routes)"

definition publish_batch :: "outbox_host \<Rightarrow> nat outbox_oper" where
  "publish_batch host =
     (if \<not> oh_connects host then raiseS ConnectionE
      else seqS (on_session cq_enter)
        (finallyS
          (bindS (readS (\<lambda>w. outbox_routes (ses_tables (ow_session w)))) (\<lambda>routes.
           bindS (publish_routes host 0 routes) (\<lambda>published.
           seqS (on_session (\<lambda>s. s\<lparr>ses_committed := ses_tables s, ses_organization := None\<rparr>))
             (returnS published))))
          (on_session (cq_exit False))))"

text \<open>One round of \<open>main\<close> and the milliseconds it sleeps then.\<close>

definition outbox_turn :: "outbox_host \<Rightarrow> outbox_world \<Rightarrow> nat \<times> outbox_world" where
  "outbox_turn host w =
     (case publish_batch host w of
        (Inl e, w') \<Rightarrow> (5000, w')
      | (Inr count, w') \<Rightarrow> (if count \<noteq> 0 then 200 else 1000, w'))"

section \<open>What a row of the outbox rests on\<close>

text \<open>A row is still to be published and routed, or it is published, and its message is in the stream.\<close>

definition settled_row :: "(json \<Rightarrow> string) \<Rightarrow> outbox_message list \<Rightarrow> cp_tables \<Rightarrow> uuid \<Rightarrow> cp_outbox_row \<Rightarrow> bool" where
  "settled_row dumps stream t k row \<longleftrightarrow>
     cx_id row = k \<and>
     (if cx_published_at row = None
      then dget (tb_outbox_routing t) k = Some (cx_organization_id row)
      else dget (tb_outbox_routing t) k = None \<and> outbox_message_of dumps row \<in> set stream)"

definition settled :: "(json \<Rightarrow> string) \<Rightarrow> outbox_message list \<Rightarrow> cp_tables \<Rightarrow> bool" where
  "settled dumps stream t \<longleftrightarrow>
     (\<forall>k. dget (tb_outbox t) k = None \<longrightarrow> dget (tb_outbox_routing t) k = None) \<and>
     (\<forall>k row. dget (tb_outbox t) k = Some row \<longrightarrow> settled_row dumps stream t k row) \<and>
     wf_dict (tb_outbox_routing t)"

definition both_settled :: "(json \<Rightarrow> string) \<Rightarrow> outbox_message list \<Rightarrow> cp_session \<Rightarrow> bool" where
  "both_settled dumps stream s \<longleftrightarrow> settled dumps stream (ses_tables s) \<and> settled dumps stream (ses_committed s)"

section \<open>The use cases\<close>

abbreviation keeps_settled :: "(json \<Rightarrow> string) \<Rightarrow> outbox_message list \<Rightarrow> 'a cp_query \<Rightarrow> bool" where
  "keeps_settled dumps stream \<equiv> follows (\<lambda>s s'. both_settled dumps stream s \<longrightarrow> both_settled dumps stream s')"

lemma keeps_settled_order:
  "reflp (\<lambda>s s'. both_settled dumps stream s \<longrightarrow> both_settled dumps stream s')"
  "transp (\<lambda>s s'. both_settled dumps stream s \<longrightarrow> both_settled dumps stream s')"
  by (auto intro: reflpI transpI)

text \<open>What an operation outside the outbox leaves as it is.\<close>

definition outboxes :: "cp_session \<Rightarrow> _" where
  "outboxes s = (tb_outbox (ses_tables s), tb_outbox_routing (ses_tables s), ses_committed s)"

lemma settled_same:
  "tb_outbox t' = tb_outbox t \<Longrightarrow> tb_outbox_routing t' = tb_outbox_routing t \<Longrightarrow>
     settled dumps stream t' \<longleftrightarrow> settled dumps stream t"
  by (simp add: settled_def settled_row_def)

lemma keeps_settled_outboxes: "preserves outboxes m \<Longrightarrow> keeps_settled dumps stream m"
proof (erule follows_preserves)
  fix s s' assume "outboxes s' = outboxes s"
  then show "both_settled dumps stream s \<longrightarrow> both_settled dumps stream s'"
    using settled_same [of "ses_tables s'" "ses_tables s"] by (simp add: outboxes_def both_settled_def)
qed

lemma preserves_insert_orS: "(\<And>s. f (w s) = f s) \<Longrightarrow> preserves f (insert_orS e used w)"
  by (simp add: preserves_def insert_orS_def)

lemma preserves_stepsS:
  "preserves f (stepsS [])" "preserves f m \<Longrightarrow> preserves f (stepsS ms) \<Longrightarrow> preserves f (stepsS (m # ms))"
  by (simp_all add: stepsS.simps preserving)

lemma preserves_outboxes_reads:
  "preserves outboxes (cq_role_for org subject)" "preserves outboxes (cq_get_project org k)"
  "preserves outboxes (cq_get_intake org k)" "preserves outboxes (cq_get_specification org k)"
  "preserves outboxes (cq_get_specification_version org k)" "preserves outboxes (cq_get_work_item repr org k)"
  unfolding cq_role_for_def cq_get_project_def cq_get_intake_def cq_get_specification_def
      cq_get_specification_version_def cq_get_work_item_def decode_row_def
  by ((intro preserving)[1])+

lemma preserves_outboxes_adds:
  "preserves outboxes (cq_add_organization og owner)" "preserves outboxes (cq_add_project p)"
  "preserves outboxes (cq_add_intake i)" "preserves outboxes (cq_add_specification sp v)"
  "preserves outboxes (cq_add_approval a)" "preserves outboxes (cq_add_work_item w)"
  "preserves outboxes (cq_add_audit now au)"
  unfolding cq_add_organization_def cq_add_project_def cq_add_intake_def cq_add_specification_def
      cq_add_approval_def cq_add_work_item_def cq_add_audit_def Let_def cq_add_def cq_add_free_def
  by ((intro preserves_stepsS preserves_insert_orS; simp add: outboxes_def)[1])+

lemma preserves_outboxes_updates:
  "preserves outboxes (cq_set_organization org)" "preserves outboxes (cq_update_intake i)"
  "preserves outboxes (cq_update_specification sp)" "preserves outboxes (cq_update_work_item w)"
  unfolding cq_set_organization_def cq_update_intake_def cq_update_specification_def cq_update_work_item_def
      cq_update_def cq_write_def
  by ((intro preserving; simp add: outboxes_def)[1])+

lemma settled_add:
  assumes "settled dumps stream t" and "dget (tb_outbox t) k = None" and "cx_id row = k"
    and "cx_published_at row = None"
  shows "settled dumps stream (t\<lparr>tb_outbox := dset k row (tb_outbox t),
    tb_outbox_routing := dset k (cx_organization_id row) (tb_outbox_routing t)\<rparr>)"
  using assms by (simp add: settled_def settled_row_def)

lemma keeps_settled_add_outbox: "keeps_settled dumps stream (cq_add_outbox isoformat now e)"
proof (rule followsI, rule impI)
  fix s r s' assume run: "cq_add_outbox isoformat now e s = (r, s')" and s: "both_settled dumps stream s"
  then have "dget (tb_outbox_routing (ses_tables s)) (ev_id e) = None"
    if "dget (tb_outbox (ses_tables s)) (ev_id e) = None"
    using that by (auto simp: both_settled_def settled_def dest: spec [where x = "ev_id e"])
  then show "both_settled dumps stream s'"
    using run s settled_add [of dumps stream "ses_tables s" "ev_id e"
        "\<lparr>cx_id = ev_id e, cx_organization_id = ev_organization_id e, cx_event_type = ev_type e,
          cx_payload = dump_event_envelope isoformat e, cx_created_at = now, cx_published_at = None\<rparr>"]
    by (auto simp: cq_add_outbox_def stepsS.simps seqS_def bindS_def returnS_def cq_add_def cq_add_free_def
        insert_orS_def both_settled_def split: if_splits)
qed

lemma keeps_settled_commit: "keeps_settled dumps stream cq_commit"
  unfolding cq_commit_def by (rule follows_writeS) (simp add: both_settled_def)

abbreviation keeps_committed :: "(json \<Rightarrow> string) \<Rightarrow> outbox_message list \<Rightarrow> 'a cp_query \<Rightarrow> bool" where
  "keeps_committed dumps stream \<equiv>
     follows (\<lambda>s s'. settled dumps stream (ses_committed s) \<longrightarrow> settled dumps stream (ses_committed s'))"

lemma keeps_settled_uow:
  assumes "keeps_settled dumps stream p"
  shows "keeps_committed dumps stream (with_uow (PostgresUnitOfWork repr isoformat now) p)"
proof (rule followsI, rule impI)
  fix s r s' assume run: "with_uow (PostgresUnitOfWork repr isoformat now) p s = (r, s')"
    and "settled dumps stream (ses_committed s)"
  then have "both_settled dumps stream (cq_enter s)" by (simp add: both_settled_def cq_enter_def)
  then have "both_settled dumps stream (snd (p (cq_enter s)))" using assms by (simp add: follows_def)
  then show "settled dumps stream (ses_committed s')"
    using run by (auto simp: with_uow_def PostgresUnitOfWork_def cq_exit_def both_settled_def
        split: prod.splits sum.splits)
qed

lemmas kept_steps = keeps_settled_uow keeps_settled_add_outbox keeps_settled_commit
  preserves_outboxes_reads [THEN keeps_settled_outboxes] preserves_outboxes_adds [THEN keeps_settled_outboxes]
  preserves_outboxes_updates [THEN keeps_settled_outboxes]

lemmas keep_by_shape = kept_steps following keeps_settled_order

lemma create_organization_keeps:
  "keeps_committed dumps stream
     (create_organization (PostgresUnitOfWork repr isoformat db_now) org now eid now' actor name corr)"
  unfolding create_organization_def body_simps Let_def domainS_def validationS_def by (intro keep_by_shape)

lemma create_project_keeps:
  "keeps_committed dumps stream
     (create_project (PostgresUnitOfWork repr isoformat db_now) pid now actor org name descr corr)"
  unfolding create_project_def body_simps Let_def domainS_def validationS_def by (intro keep_by_shape)

lemma submit_intake_keeps:
  "keeps_committed dumps stream
     (submit_intake (PostgresUnitOfWork repr isoformat db_now) iid now actor org pid cid prob users req excl con corr)"
  unfolding submit_intake_def body_simps Let_def domainS_def validationS_def by (intro keep_by_shape)

lemma draft_specification_keeps:
  "keeps_committed dumps stream
     (draft_specification (PostgresUnitOfWork repr isoformat db_now) sid vid now actor org iid title corr)"
  unfolding draft_specification_def body_simps Let_def domainS_def validationS_def by (intro keep_by_shape)

lemma submit_specification_keeps:
  "keeps_committed dumps stream
     (submit_specification (PostgresUnitOfWork repr isoformat db_now) actor org sid corr)"
  unfolding submit_specification_def body_simps Let_def domainS_def validationS_def by (intro keep_by_shape)

lemma approve_specification_keeps:
  "keeps_committed dumps stream
     (approve_specification (PostgresUnitOfWork repr isoformat db_now) aid now wid actor org sid reason corr)"
  unfolding approve_specification_def body_simps Let_def domainS_def validationS_def by (intro keep_by_shape)

lemma review_work_item_keeps:
  "keeps_committed dumps stream
     (review_work_item (PostgresUnitOfWork repr isoformat db_now) actor org wid corr)"
  unfolding review_work_item_def body_simps Let_def domainS_def validationS_def by (intro keep_by_shape)

lemma ready_work_item_keeps:
  "keeps_committed dumps stream
     (ready_work_item (PostgresUnitOfWork repr isoformat db_now) eid now actor org wid rc pc rp b corr)"
  unfolding ready_work_item_def body_simps Let_def domainS_def validationS_def by (intro keep_by_shape)

lemma cp_pg_step_keeps_settled:
  assumes "cp_pg_step repr isoformat s s'" and "settled dumps stream (ses_committed s)"
  shows "settled dumps stream (ses_committed s')"
  using assms(1)
proof cases
  case pg_organization
  then show ?thesis using followsD [OF create_organization_keeps] assms(2) by blast
next
  case pg_project
  then show ?thesis using followsD [OF create_project_keeps] assms(2) by blast
next
  case pg_intake
  then show ?thesis using followsD [OF submit_intake_keeps] assms(2) by blast
next
  case pg_draft
  then show ?thesis using followsD [OF draft_specification_keeps] assms(2) by blast
next
  case pg_submit
  then show ?thesis using followsD [OF submit_specification_keeps] assms(2) by blast
next
  case pg_approve
  then show ?thesis using followsD [OF approve_specification_keeps] assms(2) by blast
next
  case pg_review
  then show ?thesis using followsD [OF review_work_item_keeps] assms(2) by blast
next
  case pg_ready
  then show ?thesis using followsD [OF ready_work_item_keeps] assms(2) by blast
next
  case pg_list
  then show ?thesis using assms(2) postgres_queries_commit_nothing(1) preservesD by metis
next
  case pg_dashboard
  then show ?thesis using assms(2) postgres_queries_commit_nothing(2) preservesD by metis
qed

section \<open>A batch\<close>

lemma message_of_published [simp]:
  "outbox_message_of dumps (row\<lparr>cx_published_at := x\<rparr>) = outbox_message_of dumps row"
  by (simp add: outbox_message_of_def)

lemma settled_published:
  assumes "settled dumps stream t" and "dget (tb_outbox t) k = Some row"
  shows "settled dumps (stream @ [outbox_message_of dumps row])
    (t\<lparr>tb_outbox := dset k (row\<lparr>cx_published_at := Some now\<rparr>) (tb_outbox t),
       tb_outbox_routing := AList.delete k (tb_outbox_routing t)\<rparr>)"
  using assms
  by (auto simp: settled_def settled_row_def delete_conv' wf_dict_def distinct_delete)

lemma settled_grows: "settled dumps stream t \<Longrightarrow> settled dumps (stream @ extra) t"
  by (auto simp: settled_def settled_row_def)

lemma length_delete_Some:
  "wf_dict d \<Longrightarrow> dget d k = Some v \<Longrightarrow> Suc (length (AList.delete k d)) = length d"
proof (induction d)
  case (Cons kv d)
  then show ?case by (cases kv) (auto simp: wf_dict_def delete_id image_iff dest!: map_of_eq_None_iff [THEN iffD2])
qed simp

definition messages_of :: "outbox_host \<Rightarrow> cp_tables \<Rightarrow> uuid \<Rightarrow> outbox_message option" where
  "messages_of host t k = map_option (outbox_message_of (oh_dumps host)) (dget (tb_outbox t) k)"

text \<open>Routes of the table, each once: what the loop has still to do.\<close>

definition routed :: "outbox_world \<Rightarrow> (uuid \<times> uuid) list \<Rightarrow> bool" where
  "routed w routes \<longleftrightarrow> distinct (map fst routes) \<and>
     (\<forall>(k, org) \<in> set routes. dget (tb_outbox_routing (ses_tables (ow_session w))) k = Some org)"

lemma publish_route_run:
  assumes "settled (oh_dumps host) (ow_stream w) (ses_tables (ow_session w))"
    and "dget (tb_outbox_routing (ses_tables (ow_session w))) k = Some org"
  obtains row where "dget (tb_outbox (ses_tables (ow_session w))) k = Some row" and
    "publish_route host count (k, org) w =
      (let message = outbox_message_of (oh_dumps host) row;
           s = (ow_session w)\<lparr>ses_organization := Some org\<rparr>;
           t = ses_tables s in
       case oh_publish host (ow_stream w) message of
         Acknowledged \<Rightarrow> (Inr (count + 1), w\<lparr>ow_stream := ow_stream w @ [message],
           ow_session := s\<lparr>ses_tables := t\<lparr>tb_outbox := dset k (row\<lparr>cx_published_at := Some (oh_now host count)\<rparr>)
               (tb_outbox t), tb_outbox_routing := AList.delete k (tb_outbox_routing t)\<rparr>\<rparr>\<rparr>)
       | Unanswered stored \<Rightarrow> (Inl PublishE, w\<lparr>ow_session := s,
           ow_stream := ow_stream w @ (if stored then [message] else [])\<rparr>))"
proof -
  obtain row where row: "dget (tb_outbox (ses_tables (ow_session w))) k = Some row"
    using assms by (cases "dget (tb_outbox (ses_tables (ow_session w))) k") (auto simp: settled_def)
  then have "cx_organization_id row = org"
    using assms unfolding settled_def settled_row_def by (metis option.distinct(1) option.inject)
  with row show thesis
    by (intro that [OF row])
      (simp add: publish_route_def on_session_def on_tables_def jetstream_publish_def seqS_def bindS_def readS_def owned_def
        returnS_def writeS_def Let_def split: publish_answer.split)
qed

text \<open>The loop: every route was published, or the stream refused one and nothing is committed.\<close>

lemma publish_routes_run:
  assumes "settled (oh_dumps host) (ow_stream w) (ses_tables (ow_session w))" and "routed w routes"
    and "publish_routes host count routes w = (r, w')"
  shows "ses_committed (ow_session w') = ses_committed (ow_session w) \<and>
    (\<exists>extra. ow_stream w' = ow_stream w @ extra) \<and>
    (case r of
       Inl e \<Rightarrow> e = PublishE \<and> (\<exists>stream message. oh_publish host stream message \<noteq> Acknowledged)
     | Inr n \<Rightarrow> n = count + length routes \<and>
         settled (oh_dumps host) (ow_stream w') (ses_tables (ow_session w')) \<and>
         messages_of host (ses_tables (ow_session w')) = messages_of host (ses_tables (ow_session w)) \<and>
         length (tb_outbox_routing (ses_tables (ow_session w'))) + length routes
           = length (tb_outbox_routing (ses_tables (ow_session w))))"
  using assms
proof (induction routes arbitrary: count w)
  case Nil
  then show ?case by (auto simp: returnS_def)
next
  case (Cons route routes)
  obtain k org where route: "route = (k, org)" by (cases route)
  let ?s = "ow_session w" and ?t = "ses_tables (ow_session w)"
  have here: "dget (tb_outbox_routing ?t) k = Some org" using Cons.prems(2) by (simp add: routed_def route)
  obtain row where row: "dget (tb_outbox ?t) k = Some row" and run: "publish_route host count (k, org) w =
      (let message = outbox_message_of (oh_dumps host) row;
           s = ?s\<lparr>ses_organization := Some org\<rparr>; t = ses_tables s in
       case oh_publish host (ow_stream w) message of
         Acknowledged \<Rightarrow> (Inr (count + 1), w\<lparr>ow_stream := ow_stream w @ [message],
           ow_session := s\<lparr>ses_tables := t\<lparr>tb_outbox := dset k (row\<lparr>cx_published_at := Some (oh_now host count)\<rparr>)
               (tb_outbox t), tb_outbox_routing := AList.delete k (tb_outbox_routing t)\<rparr>\<rparr>\<rparr>)
       | Unanswered stored \<Rightarrow> (Inl PublishE, w\<lparr>ow_session := s,
           ow_stream := ow_stream w @ (if stored then [message] else [])\<rparr>))"
    by (rule publish_route_run [OF Cons.prems(1) here])
  let ?message = "outbox_message_of (oh_dumps host) row"
  show ?case
  proof (cases "oh_publish host (ow_stream w) ?message")
    case (Unanswered stored)
    then have "r = Inl PublishE" "w' = w\<lparr>ow_session := ?s\<lparr>ses_organization := Some org\<rparr>,
        ow_stream := ow_stream w @ (if stored then [?message] else [])\<rparr>"
      using Cons.prems(3) run route by (simp_all add: bindS_def)
    moreover have "\<exists>stream message. oh_publish host stream message \<noteq> Acknowledged"
      using Unanswered by (metis publish_answer.distinct(1))
    ultimately show ?thesis by simp
  next
    case Acknowledged
    let ?t' = "?t\<lparr>tb_outbox := dset k (row\<lparr>cx_published_at := Some (oh_now host count)\<rparr>) (tb_outbox ?t),
        tb_outbox_routing := AList.delete k (tb_outbox_routing ?t)\<rparr>"
    let ?w = "w\<lparr>ow_stream := ow_stream w @ [?message],
        ow_session := ?s\<lparr>ses_organization := Some org, ses_tables := ?t'\<rparr>\<rparr>"
    have rest: "publish_routes host (count + 1) routes ?w = (r, w')"
      using Cons.prems(3) run route Acknowledged by (simp add: bindS_def Let_def)
    have settled: "settled (oh_dumps host) (ow_stream ?w) (ses_tables (ow_session ?w))"
      using settled_published [OF Cons.prems(1) row] by simp
    have routed: "routed ?w routes"
      using Cons.prems(2) by (force simp: routed_def route delete_conv')
    have "messages_of host ?t' = messages_of host ?t"
      using row by (auto simp: messages_of_def)
    moreover have "Suc (length (tb_outbox_routing ?t')) = length (tb_outbox_routing ?t)"
      using length_delete_Some [OF _ here] Cons.prems(1) by (simp add: settled_def)
    ultimately show ?thesis
      using Cons.IH [OF settled routed rest] by (auto split: sum.splits)
  qed
qed

lemma routes_are_routed:
  assumes "wf_dict (tb_outbox_routing (ses_tables (ow_session w)))"
  shows "routed w (outbox_routes (ses_tables (ow_session w)))"
proof -
  let ?d = "tb_outbox_routing (ses_tables (ow_session w))"
  have "distinct (map fst (sort_key fst ?d))"
    using assms unfolding wf_dict_def distinct_map by simp
  then have "distinct (map fst (take 100 (sort_key fst ?d)))" by (simp add: take_map [symmetric] distinct_take)
  moreover have "set (take 100 (sort_key fst ?d)) \<subseteq> set ?d"
    using set_take_subset [of 100 "sort_key fst ?d"] by simp
  ultimately show ?thesis
    using assms by (auto simp: routed_def outbox_routes_def wf_dict_def intro!: map_of_is_SomeI)
qed

lemma publish_batch_run:
  assumes settled: "settled (oh_dumps host) (ow_stream w) (ses_committed (ow_session w))"
    and run: "publish_batch host w = (r, w')"
  shows "settled (oh_dumps host) (ow_stream w') (ses_committed (ow_session w'))"
    and "\<exists>extra. ow_stream w' = ow_stream w @ extra"
    and "r = Inl e \<Longrightarrow> ses_committed (ow_session w') = ses_committed (ow_session w) \<and>
      (\<not> oh_connects host \<or> (\<exists>stream message. oh_publish host stream message \<noteq> Acknowledged))"
    and "r = Inr n \<Longrightarrow> n = min 100 (length (tb_outbox_routing (ses_committed (ow_session w)))) \<and>
      length (tb_outbox_routing (ses_committed (ow_session w'))) + n
        = length (tb_outbox_routing (ses_committed (ow_session w))) \<and>
      messages_of host (ses_committed (ow_session w')) = messages_of host (ses_committed (ow_session w))"
proof -
  let ?c = "ses_committed (ow_session w)"
  let ?w = "w\<lparr>ow_session := cq_enter (ow_session w)\<rparr>"
  have entered: "settled (oh_dumps host) (ow_stream ?w) (ses_tables (ow_session ?w))"
    using settled by (simp add: cq_enter_def)
  have "routed ?w (outbox_routes ?c)"
    using routes_are_routed [of ?w] settled by (simp add: cq_enter_def settled_def)
  note loop = publish_routes_run [OF entered this]
  have length: "length (outbox_routes ?c) = min 100 (length (tb_outbox_routing ?c))"
    by (simp add: outbox_routes_def min.commute)
  obtain q u where q: "publish_routes host 0 (outbox_routes ?c) ?w = (q, u)"
    by (cases "publish_routes host 0 (outbox_routes ?c) ?w")
  have body: "oh_connects host \<Longrightarrow> (r, w') =
      (case q of
         Inl e \<Rightarrow> (Inl e, u\<lparr>ow_session := cq_exit False (ow_session u)\<rparr>)
       | Inr n \<Rightarrow> (Inr n, u\<lparr>ow_session := cq_exit False ((ow_session u)\<lparr>ses_committed := ses_tables (ow_session u),
           ses_organization := None\<rparr>)\<rparr>))"
    using run q by (cases q) (auto simp: publish_batch_def on_session_def finallyS_def bindS_def seqS_def readS_def
        writeS_def returnS_def cq_enter_def)
  note loop = loop [OF q] length
  show "settled (oh_dumps host) (ow_stream w') (ses_committed (ow_session w'))"
    using loop body settled run settled_grows
    by (cases "oh_connects host"; cases q) (auto simp: cq_enter_def cq_exit_def publish_batch_def raiseS_def)
  show "\<exists>extra. ow_stream w' = ow_stream w @ extra"
    using loop body run
    by (cases "oh_connects host"; cases q) (auto simp: publish_batch_def raiseS_def)
  show "r = Inl e \<Longrightarrow> ses_committed (ow_session w') = ses_committed (ow_session w) \<and>
      (\<not> oh_connects host \<or> (\<exists>stream message. oh_publish host stream message \<noteq> Acknowledged))"
    using loop body run
    by (cases "oh_connects host"; cases q) (auto simp: cq_enter_def cq_exit_def publish_batch_def raiseS_def)
  show "r = Inr n \<Longrightarrow> n = min 100 (length (tb_outbox_routing (ses_committed (ow_session w)))) \<and>
      length (tb_outbox_routing (ses_committed (ow_session w'))) + n
        = length (tb_outbox_routing (ses_committed (ow_session w))) \<and>
      messages_of host (ses_committed (ow_session w')) = messages_of host (ses_committed (ow_session w))"
    using loop body run
    by (cases "oh_connects host"; cases q) (auto simp: cq_enter_def cq_exit_def publish_batch_def raiseS_def)
qed

section \<open>Every run\<close>

text \<open>
  Use cases and batches in any order, each in its own transaction; a batch may meet any answers of the
  stream, at any time.
\<close>

inductive outbox_reachable ::
  "(json \<Rightarrow> string) \<Rightarrow> (json \<Rightarrow> string) \<Rightarrow> (time \<Rightarrow> string) \<Rightarrow> outbox_world \<Rightarrow> bool"
  for dumps repr isoformat where
  ob_empty: "ses_committed (ow_session w) = no_tables \<Longrightarrow> outbox_reachable dumps repr isoformat w"
| ob_use_case: "outbox_reachable dumps repr isoformat w \<Longrightarrow> cp_pg_step repr isoformat (ow_session w) s' \<Longrightarrow>
     outbox_reachable dumps repr isoformat (w\<lparr>ow_session := s'\<rparr>)"
| ob_batch: "outbox_reachable dumps repr isoformat w \<Longrightarrow> oh_dumps host = dumps \<Longrightarrow>
     publish_batch host w = (r, w') \<Longrightarrow> outbox_reachable dumps repr isoformat w'"

lemma outbox_settled:
  "outbox_reachable dumps repr isoformat w \<Longrightarrow> settled dumps (ow_stream w) (ses_committed (ow_session w))"
proof (induction rule: outbox_reachable.induct)
  case (ob_empty w)
  then show ?case by (simp add: settled_def no_tables_def)
next
  case (ob_use_case w s')
  then show ?case using cp_pg_step_keeps_settled by simp
next
  case (ob_batch w host r w')
  then show ?case using publish_batch_run(1) by metis
qed

text \<open>C20: no event is lost between the outbox and the stream. In every run of use cases and batches,
  whichever of them fail and wherever, an event of the outbox is either not yet published, and
  then the next batches have a route to it, or it is marked as published, and then the stream holds
  its message.\<close>

theorem outbox_loses_no_event:
  assumes "outbox_reachable dumps repr isoformat w"
    and "dget (tb_outbox (ses_committed (ow_session w))) k = Some event"
  shows "cx_id event = k \<and>
    (case cx_published_at event of
       None \<Rightarrow> dget (tb_outbox_routing (ses_committed (ow_session w))) k = Some (cx_organization_id event)
     | Some published \<Rightarrow> dget (tb_outbox_routing (ses_committed (ow_session w))) k = None \<and>
         outbox_message_of dumps event \<in> set (ow_stream w))"
  using outbox_settled [OF assms(1)] assms(2) by (auto simp: settled_def settled_row_def split: option.splits)

lemma batches_drain:
  assumes "settled (oh_dumps host) (ow_stream w) (ses_committed (ow_session w))" and "oh_connects host"
    and "\<And>stream message. oh_publish host stream message = Acknowledged"
  shows "let w' = ((\<lambda>w. snd (publish_batch host w)) ^^ n) w in
     settled (oh_dumps host) (ow_stream w') (ses_committed (ow_session w')) \<and>
     length (tb_outbox_routing (ses_committed (ow_session w')))
       = length (tb_outbox_routing (ses_committed (ow_session w))) - 100 * n \<and>
     messages_of host (ses_committed (ow_session w')) = messages_of host (ses_committed (ow_session w))"
proof (induction n)
  case 0
  then show ?case using assms(1) by simp
next
  case (Suc n)
  let ?u = "((\<lambda>w. snd (publish_batch host w)) ^^ n) w"
  obtain r u' where run: "publish_batch host ?u = (r, u')" by (cases "publish_batch host ?u")
  have u: "settled (oh_dumps host) (ow_stream ?u) (ses_committed (ow_session ?u))" using Suc.IH by (simp add: Let_def)
  note batch = publish_batch_run [OF u run]
  obtain count where "r = Inr count" using batch(3) assms(2,3) by (cases r) auto
  then show ?case using batch(1,4) Suc.IH run by (auto simp: Let_def)
qed

text \<open>C21: the outbox drains. While NATS answers and no use case runs, as many batches as there are hundreds of
  routed events leave no route, and every event of the outbox is marked as published and its message is
  in the stream.\<close>

theorem outbox_drains:
  assumes "outbox_reachable (oh_dumps host) repr isoformat w" and "oh_connects host"
    and "\<And>stream message. oh_publish host stream message = Acknowledged"
    and "length (tb_outbox_routing (ses_committed (ow_session w))) \<le> 100 * n"
    and "dget (tb_outbox (ses_committed (ow_session w))) k = Some event"
  shows "let w' = ((\<lambda>w. snd (publish_batch host w)) ^^ n) w in
    tb_outbox_routing (ses_committed (ow_session w')) = [] \<and>
    (\<exists>event'. dget (tb_outbox (ses_committed (ow_session w'))) k = Some event' \<and> cx_published_at event' \<noteq> None) \<and>
    outbox_message_of (oh_dumps host) event \<in> set (ow_stream w')"
proof -
  let ?w = "((\<lambda>w. snd (publish_batch host w)) ^^ n) w"
  have settled: "settled (oh_dumps host) (ow_stream ?w) (ses_committed (ow_session ?w))"
    and empty: "tb_outbox_routing (ses_committed (ow_session ?w)) = []"
    and "messages_of host (ses_committed (ow_session ?w)) k = messages_of host (ses_committed (ow_session w)) k"
    using batches_drain [OF outbox_settled [OF assms(1)] assms(2,3), of n] assms(4) by (auto simp: Let_def)
  then obtain event' where event': "dget (tb_outbox (ses_committed (ow_session ?w))) k = Some event'"
    and same: "outbox_message_of (oh_dumps host) event' = outbox_message_of (oh_dumps host) event"
    using assms(5) by (auto simp: messages_of_def)
  have "settled_row (oh_dumps host) (ow_stream ?w) (ses_committed (ow_session ?w)) k event'"
    using settled event' by (simp add: settled_def)
  then show ?thesis using empty event' same by (simp add: Let_def settled_row_def split: if_splits)
qed

section \<open>An event on its way\<close>

definition demo_nats :: outbox_host where
  "demo_nats = \<lparr>oh_connects = True, oh_publish = (\<lambda>_ _. Acknowledged), oh_dumps = (\<lambda>_. ''{}''), oh_now = (\<lambda>_. 5)\<rparr>"

definition demo_announced :: outbox_world where
  "demo_announced = \<lparr>ow_session = demo_db1, ow_stream = []\<rparr>"

lemma demo_db1_outbox:
  "\<exists>event. tb_outbox (ses_committed demo_db1) = [(2, event)] \<and> cx_organization_id event = 1 \<and>
     cx_published_at event = None \<and> tb_outbox_routing (ses_committed demo_db1) = [(2, 1)]"
  by (simp add: demo_db1_def demo_db0_def create_organization_def pg_run_simps no_tables_def PostgresUnitOfWork_def)

lemma demo_announced_reachable: "outbox_reachable dumps (\<lambda>_. []) (\<lambda>_. []) demo_announced"
proof -
  have "cp_pg_step (\<lambda>_. []) (\<lambda>_. []) demo_db0 demo_db1"
    unfolding demo_db1_def by (rule cp_pg_step.pg_organization [OF prod.collapse [symmetric]])
  then show ?thesis
    using ob_use_case [OF ob_empty, of "\<lparr>ow_session = demo_db0, ow_stream = []\<rparr>" _ _ demo_db1 dumps]
    by (simp add: demo_announced_def demo_db0_def)
qed

lemma demo_published:
  "\<exists>w' event. publish_batch demo_nats demo_announced = (Inr 1, w') \<and>
     dget (tb_outbox (ses_committed (ow_session w'))) 2 = Some event \<and> cx_published_at event = Some 5"
proof -
  obtain event where "tb_outbox (ses_committed demo_db1) = [(2, event)]" "cx_organization_id event = 1"
      "tb_outbox_routing (ses_committed demo_db1) = [(2, 1)]"
    using demo_db1_outbox by blast
  then show ?thesis
    by (simp add: publish_batch_def on_session_def on_tables_def finallyS_def bindS_def seqS_def readS_def writeS_def
        returnS_def cq_enter_def cq_exit_def outbox_routes_def publish_route_def jetstream_publish_def owned_def
        demo_nats_def demo_announced_def)
qed

theorem outbox_loses_no_event_witness:
  "\<exists>w' event. publish_batch demo_nats demo_announced = (Inr 1, w') \<and>
     dget (tb_outbox (ses_committed (ow_session w'))) 2 = Some event \<and> cx_published_at event = Some 5 \<and>
     outbox_message_of (\<lambda>_. ''{}'') event \<in> set (ow_stream w')"
proof -
  obtain w' event where run: "publish_batch demo_nats demo_announced = (Inr 1, w')"
    and event: "dget (tb_outbox (ses_committed (ow_session w'))) 2 = Some event" "cx_published_at event = Some 5"
    using demo_published by blast
  have "outbox_reachable (\<lambda>_. ''{}'') (\<lambda>_. []) (\<lambda>_. []) w'"
    by (rule ob_batch [OF demo_announced_reachable _ run]) (simp add: demo_nats_def)
  from outbox_loses_no_event [OF this event(1)] show ?thesis using run event by auto
qed

theorem outbox_drains_witness:
  "\<exists>w' event. w' = snd (publish_batch demo_nats demo_announced) \<and>
     tb_outbox_routing (ses_committed (ow_session demo_announced)) = [(2, 1)] \<and>
     dget (tb_outbox (ses_committed (ow_session demo_announced))) 2 = Some event \<and>
     tb_outbox_routing (ses_committed (ow_session w')) = [] \<and>
     outbox_message_of (\<lambda>_. ''{}'') event \<in> set (ow_stream w')"
proof -
  obtain event where "tb_outbox (ses_committed demo_db1) = [(2, event)]"
      "tb_outbox_routing (ses_committed demo_db1) = [(2, 1)]"
    using demo_db1_outbox by blast
  moreover from this have "let w' = ((\<lambda>w. snd (publish_batch demo_nats w)) ^^ 1) demo_announced in
      tb_outbox_routing (ses_committed (ow_session w')) = [] \<and>
      (\<exists>event'. dget (tb_outbox (ses_committed (ow_session w'))) 2 = Some event' \<and> cx_published_at event' \<noteq> None) \<and>
      outbox_message_of (oh_dumps demo_nats) event \<in> set (ow_stream w')"
    by (intro outbox_drains [OF demo_announced_reachable])
      (simp_all add: demo_nats_def demo_announced_def)
  ultimately show ?thesis by (simp add: Let_def demo_nats_def demo_announced_def)
qed

end
