(* ===== verification/DlRuntimes.thy ===== *)
theory DlRuntimes
  imports Prelude "HOL-Library.List_Lexorder" "HOL-Library.Char_ord"
begin

text \<open>
  \<open>domain/errors.py\<close> and \<open>domain/agent_runtimes.py\<close> of the delivery service: the table of
  the (runtime, provider, authentication mode) combinations the system knows how to run, the
  catalog of reviewed models, and \<open>ensure_supported\<close>, which refuses everything else.
  A \<open>frozenset\<close> of strings is the list of its elements; \<open>sorted\<close> orders it.
\<close>

datatype delivery_error =
    InvalidExecutionTransition string
  | BudgetExceeded string
  | RunnerUnavailable string
  | InvalidEnrollment string
  | UnsupportedProviderConfiguration string

fun delivery_error_code :: "delivery_error \<Rightarrow> string" where
  "delivery_error_code (InvalidExecutionTransition _) = ''invalid_execution_transition''"
| "delivery_error_code (BudgetExceeded _) = ''budget_exceeded''"
| "delivery_error_code (RunnerUnavailable _) = ''runner_unavailable''"
| "delivery_error_code (InvalidEnrollment _) = ''invalid_enrollment''"
| "delivery_error_code (UnsupportedProviderConfiguration _) = ''unsupported_provider_configuration''"

record runtime_compatibility =
  rc_runtime :: string
  rc_providers :: "string list"
  rc_authentication_modes :: "string list"
  rc_is_development_substitute :: bool
  rc_local_session_provider :: "string option"

record agent_catalog_entry =
  ce_provider :: string
  ce_provider_display_name :: string
  ce_runtime :: string
  ce_runtime_display_name :: string
  ce_models :: "string list"
  ce_recommended_model :: string
  ce_tier :: string

definition RUNTIME_COMPATIBILITY :: "(string, runtime_compatibility) dict" where
  "RUNTIME_COMPATIBILITY =
     [(''deterministic'',
       \<lparr>rc_runtime = ''deterministic'', rc_providers = [''local''],
        rc_authentication_modes = [''NONE''],
        rc_is_development_substitute = True, rc_local_session_provider = None\<rparr>),
      (''codex-cli'',
       \<lparr>rc_runtime = ''codex-cli'', rc_providers = [''openai''],
        rc_authentication_modes = [''LOCAL_SESSION'', ''API_KEY_REFERENCE''],
        rc_is_development_substitute = False, rc_local_session_provider = Some ''openai''\<rparr>),
      (''claude-code-cli'',
       \<lparr>rc_runtime = ''claude-code-cli'',
        rc_providers = [''anthropic'', ''zhipu-glm'', ''moonshot-kimi''],
        rc_authentication_modes = [''LOCAL_SESSION'', ''API_KEY_REFERENCE''],
        rc_is_development_substitute = False, rc_local_session_provider = Some ''anthropic''\<rparr>),
      (''claude-agent-sdk'',
       \<lparr>rc_runtime = ''claude-agent-sdk'', rc_providers = [''anthropic''],
        rc_authentication_modes = [''API_KEY_REFERENCE''],
        rc_is_development_substitute = False, rc_local_session_provider = None\<rparr>)]"

definition AGENT_CATALOG :: "agent_catalog_entry list" where
  "AGENT_CATALOG =
     [\<lparr>ce_provider = ''openai'', ce_provider_display_name = ''OpenAI'', ce_runtime = ''codex-cli'',
       ce_runtime_display_name = ''Codex'',
       ce_models = [''gpt-5.1-codex'', ''gpt-5.1-codex-max''],
       ce_recommended_model = ''gpt-5.1-codex'', ce_tier = ''PRIMARY''\<rparr>,
      \<lparr>ce_provider = ''anthropic'', ce_provider_display_name = ''Anthropic'',
       ce_runtime = ''claude-code-cli'', ce_runtime_display_name = ''Claude Code'',
       ce_models = [''claude-opus-5''],
       ce_recommended_model = ''claude-opus-5'', ce_tier = ''PRIMARY''\<rparr>,
      \<lparr>ce_provider = ''anthropic'', ce_provider_display_name = ''Anthropic'',
       ce_runtime = ''claude-agent-sdk'', ce_runtime_display_name = ''Claude Agent SDK'',
       ce_models = [''claude-opus-5''],
       ce_recommended_model = ''claude-opus-5'', ce_tier = ''ADVANCED''\<rparr>,
      \<lparr>ce_provider = ''zhipu-glm'', ce_provider_display_name = ''Zhipu GLM'',
       ce_runtime = ''claude-code-cli'', ce_runtime_display_name = ''Claude Code compatible runtime'',
       ce_models = [''glm-5.2''],
       ce_recommended_model = ''glm-5.2'', ce_tier = ''ADVANCED''\<rparr>,
      \<lparr>ce_provider = ''moonshot-kimi'', ce_provider_display_name = ''Moonshot Kimi'',
       ce_runtime = ''claude-code-cli'', ce_runtime_display_name = ''Claude Code compatible runtime'',
       ce_models = [''kimi-k2.5''],
       ce_recommended_model = ''kimi-k2.5'', ce_tier = ''ADVANCED''\<rparr>]"

definition catalog_entry :: "string \<Rightarrow> string \<Rightarrow> agent_catalog_entry option" where
  "catalog_entry runtime provider =
     find (\<lambda>entry. ce_runtime entry = runtime \<and> ce_provider entry = provider) AGENT_CATALOG"

definition repr_bool :: "bool \<Rightarrow> string" where
  "repr_bool b = (if b then ''True'' else ''False'')"

definition repr_option :: "string option \<Rightarrow> string" where
  "repr_option x = (case x of None \<Rightarrow> ''None'' | Some s \<Rightarrow> repr_str s)"

definition ensure_supported ::
  "string \<Rightarrow> string \<Rightarrow> string \<Rightarrow> bool \<Rightarrow> string option \<Rightarrow> delivery_error + unit" where
  "ensure_supported runtime provider authentication_mode is_development_substitute model =
     (case dget RUNTIME_COMPATIBILITY runtime of
        None \<Rightarrow> Inl (UnsupportedProviderConfiguration (''unknown agent runtime: '' @ repr_str runtime))
      | Some compatibility \<Rightarrow>
          if provider \<notin> set (rc_providers compatibility) then
            Inl (UnsupportedProviderConfiguration
              (''runtime '' @ repr_str runtime @ '' does not support provider '' @ repr_str provider
               @ '' (supported: '' @ repr_list (sort (rc_providers compatibility)) @ '')''))
          else if authentication_mode \<notin> set (rc_authentication_modes compatibility) then
            Inl (UnsupportedProviderConfiguration
              (''runtime '' @ repr_str runtime @ '' does not support authentication_mode ''
               @ repr_str authentication_mode @ '' (supported: ''
               @ repr_list (sort (rc_authentication_modes compatibility)) @ '')''))
          else if authentication_mode = ''LOCAL_SESSION'' \<and>
                  Some provider \<noteq> rc_local_session_provider compatibility then
            Inl (UnsupportedProviderConfiguration
              (''LOCAL_SESSION (a mounted subscription session) can only authenticate ''
               @ ''runtime '' @ repr_str runtime @ [char_of (39 :: nat)] @ ''s own provider ''
               @ repr_option (rc_local_session_provider compatibility) @ '', not ''
               @ repr_str provider))
          else if is_development_substitute \<noteq> rc_is_development_substitute compatibility then
            Inl (UnsupportedProviderConfiguration
              (''runtime '' @ repr_str runtime @ '' must have is_development_substitute=''
               @ repr_bool (rc_is_development_substitute compatibility)))
          else (case model of
              None \<Rightarrow> Inr ()
            | Some m \<Rightarrow>
                if is_development_substitute then Inr ()
                else (case catalog_entry runtime provider of
                    None \<Rightarrow> Inl (UnsupportedProviderConfiguration
                      (''model '' @ repr_str m @ '' is not in the reviewed catalog for runtime ''
                       @ repr_str runtime @ '' and provider '' @ repr_str provider
                       @ '' (supported: '' @ repr_list [] @ '')''))
                  | Some entry \<Rightarrow>
                      if m \<notin> set (ce_models entry) then Inl (UnsupportedProviderConfiguration
                        (''model '' @ repr_str m @ '' is not in the reviewed catalog for runtime ''
                         @ repr_str runtime @ '' and provider '' @ repr_str provider
                         @ '' (supported: '' @ repr_list (ce_models entry) @ '')''))
                      else Inr ())))"

section \<open>What is supported\<close>

text \<open>
  The reviewed combinations written out: runtime, provider, authentication mode, whether it
  is a development substitute, and the models (any model for the substitute).
\<close>

definition reviewed :: "(string \<times> string \<times> string \<times> bool \<times> string list) list" where
  "reviewed =
     [(''deterministic'', ''local'', ''NONE'', True, []),
      (''codex-cli'', ''openai'', ''LOCAL_SESSION'', False, [''gpt-5.1-codex'', ''gpt-5.1-codex-max'']),
      (''codex-cli'', ''openai'', ''API_KEY_REFERENCE'', False, [''gpt-5.1-codex'', ''gpt-5.1-codex-max'']),
      (''claude-code-cli'', ''anthropic'', ''LOCAL_SESSION'', False, [''claude-opus-5'']),
      (''claude-code-cli'', ''anthropic'', ''API_KEY_REFERENCE'', False, [''claude-opus-5'']),
      (''claude-code-cli'', ''zhipu-glm'', ''API_KEY_REFERENCE'', False, [''glm-5.2'']),
      (''claude-code-cli'', ''moonshot-kimi'', ''API_KEY_REFERENCE'', False, [''kimi-k2.5'']),
      (''claude-agent-sdk'', ''anthropic'', ''API_KEY_REFERENCE'', False, [''claude-opus-5''])]"

text \<open>When nothing is raised.\<close>

lemma ensure_supported_Inr:
  "ensure_supported runtime provider mode dev model = Inr () \<longleftrightarrow>
     (\<exists>c. dget RUNTIME_COMPATIBILITY runtime = Some c \<and> provider \<in> set (rc_providers c) \<and>
        mode \<in> set (rc_authentication_modes c) \<and>
        (mode = ''LOCAL_SESSION'' \<longrightarrow> Some provider = rc_local_session_provider c) \<and>
        dev = rc_is_development_substitute c \<and>
        (case model of None \<Rightarrow> True
         | Some m \<Rightarrow> dev \<or> (\<exists>entry. catalog_entry runtime provider = Some entry \<and> m \<in> set (ce_models entry))))"
  unfolding ensure_supported_def
  by (cases "dget RUNTIME_COMPATIBILITY runtime"; cases model; cases "catalog_entry runtime provider") simp_all

lemma compatibility_of:
  "dget RUNTIME_COMPATIBILITY runtime = Some c \<longleftrightarrow> (runtime, c) \<in> set RUNTIME_COMPATIBILITY"
  unfolding RUNTIME_COMPATIBILITY_def by auto

text \<open>What a catalog entry adds to a combination: nothing without a model.\<close>

lemma reviewed_entries:
  "(runtime, c) \<in> set RUNTIME_COMPATIBILITY \<and> provider \<in> set (rc_providers c) \<and>
     mode \<in> set (rc_authentication_modes c) \<and>
     (mode = ''LOCAL_SESSION'' \<longrightarrow> Some provider = rc_local_session_provider c) \<longleftrightarrow>
   (\<exists>models. (runtime, provider, mode, rc_is_development_substitute c, models) \<in> set reviewed \<and>
      (runtime, c) \<in> set RUNTIME_COMPATIBILITY)"
  by (auto simp: RUNTIME_COMPATIBILITY_def reviewed_def)

lemma reviewed_models:
  "(runtime, provider, mode, dev, models) \<in> set reviewed \<Longrightarrow>
     dev \<or> (\<exists>entry. catalog_entry runtime provider = Some entry \<and> ce_models entry = models)"
  by (auto simp: reviewed_def catalog_entry_def AGENT_CATALOG_def)

lemma reviewed_known:
  "(runtime, provider, mode, dev, models) \<in> set reviewed \<Longrightarrow>
     \<exists>c. (runtime, c) \<in> set RUNTIME_COMPATIBILITY \<and> dev = rc_is_development_substitute c"
  unfolding reviewed_def by (simp, elim disjE; simp add: RUNTIME_COMPATIBILITY_def)

text \<open>\<open>ensure_supported\<close> accepts exactly the eight reviewed combinations of runtime,
  provider and authentication mode, each with its development flag and, for the real runtimes,
  only the models of its catalog entry; in particular a subscription session is accepted only
  for the runtime's own provider. Everything else raises.\<close>

theorem ensure_supported_iff_reviewed:
  "ensure_supported runtime provider mode dev model = Inr () \<longleftrightarrow>
     (\<exists>models. (runtime, provider, mode, dev, models) \<in> set reviewed \<and>
        (case model of None \<Rightarrow> True | Some m \<Rightarrow> dev \<or> m \<in> set models))"
proof
  assume "ensure_supported runtime provider mode dev model = Inr ()"
  then obtain c where c: "(runtime, c) \<in> set RUNTIME_COMPATIBILITY" "provider \<in> set (rc_providers c)"
      "mode \<in> set (rc_authentication_modes c)"
      "mode = ''LOCAL_SESSION'' \<longrightarrow> Some provider = rc_local_session_provider c"
      "dev = rc_is_development_substitute c"
    and model: "case model of None \<Rightarrow> True
      | Some m \<Rightarrow> dev \<or> (\<exists>entry. catalog_entry runtime provider = Some entry \<and> m \<in> set (ce_models entry))"
    unfolding ensure_supported_Inr compatibility_of by blast
  obtain models where models: "(runtime, provider, mode, dev, models) \<in> set reviewed"
    using reviewed_entries c by blast
  moreover have "case model of None \<Rightarrow> True | Some m \<Rightarrow> dev \<or> m \<in> set models"
    using model reviewed_models [OF models] by (cases model) auto
  ultimately show "\<exists>models. (runtime, provider, mode, dev, models) \<in> set reviewed \<and>
      (case model of None \<Rightarrow> True | Some m \<Rightarrow> dev \<or> m \<in> set models)" by blast
next
  assume "\<exists>models. (runtime, provider, mode, dev, models) \<in> set reviewed \<and>
    (case model of None \<Rightarrow> True | Some m \<Rightarrow> dev \<or> m \<in> set models)"
  then obtain models where models: "(runtime, provider, mode, dev, models) \<in> set reviewed"
    and model: "case model of None \<Rightarrow> True | Some m \<Rightarrow> dev \<or> m \<in> set models" by blast
  obtain c where c: "(runtime, c) \<in> set RUNTIME_COMPATIBILITY" "dev = rc_is_development_substitute c"
    using reviewed_known [OF models] by blast
  have "case model of None \<Rightarrow> True
      | Some m \<Rightarrow> dev \<or> (\<exists>entry. catalog_entry runtime provider = Some entry \<and> m \<in> set (ce_models entry))"
    using model reviewed_models [OF models] by (cases model) auto
  then show "ensure_supported runtime provider mode dev model = Inr ()"
    unfolding ensure_supported_Inr compatibility_of using reviewed_entries models c by blast
qed

end
