(* ===== verification/DlDomain.thy ===== *)
theory DlDomain
  imports DlRuntimes Contracts
begin

text \<open>
  \<open>domain/models.py\<close> of the delivery service: budgets, provider configurations, runners and
  the execution with its transitions. A method that mutates the object and may raise returns
  the new object or the error; every method checks before it assigns, so an error leaves the
  object as it was. The clock is an argument where the code reads it.
\<close>

datatype authentication_mode = AM_NONE | LOCAL_SESSION | API_KEY_REFERENCE | ENTERPRISE_CONFIGURATION

fun authentication_mode_value :: "authentication_mode \<Rightarrow> string" where
  "authentication_mode_value AM_NONE = ''NONE''"
| "authentication_mode_value LOCAL_SESSION = ''LOCAL_SESSION''"
| "authentication_mode_value API_KEY_REFERENCE = ''API_KEY_REFERENCE''"
| "authentication_mode_value ENTERPRISE_CONFIGURATION = ''ENTERPRISE_CONFIGURATION''"

datatype execution_status =
    ES_AWAITING_APPROVAL | ES_QUEUED | ES_PROVISIONING | ES_PLANNING | ES_AWAITING_PLAN_APPROVAL
  | ES_BUILDING | ES_VERIFYING | ES_REPAIRING | ES_DELIVERING | ES_DELIVERED | ES_FAILED
  | ES_CANCELLED | ES_AWAITING_HUMAN

fun execution_status_value :: "execution_status \<Rightarrow> string" where
  "execution_status_value ES_AWAITING_APPROVAL = ''AWAITING_APPROVAL''"
| "execution_status_value ES_QUEUED = ''QUEUED''"
| "execution_status_value ES_PROVISIONING = ''PROVISIONING''"
| "execution_status_value ES_PLANNING = ''PLANNING''"
| "execution_status_value ES_AWAITING_PLAN_APPROVAL = ''AWAITING_PLAN_APPROVAL''"
| "execution_status_value ES_BUILDING = ''BUILDING''"
| "execution_status_value ES_VERIFYING = ''VERIFYING''"
| "execution_status_value ES_REPAIRING = ''REPAIRING''"
| "execution_status_value ES_DELIVERING = ''DELIVERING''"
| "execution_status_value ES_DELIVERED = ''DELIVERED''"
| "execution_status_value ES_FAILED = ''FAILED''"
| "execution_status_value ES_CANCELLED = ''CANCELLED''"
| "execution_status_value ES_AWAITING_HUMAN = ''AWAITING_HUMAN''"

datatype approval_status = AP_PENDING | AP_APPROVED | AP_REJECTED

fun approval_status_value :: "approval_status \<Rightarrow> string" where
  "approval_status_value AP_PENDING = ''PENDING''"
| "approval_status_value AP_APPROVED = ''APPROVED''"
| "approval_status_value AP_REJECTED = ''REJECTED''"

datatype runner_status = RN_ONLINE | RN_OFFLINE | RN_DRAINING | RN_REVOKED

fun runner_status_value :: "runner_status \<Rightarrow> string" where
  "runner_status_value RN_ONLINE = ''ONLINE''"
| "runner_status_value RN_OFFLINE = ''OFFLINE''"
| "runner_status_value RN_DRAINING = ''DRAINING''"
| "runner_status_value RN_REVOKED = ''REVOKED''"

datatype execution_event_kind =
  EK_DECISION | EK_PLAN | EK_TOOL | EK_COMMAND | EK_RESULT | EK_ERROR | EK_APPROVAL | EK_COST | EK_STATE

fun execution_event_kind_value :: "execution_event_kind \<Rightarrow> string" where
  "execution_event_kind_value EK_DECISION = ''DECISION''"
| "execution_event_kind_value EK_PLAN = ''PLAN''"
| "execution_event_kind_value EK_TOOL = ''TOOL''"
| "execution_event_kind_value EK_COMMAND = ''COMMAND''"
| "execution_event_kind_value EK_RESULT = ''RESULT''"
| "execution_event_kind_value EK_ERROR = ''ERROR''"
| "execution_event_kind_value EK_APPROVAL = ''APPROVAL''"
| "execution_event_kind_value EK_COST = ''COST''"
| "execution_event_kind_value EK_STATE = ''STATE''"

definition AuthenticationMode :: "string \<Rightarrow> authentication_mode option" where
  "AuthenticationMode = enum_of authentication_mode_value
     [AM_NONE, LOCAL_SESSION, API_KEY_REFERENCE, ENTERPRISE_CONFIGURATION]"

definition ExecutionStatus :: "string \<Rightarrow> execution_status option" where
  "ExecutionStatus = enum_of execution_status_value
     [ES_AWAITING_APPROVAL, ES_QUEUED, ES_PROVISIONING, ES_PLANNING, ES_AWAITING_PLAN_APPROVAL,
      ES_BUILDING, ES_VERIFYING, ES_REPAIRING, ES_DELIVERING, ES_DELIVERED, ES_FAILED,
      ES_CANCELLED, ES_AWAITING_HUMAN]"

definition ApprovalStatus :: "string \<Rightarrow> approval_status option" where
  "ApprovalStatus = enum_of approval_status_value [AP_PENDING, AP_APPROVED, AP_REJECTED]"

definition RunnerStatus :: "string \<Rightarrow> runner_status option" where
  "RunnerStatus = enum_of runner_status_value [RN_ONLINE, RN_OFFLINE, RN_DRAINING, RN_REVOKED]"

definition ExecutionEventKind :: "string \<Rightarrow> execution_event_kind option" where
  "ExecutionEventKind = enum_of execution_event_kind_value
     [EK_DECISION, EK_PLAN, EK_TOOL, EK_COMMAND, EK_RESULT, EK_ERROR, EK_APPROVAL, EK_COST, EK_STATE]"

lemma enum_roundtrip [simp]:
  "AuthenticationMode (authentication_mode_value a) = Some a"
  "ExecutionStatus (execution_status_value e) = Some e"
  "ApprovalStatus (approval_status_value p) = Some p"
  "RunnerStatus (runner_status_value r) = Some r"
  "ExecutionEventKind (execution_event_kind_value k) = Some k"
      apply (cases a; simp add: AuthenticationMode_def enum_of_def)
     apply (cases e; simp add: ExecutionStatus_def enum_of_def)
    apply (cases p; simp add: ApprovalStatus_def enum_of_def)
   apply (cases r; simp add: RunnerStatus_def enum_of_def)
  apply (cases k; simp add: ExecutionEventKind_def enum_of_def)
  done

section \<open>Budgets\<close>

record execution_budget =
  eb_max_duration_seconds :: int
  eb_max_attempts :: int
  eb_max_turns :: int
  eb_max_cost_minor :: int
  eb_currency :: string

definition ensure_within ::
  "execution_budget \<Rightarrow> int \<Rightarrow> int \<Rightarrow> int \<Rightarrow> int \<Rightarrow> delivery_error + unit" where
  "ensure_within b duration_seconds attempts turns cost_minor =
     (let exceeded =
        (if duration_seconds > eb_max_duration_seconds b then [''duration''] else [])
        @ (if attempts > eb_max_attempts b then [''attempts''] else [])
        @ (if turns > eb_max_turns b then [''turns''] else [])
        @ (if cost_minor > eb_max_cost_minor b then [''cost''] else []) in
      if exceeded \<noteq> [] then Inl (BudgetExceeded (''execution exceeded: '' @ join '', '' exceeded))
      else Inr ())"

lemma ensure_within_iff:
  "ensure_within b d a t c = Inr () \<longleftrightarrow>
     d \<le> eb_max_duration_seconds b \<and> a \<le> eb_max_attempts b \<and> t \<le> eb_max_turns b \<and>
     c \<le> eb_max_cost_minor b"
  by (auto simp: ensure_within_def Let_def)

section \<open>Provider configurations and runners\<close>

record provider_configuration =
  pc_id :: uuid
  pc_organization_id :: uuid
  pc_display_name :: string
  pc_provider :: string
  pc_runtime :: string
  pc_model :: string
  pc_authentication_mode :: authentication_mode
  pc_secret_reference :: "secret_reference option"
  pc_enabled :: bool
  pc_is_development_substitute :: bool

text \<open>The \<open>__post_init__\<close> check: a \<open>ValueError\<close> or a delivery error.\<close>

datatype configuration_error = ConfigurationValueError string | ConfigurationDelivery delivery_error

definition AgentProviderConfiguration ::
  "provider_configuration \<Rightarrow> configuration_error + provider_configuration" where
  "AgentProviderConfiguration c =
     (let needs_secret = (pc_authentication_mode c = API_KEY_REFERENCE) in
      if needs_secret \<noteq> (pc_secret_reference c \<noteq> None)
      then Inl (ConfigurationValueError ''API key mode requires exactly one secret reference'')
      else (case ensure_supported (pc_runtime c) (pc_provider c)
                   (authentication_mode_value (pc_authentication_mode c))
                   (pc_is_development_substitute c) (Some (pc_model c)) of
              Inl e \<Rightarrow> Inl (ConfigurationDelivery e)
            | Inr _ \<Rightarrow> Inr c))"

definition wf_configuration :: "provider_configuration \<Rightarrow> bool" where
  "wf_configuration c \<longleftrightarrow> AgentProviderConfiguration c = Inr c"

lemma AgentProviderConfiguration_Inr:
  "AgentProviderConfiguration c = Inr c' \<longleftrightarrow> c' = c \<and> wf_configuration c"
  by (auto simp: AgentProviderConfiguration_def wf_configuration_def Let_def split: sum.splits if_splits)

record runner =
  rn_id :: uuid
  rn_organization_id :: uuid
  rn_pool_id :: uuid
  rn_name :: string
  rn_capabilities :: "string list"
  rn_credential_hash :: string
  rn_status :: runner_status
  rn_last_seen_at :: time

definition runner_heartbeat :: "time \<Rightarrow> string list \<Rightarrow> runner \<Rightarrow> delivery_error + runner" where
  "runner_heartbeat now capabilities r =
     (if rn_status r = RN_REVOKED
      then Inl (InvalidExecutionTransition ''a revoked runner cannot heartbeat'')
      else Inr (r\<lparr>rn_capabilities := capabilities, rn_last_seen_at := now,
                  rn_status := if rn_status r = RN_OFFLINE then RN_ONLINE else rn_status r\<rparr>))"

record execution_event =
  ee_id :: uuid
  ee_execution_id :: uuid
  ee_organization_id :: uuid
  ee_sequence :: int
  ee_kind :: execution_event_kind
  ee_name :: string
  ee_message :: string
  ee_occurred_at :: time
  ee_metadata :: "(string \<times> json) list"

section \<open>Executions\<close>

record execution =
  ex_id :: uuid
  ex_organization_id :: uuid
  ex_project_id :: uuid
  ex_work_item_id :: uuid
  ex_title :: string
  ex_description :: string
  ex_acceptance_criteria :: "string list"
  ex_repository_connection_id :: uuid
  ex_provider_configuration_id :: uuid
  ex_runner_pool_id :: uuid
  ex_budget :: execution_budget
  ex_approval_status :: approval_status
  ex_status :: execution_status
  ex_attempt_count :: int
  ex_turn_count :: int
  ex_duration_seconds :: int
  ex_cost_minor :: int
  ex_version :: int
  ex_cancellation_requested :: bool
  ex_result_reference :: "external_reference option"

definition invalid :: "string \<Rightarrow> execution \<Rightarrow> delivery_error + 'a" where
  "invalid what e =
     Inl (InvalidExecutionTransition (what @ '' from '' @ execution_status_value (ex_status e)))"

definition execution_approve :: "execution \<Rightarrow> delivery_error + execution" where
  "execution_approve e =
     (if ex_status e \<noteq> ES_AWAITING_APPROVAL then invalid ''cannot approve execution'' e
      else Inr (e\<lparr>ex_approval_status := AP_APPROVED, ex_status := ES_QUEUED,
                  ex_version := ex_version e + 1\<rparr>))"

definition execution_transition ::
  "execution_status \<Rightarrow> execution_status \<Rightarrow> execution \<Rightarrow> delivery_error + execution" where
  "execution_transition expected target e =
     (if ex_status e \<noteq> expected
      then Inl (InvalidExecutionTransition (''cannot transition from ''
             @ execution_status_value (ex_status e) @ '' to '' @ execution_status_value target))
      else Inr (e\<lparr>ex_status := target, ex_version := ex_version e + 1\<rparr>))"

definition start_provisioning :: "execution \<Rightarrow> delivery_error + execution" where
  "start_provisioning = execution_transition ES_QUEUED ES_PROVISIONING"

definition start_planning :: "execution \<Rightarrow> delivery_error + execution" where
  "start_planning = execution_transition ES_PROVISIONING ES_PLANNING"

definition start_building :: "execution \<Rightarrow> delivery_error + execution" where
  "start_building e =
     (if ex_status e \<notin> {ES_PLANNING, ES_REPAIRING} then invalid ''cannot start building'' e
      else Inr (e\<lparr>ex_status := ES_BUILDING, ex_version := ex_version e + 1\<rparr>))"

definition start_verification :: "execution \<Rightarrow> delivery_error + execution" where
  "start_verification = execution_transition ES_BUILDING ES_VERIFYING"

definition request_repair :: "execution \<Rightarrow> delivery_error + execution" where
  "request_repair e =
     (if ex_status e \<noteq> ES_VERIFYING then invalid ''cannot repair'' e
      else Inr (e\<lparr>ex_status := if ex_attempt_count e \<ge> eb_max_attempts (ex_budget e)
                                then ES_AWAITING_HUMAN else ES_REPAIRING,
                  ex_version := ex_version e + 1\<rparr>))"

definition start_delivery :: "execution \<Rightarrow> delivery_error + execution" where
  "start_delivery = execution_transition ES_VERIFYING ES_DELIVERING"

definition deliver :: "external_reference \<Rightarrow> execution \<Rightarrow> delivery_error + execution" where
  "deliver reference e =
     (if ex_status e \<noteq> ES_DELIVERING then invalid ''cannot deliver'' e
      else Inr (e\<lparr>ex_status := ES_DELIVERED, ex_version := ex_version e + 1,
                  ex_result_reference := Some reference\<rparr>))"

definition record_usage :: "int \<Rightarrow> int \<Rightarrow> int \<Rightarrow> int \<Rightarrow> execution \<Rightarrow> delivery_error + execution" where
  "record_usage attempts turns duration_seconds cost_minor e =
     (let next_attempts = ex_attempt_count e + attempts;
          next_turns = ex_turn_count e + turns;
          next_duration = ex_duration_seconds e + duration_seconds;
          next_cost = ex_cost_minor e + cost_minor in
      case ensure_within (ex_budget e) next_duration next_attempts next_turns next_cost of
        Inl err \<Rightarrow> Inl err
      | Inr _ \<Rightarrow> Inr (e\<lparr>ex_attempt_count := next_attempts, ex_turn_count := next_turns,
                        ex_duration_seconds := next_duration, ex_cost_minor := next_cost,
                        ex_version := ex_version e + 1\<rparr>))"

definition request_cancellation :: "execution \<Rightarrow> delivery_error + execution" where
  "request_cancellation e =
     (if ex_status e \<in> {ES_DELIVERED, ES_FAILED, ES_CANCELLED}
      then invalid ''cannot cancel execution'' e
      else Inr (e\<lparr>ex_version := ex_version e + 1, ex_cancellation_requested := True\<rparr>))"

definition execution_cancel :: "execution \<Rightarrow> delivery_error + execution" where
  "execution_cancel e =
     (if \<not> ex_cancellation_requested e
      then Inl (InvalidExecutionTransition ''cancellation has not been requested'')
      else Inr (e\<lparr>ex_status := ES_CANCELLED, ex_version := ex_version e + 1\<rparr>))"

definition execution_fail :: "execution \<Rightarrow> delivery_error + execution" where
  "execution_fail e =
     (if ex_status e \<in> {ES_DELIVERED, ES_CANCELLED} then invalid ''cannot fail execution'' e
      else Inr (e\<lparr>ex_status := ES_FAILED, ex_version := ex_version e + 1\<rparr>))"

lemmas execution_method_defs = execution_approve_def execution_transition_def
  start_provisioning_def start_planning_def start_building_def start_verification_def
  request_repair_def start_delivery_def deliver_def record_usage_def request_cancellation_def
  execution_cancel_def execution_fail_def

named_theorems dl_transitions

lemma execution_approve_iff [dl_transitions]:
  "execution_approve e = Inr e' \<longleftrightarrow> ex_status e = ES_AWAITING_APPROVAL \<and>
     e' = e\<lparr>ex_approval_status := AP_APPROVED, ex_status := ES_QUEUED, ex_version := ex_version e + 1\<rparr>"
  by (auto simp: execution_approve_def invalid_def)

lemma execution_transition_iff [dl_transitions]:
  "execution_transition a b e = Inr e' \<longleftrightarrow>
     ex_status e = a \<and> e' = e\<lparr>ex_status := b, ex_version := ex_version e + 1\<rparr>"
  by (auto simp: execution_transition_def)

lemmas [dl_transitions] = start_provisioning_def start_planning_def start_verification_def
  start_delivery_def

lemma start_building_iff [dl_transitions]:
  "start_building e = Inr e' \<longleftrightarrow> (ex_status e = ES_PLANNING \<or> ex_status e = ES_REPAIRING) \<and>
     e' = e\<lparr>ex_status := ES_BUILDING, ex_version := ex_version e + 1\<rparr>"
  by (auto simp: start_building_def invalid_def)

lemma request_repair_iff [dl_transitions]:
  "request_repair e = Inr e' \<longleftrightarrow> ex_status e = ES_VERIFYING \<and>
     e' = e\<lparr>ex_status := if ex_attempt_count e \<ge> eb_max_attempts (ex_budget e)
                         then ES_AWAITING_HUMAN else ES_REPAIRING,
             ex_version := ex_version e + 1\<rparr>"
  by (auto simp: request_repair_def invalid_def)

lemma deliver_iff [dl_transitions]:
  "deliver reference e = Inr e' \<longleftrightarrow> ex_status e = ES_DELIVERING \<and>
     e' = e\<lparr>ex_status := ES_DELIVERED, ex_version := ex_version e + 1,
             ex_result_reference := Some reference\<rparr>"
  by (auto simp: deliver_def invalid_def)

definition within_budget :: "execution \<Rightarrow> bool" where
  "within_budget e \<longleftrightarrow>
     ensure_within (ex_budget e) (ex_duration_seconds e) (ex_attempt_count e) (ex_turn_count e)
       (ex_cost_minor e) = Inr ()"

lemma within_budget_iff:
  "within_budget e \<longleftrightarrow>
     ex_duration_seconds e \<le> eb_max_duration_seconds (ex_budget e) \<and>
     ex_attempt_count e \<le> eb_max_attempts (ex_budget e) \<and>
     ex_turn_count e \<le> eb_max_turns (ex_budget e) \<and>
     ex_cost_minor e \<le> eb_max_cost_minor (ex_budget e)"
  by (auto simp: within_budget_def ensure_within_def)

lemma record_usage_iff [dl_transitions]:
  "record_usage a t d c e = Inr e' \<longleftrightarrow>
     within_budget e' \<and>
     e' = e\<lparr>ex_attempt_count := ex_attempt_count e + a, ex_turn_count := ex_turn_count e + t,
             ex_duration_seconds := ex_duration_seconds e + d, ex_cost_minor := ex_cost_minor e + c,
             ex_version := ex_version e + 1\<rparr>"
  by (auto simp: record_usage_def within_budget_def Let_def split: sum.splits)

lemma request_cancellation_iff [dl_transitions]:
  "request_cancellation e = Inr e' \<longleftrightarrow> ex_status e \<notin> {ES_DELIVERED, ES_FAILED, ES_CANCELLED} \<and>
     e' = e\<lparr>ex_version := ex_version e + 1, ex_cancellation_requested := True\<rparr>"
  by (auto simp: request_cancellation_def invalid_def)

lemma execution_cancel_iff [dl_transitions]:
  "execution_cancel e = Inr e' \<longleftrightarrow> ex_cancellation_requested e \<and>
     e' = e\<lparr>ex_status := ES_CANCELLED, ex_version := ex_version e + 1\<rparr>"
  by (auto simp: execution_cancel_def)

lemma execution_fail_iff [dl_transitions]:
  "execution_fail e = Inr e' \<longleftrightarrow> ex_status e \<notin> {ES_DELIVERED, ES_CANCELLED} \<and>
     e' = e\<lparr>ex_status := ES_FAILED, ex_version := ex_version e + 1\<rparr>"
  by (auto simp: execution_fail_def invalid_def)

section \<open>The execution state machine\<close>

text \<open>
  One step is one successful method call; usage is never negative (the runner's report is
  validated so). The initial execution is the one \<open>accept_ready_work_item\<close> builds.
\<close>

inductive execution_step :: "execution \<Rightarrow> execution \<Rightarrow> bool" where
  approve: "execution_approve e = Inr e' \<Longrightarrow> execution_step e e'"
| provisioning: "start_provisioning e = Inr e' \<Longrightarrow> execution_step e e'"
| planning: "start_planning e = Inr e' \<Longrightarrow> execution_step e e'"
| building: "start_building e = Inr e' \<Longrightarrow> execution_step e e'"
| verification: "start_verification e = Inr e' \<Longrightarrow> execution_step e e'"
| repair: "request_repair e = Inr e' \<Longrightarrow> execution_step e e'"
| start_delivery: "start_delivery e = Inr e' \<Longrightarrow> execution_step e e'"
| deliver: "deliver reference e = Inr e' \<Longrightarrow> execution_step e e'"
| usage: "record_usage a t d c e = Inr e' \<Longrightarrow> 0 \<le> a \<Longrightarrow> 0 \<le> t \<Longrightarrow> 0 \<le> d \<Longrightarrow> 0 \<le> c \<Longrightarrow>
    execution_step e e'"
| request_cancellation: "request_cancellation e = Inr e' \<Longrightarrow> execution_step e e'"
| cancel: "execution_cancel e = Inr e' \<Longrightarrow> execution_step e e'"
| fail: "execution_fail e = Inr e' \<Longrightarrow> execution_step e e'"

definition new_execution :: "execution \<Rightarrow> bool" where
  "new_execution e \<longleftrightarrow>
     ex_status e = ES_AWAITING_APPROVAL \<and> ex_approval_status e = AP_PENDING \<and>
     ex_attempt_count e = 0 \<and> ex_turn_count e = 0 \<and> ex_duration_seconds e = 0 \<and>
     ex_cost_minor e = 0 \<and> ex_version e = 1 \<and> \<not> ex_cancellation_requested e \<and>
     ex_result_reference e = None"

text \<open>
  The methods of an execution as data, and the edges of the status graph the README draws for
  each of them. The others keep the status (\<open>record_usage\<close>, \<open>request_cancellation\<close>) or end the
  execution (\<open>cancel\<close>, \<open>fail\<close>).
\<close>

datatype execution_method =
    Approve | Start_provisioning | Start_planning | Start_building | Start_verification
  | Request_repair | Start_delivery | Deliver external_reference
  | Record_usage int int int int | Request_cancellation | Cancel | Fail

fun call_method :: "execution_method \<Rightarrow> execution \<Rightarrow> delivery_error + execution" where
  "call_method Approve e = execution_approve e"
| "call_method Start_provisioning e = start_provisioning e"
| "call_method Start_planning e = start_planning e"
| "call_method Start_building e = start_building e"
| "call_method Start_verification e = start_verification e"
| "call_method Request_repair e = request_repair e"
| "call_method Start_delivery e = start_delivery e"
| "call_method (Deliver reference) e = deliver reference e"
| "call_method (Record_usage a t d c) e = record_usage a t d c e"
| "call_method Request_cancellation e = request_cancellation e"
| "call_method Cancel e = execution_cancel e"
| "call_method Fail e = execution_fail e"

fun documented_edges :: "execution_method \<Rightarrow> (execution_status \<times> execution_status) list" where
  "documented_edges Approve = [(ES_AWAITING_APPROVAL, ES_QUEUED)]"
| "documented_edges Start_provisioning = [(ES_QUEUED, ES_PROVISIONING)]"
| "documented_edges Start_planning = [(ES_PROVISIONING, ES_PLANNING)]"
| "documented_edges Start_building = [(ES_PLANNING, ES_BUILDING), (ES_REPAIRING, ES_BUILDING)]"
| "documented_edges Start_verification = [(ES_BUILDING, ES_VERIFYING)]"
| "documented_edges Request_repair = [(ES_VERIFYING, ES_REPAIRING), (ES_VERIFYING, ES_AWAITING_HUMAN)]"
| "documented_edges Start_delivery = [(ES_VERIFYING, ES_DELIVERING)]"
| "documented_edges (Deliver reference) = [(ES_DELIVERING, ES_DELIVERED)]"
| "documented_edges m = []"

lemma execution_step_call: "execution_step e e' \<Longrightarrow> \<exists>m. call_method m e = Inr e'"
  by (erule execution_step.cases) (metis call_method.simps)+

text \<open>What every reachable execution satisfies.\<close>

definition execution_inv :: "execution \<Rightarrow> bool" where
  "execution_inv e \<longleftrightarrow>
     0 \<le> ex_attempt_count e \<and> 0 \<le> ex_turn_count e \<and> 0 \<le> ex_duration_seconds e \<and>
     0 \<le> ex_cost_minor e \<and> 1 \<le> ex_version e \<and>
     (ex_status e = ES_AWAITING_APPROVAL \<longrightarrow> ex_approval_status e = AP_PENDING) \<and>
     (ex_approval_status e = AP_PENDING \<longrightarrow>
        ex_status e \<in> {ES_AWAITING_APPROVAL, ES_CANCELLED, ES_FAILED}) \<and>
     (ex_result_reference e \<noteq> None \<longrightarrow> ex_status e \<in> {ES_DELIVERED, ES_CANCELLED}) \<and>
     (ex_status e = ES_DELIVERED \<longrightarrow> ex_result_reference e \<noteq> None) \<and>
     (ex_status e = ES_CANCELLED \<longrightarrow> ex_cancellation_requested e)"

lemma execution_inv_step: "execution_step e e' \<Longrightarrow> execution_inv e \<Longrightarrow> execution_inv e'"
  by (induction rule: execution_step.induct) (auto simp: dl_transitions execution_inv_def)

lemma within_budget_step: "execution_step e e' \<Longrightarrow> within_budget e \<Longrightarrow> within_budget e'"
  by (induction rule: execution_step.induct) (auto simp: dl_transitions within_budget_def)

lemma new_execution_inv: "new_execution e \<Longrightarrow> execution_inv e"
  by (simp add: new_execution_def execution_inv_def)

text \<open>The part of an execution no method changes.\<close>

definition static :: "execution \<Rightarrow> execution" where
  "static e =
     e\<lparr>ex_approval_status := AP_PENDING, ex_status := ES_AWAITING_APPROVAL, ex_attempt_count := 0,
       ex_turn_count := 0, ex_duration_seconds := 0, ex_cost_minor := 0, ex_version := 0,
       ex_cancellation_requested := False, ex_result_reference := None\<rparr>"

lemma static_step: "execution_step e e' \<Longrightarrow> static e' = static e"
  by (induction rule: execution_step.induct) (auto simp: dl_transitions static_def)

lemma staticD:
  assumes "static e' = static e"
  shows "ex_id e' = ex_id e" "ex_organization_id e' = ex_organization_id e"
    "ex_project_id e' = ex_project_id e" "ex_work_item_id e' = ex_work_item_id e"
    "ex_title e' = ex_title e" "ex_description e' = ex_description e"
    "ex_acceptance_criteria e' = ex_acceptance_criteria e"
    "ex_repository_connection_id e' = ex_repository_connection_id e"
    "ex_provider_configuration_id e' = ex_provider_configuration_id e"
    "ex_runner_pool_id e' = ex_runner_pool_id e" "ex_budget e' = ex_budget e"
  using assms by (cases e; cases e'; simp add: static_def)+


definition sample_execution :: execution where
  "sample_execution =
     \<lparr>ex_id = 100, ex_organization_id = 1, ex_project_id = 10, ex_work_item_id = 41,
      ex_title = ''Cart'', ex_description = ''No cart'', ex_acceptance_criteria = [''cart''],
      ex_repository_connection_id = 60, ex_provider_configuration_id = 61, ex_runner_pool_id = 62,
      ex_budget = \<lparr>eb_max_duration_seconds = 3600, eb_max_attempts = 3, eb_max_turns = 20,
                   eb_max_cost_minor = 1000, eb_currency = ''USD''\<rparr>,
      ex_approval_status = AP_PENDING, ex_status = ES_AWAITING_APPROVAL, ex_attempt_count = 0,
      ex_turn_count = 0, ex_duration_seconds = 0, ex_cost_minor = 0, ex_version = 1,
      ex_cancellation_requested = False, ex_result_reference = None\<rparr>"


text \<open>What holds of every execution on its way from a new one: it never exceeds its budget
  in attempts, turns, seconds or cost (each usage report that would is refused and changes
  nothing), it leaves \<open>AWAITING_APPROVAL\<close> other than to its end only when it was approved, it
  is delivered only with a result reference, and cancelled only when this was requested.\<close>

theorem execution_stays_within_budget:
  assumes "execution_step\<^sup>*\<^sup>* e0 e" and "new_execution e0" and "within_budget e0"
  shows "within_budget e \<and> execution_inv e"
  using assms(1)
proof (induction rule: rtranclp_induct)
  case base
  then show ?case using assms(2,3) new_execution_inv by blast
next
  case (step e e')
  then show ?case using execution_inv_step within_budget_step by blast
qed

theorem execution_stays_within_budget_witness:
  "within_budget (sample_execution\<lparr>ex_approval_status := AP_APPROVED, ex_status := ES_QUEUED,
     ex_version := 2\<rparr>)"
proof -
  have "execution_step sample_execution (sample_execution\<lparr>ex_approval_status := AP_APPROVED,
      ex_status := ES_QUEUED, ex_version := 2\<rparr>)"
    by (rule execution_step.approve) (simp add: execution_approve_def sample_execution_def)
  from execution_stays_within_budget [OF r_into_rtranclp [of execution_step, OF this]]
  show ?thesis
    by (simp add: new_execution_def within_budget_def ensure_within_def sample_execution_def)
qed

text \<open>\<open>cancel\<close> looks only at the flag: an execution whose cancellation was requested while it
  was delivering is delivered, with its pull request, and can then still become \<open>CANCELLED\<close>,
  although \<open>request_cancellation\<close> refuses a delivered execution.\<close>

theorem delivered_execution_can_be_cancelled:
  "\<exists>e e' e''. request_cancellation e = Inr e' \<and> ex_status e' = ES_DELIVERING \<and>
     deliver reference e' = Inr e'' \<and> ex_status e'' = ES_DELIVERED \<and>
     (\<exists>err. request_cancellation e'' = Inl err) \<and>
     (\<exists>e3. execution_cancel e'' = Inr e3 \<and> ex_status e3 = ES_CANCELLED \<and>
           ex_result_reference e3 = Some reference)"
  by (rule exI [of _ "sample_execution\<lparr>ex_status := ES_DELIVERING\<rparr>"])
     (simp add: request_cancellation_def deliver_def execution_cancel_def invalid_def
       sample_execution_def)

end
