(* ===== verification/DlService.thy ===== *)
theory DlService
  imports DlDomain
begin

text \<open>
  \<open>application/ports.py\<close> and \<open>application/service.py\<close> of the delivery service: the
  repository and the workflow gateway as records of operations, and the use cases of
  \<open>DeliveryService\<close> over any such pair. The values of \<open>uuid4()\<close>, \<open>secrets.token_urlsafe\<close>
  and the clock are arguments in the order they are drawn; \<open>hash\<close> is the hexadecimal SHA-256
  digest, a parameter.
\<close>

datatype dl_error =
    DeliveryE delivery_error
  | DlValueE string
  | DlLookupE string
  | DlRuntimeE string
  | DlKeyE
  | DlTypeE
  | DlIntegrityE
  | DlHttpE nat string

definition deliveryS :: "delivery_error + 'a \<Rightarrow> ('s, dl_error, 'a) oper" where
  "deliveryS r = liftS (map_sum DeliveryE id r)"

lemma deliveryS_iff:
  "deliveryS r s = (Inr a, s') \<longleftrightarrow> r = Inr a \<and> s' = s"
  "deliveryS r s = (Inl e, s') \<longleftrightarrow> (\<exists>d. r = Inl d \<and> e = DeliveryE d) \<and> s' = s"
  by (cases r; auto simp: deliveryS_def liftS_def)+

definition configurationS :: "configuration_error + 'a \<Rightarrow> ('s, dl_error, 'a) oper" where
  "configurationS r =
     (case r of
        Inl (ConfigurationValueError m) \<Rightarrow> raiseS (DlValueE m)
      | Inl (ConfigurationDelivery d) \<Rightarrow> raiseS (DeliveryE d)
      | Inr a \<Rightarrow> returnS a)"

lemma configurationS_Inr: "configurationS r s = (Inr a, s') \<longleftrightarrow> r = Inr a \<and> s' = s"
  by (auto simp: configurationS_def oper_defs split: sum.splits configuration_error.splits)

record enrollment_token =
  et_id :: uuid
  et_organization_id :: uuid
  et_pool_id :: uuid
  et_token_hash :: string
  et_expires_at :: time
  et_used_at :: "time option"

record dl_audit =
  da_organization_id :: uuid
  da_actor_subject :: string
  da_action :: string
  da_target_id :: uuid
  da_details :: "(string \<times> json) list"

text \<open>
  The operations of \<open>DeliveryRepository\<close>. \<open>consume_enrollment_token\<close> reads the clock once
  more for \<open>used_at\<close>: its first argument.
\<close>

record 's dl_repository =
  dr_add_provider_configuration :: "provider_configuration \<Rightarrow> ('s, dl_error, unit) oper"
  dr_get_provider_configuration :: "uuid \<Rightarrow> uuid \<Rightarrow> ('s, dl_error, provider_configuration option) oper"
  dr_add_enrollment_token :: "enrollment_token \<Rightarrow> ('s, dl_error, unit) oper"
  dr_consume_enrollment_token ::
    "time \<Rightarrow> string \<Rightarrow> time \<Rightarrow> ('s, dl_error, enrollment_token option) oper"
  dr_add_runner :: "runner \<Rightarrow> ('s, dl_error, unit) oper"
  dr_get_runner :: "uuid \<Rightarrow> uuid \<Rightarrow> ('s, dl_error, runner option) oper"
  dr_add_execution :: "execution \<Rightarrow> ('s, dl_error, bool) oper"
  dr_get_execution :: "uuid \<Rightarrow> uuid \<Rightarrow> ('s, dl_error, execution option) oper"
  dr_get_execution_by_work_item :: "uuid \<Rightarrow> uuid \<Rightarrow> ('s, dl_error, execution option) oper"
  dr_update_execution :: "execution \<Rightarrow> ('s, dl_error, unit) oper"
  dr_append_event :: "execution_event \<Rightarrow> ('s, dl_error, unit) oper"
  dr_list_events :: "uuid \<Rightarrow> uuid \<Rightarrow> int \<Rightarrow> ('s, dl_error, execution_event list) oper"
  dr_next_event_sequence :: "uuid \<Rightarrow> ('s, dl_error, int) oper"
  dr_record_audit :: "dl_audit \<Rightarrow> ('s, dl_error, unit) oper"

record 's workflow_gateway =
  wg_start :: "execution \<Rightarrow> ('s, dl_error, unit) oper"
  wg_approve :: "uuid \<Rightarrow> string \<Rightarrow> ('s, dl_error, unit) oper"
  wg_cancel :: "uuid \<Rightarrow> string \<Rightarrow> ('s, dl_error, unit) oper"

definition dl_record_audit ::
  "'s dl_repository \<Rightarrow> uuid \<Rightarrow> string \<Rightarrow> string \<Rightarrow> uuid \<Rightarrow> (string \<times> json) list \<Rightarrow>
     ('s, dl_error, unit) oper" where
  "dl_record_audit R organization_id actor_subject action target_id details =
     dr_record_audit R \<lparr>da_organization_id = organization_id, da_actor_subject = actor_subject,
       da_action = action, da_target_id = target_id, da_details = details\<rparr>"

definition create_provider_configuration ::
  "'s dl_repository \<Rightarrow> uuid \<Rightarrow> uuid \<Rightarrow> string \<Rightarrow> string \<Rightarrow> string \<Rightarrow> string \<Rightarrow> string \<Rightarrow>
     authentication_mode \<Rightarrow> secret_reference option \<Rightarrow> bool \<Rightarrow>
     ('s, dl_error, provider_configuration) oper" where
  "create_provider_configuration R configuration_id organization_id actor_subject display_name
     provider runtime model mode secret is_development_substitute =
     bindS (configurationS (AgentProviderConfiguration
        \<lparr>pc_id = configuration_id, pc_organization_id = organization_id,
         pc_display_name = display_name, pc_provider = provider, pc_runtime = runtime,
         pc_model = model, pc_authentication_mode = mode, pc_secret_reference = secret,
         pc_enabled = True, pc_is_development_substitute = is_development_substitute\<rparr>))
     (\<lambda>configuration.
      seqS (dr_add_provider_configuration R configuration)
      (seqS (dl_record_audit R organization_id actor_subject ''provider_configuration.created''
               (pc_id configuration)
               [(''provider'', JStr provider), (''runtime'', JStr runtime), (''model'', JStr model),
                (''authentication_mode'', JStr (authentication_mode_value mode)),
                (''development_substitute'', JBool is_development_substitute)])
      (returnS configuration)))"

definition create_runner_enrollment ::
  "(string \<Rightarrow> string) \<Rightarrow> 's dl_repository \<Rightarrow> string \<Rightarrow> uuid \<Rightarrow> time \<Rightarrow> uuid \<Rightarrow> string \<Rightarrow> uuid \<Rightarrow>
     ('s, dl_error, string) oper" where
  "create_runner_enrollment hash R raw_token record_id now organization_id actor_subject pool_id =
     (let token = \<lparr>et_id = record_id, et_organization_id = organization_id, et_pool_id = pool_id,
                   et_token_hash = hash raw_token, et_expires_at = now + minutes 10,
                   et_used_at = None\<rparr> in
      seqS (dr_add_enrollment_token R token)
      (seqS (dl_record_audit R organization_id actor_subject ''runner.enrollment_created'' record_id
               [(''pool_id'', JStr (str_uuid pool_id)), (''expires_in_seconds'', JInt 600)])
      (returnS raw_token)))"

definition enroll_runner ::
  "(string \<Rightarrow> string) \<Rightarrow> 's dl_repository \<Rightarrow> time \<Rightarrow> time \<Rightarrow> string \<Rightarrow> uuid \<Rightarrow> time \<Rightarrow>
     string \<Rightarrow> string \<Rightarrow> string list \<Rightarrow> ('s, dl_error, runner \<times> string) oper" where
  "enroll_runner hash R now used_at raw_credential runner_id seen_at enrollment_token name capabilities =
     bindS (dr_consume_enrollment_token R used_at (hash enrollment_token) now) (\<lambda>found.
     bindS (requireS (DeliveryE (InvalidEnrollment
              ''enrollment token is invalid, expired, or already used'')) found) (\<lambda>token.
     let r = \<lparr>rn_id = runner_id, rn_organization_id = et_organization_id token,
              rn_pool_id = et_pool_id token, rn_name = name, rn_capabilities = capabilities,
              rn_credential_hash = hash raw_credential, rn_status = RN_ONLINE,
              rn_last_seen_at = seen_at\<rparr> in
     seqS (dr_add_runner R r)
     (seqS (dl_record_audit R (et_organization_id token)
              (''runner-enrollment:'' @ str_uuid (et_id token)) ''runner.enrolled'' runner_id
              [(''pool_id'', JStr (str_uuid (et_pool_id token))),
               (''capabilities'', JList (map JStr capabilities))])
     (returnS (r, raw_credential)))))"

definition dl_append_event ::
  "'s dl_repository \<Rightarrow> uuid \<Rightarrow> time \<Rightarrow> execution \<Rightarrow> execution_event_kind \<Rightarrow> string \<Rightarrow> string \<Rightarrow>
     (string \<times> json) list \<Rightarrow> ('s, dl_error, unit) oper" where
  "dl_append_event R event_id now e kind name message metadata =
     bindS (dr_next_event_sequence R (ex_id e)) (\<lambda>sequence.
     dr_append_event R
       \<lparr>ee_id = event_id, ee_execution_id = ex_id e, ee_organization_id = ex_organization_id e,
        ee_sequence = sequence, ee_kind = kind, ee_name = name, ee_message = message,
        ee_occurred_at = now, ee_metadata = metadata\<rparr>)"

definition required_execution ::
  "'s dl_repository \<Rightarrow> uuid \<Rightarrow> uuid \<Rightarrow> ('s, dl_error, execution) oper" where
  "required_execution R organization_id execution_id =
     bindS (dr_get_execution R organization_id execution_id)
       (requireS (DlLookupE ''execution not found''))"

definition accept_ready_work_item ::
  "'s dl_repository \<Rightarrow> 's workflow_gateway \<Rightarrow> uuid \<Rightarrow> uuid \<Rightarrow> time \<Rightarrow> uuid \<Rightarrow> uuid \<Rightarrow> uuid \<Rightarrow>
     string \<Rightarrow> string \<Rightarrow> string list \<Rightarrow> uuid \<Rightarrow> uuid \<Rightarrow> uuid \<Rightarrow> execution_budget \<Rightarrow> uuid \<Rightarrow>
     ('s, dl_error, execution) oper" where
  "accept_ready_work_item R W execution_id event_id now organization_id project_id work_item_id
     title description acceptance_criteria repository_connection_id provider_configuration_id
     runner_pool_id b correlation_id =
     bindS (dr_get_execution_by_work_item R organization_id work_item_id) (\<lambda>existing.
     case existing of
       Some e \<Rightarrow> returnS e
     | None \<Rightarrow>
         bindS (dr_get_provider_configuration R organization_id provider_configuration_id) (\<lambda>found.
         bindS (requireS (DlValueE ''provider configuration is not available to this organization'')
                  found) (\<lambda>_.
         let e = \<lparr>ex_id = execution_id, ex_organization_id = organization_id,
                  ex_project_id = project_id, ex_work_item_id = work_item_id, ex_title = title,
                  ex_description = description, ex_acceptance_criteria = acceptance_criteria,
                  ex_repository_connection_id = repository_connection_id,
                  ex_provider_configuration_id = provider_configuration_id,
                  ex_runner_pool_id = runner_pool_id, ex_budget = b,
                  ex_approval_status = AP_PENDING, ex_status = ES_AWAITING_APPROVAL,
                  ex_attempt_count = 0, ex_turn_count = 0, ex_duration_seconds = 0,
                  ex_cost_minor = 0, ex_version = 1, ex_cancellation_requested = False,
                  ex_result_reference = None\<rparr> in
         bindS (dr_add_execution R e) (\<lambda>added.
         if added then
           seqS (dl_append_event R event_id now e EK_APPROVAL ''execution.approval_required''
                   ''Execution is waiting for reviewer approval.''
                   [(''correlation_id'', JStr (str_uuid correlation_id))])
           (seqS (wg_start W e) (returnS e))
         else returnS e))))"

definition approve_execution ::
  "'s dl_repository \<Rightarrow> 's workflow_gateway \<Rightarrow> uuid \<Rightarrow> time \<Rightarrow> uuid \<Rightarrow> uuid \<Rightarrow> string \<Rightarrow>
     ('s, dl_error, execution) oper" where
  "approve_execution R W event_id now organization_id execution_id actor_subject =
     bindS (required_execution R organization_id execution_id) (\<lambda>found.
     bindS (deliveryS (execution_approve found)) (\<lambda>e.
     seqS (dr_update_execution R e)
     (seqS (dl_record_audit R organization_id actor_subject ''execution.approved'' (ex_id e)
              [(''version'', JInt (ex_version e))])
     (seqS (dl_append_event R event_id now e EK_APPROVAL ''execution.approved''
              ''Execution was approved and queued.'' [(''actor_subject'', JStr actor_subject)])
     (seqS (wg_approve W (ex_id e) actor_subject) (returnS e))))))"

definition cancel_execution ::
  "'s dl_repository \<Rightarrow> 's workflow_gateway \<Rightarrow> uuid \<Rightarrow> uuid \<Rightarrow> string \<Rightarrow>
     ('s, dl_error, execution) oper" where
  "cancel_execution R W organization_id execution_id actor_subject =
     bindS (required_execution R organization_id execution_id) (\<lambda>found.
     bindS (deliveryS (request_cancellation found)) (\<lambda>e.
     seqS (dr_update_execution R e)
     (seqS (dl_record_audit R organization_id actor_subject ''execution.cancellation_requested''
              (ex_id e) [(''version'', JInt (ex_version e))])
     (seqS (wg_cancel W (ex_id e) actor_subject) (returnS e)))))"

lemmas dl_service_defs =
  create_provider_configuration_def create_runner_enrollment_def enroll_runner_def
  accept_ready_work_item_def approve_execution_def cancel_execution_def

end
