(* ===== verification/DlPostgres.thy ===== *)
theory DlPostgres
  imports DlService TenantStore
begin

text \<open>
  \<open>adapters/postgres.py\<close> of the delivery service: the tables as dictionaries by primary key,
  and \<open>PostgresDeliveryRepository\<close> over them.

  The state is what one transaction sees. Row level security (migrations 0001 and 0002) shows
  a tenant table's rows only where their organization is the one \<open>set_organization\<close> selected
  in the transaction: every read below goes through \<open>visible\<close> or \<open>row_of\<close>; the two
  routing tables and the workflow commands have no policy. Adding a row under a primary or
  unique key in use raises the database's integrity error. Column widths are not modelled,
  and a row that the adapter reads without an order comes in the order of insertion.
\<close>

section \<open>Rows\<close>

record membership_row =
  mb_organization_id :: uuid
  mb_subject :: string
  mb_role :: string
  mb_active :: bool

record provider_row =
  vw_id :: uuid
  vw_organization_id :: uuid
  vw_display_name :: string
  vw_provider :: string
  vw_runtime :: string
  vw_model :: string
  vw_authentication_mode :: string
  vw_secret_reference :: "json option"
  vw_enabled :: bool
  vw_is_development_substitute :: bool

record pool_row =
  pw_id :: uuid
  pw_organization_id :: uuid
  pw_name :: string
  pw_runner_type :: string

record runner_row =
  rw_id :: uuid
  rw_organization_id :: uuid
  rw_pool_id :: uuid
  rw_name :: string
  rw_capabilities :: "string list"
  rw_credential_hash :: string
  rw_status :: string
  rw_last_seen_at :: time

record execution_row =
  xw_id :: uuid
  xw_organization_id :: uuid
  xw_project_id :: uuid
  xw_work_item_id :: uuid
  xw_title :: string
  xw_description :: string
  xw_acceptance_criteria :: "string list"
  xw_repository_connection_id :: uuid
  xw_provider_configuration_id :: uuid
  xw_runner_pool_id :: uuid
  xw_budget :: "(string \<times> json) list"
  xw_approval_status :: string
  xw_status :: string
  xw_attempt_count :: int
  xw_turn_count :: int
  xw_duration_seconds :: int
  xw_cost_minor :: int
  xw_version :: int
  xw_cancellation_requested :: bool
  xw_result_reference :: "json option"

record event_row =
  ew_id :: uuid
  ew_execution_id :: uuid
  ew_organization_id :: uuid
  ew_sequence :: int
  ew_kind :: string
  ew_name :: string
  ew_message :: string
  ew_occurred_at :: time
  ew_event_metadata :: "(string \<times> json) list"

record job_row =
  jw_id :: uuid
  jw_organization_id :: uuid
  jw_execution_id :: uuid
  jw_pool_id :: uuid
  jw_status :: string
  jw_payload :: "(string \<times> json) list"
  jw_result :: "(string \<times> json) list option"
  jw_leased_by_runner_id :: "uuid option"
  jw_leased_at :: "time option"
  jw_completed_at :: "time option"

record verification_row =
  nw_id :: uuid
  nw_organization_id :: uuid
  nw_provider_configuration_id :: uuid
  nw_pool_id :: uuid
  nw_idempotency_key :: string
  nw_status :: string
  nw_result :: "(string \<times> json) list option"
  nw_leased_by_runner_id :: "uuid option"
  nw_leased_at :: "time option"
  nw_created_at :: time
  nw_completed_at :: "time option"

record inbox_row =
  nb_event_id :: uuid
  nb_organization_id :: uuid
  nb_event_type :: string

record command_row =
  wc_organization_id :: uuid
  wc_execution_id :: uuid
  wc_command :: string
  wc_actor_subject :: "string option"
  wc_dispatched_at :: "time option"

record dl_db =
  pd_organization :: "uuid option"
  pd_memberships :: "(uuid \<times> string, membership_row) dict"
  pd_providers :: "(uuid, provider_row) dict"
  pd_pools :: "(uuid, pool_row) dict"
  pd_tokens :: "(uuid, enrollment_token) dict"
  pd_token_routes :: "(string, uuid) dict"
  pd_runners :: "(uuid, runner_row) dict"
  pd_runner_routes :: "(string, uuid \<times> uuid) dict"
  pd_executions :: "(uuid, execution_row) dict"
  pd_events :: "(uuid, event_row) dict"
  pd_jobs :: "(uuid, job_row) dict"
  pd_verifications :: "(uuid, verification_row) dict"
  pd_audits :: "dl_audit list"
  pd_inbox :: "(uuid, inbox_row) dict"
  pd_commands :: "command_row list"

definition dl_db_init :: dl_db where
  "dl_db_init =
     \<lparr>pd_organization = None, pd_memberships = [], pd_providers = [], pd_pools = [],
      pd_tokens = [], pd_token_routes = [], pd_runners = [], pd_runner_routes = [],
      pd_executions = [], pd_events = [], pd_jobs = [], pd_verifications = [],
      pd_audits = [], pd_inbox = [], pd_commands = []\<rparr>"

section \<open>Queries under row level security\<close>

abbreviation insertS :: "('s \<Rightarrow> bool) \<Rightarrow> ('s \<Rightarrow> 's) \<Rightarrow> ('s, dl_error, unit) oper" where
  "insertS \<equiv> insert_orS DlIntegrityE"

definition pg_set_organization :: "uuid \<Rightarrow> (dl_db, dl_error, unit) oper" where
  "pg_set_organization organization_id = writeS (\<lambda>s. s\<lparr>pd_organization := Some organization_id\<rparr>)"

section \<open>Memberships and the event inbox\<close>

definition pg_role_for :: "uuid \<Rightarrow> string \<Rightarrow> (dl_db, dl_error, string option) oper" where
  "pg_role_for organization_id subject =
     seqS (pg_set_organization organization_id)
     (readS (\<lambda>s.
        case find (\<lambda>r. mb_organization_id r = organization_id \<and> mb_subject r = subject \<and> mb_active r)
               (visible mb_organization_id (pd_organization s) (pd_memberships s)) of
          None \<Rightarrow> None
        | Some r \<Rightarrow> Some (mb_role r)))"

definition pg_upsert_membership ::
  "uuid \<Rightarrow> string \<Rightarrow> string \<Rightarrow> bool \<Rightarrow> (dl_db, dl_error, unit) oper" where
  "pg_upsert_membership organization_id subject r active =
     seqS (pg_set_organization organization_id)
     (bindS (readS (\<lambda>s. row_of mb_organization_id (pd_organization s) (pd_memberships s)
                (organization_id, subject))) (\<lambda>found.
      case found of
        Some row \<Rightarrow> writeS (\<lambda>s. s\<lparr>pd_memberships := dset (organization_id, subject)
                       (row\<lparr>mb_role := r, mb_active := active\<rparr>) (pd_memberships s)\<rparr>)
      | None \<Rightarrow> insertS (\<lambda>s. dget (pd_memberships s) (organization_id, subject) \<noteq> None)
          (\<lambda>s. s\<lparr>pd_memberships := dset (organization_id, subject)
             \<lparr>mb_organization_id = organization_id, mb_subject = subject, mb_role = r,
              mb_active = active\<rparr> (pd_memberships s)\<rparr>)))"

definition pg_record_inbox :: "uuid \<Rightarrow> uuid \<Rightarrow> string \<Rightarrow> (dl_db, dl_error, bool) oper" where
  "pg_record_inbox event_id organization_id event_type =
     seqS (pg_set_organization organization_id)
     (bindS (readS (\<lambda>s. row_of nb_organization_id (pd_organization s) (pd_inbox s) event_id)) (\<lambda>found.
      if found \<noteq> None then returnS False
      else seqS (insertS (\<lambda>s. dget (pd_inbox s) event_id \<noteq> None)
             (\<lambda>s. s\<lparr>pd_inbox := dset event_id \<lparr>nb_event_id = event_id,
                  nb_organization_id = organization_id, nb_event_type = event_type\<rparr> (pd_inbox s)\<rparr>))
           (returnS True)))"

section \<open>Provider configurations and pools\<close>

definition provider_row_of :: "provider_configuration \<Rightarrow> provider_row" where
  "provider_row_of c =
     \<lparr>vw_id = pc_id c, vw_organization_id = pc_organization_id c,
      vw_display_name = pc_display_name c, vw_provider = pc_provider c,
      vw_runtime = pc_runtime c, vw_model = pc_model c,
      vw_authentication_mode = authentication_mode_value (pc_authentication_mode c),
      vw_secret_reference = map_option dump_secret_reference (pc_secret_reference c),
      vw_enabled = pc_enabled c, vw_is_development_substitute = pc_is_development_substitute c\<rparr>"

definition provider_of_row :: "provider_row \<Rightarrow> dl_error + provider_configuration" where
  "provider_of_row row =
     (case AuthenticationMode (vw_authentication_mode row) of
        None \<Rightarrow> Inl (DlValueE ''not a valid AuthenticationMode'')
      | Some mode \<Rightarrow>
          (case (case vw_secret_reference row of
                   None \<Rightarrow> Inr None
                 | Some j \<Rightarrow> if truthy j then map_sum DlValueE Some (secret_reference_of_json j)
                            else Inr None) of
             Inl e \<Rightarrow> Inl e
           | Inr secret \<Rightarrow>
               (case AgentProviderConfiguration
                   \<lparr>pc_id = vw_id row, pc_organization_id = vw_organization_id row,
                    pc_display_name = vw_display_name row, pc_provider = vw_provider row,
                    pc_runtime = vw_runtime row, pc_model = vw_model row,
                    pc_authentication_mode = mode, pc_secret_reference = secret,
                    pc_enabled = vw_enabled row,
                    pc_is_development_substitute = vw_is_development_substitute row\<rparr> of
                  Inl (ConfigurationValueError m) \<Rightarrow> Inl (DlValueE m)
                | Inl (ConfigurationDelivery d) \<Rightarrow> Inl (DeliveryE d)
                | Inr c \<Rightarrow> Inr c)))"

definition pg_add_provider_configuration ::
  "provider_configuration \<Rightarrow> (dl_db, dl_error, unit) oper" where
  "pg_add_provider_configuration c =
     seqS (pg_set_organization (pc_organization_id c))
     (insertS (\<lambda>s. dget (pd_providers s) (pc_id c) \<noteq> None)
        (\<lambda>s. s\<lparr>pd_providers := dset (pc_id c) (provider_row_of c) (pd_providers s)\<rparr>))"

definition pg_get_provider_configuration ::
  "uuid \<Rightarrow> uuid \<Rightarrow> (dl_db, dl_error, provider_configuration option) oper" where
  "pg_get_provider_configuration organization_id configuration_id =
     seqS (pg_set_organization organization_id)
     (bindS (readS (\<lambda>s. row_of vw_organization_id (pd_organization s) (pd_providers s) configuration_id))
      (\<lambda>found. case found of
          None \<Rightarrow> returnS None
        | Some row \<Rightarrow> liftS (map_sum id Some (provider_of_row row))))"

fun pg_collect_providers ::
  "uuid \<Rightarrow> provider_row list \<Rightarrow> (dl_db, dl_error, provider_configuration list) oper" where
  "pg_collect_providers organization_id [] = returnS []"
| "pg_collect_providers organization_id (row # rows) =
     bindS (pg_get_provider_configuration organization_id (vw_id row)) (\<lambda>item.
     bindS (pg_collect_providers organization_id rows) (\<lambda>rest.
     returnS (case item of None \<Rightarrow> rest | Some c \<Rightarrow> c # rest)))"

definition pg_list_provider_configurations ::
  "uuid \<Rightarrow> (dl_db, dl_error, provider_configuration list) oper" where
  "pg_list_provider_configurations organization_id =
     seqS (pg_set_organization organization_id)
     (bindS (readS (\<lambda>s. visible vw_organization_id (pd_organization s) (pd_providers s)))
       (pg_collect_providers organization_id))"

definition pg_add_runner_pool :: "uuid \<Rightarrow> uuid \<Rightarrow> string \<Rightarrow> string \<Rightarrow> (dl_db, dl_error, unit) oper" where
  "pg_add_runner_pool organization_id pool_id name runner_type =
     seqS (pg_set_organization organization_id)
     (insertS (\<lambda>s. dget (pd_pools s) pool_id \<noteq> None)
        (\<lambda>s. s\<lparr>pd_pools := dset pool_id \<lparr>pw_id = pool_id, pw_organization_id = organization_id,
             pw_name = name, pw_runner_type = runner_type\<rparr> (pd_pools s)\<rparr>))"

record pool_summary =
  ps_id :: string
  ps_name :: string
  ps_runner_type :: string
  ps_online_runner_count :: nat
  ps_capabilities :: "string list"

definition pg_list_runner_pools :: "time \<Rightarrow> uuid \<Rightarrow> (dl_db, dl_error, pool_summary list) oper" where
  "pg_list_runner_pools now organization_id =
     seqS (pg_set_organization organization_id)
     (readS (\<lambda>s.
        map (\<lambda>row.
          let runners = filter (\<lambda>r. rw_pool_id r = pw_id row)
                          (visible rw_organization_id (pd_organization s) (pd_runners s));
              active = filter (\<lambda>r. rw_status r = ''ONLINE'' \<and> rw_last_seen_at r \<ge> now - seconds 60)
                         runners in
          \<lparr>ps_id = str_uuid (pw_id row), ps_name = pw_name row, ps_runner_type = pw_runner_type row,
           ps_online_runner_count = length active,
           ps_capabilities = sort (remdups (concat (map rw_capabilities active)))\<rparr>)
        (visible pw_organization_id (pd_organization s) (pd_pools s))))"

section \<open>Enrollment and runners\<close>

definition pg_add_enrollment_token :: "enrollment_token \<Rightarrow> (dl_db, dl_error, unit) oper" where
  "pg_add_enrollment_token t =
     seqS (pg_set_organization (et_organization_id t))
     (seqS (insertS (\<lambda>s. dget (pd_tokens s) (et_id t) \<noteq> None \<or>
              (\<exists>t' \<in> set (dvals (pd_tokens s)). et_token_hash t' = et_token_hash t))
        (\<lambda>s. s\<lparr>pd_tokens := dset (et_id t) t (pd_tokens s)\<rparr>))
     (insertS (\<lambda>s. dget (pd_token_routes s) (et_token_hash t) \<noteq> None)
        (\<lambda>s. s\<lparr>pd_token_routes := dset (et_token_hash t) (et_organization_id t) (pd_token_routes s)\<rparr>)))"

definition pg_consume_enrollment_token ::
  "time \<Rightarrow> string \<Rightarrow> time \<Rightarrow> (dl_db, dl_error, enrollment_token option) oper" where
  "pg_consume_enrollment_token used_at token_hash now =
     bindS (readS (\<lambda>s. dget (pd_token_routes s) token_hash)) (\<lambda>route.
     case route of
       None \<Rightarrow> returnS None
     | Some organization_id \<Rightarrow>
         seqS (pg_set_organization organization_id)
         (bindS (readS (\<lambda>s. find (\<lambda>t. et_token_hash t = token_hash)
                   (visible et_organization_id (pd_organization s) (pd_tokens s)))) (\<lambda>found.
          case found of
            None \<Rightarrow> returnS None
          | Some row \<Rightarrow>
              if et_used_at row \<noteq> None \<or> et_expires_at row \<le> now then returnS None
              else seqS (writeS (\<lambda>s. s\<lparr>pd_tokens :=
                     dset (et_id row) (row\<lparr>et_used_at := Some used_at\<rparr>) (pd_tokens s)\<rparr>))
                   (returnS (Some row)))))"

definition runner_row_of :: "runner \<Rightarrow> runner_row" where
  "runner_row_of r =
     \<lparr>rw_id = rn_id r, rw_organization_id = rn_organization_id r, rw_pool_id = rn_pool_id r,
      rw_name = rn_name r, rw_capabilities = rn_capabilities r,
      rw_credential_hash = rn_credential_hash r, rw_status = runner_status_value (rn_status r),
      rw_last_seen_at = rn_last_seen_at r\<rparr>"

definition runner_of_row :: "runner_row \<Rightarrow> dl_error + runner" where
  "runner_of_row row =
     (case RunnerStatus (rw_status row) of
        None \<Rightarrow> Inl (DlValueE ''not a valid RunnerStatus'')
      | Some status \<Rightarrow> Inr
          \<lparr>rn_id = rw_id row, rn_organization_id = rw_organization_id row,
           rn_pool_id = rw_pool_id row, rn_name = rw_name row, rn_capabilities = rw_capabilities row,
           rn_credential_hash = rw_credential_hash row, rn_status = status,
           rn_last_seen_at = rw_last_seen_at row\<rparr>)"

definition pg_add_runner :: "runner \<Rightarrow> (dl_db, dl_error, unit) oper" where
  "pg_add_runner r =
     seqS (pg_set_organization (rn_organization_id r))
     (seqS (insertS (\<lambda>s. dget (pd_runners s) (rn_id r) \<noteq> None)
        (\<lambda>s. s\<lparr>pd_runners := dset (rn_id r) (runner_row_of r) (pd_runners s)\<rparr>))
     (insertS (\<lambda>s. dget (pd_runner_routes s) (rn_credential_hash r) \<noteq> None)
        (\<lambda>s. s\<lparr>pd_runner_routes := dset (rn_credential_hash r) (rn_organization_id r, rn_id r)
             (pd_runner_routes s)\<rparr>)))"

definition pg_get_runner :: "uuid \<Rightarrow> uuid \<Rightarrow> (dl_db, dl_error, runner option) oper" where
  "pg_get_runner organization_id runner_id =
     seqS (pg_set_organization organization_id)
     (bindS (readS (\<lambda>s. row_of rw_organization_id (pd_organization s) (pd_runners s) runner_id))
      (\<lambda>found. case found of
          None \<Rightarrow> returnS None
        | Some row \<Rightarrow> liftS (map_sum id Some (runner_of_row row))))"

definition pg_authenticate_runner ::
  "(string \<Rightarrow> string) \<Rightarrow> time \<Rightarrow> uuid \<Rightarrow> string \<Rightarrow> (dl_db, dl_error, runner option) oper" where
  "pg_authenticate_runner hash now runner_id credential =
     (let credential_hash = hash credential in
      bindS (readS (\<lambda>s. dget (pd_runner_routes s) credential_hash)) (\<lambda>route.
      case route of
        None \<Rightarrow> returnS None
      | Some (route_organization, route_runner) \<Rightarrow>
          if route_runner \<noteq> runner_id then returnS None
          else bindS (pg_get_runner route_organization runner_id) (\<lambda>found.
            case found of
              None \<Rightarrow> returnS None
            | Some r \<Rightarrow>
                if rn_credential_hash r \<noteq> credential_hash then returnS None
                else bindS (readS (\<lambda>s. row_of rw_organization_id (pd_organization s) (pd_runners s)
                              runner_id)) (\<lambda>row.
                  seqS (case row of
                      None \<Rightarrow> returnS ()
                    | Some w \<Rightarrow> writeS (\<lambda>s. s\<lparr>pd_runners := dset runner_id
                        (w\<lparr>rw_status := if rw_status w \<noteq> ''REVOKED'' then ''ONLINE'' else rw_status w,
                           rw_last_seen_at := now\<rparr>) (pd_runners s)\<rparr>))
                  (returnS (Some r))))))"

section \<open>Executions\<close>

definition execution_row_of :: "execution \<Rightarrow> execution_row" where
  "execution_row_of e =
     \<lparr>xw_id = ex_id e, xw_organization_id = ex_organization_id e, xw_project_id = ex_project_id e,
      xw_work_item_id = ex_work_item_id e, xw_title = ex_title e,
      xw_description = ex_description e, xw_acceptance_criteria = ex_acceptance_criteria e,
      xw_repository_connection_id = ex_repository_connection_id e,
      xw_provider_configuration_id = ex_provider_configuration_id e,
      xw_runner_pool_id = ex_runner_pool_id e,
      xw_budget =
        [(''max_duration_seconds'', JInt (eb_max_duration_seconds (ex_budget e))),
         (''max_attempts'', JInt (eb_max_attempts (ex_budget e))),
         (''max_turns'', JInt (eb_max_turns (ex_budget e))),
         (''max_cost_minor'', JInt (eb_max_cost_minor (ex_budget e))),
         (''currency'', JStr (eb_currency (ex_budget e)))],
      xw_approval_status = approval_status_value (ex_approval_status e),
      xw_status = execution_status_value (ex_status e),
      xw_attempt_count = ex_attempt_count e, xw_turn_count = ex_turn_count e,
      xw_duration_seconds = ex_duration_seconds e, xw_cost_minor = ex_cost_minor e,
      xw_version = ex_version e, xw_cancellation_requested = ex_cancellation_requested e,
      xw_result_reference = map_option dump_external_reference (ex_result_reference e)\<rparr>"

text \<open>
  Reading a budget: \<open>int(budget[key])\<close> and \<open>str(budget["currency"])\<close>; a missing key and a value
  that is no number raise. The columns hold what \<open>execution_row_of\<close> wrote.
\<close>

definition budget_int :: "(string \<times> json) list \<Rightarrow> string \<Rightarrow> dl_error + int" where
  "budget_int kvs k =
     (case map_of kvs k of
        None \<Rightarrow> Inl DlKeyE
      | Some j \<Rightarrow> (case py_int j of None \<Rightarrow> Inl (DlValueE ''invalid literal for int()'') | Some i \<Rightarrow> Inr i))"

definition budget_of_json :: "(json \<Rightarrow> string) \<Rightarrow> (string \<times> json) list \<Rightarrow> dl_error + execution_budget" where
  "budget_of_json rp kvs =
     (case budget_int kvs ''max_duration_seconds'' of Inl e \<Rightarrow> Inl e | Inr d \<Rightarrow>
     (case budget_int kvs ''max_attempts'' of Inl e \<Rightarrow> Inl e | Inr a \<Rightarrow>
     (case budget_int kvs ''max_turns'' of Inl e \<Rightarrow> Inl e | Inr t \<Rightarrow>
     (case budget_int kvs ''max_cost_minor'' of Inl e \<Rightarrow> Inl e | Inr c \<Rightarrow>
     (case map_of kvs ''currency'' of None \<Rightarrow> Inl DlKeyE | Some cur \<Rightarrow>
        Inr \<lparr>eb_max_duration_seconds = d, eb_max_attempts = a, eb_max_turns = t,
             eb_max_cost_minor = c, eb_currency = py_str rp cur\<rparr>)))))"

definition execution_of_row :: "(json \<Rightarrow> string) \<Rightarrow> execution_row \<Rightarrow> dl_error + execution" where
  "execution_of_row rp row =
     (case budget_of_json rp (xw_budget row) of Inl e \<Rightarrow> Inl e | Inr b \<Rightarrow>
     (case ApprovalStatus (xw_approval_status row) of
        None \<Rightarrow> Inl (DlValueE ''not a valid ApprovalStatus'') | Some approval \<Rightarrow>
     (case ExecutionStatus (xw_status row) of
        None \<Rightarrow> Inl (DlValueE ''not a valid ExecutionStatus'') | Some status \<Rightarrow>
     (case (case xw_result_reference row of
              None \<Rightarrow> Inr None
            | Some j \<Rightarrow> if truthy j then map_sum DlValueE Some (external_reference_of_json j)
                       else Inr None) of
        Inl e \<Rightarrow> Inl e
      | Inr reference \<Rightarrow> Inr
        \<lparr>ex_id = xw_id row, ex_organization_id = xw_organization_id row,
         ex_project_id = xw_project_id row, ex_work_item_id = xw_work_item_id row,
         ex_title = xw_title row, ex_description = xw_description row,
         ex_acceptance_criteria = xw_acceptance_criteria row,
         ex_repository_connection_id = xw_repository_connection_id row,
         ex_provider_configuration_id = xw_provider_configuration_id row,
         ex_runner_pool_id = xw_runner_pool_id row, ex_budget = b,
         ex_approval_status = approval, ex_status = status,
         ex_attempt_count = xw_attempt_count row, ex_turn_count = xw_turn_count row,
         ex_duration_seconds = xw_duration_seconds row, ex_cost_minor = xw_cost_minor row,
         ex_version = xw_version row, ex_cancellation_requested = xw_cancellation_requested row,
         ex_result_reference = reference\<rparr>))))"

definition pg_get_execution ::
  "(json \<Rightarrow> string) \<Rightarrow> uuid \<Rightarrow> uuid \<Rightarrow> (dl_db, dl_error, execution option) oper" where
  "pg_get_execution rp organization_id execution_id =
     seqS (pg_set_organization organization_id)
     (bindS (readS (\<lambda>s. row_of xw_organization_id (pd_organization s) (pd_executions s) execution_id))
      (\<lambda>found. case found of
          None \<Rightarrow> returnS None
        | Some row \<Rightarrow> liftS (map_sum id Some (execution_of_row rp row))))"

definition pg_get_execution_by_work_item ::
  "(json \<Rightarrow> string) \<Rightarrow> uuid \<Rightarrow> uuid \<Rightarrow> (dl_db, dl_error, execution option) oper" where
  "pg_get_execution_by_work_item rp organization_id work_item_id =
     seqS (pg_set_organization organization_id)
     (bindS (readS (\<lambda>s. find (\<lambda>row. xw_work_item_id row = work_item_id)
                (visible xw_organization_id (pd_organization s) (pd_executions s))))
      (\<lambda>found. case found of
          None \<Rightarrow> returnS None
        | Some row \<Rightarrow> liftS (map_sum id Some (execution_of_row rp row))))"

definition pg_add_execution :: "(json \<Rightarrow> string) \<Rightarrow> execution \<Rightarrow> (dl_db, dl_error, bool) oper" where
  "pg_add_execution rp e =
     seqS (pg_set_organization (ex_organization_id e))
     (bindS (pg_get_execution_by_work_item rp (ex_organization_id e) (ex_work_item_id e)) (\<lambda>existing.
      if existing \<noteq> None then returnS False
      else seqS (insertS (\<lambda>s. dget (pd_executions s) (ex_id e) \<noteq> None \<or>
               (\<exists>row \<in> set (dvals (pd_executions s)).
                  xw_organization_id row = ex_organization_id e \<and> xw_work_item_id row = ex_work_item_id e))
             (\<lambda>s. s\<lparr>pd_executions := dset (ex_id e) (execution_row_of e) (pd_executions s)\<rparr>))
           (returnS True)))"

definition pg_update_execution :: "execution \<Rightarrow> (dl_db, dl_error, unit) oper" where
  "pg_update_execution e =
     seqS (pg_set_organization (ex_organization_id e))
     (bindS (readS (\<lambda>s. row_of xw_organization_id (pd_organization s) (pd_executions s) (ex_id e)))
      (\<lambda>found. case found of
          None \<Rightarrow> returnS ()
        | Some row \<Rightarrow>
            let replacement = execution_row_of e in
            writeS (\<lambda>s. s\<lparr>pd_executions := dset (ex_id e)
              (row\<lparr>xw_approval_status := xw_approval_status replacement,
                   xw_status := xw_status replacement,
                   xw_attempt_count := xw_attempt_count replacement,
                   xw_turn_count := xw_turn_count replacement,
                   xw_duration_seconds := xw_duration_seconds replacement,
                   xw_cost_minor := xw_cost_minor replacement,
                   xw_version := xw_version replacement,
                   xw_cancellation_requested := xw_cancellation_requested replacement,
                   xw_result_reference := xw_result_reference replacement\<rparr>)
              (pd_executions s)\<rparr>)))"

fun collect_sum :: "('e + 'a) list \<Rightarrow> 'e + 'a list" where
  "collect_sum [] = Inr []"
| "collect_sum (Inl e # xs) = Inl e"
| "collect_sum (Inr a # xs) = map_sum id ((#) a) (collect_sum xs)"

definition pg_list_executions :: "(json \<Rightarrow> string) \<Rightarrow> uuid \<Rightarrow> (dl_db, dl_error, execution list) oper" where
  "pg_list_executions rp organization_id =
     seqS (pg_set_organization organization_id)
     (bindS (readS (\<lambda>s. take 100 (rev (sort_key (\<lambda>row. uint (xw_id row))
               (visible xw_organization_id (pd_organization s) (pd_executions s))))))
       (\<lambda>rows. liftS (collect_sum (map (execution_of_row rp) rows))))"

section \<open>Events and audits\<close>

definition event_row_of :: "execution_event \<Rightarrow> event_row" where
  "event_row_of event =
     \<lparr>ew_id = ee_id event, ew_execution_id = ee_execution_id event,
      ew_organization_id = ee_organization_id event, ew_sequence = ee_sequence event,
      ew_kind = execution_event_kind_value (ee_kind event), ew_name = ee_name event,
      ew_message = ee_message event, ew_occurred_at = ee_occurred_at event,
      ew_event_metadata = ee_metadata event\<rparr>"

definition event_of_row :: "event_row \<Rightarrow> dl_error + execution_event" where
  "event_of_row row =
     (case ExecutionEventKind (ew_kind row) of
        None \<Rightarrow> Inl (DlValueE ''not a valid ExecutionEventKind'')
      | Some kind \<Rightarrow> Inr
          \<lparr>ee_id = ew_id row, ee_execution_id = ew_execution_id row,
           ee_organization_id = ew_organization_id row, ee_sequence = ew_sequence row,
           ee_kind = kind, ee_name = ew_name row, ee_message = ew_message row,
           ee_occurred_at = ew_occurred_at row, ee_metadata = ew_event_metadata row\<rparr>)"

definition pg_append_event :: "execution_event \<Rightarrow> (dl_db, dl_error, unit) oper" where
  "pg_append_event event =
     seqS (pg_set_organization (ee_organization_id event))
     (insertS (\<lambda>s. dget (pd_events s) (ee_id event) \<noteq> None \<or>
         (\<exists>row \<in> set (dvals (pd_events s)).
            ew_execution_id row = ee_execution_id event \<and> ew_sequence row = ee_sequence event))
        (\<lambda>s. s\<lparr>pd_events := dset (ee_id event) (event_row_of event) (pd_events s)\<rparr>))"

definition pg_list_events ::
  "uuid \<Rightarrow> uuid \<Rightarrow> int \<Rightarrow> (dl_db, dl_error, execution_event list) oper" where
  "pg_list_events organization_id execution_id after_sequence =
     seqS (pg_set_organization organization_id)
     (bindS (readS (\<lambda>s. sort_key ew_sequence
               (filter (\<lambda>row. ew_execution_id row = execution_id \<and> ew_sequence row > after_sequence)
                  (visible ew_organization_id (pd_organization s) (pd_events s)))))
       (\<lambda>rows. liftS (collect_sum (map event_of_row rows))))"

definition pg_next_event_sequence :: "uuid \<Rightarrow> (dl_db, dl_error, int) oper" where
  "pg_next_event_sequence execution_id =
     readS (\<lambda>s.
       case rev (sort (map ew_sequence (filter (\<lambda>row. ew_execution_id row = execution_id)
              (visible ew_organization_id (pd_organization s) (pd_events s))))) of
         [] \<Rightarrow> 0 + 1
       | current # _ \<Rightarrow> current + 1)"

definition pg_record_audit :: "dl_audit \<Rightarrow> (dl_db, dl_error, unit) oper" where
  "pg_record_audit a =
     seqS (pg_set_organization (da_organization_id a))
     (writeS (\<lambda>s. s\<lparr>pd_audits := pd_audits s @ [a]\<rparr>))"

definition PostgresDeliveryRepository :: "(json \<Rightarrow> string) \<Rightarrow> dl_db dl_repository" where
  "PostgresDeliveryRepository rp =
     \<lparr>dr_add_provider_configuration = pg_add_provider_configuration,
      dr_get_provider_configuration = pg_get_provider_configuration,
      dr_add_enrollment_token = pg_add_enrollment_token,
      dr_consume_enrollment_token = pg_consume_enrollment_token,
      dr_add_runner = pg_add_runner, dr_get_runner = pg_get_runner,
      dr_add_execution = pg_add_execution rp, dr_get_execution = pg_get_execution rp,
      dr_get_execution_by_work_item = pg_get_execution_by_work_item rp,
      dr_update_execution = pg_update_execution, dr_append_event = pg_append_event,
      dr_list_events = pg_list_events, dr_next_event_sequence = pg_next_event_sequence,
      dr_record_audit = pg_record_audit\<rparr>"

section \<open>The workflow command outbox\<close>

definition pg_command :: "command_row \<Rightarrow> (dl_db, dl_error, unit) oper" where
  "pg_command c = writeS (\<lambda>s. s\<lparr>pd_commands := pd_commands s @ [c]\<rparr>)"

definition pg_start :: "execution \<Rightarrow> (dl_db, dl_error, unit) oper" where
  "pg_start e = pg_command
     \<lparr>wc_organization_id = ex_organization_id e, wc_execution_id = ex_id e, wc_command = ''START'',
      wc_actor_subject = None, wc_dispatched_at = None\<rparr>"

definition pg_signal :: "string \<Rightarrow> uuid \<Rightarrow> string \<Rightarrow> (dl_db, dl_error, unit) oper" where
  "pg_signal command execution_id actor_subject =
     bindS (readS (\<lambda>s. map_option xw_organization_id
              (row_of xw_organization_id (pd_organization s) (pd_executions s) execution_id)))
     (\<lambda>found. bindS (requireS (DlLookupE ''execution not found'') found) (\<lambda>organization_id.
      pg_command \<lparr>wc_organization_id = organization_id, wc_execution_id = execution_id,
        wc_command = command, wc_actor_subject = Some actor_subject, wc_dispatched_at = None\<rparr>))"

definition PostgresWorkflowGateway :: "dl_db workflow_gateway" where
  "PostgresWorkflowGateway =
     \<lparr>wg_start = pg_start, wg_approve = pg_signal ''APPROVE'', wg_cancel = pg_signal ''CANCEL''\<rparr>"

lemmas pg_defs =
  PostgresDeliveryRepository_def pg_set_organization_def pg_role_for_def pg_upsert_membership_def
  pg_record_inbox_def pg_add_provider_configuration_def pg_get_provider_configuration_def
  pg_add_runner_pool_def pg_list_runner_pools_def pg_add_enrollment_token_def
  pg_consume_enrollment_token_def pg_add_runner_def pg_get_runner_def pg_authenticate_runner_def
  pg_get_execution_def pg_get_execution_by_work_item_def pg_add_execution_def
  pg_update_execution_def pg_list_executions_def pg_append_event_def pg_list_events_def
  pg_next_event_sequence_def pg_record_audit_def pg_command_def pg_start_def pg_signal_def
  PostgresWorkflowGateway_def

section \<open>Rows and objects\<close>

lemma budget_roundtrip [simp]:
  "budget_of_json rp
     [(''max_duration_seconds'', JInt (eb_max_duration_seconds b)),
      (''max_attempts'', JInt (eb_max_attempts b)), (''max_turns'', JInt (eb_max_turns b)),
      (''max_cost_minor'', JInt (eb_max_cost_minor b)), (''currency'', JStr (eb_currency b))] = Inr b"
  by (simp add: budget_of_json_def budget_int_def py_int_def py_str_def)

definition valid_result :: "execution \<Rightarrow> bool" where
  "valid_result e = (case ex_result_reference e of None \<Rightarrow> True | Some r \<Rightarrow> valid_external_reference r)"

definition valid_secret :: "provider_configuration \<Rightarrow> bool" where
  "valid_secret c = (case pc_secret_reference c of None \<Rightarrow> True | Some r \<Rightarrow> valid_secret_reference r)"

lemma provider_roundtrip:
  "wf_configuration c \<Longrightarrow> valid_secret c \<Longrightarrow> provider_of_row (provider_row_of c) = Inr c"
  by (cases c; cases "pc_secret_reference c")
     (simp_all add: provider_of_row_def provider_row_of_def valid_secret_def reference_roundtrip
        wf_configuration_def)

text \<open>C25: What the adapter writes it reads back: an execution whose result reference is valid, a
  valid provider configuration, a runner and an event survive the round trip through their
  rows unchanged.\<close>

theorem rows_roundtrip:
  "(valid_result e \<longrightarrow> execution_of_row rp (execution_row_of e) = Inr e) \<and>
   (wf_configuration c \<and> valid_secret c \<longrightarrow> provider_of_row (provider_row_of c) = Inr c) \<and>
   runner_of_row (runner_row_of r) = Inr r \<and>
   event_of_row (event_row_of ev) = Inr ev"
proof -
  have "valid_result e \<Longrightarrow> execution_of_row rp (execution_row_of e) = Inr e"
    by (cases "ex_result_reference e")
       (simp_all add: execution_of_row_def valid_result_def reference_roundtrip
          execution_row_of_def [of e])
  then show ?thesis
    by (simp add: provider_roundtrip runner_of_row_def runner_row_of_def event_of_row_def event_row_of_def)
qed

definition sample_configuration :: provider_configuration where
  "sample_configuration =
     \<lparr>pc_id = 61, pc_organization_id = 1, pc_display_name = ''Claude'', pc_provider = ''anthropic'',
      pc_runtime = ''claude-code-cli'', pc_model = ''claude-opus-5'',
      pc_authentication_mode = API_KEY_REFERENCE,
      pc_secret_reference = Some \<lparr>sr_store = ''encrypted-file'', sr_namespace = ''model-credentials/1'',
        sr_key = ''k'', sr_version = None\<rparr>,
      pc_enabled = True, pc_is_development_substitute = False\<rparr>"

lemma sample_configuration_valid: "wf_configuration sample_configuration" "valid_secret sample_configuration"
  by (simp_all add: wf_configuration_def AgentProviderConfiguration_def sample_configuration_def
        ensure_supported_def RUNTIME_COMPATIBILITY_def catalog_entry_def AGENT_CATALOG_def
        valid_secret_def valid_secret_reference_def SecretReference_def field_length_def
        optional_length_def reject_secret_values_def)

theorem rows_roundtrip_witness:
  "execution_of_row (\<lambda>_. []) (execution_row_of sample_execution) = Inr sample_execution \<and>
   provider_of_row (provider_row_of sample_configuration) = Inr sample_configuration"
proof
  show "execution_of_row (\<lambda>_. []) (execution_row_of sample_execution) = Inr sample_execution"
    by (rule rows_roundtrip [THEN conjunct1, rule_format])
       (simp add: valid_result_def sample_execution_def)
  show "provider_of_row (provider_row_of sample_configuration) = Inr sample_configuration"
    by (rule rows_roundtrip [THEN conjunct2, THEN conjunct1, rule_format])
       (simp add: sample_configuration_valid)
qed

end
