(* ===== verification/DlLeases.thy ===== *)
theory DlLeases
  imports DlPostgres
begin

text \<open>
  The work queues runners lease from: the runner jobs and the provider verifications of
  \<open>adapters/postgres.py\<close>. Which of the leasable rows a \<open>SELECT ... FOR UPDATE SKIP LOCKED
  LIMIT 1\<close> returns is the database's choice: the argument \<open>pick\<close> chooses an identifier among
  those of the candidates (or none, where other transactions hold them all).

  The two queues share a contract, the locale \<open>lease_table\<close>: a lease is exclusive while
  its holder keeps it alive, and only the holder can extend or finish it.
\<close>

definition choose_row :: "('v \<Rightarrow> uuid) \<Rightarrow> (uuid list \<Rightarrow> uuid option) \<Rightarrow> 'v list \<Rightarrow> 'v option" where
  "choose_row id_of pick rows =
     (case pick (map id_of rows) of None \<Rightarrow> None | Some k \<Rightarrow> find (\<lambda>r. id_of r = k) rows)"

lemma choose_row_Some: "choose_row id_of pick rows = Some r \<Longrightarrow> r \<in> set rows"
  by (auto simp: choose_row_def find_Some_iff split: option.splits)

text \<open>\<open>leased_at < stale_before\<close> on a nullable column.\<close>

definition stale :: "time option \<Rightarrow> time \<Rightarrow> bool" where
  "stale leased_at before = (case leased_at of None \<Rightarrow> False | Some t \<Rightarrow> t < before)"

section \<open>Runner jobs\<close>

definition pg_create_runner_job ::
  "execution \<Rightarrow> (string \<times> json) list \<Rightarrow> (dl_db, dl_error, job_row) oper" where
  "pg_create_runner_job e payload =
     seqS (pg_set_organization (ex_organization_id e))
     (bindS (readS (\<lambda>s. find (\<lambda>row. jw_execution_id row = ex_id e)
               (visible jw_organization_id (pd_organization s) (pd_jobs s)))) (\<lambda>existing.
      case existing of
        Some row \<Rightarrow> returnS row
      | None \<Rightarrow>
          let row = \<lparr>jw_id = ex_id e XOR 1, jw_organization_id = ex_organization_id e,
                     jw_execution_id = ex_id e, jw_pool_id = ex_runner_pool_id e,
                     jw_status = ''QUEUED'', jw_payload = payload, jw_result = None,
                     jw_leased_by_runner_id = None, jw_leased_at = None, jw_completed_at = None\<rparr> in
          seqS (insertS (\<lambda>s. dget (pd_jobs s) (jw_id row) \<noteq> None \<or>
                  (\<exists>r \<in> set (dvals (pd_jobs s)). jw_organization_id r = ex_organization_id e \<and>
                     jw_execution_id r = ex_id e))
                 (\<lambda>s. s\<lparr>pd_jobs := dset (jw_id row) row (pd_jobs s)\<rparr>))
          (returnS row)))"

definition leasable_job :: "runner \<Rightarrow> time \<Rightarrow> job_row \<Rightarrow> bool" where
  "leasable_job r stale_before row \<longleftrightarrow>
     jw_pool_id row = rn_pool_id r \<and>
     (jw_status row = ''QUEUED'' \<or>
      (jw_status row = ''LEASED'' \<and> stale (jw_leased_at row) stale_before))"

definition pg_lease_runner_job ::
  "(uuid list \<Rightarrow> uuid option) \<Rightarrow> time \<Rightarrow> time \<Rightarrow> runner \<Rightarrow> (dl_db, dl_error, job_row option) oper" where
  "pg_lease_runner_job pick now now' r =
     seqS (pg_set_organization (rn_organization_id r))
     (bindS (readS (\<lambda>s. choose_row jw_id pick (filter (leasable_job r (now - seconds 45))
               (visible jw_organization_id (pd_organization s) (pd_jobs s))))) (\<lambda>found.
      case found of
        None \<Rightarrow> returnS None
      | Some row \<Rightarrow>
          let row' = row\<lparr>jw_status := ''LEASED'', jw_leased_by_runner_id := Some (rn_id r),
                         jw_leased_at := Some now'\<rparr> in
          seqS (writeS (\<lambda>s. s\<lparr>pd_jobs := dset (jw_id row) row' (pd_jobs s)\<rparr>))
          (returnS (Some row'))))"

text \<open>\<open>session.get(RunnerJobRow, job_id)\<close> for a job the runner holds.\<close>

definition held_job :: "runner \<Rightarrow> uuid \<Rightarrow> dl_db \<Rightarrow> job_row option" where
  "held_job r job_id s =
     (case row_of jw_organization_id (pd_organization s) (pd_jobs s) job_id of
        None \<Rightarrow> None
      | Some row \<Rightarrow> if jw_leased_by_runner_id row \<noteq> Some (rn_id r) \<or> jw_status row \<noteq> ''LEASED''
                    then None else Some row)"

definition pg_heartbeat_runner_job ::
  "time \<Rightarrow> runner \<Rightarrow> uuid \<Rightarrow> (dl_db, dl_error, job_row option) oper" where
  "pg_heartbeat_runner_job now r job_id =
     seqS (pg_set_organization (rn_organization_id r))
     (bindS (readS (held_job r job_id)) (\<lambda>found.
      case found of
        None \<Rightarrow> returnS None
      | Some row \<Rightarrow>
          let row' = row\<lparr>jw_leased_at := Some now\<rparr> in
          seqS (writeS (\<lambda>s. s\<lparr>pd_jobs := dset job_id row' (pd_jobs s)\<rparr>)) (returnS (Some row'))))"

definition pg_complete_runner_job ::
  "time \<Rightarrow> runner \<Rightarrow> uuid \<Rightarrow> (string \<times> json) list \<Rightarrow> (dl_db, dl_error, job_row option) oper" where
  "pg_complete_runner_job now r job_id result =
     seqS (pg_set_organization (rn_organization_id r))
     (bindS (readS (held_job r job_id)) (\<lambda>found.
      case found of
        None \<Rightarrow> returnS None
      | Some row \<Rightarrow>
          let row' = row\<lparr>jw_status := ''COMPLETED'', jw_result := Some result,
                         jw_completed_at := Some now\<rparr> in
          seqS (writeS (\<lambda>s. s\<lparr>pd_jobs := dset job_id row' (pd_jobs s)\<rparr>)) (returnS (Some row'))))"

definition pg_runner_job_for_execution ::
  "uuid \<Rightarrow> uuid \<Rightarrow> (dl_db, dl_error, job_row option) oper" where
  "pg_runner_job_for_execution organization_id execution_id =
     seqS (pg_set_organization organization_id)
     (readS (\<lambda>s. find (\<lambda>row. jw_execution_id row = execution_id)
               (visible jw_organization_id (pd_organization s) (pd_jobs s))))"

section \<open>Provider verifications\<close>

definition pg_create_provider_verification ::
  "time \<Rightarrow> uuid \<Rightarrow> uuid \<Rightarrow> uuid \<Rightarrow> uuid \<Rightarrow> string \<Rightarrow> (dl_db, dl_error, verification_row) oper" where
  "pg_create_provider_verification now verification_id organization_id provider_configuration_id
     pool_id idempotency_key =
     seqS (pg_set_organization organization_id)
     (bindS (readS (\<lambda>s. find (\<lambda>row. nw_organization_id row = organization_id \<and>
                 nw_idempotency_key row = idempotency_key)
               (visible nw_organization_id (pd_organization s) (pd_verifications s)))) (\<lambda>existing.
      case existing of
        Some row \<Rightarrow> returnS row
      | None \<Rightarrow>
          let row = \<lparr>nw_id = verification_id, nw_organization_id = organization_id,
                     nw_provider_configuration_id = provider_configuration_id,
                     nw_pool_id = pool_id, nw_idempotency_key = idempotency_key,
                     nw_status = ''QUEUED'', nw_result = None, nw_leased_by_runner_id = None,
                     nw_leased_at = None, nw_created_at = now, nw_completed_at = None\<rparr> in
          seqS (insertS (\<lambda>s. dget (pd_verifications s) verification_id \<noteq> None \<or>
                  (\<exists>r \<in> set (dvals (pd_verifications s)). nw_organization_id r = organization_id \<and>
                     nw_idempotency_key r = idempotency_key))
                 (\<lambda>s. s\<lparr>pd_verifications := dset verification_id row (pd_verifications s)\<rparr>))
          (returnS row)))"

definition pg_get_provider_verification ::
  "uuid \<Rightarrow> uuid \<Rightarrow> (dl_db, dl_error, verification_row option) oper" where
  "pg_get_provider_verification organization_id verification_id =
     seqS (pg_set_organization organization_id)
     (readS (\<lambda>s. owned nw_organization_id organization_id
               (row_of nw_organization_id (pd_organization s) (pd_verifications s) verification_id)))"

definition pg_latest_provider_verification ::
  "uuid \<Rightarrow> uuid \<Rightarrow> (dl_db, dl_error, verification_row option) oper" where
  "pg_latest_provider_verification organization_id provider_configuration_id =
     seqS (pg_set_organization organization_id)
     (readS (\<lambda>s. case rev (sort_key nw_created_at
               (filter (\<lambda>row. nw_provider_configuration_id row = provider_configuration_id)
                  (visible nw_organization_id (pd_organization s) (pd_verifications s)))) of
          [] \<Rightarrow> None
        | row # _ \<Rightarrow> Some row))"

definition leasable_verification :: "runner \<Rightarrow> time \<Rightarrow> verification_row \<Rightarrow> bool" where
  "leasable_verification r stale_before row \<longleftrightarrow>
     nw_pool_id row = rn_pool_id r \<and>
     (nw_status row = ''QUEUED'' \<or>
      (nw_status row = ''RUNNING'' \<and> stale (nw_leased_at row) stale_before))"

definition pg_lease_provider_verification ::
  "(uuid list \<Rightarrow> uuid option) \<Rightarrow> time \<Rightarrow> time \<Rightarrow> runner \<Rightarrow>
     (dl_db, dl_error, verification_row option) oper" where
  "pg_lease_provider_verification pick now now' r =
     seqS (pg_set_organization (rn_organization_id r))
     (bindS (readS (\<lambda>s. choose_row nw_id pick (filter (leasable_verification r (now - seconds 45))
               (visible nw_organization_id (pd_organization s) (pd_verifications s))))) (\<lambda>found.
      case found of
        None \<Rightarrow> returnS None
      | Some row \<Rightarrow>
          let row' = row\<lparr>nw_status := ''RUNNING'', nw_leased_by_runner_id := Some (rn_id r),
                         nw_leased_at := Some now'\<rparr> in
          seqS (writeS (\<lambda>s. s\<lparr>pd_verifications := dset (nw_id row) row' (pd_verifications s)\<rparr>))
          (returnS (Some row'))))"

definition held_verification :: "runner \<Rightarrow> uuid \<Rightarrow> dl_db \<Rightarrow> verification_row option" where
  "held_verification r verification_id s =
     (case row_of nw_organization_id (pd_organization s) (pd_verifications s) verification_id of
        None \<Rightarrow> None
      | Some row \<Rightarrow> if nw_leased_by_runner_id row \<noteq> Some (rn_id r) \<or> nw_status row \<noteq> ''RUNNING''
                    then None else Some row)"

definition pg_heartbeat_provider_verification ::
  "time \<Rightarrow> runner \<Rightarrow> uuid \<Rightarrow> (dl_db, dl_error, verification_row option) oper" where
  "pg_heartbeat_provider_verification now r verification_id =
     seqS (pg_set_organization (rn_organization_id r))
     (bindS (readS (held_verification r verification_id)) (\<lambda>found.
      case found of
        None \<Rightarrow> returnS None
      | Some row \<Rightarrow>
          let row' = row\<lparr>nw_leased_at := Some now\<rparr> in
          seqS (writeS (\<lambda>s. s\<lparr>pd_verifications := dset verification_id row' (pd_verifications s)\<rparr>))
          (returnS (Some row'))))"

definition pg_complete_provider_verification ::
  "time \<Rightarrow> time \<Rightarrow> runner \<Rightarrow> uuid \<Rightarrow> (string \<times> json) list \<Rightarrow>
     (dl_db, dl_error, verification_row option) oper" where
  "pg_complete_provider_verification now now' r verification_id result =
     bindS (pg_heartbeat_provider_verification now r verification_id) (\<lambda>found.
     case found of
       None \<Rightarrow> returnS None
     | Some row \<Rightarrow>
         let row' = row\<lparr>nw_status := if truthy (obj_get result ''success'') then ''PASSED'' else ''FAILED'',
                        nw_result := Some result, nw_completed_at := Some now'\<rparr> in
         seqS (writeS (\<lambda>s. s\<lparr>pd_verifications := dset verification_id row' (pd_verifications s)\<rparr>))
         (returnS (Some row')))"

section \<open>The contract of a lease queue\<close>

text \<open>
  \<open>holder\<close> tells who holds an item since when. Leasing takes an item nobody holds, or
  one whose holder was silent for more than 45 seconds; extending and finishing need to hold
  it.
\<close>

locale lease_table =
  fixes holder :: "'s \<Rightarrow> uuid \<Rightarrow> (uuid \<times> time option) option"
    and wf :: "'s \<Rightarrow> bool"
    and lease :: "(uuid list \<Rightarrow> uuid option) \<Rightarrow> time \<Rightarrow> time \<Rightarrow> runner \<Rightarrow> ('s, 'e, uuid option) oper"
    and beat :: "time \<Rightarrow> runner \<Rightarrow> uuid \<Rightarrow> ('s, 'e, uuid option) oper"
    and finish :: "time \<Rightarrow> runner \<Rightarrow> uuid \<Rightarrow> 'r \<Rightarrow> ('s, 'e, uuid option) oper"
  assumes lease_Some: "wf s \<Longrightarrow> lease pick now now' r s = (Inr (Some k), s') \<Longrightarrow>
      holder s' = (holder s)(k \<mapsto> (rn_id r, Some now')) \<and>
      (\<forall>q t. holder s k = Some (q, t) \<longrightarrow> stale t (now - seconds 45))"
    and lease_other: "wf s \<Longrightarrow> lease pick now now' r s = (x, s') \<Longrightarrow> (\<forall>k. x \<noteq> Inr (Some k)) \<Longrightarrow>
      holder s' = holder s"
    and beat_Some: "wf s \<Longrightarrow> beat now r k s = (Inr (Some k'), s') \<Longrightarrow>
      k' = k \<and> (\<exists>t. holder s k = Some (rn_id r, t)) \<and>
      holder s' = (holder s)(k \<mapsto> (rn_id r, Some now))"
    and beat_other: "wf s \<Longrightarrow> beat now r k s = (x, s') \<Longrightarrow> (\<forall>k. x \<noteq> Inr (Some k)) \<Longrightarrow>
      holder s' = holder s"
    and finish_Some: "wf s \<Longrightarrow> finish now r k v s = (Inr (Some k'), s') \<Longrightarrow>
      k' = k \<and> (\<exists>t. holder s k = Some (rn_id r, t)) \<and> holder s' = (holder s)(k := None)"
    and finish_other: "wf s \<Longrightarrow> finish now r k v s = (x, s') \<Longrightarrow> (\<forall>k. x \<noteq> Inr (Some k)) \<Longrightarrow>
      holder s' = holder s"
    and wf_step: "wf s \<Longrightarrow> lease pick now now' r s = (x, s') \<Longrightarrow> wf s'"
      "wf s \<Longrightarrow> beat now r k s = (x, s') \<Longrightarrow> wf s'"
      "wf s \<Longrightarrow> finish now r k v s = (x, s') \<Longrightarrow> wf s'"
begin

text \<open>What runners do to the queue, one operation after another, at the time each names.\<close>

inductive queue_step :: "time \<Rightarrow> 's \<Rightarrow> 's \<Rightarrow> bool" where
  lease: "lease pick now now' r s = (x, s') \<Longrightarrow> now \<le> now' \<Longrightarrow> queue_step now s s'"
| beat: "beat now r k s = (x, s') \<Longrightarrow> queue_step now s s'"
| finish: "finish now r k v s = (x, s') \<Longrightarrow> queue_step now s s'"

lemma wf_queue_step: "queue_step now s s' \<Longrightarrow> wf s \<Longrightarrow> wf s'"
  by (induction rule: queue_step.induct) (auto intro: wf_step)

text \<open>
  A lease is exclusive: at any time up to 45 seconds after the holder's last sign of life, an
  operation either leaves the item with the holder or is the holder's own completion.
\<close>

lemma lease_exclusive:
  assumes "queue_step now s s'" and "wf s" and "holder s k = Some (q, Some t)"
    and "now \<le> t + seconds 45"
  shows "(\<exists>t'. holder s' k = Some (q, t')) \<or> holder s' k = None"
  using assms
proof (induction rule: queue_step.induct)
  case (lease pick now now' r s x s')
  show ?case
  proof (cases "\<exists>j. x = Inr (Some j)")
    case True
    then obtain j where "x = Inr (Some j)" by blast
    then have "holder s' = (holder s)(j \<mapsto> (rn_id r, Some now'))"
      "\<forall>q t. holder s j = Some (q, t) \<longrightarrow> stale t (now - seconds 45)"
      using lease_Some [OF lease.prems(1)] lease.hyps(1) by blast+
    then show ?thesis using lease.prems by (auto simp: stale_def)
  next
    case False
    then show ?thesis using lease_other [OF lease.prems(1) lease.hyps(1)] lease.prems by auto
  qed
next
  case (beat now r j s x s')
  show ?case
  proof (cases "\<exists>i. x = Inr (Some i)")
    case True
    then obtain i where "beat now r j s = (Inr (Some i), s')" using beat.hyps by auto
    from beat_Some [OF beat.prems(1) this] show ?thesis using beat.prems(2) by auto
  next
    case False
    then show ?thesis using beat_other [OF beat.prems(1) beat.hyps(1)] beat.prems(2) by auto
  qed
next
  case (finish now r j v s x s')
  show ?case
  proof (cases "\<exists>i. x = Inr (Some i)")
    case True
    then obtain i where "finish now r j v s = (Inr (Some i), s')" using finish.hyps by auto
    from finish_Some [OF finish.prems(1) this] show ?thesis using finish.prems(2) by auto
  next
    case False
    then show ?thesis using finish_other [OF finish.prems(1) finish.hyps(1)] finish.prems(2) by auto
  qed
qed

text \<open>A runner whose item was leased to another one can neither extend nor finish it.\<close>

lemma lost_lease:
  assumes "wf s" and "lease pick now now' r s = (Inr (Some k), s')" and "rn_id q \<noteq> rn_id r"
  shows "beat t q k s' \<noteq> (Inr (Some j), s'')" and "finish t q k v s' \<noteq> (Inr (Some j), s'')"
proof -
  have "holder s' k = Some (rn_id r, Some now')" and w: "wf s'"
    using lease_Some [OF assms(1,2)] wf_step(1) [OF assms(1,2)] by auto
  then show "beat t q k s' \<noteq> (Inr (Some j), s'')" "finish t q k v s' \<noteq> (Inr (Some j), s'')"
    using beat_Some [OF w] finish_Some [OF w] assms(3) by fastforce+
qed

text \<open>Nobody can finish an item twice without leasing it in between.\<close>

lemma finish_once:
  assumes "wf s" and "finish t r k v s = (Inr (Some j), s')"
  shows "finish t' q k v' s' \<noteq> (Inr (Some j'), s'')"
  using finish_Some [OF assms] finish_Some [OF wf_step(3) [OF assms]] by fastforce

end

section \<open>The two queues keep the contract\<close>

definition job_holder :: "dl_db \<Rightarrow> uuid \<Rightarrow> (uuid \<times> time option) option" where
  "job_holder s k =
     (case dget (pd_jobs s) k of
        None \<Rightarrow> None
      | Some row \<Rightarrow>
          if jw_status row \<noteq> ''LEASED'' then None
          else map_option (\<lambda>q. (q, jw_leased_at row)) (jw_leased_by_runner_id row))"

definition verification_holder :: "dl_db \<Rightarrow> uuid \<Rightarrow> (uuid \<times> time option) option" where
  "verification_holder s k =
     (case dget (pd_verifications s) k of
        None \<Rightarrow> None
      | Some row \<Rightarrow>
          if nw_status row \<noteq> ''RUNNING'' then None
          else map_option (\<lambda>q. (q, nw_leased_at row)) (nw_leased_by_runner_id row))"

definition jobs_wf :: "dl_db \<Rightarrow> bool" where
  "jobs_wf s \<longleftrightarrow> wf_dict (pd_jobs s) \<and> keyed jw_id (pd_jobs s)"

definition verifications_wf :: "dl_db \<Rightarrow> bool" where
  "verifications_wf s \<longleftrightarrow> wf_dict (pd_verifications s) \<and> keyed nw_id (pd_verifications s)"

definition mapS :: "('a \<Rightarrow> 'b) \<Rightarrow> ('s, 'e, 'a) oper \<Rightarrow> ('s, 'e, 'b) oper" where
  "mapS f m s = (case m s of (Inl e, s') \<Rightarrow> (Inl e, s') | (Inr a, s') \<Rightarrow> (Inr (f a), s'))"

lemma mapS_iff:
  "mapS f m s = (Inr b, s') \<longleftrightarrow> (\<exists>a. m s = (Inr a, s') \<and> b = f a)"
  "mapS f m s = (Inl e, s') \<longleftrightarrow> m s = (Inl e, s')"
  by (auto simp: mapS_def split: prod.splits sum.splits)

lemma visible_job:
  "wf_dict d \<Longrightarrow> row \<in> set (visible f c d) \<Longrightarrow> \<exists>k. dget d k = Some row"
  using in_dvals_iff [of d row] by (auto simp: visible_def)

text \<open>What each operation does, as an equation on the tables.\<close>

lemma lease_runner_job_iff:
  "pg_lease_runner_job pick now now' r s = (x, s') \<longleftrightarrow>
     (let t = s\<lparr>pd_organization := Some (rn_organization_id r)\<rparr> in
      case choose_row jw_id pick (filter (leasable_job r (now - seconds 45))
             (visible jw_organization_id (Some (rn_organization_id r)) (pd_jobs s))) of
        None \<Rightarrow> x = Inr None \<and> s' = t
      | Some row \<Rightarrow>
          let row' = row\<lparr>jw_status := ''LEASED'', jw_leased_by_runner_id := Some (rn_id r),
                         jw_leased_at := Some now'\<rparr> in
          x = Inr (Some row') \<and> s' = t\<lparr>pd_jobs := dset (jw_id row) row' (pd_jobs s)\<rparr>)"
  by (auto simp: pg_lease_runner_job_def pg_set_organization_def Let_def seqS_def returnS_def
      readS_def bindS_def writeS_def split: option.splits)

lemma lease_provider_verification_iff:
  "pg_lease_provider_verification pick now now' r s = (x, s') \<longleftrightarrow>
     (let t = s\<lparr>pd_organization := Some (rn_organization_id r)\<rparr> in
      case choose_row nw_id pick (filter (leasable_verification r (now - seconds 45))
             (visible nw_organization_id (Some (rn_organization_id r)) (pd_verifications s))) of
        None \<Rightarrow> x = Inr None \<and> s' = t
      | Some row \<Rightarrow>
          let row' = row\<lparr>nw_status := ''RUNNING'', nw_leased_by_runner_id := Some (rn_id r),
                         nw_leased_at := Some now'\<rparr> in
          x = Inr (Some row') \<and> s' = t\<lparr>pd_verifications := dset (nw_id row) row' (pd_verifications s)\<rparr>)"
  by (auto simp: pg_lease_provider_verification_def pg_set_organization_def Let_def seqS_def
      returnS_def readS_def bindS_def writeS_def split: option.splits)

lemma held_job_Some:
  "held_job r k s = Some row \<longleftrightarrow>
     pd_organization s = Some (jw_organization_id row) \<and> dget (pd_jobs s) k = Some row \<and>
     jw_leased_by_runner_id row = Some (rn_id r) \<and> jw_status row = ''LEASED''"
  by (auto simp: held_job_def row_of_def owned_Some owned_Some_iff split: option.splits if_splits)

lemma held_verification_Some:
  "held_verification r k s = Some row \<longleftrightarrow>
     pd_organization s = Some (nw_organization_id row) \<and> dget (pd_verifications s) k = Some row \<and>
     nw_leased_by_runner_id row = Some (rn_id r) \<and> nw_status row = ''RUNNING''"
  by (auto simp: held_verification_def row_of_def owned_Some owned_Some_iff split: option.splits if_splits)

lemma heartbeat_runner_job_iff:
  "pg_heartbeat_runner_job now r k s = (x, s') \<longleftrightarrow>
     (let t = s\<lparr>pd_organization := Some (rn_organization_id r)\<rparr> in
      case held_job r k t of
        None \<Rightarrow> x = Inr None \<and> s' = t
      | Some row \<Rightarrow> x = Inr (Some (row\<lparr>jw_leased_at := Some now\<rparr>)) \<and>
          s' = t\<lparr>pd_jobs := dset k (row\<lparr>jw_leased_at := Some now\<rparr>) (pd_jobs s)\<rparr>)"
  by (auto simp: pg_heartbeat_runner_job_def pg_set_organization_def Let_def seqS_def returnS_def
      readS_def bindS_def writeS_def split: option.splits)

lemma complete_runner_job_iff:
  "pg_complete_runner_job now r k v s = (x, s') \<longleftrightarrow>
     (let t = s\<lparr>pd_organization := Some (rn_organization_id r)\<rparr> in
      case held_job r k t of
        None \<Rightarrow> x = Inr None \<and> s' = t
      | Some row \<Rightarrow>
          let row' = row\<lparr>jw_status := ''COMPLETED'', jw_result := Some v,
                         jw_completed_at := Some now\<rparr> in
          x = Inr (Some row') \<and> s' = t\<lparr>pd_jobs := dset k row' (pd_jobs s)\<rparr>)"
  by (auto simp: pg_complete_runner_job_def pg_set_organization_def Let_def seqS_def returnS_def
      readS_def bindS_def writeS_def split: option.splits)

lemma heartbeat_provider_verification_iff:
  "pg_heartbeat_provider_verification now r k s = (x, s') \<longleftrightarrow>
     (let t = s\<lparr>pd_organization := Some (rn_organization_id r)\<rparr> in
      case held_verification r k t of
        None \<Rightarrow> x = Inr None \<and> s' = t
      | Some row \<Rightarrow> x = Inr (Some (row\<lparr>nw_leased_at := Some now\<rparr>)) \<and>
          s' = t\<lparr>pd_verifications := dset k (row\<lparr>nw_leased_at := Some now\<rparr>) (pd_verifications s)\<rparr>)"
  by (auto simp: pg_heartbeat_provider_verification_def pg_set_organization_def Let_def seqS_def
      returnS_def readS_def bindS_def writeS_def split: option.splits)

lemma complete_provider_verification_iff:
  "pg_complete_provider_verification now now' r k v s = (x, s') \<longleftrightarrow>
     (let t = s\<lparr>pd_organization := Some (rn_organization_id r)\<rparr> in
      case held_verification r k t of
        None \<Rightarrow> x = Inr None \<and> s' = t
      | Some row \<Rightarrow>
          let row' = row\<lparr>nw_leased_at := Some now,
                         nw_status := if truthy (obj_get v ''success'') then ''PASSED'' else ''FAILED'',
                         nw_result := Some v, nw_completed_at := Some now'\<rparr> in
          x = Inr (Some row') \<and> s' = t\<lparr>pd_verifications := dset k row' (pd_verifications s)\<rparr>)"
  by (auto simp: pg_complete_provider_verification_def pg_heartbeat_provider_verification_def
      pg_set_organization_def Let_def seqS_def returnS_def
      readS_def bindS_def writeS_def split: option.splits)

lemma jobs_wf_dset: "jobs_wf s \<Longrightarrow> jw_id row = k \<Longrightarrow> pd_jobs s' = dset k row (pd_jobs s) \<Longrightarrow> jobs_wf s'"
  by (simp add: jobs_wf_def)

lemma verifications_wf_dset:
  "verifications_wf s \<Longrightarrow> nw_id row = k \<Longrightarrow> pd_verifications s' = dset k row (pd_verifications s) \<Longrightarrow>
   verifications_wf s'"
  by (simp add: verifications_wf_def)

lemma chosen_job:
  assumes "jobs_wf s" and "choose_row jw_id pick (filter P (visible jw_organization_id c (pd_jobs s))) = Some row"
  shows "dget (pd_jobs s) (jw_id row) = Some row" and "P row"
  using assms choose_row_Some [OF assms(2)] visible_job [of "pd_jobs s" row]
  by (auto simp: jobs_wf_def keyed_def)

lemma chosen_verification:
  assumes "verifications_wf s"
    and "choose_row nw_id pick (filter P (visible nw_organization_id c (pd_verifications s))) = Some row"
  shows "dget (pd_verifications s) (nw_id row) = Some row" and "P row"
  using assms choose_row_Some [OF assms(2)] visible_job [of "pd_verifications s" row]
  by (auto simp: verifications_wf_def keyed_def)

definition job_row_holder where
  "job_row_holder row =
     (if jw_status row \<noteq> ''LEASED'' then None
      else map_option (\<lambda>q. (q, jw_leased_at row)) (jw_leased_by_runner_id row))"

lemma job_holder_dset:
  "pd_jobs s' = dset k row (pd_jobs s) \<Longrightarrow> job_holder s' = (job_holder s)(k := job_row_holder row)"
  by (auto simp: job_holder_def job_row_holder_def fun_eq_iff)

lemma job_holder_same: "pd_jobs s' = pd_jobs s \<Longrightarrow> job_holder s' = job_holder s"
  by (simp add: job_holder_def fun_eq_iff)

lemma lease_runner_job_cases:
  assumes "jobs_wf s" and "mapS (map_option jw_id) (pg_lease_runner_job pick now now' r) s = (x, s')"
  obtains (none) "x = Inr None" "pd_jobs s' = pd_jobs s"
    | (some) row where "x = Inr (Some (jw_id row))" "dget (pd_jobs s) (jw_id row) = Some row"
        "leasable_job r (now - seconds 45) row"
        "pd_jobs s' = dset (jw_id row) (row\<lparr>jw_status := ''LEASED'',
           jw_leased_by_runner_id := Some (rn_id r), jw_leased_at := Some now'\<rparr>) (pd_jobs s)"
proof -
  obtain y where y: "pg_lease_runner_job pick now now' r s = (y, s')" and x: "x = map_sum id (map_option jw_id) y"
    using assms(2) by (auto simp: mapS_def split: prod.splits sum.splits)
  let ?c = "choose_row jw_id pick (filter (leasable_job r (now - seconds 45))
      (visible jw_organization_id (Some (rn_organization_id r)) (pd_jobs s)))"
  show thesis
  proof (cases ?c)
    case None
    then show thesis using y none x unfolding lease_runner_job_iff by (simp add: Let_def)
  next
    case (Some row)
    then show thesis
      using y some [of row] x chosen_job [OF assms(1) Some] unfolding lease_runner_job_iff by (simp add: Let_def)
  qed
qed

lemma heartbeat_runner_job_cases:
  assumes "mapS (map_option jw_id) (pg_heartbeat_runner_job now r k) s = (x, s')" and "jobs_wf s"
  obtains (none) "x = Inr None" "pd_jobs s' = pd_jobs s"
    | (some) row where "x = Inr (Some k)" "dget (pd_jobs s) k = Some row" "jw_id row = k"
        "jw_leased_by_runner_id row = Some (rn_id r)" "jw_status row = ''LEASED''"
        "pd_jobs s' = dset k (row\<lparr>jw_leased_at := Some now\<rparr>) (pd_jobs s)"
proof -
  obtain y where y: "pg_heartbeat_runner_job now r k s = (y, s')" and x: "x = map_sum id (map_option jw_id) y"
    using assms(1) by (auto simp: mapS_def split: prod.splits sum.splits)
  show thesis
  proof (cases "held_job r k (s\<lparr>pd_organization := Some (rn_organization_id r)\<rparr>)")
    case None
    then show thesis using y none x unfolding heartbeat_runner_job_iff by (simp add: Let_def)
  next
    case (Some row)
    then have "dget (pd_jobs s) k = Some row" "jw_leased_by_runner_id row = Some (rn_id r)"
      "jw_status row = ''LEASED''" by (simp_all add: held_job_Some)
    then show thesis
      using Some y some [of row] x assms(2) unfolding heartbeat_runner_job_iff
      by (simp add: Let_def jobs_wf_def keyed_def)
  qed
qed

lemma complete_runner_job_cases:
  assumes "mapS (map_option jw_id) (pg_complete_runner_job now r k v) s = (x, s')" and "jobs_wf s"
  obtains (none) "x = Inr None" "pd_jobs s' = pd_jobs s"
    | (some) row row' where "x = Inr (Some k)" "dget (pd_jobs s) k = Some row" "jw_id row' = k"
        "jw_leased_by_runner_id row = Some (rn_id r)" "jw_status row = ''LEASED''"
        "jw_status row' \<noteq> ''LEASED''" "pd_jobs s' = dset k row' (pd_jobs s)"
proof -
  obtain y where y: "pg_complete_runner_job now r k v s = (y, s')"
    and x: "x = map_sum id (map_option jw_id) y"
    using assms(1) by (auto simp: mapS_def split: prod.splits sum.splits)
  show thesis
  proof (cases "held_job r k (s\<lparr>pd_organization := Some (rn_organization_id r)\<rparr>)")
    case None
    then show thesis using y none x unfolding complete_runner_job_iff by (simp add: Let_def)
  next
    case (Some row)
    then have "dget (pd_jobs s) k = Some row" "jw_leased_by_runner_id row = Some (rn_id r)"
      "jw_status row = ''LEASED''" by (simp_all add: held_job_Some)
    then show thesis
      using Some y some [of row "row\<lparr>jw_status := ''COMPLETED'', jw_result := Some v, jw_completed_at := Some now\<rparr>"] x assms(2) unfolding complete_runner_job_iff
      by (simp add: Let_def jobs_wf_def keyed_def)
  qed
qed

definition verification_row_holder where
  "verification_row_holder row =
     (if nw_status row \<noteq> ''RUNNING'' then None
      else map_option (\<lambda>q. (q, nw_leased_at row)) (nw_leased_by_runner_id row))"

lemma verification_holder_dset:
  "pd_verifications s' = dset k row (pd_verifications s) \<Longrightarrow> verification_holder s' = (verification_holder s)(k := verification_row_holder row)"
  by (auto simp: verification_holder_def verification_row_holder_def fun_eq_iff)

lemma verification_holder_same: "pd_verifications s' = pd_verifications s \<Longrightarrow> verification_holder s' = verification_holder s"
  by (simp add: verification_holder_def fun_eq_iff)

lemma lease_provider_verification_cases:
  assumes "verifications_wf s" and "mapS (map_option nw_id) (pg_lease_provider_verification pick now now' r) s = (x, s')"
  obtains (none) "x = Inr None" "pd_verifications s' = pd_verifications s"
    | (some) row where "x = Inr (Some (nw_id row))" "dget (pd_verifications s) (nw_id row) = Some row"
        "leasable_verification r (now - seconds 45) row"
        "pd_verifications s' = dset (nw_id row) (row\<lparr>nw_status := ''RUNNING'',
           nw_leased_by_runner_id := Some (rn_id r), nw_leased_at := Some now'\<rparr>) (pd_verifications s)"
proof -
  obtain y where y: "pg_lease_provider_verification pick now now' r s = (y, s')" and x: "x = map_sum id (map_option nw_id) y"
    using assms(2) by (auto simp: mapS_def split: prod.splits sum.splits)
  let ?c = "choose_row nw_id pick (filter (leasable_verification r (now - seconds 45))
      (visible nw_organization_id (Some (rn_organization_id r)) (pd_verifications s)))"
  show thesis
  proof (cases ?c)
    case None
    then show thesis using y none x unfolding lease_provider_verification_iff by (simp add: Let_def)
  next
    case (Some row)
    then show thesis
      using y some [of row] x chosen_verification [OF assms(1) Some] unfolding lease_provider_verification_iff by (simp add: Let_def)
  qed
qed

lemma heartbeat_provider_verification_cases:
  assumes "mapS (map_option nw_id) (pg_heartbeat_provider_verification now r k) s = (x, s')" and "verifications_wf s"
  obtains (none) "x = Inr None" "pd_verifications s' = pd_verifications s"
    | (some) row where "x = Inr (Some k)" "dget (pd_verifications s) k = Some row" "nw_id row = k"
        "nw_leased_by_runner_id row = Some (rn_id r)" "nw_status row = ''RUNNING''"
        "pd_verifications s' = dset k (row\<lparr>nw_leased_at := Some now\<rparr>) (pd_verifications s)"
proof -
  obtain y where y: "pg_heartbeat_provider_verification now r k s = (y, s')" and x: "x = map_sum id (map_option nw_id) y"
    using assms(1) by (auto simp: mapS_def split: prod.splits sum.splits)
  show thesis
  proof (cases "held_verification r k (s\<lparr>pd_organization := Some (rn_organization_id r)\<rparr>)")
    case None
    then show thesis using y none x unfolding heartbeat_provider_verification_iff by (simp add: Let_def)
  next
    case (Some row)
    then have "dget (pd_verifications s) k = Some row" "nw_leased_by_runner_id row = Some (rn_id r)"
      "nw_status row = ''RUNNING''" by (simp_all add: held_verification_Some)
    then show thesis
      using Some y some [of row] x assms(2) unfolding heartbeat_provider_verification_iff
      by (simp add: Let_def verifications_wf_def keyed_def)
  qed
qed

lemma complete_provider_verification_cases:
  assumes "mapS (map_option nw_id) (pg_complete_provider_verification now now' r k v) s = (x, s')" and "verifications_wf s"
  obtains (none) "x = Inr None" "pd_verifications s' = pd_verifications s"
    | (some) row row' where "x = Inr (Some k)" "dget (pd_verifications s) k = Some row" "nw_id row' = k"
        "nw_leased_by_runner_id row = Some (rn_id r)" "nw_status row = ''RUNNING''"
        "nw_status row' \<noteq> ''RUNNING''" "pd_verifications s' = dset k row' (pd_verifications s)"
proof -
  obtain y where y: "pg_complete_provider_verification now now' r k v s = (y, s')"
    and x: "x = map_sum id (map_option nw_id) y"
    using assms(1) by (auto simp: mapS_def split: prod.splits sum.splits)
  show thesis
  proof (cases "held_verification r k (s\<lparr>pd_organization := Some (rn_organization_id r)\<rparr>)")
    case None
    then show thesis using y none x unfolding complete_provider_verification_iff by (simp add: Let_def)
  next
    case (Some row)
    then have "dget (pd_verifications s) k = Some row" "nw_leased_by_runner_id row = Some (rn_id r)"
      "nw_status row = ''RUNNING''" by (simp_all add: held_verification_Some)
    then show thesis
      using Some y some [of row "row\<lparr>nw_leased_at := Some now, nw_status := if truthy (obj_get v ''success'') then ''PASSED'' else ''FAILED'', nw_result := Some v, nw_completed_at := Some now'\<rparr>"] x assms(2) unfolding complete_provider_verification_iff
      by (simp add: Let_def verifications_wf_def keyed_def)
  qed
qed

interpretation job_queue: lease_table job_holder jobs_wf
  "\<lambda>pick now now' r. mapS (map_option jw_id) (pg_lease_runner_job pick now now' r)"
  "\<lambda>now r k. mapS (map_option jw_id) (pg_heartbeat_runner_job now r k)"
  "\<lambda>now r k v. mapS (map_option jw_id) (pg_complete_runner_job now r k v)"
proof unfold_locales
  fix s s' pick now now' r k
  assume "jobs_wf s" and "mapS (map_option jw_id) (pg_lease_runner_job pick now now' r) s = (Inr (Some k), s')"
  then show "job_holder s' = (job_holder s)(k \<mapsto> (rn_id r, Some now')) \<and>
      (\<forall>q t. job_holder s k = Some (q, t) \<longrightarrow> stale t (now - seconds 45))"
    by (cases rule: lease_runner_job_cases)
       (auto simp: job_holder_dset job_row_holder_def job_holder_def leasable_job_def split: if_splits)
next
  fix s s' pick now now' r x
  assume "jobs_wf s" and "mapS (map_option jw_id) (pg_lease_runner_job pick now now' r) s = (x, s')"
  then show "\<forall>k. x \<noteq> Inr (Some k) \<Longrightarrow> job_holder s' = job_holder s" and "jobs_wf s'"
    by (cases rule: lease_runner_job_cases; simp add: job_holder_same [of s' s] jobs_wf_def)+
next
  fix s s' now r k k'
  assume "jobs_wf s" and "mapS (map_option jw_id) (pg_heartbeat_runner_job now r k) s = (Inr (Some k'), s')"
  from this(2,1) show "k' = k \<and> (\<exists>t. job_holder s k = Some (rn_id r, t)) \<and>
      job_holder s' = (job_holder s)(k \<mapsto> (rn_id r, Some now))"
    by (cases rule: heartbeat_runner_job_cases) (auto simp: job_holder_dset job_row_holder_def job_holder_def)
next
  fix s s' now r k x
  assume "jobs_wf s" and "mapS (map_option jw_id) (pg_heartbeat_runner_job now r k) s = (x, s')"
  from this(2,1) show "\<forall>k. x \<noteq> Inr (Some k) \<Longrightarrow> job_holder s' = job_holder s" and "jobs_wf s'"
    by (cases rule: heartbeat_runner_job_cases; simp add: job_holder_same [of s' s] jobs_wf_def)+
next
  fix s s' now r k v k'
  assume "jobs_wf s" and "mapS (map_option jw_id) (pg_complete_runner_job now r k v) s = (Inr (Some k'), s')"
  from this(2,1) show "k' = k \<and> (\<exists>t. job_holder s k = Some (rn_id r, t)) \<and>
      job_holder s' = (job_holder s)(k := None)"
    by (cases rule: complete_runner_job_cases) (auto simp: job_holder_dset job_row_holder_def job_holder_def)
next
  fix s s' now r k v x
  assume "jobs_wf s" and "mapS (map_option jw_id) (pg_complete_runner_job now r k v) s = (x, s')"
  from this(2,1) show "\<forall>k. x \<noteq> Inr (Some k) \<Longrightarrow> job_holder s' = job_holder s" and "jobs_wf s'"
    by (cases rule: complete_runner_job_cases; simp add: job_holder_same [of s' s] jobs_wf_def)+
qed

interpretation verification_queue: lease_table verification_holder verifications_wf
  "\<lambda>pick now now' r. mapS (map_option nw_id) (pg_lease_provider_verification pick now now' r)"
  "\<lambda>now r k. mapS (map_option nw_id) (pg_heartbeat_provider_verification now r k)"
  "\<lambda>now r k v. mapS (map_option nw_id) (pg_complete_provider_verification now now r k v)"
proof unfold_locales
  fix s s' pick now now' r k
  assume "verifications_wf s" and "mapS (map_option nw_id) (pg_lease_provider_verification pick now now' r) s = (Inr (Some k), s')"
  then show "verification_holder s' = (verification_holder s)(k \<mapsto> (rn_id r, Some now')) \<and>
      (\<forall>q t. verification_holder s k = Some (q, t) \<longrightarrow> stale t (now - seconds 45))"
    by (cases rule: lease_provider_verification_cases)
       (auto simp: verification_holder_dset verification_row_holder_def verification_holder_def leasable_verification_def split: if_splits)
next
  fix s s' pick now now' r x
  assume "verifications_wf s" and "mapS (map_option nw_id) (pg_lease_provider_verification pick now now' r) s = (x, s')"
  then show "\<forall>k. x \<noteq> Inr (Some k) \<Longrightarrow> verification_holder s' = verification_holder s" and "verifications_wf s'"
    by (cases rule: lease_provider_verification_cases; simp add: verification_holder_same [of s' s] verifications_wf_def)+
next
  fix s s' now r k k'
  assume "verifications_wf s" and "mapS (map_option nw_id) (pg_heartbeat_provider_verification now r k) s = (Inr (Some k'), s')"
  from this(2,1) show "k' = k \<and> (\<exists>t. verification_holder s k = Some (rn_id r, t)) \<and>
      verification_holder s' = (verification_holder s)(k \<mapsto> (rn_id r, Some now))"
    by (cases rule: heartbeat_provider_verification_cases) (auto simp: verification_holder_dset verification_row_holder_def verification_holder_def)
next
  fix s s' now r k x
  assume "verifications_wf s" and "mapS (map_option nw_id) (pg_heartbeat_provider_verification now r k) s = (x, s')"
  from this(2,1) show "\<forall>k. x \<noteq> Inr (Some k) \<Longrightarrow> verification_holder s' = verification_holder s" and "verifications_wf s'"
    by (cases rule: heartbeat_provider_verification_cases; simp add: verification_holder_same [of s' s] verifications_wf_def)+
next
  fix s s' now r k v k'
  assume "verifications_wf s" and "mapS (map_option nw_id) (pg_complete_provider_verification now now r k v) s = (Inr (Some k'), s')"
  from this(2,1) show "k' = k \<and> (\<exists>t. verification_holder s k = Some (rn_id r, t)) \<and>
      verification_holder s' = (verification_holder s)(k := None)"
    by (cases rule: complete_provider_verification_cases) (auto simp: verification_holder_dset verification_row_holder_def verification_holder_def)
next
  fix s s' now r k v x
  assume "verifications_wf s" and "mapS (map_option nw_id) (pg_complete_provider_verification now now r k v) s = (x, s')"
  from this(2,1) show "\<forall>k. x \<noteq> Inr (Some k) \<Longrightarrow> verification_holder s' = verification_holder s" and "verifications_wf s'"
    by (cases rule: complete_provider_verification_cases; simp add: verification_holder_same [of s' s] verifications_wf_def)+
qed

end
