(* ===== verification/DlActivities.thy ===== *)
theory DlActivities
  imports DlLeases
begin

text \<open>
  \<open>adapters/activities.py\<close>, \<open>adapters/temporal_workflow.py\<close> and \<open>entrypoints/events.py\<close> of
  the delivery service: what turns an approved execution into a pull request. The dispatcher of
  its workflow commands is in \<open>DlDispatcher\<close>.

  Each \<open>async with self._sessions()\<close> block is one transaction (\<open>in_session\<close>): its body
  returns a value and whether it committed; an exception, or leaving the block without a
  commit, leaves the tables as they were. One pass of the \<open>while True\<close> loop of
  \<open>execute_delivery\<close> is \<open>act_poll\<close>; between two passes the runners change the tables.
  Identifiers and times drawn for events are functions of a counter; how Python prints floats
  and containers is the parameter \<open>rp\<close>. A job result is the JSON document the runner
  reported; where the code would raise on a document of another shape, so does the model.
\<close>

section \<open>Sessions\<close>

definition in_session :: "(dl_db, dl_error, 'a \<times> bool) oper \<Rightarrow> (dl_db, dl_error, 'a) oper" where
  "in_session m s =
     (let s0 = s\<lparr>pd_organization := None\<rparr> in
      case m s0 of
        (Inl e, _) \<Rightarrow> (Inl e, s0)
      | (Inr (a, committed), s') \<Rightarrow>
          (Inr a, if committed then s'\<lparr>pd_organization := None\<rparr> else s0))"

section \<open>Activities\<close>

definition AGENT_EVENT_KIND_MAP :: "(string, execution_event_kind) dict" where
  "AGENT_EVENT_KIND_MAP =
     [(''PLAN'', EK_PLAN), (''TOOL'', EK_TOOL), (''COMMAND'', EK_COMMAND), (''RESULT'', EK_RESULT),
      (''ERROR'', EK_ERROR), (''APPROVAL'', EK_APPROVAL), (''USAGE'', EK_COST)]"

definition act_event ::
  "uuid \<times> time \<Rightarrow> uuid \<Rightarrow> uuid \<Rightarrow> execution_event_kind \<Rightarrow> string \<Rightarrow> string \<Rightarrow>
     (string \<times> json) list \<Rightarrow> (dl_db, dl_error, unit) oper" where
  "act_event fresh execution_id organization_id kind name message metadata =
     bindS (pg_next_event_sequence execution_id) (\<lambda>sequence.
     pg_append_event
       \<lparr>ee_id = fst fresh, ee_execution_id = execution_id, ee_organization_id = organization_id,
        ee_sequence = sequence, ee_kind = kind, ee_name = name, ee_message = message,
        ee_occurred_at = snd fresh, ee_metadata = metadata\<rparr>)"

definition act_cancel_execution ::
  "(json \<Rightarrow> string) \<Rightarrow> (nat \<Rightarrow> uuid \<times> time) \<Rightarrow> uuid \<Rightarrow> uuid \<Rightarrow> (dl_db, dl_error, unit) oper" where
  "act_cancel_execution rp fresh organization_id execution_id =
     in_session
       (bindS (pg_get_execution rp organization_id execution_id) (\<lambda>found.
        case found of
          None \<Rightarrow> returnS ((), False)
        | Some e \<Rightarrow>
            if \<not> ex_cancellation_requested e then returnS ((), False)
            else bindS (deliveryS (execution_cancel e)) (\<lambda>e'.
              seqS (pg_update_execution e')
              (seqS (act_event (fresh 0) (ex_id e') (ex_organization_id e') EK_STATE
                 ''execution.cancelled'' ''Execution was cancelled and cleanup was requested.'' [])
              (returnS ((), True))))))"

definition job_payload :: "execution \<Rightarrow> provider_configuration \<Rightarrow> (string \<times> json) list" where
  "job_payload e c =
     [(''execution_id'', JStr (str_uuid (ex_id e))),
      (''organization_id'', JStr (str_uuid (ex_organization_id e))),
      (''repository_connection_id'', JStr (str_uuid (ex_repository_connection_id e))),
      (''provider'', JStr (pc_provider c)),
      (''runtime'', JStr (pc_runtime c)),
      (''model'', JStr (pc_model c)),
      (''authentication_mode'', JStr (authentication_mode_value (pc_authentication_mode c))),
      (''secret_reference'',
        (case pc_secret_reference c of None \<Rightarrow> JNull | Some r \<Rightarrow> dump_secret_reference r)),
      (''title'', JStr (ex_title e)),
      (''problem'', JStr (ex_description e)),
      (''acceptance_criteria'', JList (map JStr (ex_acceptance_criteria e))),
      (''max_turns'', JInt (eb_max_turns (ex_budget e))),
      (''max_duration_seconds'', JInt (eb_max_duration_seconds (ex_budget e))),
      (''validation_commands'',
        JList [JObj [(''executable'', JStr ''python''), (''arguments'', JList [JStr ''verify.py'']),
                     (''timeout_seconds'', JInt 30)]])]"

definition act_enqueue ::
  "(json \<Rightarrow> string) \<Rightarrow> (nat \<Rightarrow> uuid \<times> time) \<Rightarrow> uuid \<Rightarrow> uuid \<Rightarrow> (dl_db, dl_error, unit) oper" where
  "act_enqueue rp fresh organization_id execution_id =
     in_session
       (bindS (pg_get_execution rp organization_id execution_id) (\<lambda>found.
        bindS (requireS (DlRuntimeE ''execution not found'') found) (\<lambda>e.
        bindS (pg_get_provider_configuration organization_id (ex_provider_configuration_id e))
         (\<lambda>found_configuration.
        bindS (requireS (DlRuntimeE ''provider configuration not found'') found_configuration) (\<lambda>c.
        bindS (if ex_status e = ES_QUEUED
               then bindS (deliveryS (start_provisioning e)) (\<lambda>e1.
                    bindS (deliveryS (start_planning e1)) (\<lambda>e2.
                    bindS (deliveryS (start_building e2)) (\<lambda>e3.
                    seqS (pg_update_execution e3) (returnS e3))))
               else returnS e) (\<lambda>e'.
        bindS (pg_create_runner_job e' (job_payload e' c)) (\<lambda>_.
        seqS (act_event (fresh 0) (ex_id e') (ex_organization_id e') EK_STATE ''runner.job_queued''
                ''An isolated runner job was queued without credential values.'' [])
        (returnS ((), True)))))))))"

text \<open>\<open>document.get(key, default)\<close> on a value that must be an object.\<close>

definition get_or ::
  "json \<Rightarrow> string \<Rightarrow> json \<Rightarrow> dl_error + json" where
  "get_or document k dflt =
     (case document of JObj kvs \<Rightarrow> Inr (obj_get_default kvs k dflt) | _ \<Rightarrow> Inl DlTypeE)"

definition int_of :: "json \<Rightarrow> dl_error + int" where
  "int_of j = (case py_int j of None \<Rightarrow> Inl DlTypeE | Some i \<Rightarrow> Inr i)"

text \<open>\<open>bool(agent.get("success")) and bool(validation.get("passed"))\<close>.\<close>

definition verdict :: "json \<Rightarrow> json \<Rightarrow> dl_error + bool" where
  "verdict agent validation =
     (case get_or agent ''success'' JNull of
        Inl e \<Rightarrow> Inl e
      | Inr success \<Rightarrow>
          if \<not> truthy success then Inr False
          else (case get_or validation ''passed'' JNull of
                  Inl e \<Rightarrow> Inl e
                | Inr passed \<Rightarrow> Inr (truthy passed)))"

text \<open>Appending the agent's events; the \<open>n\<close>-th drawn identifier and time go with the next one.\<close>

fun act_agent_events ::
  "(json \<Rightarrow> string) \<Rightarrow> (nat \<Rightarrow> uuid \<times> time) \<Rightarrow> nat \<Rightarrow> uuid \<Rightarrow> uuid \<Rightarrow> json list \<Rightarrow>
     (dl_db, dl_error, nat) oper" where
  "act_agent_events rp fresh n execution_id organization_id [] = returnS n"
| "act_agent_events rp fresh n execution_id organization_id (JObj event # items) =
     bindS (let metadata = obj_get event ''metadata'' in
            if \<not> truthy metadata then returnS []
            else (case metadata of JObj kvs \<Rightarrow> returnS kvs | _ \<Rightarrow> raiseS DlTypeE)) (\<lambda>metadata.
     seqS (act_event (fresh n) execution_id organization_id
             (case dget AGENT_EVENT_KIND_MAP
                     (py_str rp (obj_get_default event ''kind'' (JStr ''TOOL''))) of
                None \<Rightarrow> EK_TOOL | Some kind \<Rightarrow> kind)
             (py_str rp (obj_get_default event ''name'' (JStr ''agent.event'')))
             (py_str rp (obj_get_default event ''message'' (JStr ''Agent emitted an event.'')))
             metadata)
     (act_agent_events rp fresh (Suc n) execution_id organization_id items))"
| "act_agent_events rp fresh n execution_id organization_id (_ # items) = raiseS DlTypeE"

datatype poll =
    Waiting
  | RepairQueued
  | Returned string
  | Verified execution "(string \<times> json) list"

definition verification_message :: "bool \<Rightarrow> string" where
  "verification_message ok =
     (if ok then ''Agent completed and independent verification passed.''
      else ''Delivery evidence failed: the agent or independent verification did not pass.'')"

text \<open>What happens to a completed job's execution \<open>e\<close> and to the job.\<close>

definition act_process_result ::
  "(json \<Rightarrow> string) \<Rightarrow> (nat \<Rightarrow> uuid \<times> time) \<Rightarrow> execution \<Rightarrow> job_row \<Rightarrow>
     (dl_db, dl_error, poll \<times> bool) oper" where
  "act_process_result rp fresh e job =
     (let result = (case jw_result job of None \<Rightarrow> [] | Some r \<Rightarrow> r);
          agent = obj_get_default result ''agent'' (JObj []);
          validation = obj_get_default result ''validation'' (JObj []) in
      bindS (liftS (get_or agent ''turns'' (JInt 0))) (\<lambda>turns_value.
      bindS (liftS (int_of turns_value)) (\<lambda>turns.
      bindS (liftS (int_of (obj_get_default result ''duration_seconds'' (JInt 0)))) (\<lambda>duration.
      bindS (liftS (int_of (obj_get_default result ''cost_minor'' (JInt 0)))) (\<lambda>cost.
      bindS (deliveryS (record_usage 1 turns duration cost e)) (\<lambda>e1.
      bindS (deliveryS (start_verification e1)) (\<lambda>e2.
      seqS (pg_update_execution e2)
      (bindS (liftS (get_or agent ''events'' (JList []))) (\<lambda>events.
      bindS (case events of JList items \<Rightarrow> returnS items | _ \<Rightarrow> raiseS DlTypeE) (\<lambda>items.
      bindS (act_agent_events rp fresh 0 (ex_id e2) (ex_organization_id e2) items) (\<lambda>n.
      bindS (liftS (verdict agent validation)) (\<lambda>ok.
      seqS (act_event (fresh n) (ex_id e2) (ex_organization_id e2) EK_RESULT
              ''verification.completed'' (verification_message ok) [])
      (if \<not> ok then
         bindS (deliveryS (request_repair e2)) (\<lambda>e3.
         if ex_status e3 = ES_REPAIRING then
           bindS (deliveryS (start_building e3)) (\<lambda>e4.
           seqS (writeS (\<lambda>s. s\<lparr>pd_jobs := dset (jw_id job)
                   (job\<lparr>jw_status := ''QUEUED'', jw_result := None,
                        jw_leased_by_runner_id := None, jw_leased_at := None\<rparr>) (pd_jobs s)\<rparr>))
           (seqS (pg_update_execution e4)
           (seqS (act_event (fresh (Suc n)) (ex_id e4) (ex_organization_id e4) EK_DECISION
                    ''repair.queued'' ''Verification failed; a bounded repair attempt was queued.'' [])
           (returnS (RepairQueued, True)))))
         else seqS (pg_update_execution e3)
              (returnS (Returned (execution_status_value (ex_status e3)), True)))
       else
         bindS (deliveryS (start_delivery e2)) (\<lambda>e3.
         seqS (pg_update_execution e3) (returnS (Verified e3 result, True))))))))))))))))"

definition act_poll ::
  "(json \<Rightarrow> string) \<Rightarrow> (nat \<Rightarrow> uuid \<times> time) \<Rightarrow> uuid \<Rightarrow> uuid \<Rightarrow> (dl_db, dl_error, poll) oper" where
  "act_poll rp fresh organization_id execution_id =
     in_session
       (bindS (pg_get_execution rp organization_id execution_id) (\<lambda>found.
        bindS (pg_runner_job_for_execution organization_id execution_id) (\<lambda>found_job.
        case (found, found_job) of
          (Some e, Some job) \<Rightarrow>
            if jw_status job \<noteq> ''COMPLETED'' then returnS (Waiting, False)
            else act_process_result rp fresh e job
        | _ \<Rightarrow> raiseS (DlRuntimeE ''execution job disappeared''))))"

text \<open>The request \<open>_create_pull_request\<close> sends to the integrations service.\<close>

definition pull_request_body ::
  "(json \<Rightarrow> string) \<Rightarrow> uuid \<Rightarrow> execution \<Rightarrow> (string \<times> json) list \<Rightarrow> (string \<times> json) list" where
  "pull_request_body rp organization_id e result =
     (let commit_sha = py_str rp (obj_get_default result ''commit_sha'' (JStr ''unknown'')) in
      [(''organization_id'', JStr (str_uuid organization_id)),
       (''repository_id'', JStr (str_uuid (ex_repository_connection_id e))),
       (''title'', JStr (ex_title e)),
       (''body'', JStr (''Independently verified by MVP Master.'' @ [CHR 0x0A, CHR 0x0A]
          @ ''Execution: '' @ str_uuid (ex_id e) @ [CHR 0x0A] @ ''Commit: '' @ commit_sha)),
       (''head_branch'', JStr (''mvp-master/executions/'' @ str_uuid (ex_id e))),
       (''head_sha'', JStr commit_sha),
       (''idempotency_key'', JStr (str_uuid (ex_id e)))])"

definition act_deliver ::
  "(json \<Rightarrow> string) \<Rightarrow> (nat \<Rightarrow> uuid \<times> time) \<Rightarrow> uuid \<Rightarrow> uuid \<Rightarrow> external_reference \<Rightarrow>
     (dl_db, dl_error, string) oper" where
  "act_deliver rp fresh organization_id execution_id reference =
     in_session
       (bindS (pg_get_execution rp organization_id execution_id) (\<lambda>found.
        bindS (requireS (DlRuntimeE ''execution disappeared during delivery'') found) (\<lambda>e.
        bindS (deliveryS (deliver reference e)) (\<lambda>e'.
        seqS (pg_update_execution e')
        (seqS (act_event (fresh 0) (ex_id e') (ex_organization_id e') EK_RESULT
                 ''delivery.completed'' ''Verified changes were associated with a pull request.'' [])
        (returnS (execution_status_value (ex_status e'), True)))))))"

section \<open>The workflow\<close>

text \<open>
  \<open>DeliveryWorkflow\<close>: the two signal flags, and where \<open>run\<close> is. The execution of an activity
  ends with its result or, where it failed for good, with the failure of the workflow.
\<close>

datatype workflow_phase =
    WP_Recording | WP_WaitingForSignal | WP_Cancelling | WP_Delivering
  | WP_Completed string | WP_Failed

record workflow_state =
  ws_approved :: bool
  ws_cancelled :: bool
  ws_approval_actor :: "string option"
  ws_phase :: workflow_phase

definition workflow_init :: workflow_state where
  "workflow_init = \<lparr>ws_approved = False, ws_cancelled = False, ws_approval_actor = None,
                    ws_phase = WP_Recording\<rparr>"

definition signal_approve :: "string \<Rightarrow> workflow_state \<Rightarrow> workflow_state" where
  "signal_approve actor_subject w = w\<lparr>ws_approved := True, ws_approval_actor := Some actor_subject\<rparr>"

definition signal_cancel :: "string \<Rightarrow> workflow_state \<Rightarrow> workflow_state" where
  "signal_cancel actor_subject w = w\<lparr>ws_cancelled := True\<rparr>"

text \<open>
  One step of \<open>run\<close>: \<open>None\<close> where it waits. The argument is the outcome of the activity the
  phase awaits: \<open>None\<close> a failure (after the attempts its retry policy allows).
\<close>

definition workflow_run :: "string option \<Rightarrow> workflow_state \<Rightarrow> workflow_state option" where
  "workflow_run outcome w =
     (case ws_phase w of
        WP_Recording \<Rightarrow>
          Some (w\<lparr>ws_phase := (case outcome of None \<Rightarrow> WP_Failed | Some _ \<Rightarrow> WP_WaitingForSignal)\<rparr>)
      | WP_WaitingForSignal \<Rightarrow>
          if ws_cancelled w then Some (w\<lparr>ws_phase := WP_Cancelling\<rparr>)
          else if ws_approved w then Some (w\<lparr>ws_phase := WP_Delivering\<rparr>)
          else None
      | WP_Cancelling \<Rightarrow>
          Some (w\<lparr>ws_phase := (case outcome of None \<Rightarrow> WP_Failed | Some _ \<Rightarrow> WP_Completed ''CANCELLED'')\<rparr>)
      | WP_Delivering \<Rightarrow>
          Some (w\<lparr>ws_phase := (case outcome of None \<Rightarrow> WP_Failed | Some r \<Rightarrow> WP_Completed r)\<rparr>)
      | WP_Completed r \<Rightarrow> None
      | WP_Failed \<Rightarrow> None)"

section \<open>Domain events\<close>

text \<open>\<open>event.data[key]\<close>, and the conversions \<open>process_event\<close> applies.\<close>

definition data_item :: "(string \<times> json) list \<Rightarrow> string \<Rightarrow> dl_error + json" where
  "data_item data k = (case map_of data k of None \<Rightarrow> Inl DlKeyE | Some v \<Rightarrow> Inr v)"

definition data_uuid :: "(json \<Rightarrow> string) \<Rightarrow> (string \<times> json) list \<Rightarrow> string \<Rightarrow> dl_error + uuid" where
  "data_uuid rp data k =
     (case data_item data k of Inl e \<Rightarrow> Inl e
      | Inr v \<Rightarrow> (case uuid_of_str (py_str rp v) of
                   None \<Rightarrow> Inl (DlValueE ''badly formed hexadecimal UUID string'') | Some u \<Rightarrow> Inr u))"

definition data_str :: "(json \<Rightarrow> string) \<Rightarrow> (string \<times> json) list \<Rightarrow> string \<Rightarrow> dl_error + string" where
  "data_str rp data k = map_sum id (py_str rp) (data_item data k)"

definition process_event ::
  "(json \<Rightarrow> string) \<Rightarrow> uuid \<Rightarrow> uuid \<Rightarrow> time \<Rightarrow> event_envelope \<Rightarrow> (dl_db, dl_error, unit) oper" where
  "process_event rp execution_id event_id now event =
     in_session
       (bindS (pg_record_inbox (ev_id event) (ev_organization_id event) (ev_type event)) (\<lambda>new.
        if \<not> new then returnS ((), False)
        else if ev_type event = ''com.mvp.membership.changed.v1'' then
          bindS (liftS (data_str rp (ev_data event) ''subject'')) (\<lambda>subject.
          bindS (liftS (data_str rp (ev_data event) ''role'')) (\<lambda>r.
          bindS (liftS (data_item (ev_data event) ''active'')) (\<lambda>active.
          seqS (pg_upsert_membership (ev_organization_id event) subject r (truthy active))
          (returnS ((), True)))))
        else if ev_type event = ''com.mvp.work_item.ready.v1'' then
          let data = ev_data event in
          bindS (liftS (data_item data ''budget'')) (\<lambda>budget_value.
          bindS (case budget_value of JObj b \<Rightarrow> returnS b | _ \<Rightarrow> raiseS DlTypeE) (\<lambda>b.
          bindS (liftS (data_uuid rp data ''project_id'')) (\<lambda>project_id.
          bindS (liftS (data_uuid rp data ''work_item_id'')) (\<lambda>work_item_id.
          bindS (liftS (data_str rp data ''title'')) (\<lambda>title.
          bindS (liftS (data_str rp data ''description'')) (\<lambda>description.
          bindS (liftS (data_item data ''acceptance_criteria'')) (\<lambda>criteria_value.
          bindS (case criteria_value of JList xs \<Rightarrow> returnS xs | _ \<Rightarrow> raiseS DlTypeE) (\<lambda>criteria.
          bindS (liftS (data_uuid rp data ''repository_connection_id'')) (\<lambda>repository_connection_id.
          bindS (liftS (data_uuid rp data ''provider_configuration_id'')) (\<lambda>provider_configuration_id.
          bindS (liftS (data_uuid rp data ''runner_pool_id'')) (\<lambda>runner_pool_id.
          bindS (liftS (budget_of_json rp b)) (\<lambda>limits.
          bindS (accept_ready_work_item (PostgresDeliveryRepository rp) PostgresWorkflowGateway
                   execution_id event_id now (ev_organization_id event) project_id work_item_id
                   title description (map (py_str rp) criteria) repository_connection_id
                   provider_configuration_id runner_pool_id limits (ev_correlation_id event)) (\<lambda>_.
          returnS ((), True))))))))))))))
        else returnS ((), True)))"

lemmas act_defs = act_event_def act_cancel_execution_def act_enqueue_def act_process_result_def
  act_poll_def act_deliver_def

end
