(* ===== verification/DlReports.thy ===== *)
theory DlReports
  imports DlActivities
begin

text \<open>
  The request models of \<open>entrypoints/api.py\<close> (delivery) that reach the domain: the runner's
  report of a finished job, with the field constraints pydantic enforces and the document
  \<open>model_dump(mode="json")\<close> that is stored as the job's result, and the budget of an accepted
  work item.
\<close>

record agent_event_report =
  ar_sequence :: int
  ar_kind :: string
  ar_name :: string
  ar_message :: string
  ar_metadata :: "(string \<times> json) list"

definition scalar :: "json \<Rightarrow> bool" where
  "scalar j = (case j of JStr _ \<Rightarrow> True | JInt _ \<Rightarrow> True | JBool _ \<Rightarrow> True | JNull \<Rightarrow> True | _ \<Rightarrow> False)"

definition valid_agent_event :: "agent_event_report \<Rightarrow> bool" where
  "valid_agent_event r \<longleftrightarrow>
     1 \<le> ar_sequence r \<and>
     ar_kind r \<in> {''PLAN'', ''TOOL'', ''COMMAND'', ''RESULT'', ''ERROR'', ''APPROVAL'', ''USAGE''} \<and>
     field_length 1 128 (ar_name r) \<and> field_length 1 4000 (ar_message r) \<and>
     list_all (\<lambda>p. scalar (snd p)) (ar_metadata r)"

definition dump_agent_event :: "agent_event_report \<Rightarrow> json" where
  "dump_agent_event r =
     JObj [(''sequence'', JInt (ar_sequence r)), (''kind'', JStr (ar_kind r)),
           (''name'', JStr (ar_name r)), (''message'', JStr (ar_message r)),
           (''metadata'', JObj (ar_metadata r))]"

record agent_report =
  ag_success :: bool
  ag_summary :: string
  ag_turns :: int
  ag_changed_paths :: "string list"
  ag_events :: "agent_event_report list"
  ag_session_id :: "string option"
  ag_input_tokens :: "int option"
  ag_cached_input_tokens :: "int option"
  ag_output_tokens :: "int option"

definition opt_int :: "int option \<Rightarrow> json" where
  "opt_int v = (case v of None \<Rightarrow> JNull | Some i \<Rightarrow> JInt i)"

definition ge0 :: "int option \<Rightarrow> bool" where
  "ge0 v = (case v of None \<Rightarrow> True | Some i \<Rightarrow> 0 \<le> i)"

definition valid_agent_report :: "agent_report \<Rightarrow> bool" where
  "valid_agent_report r \<longleftrightarrow>
     length (ag_summary r) \<le> 4000 \<and> 0 \<le> ag_turns r \<and> ag_turns r \<le> 10000 \<and>
     length (ag_changed_paths r) \<le> 10000 \<and>
     length (ag_events r) \<le> 10000 \<and> list_all valid_agent_event (ag_events r) \<and>
     optional_length 200 (ag_session_id r) \<and> ge0 (ag_input_tokens r) \<and>
     ge0 (ag_cached_input_tokens r) \<and> ge0 (ag_output_tokens r)"

definition dump_agent_report :: "agent_report \<Rightarrow> json" where
  "dump_agent_report r =
     JObj [(''success'', JBool (ag_success r)), (''summary'', JStr (ag_summary r)),
           (''turns'', JInt (ag_turns r)),
           (''changed_paths'', JList (map JStr (ag_changed_paths r))),
           (''events'', JList (map dump_agent_event (ag_events r))),
           (''session_id'', opt_str (ag_session_id r)),
           (''input_tokens'', opt_int (ag_input_tokens r)),
           (''cached_input_tokens'', opt_int (ag_cached_input_tokens r)),
           (''output_tokens'', opt_int (ag_output_tokens r))]"

record validation_evidence_report =
  ve_executable :: string
  ve_arguments :: "string list"
  ve_exit_code :: int
  ve_stdout :: string
  ve_stderr :: string
  ve_duration_ms :: int

definition valid_evidence :: "validation_evidence_report \<Rightarrow> bool" where
  "valid_evidence r \<longleftrightarrow>
     field_length 1 512 (ve_executable r) \<and> length (ve_arguments r) \<le> 100 \<and>
     length (ve_stdout r) \<le> 65536 \<and> length (ve_stderr r) \<le> 65536 \<and> 0 \<le> ve_duration_ms r"

definition dump_evidence :: "validation_evidence_report \<Rightarrow> json" where
  "dump_evidence r =
     JObj [(''executable'', JStr (ve_executable r)),
           (''arguments'', JList (map JStr (ve_arguments r))),
           (''exit_code'', JInt (ve_exit_code r)), (''stdout'', JStr (ve_stdout r)),
           (''stderr'', JStr (ve_stderr r)), (''duration_ms'', JInt (ve_duration_ms r))]"

record validation_report =
  vr_passed :: bool
  vr_validator_image :: string
  vr_evidence :: "validation_evidence_report list"

definition valid_validation_report :: "validation_report \<Rightarrow> bool" where
  "valid_validation_report r \<longleftrightarrow>
     field_length 1 512 (vr_validator_image r) \<and> length (vr_evidence r) \<le> 100 \<and>
     list_all valid_evidence (vr_evidence r)"

definition dump_validation_report :: "validation_report \<Rightarrow> json" where
  "dump_validation_report r =
     JObj [(''passed'', JBool (vr_passed r)), (''validator_image'', JStr (vr_validator_image r)),
           (''evidence'', JList (map dump_evidence (vr_evidence r)))]"

record runner_job_complete =
  rj_commit_sha :: string
  rj_patch :: string
  rj_duration_seconds :: int
  rj_cost_minor :: int
  rj_agent :: agent_report
  rj_validation :: validation_report

definition lower_hex :: "char \<Rightarrow> bool" where
  "lower_hex c = (let n = (of_char c :: nat) in (48 \<le> n \<and> n \<le> 57) \<or> (97 \<le> n \<and> n \<le> 102))"

definition valid_job_report :: "runner_job_complete \<Rightarrow> bool" where
  "valid_job_report r \<longleftrightarrow>
     length (rj_commit_sha r) = 40 \<and> list_all lower_hex (rj_commit_sha r) \<and>
     length (rj_patch r) \<le> 131072 \<and> 0 \<le> rj_duration_seconds r \<and> 0 \<le> rj_cost_minor r \<and>
     valid_agent_report (rj_agent r) \<and> valid_validation_report (rj_validation r)"

definition dump_job_report :: "runner_job_complete \<Rightarrow> (string \<times> json) list" where
  "dump_job_report r =
     [(''commit_sha'', JStr (rj_commit_sha r)), (''patch'', JStr (rj_patch r)),
      (''duration_seconds'', JInt (rj_duration_seconds r)),
      (''cost_minor'', JInt (rj_cost_minor r)),
      (''agent'', dump_agent_report (rj_agent r)),
      (''validation'', dump_validation_report (rj_validation r))]"

text \<open>Whether the report says the work was done and verified.\<close>

definition report_verified :: "runner_job_complete \<Rightarrow> bool" where
  "report_verified r \<longleftrightarrow> ag_success (rj_agent r) \<and> vr_passed (rj_validation r)"

section \<open>Reading a stored report\<close>

lemma read_report [simp]:
  "obj_get_default (dump_job_report r) ''agent'' j = dump_agent_report (rj_agent r)"
  "obj_get_default (dump_job_report r) ''validation'' j = dump_validation_report (rj_validation r)"
  "obj_get_default (dump_job_report r) ''duration_seconds'' j = JInt (rj_duration_seconds r)"
  "obj_get_default (dump_job_report r) ''cost_minor'' j = JInt (rj_cost_minor r)"
  "obj_get_default (dump_job_report r) ''commit_sha'' j = JStr (rj_commit_sha r)"
  by (simp_all add: obj_get_default_def dump_job_report_def)

lemma read_agent [simp]:
  "get_or (dump_agent_report a) ''turns'' j = Inr (JInt (ag_turns a))"
  "get_or (dump_agent_report a) ''events'' j = Inr (JList (map dump_agent_event (ag_events a)))"
  "get_or (dump_agent_report a) ''success'' j = Inr (JBool (ag_success a))"
  "get_or (dump_validation_report v) ''passed'' j = Inr (JBool (vr_passed v))"
  by (simp_all add: get_or_def dump_agent_report_def dump_validation_report_def obj_get_default_def)

lemma int_of_JInt [simp]: "int_of (JInt i) = Inr i"
  by (simp add: int_of_def py_int_def)

lemma verdict_report [simp]:
  "verdict (dump_agent_report (rj_agent r)) (dump_validation_report (rj_validation r))
     = Inr (report_verified r)"
  by (simp add: verdict_def report_verified_def)

section \<open>The budget of a work item\<close>

text \<open>\<open>BudgetRequest\<close>: the bounds of a budget accepted over HTTP.\<close>

definition upper_char :: "char \<Rightarrow> bool" where
  "upper_char c = (let n = (of_char c :: nat) in 65 \<le> n \<and> n \<le> 90)"

definition valid_budget_request :: "execution_budget \<Rightarrow> bool" where
  "valid_budget_request b \<longleftrightarrow>
     30 \<le> eb_max_duration_seconds b \<and> eb_max_duration_seconds b \<le> 86400 \<and>
     1 \<le> eb_max_attempts b \<and> eb_max_attempts b \<le> 10 \<and>
     1 \<le> eb_max_turns b \<and> eb_max_turns b \<le> 100 \<and>
     0 \<le> eb_max_cost_minor b \<and> eb_max_cost_minor b \<le> 10000000 \<and>
     length (eb_currency b) = 3 \<and> list_all upper_char (eb_currency b)"

end
