(* ===== verification/DlApi.thy ===== *)
theory DlApi
  imports DlReports
begin

text \<open>
  The request handlers of \<open>entrypoints/api.py\<close> of the delivery service. A handler is an
  operation on the tables; \<open>api_request\<close> is its session: committed when the handler returns,
  rolled back when it raises, an \<open>HTTPException\<close> included. The authenticated subject is an
  argument (validating an OIDC token is a library's part), so are the header values, the values
  of \<open>uuid4()\<close> and of the clocks. \<open>encode claims key\<close> is \<open>jwt.encode\<close>, \<open>hash\<close> the SHA-256
  digest, \<open>isoformat\<close> is \<open>datetime.isoformat\<close>, \<open>rp\<close> how Python prints floats and containers. A
  response is the value that is serialized; \<open>None\<close> stands for 204.
\<close>

definition api_request :: "(dl_db, dl_error, 'a) oper \<Rightarrow> (dl_db, dl_error, 'a) oper" where
  "api_request m = in_session (bindS m (\<lambda>a. returnS (a, True)))"

definition http_error :: "nat \<Rightarrow> string \<Rightarrow> (dl_db, dl_error, 'a) oper" where
  "http_error code detail = raiseS (DlHttpE code detail)"

definition MANAGEMENT_ROLES :: "string list" where
  "MANAGEMENT_ROLES = [''OWNER'', ''ADMIN'']"

definition EXECUTION_ROLES :: "string list" where
  "EXECUTION_ROLES = [''OWNER'', ''ADMIN'', ''DEVELOPER'', ''REVIEWER'']"

definition REVIEW_ROLES :: "string list" where
  "REVIEW_ROLES = [''OWNER'', ''ADMIN'', ''REVIEWER'']"

definition authorize :: "uuid \<Rightarrow> string \<Rightarrow> string list \<Rightarrow> (dl_db, dl_error, unit) oper" where
  "authorize organization_id subject allowed =
     bindS (pg_role_for organization_id subject) (\<lambda>found.
     case found of
       None \<Rightarrow> http_error 403 ''membership cannot perform this action''
     | Some r \<Rightarrow> if r \<in> set allowed then returnS ()
                 else http_error 403 ''membership cannot perform this action'')"

section \<open>Provider configurations\<close>

record provider_configuration_create =
  pr_display_name :: string
  pr_provider :: string
  pr_runtime :: string
  pr_model :: string
  pr_authentication_mode :: authentication_mode
  pr_secret_reference :: "(string \<times> string \<times> string \<times> string option) option"
  pr_is_development_substitute :: bool

definition valid_provider_configuration_create :: "provider_configuration_create \<Rightarrow> bool" where
  "valid_provider_configuration_create p \<longleftrightarrow>
     field_length 2 200 (pr_display_name p) \<and> field_length 1 64 (pr_provider p) \<and>
     field_length 1 64 (pr_runtime p) \<and> field_length 1 200 (pr_model p) \<and>
     (case pr_secret_reference p of
        None \<Rightarrow> True
      | Some (store, namespace, key, version) \<Rightarrow>
          field_length 1 64 store \<and> field_length 1 128 namespace \<and> field_length 1 256 key \<and>
          optional_length 128 version)"

text \<open>\<open>except (UnsupportedProviderConfiguration, ValueError) as error: raise HTTPException(422)\<close>.\<close>

definition unprocessable :: "(dl_db, dl_error, 'a) oper \<Rightarrow> (dl_db, dl_error, 'a) oper" where
  "unprocessable m s =
     (case m s of
        (Inl (DeliveryE (UnsupportedProviderConfiguration e)), s') \<Rightarrow> (Inl (DlHttpE 422 e), s')
      | (Inl (DlValueE e), s') \<Rightarrow> (Inl (DlHttpE 422 e), s')
      | r \<Rightarrow> r)"

definition api_create_provider_configuration ::
  "uuid \<Rightarrow> uuid \<Rightarrow> string \<Rightarrow> provider_configuration_create \<Rightarrow>
     (dl_db, dl_error, provider_configuration) oper" where
  "api_create_provider_configuration configuration_id organization_id subject payload =
     seqS (authorize organization_id subject MANAGEMENT_ROLES)
     (bindS (case pr_secret_reference payload of
               None \<Rightarrow> returnS None
             | Some (store, namespace, key, version) \<Rightarrow>
                 liftS (map_sum DlValueE Some (SecretReference store namespace key version))) (\<lambda>reference.
      seqS (case reference of
              None \<Rightarrow> returnS ()
            | Some r \<Rightarrow>
                if sr_store r \<noteq> ''encrypted-file'' \<or>
                   sr_namespace r \<noteq> ''model-credentials/'' @ str_uuid organization_id
                then http_error 422 ''secret reference is not owned by this organization''
                else returnS ())
      (unprocessable (create_provider_configuration (PostgresDeliveryRepository (\<lambda>_. [])) configuration_id
         organization_id subject (pr_display_name payload) (pr_provider payload) (pr_runtime payload)
         (pr_model payload) (pr_authentication_mode payload) reference
         (pr_is_development_substitute payload)))))"

fun with_verification ::
  "uuid \<Rightarrow> provider_configuration list \<Rightarrow>
     (dl_db, dl_error, (provider_configuration \<times> string \<times> string option) list) oper" where
  "with_verification organization_id [] = returnS []"
| "with_verification organization_id (item # items) =
     bindS (pg_latest_provider_verification organization_id (pc_id item)) (\<lambda>latest.
     bindS (with_verification organization_id items) (\<lambda>rest.
     returnS ((item,
       (case latest of None \<Rightarrow> ''NOT_VERIFIED'' | Some row \<Rightarrow> nw_status row),
       map_option (\<lambda>row. str_uuid (nw_id row)) latest) # rest)))"

definition api_provider_configurations ::
  "uuid \<Rightarrow> string \<Rightarrow> (dl_db, dl_error, (provider_configuration \<times> string \<times> string option) list) oper" where
  "api_provider_configurations organization_id subject =
     seqS (authorize organization_id subject EXECUTION_ROLES)
     (bindS (pg_list_provider_configurations organization_id) (with_verification organization_id))"

definition api_agent_catalog ::
  "uuid \<Rightarrow> string \<Rightarrow> (dl_db, dl_error, (agent_catalog_entry \<times> string \<times> bool) list) oper" where
  "api_agent_catalog organization_id subject =
     seqS (authorize organization_id subject EXECUTION_ROLES)
     (returnS (map (\<lambda>entry. (entry, ''API_KEY_REFERENCE'', False)) AGENT_CATALOG))"

definition verification_document :: "(time \<Rightarrow> string) \<Rightarrow> verification_row \<Rightarrow> (string \<times> json) list" where
  "verification_document isoformat row =
     [(''id'', JStr (str_uuid (nw_id row))),
      (''provider_configuration_id'', JStr (str_uuid (nw_provider_configuration_id row))),
      (''runner_pool_id'', JStr (str_uuid (nw_pool_id row))),
      (''status'', JStr (nw_status row)),
      (''result'', (case nw_result row of None \<Rightarrow> JNull | Some r \<Rightarrow> JObj r)),
      (''created_at'', JStr (isoformat (nw_created_at row))),
      (''completed_at'', (case nw_completed_at row of None \<Rightarrow> JNull | Some t \<Rightarrow> JStr (isoformat t)))]"

definition api_create_provider_verification ::
  "(time \<Rightarrow> string) \<Rightarrow> time \<Rightarrow> time \<Rightarrow> uuid \<Rightarrow> uuid \<Rightarrow> uuid \<Rightarrow> string \<Rightarrow> uuid \<Rightarrow> string option \<Rightarrow>
     (dl_db, dl_error, (string \<times> json) list) oper" where
  "api_create_provider_verification isoformat now now' verification_id organization_id configuration_id subject
     runner_pool_id idempotency_key =
     seqS (authorize organization_id subject MANAGEMENT_ROLES)
     (case idempotency_key of
        None \<Rightarrow> http_error 400 ''Idempotency-Key is required''
      | Some key \<Rightarrow>
          if key = [] then http_error 400 ''Idempotency-Key is required''
          else
            bindS (pg_get_provider_configuration organization_id configuration_id) (\<lambda>found.
            bindS (requireS (DlHttpE 404 ''provider configuration was not found'')
                     (case found of None \<Rightarrow> None | Some c \<Rightarrow> if pc_enabled c then Some c else None)) (\<lambda>c.
            bindS (pg_list_runner_pools now organization_id) (\<lambda>pools.
            bindS (requireS (DlHttpE 404 ''runner pool was not found'')
                     (find (\<lambda>p. ps_id p = str_uuid runner_pool_id) pools)) (\<lambda>pool.
            if pc_runtime c \<notin> set (ps_capabilities pool)
            then http_error 409 (''runner pool does not advertise runtime '' @ repr_str (pc_runtime c))
            else
              bindS (pg_create_provider_verification now' verification_id organization_id
                       configuration_id runner_pool_id key) (\<lambda>row.
              seqS (pg_record_audit
                      \<lparr>da_organization_id = organization_id, da_actor_subject = subject,
                       da_action = ''provider_configuration.verification_requested'',
                       da_target_id = nw_id row,
                       da_details = [(''provider_configuration_id'', JStr (str_uuid configuration_id)),
                                     (''runner_pool_id'', JStr (str_uuid runner_pool_id))]\<rparr>)
              (returnS (verification_document isoformat row))))))))"

definition api_latest_provider_verification ::
  "(time \<Rightarrow> string) \<Rightarrow> uuid \<Rightarrow> uuid \<Rightarrow> string \<Rightarrow> (dl_db, dl_error, (string \<times> json) list) oper" where
  "api_latest_provider_verification isoformat organization_id configuration_id subject =
     seqS (authorize organization_id subject EXECUTION_ROLES)
     (bindS (pg_latest_provider_verification organization_id configuration_id) (\<lambda>found.
      bindS (requireS (DlHttpE 404 ''provider has not been verified'') found) (\<lambda>row.
      returnS (verification_document isoformat row))))"

section \<open>Pools and enrollment\<close>

definition valid_runner_pool_create :: "string \<Rightarrow> string \<Rightarrow> bool" where
  "valid_runner_pool_create name runner_type \<longleftrightarrow>
     field_length 2 200 name \<and>
     runner_type \<in> {''LOCAL'', ''CUSTOMER_HOSTED'', ''PLATFORM_MANAGED''}"

definition api_create_runner_pool ::
  "uuid \<Rightarrow> uuid \<Rightarrow> string \<Rightarrow> string \<Rightarrow> string \<Rightarrow> (dl_db, dl_error, (string \<times> string) list) oper" where
  "api_create_runner_pool pool_id organization_id subject name runner_type =
     seqS (authorize organization_id subject MANAGEMENT_ROLES)
     (seqS (pg_add_runner_pool organization_id pool_id name runner_type)
     (returnS [(''id'', str_uuid pool_id), (''name'', name), (''runner_type'', runner_type)]))"

definition api_runner_pools :: "time \<Rightarrow> uuid \<Rightarrow> string \<Rightarrow> (dl_db, dl_error, pool_summary list) oper" where
  "api_runner_pools now organization_id subject =
     seqS (authorize organization_id subject EXECUTION_ROLES) (pg_list_runner_pools now organization_id)"

definition api_create_runner_enrollment ::
  "(string \<Rightarrow> string) \<Rightarrow> string \<Rightarrow> uuid \<Rightarrow> time \<Rightarrow> uuid \<Rightarrow> string \<Rightarrow> uuid \<Rightarrow>
     (dl_db, dl_error, (string \<times> string) list) oper" where
  "api_create_runner_enrollment hash raw_token record_id now organization_id subject pool_id =
     seqS (authorize organization_id subject MANAGEMENT_ROLES)
     (bindS (create_runner_enrollment hash (PostgresDeliveryRepository (\<lambda>_. [])) raw_token record_id now
               organization_id subject pool_id) (\<lambda>token.
      returnS [(''enrollment_token'', token), (''expires_in_seconds'', ''600'')]))"

definition valid_runner_enroll :: "string \<Rightarrow> string \<Rightarrow> string list \<Rightarrow> bool" where
  "valid_runner_enroll enrollment_token name capabilities \<longleftrightarrow>
     field_length 32 256 enrollment_token \<and> field_length 2 200 name \<and>
     1 \<le> length capabilities \<and> length capabilities \<le> 100"

definition api_enroll_runner ::
  "(string \<Rightarrow> string) \<Rightarrow> time \<Rightarrow> time \<Rightarrow> string \<Rightarrow> uuid \<Rightarrow> time \<Rightarrow> string \<Rightarrow> string \<Rightarrow> string list \<Rightarrow>
     (dl_db, dl_error, (string \<times> string) list) oper" where
  "api_enroll_runner hash now used_at raw_credential runner_id seen_at enrollment_token name capabilities =
     bindS (enroll_runner hash (PostgresDeliveryRepository (\<lambda>_. [])) now used_at raw_credential runner_id
              seen_at enrollment_token name capabilities) (\<lambda>(r, credential).
     returnS [(''runner_id'', str_uuid (rn_id r)), (''organization_id'', str_uuid (rn_organization_id r)),
              (''runner_credential'', credential)])"

section \<open>Runner requests\<close>

definition authenticated_runner ::
  "(string \<Rightarrow> string) \<Rightarrow> time \<Rightarrow> string option \<Rightarrow> string option \<Rightarrow> (dl_db, dl_error, runner) oper" where
  "authenticated_runner hash now authorization runner_id_header =
     (case (authorization, runner_id_header) of
        (Some a, Some h) \<Rightarrow>
          if \<not> startswith a ''Runner '' \<or> h = [] then http_error 401 ''runner identity is required''
          else (case uuid_of_str h of
                  None \<Rightarrow> http_error 401 ''runner identity is invalid''
                | Some runner_id \<Rightarrow>
                    bindS (pg_authenticate_runner hash now runner_id (strip (removeprefix a ''Runner '')))
                      (requireS (DlHttpE 401 ''runner identity is invalid'')))
      | _ \<Rightarrow> http_error 401 ''runner identity is required'')"

text \<open>\<open>{...base, **payload}\<close>.\<close>

definition merged :: "(string \<times> json) list \<Rightarrow> (string \<times> json) list \<Rightarrow> (string \<times> json) list" where
  "merged base payload = fold (\<lambda>(k, v) d. dset k v d) payload base"

definition api_lease_runner_job ::
  "(string \<Rightarrow> string) \<Rightarrow> time \<Rightarrow> (uuid list \<Rightarrow> uuid option) \<Rightarrow> time \<Rightarrow> time \<Rightarrow> string option \<Rightarrow> string option \<Rightarrow>
     (dl_db, dl_error, (string \<times> json) list option) oper" where
  "api_lease_runner_job hash seen pick now now' authorization x_runner_id =
     bindS (authenticated_runner hash seen authorization x_runner_id) (\<lambda>r.
     bindS (pg_lease_runner_job pick now now' r) (\<lambda>found.
     returnS (map_option (\<lambda>job. merged
       [(''job_id'', JStr (str_uuid (jw_id job))),
        (''execution_id'', JStr (str_uuid (jw_execution_id job))),
        (''organization_id'', JStr (str_uuid (jw_organization_id job)))] (jw_payload job)) found)))"

definition api_lease_provider_verification ::
  "(string \<Rightarrow> string) \<Rightarrow> time \<Rightarrow> (uuid list \<Rightarrow> uuid option) \<Rightarrow> time \<Rightarrow> time \<Rightarrow> time \<Rightarrow> string option \<Rightarrow>
     string option \<Rightarrow> (dl_db, dl_error, (string \<times> json) list option) oper" where
  "api_lease_provider_verification hash seen pick now now' failed_at authorization x_runner_id =
     bindS (authenticated_runner hash seen authorization x_runner_id) (\<lambda>r.
     bindS (pg_lease_provider_verification pick now now' r) (\<lambda>found.
     case found of
       None \<Rightarrow> returnS None
     | Some row \<Rightarrow>
         bindS (pg_get_provider_configuration (nw_organization_id row) (nw_provider_configuration_id row))
          (\<lambda>configuration.
          case configuration of
            None \<Rightarrow>
              seqS (writeS (\<lambda>s. s\<lparr>pd_verifications := dset (nw_id row)
                      (row\<lparr>nw_status := ''FAILED'',
                           nw_result := Some [(''success'', JBool False),
                             (''summary'', JStr ''Provider configuration is unavailable.'')],
                           nw_completed_at := Some failed_at\<rparr>) (pd_verifications s)\<rparr>))
              (returnS None)
          | Some c \<Rightarrow> returnS (Some
              [(''verification_id'', JStr (str_uuid (nw_id row))),
               (''organization_id'', JStr (str_uuid (nw_organization_id row))),
               (''provider_configuration_id'', JStr (str_uuid (pc_id c))),
               (''provider'', JStr (pc_provider c)), (''runtime'', JStr (pc_runtime c)),
               (''model'', JStr (pc_model c)),
               (''authentication_mode'', JStr (authentication_mode_value (pc_authentication_mode c))),
               (''secret_reference'',
                 (case pc_secret_reference c of None \<Rightarrow> JNull | Some ref \<Rightarrow> dump_secret_reference ref)),
               (''max_turns'', JInt 1), (''max_duration_seconds'', JInt 120)]))))"

definition api_heartbeat_provider_verification ::
  "(string \<Rightarrow> string) \<Rightarrow> time \<Rightarrow> time \<Rightarrow> uuid \<Rightarrow> string option \<Rightarrow> string option \<Rightarrow>
     (dl_db, dl_error, (string \<times> string) list) oper" where
  "api_heartbeat_provider_verification hash seen now verification_id authorization x_runner_id =
     bindS (authenticated_runner hash seen authorization x_runner_id) (\<lambda>r.
     bindS (pg_heartbeat_provider_verification now r verification_id) (\<lambda>found.
     bindS (requireS (DlHttpE 409 ''verification lease is not active'') found) (\<lambda>row.
     returnS [(''status'', ''extended'')])))"

record verification_complete =
  vc_success :: bool
  vc_summary :: string
  vc_input_tokens :: "int option"
  vc_cached_input_tokens :: "int option"
  vc_output_tokens :: "int option"

definition valid_verification_complete :: "verification_complete \<Rightarrow> bool" where
  "valid_verification_complete p \<longleftrightarrow>
     length (vc_summary p) \<le> 1000 \<and> ge0 (vc_input_tokens p) \<and> ge0 (vc_cached_input_tokens p) \<and>
     ge0 (vc_output_tokens p)"

definition dump_verification_complete :: "verification_complete \<Rightarrow> (string \<times> json) list" where
  "dump_verification_complete p =
     [(''success'', JBool (vc_success p)), (''summary'', JStr (vc_summary p)),
      (''input_tokens'', opt_int (vc_input_tokens p)),
      (''cached_input_tokens'', opt_int (vc_cached_input_tokens p)),
      (''output_tokens'', opt_int (vc_output_tokens p))]"

definition api_complete_provider_verification ::
  "(string \<Rightarrow> string) \<Rightarrow> time \<Rightarrow> time \<Rightarrow> time \<Rightarrow> uuid \<Rightarrow> verification_complete \<Rightarrow> string option \<Rightarrow> string option \<Rightarrow>
     (dl_db, dl_error, (string \<times> string) list) oper" where
  "api_complete_provider_verification hash seen now now' verification_id payload authorization x_runner_id =
     bindS (authenticated_runner hash seen authorization x_runner_id) (\<lambda>r.
     bindS (pg_complete_provider_verification now now' r verification_id (dump_verification_complete payload))
      (\<lambda>found.
     bindS (requireS (DlHttpE 409 ''verification lease is not active'') found) (\<lambda>row.
     seqS (pg_record_audit
             \<lparr>da_organization_id = nw_organization_id row,
              da_actor_subject = ''runner:'' @ str_uuid (rn_id r),
              da_action = ''provider_configuration.verification_'' @ lower (nw_status row),
              da_target_id = nw_id row,
              da_details = [(''provider_configuration_id'',
                             JStr (str_uuid (nw_provider_configuration_id row)))]\<rparr>)
     (returnS [(''status'', nw_status row)]))))"

definition api_complete_runner_job ::
  "(string \<Rightarrow> string) \<Rightarrow> time \<Rightarrow> time \<Rightarrow> uuid \<Rightarrow> runner_job_complete \<Rightarrow> string option \<Rightarrow> string option \<Rightarrow>
     (dl_db, dl_error, (string \<times> string) list) oper" where
  "api_complete_runner_job hash seen now job_id payload authorization x_runner_id =
     bindS (authenticated_runner hash seen authorization x_runner_id) (\<lambda>r.
     bindS (pg_complete_runner_job now r job_id (dump_job_report payload)) (\<lambda>found.
     bindS (requireS (DlHttpE 409 ''job lease is not active for runner'') found) (\<lambda>job.
     returnS [(''status'', ''accepted'')])))"

definition api_heartbeat_runner_job ::
  "(string \<Rightarrow> string) \<Rightarrow> time \<Rightarrow> time \<Rightarrow> uuid \<Rightarrow> string option \<Rightarrow> string option \<Rightarrow>
     (dl_db, dl_error, (string \<times> string) list) oper" where
  "api_heartbeat_runner_job hash seen now job_id authorization x_runner_id =
     bindS (authenticated_runner hash seen authorization x_runner_id) (\<lambda>r.
     bindS (pg_heartbeat_runner_job now r job_id) (\<lambda>found.
     bindS (requireS (DlHttpE 409 ''job lease is not active for runner'') found) (\<lambda>job.
     returnS [(''status'', ''extended'')])))"

section \<open>Capabilities\<close>

text \<open>\<open>int(time.time())\<close>.\<close>

definition unix_seconds :: "time \<Rightarrow> int" where
  "unix_seconds t = t div 1000000"

definition model_claims ::
  "int \<Rightarrow> uuid \<Rightarrow> uuid \<Rightarrow> uuid \<Rightarrow> uuid \<Rightarrow> uuid \<Rightarrow> json \<Rightarrow> (string \<times> json) list" where
  "model_claims now jti organization_id execution_id job_id runner_id secret =
     [(''iss'', JStr ''mvp-delivery''), (''aud'', JStr ''mvp-integrations-model''),
      (''iat'', JInt now), (''exp'', JInt (now + 60)), (''jti'', JStr (str_uuid jti)),
      (''organization_id'', JStr (str_uuid organization_id)),
      (''execution_id'', JStr (str_uuid execution_id)), (''job_id'', JStr (str_uuid job_id)),
      (''runner_id'', JStr (str_uuid runner_id)), (''secret_reference'', secret),
      (''purpose'', JStr ''MODEL_CREDENTIAL_READ'')]"

definition source_claims ::
  "int \<Rightarrow> uuid \<Rightarrow> uuid \<Rightarrow> uuid \<Rightarrow> uuid \<Rightarrow> uuid \<Rightarrow> string \<Rightarrow> string \<Rightarrow> (string \<times> json) list" where
  "source_claims now jti organization_id execution_id job_id runner_id repository_id purpose =
     [(''iss'', JStr ''mvp-delivery''), (''aud'', JStr ''mvp-integrations-source''),
      (''iat'', JInt now), (''exp'', JInt (now + 120)), (''jti'', JStr (str_uuid jti)),
      (''organization_id'', JStr (str_uuid organization_id)),
      (''execution_id'', JStr (str_uuid execution_id)), (''job_id'', JStr (str_uuid job_id)),
      (''runner_id'', JStr (str_uuid runner_id)), (''repository_id'', JStr repository_id),
      (''purpose'', JStr purpose)]"

definition capability :: "string \<Rightarrow> string \<Rightarrow> (string \<times> string) list" where
  "capability token seconds_valid = [(''capability'', token), (''expires_in_seconds'', seconds_valid)]"

definition api_provider_verification_model_capability ::
  "((string \<times> json) list \<Rightarrow> string) \<Rightarrow> (string \<Rightarrow> string) \<Rightarrow> time \<Rightarrow> time \<Rightarrow> time \<Rightarrow> uuid \<Rightarrow> uuid \<Rightarrow>
     string option \<Rightarrow> string option \<Rightarrow> (dl_db, dl_error, (string \<times> string) list) oper" where
  "api_provider_verification_model_capability encode hash seen beat now jti verification_id authorization
     x_runner_id =
     bindS (authenticated_runner hash seen authorization x_runner_id) (\<lambda>r.
     bindS (pg_heartbeat_provider_verification beat r verification_id) (\<lambda>found.
     bindS (requireS (DlHttpE 409 ''verification lease is not active'') found) (\<lambda>row.
     bindS (pg_get_provider_configuration (nw_organization_id row) (nw_provider_configuration_id row))
      (\<lambda>configuration.
     bindS (requireS (DlHttpE 409 ''verification has no secret reference'')
              (case configuration of None \<Rightarrow> None | Some c \<Rightarrow> pc_secret_reference c)) (\<lambda>reference.
     returnS (capability (encode (model_claims (unix_seconds now) jti (nw_organization_id row) (nw_id row)
       (nw_id row) (rn_id r) (dump_secret_reference reference))) ''60''))))))"

definition api_source_capability ::
  "(json \<Rightarrow> string) \<Rightarrow> ((string \<times> json) list \<Rightarrow> string) \<Rightarrow> (string \<Rightarrow> string) \<Rightarrow> time \<Rightarrow> time \<Rightarrow> time \<Rightarrow>
     uuid \<Rightarrow> uuid \<Rightarrow> string \<Rightarrow> string option \<Rightarrow> string option \<Rightarrow>
     (dl_db, dl_error, (string \<times> string) list) oper" where
  "api_source_capability rp encode hash seen beat now jti job_id purpose authorization x_runner_id =
     (if purpose \<notin> {''CHECKOUT_READ'', ''PUBLISH_WRITE''}
      then http_error 422 ''source purpose is invalid''
      else
        bindS (authenticated_runner hash seen authorization x_runner_id) (\<lambda>r.
        bindS (pg_heartbeat_runner_job beat r job_id) (\<lambda>found.
        bindS (requireS (DlHttpE 409 ''job lease is not active for runner'') found) (\<lambda>job.
        let repository_id = py_str rp (obj_get_default (jw_payload job) ''repository_connection_id'' (JStr []))
        in if repository_id = [] then http_error 409 ''job has no connected repository''
           else returnS (capability (encode (source_claims (unix_seconds now) jti (jw_organization_id job)
             (jw_execution_id job) (jw_id job) (rn_id r) repository_id purpose)) ''120'')))))"

definition api_model_capability ::
  "((string \<times> json) list \<Rightarrow> string) \<Rightarrow> (string \<Rightarrow> string) \<Rightarrow> time \<Rightarrow> time \<Rightarrow> time \<Rightarrow> uuid \<Rightarrow> uuid \<Rightarrow>
     string option \<Rightarrow> string option \<Rightarrow> (dl_db, dl_error, (string \<times> string) list) oper" where
  "api_model_capability encode hash seen beat now jti job_id authorization x_runner_id =
     bindS (authenticated_runner hash seen authorization x_runner_id) (\<lambda>r.
     bindS (pg_heartbeat_runner_job beat r job_id) (\<lambda>found.
     bindS (requireS (DlHttpE 409 ''job lease is not active for runner'') found) (\<lambda>job.
     if obj_get (jw_payload job) ''authentication_mode'' \<noteq> JStr ''API_KEY_REFERENCE''
     then http_error 409 ''job does not use API_KEY_REFERENCE authentication''
     else let reference = obj_get (jw_payload job) ''secret_reference''
     in if \<not> truthy reference then http_error 409 ''job has no secret reference''
        else returnS (capability (encode (model_claims (unix_seconds now) jti (jw_organization_id job)
          (jw_execution_id job) (jw_id job) (rn_id r) reference)) ''60''))))"

section \<open>Executions\<close>

record ready_work_item_request =
  rq_project_id :: uuid
  rq_work_item_id :: uuid
  rq_title :: string
  rq_description :: string
  rq_acceptance_criteria :: "string list"
  rq_repository_connection_id :: uuid
  rq_provider_configuration_id :: uuid
  rq_runner_pool_id :: uuid
  rq_budget :: execution_budget
  rq_correlation_id :: uuid

definition valid_ready_work_item_request :: "ready_work_item_request \<Rightarrow> bool" where
  "valid_ready_work_item_request p \<longleftrightarrow>
     field_length 1 300 (rq_title p) \<and> field_length 1 10000 (rq_description p) \<and>
     1 \<le> length (rq_acceptance_criteria p) \<and> length (rq_acceptance_criteria p) \<le> 100 \<and>
     valid_budget_request (rq_budget p)"

definition api_accept_ready_work_item ::
  "(json \<Rightarrow> string) \<Rightarrow> uuid \<Rightarrow> uuid \<Rightarrow> time \<Rightarrow> uuid \<Rightarrow> string \<Rightarrow> ready_work_item_request \<Rightarrow>
     (dl_db, dl_error, execution) oper" where
  "api_accept_ready_work_item rp execution_id event_id now organization_id subject p =
     seqS (authorize organization_id subject EXECUTION_ROLES)
     (accept_ready_work_item (PostgresDeliveryRepository rp) PostgresWorkflowGateway execution_id event_id now
        organization_id (rq_project_id p) (rq_work_item_id p) (rq_title p) (rq_description p)
        (rq_acceptance_criteria p) (rq_repository_connection_id p) (rq_provider_configuration_id p)
        (rq_runner_pool_id p) (rq_budget p) (rq_correlation_id p))"

definition api_list_executions ::
  "(json \<Rightarrow> string) \<Rightarrow> uuid \<Rightarrow> string \<Rightarrow> (dl_db, dl_error, execution list) oper" where
  "api_list_executions rp organization_id subject =
     seqS (authorize organization_id subject EXECUTION_ROLES) (pg_list_executions rp organization_id)"

definition api_approve_execution ::
  "(json \<Rightarrow> string) \<Rightarrow> uuid \<Rightarrow> time \<Rightarrow> uuid \<Rightarrow> uuid \<Rightarrow> string \<Rightarrow> (dl_db, dl_error, execution) oper" where
  "api_approve_execution rp event_id now organization_id execution_id subject =
     seqS (authorize organization_id subject REVIEW_ROLES)
     (approve_execution (PostgresDeliveryRepository rp) PostgresWorkflowGateway event_id now
        organization_id execution_id subject)"

definition api_cancel_execution ::
  "(json \<Rightarrow> string) \<Rightarrow> uuid \<Rightarrow> uuid \<Rightarrow> string \<Rightarrow> (dl_db, dl_error, execution) oper" where
  "api_cancel_execution rp organization_id execution_id subject =
     seqS (authorize organization_id subject EXECUTION_ROLES)
     (cancel_execution (PostgresDeliveryRepository rp) PostgresWorkflowGateway organization_id execution_id
        subject)"

section \<open>The event stream\<close>

text \<open>
  \<open>execution_events\<close> polls the tables once a second: the list of states is what the successive
  sessions see, the counter is \<open>idle_cycles\<close>. It ends after 300 idle cycles, or when the
  execution is in a terminal status and no event is left; a query that raises ends it as well.
\<close>

datatype stream_chunk = Sse execution_event | KeepAlive

definition TERMINAL_STATUSES :: "execution_status list" where
  "TERMINAL_STATUSES = [ES_DELIVERED, ES_FAILED, ES_CANCELLED]"

fun event_stream ::
  "(json \<Rightarrow> string) \<Rightarrow> uuid \<Rightarrow> uuid \<Rightarrow> dl_db list \<Rightarrow> int \<Rightarrow> nat \<Rightarrow> stream_chunk list" where
  "event_stream rp organization_id execution_id [] current idle_cycles = []"
| "event_stream rp organization_id execution_id (s # ss) current idle_cycles =
     (if idle_cycles \<ge> 300 then []
      else
        (case pg_list_events organization_id execution_id current (s\<lparr>pd_organization := None\<rparr>) of
           (Inl _, _) \<Rightarrow> []
         | (Inr events, s1) \<Rightarrow>
             (case pg_get_execution rp organization_id execution_id s1 of
                (Inl _, _) \<Rightarrow> []
              | (Inr found, _) \<Rightarrow>
                  (let current' = (if events = [] then current else ee_sequence (last events));
                       idle' = (if events = [] then idle_cycles + 1 else 0);
                       out = (if events = [] then [KeepAlive] else map Sse events);
                       finished = (case found of None \<Rightarrow> False
                         | Some e \<Rightarrow> ex_status e \<in> set TERMINAL_STATUSES \<and> events = [])
                   in out @ (if finished then []
                             else event_stream rp organization_id execution_id ss current' idle')))))"

text \<open>\<open>int(last_event_id or "0")\<close>.\<close>

definition stream_start :: "string option \<Rightarrow> dl_error + int" where
  "stream_start last_event_id =
     (case py_int_str (case last_event_id of None \<Rightarrow> ''0'' | Some h \<Rightarrow> if h = [] then ''0'' else h) of
        None \<Rightarrow> Inl (DlValueE ''invalid literal for int()'')
      | Some i \<Rightarrow> Inr i)"

definition api_execution_events ::
  "(json \<Rightarrow> string) \<Rightarrow> uuid \<Rightarrow> uuid \<Rightarrow> string \<Rightarrow> string option \<Rightarrow> dl_db list \<Rightarrow>
     (dl_db, dl_error, stream_chunk list) oper" where
  "api_execution_events rp organization_id execution_id subject last_event_id snapshots =
     seqS (authorize organization_id subject EXECUTION_ROLES)
     (bindS (liftS (stream_start last_event_id)) (\<lambda>after.
      returnS (event_stream rp organization_id execution_id snapshots after 0)))"

end
