(* ===== verification/DlSystem.thy ===== *)
theory DlSystem
  imports DlApi
begin

text \<open>
  The delivery service as a whole: every transaction that touches executions or runner jobs,
  by whichever process (API, event consumer, runners, activities), as one step relation on
  the tables, and the invariant every reachable state satisfies.
\<close>

section \<open>Transactions as steps\<close>

text \<open>
  The other transactions (configurations, enrollment, pools, verifications, memberships,
  the dispatcher) leave executions and runner jobs alone: the rule \<open>other\<close> stands for them
  and for anything else that does.
\<close>

inductive delivery_step :: "(json \<Rightarrow> string) \<Rightarrow> dl_db \<Rightarrow> dl_db \<Rightarrow> bool" for rp where
  event: "process_event rp xid eid now ev s = (r1, s') \<Longrightarrow> delivery_step rp s s'"
| accept: "api_request (api_accept_ready_work_item rp xid eid now org subject request) s = (r2, s') \<Longrightarrow>
     delivery_step rp s s'"
| approve: "api_request (api_approve_execution rp eid now org xid subject) s = (r2, s') \<Longrightarrow>
     delivery_step rp s s'"
| request_cancel: "api_request (api_cancel_execution rp org xid subject) s = (r2, s') \<Longrightarrow>
     delivery_step rp s s'"
| lease: "api_request (api_lease_runner_job hash seen pick now now' auth rid) s = (r3, s') \<Longrightarrow>
     delivery_step rp s s'"
| heartbeat: "api_request (api_heartbeat_runner_job hash seen now k auth rid) s = (r6, s') \<Longrightarrow>
     delivery_step rp s s'"
| source_capability: "api_request (api_source_capability rp encode hash seen beat now jti k purpose auth rid) s
       = (r6, s') \<Longrightarrow> delivery_step rp s s'"
| model_capability: "api_request (api_model_capability encode hash seen beat now jti k auth rid) s = (r6, s') \<Longrightarrow>
     delivery_step rp s s'"
| complete: "api_request (api_complete_runner_job hash seen now k v auth rid) s = (r6, s') \<Longrightarrow>
     valid_job_report v \<Longrightarrow> delivery_step rp s s'"
| enqueue: "act_enqueue rp fresh org xid s = (r1, s') \<Longrightarrow> delivery_step rp s s'"
| poll: "act_poll rp fresh org xid s = (r4, s') \<Longrightarrow> delivery_step rp s s'"
| deliver: "act_deliver rp fresh org xid reference s = (r5, s') \<Longrightarrow>
     valid_external_reference reference \<Longrightarrow> delivery_step rp s s'"
| cancel: "act_cancel_execution rp fresh org xid s = (r1, s') \<Longrightarrow> delivery_step rp s s'"
| other: "pd_executions s' = pd_executions s \<Longrightarrow> pd_jobs s' = pd_jobs s \<Longrightarrow> delivery_step rp s s'"

inductive delivery_reachable :: "(json \<Rightarrow> string) \<Rightarrow> dl_db \<Rightarrow> bool" for rp where
  start: "pd_executions s = [] \<Longrightarrow> pd_jobs s = [] \<Longrightarrow> delivery_reachable rp s"
| step: "delivery_reachable rp s \<Longrightarrow> delivery_step rp s s' \<Longrightarrow> delivery_reachable rp s'"

section \<open>The invariant\<close>

text \<open>Before the first report nothing was used; from then on the usage is within the budget.\<close>

definition nothing_used :: "execution \<Rightarrow> bool" where
  "nothing_used e \<longleftrightarrow> ex_attempt_count e = 0 \<and> ex_turn_count e = 0 \<and> ex_duration_seconds e = 0 \<and>
     ex_cost_minor e = 0"

definition good_execution :: "execution \<Rightarrow> bool" where
  "good_execution e \<longleftrightarrow>
     execution_inv e \<and> valid_result e \<and> (nothing_used e \<or> within_budget e)"

definition executions_inv :: "dl_db \<Rightarrow> bool" where
  "executions_inv s \<longleftrightarrow>
     wf_dict (pd_executions s) \<and>
     (\<forall>k x. dget (pd_executions s) k = Some x \<longrightarrow>
        (\<exists>e. x = execution_row_of e \<and> ex_id e = k \<and> good_execution e)) \<and>
     (\<forall>k1 x1 k2 x2. dget (pd_executions s) k1 = Some x1 \<longrightarrow> dget (pd_executions s) k2 = Some x2 \<longrightarrow>
        xw_organization_id x1 = xw_organization_id x2 \<longrightarrow> xw_work_item_id x1 = xw_work_item_id x2 \<longrightarrow>
        k1 = k2)"

definition good_job :: "job_row \<Rightarrow> bool" where
  "good_job j \<longleftrightarrow>
     jw_id j = jw_execution_id j XOR 1 \<and>
     jw_status j \<in> {''QUEUED'', ''LEASED'', ''COMPLETED''} \<and>
     (jw_status j = ''COMPLETED'' \<longrightarrow>
        (\<exists>r. valid_job_report r \<and> jw_result j = Some (dump_job_report r)))"

definition jobs_inv :: "dl_db \<Rightarrow> bool" where
  "jobs_inv s \<longleftrightarrow> jobs_wf s \<and> (\<forall>k j. dget (pd_jobs s) k = Some j \<longrightarrow> good_job j)"

text \<open>The runner's report says that agent and independent validation both succeeded.\<close>

definition verified_job :: "dl_db \<Rightarrow> uuid \<Rightarrow> bool" where
  "verified_job s xid \<longleftrightarrow>
     (\<exists>j r. dget (pd_jobs s) (xid XOR 1) = Some j \<and> jw_execution_id j = xid \<and>
        jw_status j = ''COMPLETED'' \<and> jw_result j = Some (dump_job_report r) \<and> report_verified r)"

definition delivered_inv :: "dl_db \<Rightarrow> bool" where
  "delivered_inv s \<longleftrightarrow>
     (\<forall>k x. dget (pd_executions s) k = Some x \<longrightarrow> xw_status x \<in> {''DELIVERING'', ''DELIVERED''} \<longrightarrow>
        verified_job s k)"

definition delivery_inv :: "dl_db \<Rightarrow> bool" where
  "delivery_inv s \<longleftrightarrow> executions_inv s \<and> jobs_inv s \<and> delivered_inv s"

lemma delivery_inv_other:
  "delivery_inv s \<Longrightarrow> pd_executions s' = pd_executions s \<Longrightarrow> pd_jobs s' = pd_jobs s \<Longrightarrow> delivery_inv s'"
  by (simp add: delivery_inv_def executions_inv_def jobs_inv_def jobs_wf_def delivered_inv_def
      verified_job_def)

text \<open>Replacing an execution by a later state of itself.\<close>

lemma delivery_inv_update:
  assumes inv: "delivery_inv s"
    and old: "dget (pd_executions s) k = Some (execution_row_of e)"
    and new: "dget (pd_executions s') = (dget (pd_executions s))(k \<mapsto> execution_row_of e')"
      "wf_dict (pd_executions s')" "pd_jobs s' = pd_jobs s"
    and e': "static e' = static e" "good_execution e'"
    and verified: "ex_status e' \<in> {ES_DELIVERING, ES_DELIVERED} \<Longrightarrow> verified_job s k"
  shows "delivery_inv s'"
proof -
  have k: "ex_id e = k" using inv old
    by (force simp: delivery_inv_def executions_inv_def execution_row_of_def)
  have "executions_inv s'"
    unfolding executions_inv_def
  proof (intro conjI allI impI)
    show "wf_dict (pd_executions s')" by (fact new)
  next
    fix k1 x1 assume "dget (pd_executions s') k1 = Some x1"
    then show "\<exists>e. x1 = execution_row_of e \<and> ex_id e = k1 \<and> good_execution e"
      using inv new(1) e' k staticD(1) [OF e'(1)]
      by (cases "k1 = k") (auto simp: delivery_inv_def executions_inv_def)
  next
    fix k1 x1 k2 x2
    assume a: "dget (pd_executions s') k1 = Some x1" "dget (pd_executions s') k2 = Some x2"
      "xw_organization_id x1 = xw_organization_id x2" "xw_work_item_id x1 = xw_work_item_id x2"
    have was: "\<exists>x0. dget (pd_executions s) j = Some x0 \<and> xw_organization_id x0 = xw_organization_id x
        \<and> xw_work_item_id x0 = xw_work_item_id x" if "dget (pd_executions s') j = Some x" for j x
      using that new(1) old staticD(2,4) [OF e'(1)]
      by (cases "j = k") (auto simp: execution_row_of_def)
    show "k1 = k2"
      using was [OF a(1)] was [OF a(2)] a(3,4) inv
      unfolding delivery_inv_def executions_inv_def by metis
  qed
  moreover have "jobs_inv s'" using inv new(3) by (simp add: delivery_inv_def jobs_inv_def jobs_wf_def)
  moreover have "delivered_inv s'"
    unfolding delivered_inv_def
  proof (intro allI impI)
    fix j x assume a: "dget (pd_executions s') j = Some x" "xw_status x \<in> {''DELIVERING'', ''DELIVERED''}"
    have "verified_job s j"
    proof (cases "j = k")
      case True
      then have "ex_status e' \<in> {ES_DELIVERING, ES_DELIVERED}"
        using a new(1) by (cases "ex_status e'") (auto simp: execution_row_of_def)
      then show ?thesis using verified True by simp
    next
      case False
      then show ?thesis using a new(1) inv by (auto simp: delivery_inv_def delivered_inv_def)
    qed
    then show "verified_job s' j" using new(3) by (simp add: verified_job_def)
  qed
  ultimately show ?thesis by (simp add: delivery_inv_def)
qed

text \<open>Replacing a job that no delivery rests on.\<close>

lemma delivery_inv_job:
  assumes inv: "delivery_inv s"
    and new: "pd_jobs s' = dset k j' (pd_jobs s)" "pd_executions s' = pd_executions s"
    and j': "jw_id j' = k" "good_job j'"
    and free: "\<And>j. dget (pd_jobs s) k = Some j \<Longrightarrow> jw_status j \<noteq> ''COMPLETED''"
  shows "delivery_inv s'"
proof -
  have "verified_job s' x" if "verified_job s x" for x
    using that free new(1) unfolding verified_job_def by auto
  then show ?thesis
    using inv new j'
    by (auto simp: delivery_inv_def executions_inv_def jobs_inv_def jobs_wf_def delivered_inv_def)
qed

section \<open>What the repository operations do to executions and jobs\<close>

lemma seqS_set_organization [simp]:
  "seqS (pg_set_organization organization_id) m s = m (s\<lparr>pd_organization := Some organization_id\<rparr>)"
  by (simp add: pg_set_organization_def)

definition keeps :: "dl_db \<Rightarrow> dl_db \<Rightarrow> bool" where
  "keeps s s' \<longleftrightarrow> pd_executions s' = pd_executions s \<and> pd_jobs s' = pd_jobs s"

lemma keeps_refl [simp]: "keeps s s" "keeps s (s\<lparr>pd_organization := v\<rparr>)"
  by (simp_all add: keeps_def)

lemma keeps_trans: "keeps s t \<Longrightarrow> keeps t u \<Longrightarrow> keeps s u"
  by (simp add: keeps_def)

lemma keeps_inv: "keeps s s' \<Longrightarrow> delivery_inv s \<Longrightarrow> delivery_inv s'"
  using delivery_inv_other by (auto simp: keeps_def)

lemma append_event_keeps: "pg_append_event ev s = (r, s') \<Longrightarrow> keeps s s'"
  by (auto simp: pg_append_event_def insert_orS_def keeps_def split: if_splits)

lemma next_event_sequence_keeps: "pg_next_event_sequence k s = (r, s') \<Longrightarrow> keeps s s'"
  by (auto simp: pg_next_event_sequence_def readS_def)

lemma act_event_keeps: "act_event fresh xid org kind name message metadata s = (Inr u, s') \<Longrightarrow> keeps s s'"
  by (auto simp: act_event_def bindS_Inr_iff
      dest!: next_event_sequence_keeps append_event_keeps intro: keeps_trans)

lemma record_audit_keeps: "pg_record_audit a s = (r, s') \<Longrightarrow> keeps s s'"
  by (auto simp: pg_record_audit_def writeS_def keeps_def)

lemma signal_keeps: "pg_signal c k a s = (Inr u, s') \<Longrightarrow> keeps s s'"
  by (auto simp: pg_signal_def pg_command_def oper_iffs keeps_def)

lemma start_keeps: "pg_start e s = (r, s') \<Longrightarrow> keeps s s'"
  by (auto simp: pg_start_def pg_command_def writeS_def keeps_def)

lemma agent_events_keeps:
  "act_agent_events rp fresh n xid org items s = (Inr m, s') \<Longrightarrow> keeps s s'"
proof (induction rp fresh n xid org items arbitrary: s rule: act_agent_events.induct)
  case (2 rp fresh n xid org event items)
  then show ?case
    by (auto simp: oper_iffs Let_def split: if_splits json.splits
        dest!: act_event_keeps intro: keeps_trans)
qed (auto simp: oper_iffs)

lemma get_provider_keeps: "pg_get_provider_configuration org k s = (Inr r, s') \<Longrightarrow> keeps s s'"
  by (auto simp: pg_get_provider_configuration_def oper_iffs split: option.splits)

lemma executions_inv_row:
  "executions_inv s \<Longrightarrow> dget (pd_executions s) k = Some x \<Longrightarrow>
   \<exists>e. x = execution_row_of e \<and> ex_id e = k \<and> good_execution e"
  by (simp add: executions_inv_def)

lemma execution_of_execution_row [simp]:
  "good_execution e \<Longrightarrow> execution_of_row rp (execution_row_of e) = Inr e"
  by (cases "ex_result_reference e")
     (simp_all add: execution_of_row_def good_execution_def valid_result_def reference_roundtrip
        execution_row_of_def [of e])

lemma row_organization [simp]: "xw_organization_id (execution_row_of e) = ex_organization_id e"
  by (simp add: execution_row_of_def)

text \<open>An execution and its row in a state with the invariant.\<close>

definition stored :: "dl_db \<Rightarrow> execution \<Rightarrow> bool" where
  "stored s e \<longleftrightarrow>
     dget (pd_executions s) (ex_id e) = Some (execution_row_of e) \<and> good_execution e"

lemma stored_keeps: "keeps s s' \<Longrightarrow> stored s e \<Longrightarrow> stored s' e"
  by (simp add: keeps_def stored_def)

text \<open>Reading an execution never fails in a state with the invariant.\<close>

lemma get_execution_stored:
  "stored s e \<Longrightarrow> pg_get_execution rp (ex_organization_id e) (ex_id e) s =
     (Inr (Some e), s\<lparr>pd_organization := Some (ex_organization_id e)\<rparr>)"
  by (simp add: pg_get_execution_def readS_def bindS_def liftS_def owned_Some stored_def)

lemma get_execution_cases:
  assumes "executions_inv s" and "pg_get_execution rp org k s = (r, s')"
  obtains (none) "r = Inr None" "s' = s\<lparr>pd_organization := Some org\<rparr>"
    | (some) e where "r = Inr (Some e)" "s' = s\<lparr>pd_organization := Some org\<rparr>" "stored s e"
        "ex_id e = k" "ex_organization_id e = org"
proof (cases "owned xw_organization_id org (dget (pd_executions s) k)")
  case None
  then show thesis using assms(2) none
    by (simp add: pg_get_execution_def readS_def bindS_def returnS_def)
next
  case (Some x)
  then have x: "dget (pd_executions s) k = Some x" "xw_organization_id x = org"
    by (simp_all add: owned_Some_iff)
  obtain e where e: "x = execution_row_of e" "ex_id e = k" "good_execution e"
    using executions_inv_row [OF assms(1) x(1)] by blast
  then show thesis
    using some [of e] assms(2) x get_execution_stored [of s e rp] by (auto simp: stored_def)
qed

lemma get_execution_Some:
  assumes "executions_inv s" and "pg_get_execution rp org k s = (Inr (Some e), s')"
  shows "stored s e" "ex_id e = k" "ex_organization_id e = org" "keeps s s'"
  using assms(1) by (cases rule: get_execution_cases [OF assms]; simp)+

text \<open>Writing back a later state of an execution.\<close>

lemma update_row:
  assumes "static e = static e0"
  shows "(execution_row_of e0)\<lparr>
      xw_approval_status := xw_approval_status (execution_row_of e),
      xw_status := xw_status (execution_row_of e),
      xw_attempt_count := xw_attempt_count (execution_row_of e),
      xw_turn_count := xw_turn_count (execution_row_of e),
      xw_duration_seconds := xw_duration_seconds (execution_row_of e),
      xw_cost_minor := xw_cost_minor (execution_row_of e),
      xw_version := xw_version (execution_row_of e),
      xw_cancellation_requested := xw_cancellation_requested (execution_row_of e),
      xw_result_reference := xw_result_reference (execution_row_of e)\<rparr> = execution_row_of e"
  using staticD [OF assms] by (simp add: execution_row_of_def)

lemma update_execution_Inr:
  assumes "pg_update_execution e s = (r, s')"
    and "dget (pd_executions s) (ex_id e) = Some (execution_row_of e0)"
    and "static e = static e0"
  shows "pd_executions s' = dset (ex_id e) (execution_row_of e) (pd_executions s)"
    "pd_jobs s' = pd_jobs s"
  using assms(1,2) update_row [OF assms(3)] staticD(2) [OF assms(3)]
  by (auto simp: pg_update_execution_def readS_def bindS_def writeS_def owned_Some Let_def)

lemma good_step:
  "execution_step e e' \<Longrightarrow> good_execution e \<Longrightarrow> valid_result e' \<Longrightarrow> good_execution e'"
  using execution_inv_step
  by (auto simp: good_execution_def elim!: execution_step.cases)
     (auto simp: dl_transitions within_budget_def nothing_used_def)

lemma update_stored:
  assumes "pg_update_execution e' s = (r, s')" and "delivery_inv s" and "stored s e"
    and "static e' = static e" and "good_execution e'"
    and "ex_status e' \<in> {ES_DELIVERING, ES_DELIVERED} \<Longrightarrow> verified_job s (ex_id e)"
  shows "delivery_inv s'" "stored s' e'" "pd_jobs s' = pd_jobs s"
proof -
  have id: "ex_id e' = ex_id e" using staticD(1) [OF assms(4)] .
  note upd = update_execution_Inr [OF assms(1), of e]
  have rows: "pd_executions s' = dset (ex_id e) (execution_row_of e') (pd_executions s)"
    and jobs: "pd_jobs s' = pd_jobs s"
    using upd assms(3,4) id by (auto simp: stored_def)
  have "wf_dict (pd_executions s')"
    using assms(2) rows by (simp add: delivery_inv_def executions_inv_def)
  moreover have "dget (pd_executions s') = (dget (pd_executions s))(ex_id e \<mapsto> execution_row_of e')"
    by (simp only: rows dget_dset)
  ultimately show "delivery_inv s'"
    using assms(3) by (intro delivery_inv_update [OF assms(2) _ _ _ jobs assms(4,5,6)])
      (auto simp only: stored_def)
  show "stored s' e'" "pd_jobs s' = pd_jobs s" using rows jobs id assms(5) by (simp_all add: stored_def)
qed

lemma in_session_inv:
  assumes "in_session m s = (r, s')" and "delivery_inv s"
    and "\<And>a t. m (s\<lparr>pd_organization := None\<rparr>) = (Inr (a, True), t) \<Longrightarrow> delivery_inv t"
  shows "delivery_inv s'"
  using assms keeps_inv [of s "s\<lparr>pd_organization := None\<rparr>"]
  by (auto simp: in_session_def Let_def split: prod.splits sum.splits if_splits
      intro: keeps_inv [OF keeps_refl(2)])

section \<open>The use cases keep the invariant\<close>

lemma append_service_event_keeps:
  "dl_append_event (PostgresDeliveryRepository rp) eid now e kind name message metadata s = (Inr u, s') \<Longrightarrow>
   keeps s s'"
  by (auto simp: dl_append_event_def PostgresDeliveryRepository_def bindS_Inr_iff
      dest!: next_event_sequence_keeps append_event_keeps intro: keeps_trans)

lemma service_audit_keeps:
  "dl_record_audit (PostgresDeliveryRepository rp) org actor action target details s = (r, s') \<Longrightarrow>
   keeps s s'"
  by (auto simp: dl_record_audit_def PostgresDeliveryRepository_def dest: record_audit_keeps)

lemmas pg_simps = PostgresDeliveryRepository_def PostgresWorkflowGateway_def

lemma approve_execution_effect:
  assumes "approve_execution (PostgresDeliveryRepository rp) PostgresWorkflowGateway eid now org xid actor s
      = (Inr e', s')" and inv: "delivery_inv s"
  shows "\<exists>e. stored s e \<and> ex_id e = xid \<and> ex_organization_id e = org \<and> execution_approve e = Inr e' \<and>
           stored s' e' \<and> pd_jobs s' = pd_jobs s" and "delivery_inv s'"
proof -
  from assms(1) obtain e t1 t2 t3 t4 where
    get: "pg_get_execution rp org xid s = (Inr (Some e), t1)" and
    app: "execution_approve e = Inr e'" and
    upd: "pg_update_execution e' t1 = (Inr (), t2)" and
    aud: "dl_record_audit (PostgresDeliveryRepository rp) org actor ''execution.approved'' (ex_id e')
            [(''version'', JInt (ex_version e'))] t2 = (Inr (), t3)" and
    ev: "dl_append_event (PostgresDeliveryRepository rp) eid now e' EK_APPROVAL ''execution.approved''
            ''Execution was approved and queued.'' [(''actor_subject'', JStr actor)] t3 = (Inr (), t4)" and
    sig: "pg_signal ''APPROVE'' (ex_id e') actor t4 = (Inr (), s')"
    unfolding approve_execution_def required_execution_def oper_iffs deliveryS_iff
    by (auto simp: pg_simps)
  have einv: "executions_inv s" using inv by (simp add: delivery_inv_def)
  note found = get_execution_Some [OF einv get]
  have step: "execution_step e e'" using app by (rule execution_step.approve)
  have good: "good_execution e'"
    using good_step [OF step] found(1) app
    by (auto simp: stored_def dl_transitions good_execution_def valid_result_def split: option.splits)
  have status: "ex_status e' = ES_QUEUED" using app by (auto simp: dl_transitions)
  note U = update_stored [OF upd keeps_inv [OF found(4) inv] stored_keeps [OF found(4,1)]
      static_step [OF step] good]
  have K: "keeps t2 s'"
    using service_audit_keeps [OF aud] append_service_event_keeps [OF ev] signal_keeps [OF sig]
    by (auto intro: keeps_trans)
  then show "delivery_inv s'" using U(1) status by (auto intro: keeps_inv)
  have "stored s' e'" using U(2) status stored_keeps [OF K] by simp
  moreover have "pd_jobs s' = pd_jobs s" using U(3) status K found(4) by (simp add: keeps_def)
  ultimately show "\<exists>e. stored s e \<and> ex_id e = xid \<and> ex_organization_id e = org \<and>
      execution_approve e = Inr e' \<and> stored s' e' \<and> pd_jobs s' = pd_jobs s"
    using found app by blast
qed

lemma cancel_execution_inv:
  assumes "cancel_execution (PostgresDeliveryRepository rp) PostgresWorkflowGateway org xid actor s
      = (Inr e', s')" and inv: "delivery_inv s"
  shows "delivery_inv s'"
proof -
  from assms(1) obtain e t1 t2 t3 where
    get: "pg_get_execution rp org xid s = (Inr (Some e), t1)" and
    req: "request_cancellation e = Inr e'" and
    upd: "pg_update_execution e' t1 = (Inr (), t2)" and
    aud: "dl_record_audit (PostgresDeliveryRepository rp) org actor ''execution.cancellation_requested''
            (ex_id e') [(''version'', JInt (ex_version e'))] t2 = (Inr (), t3)" and
    sig: "pg_signal ''CANCEL'' (ex_id e') actor t3 = (Inr (), s')"
    unfolding cancel_execution_def required_execution_def oper_iffs deliveryS_iff
    by (auto simp: pg_simps)
  have einv: "executions_inv s" using inv by (simp add: delivery_inv_def)
  note found = get_execution_Some [OF einv get]
  have step: "execution_step e e'" using req by (rule execution_step.request_cancellation)
  have good: "good_execution e'"
    using good_step [OF step] found(1) req
    by (auto simp: stored_def dl_transitions good_execution_def valid_result_def split: option.splits)
  have same: "ex_status e' = ex_status e" using req by (auto simp: dl_transitions)
  have ver: "verified_job t1 (ex_id e)" if "ex_status e' \<in> {ES_DELIVERING, ES_DELIVERED}"
  proof -
    have "verified_job s (ex_id e)"
      using inv found(1) that same
      by (force simp: delivery_inv_def delivered_inv_def stored_def execution_row_of_def)
    then show ?thesis using found(4) by (simp add: verified_job_def keeps_def)
  qed
  note U = update_stored [OF upd keeps_inv [OF found(4) inv] stored_keeps [OF found(4,1)]
      static_step [OF step] good ver]
  have "keeps t2 s'" using service_audit_keeps [OF aud] signal_keeps [OF sig] by (auto intro: keeps_trans)
  then show "delivery_inv s'" using U(1) by (auto intro: keeps_inv)
qed

lemma row_work_item [simp]: "xw_work_item_id (execution_row_of e) = ex_work_item_id e"
  "xw_status (execution_row_of e) = execution_status_value (ex_status e)"
  by (simp_all add: execution_row_of_def)

lemma get_by_work_item_cases:
  assumes "executions_inv s" and "pg_get_execution_by_work_item rp org wid s = (r, s')"
  obtains (none) "r = Inr None" "keeps s s'"
      "\<And>k x. dget (pd_executions s) k = Some x \<Longrightarrow> xw_organization_id x = org \<Longrightarrow>
         xw_work_item_id x \<noteq> wid"
    | (some) e where "r = Inr (Some e)" "keeps s s'" "stored s e"
        "ex_organization_id e = org" "ex_work_item_id e = wid"
proof -
  let ?f = "find (\<lambda>row. xw_work_item_id row = wid)
      (visible xw_organization_id (Some org) (pd_executions s))"
  have wf: "wf_dict (pd_executions s)" using assms(1) by (simp add: executions_inv_def)
  show thesis
  proof (cases ?f)
    case None
    have "xw_work_item_id x \<noteq> wid" if "dget (pd_executions s) k = Some x" "xw_organization_id x = org" for k x
      using None that dget_in_dvals [OF that(1)] by (auto simp: find_None_iff visible_def)
    moreover have "r = Inr None" "keeps s s'"
      using None assms(2)
      by (auto simp: pg_get_execution_by_work_item_def readS_def bindS_def returnS_def)
    ultimately show thesis using none by blast
  next
    case (Some x)
    then have x: "xw_work_item_id x = wid" "xw_organization_id x = org" "x \<in> set (dvals (pd_executions s))"
      by (auto simp: visible_def dest!: find_SomeD)
    then obtain k where k: "dget (pd_executions s) k = Some x" using in_dvals_iff [OF wf] by blast
    obtain e where e: "x = execution_row_of e" "ex_id e = k" "good_execution e"
      using executions_inv_row [OF assms(1) k] by blast
    then show thesis
      using some [of e] assms(2) x Some k
      by (auto simp: pg_get_execution_by_work_item_def readS_def bindS_def liftS_def stored_def)
  qed
qed

lemma add_execution_cases:
  assumes "executions_inv s" and "pg_add_execution rp e s = (r, s')"
  obtains (failed) "r = Inl DlIntegrityE"
    | (exists) "r = Inr False" "keeps s s'"
    | (added) "r = Inr True" "dget (pd_executions s) (ex_id e) = None"
        "\<And>k x. dget (pd_executions s) k = Some x \<Longrightarrow> xw_organization_id x = ex_organization_id e \<Longrightarrow>
           xw_work_item_id x \<noteq> ex_work_item_id e"
        "pd_executions s' = dset (ex_id e) (execution_row_of e) (pd_executions s)"
        "pd_jobs s' = pd_jobs s"
proof -
  let ?s1 = "s\<lparr>pd_organization := Some (ex_organization_id e)\<rparr>"
  have inv1: "executions_inv ?s1" using assms(1) by (simp add: executions_inv_def)
  obtain q t where q: "pg_get_execution_by_work_item rp (ex_organization_id e) (ex_work_item_id e) ?s1 = (q, t)"
    by fastforce
  show thesis
  proof (cases rule: get_by_work_item_cases [OF inv1 q])
    case 1
    then show thesis
      using assms(2) q failed added
      by (auto simp: pg_add_execution_def bindS_def [of _ _ ?s1] returnS_def keeps_def
          split: if_splits)
  next
    case (2 e0)
    then show thesis
      using assms(2) q exists by (simp add: pg_add_execution_def bindS_def returnS_def keeps_def)
  qed
qed

lemma delivery_inv_insert:
  assumes inv: "delivery_inv s" and fresh: "dget (pd_executions s) (ex_id e) = None"
    and unique: "\<And>k x. dget (pd_executions s) k = Some x \<Longrightarrow> xw_organization_id x = ex_organization_id e \<Longrightarrow>
           xw_work_item_id x \<noteq> ex_work_item_id e"
    and new: "pd_executions s' = dset (ex_id e) (execution_row_of e) (pd_executions s)"
      "pd_jobs s' = pd_jobs s"
    and good: "good_execution e" "ex_status e = ES_AWAITING_APPROVAL"
  shows "delivery_inv s'"
proof -
  have D: "dget (pd_executions s') = (dget (pd_executions s))(ex_id e \<mapsto> execution_row_of e)"
    by (simp only: new dget_dset)
  have "executions_inv s'"
    unfolding executions_inv_def
  proof (intro conjI allI impI)
    show "wf_dict (pd_executions s')" using inv new by (simp add: delivery_inv_def executions_inv_def)
  next
    fix k x assume "dget (pd_executions s') k = Some x"
    then show "\<exists>e. x = execution_row_of e \<and> ex_id e = k \<and> good_execution e"
      using inv good D by (cases "k = ex_id e") (auto simp: delivery_inv_def executions_inv_def)
  next
    fix k1 x1 k2 x2
    assume a: "dget (pd_executions s') k1 = Some x1" "dget (pd_executions s') k2 = Some x2"
      "xw_organization_id x1 = xw_organization_id x2" "xw_work_item_id x1 = xw_work_item_id x2"
    show "k1 = k2"
    proof (cases "k1 = ex_id e \<or> k2 = ex_id e")
      case True
      have "xw_organization_id x = ex_organization_id e \<and> xw_work_item_id x = ex_work_item_id e"
        if "dget (pd_executions s') (ex_id e) = Some x" for x using that D by auto
      moreover have "dget (pd_executions s) k = Some x"
        if "dget (pd_executions s') k = Some x" "k \<noteq> ex_id e" for k x using that D by simp
      ultimately show ?thesis using a True unique by metis
    next
      case False
      then have "dget (pd_executions s) k1 = Some x1" "dget (pd_executions s) k2 = Some x2"
        using a(1,2) D by simp_all
      then show ?thesis using inv a(3,4) unfolding delivery_inv_def executions_inv_def by blast
    qed
  qed
  moreover have "jobs_inv s'" using inv new(2) by (simp add: delivery_inv_def jobs_inv_def jobs_wf_def)
  moreover have "delivered_inv s'"
    unfolding delivered_inv_def
  proof (intro allI impI)
    fix k x assume a: "dget (pd_executions s') k = Some x" "xw_status x \<in> {''DELIVERING'', ''DELIVERED''}"
    then have "dget (pd_executions s) k = Some x"
      using D good(2) by (cases "k = ex_id e") auto
    then have "verified_job s k" using a(2) inv by (auto simp: delivery_inv_def delivered_inv_def)
    then show "verified_job s' k" using new(2) by (simp add: verified_job_def)
  qed
  ultimately show ?thesis by (simp add: delivery_inv_def)
qed

lemma accept_ready_work_item_effect:
  assumes acc: "accept_ready_work_item (PostgresDeliveryRepository rp) PostgresWorkflowGateway
      xid eid now org pid wid title descr crit rc pc pool b corr s = (Inr e, s')"
    and inv: "delivery_inv s"
  shows "delivery_inv s'" and "stored s' e \<or> keeps s s'"
    and "ex_organization_id e = org \<and> ex_work_item_id e = wid"
proof -
  have einv: "executions_inv s" using inv by (simp add: delivery_inv_def)
  obtain q t where q: "pg_get_execution_by_work_item rp org wid s = (q, t)" by fastforce
  have "delivery_inv s' \<and> (stored s' e \<or> keeps s s') \<and> ex_organization_id e = org \<and> ex_work_item_id e = wid"
  proof (cases rule: get_by_work_item_cases [OF einv q])
    case (2 e0)
    then show ?thesis
      using acc q keeps_inv [of s t] inv
      by (auto simp: accept_ready_work_item_def pg_simps bindS_def returnS_def)
  next
    case 1
    define e1 where "e1 = \<lparr>ex_id = xid, ex_organization_id = org,
                  ex_project_id = pid, ex_work_item_id = wid, ex_title = title,
                  ex_description = descr, ex_acceptance_criteria = crit,
                  ex_repository_connection_id = rc,
                  ex_provider_configuration_id = pc,
                  ex_runner_pool_id = pool, ex_budget = b,
                  ex_approval_status = AP_PENDING, ex_status = ES_AWAITING_APPROVAL,
                  ex_attempt_count = 0, ex_turn_count = 0, ex_duration_seconds = 0,
                  ex_cost_minor = 0, ex_version = 1, ex_cancellation_requested = False,
                  ex_result_reference = None\<rparr>"
    have good: "good_execution e1" "ex_status e1 = ES_AWAITING_APPROVAL"
      by (simp_all add: e1_def good_execution_def execution_inv_def valid_result_def nothing_used_def)
    from acc q 1(1) obtain c t2 t3 added where
      prov: "pg_get_provider_configuration org pc t = (Inr c, t2)" and
      add: "pg_add_execution rp e1 t2 = (Inr added, t3)" and e: "e = e1" and
      rest: "if added then \<exists>t4. dl_append_event (PostgresDeliveryRepository rp) eid now e1 EK_APPROVAL
                 ''execution.approval_required'' ''Execution is waiting for reviewer approval.''
                 [(''correlation_id'', JStr (str_uuid corr))] t3 = (Inr (), t4) \<and> pg_start e1 t4 = (Inr (), s')
             else s' = t3"
      unfolding accept_ready_work_item_def oper_iffs Let_def e1_def [symmetric]
      by (auto simp: pg_simps oper_iffs split: if_splits)
    have K2: "keeps s t2" using 1(2) get_provider_keeps [OF prov] by (rule keeps_trans)
    have inv2: "delivery_inv t2" by (rule keeps_inv [OF K2 inv])
    then have einv2: "executions_inv t2" by (simp add: delivery_inv_def)
    have ids: "ex_organization_id e = org \<and> ex_work_item_id e = wid" by (simp add: e e1_def)
    show ?thesis
    proof (cases rule: add_execution_cases [OF einv2 add])
      case 1
      then show ?thesis by simp
    next
      case 2
      then have "keeps s s'" using rest K2 by (auto intro: keeps_trans)
      then show ?thesis using ids keeps_inv inv by blast
    next
      case 3
      have inv3: "delivery_inv t3" by (rule delivery_inv_insert [OF inv2 3(2-5) good])
      obtain t4 where ev: "dl_append_event (PostgresDeliveryRepository rp) eid now e1 EK_APPROVAL
          ''execution.approval_required'' ''Execution is waiting for reviewer approval.''
          [(''correlation_id'', JStr (str_uuid corr))] t3 = (Inr (), t4)" and
        st: "pg_start e1 t4 = (Inr (), s')" using rest 3(1) by auto
      have K: "keeps t3 s'" by (rule keeps_trans [OF append_service_event_keeps [OF ev] start_keeps [OF st]])
      moreover have "stored t3 e" using 3(4) good e by (simp add: stored_def)
      ultimately show ?thesis using K ids keeps_inv [OF K inv3] stored_keeps [OF K] by blast
    qed
  qed
  then show "delivery_inv s'" "stored s' e \<or> keeps s s'" "ex_organization_id e = org \<and> ex_work_item_id e = wid"
    by blast+
qed

section \<open>The runners keep the invariant\<close>

lemma lease_executions [simp]:
  "pg_lease_runner_job pick now now' r s = (x, s') \<Longrightarrow> pd_executions s' = pd_executions s"
  "pg_heartbeat_runner_job now r k s = (y, s') \<Longrightarrow> pd_executions s' = pd_executions s"
  "pg_complete_runner_job now r k v s = (z, s') \<Longrightarrow> pd_executions s' = pd_executions s"
  unfolding lease_runner_job_iff heartbeat_runner_job_iff complete_runner_job_iff Let_def
  by (auto split: option.splits)

lemma lease_runner_job_inv:
  assumes "pg_lease_runner_job pick now now' r s = (x, s')" and inv: "delivery_inv s"
  shows "delivery_inv s'"
proof -
  have j: "jobs_wf s" using inv by (simp add: delivery_inv_def jobs_inv_def)
  have m: "mapS (map_option jw_id) (pg_lease_runner_job pick now now' r) s
      = (map_sum id (map_option jw_id) x, s')"
    using assms(1) by (cases x) (simp_all add: mapS_def)
  show ?thesis
  proof (cases rule: lease_runner_job_cases [OF j m])
    case 1
    then show ?thesis using inv lease_executions(1) [OF assms(1)] by (auto intro: delivery_inv_other)
  next
    case (2 row)
    then have "good_job row" using inv by (auto simp: delivery_inv_def jobs_inv_def)
    then show ?thesis
      using 2 inv lease_executions(1) [OF assms(1)]
      by (intro delivery_inv_job [OF inv 2(4)]) (auto simp: good_job_def leasable_job_def)
  qed
qed

lemma heartbeat_runner_job_inv:
  assumes "pg_heartbeat_runner_job now r k s = (x, s')" and inv: "delivery_inv s"
  shows "delivery_inv s'"
proof -
  have j: "jobs_wf s" using inv by (simp add: delivery_inv_def jobs_inv_def)
  have m: "mapS (map_option jw_id) (pg_heartbeat_runner_job now r k) s
      = (map_sum id (map_option jw_id) x, s')"
    using assms(1) by (cases x) (simp_all add: mapS_def)
  show ?thesis
  proof (cases rule: heartbeat_runner_job_cases [OF m j])
    case 1
    then show ?thesis using inv lease_executions(2) [OF assms(1)] by (auto intro: delivery_inv_other)
  next
    case (2 row)
    then have "good_job row" using inv by (auto simp: delivery_inv_def jobs_inv_def)
    then show ?thesis
      using 2 inv lease_executions(2) [OF assms(1)]
      by (intro delivery_inv_job [OF inv 2(6)]) (auto simp: good_job_def)
  qed
qed

lemma complete_runner_job_inv:
  assumes "pg_complete_runner_job now r k (dump_job_report v) s = (x, s')" and inv: "delivery_inv s"
    and v: "valid_job_report v"
  shows "delivery_inv s'"
proof (cases "held_job r k (s\<lparr>pd_organization := Some (rn_organization_id r)\<rparr>)")
  case None
  then show ?thesis
    using assms(1) inv unfolding complete_runner_job_iff by (auto intro: delivery_inv_other)
next
  case (Some row)
  then have row: "dget (pd_jobs s) k = Some row" "jw_status row = ''LEASED''"
    by (auto simp: held_job_Some)
  then have g: "good_job row" "jw_id row = k"
    using inv by (auto simp: delivery_inv_def jobs_inv_def jobs_wf_def dest: keyedD)
  have "pd_jobs s' = dset k (row\<lparr>jw_status := ''COMPLETED'', jw_result := Some (dump_job_report v),
      jw_completed_at := Some now\<rparr>) (pd_jobs s)"
    using assms(1) Some unfolding complete_runner_job_iff by (auto simp: Let_def)
  from delivery_inv_job [OF inv this lease_executions(3) [OF assms(1)]]
  show ?thesis using row g v by (auto simp: good_job_def)
qed

section \<open>The activities keep the invariant\<close>

lemma create_runner_job_inv:
  assumes "pg_create_runner_job e payload s = (Inr row, s')" and inv: "delivery_inv s"
  shows "delivery_inv s'" and "pd_executions s' = pd_executions s"
proof -
  have "delivery_inv s' \<and> pd_executions s' = pd_executions s"
  proof (cases "find (\<lambda>row. jw_execution_id row = ex_id e)
      (visible jw_organization_id (Some (ex_organization_id e)) (pd_jobs s))")
    case (Some x)
    then show ?thesis
      using assms(1) inv by (auto simp: pg_create_runner_job_def oper_iffs intro: delivery_inv_other)
  next
    case None
    let ?row = "\<lparr>jw_id = ex_id e XOR 1, jw_organization_id = ex_organization_id e,
      jw_execution_id = ex_id e, jw_pool_id = ex_runner_pool_id e, jw_status = ''QUEUED'',
      jw_payload = payload, jw_result = None, jw_leased_by_runner_id = None, jw_leased_at = None,
      jw_completed_at = None\<rparr>"
    have free: "dget (pd_jobs s) (ex_id e XOR 1) = None"
      and new: "pd_jobs s' = dset (ex_id e XOR 1) ?row (pd_jobs s)" "pd_executions s' = pd_executions s"
      using assms(1) None by (auto simp: pg_create_runner_job_def oper_iffs Let_def split: if_splits)
    show ?thesis
      using delivery_inv_job [OF inv new] free new(2) by (simp add: good_job_def)
  qed
  then show "delivery_inv s'" "pd_executions s' = pd_executions s" by blast+
qed

lemma act_enqueue_inv:
  assumes "act_enqueue rp fresh org xid s = (r, s')" and inv: "delivery_inv s"
  shows "delivery_inv s'"
  using assms unfolding act_enqueue_def
proof (rule in_session_inv)
  fix a t
  let ?s0 = "s\<lparr>pd_organization := None\<rparr>"
  have inv0: "delivery_inv ?s0" using inv by (auto intro: delivery_inv_other)
  then have einv: "executions_inv ?s0" by (simp add: delivery_inv_def)
  assume "bindS (pg_get_execution rp org xid) (\<lambda>found.
        bindS (requireS (DlRuntimeE ''execution not found'') found) (\<lambda>e.
        bindS (pg_get_provider_configuration org (ex_provider_configuration_id e))
         (\<lambda>found_configuration.
        bindS (requireS (DlRuntimeE ''provider configuration not found'') found_configuration) (\<lambda>c.
        bindS (if ex_status e = ES_QUEUED
               then bindS (deliveryS (start_provisioning e)) (\<lambda>e1.
                    bindS (deliveryS (start_planning e1)) (\<lambda>e2.
                    bindS (deliveryS (start_building e2)) (\<lambda>e3.
                    seqS (pg_update_execution e3) (returnS e3))))
               else returnS e) (\<lambda>e'.
        bindS (pg_create_runner_job e' (job_payload e' c)) (\<lambda>_.
        seqS (act_event (fresh 0) (ex_id e') (ex_organization_id e') EK_STATE ''runner.job_queued''
                ''An isolated runner job was queued without credential values.'' [])
        (returnS ((), True)))))))) ?s0 = (Inr (a, True), t)"
  then obtain e t1 c t2 e' t3 row t4 where
    get: "pg_get_execution rp org xid ?s0 = (Inr (Some e), t1)" and
    prov: "pg_get_provider_configuration org (ex_provider_configuration_id e) t1 = (Inr (Some c), t2)" and
    move: "(if ex_status e = ES_QUEUED
               then bindS (deliveryS (start_provisioning e)) (\<lambda>e1.
                    bindS (deliveryS (start_planning e1)) (\<lambda>e2.
                    bindS (deliveryS (start_building e2)) (\<lambda>e3.
                    seqS (pg_update_execution e3) (returnS e3))))
               else returnS e) t2 = (Inr e', t3)" and
    job: "pg_create_runner_job e' (job_payload e' c) t3 = (Inr row, t4)" and
    ev: "act_event (fresh 0) (ex_id e') (ex_organization_id e') EK_STATE ''runner.job_queued''
                ''An isolated runner job was queued without credential values.'' [] t4 = (Inr (), t)"
    unfolding oper_iffs by blast
  note found = get_execution_Some [OF einv get]
  have K: "keeps ?s0 t2" by (rule keeps_trans [OF found(4) get_provider_keeps [OF prov]])
  have "delivery_inv t3"
  proof (cases "ex_status e = ES_QUEUED")
    case False
    then show ?thesis using move keeps_inv [OF K inv0] by (auto simp: oper_iffs)
  next
    case True
    then obtain e1 e2 where
      steps: "start_provisioning e = Inr e1" "start_planning e1 = Inr e2" "start_building e2 = Inr e'" and
      upd: "pg_update_execution e' t2 = (Inr (), t3)"
      using move by (auto simp: oper_iffs deliveryS_iff)
    have st: "static e' = static e"
      using static_step [OF execution_step.provisioning [OF steps(1)]]
        static_step [OF execution_step.planning [OF steps(2)]]
        static_step [OF execution_step.building [OF steps(3)]] by simp
    have "valid_result e1 = valid_result e" "valid_result e2 = valid_result e" "valid_result e' = valid_result e"
      "ex_status e' = ES_BUILDING" using steps by (auto simp: dl_transitions valid_result_def)
    moreover have "good_execution e" using found(1) by (simp add: stored_def)
    ultimately have "good_execution e'" "ex_status e' = ES_BUILDING"
      using good_step [OF execution_step.provisioning [OF steps(1)]]
        good_step [OF execution_step.planning [OF steps(2)]]
        good_step [OF execution_step.building [OF steps(3)]] by (auto simp: good_execution_def)
    then show ?thesis
      using update_stored(1) [OF upd keeps_inv [OF K inv0] stored_keeps [OF K found(1)] st] by simp
  qed
  then show "delivery_inv t"
    using create_runner_job_inv(1) [OF job] act_event_keeps [OF ev] keeps_inv by blast
qed

text \<open>
  Processing a completed job: either the report is verified and delivery starts, or a repair
  is queued, or the attempts are used up and a human takes over.
\<close>

definition requeued :: "job_row \<Rightarrow> job_row" where
  "requeued j = j\<lparr>jw_status := ''QUEUED'', jw_result := None, jw_leased_by_runner_id := None,
                  jw_leased_at := None\<rparr>"

definition processed ::
  "runner_job_complete \<Rightarrow> execution \<Rightarrow> job_row \<Rightarrow> poll \<Rightarrow> dl_db \<Rightarrow> execution \<Rightarrow> dl_db \<Rightarrow> bool" where
  "processed r e j p s e' s' \<longleftrightarrow>
     static e' = static e \<and> within_budget e' \<and>
     ex_attempt_count e' = ex_attempt_count e + 1 \<and>
     ex_turn_count e' = ex_turn_count e + ag_turns (rj_agent r) \<and>
     ex_duration_seconds e' = ex_duration_seconds e + rj_duration_seconds r \<and>
     ex_cost_minor e' = ex_cost_minor e + rj_cost_minor r \<and>
     ex_status e = ES_BUILDING \<and> stored s' e' \<and>
     (if report_verified r
      then p = Verified e' (dump_job_report r) \<and> ex_status e' = ES_DELIVERING \<and>
           pd_jobs s' = pd_jobs s
      else if ex_attempt_count e' \<ge> eb_max_attempts (ex_budget e)
      then p = Returned ''AWAITING_HUMAN'' \<and> ex_status e' = ES_AWAITING_HUMAN \<and>
           pd_jobs s' = pd_jobs s
      else p = RepairQueued \<and> ex_status e' = ES_BUILDING \<and>
           pd_jobs s' = dset (jw_id j) (requeued j) (pd_jobs s))"

lemma act_process_result_effect:
  assumes run: "act_process_result rp fresh e j s = (Inr (p, c), s')" and inv: "delivery_inv s"
    and e: "stored s e" and j: "dget (pd_jobs s) (jw_id j) = Some j" "jw_execution_id j = ex_id e"
      "jw_status j = ''COMPLETED''" "jw_result j = Some (dump_job_report r)" "valid_job_report r"
  shows "delivery_inv s'" and "c" and "\<exists>e'. processed r e j p s e' s'"
proof -
  from run obtain e1 e2 t1 n t2 t3 where
    use: "record_usage 1 (ag_turns (rj_agent r)) (rj_duration_seconds r) (rj_cost_minor r) e = Inr e1" and
    ver: "start_verification e1 = Inr e2" and
    upd: "pg_update_execution e2 s = (Inr (), t1)" and
    evs: "act_agent_events rp fresh 0 (ex_id e2) (ex_organization_id e2)
            (map dump_agent_event (ag_events (rj_agent r))) t1 = (Inr n, t2)" and
    ev: "act_event (fresh n) (ex_id e2) (ex_organization_id e2) EK_RESULT ''verification.completed''
           (verification_message (report_verified r)) [] t2 = (Inr (), t3)" and
    rest: "(if \<not> report_verified r then
         bindS (deliveryS (request_repair e2)) (\<lambda>e3.
         if ex_status e3 = ES_REPAIRING then
           bindS (deliveryS (start_building e3)) (\<lambda>e4.
           seqS (writeS (\<lambda>s. s\<lparr>pd_jobs := dset (jw_id j) (requeued j) (pd_jobs s)\<rparr>))
           (seqS (pg_update_execution e4)
           (seqS (act_event (fresh (Suc n)) (ex_id e4) (ex_organization_id e4) EK_DECISION
                    ''repair.queued'' ''Verification failed; a bounded repair attempt was queued.'' [])
           (returnS (RepairQueued, True)))))
         else seqS (pg_update_execution e3)
              (returnS (Returned (execution_status_value (ex_status e3)), True)))
       else
         bindS (deliveryS (start_delivery e2)) (\<lambda>e3.
         seqS (pg_update_execution e3) (returnS (Verified e3 (dump_job_report r), True)))) t3
       = (Inr (p, c), s')"
    unfolding act_process_result_def j(4) Let_def option.case read_report read_agent int_of_JInt
      verdict_report requeued_def [symmetric] json.case bindS_simps oper_iffs deliveryS_iff
    by blast
  have st1: "execution_step e e1"
    using use j(5) by (intro execution_step.usage) (auto simp: valid_job_report_def valid_agent_report_def)
  have st2: "execution_step e1 e2" by (rule execution_step.verification [OF ver])
  have vr: "valid_result e1 = valid_result e" "valid_result e2 = valid_result e"
    using use ver by (auto simp: dl_transitions valid_result_def)
  have g: "good_execution e" using e by (simp add: stored_def)
  then have g2: "good_execution e2"
    using good_step [OF st1] good_step [OF st2] vr by (auto simp: good_execution_def)
  have fields: "ex_status e = ES_BUILDING" "ex_status e2 = ES_VERIFYING" "within_budget e2"
    "ex_attempt_count e2 = ex_attempt_count e + 1" "ex_turn_count e2 = ex_turn_count e + ag_turns (rj_agent r)"
    "ex_duration_seconds e2 = ex_duration_seconds e + rj_duration_seconds r"
    "ex_cost_minor e2 = ex_cost_minor e + rj_cost_minor r"
    using use ver by (auto simp: dl_transitions within_budget_def)
  have sta2: "static e2 = static e" using static_step [OF st1] static_step [OF st2] by simp
  note U = update_stored [OF upd inv e sta2 g2]
  have K: "keeps t1 t3" by (rule keeps_trans [OF agent_events_keeps [OF evs] act_event_keeps [OF ev]])
  have inv3: "delivery_inv t3" and e3: "stored t3 e2" and jobs3: "pd_jobs t3 = pd_jobs s"
    using U fields keeps_inv [OF K] stored_keeps [OF K] K by (auto simp: keeps_def)
  have "delivery_inv s' \<and> c \<and> (\<exists>e'. processed r e j p s e' s')"
  proof (cases "report_verified r")
    case True
    then obtain e' where d: "start_delivery e2 = Inr e'" "pg_update_execution e' t3 = (Inr (), s')"
      "p = Verified e' (dump_job_report r)" "c"
      using rest by (auto simp: oper_iffs deliveryS_iff)
    have st: "execution_step e2 e'" by (rule execution_step.start_delivery [OF d(1)])
    have "valid_result e' = valid_result e2" using d(1) by (auto simp: dl_transitions valid_result_def)
    then have g': "good_execution e'" using good_step [OF st g2] g2 by (simp add: good_execution_def)
    have "jw_id j = ex_id e2 XOR 1"
      using inv j(1,2) staticD(1) [OF sta2] by (auto simp: delivery_inv_def jobs_inv_def good_job_def)
    then have vj: "verified_job t3 (ex_id e2)"
      using j True jobs3 staticD(1) [OF sta2] by (auto simp: verified_job_def)
    note V = update_stored [OF d(2) inv3 e3 static_step [OF st] g' vj]
    show ?thesis
      using V True d fields sta2 static_step [OF st] jobs3 g'
      by (intro conjI exI [of _ e']) (auto simp: processed_def dl_transitions within_budget_def)
  next
    case False
    note nv = this
    show ?thesis
    proof (cases "ex_attempt_count e2 \<ge> eb_max_attempts (ex_budget e2)")
      case True
      then obtain e' where d: "request_repair e2 = Inr e'" "pg_update_execution e' t3 = (Inr (), s')"
        "p = Returned (execution_status_value (ex_status e'))" "c" "ex_status e' = ES_AWAITING_HUMAN"
        using rest nv by (auto simp: oper_iffs deliveryS_iff dl_transitions split: if_splits)
      have st: "execution_step e2 e'" by (rule execution_step.repair [OF d(1)])
      have "valid_result e' = valid_result e2" using d(1) by (auto simp: dl_transitions valid_result_def)
      then have g': "good_execution e'" using good_step [OF st g2] g2 by (simp add: good_execution_def)
      note V = update_stored [OF d(2) inv3 e3 static_step [OF st] g']
      show ?thesis
        using V True nv d fields sta2 static_step [OF st] jobs3 staticD(11) [OF sta2]
        by (intro conjI exI [of _ e']) (auto simp: processed_def dl_transitions within_budget_def)
    next
      case False
      then obtain e3a e' t4 t5 where d: "request_repair e2 = Inr e3a" "ex_status e3a = ES_REPAIRING"
        "start_building e3a = Inr e'"
        "t4 = t3\<lparr>pd_jobs := dset (jw_id j) (requeued j) (pd_jobs t3)\<rparr>"
        "pg_update_execution e' t4 = (Inr (), t5)"
        and ev2: "act_event (fresh (Suc n)) (ex_id e') (ex_organization_id e') EK_DECISION
                    ''repair.queued'' ''Verification failed; a bounded repair attempt was queued.'' [] t5
                  = (Inr (), s')"
        and pc: "p = RepairQueued" "c"
        using rest nv by (auto simp: oper_iffs deliveryS_iff dl_transitions split: if_splits)
      have st: "execution_step e2 e3a" "execution_step e3a e'"
        by (rule execution_step.repair [OF d(1)], rule execution_step.building [OF d(3)])
      have vr': "valid_result e3a = valid_result e2" "valid_result e' = valid_result e2"
        using d(1,3) by (auto simp: dl_transitions valid_result_def)
      have g': "good_execution e'"
        using good_step [OF st(2) good_step [OF st(1) g2]] vr' g2 by (simp add: good_execution_def)
      have sta': "static e' = static e2" using static_step [OF st(1)] static_step [OF st(2)] by simp
      have bld: "ex_status e' = ES_BUILDING" using d(3) by (auto simp: dl_transitions)
      have gj: "good_job j" using inv j(1) by (auto simp: delivery_inv_def jobs_inv_def)
      have inv4: "delivery_inv t4"
      proof -
        have nodel: "\<not> verified_job t3 x" if "x \<noteq> ex_id e \<and> x XOR 1 = jw_id j" for x
          using that j(1,2) jobs3 by (auto simp: verified_job_def)
        have "delivered_inv t4"
          unfolding delivered_inv_def
        proof (intro allI impI)
          fix k x assume a: "dget (pd_executions t4) k = Some x" "xw_status x \<in> {''DELIVERING'', ''DELIVERED''}"
          then have row: "dget (pd_executions t3) k = Some x" by (simp add: d(4))
          then have vk: "verified_job t3 k"
            using a(2) inv3 by (auto simp: delivery_inv_def delivered_inv_def)
          have "k \<noteq> ex_id e"
            using row a(2) e3 fields(2) staticD(1) [OF sta2] by (auto simp: stored_def)
          then have "k XOR 1 \<noteq> jw_id j" using nodel vk by blast
          then show "verified_job t4 k" using vk by (simp add: verified_job_def d(4))
        qed
        moreover have "executions_inv t4" using inv3 by (simp add: delivery_inv_def executions_inv_def d(4))
        moreover have "jobs_inv t4"
          using inv3 gj by (auto simp: delivery_inv_def jobs_inv_def jobs_wf_def d(4) good_job_def requeued_def)
        ultimately show ?thesis by (simp add: delivery_inv_def)
      qed
      have e4: "stored t4 e2" using e3 by (simp add: stored_def d(4))
      note V = update_stored [OF d(5) inv4 e4 sta' g']
      have K2: "keeps t5 s'" by (rule act_event_keeps [OF ev2])
      have cnt: "within_budget e'" "ex_attempt_count e' = ex_attempt_count e2"
        "ex_turn_count e' = ex_turn_count e2" "ex_duration_seconds e' = ex_duration_seconds e2"
        "ex_cost_minor e' = ex_cost_minor e2"
        using d(1,3) fields(3) by (auto simp: dl_transitions within_budget_def)
      have "processed r e j p s e' s'"
        using V bld nv False pc fields sta2 sta' cnt jobs3 K2 stored_keeps [OF K2] staticD(11) [OF sta2]
        by (auto simp: processed_def keeps_def d(4))
      then show ?thesis using V(1) bld pc keeps_inv [OF K2] by auto
    qed
  qed
  then show "delivery_inv s'" "c" "\<exists>e'. processed r e j p s e' s'" by blast+
qed

lemma runner_job_for_execution_cases:
  assumes "jobs_inv s" and "pg_runner_job_for_execution org xid s = (r, s')"
  obtains (none) "r = Inr None" "s' = s\<lparr>pd_organization := Some org\<rparr>"
    | (some) j where "r = Inr (Some j)" "s' = s\<lparr>pd_organization := Some org\<rparr>"
        "dget (pd_jobs s) (jw_id j) = Some j" "jw_execution_id j = xid" "good_job j"
proof (cases "find (\<lambda>row. jw_execution_id row = xid) (visible jw_organization_id (Some org) (pd_jobs s))")
  case None
  then show thesis
    using assms(2) none by (simp add: pg_runner_job_for_execution_def readS_def)
next
  case (Some j)
  have wf: "wf_dict (pd_jobs s)" "keyed jw_id (pd_jobs s)"
    using assms(1) by (simp_all add: jobs_inv_def jobs_wf_def)
  have "j \<in> set (visible jw_organization_id (Some org) (pd_jobs s))" "jw_execution_id j = xid"
    using find_SomeD [OF Some] by auto
  moreover from this obtain k where k: "dget (pd_jobs s) k = Some j"
    using visible_job [OF wf(1)] by blast
  moreover have "jw_id j = k" using keyedD [OF wf(2) k] .
  moreover have "good_job j" using assms(1) k by (auto simp: jobs_inv_def)
  ultimately show thesis
    using assms(2) some [of j] Some by (simp add: pg_runner_job_for_execution_def readS_def)
qed

text \<open>One pass of the loop: it waits, it fails and changes nothing, or it processes a report.\<close>

lemma act_poll_cases:
  assumes run: "act_poll rp fresh org xid s = (r, s')" and inv: "delivery_inv s"
  obtains (waiting) j where "r = Inr Waiting" "keeps s s'" "dget (pd_jobs s) (jw_id j) = Some j"
        "jw_execution_id j = xid" "good_job j" "jw_status j \<noteq> ''COMPLETED''"
    | (failed) x where "r = Inl x" "keeps s s'"
    | (processed) p e j v e' where "r = Inr p" "stored s e" "ex_id e = xid" "ex_organization_id e = org"
        "dget (pd_jobs s) (jw_id j) = Some j" "jw_execution_id j = xid" "jw_status j = ''COMPLETED''"
        "jw_result j = Some (dump_job_report v)" "processed v e j p s e' s'" "delivery_inv s'"
proof -
  let ?s0 = "s\<lparr>pd_organization := None\<rparr>"
  let ?m = "bindS (pg_get_execution rp org xid) (\<lambda>found.
        bindS (pg_runner_job_for_execution org xid) (\<lambda>found_job.
        case (found, found_job) of
          (Some e, Some job) \<Rightarrow>
            if jw_status job \<noteq> ''COMPLETED'' then returnS (Waiting, False)
            else act_process_result rp fresh e job
        | _ \<Rightarrow> raiseS (DlRuntimeE ''execution job disappeared'')))"
  have K0: "keeps s ?s0" by simp
  have inv0: "delivery_inv ?s0" by (rule keeps_inv [OF K0 inv])
  obtain o' t where m: "?m ?s0 = (o', t)" by fastforce
  show thesis
  proof (cases o')
    case (Inl x)
    then have "r = Inl x" "s' = ?s0" using run m by (simp_all add: act_poll_def in_session_def)
    then show thesis using failed by simp
  next
    case (Inr pc)
    then obtain p c where pc: "o' = Inr (p, c)" by (cases pc) auto
    obtain q1 t1 where g: "pg_get_execution rp org xid ?s0 = (q1, t1)" by fastforce
    obtain q2 t2 where g2: "pg_runner_job_for_execution org xid t1 = (q2, t2)" by fastforce
    have ei: "executions_inv ?s0" using inv0 by (simp add: delivery_inv_def)
    have t1: "t1 = ?s0\<lparr>pd_organization := Some org\<rparr>" using get_execution_cases [OF ei g] by blast
    have inv1: "delivery_inv t1" by (rule delivery_inv_other [OF inv0]) (simp_all add: t1)
    then have ji: "jobs_inv t1" by (simp add: delivery_inv_def)
    have t2: "t2 = t1\<lparr>pd_organization := Some org\<rparr>"
      using runner_job_for_execution_cases [OF ji g2] by blast
    obtain e where e: "q1 = Inr (Some e)" "stored ?s0 e" "ex_id e = xid" "ex_organization_id e = org"
      using get_execution_cases [OF ei g] m pc g g2 runner_job_for_execution_cases [OF ji g2]
      by (auto simp: bindS_def raiseS_def split: option.splits sum.splits)
    obtain j where j: "q2 = Inr (Some j)" "dget (pd_jobs t1) (jw_id j) = Some j"
        "jw_execution_id j = xid" "good_job j"
      using runner_job_for_execution_cases [OF ji g2] m pc g g2 e(1)
      by (auto simp: bindS_def raiseS_def split: option.splits sum.splits)
    have m': "(if jw_status j \<noteq> ''COMPLETED'' then returnS (Waiting, False)
        else act_process_result rp fresh e j) t2 = (Inr (p, c), t)"
      using m pc g g2 e(1) j(1) by (simp add: bindS_def)
    show thesis
    proof (cases "jw_status j = ''COMPLETED''")
      case False
      then have "r = Inr Waiting" "s' = ?s0"
        using m' run m pc by (simp_all add: act_poll_def in_session_def returnS_def)
      then show thesis using waiting [of j] j t1 False by simp
    next
      case True
      obtain v where v: "valid_job_report v" "jw_result j = Some (dump_job_report v)"
        using j(4) True by (auto simp: good_job_def)
      have eq: "pd_executions t2 = pd_executions s" "pd_jobs t2 = pd_jobs s" by (simp_all add: t2 t1)
      have inv2: "delivery_inv t2" by (rule delivery_inv_other [OF inv eq])
      have e2: "stored t2 e" "stored s e" using e(2) eq by (simp_all add: stored_def)
      have j2: "dget (pd_jobs t2) (jw_id j) = Some j" "dget (pd_jobs s) (jw_id j) = Some j"
        using j(2) eq t1 by simp_all
      have run': "act_process_result rp fresh e j t2 = (Inr (p, c), t)" using m' True by simp
      note P = act_process_result_effect [OF run' inv2 e2(1) j2(1) _ True v(2,1)]
      obtain e' where e': "processed v e j p t2 e' t" and c: c and it: "delivery_inv t"
        using P e(3) j(3) by auto
      have s': "r = Inr p" "s' = t\<lparr>pd_organization := None\<rparr>"
        using run m pc c by (simp_all add: act_poll_def in_session_def)
      have K: "keeps t s'" by (simp add: s')
      have "processed v e j p s e' s'"
        using e' eq stored_keeps [OF K] by (auto simp: processed_def s'(2))
      then show thesis
        using processed [of p e j v e'] s' e e2 j2 j(3) True v keeps_inv [OF K it] by blast
    qed
  qed
qed

lemma act_poll_waiting:
  assumes "act_poll rp fresh org xid s = (Inr Waiting, s')" and inv: "delivery_inv s"
  shows "\<not> verified_job s xid"
proof
  assume v: "verified_job s xid"
  have wf: "wf_dict (pd_jobs s)" "keyed jw_id (pd_jobs s)"
    using inv by (simp_all add: delivery_inv_def jobs_inv_def jobs_wf_def)
  obtain j where j: "dget (pd_jobs s) (xid XOR 1) = Some j" "jw_status j = ''COMPLETED''"
    using v by (auto simp: verified_job_def)
  show False
  proof (cases rule: act_poll_cases [OF assms])
    case (1 j')
    then have "jw_id j' = xid XOR 1" by (simp add: good_job_def)
    then show False using j 1 by simp
  next
    case (3 p e j v e')
    then show False by (auto simp: processed_def split: if_splits)
  qed simp
qed

lemma act_poll_inv: "act_poll rp fresh org xid s = (r, s') \<Longrightarrow> delivery_inv s \<Longrightarrow> delivery_inv s'"
  by (erule act_poll_cases) (auto intro: keeps_inv)

lemma act_deliver_inv:
  assumes "act_deliver rp fresh org xid reference s = (r, s')" and inv: "delivery_inv s"
    and ref: "valid_external_reference reference"
  shows "delivery_inv s'"
  using assms(1,2) unfolding act_deliver_def
proof (rule in_session_inv)
  fix a t
  let ?s0 = "s\<lparr>pd_organization := None\<rparr>"
  have inv0: "delivery_inv ?s0" by (rule keeps_inv [OF keeps_refl(2) inv])
  then have einv: "executions_inv ?s0" by (simp add: delivery_inv_def)
  assume "bindS (pg_get_execution rp org xid) (\<lambda>found.
        bindS (requireS (DlRuntimeE ''execution disappeared during delivery'') found) (\<lambda>e.
        bindS (deliveryS (deliver reference e)) (\<lambda>e'.
        seqS (pg_update_execution e')
        (seqS (act_event (fresh 0) (ex_id e') (ex_organization_id e') EK_RESULT
                 ''delivery.completed'' ''Verified changes were associated with a pull request.'' [])
        (returnS (execution_status_value (ex_status e'), True)))))) ?s0 = (Inr (a, True), t)"
  then obtain e t1 e' t2 where
    get: "pg_get_execution rp org xid ?s0 = (Inr (Some e), t1)" and
    del: "deliver reference e = Inr e'" and upd: "pg_update_execution e' t1 = (Inr (), t2)" and
    ev: "act_event (fresh 0) (ex_id e') (ex_organization_id e') EK_RESULT
                 ''delivery.completed'' ''Verified changes were associated with a pull request.'' [] t2
         = (Inr (), t)"
    unfolding oper_iffs deliveryS_iff by blast
  note found = get_execution_Some [OF einv get]
  have step: "execution_step e e'" by (rule execution_step.deliver [OF del])
  have good: "good_execution e'"
    using good_step [OF step] found(1) del ref by (auto simp: stored_def dl_transitions valid_result_def)
  have "ex_status e = ES_DELIVERING" using del by (auto simp: dl_transitions)
  then have "verified_job ?s0 (ex_id e)"
    using inv0 found(1) by (fastforce simp: delivery_inv_def delivered_inv_def stored_def)
  then have ver: "verified_job t1 (ex_id e)" using found(4) by (simp add: verified_job_def keeps_def)
  show "delivery_inv t"
    using update_stored(1) [OF upd keeps_inv [OF found(4) inv0] stored_keeps [OF found(4,1)]
        static_step [OF step] good ver] keeps_inv [OF act_event_keeps [OF ev]] by blast
qed

lemma act_cancel_execution_inv:
  assumes "act_cancel_execution rp fresh org xid s = (r, s')" and inv: "delivery_inv s"
  shows "delivery_inv s'"
  using assms unfolding act_cancel_execution_def
proof (rule in_session_inv)
  fix a t
  let ?s0 = "s\<lparr>pd_organization := None\<rparr>"
  have inv0: "delivery_inv ?s0" by (rule keeps_inv [OF keeps_refl(2) inv])
  then have einv: "executions_inv ?s0" by (simp add: delivery_inv_def)
  assume "bindS (pg_get_execution rp org xid) (\<lambda>found.
        case found of
          None \<Rightarrow> returnS ((), False)
        | Some e \<Rightarrow>
            if \<not> ex_cancellation_requested e then returnS ((), False)
            else bindS (deliveryS (execution_cancel e)) (\<lambda>e'.
              seqS (pg_update_execution e')
              (seqS (act_event (fresh 0) (ex_id e') (ex_organization_id e') EK_STATE
                 ''execution.cancelled'' ''Execution was cancelled and cleanup was requested.'' [])
              (returnS ((), True))))) ?s0 = (Inr (a, True), t)"
  then obtain e t1 e' t2 where
    get: "pg_get_execution rp org xid ?s0 = (Inr (Some e), t1)" and
    can: "execution_cancel e = Inr e'" and upd: "pg_update_execution e' t1 = (Inr (), t2)" and
    ev: "act_event (fresh 0) (ex_id e') (ex_organization_id e') EK_STATE
                 ''execution.cancelled'' ''Execution was cancelled and cleanup was requested.'' [] t2
         = (Inr (), t)"
    unfolding bindS_Inr_iff by (auto simp: oper_iffs deliveryS_iff split: option.splits if_splits)
  note found = get_execution_Some [OF einv get]
  have step: "execution_step e e'" by (rule execution_step.cancel [OF can])
  have good: "good_execution e'" and st: "ex_status e' = ES_CANCELLED"
    using good_step [OF step] found(1) can
    by (auto simp: stored_def dl_transitions valid_result_def good_execution_def)
  show "delivery_inv t"
    using update_stored(1) [OF upd keeps_inv [OF found(4) inv0] stored_keeps [OF found(4,1)]
        static_step [OF step] good] st keeps_inv [OF act_event_keeps [OF ev]] by auto
qed

lemma record_inbox_keeps: "pg_record_inbox eid org ty s = (Inr b, s') \<Longrightarrow> keeps s s'"
  by (auto simp: pg_record_inbox_def oper_iffs keeps_def split: if_splits)

lemma upsert_membership_keeps:
  "pg_upsert_membership org sub r a s = (Inr u, s') \<Longrightarrow> keeps s s' \<and> pd_inbox s' = pd_inbox s"
  by (auto simp: pg_upsert_membership_def oper_iffs insertS_iff keeps_def split: option.splits)

lemma api_request_inv:
  assumes "api_request m s = (r, s')" and "delivery_inv s"
    and "\<And>a t t'. m t = (Inr a, t') \<Longrightarrow> delivery_inv t \<Longrightarrow> delivery_inv t'"
  shows "delivery_inv s'"
  using assms(1,2) unfolding api_request_def
proof (rule in_session_inv)
  fix a t
  assume "bindS m (\<lambda>a. returnS (a, True)) (s\<lparr>pd_organization := None\<rparr>) = (Inr (a, True), t)"
  then have "m (s\<lparr>pd_organization := None\<rparr>) = (Inr a, t)" by (auto simp: oper_iffs)
  then show "delivery_inv t" using assms(3) keeps_inv [OF keeps_refl(2) assms(2)] by blast
qed

text \<open>What an accepted work item event runs after the inbox row is written.\<close>

lemma process_event_run:
  assumes "process_event rp xid eid now ev s = (Inr (), s')"
  obtains (duplicate) t where
      "pg_record_inbox (ev_id ev) (ev_organization_id ev) (ev_type ev) (s\<lparr>pd_organization := None\<rparr>)
         = (Inr False, t)" "s' = s\<lparr>pd_organization := None\<rparr>"
    | (membership) t t' where
      "pg_record_inbox (ev_id ev) (ev_organization_id ev) (ev_type ev) (s\<lparr>pd_organization := None\<rparr>)
         = (Inr True, t)" "keeps t t' \<and> pd_inbox t' = pd_inbox t" "s' = t'\<lparr>pd_organization := None\<rparr>"
    | (work_item) t pid wid title descr crit rc pc pool b e t' where
      "pg_record_inbox (ev_id ev) (ev_organization_id ev) (ev_type ev) (s\<lparr>pd_organization := None\<rparr>)
         = (Inr True, t)"
      "accept_ready_work_item (PostgresDeliveryRepository rp) PostgresWorkflowGateway xid eid now
         (ev_organization_id ev) pid wid title descr crit rc pc pool b (ev_correlation_id ev) t = (Inr e, t')"
      "s' = t'\<lparr>pd_organization := None\<rparr>"
proof -
  let ?s0 = "s\<lparr>pd_organization := None\<rparr>"
  obtain new t where ib: "pg_record_inbox (ev_id ev) (ev_organization_id ev) (ev_type ev) ?s0 = (Inr new, t)"
    using assms
    by (cases "pg_record_inbox (ev_id ev) (ev_organization_id ev) (ev_type ev) ?s0"; cases "fst (pg_record_inbox (ev_id ev) (ev_organization_id ev) (ev_type ev) ?s0)")
       (auto simp: process_event_def in_session_def bindS_def Let_def)
  have k0: "keeps t t \<and> pd_inbox t = pd_inbox t" by simp
  show thesis
  proof (cases new)
    case False
    then have "s' = ?s0"
      using assms ib by (simp add: process_event_def in_session_def bindS_def returnS_def)
    then show thesis using duplicate [of t] ib False by simp
  next
    case new: True
    have ib: "pg_record_inbox (ev_id ev) (ev_organization_id ev) (ev_type ev) ?s0 = (Inr True, t)"
      using ib new by simp
    show thesis
    proof (cases "ev_type ev = ''com.mvp.work_item.ready.v1''")
      case False
      show thesis
      proof (cases "ev_type ev = ''com.mvp.membership.changed.v1''")
        case True
        then have "\<exists>t'. keeps t t' \<and> pd_inbox t' = pd_inbox t \<and> s' = t'\<lparr>pd_organization := None\<rparr>"
          using assms ib new False
          by (auto simp: process_event_def in_session_def bindS_def [of "pg_record_inbox _ _ _"] Let_def oper_iffs
                dest!: upsert_membership_keeps split: prod.splits sum.splits if_splits)
        then show thesis using membership [OF ib] by blast
      next
        case other: False
        then have "s' = t\<lparr>pd_organization := None\<rparr>"
          using assms ib new False
          by (simp add: process_event_def in_session_def bindS_def returnS_def Let_def)
        then show thesis using membership [OF ib k0] by blast
      qed
    next
      case True
      then have "\<exists>a t'. s' = t'\<lparr>pd_organization := None\<rparr> \<and> (\<exists>pid wid title descr crit rc pc pool b.
           accept_ready_work_item (PostgresDeliveryRepository rp) PostgresWorkflowGateway xid eid now
           (ev_organization_id ev) pid wid title descr crit rc pc pool b (ev_correlation_id ev) t = (Inr a, t'))"
        using assms ib new
        by (auto simp: process_event_def in_session_def bindS_def [of "pg_record_inbox _ _ _"] Let_def oper_iffs
            split: prod.splits sum.splits if_splits json.splits) blast
      then show thesis using work_item [OF ib] by blast
    qed
  qed
qed

lemma process_event_failed:
  "process_event rp xid eid now ev s = (Inl e, s') \<Longrightarrow> s' = s\<lparr>pd_organization := None\<rparr>"
  by (auto simp: process_event_def in_session_def Let_def split: prod.splits sum.splits)

lemma process_event_inv:
  assumes run: "process_event rp xid eid now ev s = (r, s')" and inv: "delivery_inv s"
  shows "delivery_inv s'"
proof -
  have inv0: "delivery_inv (s\<lparr>pd_organization := None\<rparr>)" by (rule keeps_inv [OF keeps_refl(2) inv])
  show ?thesis
  proof (cases r)
    case (Inl e)
    then show ?thesis using process_event_failed run inv0 by simp
  next
    case (Inr u)
    then have run': "process_event rp xid eid now ev s = (Inr (), s')" using run by simp
    show ?thesis
    proof (cases rule: process_event_run [OF run'])
      case (1 t)
      then show ?thesis using inv0 by simp
    next
      case (2 t t')
      then show ?thesis
        using keeps_inv [OF record_inbox_keeps [OF 2(1)] inv0] keeps_inv [of t t']
          keeps_inv [OF keeps_refl(2)] by blast
    next
      case (3 t pid wid title descr crit rc pc pool b e t')
      then show ?thesis
        using keeps_inv [OF record_inbox_keeps [OF 3(1)] inv0] accept_ready_work_item_effect(1) [OF 3(2)]
          keeps_inv [OF keeps_refl(2)] by blast
    qed
  qed
qed

lemma authorize_keeps: "authorize org subject allowed s = (Inr u, s') \<Longrightarrow> keeps s s'"
  by (auto simp: authorize_def pg_role_for_def pg_set_organization_def http_error_def oper_iffs keeps_def
      split: option.splits if_splits)

lemma preserves_keeps:
  "preserves (\<lambda>s. (pd_executions s, pd_jobs s)) m \<Longrightarrow> m s = (r, s') \<Longrightarrow> keeps s s'"
  by (drule (1) preservesD) (simp add: keeps_def)

lemma get_runner_preserves [preserving]:
  "preserves (\<lambda>s. (pd_executions s, pd_jobs s)) (pg_get_runner org k)"
  unfolding pg_get_runner_def pg_set_organization_def by (intro preserving) simp

lemma authenticate_preserves [preserving]:
  "preserves (\<lambda>s. (pd_executions s, pd_jobs s)) (pg_authenticate_runner hash now k credential)"
  unfolding pg_authenticate_runner_def Let_def by (intro preserving) simp_all

lemma authenticated_runner_keeps:
  assumes "authenticated_runner hash seen auth rid s = (Inr r, s')"
  shows "keeps s s'"
proof -
  have "preserves (\<lambda>s. (pd_executions s, pd_jobs s)) (authenticated_runner hash seen auth rid)"
    unfolding authenticated_runner_def http_error_def by (intro preserving)
  then show ?thesis using assms by (rule preserves_keeps)
qed

lemma authorized_inv:
  assumes "seqS (authorize org subject allowed) m s = (Inr a, s')" and "delivery_inv s"
    and "\<And>a t t'. m t = (Inr a, t') \<Longrightarrow> delivery_inv t \<Longrightarrow> delivery_inv t'"
  shows "delivery_inv s'"
  using assms authorize_keeps keeps_inv by (fastforce simp: oper_iffs)

lemma authenticated_inv:
  assumes "bindS (authenticated_runner hash seen auth rid) (\<lambda>r. bindS (m r) (f r)) s = (Inr a, s')"
    and "delivery_inv s"
    and "\<And>r a t t'. m r t = (Inr a, t') \<Longrightarrow> delivery_inv t \<Longrightarrow> delivery_inv t'"
    and "\<And>r b a t t'. f r b t = (Inr a, t') \<Longrightarrow> t' = t"
  shows "delivery_inv s'"
  using assms authenticated_runner_keeps keeps_inv by (fastforce simp: oper_iffs)

theorem delivery_step_inv:
  assumes "delivery_step rp s s'" and "delivery_inv s"
  shows "delivery_inv s'"
  using assms
proof (induction rule: delivery_step.induct)
  case (accept xid eid now org subject request s r2 s')
  show ?case
    using accept.hyps accept.prems
  proof (rule api_request_inv)
    fix a t t' assume "api_accept_ready_work_item rp xid eid now org subject request t = (Inr a, t')" "delivery_inv t"
    then show "delivery_inv t'"
      unfolding api_accept_ready_work_item_def
      by (rule authorized_inv) (rule accept_ready_work_item_effect(1))
  qed
next
  case (approve eid now org xid subject s r2 s')
  show ?case
    using approve.hyps approve.prems
  proof (rule api_request_inv)
    fix a t t' assume "api_approve_execution rp eid now org xid subject t = (Inr a, t')" "delivery_inv t"
    then show "delivery_inv t'"
      unfolding api_approve_execution_def by (rule authorized_inv) (rule approve_execution_effect(2))
  qed
next
  case (request_cancel org xid subject s r2 s')
  show ?case
    using request_cancel.hyps request_cancel.prems
  proof (rule api_request_inv)
    fix a t t' assume "api_cancel_execution rp org xid subject t = (Inr a, t')" "delivery_inv t"
    then show "delivery_inv t'"
      unfolding api_cancel_execution_def by (rule authorized_inv) (rule cancel_execution_inv)
  qed
next
  case (lease hash seen pick now now' auth rid s r3 s')
  show ?case
    using lease.hyps lease.prems
  proof (rule api_request_inv)
    fix a t t' assume "api_lease_runner_job hash seen pick now now' auth rid t = (Inr a, t')" "delivery_inv t"
    then show "delivery_inv t'"
      unfolding api_lease_runner_job_def
      by (rule authenticated_inv) (auto simp: oper_iffs intro: lease_runner_job_inv)
  qed
next
  case (heartbeat hash seen now k auth rid s r6 s')
  show ?case
    using heartbeat.hyps heartbeat.prems
  proof (rule api_request_inv)
    fix a t t' assume "api_heartbeat_runner_job hash seen now k auth rid t = (Inr a, t')" "delivery_inv t"
    then show "delivery_inv t'"
      unfolding api_heartbeat_runner_job_def
      by (rule authenticated_inv) (auto simp: oper_iffs intro: heartbeat_runner_job_inv)
  qed
next
  case (source_capability encode hash seen beat now jti k purpose auth rid s r6 s')
  show ?case
    using source_capability.hyps source_capability.prems
  proof (rule api_request_inv)
    fix a t t' assume "api_source_capability rp encode hash seen beat now jti k purpose auth rid t = (Inr a, t')"
      and inv: "delivery_inv t"
    then have "bindS (authenticated_runner hash seen auth rid) (\<lambda>r. bindS (pg_heartbeat_runner_job beat r k) (\<lambda>found.
        bindS (requireS (DlHttpE 409 ''job lease is not active for runner'') found) (\<lambda>job.
        let repository_id = py_str rp (obj_get_default (jw_payload job) ''repository_connection_id'' (JStr []))
        in if repository_id = [] then http_error 409 ''job has no connected repository''
           else returnS (capability (encode (source_claims (unix_seconds now) jti (jw_organization_id job)
             (jw_execution_id job) (jw_id job) (rn_id r) repository_id purpose)) ''120'')))) t = (Inr a, t')"
      by (auto simp: api_source_capability_def http_error_def oper_iffs split: if_splits)
    then show "delivery_inv t'"
      using inv
      by (rule authenticated_inv)
         (auto simp: oper_iffs http_error_def Let_def split: if_splits intro: heartbeat_runner_job_inv)
  qed
next
  case (model_capability encode hash seen beat now jti k auth rid s r6 s')
  show ?case
    using model_capability.hyps model_capability.prems
  proof (rule api_request_inv)
    fix a t t' assume "api_model_capability encode hash seen beat now jti k auth rid t = (Inr a, t')" "delivery_inv t"
    then show "delivery_inv t'"
      unfolding api_model_capability_def
      by (rule authenticated_inv)
         (auto simp: oper_iffs http_error_def Let_def split: if_splits intro: heartbeat_runner_job_inv)
  qed
next
  case (complete hash seen now k v auth rid s r6 s')
  show ?case
    using complete.hyps(1) complete.prems
  proof (rule api_request_inv)
    fix a t t' assume "api_complete_runner_job hash seen now k v auth rid t = (Inr a, t')" "delivery_inv t"
    then show "delivery_inv t'"
      unfolding api_complete_runner_job_def
      by (rule authenticated_inv) (auto simp: oper_iffs intro: complete_runner_job_inv complete.hyps(2))
  qed
qed (blast intro: process_event_inv act_enqueue_inv act_poll_inv act_deliver_inv act_cancel_execution_inv
    delivery_inv_other)+

theorem delivery_reachable_inv:
  assumes "delivery_reachable rp s"
  shows "delivery_inv s"
  using assms
proof (induction rule: delivery_reachable.induct)
  case (start s)
  then show ?case
    by (simp add: delivery_inv_def executions_inv_def jobs_inv_def jobs_wf_def delivered_inv_def wf_dict_def)
next
  case (step s s')
  then show ?case by (blast intro: delivery_step_inv)
qed

end
