(* ===== verification/DlRun.thy ===== *)
theory DlRun
  imports DlSystem
begin

text \<open>
  One execution through all the transactions of the delivery service, from the accepted work
  item to the pull request: reachable states for the properties to be applied at.
\<close>

definition no_repr :: "json \<Rightarrow> string" where "no_repr j = []"

definition run_fresh :: "uuid \<Rightarrow> nat \<Rightarrow> uuid \<times> time" where
  "run_fresh base n = (base + of_nat n, int n)"

definition sample_runner :: "uuid \<Rightarrow> runner" where
  "sample_runner k =
     \<lparr>rn_id = k, rn_organization_id = 1, rn_pool_id = 62, rn_name = ''r'', rn_capabilities = [],
      rn_credential_hash = ''h'', rn_status = RN_ONLINE, rn_last_seen_at = 0\<rparr>"

definition sample_report :: "bool \<Rightarrow> runner_job_complete" where
  "sample_report ok =
     \<lparr>rj_commit_sha = replicate 40 (CHR ''a''), rj_patch = [], rj_duration_seconds = 60,
      rj_cost_minor = 5,
      rj_agent = \<lparr>ag_success = True, ag_summary = [], ag_turns = 4, ag_changed_paths = [],
        ag_events = [], ag_session_id = None, ag_input_tokens = None,
        ag_cached_input_tokens = None, ag_output_tokens = None\<rparr>,
      rj_validation = \<lparr>vr_passed = ok, vr_validator_image = ''img'', vr_evidence = []\<rparr>\<rparr>"

definition sample_reference :: external_reference where
  "sample_reference =
     \<lparr>xr_provider = ''local'', xr_account_id = ''a'', xr_repository = Some ''shop'',
      xr_resource_type = ''pull_request'', xr_external_id = ''1''\<rparr>"

text \<open>The credential \<open>h\<close> is its own hash here; the runner's row is the one enrollment wrote.\<close>

definition run0 :: dl_db where
  "run0 = dl_db_init\<lparr>pd_providers := [(61, provider_row_of sample_configuration)],
     pd_memberships := [((1, ''ann''), \<lparr>mb_organization_id = 1, mb_subject = ''ann'', mb_role = ''OWNER'',
                                    mb_active = True\<rparr>)],
     pd_runners := [(7, runner_row_of (sample_runner 7))], pd_runner_routes := [(''h'', (1, 7))]\<rparr>"

definition run_request :: ready_work_item_request where
  "run_request =
     \<lparr>rq_project_id = 10, rq_work_item_id = 41, rq_title = ''Cart'', rq_description = ''No cart'',
      rq_acceptance_criteria = [''cart''], rq_repository_connection_id = 60,
      rq_provider_configuration_id = 61, rq_runner_pool_id = 62, rq_budget = ex_budget sample_execution,
      rq_correlation_id = 300\<rparr>"

definition run1 :: dl_db where
  "run1 = snd (api_request (api_accept_ready_work_item no_repr 100 200 0 1 ''ann'' run_request) run0)"

definition run2 :: dl_db where
  "run2 = snd (api_request (api_approve_execution no_repr 201 0 1 100 ''ann'') run1)"

definition run3 :: dl_db where
  "run3 = snd (act_enqueue no_repr (run_fresh 210) 1 100 run2)"

definition run4 :: dl_db where
  "run4 = snd (api_request (api_lease_runner_job id 0 (\<lambda>ks. Some (hd ks)) 0 0 (Some ''Runner h'')
     (Some (str_uuid 7))) run3)"

definition run5 :: "bool \<Rightarrow> dl_db" where
  "run5 ok = snd (api_request (api_complete_runner_job id 0 1 101 (sample_report ok) (Some ''Runner h'')
     (Some (str_uuid 7))) run4)"

definition run6 :: "bool \<Rightarrow> dl_db" where
  "run6 ok = snd (act_poll no_repr (run_fresh 220) 1 100 (run5 ok))"

definition run7 :: dl_db where
  "run7 = snd (act_deliver no_repr (run_fresh 230) 1 100 sample_reference (run6 True))"

lemma run_reachable:
  "delivery_reachable no_repr run1" "delivery_reachable no_repr run3" "delivery_reachable no_repr run4"
  "valid_job_report (sample_report ok) \<Longrightarrow> delivery_reachable no_repr (run5 ok)"
  "valid_job_report (sample_report ok) \<Longrightarrow> delivery_reachable no_repr (run6 ok)"
  "valid_job_report (sample_report True) \<Longrightarrow> valid_external_reference sample_reference \<Longrightarrow>
     delivery_reachable no_repr run7"
proof -
  have "delivery_reachable no_repr run0"
    by (rule delivery_reachable.start) (simp_all add: run0_def dl_db_init_def)
  then show 1: "delivery_reachable no_repr run1" unfolding run1_def
    by (rule delivery_reachable.step) (rule delivery_step.accept [OF prod.collapse [symmetric]])
  then have "delivery_reachable no_repr run2" unfolding run2_def
    by (rule delivery_reachable.step) (rule delivery_step.approve [OF prod.collapse [symmetric]])
  then show 3: "delivery_reachable no_repr run3" unfolding run3_def
    by (rule delivery_reachable.step) (rule delivery_step.enqueue [OF prod.collapse [symmetric]])
  then show 4: "delivery_reachable no_repr run4" unfolding run4_def
    by (rule delivery_reachable.step) (rule delivery_step.lease [OF prod.collapse [symmetric]])
  then show 5: "delivery_reachable no_repr (run5 ok)" if "valid_job_report (sample_report ok)" for ok
    unfolding run5_def
    by (rule delivery_reachable.step) (rule delivery_step.complete [OF prod.collapse [symmetric] that])
  show 6: "delivery_reachable no_repr (run6 ok)" if "valid_job_report (sample_report ok)" for ok
    unfolding run6_def
    by (rule delivery_reachable.step [OF 5 [OF that]]) (rule delivery_step.poll [OF prod.collapse [symmetric]])
  show "delivery_reachable no_repr run7"
    if "valid_job_report (sample_report True)" "valid_external_reference sample_reference"
    unfolding run7_def
    by (rule delivery_reachable.step [OF 6 [OF that(1)]])
       (rule delivery_step.deliver [OF prod.collapse [symmetric] that(2)])
qed

lemma sample_valid: "valid_job_report (sample_report ok)" "valid_external_reference sample_reference"
  by (simp_all add: valid_job_report_def sample_report_def valid_agent_report_def
      valid_validation_report_def optional_length_def ge0_def field_length_def lower_hex_def
      list_all_iff valid_external_reference_def ExternalReference_def sample_reference_def)

lemma run_header [simp]:
  "startswith ''Runner h'' ''Runner ''" "strip (removeprefix ''Runner h'' ''Runner '') = ''h''"
  by code_simp+

lemma online_status [simp]: "RunnerStatus ''ONLINE'' = Some RN_ONLINE"
  by code_simp

lemma run_authenticated:
  "pd_runners s = [(7, runner_row_of (sample_runner 7))] \<Longrightarrow> pd_runner_routes s = [(''h'', (1, 7))] \<Longrightarrow>
   authenticated_runner id 0 (Some ''Runner h'') (Some (str_uuid 7)) s =
     (Inr (sample_runner 7), s\<lparr>pd_organization := Some 1\<rparr>)"
  by (cases s) (simp add: authenticated_runner_def pg_authenticate_runner_def pg_get_runner_def pg_set_organization_def
      Let_def bindS_def seqS_def returnS_def readS_def writeS_def liftS_def requireS_def row_of_def owned_def
      runner_of_row_def runner_row_of_def sample_runner_def uuid_of_str_uuid str_uuid_nonempty)

lemmas run_defs = api_request_def in_session_def Let_def bindS_def seqS_def returnS_def raiseS_def
  readS_def writeS_def liftS_def requireS_def deliveryS_def insert_orS_def owned_def row_of_def visible_def
  pg_simps accept_ready_work_item_def approve_execution_def required_execution_def
  dl_append_event_def dl_record_audit_def pg_set_organization_def pg_get_execution_by_work_item_def
  pg_get_execution_def pg_add_execution_def pg_update_execution_def
  pg_get_provider_configuration_def pg_next_event_sequence_def pg_append_event_def
  pg_record_audit_def pg_start_def pg_signal_def pg_command_def authorize_def pg_role_for_def
  api_accept_ready_work_item_def api_approve_execution_def run_request_def EXECUTION_ROLES_def REVIEW_ROLES_def
  api_lease_runner_job_def api_complete_runner_job_def

lemma provider_of_sample: "provider_of_row (provider_row_of sample_configuration) = Inr sample_configuration"
  by (rule provider_roundtrip [OF sample_configuration_valid])

lemma row_of_sample [simp]: "execution_of_row rp (execution_row_of sample_execution) = Inr sample_execution"
  by (rule execution_of_execution_row)
     (simp add: good_execution_def execution_inv_def valid_result_def sample_execution_def
        nothing_used_def)

lemma sample_fields:
  "vw_organization_id (provider_row_of sample_configuration) = 1"
  "xw_organization_id (execution_row_of sample_execution) = 1"
  by (simp_all add: provider_row_of_def execution_row_of_def sample_configuration_def
      sample_execution_def)

definition run_event :: "uuid \<Rightarrow> int \<Rightarrow> string \<Rightarrow> string \<Rightarrow> string \<Rightarrow> time \<Rightarrow> (string \<times> json) list \<Rightarrow>
    uuid \<times> event_row" where
  "run_event k n kind name message t metadata =
     (k, \<lparr>ew_id = k, ew_execution_id = 100, ew_organization_id = 1, ew_sequence = n, ew_kind = kind,
          ew_name = name, ew_message = message, ew_occurred_at = t, ew_event_metadata = metadata\<rparr>)"

definition run_execution :: "execution_status \<Rightarrow> int \<Rightarrow> int \<Rightarrow> execution" where
  "run_execution st n v = sample_execution\<lparr>ex_approval_status := AP_APPROVED, ex_status := st,
     ex_attempt_count := n, ex_turn_count := 4 * n, ex_duration_seconds := 60 * n,
     ex_cost_minor := 5 * n, ex_version := v\<rparr>"

lemma run_execution_row [simp]:
  "1 \<le> v \<Longrightarrow> 0 \<le> n \<Longrightarrow> n \<le> 3 \<Longrightarrow> st \<noteq> ES_AWAITING_APPROVAL \<Longrightarrow> st \<noteq> ES_DELIVERED \<Longrightarrow> st \<noteq> ES_CANCELLED \<Longrightarrow>
   execution_of_row rp (execution_row_of (run_execution st n v)) = Inr (run_execution st n v)"
  by (rule execution_of_execution_row)
     (simp add: good_execution_def execution_inv_def valid_result_def sample_execution_def
        run_execution_def within_budget_def ensure_within_def)

lemma run_execution_fields [simp]:
  "xw_organization_id (execution_row_of (run_execution st n v)) = 1"
  "ex_id (run_execution st n v) = 100" "ex_organization_id (run_execution st n v) = 1"
  "ex_status (run_execution st n v) = st" "ex_version (run_execution st n v) = v"
  "ex_provider_configuration_id (run_execution st n v) = 61"
  "ex_runner_pool_id (run_execution st n v) = 62"
  by (simp_all add: run_execution_def sample_execution_def)

lemma sample_execution_eq:
  "\<lparr>ex_id = 100, ex_organization_id = 1, ex_project_id = 10, ex_work_item_id = 41, ex_title = ''Cart'',
    ex_description = ''No cart'', ex_acceptance_criteria = [''cart''],
    ex_repository_connection_id = 60, ex_provider_configuration_id = 61, ex_runner_pool_id = 62,
    ex_budget = ex_budget sample_execution, ex_approval_status = AP_PENDING,
    ex_status = ES_AWAITING_APPROVAL, ex_attempt_count = 0, ex_turn_count = 0,
    ex_duration_seconds = 0, ex_cost_minor = 0, ex_version = 1, ex_cancellation_requested = False,
    ex_result_reference = None\<rparr> = sample_execution"
  by (simp add: sample_execution_def)

lemma sample_ids [simp]: "ex_id sample_execution = 100" "ex_organization_id sample_execution = 1"
  by (simp_all add: sample_execution_def)

lemma run0_fields:
  "pd_memberships run0 = [((1, ''ann''), \<lparr>mb_organization_id = 1, mb_subject = ''ann'',
     mb_role = ''OWNER'', mb_active = True\<rparr>)]"
  by (simp add: run0_def)

lemma run1_fields:
  "pd_memberships run1 = pd_memberships run0"
  "pd_runners run1 = [(7, runner_row_of (sample_runner 7))]" "pd_runner_routes run1 = [(''h'', (1, 7))]"
  "pd_executions run1 = [(100, execution_row_of sample_execution)]"
  "pd_jobs run1 = []"
  "pd_providers run1 = [(61, provider_row_of sample_configuration)]"
  "pd_events run1 = [run_event 200 1 ''APPROVAL'' ''execution.approval_required''
     ''Execution is waiting for reviewer approval.'' 0 [(''correlation_id'', JStr (str_uuid 300))]]"
  by (simp_all add: run1_def run_defs run0_def dl_db_init_def provider_of_sample sample_fields
     sample_execution_eq run_event_def event_row_of_def)

lemma run_transitions:
  "execution_approve sample_execution = Inr (run_execution ES_QUEUED 0 2)"
  "start_provisioning (run_execution ES_QUEUED 0 2) = Inr (run_execution ES_PROVISIONING 0 3)"
  "start_planning (run_execution ES_PROVISIONING 0 3) = Inr (run_execution ES_PLANNING 0 4)"
  "start_building (run_execution ES_PLANNING 0 4) = Inr (run_execution ES_BUILDING 0 5)"
  "record_usage 1 4 60 5 (run_execution ES_BUILDING 0 5) = Inr (run_execution ES_BUILDING 1 6)"
  "start_verification (run_execution ES_BUILDING 1 6) = Inr (run_execution ES_VERIFYING 1 7)"
  "start_delivery (run_execution ES_VERIFYING 1 7) = Inr (run_execution ES_DELIVERING 1 8)"
  by (simp_all add: run_execution_def sample_execution_def execution_approve_def record_usage_def
      start_provisioning_def start_planning_def start_building_def start_verification_def
      start_delivery_def invalid_def execution_transition_def ensure_within_def)

lemma run_update_row [simp]:
  assumes "status = execution_status_value st'"
  shows "(execution_row_of (run_execution st n v))\<lparr>
     xw_approval_status := xw_approval_status (execution_row_of (run_execution st' n' v')),
     xw_status := status,
     xw_attempt_count := xw_attempt_count (execution_row_of (run_execution st' n' v')),
     xw_turn_count := xw_turn_count (execution_row_of (run_execution st' n' v')),
     xw_duration_seconds := xw_duration_seconds (execution_row_of (run_execution st' n' v')),
     xw_cost_minor := xw_cost_minor (execution_row_of (run_execution st' n' v')),
     xw_version := xw_version (execution_row_of (run_execution st' n' v')),
     xw_cancellation_requested :=
       xw_cancellation_requested (execution_row_of (run_execution st' n' v')),
     xw_result_reference := xw_result_reference (execution_row_of (run_execution st' n' v'))\<rparr>
     = execution_row_of (run_execution st' n' v')"
  using assms by (simp add: execution_row_of_def run_execution_def sample_execution_def)

lemma sample_update_row [simp]:
  "(execution_row_of sample_execution)\<lparr>
     xw_approval_status := xw_approval_status (execution_row_of (run_execution st' n' v')),
     xw_status := execution_status_value st',
     xw_attempt_count := xw_attempt_count (execution_row_of (run_execution st' n' v')),
     xw_turn_count := xw_turn_count (execution_row_of (run_execution st' n' v')),
     xw_duration_seconds := xw_duration_seconds (execution_row_of (run_execution st' n' v')),
     xw_cost_minor := xw_cost_minor (execution_row_of (run_execution st' n' v')),
     xw_version := xw_version (execution_row_of (run_execution st' n' v')),
     xw_cancellation_requested :=
       xw_cancellation_requested (execution_row_of (run_execution st' n' v')),
     xw_result_reference := xw_result_reference (execution_row_of (run_execution st' n' v'))\<rparr>
     = execution_row_of (run_execution st' n' v')"
  by (simp add: execution_row_of_def run_execution_def sample_execution_def)

lemmas sample_queued_row [simp] =
  sample_update_row [of ES_QUEUED, simplified execution_status_value.simps]

lemma run2_fields:
  "pd_runners run2 = [(7, runner_row_of (sample_runner 7))]" "pd_runner_routes run2 = [(''h'', (1, 7))]"
  "pd_executions run2 = [(100, execution_row_of (run_execution ES_QUEUED 0 2))]"
  "pd_jobs run2 = []"
  "pd_providers run2 = [(61, provider_row_of sample_configuration)]"
  "pd_events run2 = pd_events run1 @ [run_event 201 2 ''APPROVAL'' ''execution.approved''
     ''Execution was approved and queued.'' 0 [(''actor_subject'', JStr ''ann'')]]"
  by (simp_all add: run2_def run_defs run0_fields run1_fields sample_fields run_event_def run_transitions
      event_row_of_def)

definition run_job :: "string \<Rightarrow> (string \<times> json) list option \<Rightarrow> job_row" where
  "run_job status result =
     \<lparr>jw_id = 101, jw_organization_id = 1, jw_execution_id = 100, jw_pool_id = 62, jw_status = status,
      jw_payload = job_payload (run_execution ES_BUILDING 0 5) sample_configuration,
      jw_result = result,
      jw_leased_by_runner_id = (if status = ''QUEUED'' then None else Some 7),
      jw_leased_at = (if status = ''QUEUED'' then None else Some 0),
      jw_completed_at = (if status = ''COMPLETED'' then Some 1 else None)\<rparr>"

lemma run3_fields:
  "pd_runners run3 = [(7, runner_row_of (sample_runner 7))]" "pd_runner_routes run3 = [(''h'', (1, 7))]"
  "pd_executions run3 = [(100, execution_row_of (run_execution ES_BUILDING 0 5))]"
  "pd_jobs run3 = [(101, run_job ''QUEUED'' None)]"
  "pd_events run3 = pd_events run2 @ [run_event 210 3 ''STATE'' ''runner.job_queued''
     ''An isolated runner job was queued without credential values.'' 0 []]"
  by (simp_all add: run3_def act_enqueue_def run_defs run1_fields run2_fields sample_fields
      run_event_def run_transitions event_row_of_def provider_of_sample act_event_def run_fresh_def
      pg_create_runner_job_def run_job_def)

lemma run4_fields:
  "pd_runners run4 = [(7, runner_row_of (sample_runner 7))]" "pd_runner_routes run4 = [(''h'', (1, 7))]"
  "pd_executions run4 = [(100, execution_row_of (run_execution ES_BUILDING 0 5))]"
  "pd_jobs run4 = [(101, run_job ''LEASED'' None)]"
  "pd_events run4 = pd_events run3"
  by (simp_all add: run4_def run_authenticated pg_lease_runner_job_def run_defs run3_fields run_job_def
      choose_row_def leasable_job_def sample_runner_def)

lemma run5_fields:
  "pd_executions (run5 ok) = [(100, execution_row_of (run_execution ES_BUILDING 0 5))]"
  "pd_jobs (run5 ok) = [(101, run_job ''COMPLETED'' (Some (dump_job_report (sample_report ok))))]"
  "pd_events (run5 ok) = pd_events run3"
  by (simp_all add: run5_def run_authenticated pg_complete_runner_job_def run_defs run4_fields run_job_def
      held_job_def sample_runner_def)

lemma sample_report_fields [simp]:
  "ag_turns (rj_agent (sample_report ok)) = 4" "rj_duration_seconds (sample_report ok) = 60"
  "rj_cost_minor (sample_report ok) = 5" "ag_events (rj_agent (sample_report ok)) = []"
  "report_verified (sample_report ok) = ok"
  by (simp_all add: sample_report_def report_verified_def)

lemma run6_fields:
  "pd_executions (run6 True) = [(100, execution_row_of (run_execution ES_DELIVERING 1 8))]"
  "pd_jobs (run6 True) = pd_jobs (run5 True)"
  by (simp_all add: run6_def act_poll_def act_process_result_def run_defs run5_fields run3_fields
      run2_fields run1_fields run_event_def run_transitions event_row_of_def act_event_def run_fresh_def
      pg_runner_job_for_execution_def run_job_def)

lemma run6_result:
  "fst (act_poll no_repr (run_fresh 220) 1 100 (run5 True))
     = Inr (Verified (run_execution ES_DELIVERING 1 8) (dump_job_report (sample_report True)))"
  by (simp add: act_poll_def act_process_result_def run_defs run5_fields run3_fields
      run2_fields run1_fields run_event_def run_transitions event_row_of_def act_event_def run_fresh_def
      pg_runner_job_for_execution_def run_job_def)

end
