(* ===== verification/DlMemory.thy ===== *)
theory DlMemory
  imports DlService TenantStore
begin

text \<open>
  \<open>adapters/memory.py\<close> of the delivery service: the repository and the workflow gateway as
  dictionaries in one state.
\<close>

record dl_memory =
  dm_provider_configurations :: "(uuid, provider_configuration) dict"
  dm_enrollment_tokens :: "(string, enrollment_token) dict"
  dm_runners :: "(uuid, runner) dict"
  dm_executions :: "(uuid, execution) dict"
  dm_work_item_executions :: "(uuid \<times> uuid, uuid) dict"
  dm_events :: "(uuid, execution_event list) dict"
  dm_audits :: "dl_audit list"
  dm_started :: "uuid list"
  dm_approved :: "(uuid \<times> string) list"
  dm_cancelled :: "(uuid \<times> string) list"

definition dl_memory_init :: dl_memory where
  "dl_memory_init =
     \<lparr>dm_provider_configurations = [], dm_enrollment_tokens = [], dm_runners = [],
      dm_executions = [], dm_work_item_executions = [], dm_events = [], dm_audits = [],
      dm_started = [], dm_approved = [], dm_cancelled = []\<rparr>"

definition dm_add_provider_configuration ::
  "provider_configuration \<Rightarrow> (dl_memory, dl_error, unit) oper" where
  "dm_add_provider_configuration c = writeS (\<lambda>s. s\<lparr>dm_provider_configurations :=
     dset (pc_id c) c (dm_provider_configurations s)\<rparr>)"

definition dm_get_provider_configuration ::
  "uuid \<Rightarrow> uuid \<Rightarrow> (dl_memory, dl_error, provider_configuration option) oper" where
  "dm_get_provider_configuration organization_id configuration_id = readS (\<lambda>s.
     owned pc_organization_id organization_id (dget (dm_provider_configurations s) configuration_id))"

definition dm_add_enrollment_token :: "enrollment_token \<Rightarrow> (dl_memory, dl_error, unit) oper" where
  "dm_add_enrollment_token t = writeS (\<lambda>s. s\<lparr>dm_enrollment_tokens :=
     dset (et_token_hash t) t (dm_enrollment_tokens s)\<rparr>)"

definition dm_consume_enrollment_token ::
  "time \<Rightarrow> string \<Rightarrow> time \<Rightarrow> (dl_memory, dl_error, enrollment_token option) oper" where
  "dm_consume_enrollment_token used_at token_hash now =
     bindS (readS (\<lambda>s. dget (dm_enrollment_tokens s) token_hash)) (\<lambda>found.
     case found of
       None \<Rightarrow> returnS None
     | Some t \<Rightarrow>
         if et_used_at t \<noteq> None \<or> et_expires_at t \<le> now then returnS None
         else seqS (writeS (\<lambda>s. s\<lparr>dm_enrollment_tokens :=
                dset token_hash (t\<lparr>et_used_at := Some used_at\<rparr>) (dm_enrollment_tokens s)\<rparr>))
              (returnS (Some t)))"

definition dm_add_runner :: "runner \<Rightarrow> (dl_memory, dl_error, unit) oper" where
  "dm_add_runner r = writeS (\<lambda>s. s\<lparr>dm_runners := dset (rn_id r) r (dm_runners s)\<rparr>)"

definition dm_get_runner :: "uuid \<Rightarrow> uuid \<Rightarrow> (dl_memory, dl_error, runner option) oper" where
  "dm_get_runner organization_id runner_id = readS (\<lambda>s.
     owned rn_organization_id organization_id (dget (dm_runners s) runner_id))"

definition dm_add_execution :: "execution \<Rightarrow> (dl_memory, dl_error, bool) oper" where
  "dm_add_execution e =
     (let key = (ex_organization_id e, ex_work_item_id e) in
      bindS (readS (\<lambda>s. dget (dm_work_item_executions s) key)) (\<lambda>found.
      if found \<noteq> None then returnS False
      else seqS (writeS (\<lambda>s. s\<lparr>dm_executions := dset (ex_id e) e (dm_executions s),
                 dm_work_item_executions := dset key (ex_id e) (dm_work_item_executions s)\<rparr>))
           (returnS True)))"

definition dm_get_execution :: "uuid \<Rightarrow> uuid \<Rightarrow> (dl_memory, dl_error, execution option) oper" where
  "dm_get_execution organization_id execution_id = readS (\<lambda>s.
     owned ex_organization_id organization_id (dget (dm_executions s) execution_id))"

definition dm_get_execution_by_work_item ::
  "uuid \<Rightarrow> uuid \<Rightarrow> (dl_memory, dl_error, execution option) oper" where
  "dm_get_execution_by_work_item organization_id work_item_id = readS (\<lambda>s.
     case dget (dm_work_item_executions s) (organization_id, work_item_id) of
       None \<Rightarrow> None
     | Some execution_id \<Rightarrow> dget (dm_executions s) execution_id)"

definition dm_update_execution :: "execution \<Rightarrow> (dl_memory, dl_error, unit) oper" where
  "dm_update_execution e = writeS (\<lambda>s. s\<lparr>dm_executions := dset (ex_id e) e (dm_executions s)\<rparr>)"

definition dm_events_of :: "uuid \<Rightarrow> dl_memory \<Rightarrow> execution_event list" where
  "dm_events_of execution_id s =
     (case dget (dm_events s) execution_id of None \<Rightarrow> [] | Some es \<Rightarrow> es)"

definition dm_append_event :: "execution_event \<Rightarrow> (dl_memory, dl_error, unit) oper" where
  "dm_append_event event = writeS (\<lambda>s. s\<lparr>dm_events :=
     dset (ee_execution_id event) (dm_events_of (ee_execution_id event) s @ [event]) (dm_events s)\<rparr>)"

definition dm_list_events ::
  "uuid \<Rightarrow> uuid \<Rightarrow> int \<Rightarrow> (dl_memory, dl_error, execution_event list) oper" where
  "dm_list_events organization_id execution_id after_sequence =
     bindS (dm_get_execution organization_id execution_id) (\<lambda>found.
     case found of
       None \<Rightarrow> returnS []
     | Some _ \<Rightarrow> readS (\<lambda>s.
         filter (\<lambda>event. ee_sequence event > after_sequence) (dm_events_of execution_id s)))"

definition dm_next_event_sequence :: "uuid \<Rightarrow> (dl_memory, dl_error, int) oper" where
  "dm_next_event_sequence execution_id =
     readS (\<lambda>s. int (length (dm_events_of execution_id s)) + 1)"

definition dm_record_audit :: "dl_audit \<Rightarrow> (dl_memory, dl_error, unit) oper" where
  "dm_record_audit a = writeS (\<lambda>s. s\<lparr>dm_audits := dm_audits s @ [a]\<rparr>)"

definition MemoryDeliveryRepository :: "dl_memory dl_repository" where
  "MemoryDeliveryRepository =
     \<lparr>dr_add_provider_configuration = dm_add_provider_configuration,
      dr_get_provider_configuration = dm_get_provider_configuration,
      dr_add_enrollment_token = dm_add_enrollment_token,
      dr_consume_enrollment_token = dm_consume_enrollment_token,
      dr_add_runner = dm_add_runner, dr_get_runner = dm_get_runner,
      dr_add_execution = dm_add_execution, dr_get_execution = dm_get_execution,
      dr_get_execution_by_work_item = dm_get_execution_by_work_item,
      dr_update_execution = dm_update_execution, dr_append_event = dm_append_event,
      dr_list_events = dm_list_events, dr_next_event_sequence = dm_next_event_sequence,
      dr_record_audit = dm_record_audit\<rparr>"

definition dm_start :: "execution \<Rightarrow> (dl_memory, dl_error, unit) oper" where
  "dm_start e = writeS (\<lambda>s. if ex_id e \<in> set (dm_started s) then s
                              else s\<lparr>dm_started := dm_started s @ [ex_id e]\<rparr>)"

definition dm_approve :: "uuid \<Rightarrow> string \<Rightarrow> (dl_memory, dl_error, unit) oper" where
  "dm_approve execution_id actor_subject =
     writeS (\<lambda>s. s\<lparr>dm_approved := dm_approved s @ [(execution_id, actor_subject)]\<rparr>)"

definition dm_cancel :: "uuid \<Rightarrow> string \<Rightarrow> (dl_memory, dl_error, unit) oper" where
  "dm_cancel execution_id actor_subject =
     writeS (\<lambda>s. s\<lparr>dm_cancelled := dm_cancelled s @ [(execution_id, actor_subject)]\<rparr>)"

definition MemoryWorkflowGateway :: "dl_memory workflow_gateway" where
  "MemoryWorkflowGateway = \<lparr>wg_start = dm_start, wg_approve = dm_approve, wg_cancel = dm_cancel\<rparr>"

lemmas dl_memory_defs =
  MemoryDeliveryRepository_def dm_add_provider_configuration_def
  dm_get_provider_configuration_def dm_add_enrollment_token_def dm_consume_enrollment_token_def
  dm_add_runner_def dm_get_runner_def dm_add_execution_def dm_get_execution_def
  dm_get_execution_by_work_item_def dm_update_execution_def dm_append_event_def
  dm_list_events_def dm_next_event_sequence_def dm_record_audit_def dm_start_def dm_approve_def
  dm_cancel_def MemoryWorkflowGateway_def

end
