(* ===== verification/DlEnrollment.thy ===== *)
theory DlEnrollment
  imports DlMemory DlPostgres
begin

text \<open>
  Runner enrollment over either repository: what the service relies on when it stores and
  consumes an enrollment token, as the locale \<open>enrollment_repository\<close>, what follows for
  \<open>create_runner_enrollment\<close> and \<open>enroll_runner\<close>, and the two adapters as its instances.
\<close>

locale enrollment_repository =
  fixes R :: "'s dl_repository"
    and token :: "'s \<Rightarrow> string \<Rightarrow> enrollment_token option"
    and wf :: "'s \<Rightarrow> bool"
  assumes add_token: "wf s \<Longrightarrow> dr_add_enrollment_token R t s = (Inr (), s') \<Longrightarrow>
      wf s' \<and> token s' = (token s)(et_token_hash t \<mapsto> t)"
    and consume_Some: "wf s \<Longrightarrow> dr_consume_enrollment_token R u h now s = (Inr (Some t), s') \<Longrightarrow>
      wf s' \<and> token s h = Some t \<and> et_used_at t = None \<and> now < et_expires_at t \<and>
      token s' = (token s)(h \<mapsto> t\<lparr>et_used_at := Some u\<rparr>)"
    and consume_unusable: "wf s \<Longrightarrow>
      (\<forall>t. token s h = Some t \<longrightarrow> et_used_at t \<noteq> None \<or> et_expires_at t \<le> now) \<Longrightarrow>
      fst (dr_consume_enrollment_token R u h now s) = Inr None"
    and add_runner: "wf s \<Longrightarrow> dr_add_runner R r s = (Inr (), s') \<Longrightarrow> wf s' \<and> token s' = token s"
    and record_audit: "wf s \<Longrightarrow> dr_record_audit R a s = (Inr (), s') \<Longrightarrow> wf s' \<and> token s' = token s"
begin

lemma create_enrollment:
  assumes "wf s"
    and "create_runner_enrollment hash R raw k now org subject pool s = (Inr tok, s')"
  shows "tok = raw \<and> wf s' \<and> token s' = (token s)(hash raw \<mapsto>
     \<lparr>et_id = k, et_organization_id = org, et_pool_id = pool, et_token_hash = hash raw,
      et_expires_at = now + minutes 10, et_used_at = None\<rparr>)"
proof -
  let ?t = "\<lparr>et_id = k, et_organization_id = org, et_pool_id = pool, et_token_hash = hash raw,
           et_expires_at = now + minutes 10, et_used_at = None\<rparr>"
  obtain s1 where 1: "dr_add_enrollment_token R ?t s = (Inr (), s1)"
    and 2: "\<exists>a. dr_record_audit R a s1 = (Inr (), s')" and tok: "tok = raw"
    using assms(2) by (auto simp: create_runner_enrollment_def dl_record_audit_def Let_def oper_iffs)
  have w1: "wf s1" "token s1 = (token s)(hash raw \<mapsto> ?t)" using add_token [OF assms(1) 1] by simp_all
  then show ?thesis using 2 record_audit [OF w1(1)] tok by auto
qed

text \<open>A token that cannot be used: never added, used before, or expired.\<close>

lemma enroll_unusable:
  assumes "wf s" and "\<forall>t. token s (hash tok) = Some t \<longrightarrow> et_used_at t \<noteq> None \<or> et_expires_at t \<le> now"
  shows "fst (enroll_runner hash R now u cred rid seen tok name caps s)
     = Inl (DeliveryE (InvalidEnrollment ''enrollment token is invalid, expired, or already used''))"
  using consume_unusable [OF assms, of u]
  by (cases "dr_consume_enrollment_token R u (hash tok) now s")
     (simp add: enroll_runner_def bindS_def requireS_def raiseS_def)

lemma enroll_success:
  assumes "wf s" and "enroll_runner hash R now u cred rid seen tok name caps s = (Inr (r, c), s')"
  shows "\<exists>t. token s (hash tok) = Some t \<and> et_used_at t = None \<and> now < et_expires_at t \<and>
     rn_organization_id r = et_organization_id t \<and> rn_pool_id r = et_pool_id t \<and>
     rn_credential_hash r = hash c \<and>
     wf s' \<and> token s' = (token s)(hash tok \<mapsto> t\<lparr>et_used_at := Some u\<rparr>)"
proof -
  obtain t s1 s2 where 1: "dr_consume_enrollment_token R u (hash tok) now s = (Inr (Some t), s1)"
    and 2: "dr_add_runner R r s1 = (Inr (), s2)" and 3: "\<exists>a. dr_record_audit R a s2 = (Inr (), s')"
    and r: "rn_organization_id r = et_organization_id t" "rn_pool_id r = et_pool_id t"
      "rn_credential_hash r = hash c"
    using assms(2) by (auto simp: enroll_runner_def dl_record_audit_def Let_def oper_iffs) blast
  note c = consume_Some [OF assms(1) 1]
  have w2: "wf s2" "token s2 = token s1" using add_runner [OF _ 2] c by auto
  then have "wf s'" "token s' = token s2" using 3 record_audit by auto
  then show ?thesis using c w2 r by auto
qed

text \<open>An enrollment serves once, before it expires, for the pool it was created for.\<close>

lemma enroll_once:
  assumes "wf s"
    and "create_runner_enrollment hash R raw k now org subject pool s = (Inr tok, s1)"
    and "enroll_runner hash R now1 u1 cred rid seen tok name caps s1 = (Inr (r, c), s2)"
  shows "now1 < now + minutes 10 \<and> rn_organization_id r = org \<and> rn_pool_id r = pool \<and>
     fst (enroll_runner hash R now2 u2 cred2 rid2 seen2 tok name2 caps2 s2)
       = Inl (DeliveryE (InvalidEnrollment ''enrollment token is invalid, expired, or already used''))"
proof -
  note c = create_enrollment [OF assms(1,2)]
  then obtain t where t: "token s1 (hash tok) = Some t" "now1 < et_expires_at t"
    "rn_organization_id r = et_organization_id t" "rn_pool_id r = et_pool_id t"
    "wf s2" "token s2 = (token s1)(hash tok \<mapsto> t\<lparr>et_used_at := Some u1\<rparr>)"
    using enroll_success [OF _ assms(3)] by blast
  have "t = \<lparr>et_id = k, et_organization_id = org, et_pool_id = pool, et_token_hash = hash raw,
           et_expires_at = now + minutes 10, et_used_at = None\<rparr>" using c t(1) by simp
  then have "et_expires_at t = now + minutes 10" "et_organization_id t = org" "et_pool_id t = pool"
    by simp_all
  then show ?thesis using t enroll_unusable [OF t(5)] by simp
qed

end

section \<open>The memory adapter\<close>

definition dm_token :: "dl_memory \<Rightarrow> string \<Rightarrow> enrollment_token option" where
  "dm_token s h = dget (dm_enrollment_tokens s) h"

interpretation memory_enrollment: enrollment_repository MemoryDeliveryRepository dm_token "\<lambda>_. True"
  by unfold_locales
     (auto simp: MemoryDeliveryRepository_def dm_token_def fun_eq_iff dm_add_enrollment_token_def
        dm_consume_enrollment_token_def dm_add_runner_def dm_record_audit_def oper_iffs
        bindS_def readS_def returnS_def not_le split: option.splits if_splits)

section \<open>The Postgres adapter\<close>

definition pg_token :: "dl_db \<Rightarrow> string \<Rightarrow> enrollment_token option" where
  "pg_token s h =
     (case dget (pd_token_routes s) h of
        None \<Rightarrow> None
      | Some organization_id \<Rightarrow>
          find (\<lambda>t. et_token_hash t = h) (visible et_organization_id (Some organization_id) (pd_tokens s)))"

definition pg_tokens_wf :: "dl_db \<Rightarrow> bool" where
  "pg_tokens_wf s \<longleftrightarrow>
     wf_dict (pd_tokens s) \<and> keyed et_id (pd_tokens s) \<and>
     (\<forall>k1 t1 k2 t2. dget (pd_tokens s) k1 = Some t1 \<longrightarrow> dget (pd_tokens s) k2 = Some t2 \<longrightarrow>
        et_token_hash t1 = et_token_hash t2 \<longrightarrow> k1 = k2)"

lemma find_token_iff:
  assumes "pg_tokens_wf s"
  shows "find (\<lambda>t. et_token_hash t = h) (visible et_organization_id (Some org) (pd_tokens s)) = Some t \<longleftrightarrow>
     (\<exists>k. dget (pd_tokens s) k = Some t) \<and> et_organization_id t = org \<and> et_token_hash t = h"
    (is "?f = Some t \<longleftrightarrow> ?r t")
proof -
  have wf: "wf_dict (pd_tokens s)" using assms by (simp add: pg_tokens_wf_def)
  have sound: "?r t" if "?f = Some t" for t
    using find_SomeD [OF that] in_dvals_iff [OF wf] by (auto simp: visible_def)
  have "?f \<noteq> None" if "?r t"
    using that in_dvals_iff [OF wf, of t] by (auto simp: find_None_iff visible_def)
  moreover have "t1 = t2" if "?r t1" "?r t2" for t1 t2
    using assms that unfolding pg_tokens_wf_def by (metis option.sel)
  ultimately show ?thesis using sound by blast
qed

lemma pg_token_iff:
  "pg_tokens_wf s \<Longrightarrow> pg_token s h = Some t \<longleftrightarrow>
     dget (pd_token_routes s) h = Some (et_organization_id t) \<and>
     (\<exists>k. dget (pd_tokens s) k = Some t) \<and> et_token_hash t = h"
  by (auto simp: pg_token_def find_token_iff split: option.splits)

lemma pg_token_eqI:
  assumes "pg_tokens_wf s'" and "\<And>h t. pg_token s' h = Some t \<longleftrightarrow> f h = Some t"
  shows "pg_token s' = f"
  using assms(2) by (metis ext option.exhaust)

lemma pg_add_token_law:
  assumes wf: "pg_tokens_wf s" and run: "pg_add_enrollment_token t s = (Inr (), s')"
  shows "pg_tokens_wf s' \<and> pg_token s' = (pg_token s)(et_token_hash t \<mapsto> t)"
proof -
  have fresh: "dget (pd_tokens s) (et_id t) = None"
      "\<And>k t'. dget (pd_tokens s) k = Some t' \<Longrightarrow> et_token_hash t' \<noteq> et_token_hash t"
      "dget (pd_token_routes s) (et_token_hash t) = None"
    and new: "pd_tokens s' = dset (et_id t) t (pd_tokens s)"
      "pd_token_routes s' = dset (et_token_hash t) (et_organization_id t) (pd_token_routes s)"
    using run dget_in_dvals [of "pd_tokens s"]
    by (auto simp: pg_add_enrollment_token_def pg_set_organization_def oper_iffs insert_orS_def split: if_splits)
  have wf': "pg_tokens_wf s'"
    using wf fresh(1,2) by (auto simp: pg_tokens_wf_def new) metis+
  have other: "k \<noteq> et_id t" if "dget (pd_tokens s) k = Some t'" for k t' using fresh(1) that by auto
  have "pg_token s' = (pg_token s)(et_token_hash t \<mapsto> t)"
  proof (rule pg_token_eqI [OF wf'])
    fix h t'
    show "pg_token s' h = Some t' \<longleftrightarrow> ((pg_token s)(et_token_hash t \<mapsto> t)) h = Some t'"
    proof (cases "h = et_token_hash t")
      case True
      have "pg_token s' h = Some t" using True by (auto simp: pg_token_iff [OF wf'] new)
      then show ?thesis using True by auto
    next
      case False
      have "(\<exists>k. dget (pd_tokens s') k = Some t') \<longleftrightarrow> (\<exists>k. dget (pd_tokens s) k = Some t')"
        if "et_token_hash t' = h"
        using that False other unfolding new dget_dset by (metis fun_upd_apply option.sel)
      then show ?thesis using False by (auto simp: pg_token_iff [OF wf'] pg_token_iff [OF wf] new(2))
    qed
  qed
  then show ?thesis using wf' by blast
qed

lemma pg_token_same:
  "pd_tokens s' = pd_tokens s \<Longrightarrow> pd_token_routes s' = pd_token_routes s \<Longrightarrow>
   pg_token s' = pg_token s \<and> pg_tokens_wf s' = pg_tokens_wf s"
  by (simp add: pg_token_def fun_eq_iff pg_tokens_wf_def split: option.split)

lemma pg_consume_token_eq:
  "pg_consume_enrollment_token u h now s =
     (case dget (pd_token_routes s) h of
        None \<Rightarrow> (Inr None, s)
      | Some org \<Rightarrow>
          let s1 = s\<lparr>pd_organization := Some org\<rparr> in
          case pg_token s h of
            None \<Rightarrow> (Inr None, s1)
          | Some t \<Rightarrow>
              if et_used_at t \<noteq> None \<or> et_expires_at t \<le> now then (Inr None, s1)
              else (Inr (Some t), s1\<lparr>pd_tokens :=
                      dset (et_id t) (t\<lparr>et_used_at := Some u\<rparr>) (pd_tokens s)\<rparr>))"
  by (simp add: pg_consume_enrollment_token_def pg_token_def pg_set_organization_def bindS_def readS_def
      returnS_def writeS_def Let_def split: option.splits)

lemma pg_consume_Some_law:
  assumes wf: "pg_tokens_wf s" and run: "pg_consume_enrollment_token u h now s = (Inr (Some t), s')"
  shows "pg_tokens_wf s' \<and> pg_token s h = Some t \<and> et_used_at t = None \<and> now < et_expires_at t \<and>
      pg_token s' = (pg_token s)(h \<mapsto> t\<lparr>et_used_at := Some u\<rparr>)"
proof -
  have t: "pg_token s h = Some t" "et_used_at t = None" "now < et_expires_at t"
    and new: "pd_tokens s' = dset (et_id t) (t\<lparr>et_used_at := Some u\<rparr>) (pd_tokens s)"
      "pd_token_routes s' = pd_token_routes s"
    using run by (auto simp: pg_consume_token_eq Let_def split: option.splits if_splits)
  have row: "dget (pd_tokens s) (et_id t) = Some t" "et_token_hash t = h"
    "dget (pd_token_routes s) h = Some (et_organization_id t)"
    using t(1) wf by (auto simp: pg_token_iff pg_tokens_wf_def keyed_def)
  have wf': "pg_tokens_wf s'"
    using wf row by (auto simp: pg_tokens_wf_def new)
  have uniq: "k = et_id t" if "dget (pd_tokens s) k = Some t'" "et_token_hash t' = h" for k t'
    using wf row(1,2) that unfolding pg_tokens_wf_def by blast
  have "pg_token s' = (pg_token s)(h \<mapsto> t\<lparr>et_used_at := Some u\<rparr>)"
  proof (rule pg_token_eqI [OF wf'])
    fix h' t'
    show "pg_token s' h' = Some t' \<longleftrightarrow> ((pg_token s)(h \<mapsto> t\<lparr>et_used_at := Some u\<rparr>)) h' = Some t'"
    proof (cases "h' = h")
      case True
      have "pg_token s' h = Some (t\<lparr>et_used_at := Some u\<rparr>)"
        using row by (auto simp: pg_token_iff [OF wf'] new)
      then show ?thesis using True by auto
    next
      case False
      have "(\<exists>k. dget (pd_tokens s') k = Some t') \<longleftrightarrow> (\<exists>k. dget (pd_tokens s) k = Some t')"
        if "et_token_hash t' = h'"
      proof -
        have "t' \<noteq> t" "t' \<noteq> t\<lparr>et_used_at := Some u\<rparr>" using that False row(2) by auto
        then show ?thesis unfolding new dget_dset using row(1) by (metis fun_upd_apply option.sel)
      qed
      then show ?thesis using False by (auto simp: pg_token_iff [OF wf'] pg_token_iff [OF wf] new(2))
    qed
  qed
  then show ?thesis using wf' t by blast
qed

interpretation postgres_enrollment: enrollment_repository "PostgresDeliveryRepository rp" pg_token pg_tokens_wf
  for rp
proof unfold_locales
  fix s t s' assume "pg_tokens_wf s"
    "dr_add_enrollment_token (PostgresDeliveryRepository rp) t s = (Inr (), s')"
  then show "pg_tokens_wf s' \<and> pg_token s' = (pg_token s)(et_token_hash t \<mapsto> t)"
    using pg_add_token_law by (simp add: PostgresDeliveryRepository_def)
next
  fix s u h now t s' assume "pg_tokens_wf s"
    "dr_consume_enrollment_token (PostgresDeliveryRepository rp) u h now s = (Inr (Some t), s')"
  then show "pg_tokens_wf s' \<and> pg_token s h = Some t \<and> et_used_at t = None \<and> now < et_expires_at t \<and>
      pg_token s' = (pg_token s)(h \<mapsto> t\<lparr>et_used_at := Some u\<rparr>)"
    using pg_consume_Some_law by (simp add: PostgresDeliveryRepository_def)
next
  fix s h now u
  assume "\<forall>t. pg_token s h = Some t \<longrightarrow> et_used_at t \<noteq> None \<or> et_expires_at t \<le> now"
  then show "fst (dr_consume_enrollment_token (PostgresDeliveryRepository rp) u h now s) = Inr None"
    by (auto simp: PostgresDeliveryRepository_def pg_consume_token_eq Let_def split: option.splits)
next
  fix s r s' assume "pg_tokens_wf s" "dr_add_runner (PostgresDeliveryRepository rp) r s = (Inr (), s')"
  then show "pg_tokens_wf s' \<and> pg_token s' = pg_token s"
    using pg_token_same [of s' s]
    by (auto simp: PostgresDeliveryRepository_def pg_add_runner_def pg_set_organization_def oper_iffs
        insert_orS_def split: if_splits)
next
  fix s a s' assume "pg_tokens_wf s" "dr_record_audit (PostgresDeliveryRepository rp) a s = (Inr (), s')"
  then show "pg_tokens_wf s' \<and> pg_token s' = pg_token s"
    using pg_token_same [of s' s]
    by (auto simp: PostgresDeliveryRepository_def pg_record_audit_def pg_set_organization_def oper_iffs)
qed

end
