(* ===== verification/DlTokens.thy ===== *)
theory DlTokens
  imports DlEnrollment DlApi
begin

text \<open>
  The life of an enrollment token over the requests of the delivery service: which requests write
  the tables of tokens, and that a token, once stored, keeps its contents and is used at most once.
\<close>

section \<open>Requests on enrollment tokens\<close>

text \<open>
  The two requests that write the tables, with whatever outcome and arguments; everything else
  leaves both tables as they are.
\<close>

inductive token_step :: "(string \<Rightarrow> string) \<Rightarrow> dl_db \<Rightarrow> dl_db \<Rightarrow> bool" for hash where
  create: "api_request (api_create_runner_enrollment hash raw k now org subject pool) s = (r1, s') \<Longrightarrow>
    token_step hash s s'"
| enroll: "api_request (api_enroll_runner hash now u cred rid seen tok name caps) s = (r2, s') \<Longrightarrow>
    token_step hash s s'"
| other: "pd_tokens s' = pd_tokens s \<Longrightarrow> pd_token_routes s' = pd_token_routes s \<Longrightarrow> token_step hash s s'"

definition token_later :: "enrollment_token \<Rightarrow> enrollment_token \<Rightarrow> bool" where
  "token_later t t' \<longleftrightarrow> t' = t \<or> et_used_at t = None \<and> (\<exists>u. t' = t\<lparr>et_used_at := Some u\<rparr>)"

definition tokens_later :: "dl_db \<Rightarrow> dl_db \<Rightarrow> bool" where
  "tokens_later s s' \<longleftrightarrow> pg_tokens_wf s \<longrightarrow>
     pg_tokens_wf s' \<and>
     (\<forall>h t. pg_token s h = Some t \<longrightarrow> (\<exists>t'. pg_token s' h = Some t' \<and> token_later t t'))"

lemma tokens_later_same:
  "pd_tokens s' = pd_tokens s \<Longrightarrow> pd_token_routes s' = pd_token_routes s \<Longrightarrow> tokens_later s s'"
  using pg_token_same [of s' s] by (auto simp: tokens_later_def token_later_def)

lemma tokens_later_trans:
  assumes "tokens_later s s1" and "tokens_later s1 s2"
  shows "tokens_later s s2"
proof -
  have "token_later t t2" if "token_later t t1" "token_later t1 t2" for t t1 t2
    using that by (auto simp: token_later_def)
  then show ?thesis using assms unfolding tokens_later_def by meson
qed

text \<open>A token is stored only where there was none.\<close>

lemma add_token_fresh:
  assumes "pg_tokens_wf s" and "pg_add_enrollment_token t s = (Inr (), s')"
  shows "pg_token s (et_token_hash t) = None"
  using assms(2)
  by (auto simp: pg_token_def pg_add_enrollment_token_def pg_set_organization_def oper_iffs insert_orS_def
      split: if_splits)

section \<open>The requests\<close>

text \<open>What a request that succeeded did, in terms of the service's operation.\<close>

lemma api_request_Inr:
  "api_request m s = (Inr a, s') \<longleftrightarrow>
     (\<exists>t. m (s\<lparr>pd_organization := None\<rparr>) = (Inr a, t) \<and> s' = t\<lparr>pd_organization := None\<rparr>)"
  by (auto simp: api_request_def in_session_def Let_def bindS_def returnS_def split: prod.splits sum.splits)

lemma api_request_Inl:
  "api_request m s = (Inl e, s') \<Longrightarrow> s' = s\<lparr>pd_organization := None\<rparr>"
  by (auto simp: api_request_def in_session_def Let_def bindS_def returnS_def split: prod.splits sum.splits)

lemma token_organization [simp]:
  "pg_token (s\<lparr>pd_organization := c\<rparr>) = pg_token s" "pg_tokens_wf (s\<lparr>pd_organization := c\<rparr>) = pg_tokens_wf s"
  using pg_token_same [of "s\<lparr>pd_organization := c\<rparr>" s] by simp_all

lemma authorize_tokens: "authorize org subject roles s = (x, s') \<Longrightarrow>
    pd_tokens s' = pd_tokens s \<and> pd_token_routes s' = pd_token_routes s"
proof -
  have "preserves (\<lambda>s. (pd_tokens s, pd_token_routes s)) (authorize org subject roles)"
    unfolding authorize_def http_error_def pg_role_for_def pg_set_organization_def Let_def
    by (intro preserving) simp_all
  then show "authorize org subject roles s = (x, s') \<Longrightarrow> ?thesis" by (drule_tac preservesD) auto
qed

lemma create_enrollment_effect:
  assumes "api_request (api_create_runner_enrollment hash raw k now org subject pool) s = (Inr resp, s')"
    and "pg_tokens_wf s"
  shows "pg_tokens_wf s' \<and> pg_token s (hash raw) = None \<and>
     pg_token s' = (pg_token s)(hash raw \<mapsto>
       \<lparr>et_id = k, et_organization_id = org, et_pool_id = pool, et_token_hash = hash raw,
        et_expires_at = now + minutes 10, et_used_at = None\<rparr>) \<and>
     map_of resp ''enrollment_token'' = Some raw"
proof -
  let ?R = "PostgresDeliveryRepository (\<lambda>_. []) :: dl_db dl_repository"
  let ?t = "\<lparr>et_id = k, et_organization_id = org, et_pool_id = pool, et_token_hash = hash raw,
        et_expires_at = now + minutes 10, et_used_at = None\<rparr>"
  obtain t1 t2 tok where a: "authorize org subject MANAGEMENT_ROLES (s\<lparr>pd_organization := None\<rparr>) = (Inr (), t1)"
    and c: "create_runner_enrollment hash ?R raw k now org subject pool t1 = (Inr tok, t2)"
    and r: "resp = [(''enrollment_token'', tok), (''expires_in_seconds'', ''600'')]"
      "s' = t2\<lparr>pd_organization := None\<rparr>"
    using assms(1) by (auto simp: api_request_Inr api_create_runner_enrollment_def oper_iffs)
  have t1: "pg_token t1 = pg_token s" "pg_tokens_wf t1"
    using authorize_tokens [OF a] pg_token_same [of t1 s] assms(2) by auto
  obtain t3 where "pg_add_enrollment_token ?t t1 = (Inr (), t3)"
    using c by (auto simp: create_runner_enrollment_def Let_def oper_iffs PostgresDeliveryRepository_def)
  from add_token_fresh [OF t1(2) this] show ?thesis
    using postgres_enrollment.create_enrollment [OF t1(2) c] r t1(1) by simp
qed

lemma enroll_effect:
  assumes "api_request (api_enroll_runner hash now u cred rid seen tok name caps) s = (Inr resp, s')"
    and "pg_tokens_wf s"
  obtains t where "pg_token s (hash tok) = Some t" "et_used_at t = None" "now < et_expires_at t"
    "pg_tokens_wf s'" "pg_token s' = (pg_token s)(hash tok \<mapsto> t\<lparr>et_used_at := Some u\<rparr>)"
    "resp = [(''runner_id'', str_uuid rid), (''organization_id'', str_uuid (et_organization_id t)),
       (''runner_credential'', cred)]"
    "dget (pd_runners s') rid = Some
       \<lparr>rw_id = rid, rw_organization_id = et_organization_id t, rw_pool_id = et_pool_id t, rw_name = name,
        rw_capabilities = caps, rw_credential_hash = hash cred, rw_status = ''ONLINE'', rw_last_seen_at = seen\<rparr>"
proof -
  let ?R = "PostgresDeliveryRepository (\<lambda>_. []) :: dl_db dl_repository"
  let ?s = "s\<lparr>pd_organization := None\<rparr>"
  obtain r c t2 where e: "enroll_runner hash ?R now u cred rid seen tok name caps ?s = (Inr (r, c), t2)"
    and resp: "resp = [(''runner_id'', str_uuid (rn_id r)), (''organization_id'', str_uuid (rn_organization_id r)),
              (''runner_credential'', c)]" "s' = t2\<lparr>pd_organization := None\<rparr>"
    using assms(1) by (auto simp: api_request_Inr api_enroll_runner_def oper_iffs split: prod.splits)
  obtain t t3 t4 where t: "pg_consume_enrollment_token u (hash tok) now ?s = (Inr (Some t), t3)"
    and r: "r = \<lparr>rn_id = rid, rn_organization_id = et_organization_id t, rn_pool_id = et_pool_id t, rn_name = name,
        rn_capabilities = caps, rn_credential_hash = hash cred, rn_status = RN_ONLINE, rn_last_seen_at = seen\<rparr>"
      "c = cred" "pg_add_runner r t3 = (Inr (), t4)" "pd_runners t2 = pd_runners t4"
    using e by (auto simp: enroll_runner_def Let_def oper_iffs PostgresDeliveryRepository_def
        dl_record_audit_def pg_record_audit_def pg_set_organization_def)
  have row: "dget (pd_runners t2) rid = Some (runner_row_of r)"
    using r by (auto simp: pg_add_runner_def pg_set_organization_def oper_iffs insert_orS_def split: if_splits)
  have wf: "pg_tokens_wf ?s" using assms(2) by simp
  have tok: "pg_token ?s (hash tok) = Some t" using pg_consume_Some_law [OF wf t] by simp
  show thesis
    using postgres_enrollment.enroll_success [OF wf e] tok resp r(1,2) row
    by (intro that [of t]) (auto simp: runner_row_of_def)
qed

lemma enroll_refused:
  assumes "pg_tokens_wf s"
    and "\<forall>t. pg_token s (hash tok) = Some t \<longrightarrow> et_used_at t \<noteq> None \<or> et_expires_at t \<le> now"
  shows "fst (api_request (api_enroll_runner hash now u cred rid seen tok name caps) s)
     = Inl (DeliveryE (InvalidEnrollment ''enrollment token is invalid, expired, or already used''))"
proof -
  let ?s = "s\<lparr>pd_organization := None\<rparr>"
  have "fst (enroll_runner hash (PostgresDeliveryRepository (\<lambda>_. [])) now u cred rid seen tok name caps ?s)
     = Inl (DeliveryE (InvalidEnrollment ''enrollment token is invalid, expired, or already used''))"
    using assms by (intro postgres_enrollment.enroll_unusable) simp_all
  then show ?thesis
    by (auto simp: api_request_def in_session_def api_enroll_runner_def Let_def bindS_def split: prod.splits)
qed

section \<open>Over runs\<close>

lemma token_step_later: "token_step hash s s' \<Longrightarrow> tokens_later s s'"
proof (induction rule: token_step.induct)
  case (create raw k now org subject pool s r1 s')
  show ?case
  proof (cases r1)
    case (Inl e)
    then show ?thesis using api_request_Inl [OF create [unfolded Inl]] by (simp add: tokens_later_same)
  next
    case (Inr resp)
    then show ?thesis
      using create_enrollment_effect [OF create [unfolded Inr]]
      by (auto simp: tokens_later_def token_later_def)
  qed
next
  case (enroll now u cred rid seen tok name caps s r2 s')
  show ?case
  proof (cases r2)
    case (Inl e)
    then show ?thesis using api_request_Inl [OF enroll [unfolded Inl]] by (simp add: tokens_later_same)
  next
    case (Inr resp)
    show ?thesis
      unfolding tokens_later_def
    proof (intro impI)
      assume "pg_tokens_wf s"
      from enroll_effect [OF enroll [unfolded Inr] this]
      show "pg_tokens_wf s' \<and> (\<forall>h t. pg_token s h = Some t \<longrightarrow>
          (\<exists>t'. pg_token s' h = Some t' \<and> token_later t t'))"
        by (metis fun_upd_apply option.sel token_later_def)
    qed
  qed
qed (rule tokens_later_same)

lemma token_run_later: "(token_step hash)\<^sup>*\<^sup>* s s' \<Longrightarrow> tokens_later s s'"
proof (induction rule: rtranclp_induct)
  case (step s1 s2)
  show ?case by (rule tokens_later_trans [OF step(3) token_step_later [OF step(2)]])
qed (simp add: tokens_later_same)

lemma tokens_wf_run: "(token_step hash)\<^sup>*\<^sup>* s s' \<Longrightarrow> pd_tokens s = [] \<Longrightarrow> pg_tokens_wf s'"
  using token_run_later [of hash s s']
  by (simp add: tokens_later_def pg_tokens_wf_def wf_dict_def keyed_def)

end
