(* ===== verification/DlVerifications.thy ===== *)
theory DlVerifications
  imports DlApi
begin

text \<open>
  The life of a provider verification over the requests of the delivery service: which requests
  write the table \<open>provider_verifications\<close>, and that none of them touches a finished row.
\<close>

section \<open>Requests on the queue of verifications\<close>

text \<open>
  Every request that writes the table, with whatever outcome and arguments; everything else the
  service and its runners do leaves the table as it is.
\<close>

inductive verification_step :: "dl_db \<Rightarrow> dl_db \<Rightarrow> bool" where
  create: "api_request (api_create_provider_verification isoformat now now' k org configuration subject pool key) s
     = (r1, s') \<Longrightarrow> verification_step s s'"
| lease: "api_request (api_lease_provider_verification hash seen pick now now' failed_at auth rid) s = (r2, s') \<Longrightarrow>
     verification_step s s'"
| heartbeat: "api_request (api_heartbeat_provider_verification hash seen now k auth rid) s = (r3, s') \<Longrightarrow>
     verification_step s s'"
| complete: "api_request (api_complete_provider_verification hash seen now now' k payload auth rid) s = (r4, s') \<Longrightarrow>
     verification_step s s'"
| capability: "api_request (api_provider_verification_model_capability encode hash seen beat now jti k auth rid) s
     = (r5, s') \<Longrightarrow> verification_step s s'"
| other: "pd_verifications s' = pd_verifications s \<Longrightarrow> verification_step s s'"

definition finished_verification :: "verification_row \<Rightarrow> bool" where
  "finished_verification row \<longleftrightarrow> nw_status row = ''PASSED'' \<or> nw_status row = ''FAILED''"

text \<open>The table later: still keyed by its rows, and every finished row is the same row.\<close>

definition verifications_later :: "dl_db \<Rightarrow> dl_db \<Rightarrow> bool" where
  "verifications_later s s' \<longleftrightarrow> verifications_wf s \<longrightarrow>
     verifications_wf s' \<and>
     (\<forall>k row. dget (pd_verifications s) k = Some row \<longrightarrow> finished_verification row \<longrightarrow>
        dget (pd_verifications s') k = Some row)"

lemma verifications_later_preorder [following]: "reflp verifications_later" "transp verifications_later"
  by (auto simp: verifications_later_def reflp_def transp_def)

lemma verifications_later_same: "pd_verifications s' = pd_verifications s \<Longrightarrow> verifications_later s s'"
  by (simp add: verifications_later_def verifications_wf_def)

lemma verifications_later_dset:
  assumes "pd_verifications s' = dset k row (pd_verifications s)" and "verifications_wf s \<Longrightarrow> nw_id row = k"
    and "\<And>old. verifications_wf s \<Longrightarrow> dget (pd_verifications s) k = Some old \<Longrightarrow>
           \<not> finished_verification old"
  shows "verifications_later s s'"
  using assms verifications_wf_dset [OF _ assms(2,1)] by (auto simp: verifications_later_def)

lemma follows_api_request [following]:
  assumes "follows verifications_later m"
  shows "follows verifications_later (api_request m)"
proof (rule followsI)
  fix s r s' assume "api_request m s = (r, s')"
  moreover obtain q t where m: "m (s\<lparr>pd_organization := None\<rparr>) = (q, t)" by fastforce
  have "verifications_later s t"
    using followsD [OF assms m] by (simp add: verifications_later_def verifications_wf_def)
  then have "verifications_later s (t\<lparr>pd_organization := None\<rparr>)"
    by (simp add: verifications_later_def verifications_wf_def)
  ultimately show "verifications_later s s'"
    using m by (auto simp: api_request_def in_session_def Let_def bindS_def returnS_def
        intro: verifications_later_same split: sum.splits prod.splits)
qed

section \<open>What the requests are made of\<close>

lemma verifications_same [following]:
  "follows verifications_later (pg_set_organization org)"
  "follows verifications_later (pg_record_audit a)"
  "follows verifications_later (pg_get_provider_configuration org c)"
  "follows verifications_later (pg_list_runner_pools now org)"
  "follows verifications_later (pg_role_for org subject)"
  by (rule follows_preserves [of pd_verifications];
      auto simp: pg_defs verifications_later_same intro!: preserving split: option.splits)+

lemma authorize_verifications [following]: "follows verifications_later (authorize org subject roles)"
  unfolding authorize_def http_error_def by (intro following)

lemma get_runner_verifications [following]: "follows verifications_later (pg_get_runner org k)"
  unfolding pg_get_runner_def by (intro following)

lemma authenticated_verifications [following]:
  "follows verifications_later (authenticated_runner hash seen auth rid)"
  unfolding authenticated_runner_def pg_authenticate_runner_def http_error_def Let_def
  by (intro following) (simp add: verifications_later_same)

lemma create_verification_later [following]:
  "follows verifications_later (pg_create_provider_verification now k org c pool key)"
  unfolding pg_create_provider_verification_def Let_def
  by (intro following) (auto intro!: verifications_later_dset)

lemma lease_verification_effect:
  assumes "pg_lease_provider_verification pick now now' r s = (Inr (Some row), s1)" and "verifications_wf s"
  obtains old where "dget (pd_verifications s) (nw_id row) = Some old"
    "leasable_verification r (now - seconds 45) old"
    "pd_verifications s1 = dset (nw_id row) row (pd_verifications s)"
    "row = old\<lparr>nw_status := ''RUNNING'', nw_leased_by_runner_id := Some (rn_id r), nw_leased_at := Some now'\<rparr>"
proof -
  from assms(1) obtain old where c: "choose_row nw_id pick (filter (leasable_verification r (now - seconds 45))
         (visible nw_organization_id (Some (rn_organization_id r)) (pd_verifications s))) = Some old"
    and row: "row = old\<lparr>nw_status := ''RUNNING'', nw_leased_by_runner_id := Some (rn_id r),
                        nw_leased_at := Some now'\<rparr>"
      "pd_verifications s1 = dset (nw_id row) row (pd_verifications s)"
    unfolding lease_provider_verification_iff by (auto simp: Let_def split: option.splits)
  show thesis
    using that [of old] chosen_verification [OF assms(2) c] row by simp
qed

lemma leasable_unfinished: "leasable_verification r t row \<Longrightarrow> \<not> finished_verification row"
  by (auto simp: leasable_verification_def finished_verification_def)

lemma held_unfinished: "held_verification r k s = Some row \<Longrightarrow> \<not> finished_verification row"
  by (auto simp: held_verification_Some finished_verification_def)

lemma lease_verification_later:
  "follows verifications_later
     (bindS (pg_lease_provider_verification pick now now' r) (\<lambda>found.
      case found of None \<Rightarrow> returnS None
      | Some row \<Rightarrow> bindS (pg_get_provider_configuration (og row) (cf row)) (\<lambda>configuration.
          case configuration of
            None \<Rightarrow> seqS (writeS (\<lambda>s. s\<lparr>pd_verifications := dset (nw_id row)
                (row\<lparr>nw_status := st, nw_result := res, nw_completed_at := t\<rparr>) (pd_verifications s)\<rparr>))
              (returnS None)
          | Some c \<Rightarrow> returnS (g row c))))" (is "follows _ ?m")
proof (rule followsI)
  fix s q s' assume run: "?m s = (q, s')"
  show "verifications_later s s'"
  proof (cases "verifications_wf s")
    case True
    obtain x s1 where l: "pg_lease_provider_verification pick now now' r s = (x, s1)" by fastforce
    show ?thesis
    proof (cases x)
      case (Inl e)
      then show ?thesis using l by (auto simp: lease_provider_verification_iff Let_def split: option.splits)
    next
      case (Inr found)
      show ?thesis
      proof (cases found)
        case None
        then show ?thesis using run l Inr
          by (auto simp: bindS_def returnS_def lease_provider_verification_iff Let_def
              intro: verifications_later_same split: option.splits)
      next
        case (Some row)
        obtain old where old: "dget (pd_verifications s) (nw_id row) = Some old"
          "leasable_verification r (now - seconds 45) old"
          "pd_verifications s1 = dset (nw_id row) row (pd_verifications s)"
          by (rule lease_verification_effect [OF l [unfolded Inr Some] True])
        obtain y s2 where gc: "pg_get_provider_configuration (og row) (cf row) s1 = (y, s2)" by fastforce
        have "preserves pd_verifications (pg_get_provider_configuration (og row) (cf row))"
          by (auto simp: pg_defs intro!: preserving)
        from preservesD [OF this gc] have same: "pd_verifications s2 = pd_verifications s1" .
        have "pd_verifications s' \<in> {dset (nw_id row) row (pd_verifications s), dset (nw_id row)
            (row\<lparr>nw_status := st, nw_result := res, nw_completed_at := t\<rparr>) (pd_verifications s)}"
          using run l Inr Some gc same old(3)
          by (auto simp: bindS_def returnS_def writeS_def seqS_def split: sum.splits option.splits)
        then show ?thesis
          using old leasable_unfinished by (auto intro!: verifications_later_dset)
      qed
    qed
  qed (simp add: verifications_later_def)
qed

lemma heartbeat_verification_later [following]:
  "follows verifications_later (pg_heartbeat_provider_verification now r k)"
proof (rule followsI)
  fix s x s' assume "pg_heartbeat_provider_verification now r k s = (x, s')"
  then show "verifications_later s s'"
    by (auto simp: heartbeat_provider_verification_iff Let_def held_verification_Some finished_verification_def
        verifications_later_same verifications_wf_def keyed_def
        intro!: verifications_later_dset split: option.splits)
qed

lemma complete_verification_later [following]:
  "follows verifications_later (pg_complete_provider_verification now now' r k v)"
proof (rule followsI)
  fix s x s' assume "pg_complete_provider_verification now now' r k v s = (x, s')"
  then show "verifications_later s s'"
    by (auto simp: complete_provider_verification_iff Let_def held_verification_Some finished_verification_def
        verifications_later_same verifications_wf_def keyed_def
        intro!: verifications_later_dset split: option.splits)
qed

section \<open>The requests\<close>

lemma verification_step_later: "verification_step s s' \<Longrightarrow> verifications_later s s'"
proof (induction rule: verification_step.induct)
  case create
  then show ?case
    by (rule followsD [rotated]) (unfold api_create_provider_verification_def http_error_def, intro following)
next
  case lease
  then show ?case
    by (rule followsD [rotated])
       (unfold api_lease_provider_verification_def, intro following lease_verification_later)
next
  case heartbeat
  then show ?case
    by (rule followsD [rotated]) (unfold api_heartbeat_provider_verification_def, intro following)
next
  case complete
  then show ?case
    by (rule followsD [rotated]) (unfold api_complete_provider_verification_def, intro following)
next
  case capability
  then show ?case
    by (rule followsD [rotated]) (unfold api_provider_verification_model_capability_def, intro following)
qed (rule verifications_later_same)

lemma verification_run_later: "verification_step\<^sup>*\<^sup>* s s' \<Longrightarrow> verifications_later s s'"
  by (induction rule: rtranclp_induct)
     (use verifications_later_preorder verification_step_later in \<open>blast dest: reflpD transpD\<close>)+

lemma verifications_wf_run:
  "verification_step\<^sup>*\<^sup>* s s' \<Longrightarrow> pd_verifications s = [] \<Longrightarrow> verifications_wf s'"
  using verification_run_later [of s s']
  by (simp add: verifications_later_def verifications_wf_def wf_dict_def keyed_def)

section \<open>Who may do what\<close>

text \<open>Extending and completing answer \<open>None\<close> unless the row runs under the lease of the runner.\<close>

lemma refused_verification:
  assumes "\<And>row. dget (pd_verifications s) k = Some row \<Longrightarrow>
      nw_status row = ''RUNNING'' \<Longrightarrow> nw_leased_by_runner_id row \<noteq> Some (rn_id r)"
  shows "fst (pg_heartbeat_provider_verification now r k s) = Inr None"
    and "fst (pg_complete_provider_verification now now' r k v s) = Inr None"
proof -
  let ?t = "s\<lparr>pd_organization := Some (rn_organization_id r)\<rparr>"
  have none: "held_verification r k ?t = None"
    using assms by (cases "held_verification r k ?t") (auto simp: held_verification_Some)
  obtain x s1 where h: "pg_heartbeat_provider_verification now r k s = (x, s1)" by fastforce
  obtain y s2 where c: "pg_complete_provider_verification now now' r k v s = (y, s2)" by fastforce
  have "x = Inr None" "y = Inr None"
    using h c none
    by (auto simp: heartbeat_provider_verification_iff complete_provider_verification_iff Let_def)
  then show "fst (pg_heartbeat_provider_verification now r k s) = Inr None"
    "fst (pg_complete_provider_verification now now' r k v s) = Inr None"
    using h c by simp_all
qed

lemma lease_passes_finished:
  assumes "verifications_wf s" and "dget (pd_verifications s) k = Some row" and "finished_verification row"
    and "pg_lease_provider_verification pick now now' r s = (Inr (Some got), s1)"
  shows "nw_id got \<noteq> k"
proof -
  obtain old where "dget (pd_verifications s) (nw_id got) = Some old"
    "leasable_verification r (now - seconds 45) old"
    by (rule lease_verification_effect [OF assms(4,1)])
  then show ?thesis using leasable_unfinished assms(2,3) by auto
qed

lemma complete_verification_effect:
  assumes "pg_complete_provider_verification now now' r k v s = (Inr (Some row), s1)"
  obtains old where "dget (pd_verifications s) k = Some old" "nw_status old = ''RUNNING''"
    "nw_leased_by_runner_id old = Some (rn_id r)" "dget (pd_verifications s1) k = Some row"
    "row = old\<lparr>nw_leased_at := Some now,
       nw_status := if truthy (obj_get v ''success'') then ''PASSED'' else ''FAILED'',
       nw_result := Some v, nw_completed_at := Some now'\<rparr>"
  using assms
  by (auto simp: complete_provider_verification_iff Let_def held_verification_Some split: option.splits)

end
