(* ===== verification/DlProperties.thy ===== *)
theory DlProperties
  imports DlRun DlTokens DlVerifications
begin

text \<open>
  The properties of the delivery service in every reachable state of its tables: what a
  delivered execution rests on, budgets, one execution per work item, the outcome of a
  runner's report, leases, enrollment, authentication, the inbox and the workflow.
\<close>

section \<open>Executions\<close>

text \<open>C1: Nothing is delivered unverified: in every reachable state of the tables, an execution that
  is being delivered or was delivered has a completed runner job whose report says that the agent
  succeeded and that the independent validation passed.\<close>

theorem delivery_requires_verification:
  assumes "delivery_reachable rp s"
    and "dget (pd_executions s) k = Some x" and "xw_status x \<in> {''DELIVERING'', ''DELIVERED''}"
  shows "\<exists>j r. dget (pd_jobs s) (k XOR 1) = Some j \<and> jw_execution_id j = k \<and>
     jw_status j = ''COMPLETED'' \<and> jw_result j = Some (dump_job_report r) \<and>
     ag_success (rj_agent r) \<and> vr_passed (rj_validation r)"
  using delivery_reachable_inv [OF assms(1)] assms(2,3)
  unfolding delivery_inv_def delivered_inv_def verified_job_def report_verified_def by blast

theorem delivery_requires_verification_witness:
  "\<exists>j r. dget (pd_jobs (run6 True)) (100 XOR 1) = Some j \<and> jw_execution_id j = 100 \<and>
     jw_status j = ''COMPLETED'' \<and> jw_result j = Some (dump_job_report r) \<and>
     ag_success (rj_agent r) \<and> vr_passed (rj_validation r)"
  by (rule delivery_requires_verification [OF run_reachable(5) [OF sample_valid(1)],
        where x = "execution_row_of (run_execution ES_DELIVERING 1 8)"])
     (simp_all add: run6_fields)

text \<open>C4: Every stored execution reads back, was approved before it left \<open>AWAITING_APPROVAL\<close> other
  than to its end, and its accumulated attempts, turns, seconds and cost are within the budget
  from the first report on; an execution without a report has used nothing of its attempts.\<close>

theorem stored_executions_are_approved_and_within_budget:
  assumes "delivery_reachable rp s" and "dget (pd_executions s) k = Some x"
  shows "\<exists>e. execution_of_row rp x = Inr e \<and> ex_id e = k \<and> 0 \<le> ex_attempt_count e \<and>
     (ex_approval_status e = AP_PENDING \<longrightarrow>
        ex_status e \<in> {ES_AWAITING_APPROVAL, ES_CANCELLED, ES_FAILED}) \<and>
     (ex_status e = ES_DELIVERED \<longrightarrow> ex_result_reference e \<noteq> None) \<and>
     (ex_attempt_count e = 0 \<and> ex_turn_count e = 0 \<and> ex_duration_seconds e = 0 \<and>
        ex_cost_minor e = 0 \<or>
        ex_attempt_count e \<le> eb_max_attempts (ex_budget e) \<and>
        ex_turn_count e \<le> eb_max_turns (ex_budget e) \<and>
        ex_duration_seconds e \<le> eb_max_duration_seconds (ex_budget e) \<and>
        ex_cost_minor e \<le> eb_max_cost_minor (ex_budget e))"
proof -
  obtain e where e: "x = execution_row_of e" "ex_id e = k" "good_execution e"
    using delivery_reachable_inv [OF assms(1)] assms(2)
    unfolding delivery_inv_def executions_inv_def by blast
  then show ?thesis
    by (intro exI [of _ e])
       (auto simp: good_execution_def execution_inv_def within_budget_iff nothing_used_def)
qed

theorem stored_executions_are_approved_and_within_budget_witness:
  "\<exists>e. execution_of_row no_repr (execution_row_of (run_execution ES_DELIVERING 1 8)) = Inr e \<and>
     ex_turn_count e \<le> eb_max_turns (ex_budget e)"
proof -
  have row: "dget (pd_executions (run6 True)) 100 = Some (execution_row_of (run_execution ES_DELIVERING 1 8))"
    by (simp add: run6_fields)
  have e: "execution_of_row no_repr (execution_row_of (run_execution ES_DELIVERING 1 8))
      = Inr (run_execution ES_DELIVERING 1 8)" "0 < ex_attempt_count (run_execution ES_DELIVERING 1 8)"
    by (simp, simp add: run_execution_def)
  show ?thesis
    using stored_executions_are_approved_and_within_budget
      [OF run_reachable(5) [OF sample_valid(1)] row] e by auto
qed

text \<open>C17: A work item has at most one execution in an organization, in every reachable state, whatever
  interleaving of events and requests led there.\<close>

theorem one_execution_per_work_item:
  assumes "delivery_reachable rp s"
    and "dget (pd_executions s) k1 = Some x1" and "dget (pd_executions s) k2 = Some x2"
    and "xw_organization_id x1 = xw_organization_id x2" and "xw_work_item_id x1 = xw_work_item_id x2"
  shows "k1 = k2"
  using delivery_reachable_inv [OF assms(1)] assms(2-)
  unfolding delivery_inv_def executions_inv_def by blast

theorem one_execution_per_work_item_witness:
  "{k. dget (pd_executions run3) k = Some (execution_row_of (run_execution ES_BUILDING 0 5))} = {100}"
proof -
  have row: "dget (pd_executions run3) 100 = Some (execution_row_of (run_execution ES_BUILDING 0 5))"
    by (simp add: run3_fields)
  then show ?thesis
    using one_execution_per_work_item [OF run_reachable(2)] by blast
qed

text \<open>C18: Accepting a work item again is idempotent: while an execution of the work item exists, a
  second acceptance (the HTTP route or the event) returns that execution and changes no table.\<close>

theorem accepting_again_changes_nothing:
  assumes "delivery_reachable rp s" and "dget (pd_executions s) k = Some x"
  shows "\<exists>e. api_request (accept_ready_work_item (PostgresDeliveryRepository rp) PostgresWorkflowGateway
       xid eid now (xw_organization_id x) pid (xw_work_item_id x) title descr crit rc pc pool b corr) s
     = (Inr e, s\<lparr>pd_organization := None\<rparr>) \<and> ex_id e = k \<and> execution_row_of e = x"
proof -
  let ?s0 = "s\<lparr>pd_organization := None\<rparr>"
  have inv: "executions_inv ?s0" and u: "\<And>k' x'. dget (pd_executions s) k' = Some x' \<Longrightarrow>
      xw_organization_id x' = xw_organization_id x \<Longrightarrow> xw_work_item_id x' = xw_work_item_id x \<Longrightarrow> k' = k"
    using delivery_reachable_inv [OF assms(1)] assms(2)
    unfolding delivery_inv_def executions_inv_def by auto
  obtain q t where q: "pg_get_execution_by_work_item rp (xw_organization_id x) (xw_work_item_id x) ?s0 = (q, t)"
    by fastforce
  show ?thesis
  proof (cases rule: get_by_work_item_cases [OF inv q])
    case 1
    then show ?thesis using 1(3) [of k x] assms(2) by simp
  next
    case (2 e)
    have t: "t = s\<lparr>pd_organization := Some (xw_organization_id x)\<rparr>"
      using q by (auto simp: pg_get_execution_by_work_item_def readS_def bindS_def returnS_def liftS_def
          split: option.splits)
    have row: "dget (pd_executions s) (ex_id e) = Some (execution_row_of e)"
      using 2(3) by (simp add: stored_def)
    then have "ex_id e = k" using u 2 by simp
    moreover from this have "execution_row_of e = x" using row assms(2) by simp
    ultimately show ?thesis
      using q 2 t by (simp add: api_request_def in_session_def accept_ready_work_item_def pg_simps
          bindS_def returnS_def Let_def)
  qed
qed

theorem accepting_again_changes_nothing_witness:
  "\<exists>e. api_request (accept_ready_work_item (PostgresDeliveryRepository no_repr) PostgresWorkflowGateway
       7 8 9 1 10 41 [] [] [] 1 2 3 (ex_budget sample_execution) 4) run3
     = (Inr e, run3\<lparr>pd_organization := None\<rparr>) \<and> ex_id e = 100"
proof -
  have row: "dget (pd_executions run3) 100 = Some (execution_row_of (run_execution ES_BUILDING 0 5))"
    by (simp add: run3_fields)
  have "xw_work_item_id (execution_row_of (run_execution ES_BUILDING 0 5)) = 41"
    by (simp add: run_execution_def sample_execution_def)
  then show ?thesis
    using accepting_again_changes_nothing [OF run_reachable(2) row, of 7 8 9 10 "[]" "[]" "[]" 1 2 3
      "ex_budget sample_execution" 4] by auto
qed

text \<open>C6: The outcome of a poll that finds a completed job: the report counts as exactly one attempt
  and its turns, seconds and cost are added and within the budget; a verified report starts the
  delivery, a failed one queues a repair only while attempts are left, else a human takes over.\<close>

theorem poll_processes_a_report:
  assumes "delivery_reachable rp s" and "act_poll rp fresh org xid s = (Inr p, s')" and "p \<noteq> Waiting"
  shows "\<exists>e e' j v. dget (pd_executions s) xid = Some (execution_row_of e) \<and>
     dget (pd_executions s') xid = Some (execution_row_of e') \<and>
     dget (pd_jobs s) (jw_id j) = Some j \<and> jw_result j = Some (dump_job_report v) \<and>
     ex_status e = ES_BUILDING \<and>
     ex_attempt_count e' = ex_attempt_count e + 1 \<and>
     ex_attempt_count e' \<le> eb_max_attempts (ex_budget e) \<and>
     ex_turn_count e' = ex_turn_count e + ag_turns (rj_agent v) \<and>
     ex_turn_count e' \<le> eb_max_turns (ex_budget e) \<and>
     ex_duration_seconds e' = ex_duration_seconds e + rj_duration_seconds v \<and>
     ex_duration_seconds e' \<le> eb_max_duration_seconds (ex_budget e) \<and>
     ex_cost_minor e' = ex_cost_minor e + rj_cost_minor v \<and>
     ex_cost_minor e' \<le> eb_max_cost_minor (ex_budget e) \<and>
     (if report_verified v then p = Verified e' (dump_job_report v) \<and> ex_status e' = ES_DELIVERING
      else if ex_attempt_count e' = eb_max_attempts (ex_budget e)
      then p = Returned ''AWAITING_HUMAN'' \<and> ex_status e' = ES_AWAITING_HUMAN
      else p = RepairQueued \<and> ex_status e' = ES_BUILDING \<and>
           (\<exists>j'. dget (pd_jobs s') (jw_id j) = Some j' \<and> jw_status j' = ''QUEUED'' \<and> jw_result j' = None))"
proof (cases rule: act_poll_cases [OF assms(2) delivery_reachable_inv [OF assms(1)]])
  case 1
  then show ?thesis using assms(3) by simp
next
  case (2 x)
  then show ?thesis by simp
next
  case (3 q e j v e')
  have st: "static e' = static e" "stored s' e'" "within_budget e'"
    using 3(9) by (simp_all add: processed_def)
  then have id: "ex_id e' = xid" "ex_budget e' = ex_budget e"
    using staticD(1,11) [OF st(1)] 3(3) by simp_all
  have rows: "dget (pd_executions s) xid = Some (execution_row_of e)"
    "dget (pd_executions s') xid = Some (execution_row_of e')"
    using 3(2,3) st(2) id(1) by (auto simp: stored_def)
  show ?thesis
    using 3(1,5,8,9) rows st(3) id(2)
    by (intro exI [of _ e] exI [of _ e'] exI [of _ j] exI [of _ v])
       (auto simp: processed_def within_budget_iff requeued_def)
qed

theorem poll_processes_a_report_witness:
  "\<exists>e'. dget (pd_executions (run6 True)) 100 = Some (execution_row_of e') \<and> ex_status e' = ES_DELIVERING \<and>
     ex_attempt_count e' \<le> eb_max_attempts (ex_budget e')"
proof -
  have "fst (act_poll no_repr (run_fresh 220) 1 100 (run5 True))
      = Inr (Verified (run_execution ES_DELIVERING 1 8) (dump_job_report (sample_report True)))"
    by (rule run6_result)
  then have "act_poll no_repr (run_fresh 220) 1 100 (run5 True)
      = (Inr (Verified (run_execution ES_DELIVERING 1 8) (dump_job_report (sample_report True))), run6 True)"
    unfolding run6_def by (metis prod.collapse)
  from poll_processes_a_report [OF run_reachable(4) [OF sample_valid(1)] this]
  show ?thesis
    by (auto simp: run6_fields run_execution_def sample_execution_def split: if_splits)
qed

text \<open>C26: A delivery that failed after its start cannot be retried: once an execution is
  \<open>DELIVERING\<close>, every further run of the polling loop (the retry of the activity, when creating
  the pull request failed) raises an error and leaves the tables as they are.\<close>

theorem failed_delivery_is_not_retryable:
  assumes "delivery_reachable rp s"
    and "dget (pd_executions s) xid = Some x" and "xw_status x = ''DELIVERING''"
  shows "\<exists>err. act_poll rp fresh (xw_organization_id x) xid s = (Inl err, s\<lparr>pd_organization := None\<rparr>)"
proof -
  obtain r s' where run: "act_poll rp fresh (xw_organization_id x) xid s = (r, s')" by fastforce
  have inv: "delivery_inv s" by (rule delivery_reachable_inv [OF assms(1)])
  obtain e where e: "x = execution_row_of e" "ex_id e = xid"
    using inv assms(2) unfolding delivery_inv_def executions_inv_def by blast
  have "\<exists>err. r = Inl err"
  proof (cases rule: act_poll_cases [OF run inv])
    case (1 j)
    have "verified_job s xid" using inv assms(2,3) by (auto simp: delivery_inv_def delivered_inv_def)
    then show ?thesis using act_poll_waiting [OF run [unfolded 1(1)] inv] by blast
  next
    case (2 x)
    then show ?thesis by simp
  next
    case (3 q e1 j v e')
    then show ?thesis using assms(2,3) e by (auto simp: processed_def stored_def)
  qed
  then show ?thesis
    using run by (auto simp: act_poll_def in_session_def Let_def split: prod.splits sum.splits)
qed

theorem failed_delivery_is_not_retryable_witness:
  "\<exists>err. act_poll no_repr (run_fresh 240) 1 100 (run6 True) = (Inl err, (run6 True)\<lparr>pd_organization := None\<rparr>)"
proof -
  have row: "dget (pd_executions (run6 True)) 100 = Some (execution_row_of (run_execution ES_DELIVERING 1 8))"
    by (simp add: run6_fields)
  show ?thesis
    using failed_delivery_is_not_retryable [OF run_reachable(5) [OF sample_valid(1)] row, of "run_fresh 240"] by simp
qed

section \<open>Leases\<close>

text \<open>C9: A live lease is exclusive: as long as at most 45 seconds passed since the holder's last sign
  of life, no other runner of the pool can lease the job, extend it or complete it, and whatever
  it tries leaves the holder's lease as it is.\<close>

theorem live_lease_is_exclusive:
  assumes "delivery_reachable rp s" and "job_holder s k = Some (q, Some t)"
    and "now \<le> t + seconds 45" and "rn_id r \<noteq> q"
  shows "(\<forall>found s'. pg_lease_runner_job pick now now' r s = (Inr found, s') \<longrightarrow>
       map_option jw_id found \<noteq> Some k \<and> job_holder s' k = Some (q, Some t)) \<and>
     fst (pg_heartbeat_runner_job now r k s) = Inr None \<and>
     fst (pg_complete_runner_job now r k v s) = Inr None \<and>
     job_holder (snd (pg_heartbeat_runner_job now r k s)) = job_holder s \<and>
     job_holder (snd (pg_complete_runner_job now r k v s)) = job_holder s"
proof -
  have wf: "jobs_wf s"
    using delivery_reachable_inv [OF assms(1)] by (simp add: delivery_inv_def jobs_inv_def)
  have "map_option jw_id found \<noteq> Some k \<and> job_holder s' k = Some (q, Some t)"
    if "pg_lease_runner_job pick now now' r s = (Inr found, s')" for found s'
  proof (cases found)
    case None
    then show ?thesis
      using job_queue.lease_other [OF wf, of pick now now' r "Inr None" s'] that assms(2) by (simp add: mapS_def)
  next
    case (Some j)
    then have "mapS (map_option jw_id) (pg_lease_runner_job pick now now' r) s = (Inr (Some (jw_id j)), s')"
      using that by (simp add: mapS_def)
    from job_queue.lease_Some [OF wf this] show ?thesis using assms(2,3) Some by (auto simp: stale_def)
  qed
  moreover have "held_job r k (s\<lparr>pd_organization := x\<rparr>) = None" for x
    using assms(2,4) by (cases "held_job r k (s\<lparr>pd_organization := x\<rparr>)") (auto simp: held_job_Some job_holder_def)
  then have "pg_heartbeat_runner_job now r k s = (Inr None, s\<lparr>pd_organization := Some (rn_organization_id r)\<rparr>)"
    "pg_complete_runner_job now r k v s = (Inr None, s\<lparr>pd_organization := Some (rn_organization_id r)\<rparr>)"
    by (simp_all add: heartbeat_runner_job_iff complete_runner_job_iff Let_def)
  ultimately show ?thesis by (simp add: job_holder_same [of "s\<lparr>pd_organization := _\<rparr>" s])
qed

theorem live_lease_is_exclusive_witness:
  "fst (pg_complete_runner_job 1 (sample_runner 8) 101 [] run4) = Inr None"
  using live_lease_is_exclusive [OF run_reachable(3), of 101 7 0 1 "sample_runner 8" "\<lambda>_. None" 1 "[]"]
  by (simp add: job_holder_def run4_fields run_job_def sample_runner_def seconds_def)

text \<open>C14: A finished provider verification is final. In every state the requests of the service
  lead to: completing needs the running lease of the runner and stores the outcome (\<open>PASSED\<close> or
  \<open>FAILED\<close>), the result and the time; a finished row is the same row in every later state,
  whatever requests follow, and no runner can lease, extend or complete it again; and when a
  verification was leased to a runner, every other runner is refused.\<close>

theorem finished_verification_is_final:
  assumes "verification_step\<^sup>*\<^sup>* s0 s" and "pd_verifications s0 = []"
  shows "(\<forall>now now' r k v row s1. pg_complete_provider_verification now now' r k v s = (Inr (Some row), s1) \<longrightarrow>
       (\<exists>old. dget (pd_verifications s) k = Some old \<and> nw_status old = ''RUNNING'' \<and>
          nw_leased_by_runner_id old = Some (rn_id r)) \<and>
       dget (pd_verifications s1) k = Some row \<and> nw_result row = Some v \<and> nw_completed_at row = Some now' \<and>
       nw_status row = (if truthy (obj_get v ''success'') then ''PASSED'' else ''FAILED'')) \<and>
     (\<forall>k row s'. dget (pd_verifications s) k = Some row \<longrightarrow> nw_status row \<in> {''PASSED'', ''FAILED''} \<longrightarrow>
        verification_step\<^sup>*\<^sup>* s s' \<longrightarrow>
        dget (pd_verifications s') k = Some row \<and>
        (\<forall>pick now now' r got s1. pg_lease_provider_verification pick now now' r s' = (Inr (Some got), s1) \<longrightarrow>
           nw_id got \<noteq> k) \<and>
        (\<forall>now r. fst (pg_heartbeat_provider_verification now r k s') = Inr None) \<and>
        (\<forall>now now' r v. fst (pg_complete_provider_verification now now' r k v s') = Inr None)) \<and>
     (\<forall>pick now now' r row s1 q. pg_lease_provider_verification pick now now' r s = (Inr (Some row), s1) \<longrightarrow>
        rn_id q \<noteq> rn_id r \<longrightarrow>
        nw_status row = ''RUNNING'' \<and> nw_leased_by_runner_id row = Some (rn_id r) \<and>
        (\<forall>t. fst (pg_heartbeat_provider_verification t q (nw_id row) s1) = Inr None) \<and>
        (\<forall>t t' v. fst (pg_complete_provider_verification t t' q (nw_id row) v s1) = Inr None))"
proof (intro conjI allI impI)
  fix now now' r k v row s1
  assume c: "pg_complete_provider_verification now now' r k v s = (Inr (Some row), s1)"
  obtain old where "dget (pd_verifications s) k = Some old" "nw_status old = ''RUNNING''"
    "nw_leased_by_runner_id old = Some (rn_id r)" "dget (pd_verifications s1) k = Some row"
    "row = old\<lparr>nw_leased_at := Some now,
       nw_status := if truthy (obj_get v ''success'') then ''PASSED'' else ''FAILED'',
       nw_result := Some v, nw_completed_at := Some now'\<rparr>"
    by (rule complete_verification_effect [OF c])
  then show "\<exists>old. dget (pd_verifications s) k = Some old \<and> nw_status old = ''RUNNING'' \<and>
          nw_leased_by_runner_id old = Some (rn_id r)" "dget (pd_verifications s1) k = Some row"
    "nw_result row = Some v" "nw_completed_at row = Some now'"
    "nw_status row = (if truthy (obj_get v ''success'') then ''PASSED'' else ''FAILED'')"
    by simp_all
next
  fix k row s'
  assume row: "dget (pd_verifications s) k = Some row" "nw_status row \<in> {''PASSED'', ''FAILED''}"
    and run: "verification_step\<^sup>*\<^sup>* s s'"
  have fin: "finished_verification row" using row(2) by (auto simp: finished_verification_def)
  have wf: "verifications_wf s" "verifications_wf s'"
    using verifications_wf_run assms run by (blast, meson rtranclp_trans)
  show same: "dget (pd_verifications s') k = Some row"
    using verification_run_later [OF run] wf(1) row(1) fin by (simp add: verifications_later_def)
  show "nw_id got \<noteq> k"
    if "pg_lease_provider_verification pick now now' r s' = (Inr (Some got), s1)" for pick now now' r got s1
    by (rule lease_passes_finished [OF wf(2) same fin that])
  show "fst (pg_heartbeat_provider_verification now r k s') = Inr None"
    "fst (pg_complete_provider_verification now now' r k v s') = Inr None" for now now' r v
    by (rule refused_verification; use same row(2) in auto)+
next
  fix pick now now' r row s1 and q :: runner
  assume l: "pg_lease_provider_verification pick now now' r s = (Inr (Some row), s1)" and q: "rn_id q \<noteq> rn_id r"
  obtain old where old: "pd_verifications s1 = dset (nw_id row) row (pd_verifications s)"
    "row = old\<lparr>nw_status := ''RUNNING'', nw_leased_by_runner_id := Some (rn_id r), nw_leased_at := Some now'\<rparr>"
    by (rule lease_verification_effect [OF l verifications_wf_run [OF assms]])
  then show "nw_status row = ''RUNNING''" and by_r: "nw_leased_by_runner_id row = Some (rn_id r)"
    by simp_all
  show "fst (pg_heartbeat_provider_verification t q (nw_id row) s1) = Inr None"
    "fst (pg_complete_provider_verification t t' q (nw_id row) v s1) = Inr None" for t t' v
    by (rule refused_verification; use old(1) by_r q in auto)+
qed

text \<open>A verification that is requested, leased, and passes.\<close>

definition sample_worker :: runner where
  "sample_worker = (sample_runner 7)\<lparr>rn_capabilities := [pc_runtime sample_configuration]\<rparr>"

definition sample_verified :: verification_complete where
  "sample_verified = \<lparr>vc_success = True, vc_summary = [], vc_input_tokens = None,
     vc_cached_input_tokens = None, vc_output_tokens = None\<rparr>"

definition verification0 :: dl_db where
  "verification0 = run0\<lparr>pd_runners := [(7, runner_row_of sample_worker)],
     pd_pools := [(62, \<lparr>pw_id = 62, pw_organization_id = 1, pw_name = ''pool'', pw_runner_type = ''LOCAL''\<rparr>)]\<rparr>"

definition verification1 :: dl_db where
  "verification1 = snd (api_request (api_create_provider_verification (\<lambda>_. []) 0 0 5 1 61 ''ann'' 62 (Some ''k''))
     verification0)"

definition verification2 :: dl_db where
  "verification2 = snd (api_request (api_lease_provider_verification id 0 (\<lambda>ks. Some (hd ks)) 0 0 0
     (Some ''Runner h'') (Some (str_uuid 7))) verification1)"

definition verification3 :: dl_db where
  "verification3 = snd (api_request (api_complete_provider_verification id 0 1 2 5 sample_verified
     (Some ''Runner h'') (Some (str_uuid 7))) verification2)"

definition sample_verification :: verification_row where
  "sample_verification =
     \<lparr>nw_id = 5, nw_organization_id = 1, nw_provider_configuration_id = 61, nw_pool_id = 62,
      nw_idempotency_key = ''k'', nw_status = ''QUEUED'', nw_result = None,
      nw_leased_by_runner_id = None, nw_leased_at = None, nw_created_at = 0, nw_completed_at = None\<rparr>"

lemma verification_run: "verification_step\<^sup>*\<^sup>* verification0 verification3"
proof -
  have "verification_step verification0 verification1"
    unfolding verification1_def by (rule verification_step.create [OF prod.collapse [symmetric]])
  moreover have "verification_step verification1 verification2"
    unfolding verification2_def by (rule verification_step.lease [OF prod.collapse [symmetric]])
  moreover have "verification_step verification2 verification3"
    unfolding verification3_def by (rule verification_step.complete [OF prod.collapse [symmetric]])
  ultimately show ?thesis by (meson converse_rtranclp_into_rtranclp rtranclp.rtrancl_refl)
qed

lemma sample_worker_authenticated:
  "pd_runners s = [(7, runner_row_of sample_worker)] \<Longrightarrow> pd_runner_routes s = [(''h'', (1, 7))] \<Longrightarrow>
   authenticated_runner id 0 (Some ''Runner h'') (Some (str_uuid 7)) s =
     (Inr sample_worker, s\<lparr>pd_organization := Some 1\<rparr>)"
  by (cases s) (simp add: authenticated_runner_def pg_authenticate_runner_def pg_get_runner_def pg_set_organization_def
      Let_def bindS_def seqS_def returnS_def readS_def writeS_def liftS_def requireS_def row_of_def owned_def
      runner_of_row_def runner_row_of_def sample_runner_def sample_worker_def uuid_of_str_uuid str_uuid_nonempty)

lemma sample_configuration_fields:
  "pc_enabled sample_configuration" "pc_runtime sample_configuration = ''claude-code-cli''"
  by (simp_all add: sample_configuration_def)

lemma verification1_fields:
  "pd_verifications verification1 = [(5, sample_verification)]"
  "pd_runners verification1 = [(7, runner_row_of sample_worker)]"
  "pd_runner_routes verification1 = [(''h'', (1, 7))]"
  "pd_providers verification1 = [(61, provider_row_of sample_configuration)]"
  by (simp_all add: verification1_def verification0_def run_defs run0_def dl_db_init_def provider_of_sample
     sample_fields api_create_provider_verification_def pg_create_provider_verification_def
     pg_list_runner_pools_def sample_worker_def sample_runner_def runner_row_of_def MANAGEMENT_ROLES_def
     sample_verification_def sample_configuration_fields seconds_def)

lemma verification2_fields:
  "pd_verifications verification2 = [(5, sample_verification\<lparr>nw_status := ''RUNNING'',
     nw_leased_by_runner_id := Some 7, nw_leased_at := Some 0\<rparr>)]"
  "pd_runners verification2 = [(7, runner_row_of sample_worker)]"
  "pd_runner_routes verification2 = [(''h'', (1, 7))]"
  by (simp_all add: verification2_def run_defs sample_worker_authenticated verification1_fields provider_of_sample
     sample_fields api_lease_provider_verification_def pg_lease_provider_verification_def choose_row_def
     leasable_verification_def sample_verification_def sample_worker_def sample_runner_def)

lemma verification3_fields:
  "pd_verifications verification3 = [(5, sample_verification\<lparr>nw_status := ''PASSED'',
     nw_leased_by_runner_id := Some 7, nw_leased_at := Some 1,
     nw_result := Some (dump_verification_complete sample_verified), nw_completed_at := Some 2\<rparr>)]"
  by (simp add: verification3_def run_defs sample_worker_authenticated verification2_fields
     api_complete_provider_verification_def pg_complete_provider_verification_def
     pg_heartbeat_provider_verification_def held_verification_def sample_verification_def sample_worker_def
     sample_runner_def sample_verified_def dump_verification_complete_def obj_get_def opt_int_def)

theorem finished_verification_is_final_witness:
  "fst (pg_complete_provider_verification 3 4 sample_worker 5 [] verification3) = Inr None \<and>
   map_option nw_status (dget (pd_verifications verification3) 5) = Some ''PASSED''"
proof -
  have row: "dget (pd_verifications verification3) 5 = Some (sample_verification\<lparr>nw_status := ''PASSED'',
      nw_leased_by_runner_id := Some 7, nw_leased_at := Some 1,
      nw_result := Some (dump_verification_complete sample_verified), nw_completed_at := Some 2\<rparr>)"
    by (simp add: verification3_fields)
  have "pd_verifications verification0 = []" by (simp add: verification0_def run0_def dl_db_init_def)
  from finished_verification_is_final [OF verification_run this, THEN conjunct2, THEN conjunct1,
      rule_format, OF row _ rtranclp.rtrancl_refl] row
  show ?thesis by simp
qed

section \<open>Runners\<close>

text \<open>C15: An enrollment token enrolls one runner, whatever requests come before, in between and after.
  The request that creates an enrollment answers a token nobody had; whoever enrolls with it does
  so within ten minutes, is stored in the organization and pool the enrollment was created for
  under the hash of the answered credential, and every later request with the token is refused,
  as is every request from the tenth minute on.\<close>

theorem enrollment_token_enrolls_once:
  assumes "(token_step hash)\<^sup>*\<^sup>* s0 s" and "pd_tokens s0 = []"
    and "api_request (api_create_runner_enrollment hash raw k now org subject pool) s = (Inr resp, s1)"
    and "(token_step hash)\<^sup>*\<^sup>* s1 s2"
  shows "map_of resp ''enrollment_token'' = Some raw \<and>
     (\<forall>now1 u cred rid seen name caps resp1 s3.
        api_request (api_enroll_runner hash now1 u cred rid seen raw name caps) s2 = (Inr resp1, s3) \<longrightarrow>
        now1 < now + minutes 10 \<and>
        map_of resp1 ''organization_id'' = Some (str_uuid org) \<and>
        map_of resp1 ''runner_id'' = Some (str_uuid rid) \<and> map_of resp1 ''runner_credential'' = Some cred \<and>
        (\<exists>row. dget (pd_runners s3) rid = Some row \<and> rw_organization_id row = org \<and> rw_pool_id row = pool \<and>
           rw_credential_hash row = hash cred) \<and>
        (\<forall>s4 now2 u2 cred2 rid2 seen2 name2 caps2. (token_step hash)\<^sup>*\<^sup>* s3 s4 \<longrightarrow>
           fst (api_request (api_enroll_runner hash now2 u2 cred2 rid2 seen2 raw name2 caps2) s4)
             = Inl (DeliveryE (InvalidEnrollment ''enrollment token is invalid, expired, or already used'')))) \<and>
     (\<forall>now1 u cred rid seen name caps. now + minutes 10 \<le> now1 \<longrightarrow>
        fst (api_request (api_enroll_runner hash now1 u cred rid seen raw name caps) s2)
          = Inl (DeliveryE (InvalidEnrollment ''enrollment token is invalid, expired, or already used'')))"
proof -
  let ?t = "\<lparr>et_id = k, et_organization_id = org, et_pool_id = pool, et_token_hash = hash raw,
      et_expires_at = now + minutes 10, et_used_at = None\<rparr>"
  have wf: "pg_tokens_wf s" by (rule tokens_wf_run [OF assms(1,2)])
  note C = create_enrollment_effect [OF assms(3) wf]
  obtain t2 where wf2: "pg_tokens_wf s2" and t2: "pg_token s2 (hash raw) = Some t2" "token_later ?t t2"
    using token_run_later [OF assms(4)] C unfolding tokens_later_def by (metis fun_upd_same)
  have once: "now1 < now + minutes 10 \<and>
        map_of resp1 ''organization_id'' = Some (str_uuid org) \<and>
        map_of resp1 ''runner_id'' = Some (str_uuid rid) \<and> map_of resp1 ''runner_credential'' = Some cred \<and>
        (\<exists>row. dget (pd_runners s3) rid = Some row \<and> rw_organization_id row = org \<and> rw_pool_id row = pool \<and>
           rw_credential_hash row = hash cred) \<and>
        (\<forall>s4 now2 u2 cred2 rid2 seen2 name2 caps2. (token_step hash)\<^sup>*\<^sup>* s3 s4 \<longrightarrow>
           fst (api_request (api_enroll_runner hash now2 u2 cred2 rid2 seen2 raw name2 caps2) s4)
             = Inl (DeliveryE (InvalidEnrollment ''enrollment token is invalid, expired, or already used'')))"
    if run: "api_request (api_enroll_runner hash now1 u cred rid seen raw name caps) s2 = (Inr resp1, s3)"
    for now1 u cred rid seen name caps resp1 s3
  proof -
    obtain t where t: "pg_token s2 (hash raw) = Some t" "et_used_at t = None" "now1 < et_expires_at t"
      "pg_tokens_wf s3" "pg_token s3 = (pg_token s2)(hash raw \<mapsto> t\<lparr>et_used_at := Some u\<rparr>)"
      "resp1 = [(''runner_id'', str_uuid rid), (''organization_id'', str_uuid (et_organization_id t)),
         (''runner_credential'', cred)]"
      "dget (pd_runners s3) rid = Some
         \<lparr>rw_id = rid, rw_organization_id = et_organization_id t, rw_pool_id = et_pool_id t, rw_name = name,
          rw_capabilities = caps, rw_credential_hash = hash cred, rw_status = ''ONLINE'', rw_last_seen_at = seen\<rparr>"
      by (rule enroll_effect [OF run wf2])
    have "t = ?t" using t(1,2) t2 by (auto simp: token_later_def)
    moreover have "fst (api_request (api_enroll_runner hash now2 u2 cred2 rid2 seen2 raw name2 caps2) s4)
             = Inl (DeliveryE (InvalidEnrollment ''enrollment token is invalid, expired, or already used''))"
      if "(token_step hash)\<^sup>*\<^sup>* s3 s4" for s4 now2 u2 cred2 rid2 seen2 name2 caps2
    proof -
      have wf4: "pg_tokens_wf s4" and "\<exists>t'. pg_token s4 (hash raw) = Some t' \<and>
          token_later (t\<lparr>et_used_at := Some u\<rparr>) t'"
        using token_run_later [OF that] t(4,5) by (simp_all add: tokens_later_def)
      then show ?thesis by (intro enroll_refused [OF wf4]) (auto simp: token_later_def)
    qed
    ultimately show ?thesis using t(3,6,7) by auto
  qed
  have late: "fst (api_request (api_enroll_runner hash now1 u cred rid seen raw name caps) s2)
      = Inl (DeliveryE (InvalidEnrollment ''enrollment token is invalid, expired, or already used''))"
    if "now + minutes 10 \<le> now1" for now1 u cred rid seen name caps
    using that t2 by (intro enroll_refused [OF wf2]) (auto simp: token_later_def)
  have answer: "map_of resp ''enrollment_token'' = Some raw" using C by simp
  show ?thesis
    by (rule conjI [OF answer], rule conjI; intro allI impI; (rule once late); assumption)
qed

definition enroll_demo where
  "enroll_demo = api_request (api_create_runner_enrollment id ''t'' 9 0 1 ''ann'' 62) run0"

definition enroll_demo2 where
  "enroll_demo2 = api_request (api_enroll_runner id 5 6 ''c'' 70 6 ''t'' ''r'' []) (snd enroll_demo)"

theorem enrollment_token_enrolls_once_witness:
  "(\<exists>r. fst enroll_demo2 = Inr r) \<and>
   fst (api_request (api_enroll_runner id 8 8 ''d'' 71 8 ''t'' ''r2'' []) (snd enroll_demo2))
     = Inl (DeliveryE (InvalidEnrollment ''enrollment token is invalid, expired, or already used''))"
proof -
  have 0: "pd_tokens run0 = []" by (simp add: run0_def dl_db_init_def)
  obtain r1 where "fst enroll_demo = Inr r1"
    by (simp add: enroll_demo_def api_create_runner_enrollment_def create_runner_enrollment_def
        dl_record_audit_def run_defs run0_def dl_db_init_def pg_add_enrollment_token_def MANAGEMENT_ROLES_def)
  then have 1: "api_request (api_create_runner_enrollment id ''t'' 9 0 1 ''ann'' 62) run0 = (Inr r1, snd enroll_demo)"
    by (simp add: enroll_demo_def prod_eq_iff)
  obtain r2 where r2: "fst enroll_demo2 = Inr r2"
    by (simp add: enroll_demo2_def enroll_demo_def api_create_runner_enrollment_def api_enroll_runner_def
        create_runner_enrollment_def enroll_runner_def dl_record_audit_def run_defs run0_def
        dl_db_init_def pg_add_enrollment_token_def MANAGEMENT_ROLES_def pg_consume_token_eq pg_token_def
        pg_add_runner_def minutes_def seconds_def)
  then have 2: "api_request (api_enroll_runner id 5 6 ''c'' 70 6 ''t'' ''r'' []) (snd enroll_demo) = (Inr r2, snd enroll_demo2)"
    by (simp add: enroll_demo2_def prod_eq_iff)
  show ?thesis
    using enrollment_token_enrolls_once [OF rtranclp.rtrancl_refl 0 1 rtranclp.rtrancl_refl] 2 r2
    by blast
qed

text \<open>C27: A runner is authenticated by its credential alone: its status does not matter. A revoked runner
  is authenticated like any other, and every other status is set to \<open>ONLINE\<close>, so that a draining
  runner does not stay one.\<close>

theorem revoked_runner_is_authenticated:
  assumes "dget (pd_runner_routes s) (hash cred) = Some (rn_organization_id r, rn_id r)"
    and "dget (pd_runners s) (rn_id r) = Some (runner_row_of r)" and "rn_credential_hash r = hash cred"
  shows "\<exists>s'. pg_authenticate_runner hash now (rn_id r) cred s = (Inr (Some r), s') \<and>
     dget (pd_runners s') (rn_id r) = Some ((runner_row_of r)\<lparr>
       rw_status := if rn_status r = RN_REVOKED then ''REVOKED'' else ''ONLINE'', rw_last_seen_at := now\<rparr>)"
proof -
  have row: "runner_of_row (runner_row_of r) = Inr r" "rw_organization_id (runner_row_of r) = rn_organization_id r"
    "rw_status (runner_row_of r) = runner_status_value (rn_status r)"
    by (simp_all add: runner_of_row_def runner_row_of_def)
  show ?thesis
    using assms row
    by (cases "rn_status r")
       (simp_all add: pg_authenticate_runner_def pg_get_runner_def run_defs)
qed

theorem revoked_runner_is_authenticated_witness:
  "\<exists>s'. pg_authenticate_runner id 3 7 ''h'' (dl_db_init\<lparr>pd_runner_routes := [(''h'', (1, 7))],
       pd_runners := [(7, runner_row_of ((sample_runner 7)\<lparr>rn_status := RN_REVOKED\<rparr>))]\<rparr>)
     = (Inr (Some ((sample_runner 7)\<lparr>rn_status := RN_REVOKED\<rparr>)), s')"
  using revoked_runner_is_authenticated [of "dl_db_init\<lparr>pd_runner_routes := [(''h'', (1, 7))],
       pd_runners := [(7, runner_row_of ((sample_runner 7)\<lparr>rn_status := RN_REVOKED\<rparr>))]\<rparr>"
     id "''h''" "(sample_runner 7)\<lparr>rn_status := RN_REVOKED\<rparr>" 3]
  by (auto simp: sample_runner_def)

section \<open>Domain events\<close>

lemma accept_keeps_inbox:
  "preserves pd_inbox (accept_ready_work_item (PostgresDeliveryRepository rp) PostgresWorkflowGateway
     xid eid now org pid wid title descr crit rc pc pool b corr)"
  unfolding accept_ready_work_item_def pg_simps dl_append_event_def pg_get_execution_by_work_item_def
    pg_get_provider_configuration_def pg_add_execution_def pg_next_event_sequence_def pg_append_event_def
    pg_start_def pg_command_def pg_set_organization_def
  by (simp add: Let_def) (intro preserving allI impI; simp add: preserving)+

lemma membership_keeps_inbox: "preserves pd_inbox (pg_upsert_membership org sub r a)"
  unfolding pg_upsert_membership_def pg_set_organization_def
  by (intro preserving) simp_all

lemma recorded_event:
  assumes "pg_record_inbox eid org ty s = (Inr b, s')"
  shows "\<exists>row. dget (pd_inbox s') eid = Some row \<and> nb_organization_id row = org"
    and "\<not> b \<Longrightarrow> pd_inbox s' = pd_inbox s"
  using assms
  by (auto simp: pg_record_inbox_def pg_set_organization_def oper_iffs insertS_iff row_of_def owned_def
      split: option.splits if_splits)

text \<open>C16: An event is processed once: after a run of the consumer that did not fail, another delivery
  of the same event (the same identifier and organization) succeeds and changes no table.\<close>

theorem events_are_processed_once:
  assumes "process_event rp xid eid now ev s = (Inr (), s')"
  shows "process_event rp xid2 eid2 now2 ev s' = (Inr (), s')"
proof -
  have "\<exists>row. dget (pd_inbox s') (ev_id ev) = Some row \<and> nb_organization_id row = ev_organization_id ev"
  proof (cases rule: process_event_run [OF assms])
    case (1 t)
    then show ?thesis using recorded_event [OF 1(1)] by auto
  next
    case (2 t t')
    then show ?thesis using recorded_event(1) [OF 2(1)] by auto
  next
    case (3 t pid wid title descr crit rc pc pool b e t')
    then show ?thesis
      using recorded_event(1) [OF 3(1)] preservesD [OF accept_keeps_inbox 3(2)] by auto
  qed
  then obtain row where row: "dget (pd_inbox s') (ev_id ev) = Some row" "nb_organization_id row = ev_organization_id ev"
    by blast
  have "pg_record_inbox (ev_id ev) (ev_organization_id ev) (ev_type ev) (s'\<lparr>pd_organization := None\<rparr>)
      = (Inr False, s'\<lparr>pd_organization := Some (ev_organization_id ev)\<rparr>)"
    using row by (simp add: pg_record_inbox_def run_defs)
  moreover have "s'\<lparr>pd_organization := None\<rparr> = s'"
    using assms by (auto simp: process_event_def in_session_def Let_def split: prod.splits sum.splits)
  ultimately show ?thesis
    by (simp add: process_event_def in_session_def bindS_def returnS_def Let_def)
qed

definition sample_event :: event_envelope where
  "sample_event =
     \<lparr>ev_specversion = ''1.0'', ev_id = 9, ev_source = ''control-plane'',
      ev_type = ''com.mvp.membership.changed.v1'', ev_time = 0, ev_subject = ''ann'',
      ev_organization_id = 1, ev_aggregate_version = 1, ev_correlation_id = 2,
      ev_causation_id = None, ev_traceparent = None,
      ev_data = [(''subject'', JStr ''ann''), (''role'', JStr ''OWNER''), (''active'', JBool True)]\<rparr>"

definition event_demo :: dl_db where
  "event_demo = snd (process_event no_repr 100 200 0 sample_event dl_db_init)"

theorem events_are_processed_once_witness:
  "process_event no_repr 300 301 5 sample_event event_demo = (Inr (), event_demo)"
proof -
  have "process_event no_repr 100 200 0 sample_event dl_db_init = (Inr (), event_demo)"
    by (simp add: event_demo_def process_event_def run_defs sample_event_def pg_record_inbox_def dl_db_init_def
        data_str_def data_item_def pg_upsert_membership_def py_str_def)
  from events_are_processed_once [OF this] show ?thesis .
qed

section \<open>The workflow and the dispatcher\<close>

inductive workflow_step :: "workflow_state \<Rightarrow> workflow_state \<Rightarrow> bool" where
  run: "workflow_run outcome w = Some w' \<Longrightarrow> workflow_step w w'"
| approve: "workflow_step w (signal_approve actor w)"
| cancel: "workflow_step w (signal_cancel actor w)"

definition started :: "workflow_state \<Rightarrow> bool" where
  "started w \<longleftrightarrow> ws_phase w = WP_Delivering \<or> ws_phase w = WP_Failed \<or> (\<exists>r. ws_phase w = WP_Completed r)"

lemma started_step: "workflow_step w w' \<Longrightarrow> started w \<Longrightarrow> started w'"
  by (induction rule: workflow_step.induct)
     (auto simp: workflow_run_def signal_approve_def signal_cancel_def started_def
        split: workflow_phase.splits option.splits if_splits)

lemma started_steps: "workflow_step\<^sup>*\<^sup>* w w' \<Longrightarrow> started w \<Longrightarrow> started w'"
  by (induction rule: rtranclp_induct) (auto intro: started_step)

definition workflow_inv :: "workflow_state \<Rightarrow> bool" where
  "workflow_inv w \<longleftrightarrow> (ws_phase w = WP_Delivering \<longrightarrow> ws_approved w) \<and>
     (ws_phase w = WP_Cancelling \<longrightarrow> ws_cancelled w)"

lemma workflow_inv_step: "workflow_step w w' \<Longrightarrow> workflow_inv w \<Longrightarrow> workflow_inv w'"
  by (induction rule: workflow_step.induct)
     (auto simp: workflow_run_def signal_approve_def signal_cancel_def workflow_inv_def
        split: workflow_phase.splits option.splits if_splits)

text \<open>C22: A workflow delivers only after the approval signal and cancels only after the cancel signal;
  but once it is delivering, a cancel signal has no effect any more: in whatever order signals and
  activities follow, it never enters the cancelling phase.\<close>

theorem cancel_after_start_is_ignored:
  assumes "workflow_step\<^sup>*\<^sup>* workflow_init w"
  shows "(ws_phase w = WP_Delivering \<longrightarrow> ws_approved w) \<and>
     (ws_phase w = WP_Cancelling \<longrightarrow> ws_cancelled w) \<and>
     (ws_phase w = WP_Delivering \<longrightarrow>
        (\<forall>w' actor. workflow_step\<^sup>*\<^sup>* (signal_cancel actor w) w' \<longrightarrow>
           ws_phase w' \<noteq> WP_Cancelling \<and> ws_phase w' \<noteq> WP_WaitingForSignal))"
proof -
  have "workflow_inv w"
    using assms
  proof (induction rule: rtranclp_induct)
    case base
    then show ?case by (simp add: workflow_inv_def workflow_init_def)
  qed (rule workflow_inv_step)
  moreover have "ws_phase w' \<noteq> WP_Cancelling \<and> ws_phase w' \<noteq> WP_WaitingForSignal"
    if "ws_phase w = WP_Delivering" "workflow_step\<^sup>*\<^sup>* (signal_cancel actor w) w'" for w' actor
    using started_steps [OF that(2)] that(1) by (auto simp: started_def signal_cancel_def)
  ultimately show ?thesis by (auto simp: workflow_inv_def)
qed

definition approved_workflow :: workflow_state where
  "approved_workflow = signal_approve ''ann'' workflow_init"

theorem cancel_after_start_is_ignored_witness:
  "{w'. workflow_step\<^sup>*\<^sup>* (signal_cancel ''ann'' (approved_workflow\<lparr>ws_phase := WP_Delivering\<rparr>)) w' \<and>
     ws_phase w' = WP_Cancelling} = {}"
proof -
  have "workflow_step workflow_init approved_workflow"
    unfolding approved_workflow_def by (rule workflow_step.approve)
  moreover have "workflow_step approved_workflow (approved_workflow\<lparr>ws_phase := WP_WaitingForSignal\<rparr>)"
    by (rule workflow_step.run [of "Some ''''"])
       (simp add: workflow_run_def approved_workflow_def signal_approve_def workflow_init_def)
  moreover have "workflow_step (approved_workflow\<lparr>ws_phase := WP_WaitingForSignal\<rparr>)
      (approved_workflow\<lparr>ws_phase := WP_Delivering\<rparr>)"
    by (rule workflow_step.run [of None])
       (simp add: workflow_run_def approved_workflow_def signal_approve_def workflow_init_def)
  ultimately have "workflow_step\<^sup>*\<^sup>* workflow_init (approved_workflow\<lparr>ws_phase := WP_Delivering\<rparr>)"
    by (meson converse_rtranclp_into_rtranclp rtranclp.rtrancl_refl)
  from cancel_after_start_is_ignored [OF this] show ?thesis by auto
qed

end
