(* ===== verification/DlApiProperties.thy ===== *)
theory DlApiProperties
  imports DlProperties
begin

text \<open>
  The properties of the delivery service's request handlers: who may call them, what a minted
  capability is bound to, which secret references a configuration can hold, and the order of
  the event stream.
\<close>

section \<open>Authorization\<close>

definition role_permits :: "dl_db \<Rightarrow> uuid \<Rightarrow> string \<Rightarrow> string list \<Rightarrow> bool" where
  "role_permits s org subject allowed \<longleftrightarrow>
     (\<exists>m. dget (pd_memberships s) (org, subject) = Some m \<and> mb_active m \<and> mb_role m \<in> set allowed)"

definition memberships_wf :: "dl_db \<Rightarrow> bool" where
  "memberships_wf s \<longleftrightarrow> wf_dict (pd_memberships s) \<and>
     keyed (\<lambda>m. (mb_organization_id m, mb_subject m)) (pd_memberships s)"

lemma role_for_eq:
  assumes "memberships_wf s"
  shows "pg_role_for org subject s =
     (Inr (case dget (pd_memberships s) (org, subject) of
             None \<Rightarrow> None | Some m \<Rightarrow> if mb_active m then Some (mb_role m) else None),
      s\<lparr>pd_organization := Some org\<rparr>)"
proof -
  let ?P = "\<lambda>r. mb_organization_id r = org \<and> mb_subject r = subject \<and> mb_active r"
  let ?f = "find ?P (visible mb_organization_id (Some org) (pd_memberships s))"
  have wf: "wf_dict (pd_memberships s)" and key: "keyed (\<lambda>m. (mb_organization_id m, mb_subject m)) (pd_memberships s)"
    using assms by (simp_all add: memberships_wf_def)
  have mem: "m \<in> set (visible mb_organization_id (Some org) (pd_memberships s)) \<and> ?P m \<longleftrightarrow>
      dget (pd_memberships s) (org, subject) = Some m \<and> mb_active m" for m
    using in_dvals_iff [OF wf, of m] keyedD [OF key, of _ m] by (auto simp: visible_def)
  have "?f = (case dget (pd_memberships s) (org, subject) of
      None \<Rightarrow> None | Some m \<Rightarrow> if mb_active m then Some m else None)"
  proof (cases "\<exists>m. dget (pd_memberships s) (org, subject) = Some m \<and> mb_active m")
    case True
    then obtain m where m: "dget (pd_memberships s) (org, subject) = Some m" "mb_active m" by blast
    have "?f = Some m" by (rule find_unique) (use mem m in \<open>force+\<close>)
    then show ?thesis using m by simp
  next
    case False
    then have "?f = None" using mem unfolding find_None_iff by blast
    then show ?thesis using False by (auto split: option.splits)
  qed
  then show ?thesis
    by (auto simp: pg_role_for_def pg_set_organization_def readS_def split: option.splits)
qed

definition forbidden :: "(dl_db, dl_error, 'a) oper \<Rightarrow> dl_db \<Rightarrow> bool" where
  "forbidden m s \<longleftrightarrow> api_request m s =
     (Inl (DlHttpE 403 ''membership cannot perform this action''), s\<lparr>pd_organization := None\<rparr>)"

lemma forbidden_authorize:
  assumes "memberships_wf s" and "\<not> role_permits s org subject allowed"
  shows "forbidden (seqS (authorize org subject allowed) m) s"
  using assms role_for_eq [of "s\<lparr>pd_organization := None\<rparr>" org subject]
  by (auto simp: forbidden_def api_request_def in_session_def authorize_def bindS_def seqS_def http_error_def
      raiseS_def returnS_def role_permits_def memberships_wf_def Let_def split: option.splits)

text \<open>C28: Every request for an organization needs an active membership with one of the roles of its
  route: managers for provider configurations, verifications, pools and enrollments, reviewers for
  approving an execution, members who may execute for the rest. Any other subject gets 403 and
  changes no table.\<close>

theorem requests_require_role:
  assumes "memberships_wf s"
  shows "(\<not> role_permits s org sub [''OWNER'', ''ADMIN''] \<longrightarrow>
       forbidden (api_create_provider_configuration k org sub p) s \<and>
       forbidden (api_create_provider_verification isof t1 t2 k org c sub pool key) s \<and>
       forbidden (api_create_runner_pool k org sub name ty) s \<and>
       forbidden (api_create_runner_enrollment hash raw k t1 org sub pool) s) \<and>
     (\<not> role_permits s org sub [''OWNER'', ''ADMIN'', ''REVIEWER''] \<longrightarrow>
       forbidden (api_approve_execution rp k t1 org x sub) s) \<and>
     (\<not> role_permits s org sub [''OWNER'', ''ADMIN'', ''DEVELOPER'', ''REVIEWER''] \<longrightarrow>
       forbidden (api_cancel_execution rp org x sub) s \<and>
       forbidden (api_accept_ready_work_item rp k e t1 org sub request) s \<and>
       forbidden (api_provider_configurations org sub) s \<and>
       forbidden (api_agent_catalog org sub) s \<and>
       forbidden (api_latest_provider_verification isof org c sub) s \<and>
       forbidden (api_runner_pools t1 org sub) s \<and>
       forbidden (api_list_executions rp org sub) s \<and>
       forbidden (api_execution_events rp org x sub after_id snapshots) s)"
  unfolding api_create_provider_configuration_def api_create_provider_verification_def
    api_create_runner_pool_def api_create_runner_enrollment_def api_approve_execution_def
    api_cancel_execution_def api_accept_ready_work_item_def api_provider_configurations_def
    api_agent_catalog_def api_latest_provider_verification_def api_runner_pools_def
    api_list_executions_def api_execution_events_def MANAGEMENT_ROLES_def REVIEW_ROLES_def
    EXECUTION_ROLES_def
  by (intro conjI impI; rule forbidden_authorize [OF assms])

theorem requests_require_role_witness:
  "forbidden (api_approve_execution no_repr 1 0 1 100 ''eve'') run1"
proof -
  have wf: "memberships_wf run1"
    by (simp add: memberships_wf_def run1_fields run0_fields wf_dict_def keyed_def)
  have "\<not> role_permits run1 1 ''eve'' [''OWNER'', ''ADMIN'', ''REVIEWER'']"
    by (simp add: role_permits_def run1_fields run0_fields)
  then show ?thesis
    using requests_require_role [OF wf, THEN conjunct2, THEN conjunct1] by blast
qed

section \<open>Secret references\<close>

lemma unprocessable_Inr: "unprocessable m s = (Inr a, s') \<longleftrightarrow> m s = (Inr a, s')"
  by (auto simp: unprocessable_def split: prod.splits sum.splits dl_error.splits delivery_error.splits)


definition sample_configuration_request :: provider_configuration_create where
  "sample_configuration_request =
     \<lparr>pr_display_name = ''Claude'', pr_provider = ''anthropic'', pr_runtime = ''claude-code-cli'',
      pr_model = ''claude-opus-5'', pr_authentication_mode = API_KEY_REFERENCE,
      pr_secret_reference = Some (''encrypted-file'', ''model-credentials/'' @ str_uuid 1, ''k'', None),
      pr_is_development_substitute = False\<rparr>"


section \<open>Capabilities\<close>

text \<open>C30: A source capability is minted only for a runner that holds the job's lease, and the request
  extends that lease: its claims are for the integration service, name that job, its execution and
  organization, the runner, the job's repository and one of the two purposes, and let it expire
  120 seconds after it was issued. The clock is in microseconds.\<close>

theorem source_capability_is_bound_to_the_lease:
  assumes "api_source_capability rp encode hash seen beat now jti k purpose auth rid s = (Inr response, s')"
  shows "\<exists>r job repository. (\<exists>t. authenticated_runner hash seen auth rid s = (Inr r, t)) \<and>
     dget (pd_jobs s) k = Some job \<and> jw_status job = ''LEASED'' \<and>
     jw_leased_by_runner_id job = Some (rn_id r) \<and> jw_organization_id job = rn_organization_id r \<and>
     dget (pd_jobs s') k = Some (job\<lparr>jw_leased_at := Some beat\<rparr>) \<and>
     purpose \<in> {''CHECKOUT_READ'', ''PUBLISH_WRITE''} \<and> repository \<noteq> [] \<and>
     repository = py_str rp (obj_get_default (jw_payload job) ''repository_connection_id'' (JStr [])) \<and>
     response = [(''capability'', encode
        [(''iss'', JStr ''mvp-delivery''), (''aud'', JStr ''mvp-integrations-source''),
         (''iat'', JInt (now div 1000000)), (''exp'', JInt (now div 1000000 + 120)),
         (''jti'', JStr (str_uuid jti)),
         (''organization_id'', JStr (str_uuid (jw_organization_id job))),
         (''execution_id'', JStr (str_uuid (jw_execution_id job))),
         (''job_id'', JStr (str_uuid (jw_id job))), (''runner_id'', JStr (str_uuid (rn_id r))),
         (''repository_id'', JStr repository), (''purpose'', JStr purpose)]),
       (''expires_in_seconds'', ''120'')]"
proof -
  obtain r t job' where auth: "authenticated_runner hash seen auth rid s = (Inr r, t)"
    and beat: "pg_heartbeat_runner_job beat r k t = (Inr (Some job'), s')"
    and p: "purpose \<in> {''CHECKOUT_READ'', ''PUBLISH_WRITE''}"
    and rep: "py_str rp (obj_get_default (jw_payload job') ''repository_connection_id'' (JStr [])) \<noteq> []"
    and resp: "response = capability (encode (source_claims (unix_seconds now) jti (jw_organization_id job')
       (jw_execution_id job') (jw_id job') (rn_id r)
       (py_str rp (obj_get_default (jw_payload job') ''repository_connection_id'' (JStr []))) purpose)) ''120''"
    using assms
    by (auto simp: api_source_capability_def oper_iffs http_error_def Let_def split: if_splits)
  have jobs: "pd_jobs t = pd_jobs s" using authenticated_runner_keeps [OF auth] by (simp add: keeps_def)
  obtain job where held: "held_job r k (t\<lparr>pd_organization := Some (rn_organization_id r)\<rparr>) = Some job"
    and job': "job' = job\<lparr>jw_leased_at := Some beat\<rparr>"
    and s': "pd_jobs s' = dset k job' (pd_jobs t)"
    using beat unfolding heartbeat_runner_job_iff by (auto simp: Let_def split: option.splits)
  show ?thesis
    using auth held p rep resp s' job' jobs
    by (intro exI [of _ r] exI [of _ job]
        exI [of _ "py_str rp (obj_get_default (jw_payload job) ''repository_connection_id'' (JStr []))"])
       (auto simp: held_job_Some capability_def source_claims_def unix_seconds_def)
qed

theorem source_capability_is_bound_to_the_lease_witness:
  "\<exists>s' response. api_source_capability no_repr (\<lambda>_. ''jwt'') id 0 2 2000000 9 101 ''CHECKOUT_READ''
     (Some ''Runner h'') (Some (str_uuid 7)) run4 = (Inr response, s') \<and>
     dget (pd_jobs s') 101 = Some ((run_job ''LEASED'' None)\<lparr>jw_leased_at := Some 2\<rparr>)"
proof -
  have "\<exists>s' response. api_source_capability no_repr (\<lambda>_. ''jwt'') id 0 2 2000000 9 101 ''CHECKOUT_READ''
     (Some ''Runner h'') (Some (str_uuid 7)) run4 = (Inr response, s')"
    by (simp add: api_source_capability_def run_authenticated run4_fields run_defs pg_heartbeat_runner_job_def
        held_job_def run_job_def sample_runner_def obj_get_default_def job_payload_def py_str_def)
  then obtain s' response where r: "api_source_capability no_repr (\<lambda>_. ''jwt'') id 0 2 2000000 9 101 ''CHECKOUT_READ''
     (Some ''Runner h'') (Some (str_uuid 7)) run4 = (Inr response, s')" by blast
  from source_capability_is_bound_to_the_lease [OF r] show ?thesis using r by (auto simp: run4_fields)
qed

section \<open>The event stream\<close>

fun streamed :: "stream_chunk list \<Rightarrow> execution_event list" where
  "streamed [] = []"
| "streamed (Sse e # cs) = e # streamed cs"
| "streamed (KeepAlive # cs) = streamed cs"

lemma streamed_append [simp]: "streamed (a @ b) = streamed a @ streamed b"
  by (induction a rule: streamed.induct) simp_all

lemma streamed_Sse [simp]: "streamed (map Sse es) = es"
  by (induction es) simp_all

definition events_wf :: "dl_db \<Rightarrow> bool" where
  "events_wf s \<longleftrightarrow> wf_dict (pd_events s) \<and>
     (\<forall>k1 v1 k2 v2. (k1, v1) \<in> set (pd_events s) \<longrightarrow> (k2, v2) \<in> set (pd_events s) \<longrightarrow>
        ew_execution_id v1 = ew_execution_id v2 \<longrightarrow> ew_sequence v1 = ew_sequence v2 \<longrightarrow> k1 = k2)"

lemma collect_sum_Inr: "collect_sum xs = Inr ys \<Longrightarrow> xs = map Inr ys"
proof (induction xs arbitrary: ys rule: collect_sum.induct)
  case (3 a xs)
  then show ?case by (cases "collect_sum xs") auto
qed auto

lemma decoded: "map f xs = map Inr ys \<Longrightarrow> list_all2 (\<lambda>x y. f x = Inr y) xs ys"
proof (induction xs arbitrary: ys)
  case (Cons x xs)
  then show ?case by (cases ys) auto
qed simp

lemma event_of_row_Inr:
  "event_of_row row = Inr e \<Longrightarrow> ee_sequence e = ew_sequence row \<and> ee_execution_id e = ew_execution_id row \<and>
     ee_organization_id e = ew_organization_id row"
  by (auto simp: event_of_row_def split: option.splits)

lemma distinct_sequences:
  assumes "events_wf s"
  shows "distinct (map ew_sequence (filter (\<lambda>row. ew_execution_id row = xid \<and> P row)
     (visible ew_organization_id c (pd_events s))))"
proof -
  let ?Q = "\<lambda>p. (c = Some (ew_organization_id (snd p))) \<and> ew_execution_id (snd p) = xid \<and> P (snd p)"
  have eq: "filter (\<lambda>row. ew_execution_id row = xid \<and> P row) (visible ew_organization_id c (pd_events s))
      = map snd (filter ?Q (pd_events s))"
    by (simp add: visible_def filter_map o_def conj_comms)
  have "distinct (pd_events s)" using assms by (auto simp: events_wf_def wf_dict_def distinct_map)
  moreover have "inj_on (\<lambda>p. ew_sequence (snd p)) (set (filter ?Q (pd_events s)))"
  proof (rule inj_onI)
    fix p q assume a: "p \<in> set (filter ?Q (pd_events s))" "q \<in> set (filter ?Q (pd_events s))"
      "ew_sequence (snd p) = ew_sequence (snd q)"
    then have "(fst p, snd p) \<in> set (pd_events s)" "(fst q, snd q) \<in> set (pd_events s)"
      "ew_execution_id (snd p) = ew_execution_id (snd q)" by auto
    then have "fst p = fst q"
      using assms a(3) unfolding events_wf_def by blast
    then show "p = q"
      using a assms by (auto simp: events_wf_def wf_dict_def distinct_map inj_on_def)
  qed
  ultimately show ?thesis unfolding eq by (simp add: distinct_map o_def)
qed

lemma decoded_from:
  "list_all2 (\<lambda>row e. event_of_row row = Inr e) rows es \<Longrightarrow> e \<in> set es \<Longrightarrow>
     \<exists>row \<in> set rows. event_of_row row = Inr e"
  by (induction rule: list_all2_induct) auto

lemma list_events_Inr:
  assumes "pg_list_events org xid current s = (Inr events, s')" and "events_wf s"
  shows "sorted_wrt (<) (map ee_sequence events)"
    and "\<forall>e \<in> set events. current < ee_sequence e \<and> ee_execution_id e = xid \<and> ee_organization_id e = org"
proof -
  let ?rows = "sort_key ew_sequence (filter (\<lambda>row. ew_execution_id row = xid \<and> ew_sequence row > current)
      (visible ew_organization_id (Some org) (pd_events s)))"
  have "collect_sum (map event_of_row ?rows) = Inr events"
    using assms(1) by (auto simp: pg_list_events_def pg_set_organization_def oper_iffs)
  then have rows: "map event_of_row ?rows = map Inr events" by (rule collect_sum_Inr)
  then have all: "list_all2 (\<lambda>row e. event_of_row row = Inr e) ?rows events"
    by (rule decoded)
  then have seq: "map ee_sequence events = map ew_sequence ?rows"
    by (induction rule: list_all2_induct) (auto dest: event_of_row_Inr)
  have "sorted (map ew_sequence ?rows)" by simp
  moreover have "distinct (map ew_sequence ?rows)"
    using distinct_sequences [OF assms(2), of xid "\<lambda>row. ew_sequence row > current" "Some org"]
    by (simp add: distinct_map)
  ultimately show "sorted_wrt (<) (map ee_sequence events)"
    unfolding seq by (simp add: strict_sorted_iff)
  show "\<forall>e \<in> set events. current < ee_sequence e \<and> ee_execution_id e = xid \<and> ee_organization_id e = org"
  proof
    fix e assume "e \<in> set events"
    from decoded_from [OF all this] obtain row where row: "row \<in> set ?rows" and e: "event_of_row row = Inr e"
      by blast
    from row have "current < ew_sequence row \<and> ew_execution_id row = xid \<and> ew_organization_id row = org"
      by (auto simp: visible_def)
    then show "current < ee_sequence e \<and> ee_execution_id e = xid \<and> ee_organization_id e = org"
      using event_of_row_Inr [OF e] by simp
  qed
qed

lemma sorted_last:
  fixes f :: "'a \<Rightarrow> int"
  shows "sorted_wrt (<) (map f xs) \<Longrightarrow> x \<in> set xs \<Longrightarrow> f x \<le> f (last xs)"
  by (induction xs) (auto simp: less_imp_le)

text \<open>C31: The event stream of an execution is gap-safe: over all polls, whatever the tables hold at each of
  them, it sends only events of that execution and organization, in strictly increasing order of
  their sequence numbers and only such after the \<open>Last-Event-ID\<close>, so that a client that reconnects
  with the last identifier it saw gets no event twice.\<close>

theorem event_stream_in_order:
  assumes "\<forall>s \<in> set snapshots. events_wf s"
  shows "sorted_wrt (<) (map ee_sequence (streamed (event_stream rp org xid snapshots current idle))) \<and>
     (\<forall>e \<in> set (streamed (event_stream rp org xid snapshots current idle)).
        current < ee_sequence e \<and> ee_execution_id e = xid \<and> ee_organization_id e = org)"
  using assms
proof (induction rp org xid snapshots current idle rule: event_stream.induct)
  case (2 rp org xid s ss current idle)
  show ?case
  proof (cases "idle \<ge> 300")
    case False
    obtain r s1 where l: "pg_list_events org xid current (s\<lparr>pd_organization := None\<rparr>) = (r, s1)" by fastforce
    obtain q s2 where g: "pg_get_execution rp org xid s1 = (q, s2)" by fastforce
    show ?thesis
    proof (cases r)
      case (Inl e)
      then show ?thesis using l by simp
    next
      case r: (Inr events)
      show ?thesis
      proof (cases q)
        case (Inl e)
        then show ?thesis using l g r by simp
      next
        case q: (Inr found)
        have wf: "events_wf (s\<lparr>pd_organization := None\<rparr>)" using 2(2) by (simp add: events_wf_def)
        note ev = list_events_Inr [OF l [unfolded r] wf]
        let ?c = "if events = [] then current else ee_sequence (last events)"
        let ?i = "if events = [] then idle + 1 else 0"
        let ?fin = "case found of None \<Rightarrow> False
            | Some e \<Rightarrow> ex_status e \<in> set TERMINAL_STATUSES \<and> events = []"
        let ?rest = "event_stream rp org xid ss ?c ?i"
        have IH: "\<not> ?fin \<Longrightarrow> sorted_wrt (<) (map ee_sequence (streamed ?rest)) \<and>
            (\<forall>e \<in> set (streamed ?rest). ?c < ee_sequence e \<and> ee_execution_id e = xid \<and> ee_organization_id e = org)"
          using 2(1) [OF False l [symmetric] r g [symmetric] q refl refl refl refl] 2(2) by simp
        have le: "e \<in> set events \<Longrightarrow> ee_sequence e \<le> ?c" "current \<le> ?c" for e
          using sorted_last [OF ev(1)] ev(2) last_in_set [of events] by (auto simp: less_imp_le)
        have out: "streamed (event_stream rp org xid (s # ss) current idle)
            = events @ (if ?fin then [] else streamed ?rest)"
          using False l g r q by (simp add: Let_def)
        show ?thesis
        proof (cases ?fin)
          case True
          then show ?thesis unfolding out using ev by simp
        next
          case False
          then have rest: "sorted_wrt (<) (map ee_sequence (streamed ?rest))"
            "\<forall>e \<in> set (streamed ?rest). ?c < ee_sequence e \<and> ee_execution_id e = xid \<and> ee_organization_id e = org"
            using IH by blast+
          have "\<forall>e \<in> set events. \<forall>f \<in> set (streamed ?rest). ee_sequence e < ee_sequence f"
            using le(1) rest(2) by (meson le_less_trans)
          moreover have "\<forall>f \<in> set (streamed ?rest). current < ee_sequence f"
            using le(2) rest(2) by (meson le_less_trans)
          ultimately show ?thesis
            unfolding out if_not_P [OF False] using ev rest by (simp add: sorted_wrt_append ball_Un)
        qed
      qed
    qed
  qed simp
qed simp

theorem event_stream_in_order_witness:
  "sorted_wrt (<) (map ee_sequence (streamed (event_stream no_repr 1 100 [run1, run3] 0 0)))"
proof -
  have "\<forall>s \<in> set [run1, run3]. events_wf s"
    by (auto simp: events_wf_def run1_fields run2_fields run3_fields run_event_def wf_dict_def)
  from event_stream_in_order [OF this] show ?thesis by blast
qed

end
