(* ===== verification/DlDispatcher.thy ===== *)
theory DlDispatcher
  imports DlActivities
begin

text \<open>
  \<open>entrypoints/workflow_dispatcher.py\<close>: the loop that carries the commands of the table
  \<open>workflow_commands\<close> to Temporal.

  Temporal is not part of the repository. It is the parameter \<open>client\<close> of the model, a
  function from a call and the state of the service to its answer and the state it leaves: a call
  may be refused, may fail on its way, and may have had its effect although the answer was lost.
  What the code relies on is \<open>temporal_contract\<close>. Rows locked by another dispatcher
  (\<open>skip_locked\<close>), the clock, and whether the transaction still commits (the process may die
  between the effect and the commit) are parameters as well. The position of a row in the list is
  its \<open>id\<close>.
\<close>

section \<open>The calls\<close>

datatype workflow_call =
    StartWorkflow uuid uuid
  | SignalApprove uuid string
  | SignalCancel uuid string

datatype client_error = WorkflowAlreadyStartedError | RPCError string | DatabaseError

type_synonym 't temporal_client = "workflow_call \<Rightarrow> 't \<Rightarrow> (client_error + unit) \<times> 't"

definition command_actor :: "command_row \<Rightarrow> string" where
  "command_actor c =
     (case wc_actor_subject c of None \<Rightarrow> ''unknown'' | Some a \<Rightarrow> if a = [] then ''unknown'' else a)"

text \<open>The call a command stands for; a command of another name calls nothing.\<close>

definition command_call :: "command_row \<Rightarrow> workflow_call option" where
  "command_call c =
     (if wc_command c = ''START'' then Some (StartWorkflow (wc_execution_id c) (wc_organization_id c))
      else if wc_command c = ''APPROVE'' then Some (SignalApprove (wc_execution_id c) (command_actor c))
      else if wc_command c = ''CANCEL'' then Some (SignalCancel (wc_execution_id c) (command_actor c))
      else None)"

text \<open>\<open>suppress(WorkflowAlreadyStartedError)\<close> is around the start only.\<close>

definition dispatch_command ::
  "'t temporal_client \<Rightarrow> command_row \<Rightarrow> 't \<Rightarrow> (client_error + unit) \<times> 't" where
  "dispatch_command client c w =
     (case command_call c of
        None \<Rightarrow> (Inr (), w)
      | Some k \<Rightarrow>
          (case client k w of
             (Inr u, w') \<Rightarrow> (Inr (), w')
           | (Inl e, w') \<Rightarrow>
               if wc_command c = ''START'' \<and> e = WorkflowAlreadyStartedError then (Inr (), w')
               else (Inl e, w')))"

section \<open>One turn of the loop\<close>

definition pending_commands :: "(nat \<Rightarrow> bool) \<Rightarrow> command_row list \<Rightarrow> nat list" where
  "pending_commands locked cs =
     take 50 (filter (\<lambda>i. wc_dispatched_at (cs ! i) = None \<and> \<not> locked i) [0..<length cs])"

text \<open>The \<open>for\<close> loop: an exception of a call leaves it, with the effects so far on Temporal.\<close>

fun dispatch_all ::
  "'t temporal_client \<Rightarrow> (nat \<Rightarrow> time) \<Rightarrow> nat list \<Rightarrow> command_row list \<Rightarrow> 't \<Rightarrow>
     (client_error + command_row list) \<times> 't" where
  "dispatch_all client clock [] cs w = (Inr cs, w)"
| "dispatch_all client clock (i # is) cs w =
     (case dispatch_command client (cs ! i) w of
        (Inl e, w') \<Rightarrow> (Inl e, w')
      | (Inr _, w') \<Rightarrow>
          dispatch_all client clock is (cs[i := (cs ! i)\<lparr>wc_dispatched_at := Some (clock i)\<rparr>]) w')"

definition dispatch_pass ::
  "'t temporal_client \<Rightarrow> (nat \<Rightarrow> bool) \<Rightarrow> (nat \<Rightarrow> time) \<Rightarrow> bool \<Rightarrow> dl_db \<times> 't \<Rightarrow>
     (client_error + nat) \<times> dl_db \<times> 't" where
  "dispatch_pass client locked clock commits sw =
     (let cs = pd_commands (fst sw); is = pending_commands locked cs in
      case dispatch_all client clock is cs (snd sw) of
        (Inl e, w) \<Rightarrow> (Inl e, fst sw, w)
      | (Inr cs', w) \<Rightarrow>
          if commits then (Inr (length is), (fst sw)\<lparr>pd_commands := cs'\<rparr>, w)
          else (Inl DatabaseError, fst sw, w))"

section \<open>Temporal, the dispatchers and the writers of commands\<close>

text \<open>
  \<open>received w k\<close>: Temporal has the workflow that \<open>k\<close> starts, or has the signal \<open>k\<close> in the
  history of its workflow. Documented behaviour: an accepted call was received, the start of a
  workflow that exists already is answered so, and histories are durable.
\<close>

definition temporal_contract ::
  "'t temporal_client \<Rightarrow> ('t \<Rightarrow> workflow_call \<Rightarrow> bool) \<Rightarrow> bool" where
  "temporal_contract client received \<longleftrightarrow>
     (\<forall>k w w'. client k w = (Inr (), w') \<longrightarrow> received w' k) \<and>
     (\<forall>x og w w'. client (StartWorkflow x og) w = (Inl WorkflowAlreadyStartedError, w') \<longrightarrow>
        received w' (StartWorkflow x og)) \<and>
     (\<forall>k j w r w'. client k w = (r, w') \<longrightarrow> received w j \<longrightarrow> received w' j)"

text \<open>
  What happens around the table: turns of one or several dispatchers, whatever their outcome; a
  request or event that writes a command; transactions that do not touch the table; and Temporal
  going on by itself, which loses no history.
\<close>

inductive dispatch_step ::
  "'t temporal_client \<Rightarrow> ('t \<Rightarrow> workflow_call \<Rightarrow> bool) \<Rightarrow> dl_db \<times> 't \<Rightarrow> dl_db \<times> 't \<Rightarrow> bool"
  for client received where
  pass: "dispatch_pass client locked clock commits (s, w) = (r, s', w') \<Longrightarrow>
    dispatch_step client received (s, w) (s', w')"
| enqueue: "pg_command c s = (Inr (), s') \<Longrightarrow> dispatch_step client received (s, w) (s', w)"
| other: "pd_commands s' = pd_commands s \<Longrightarrow> dispatch_step client received (s, w) (s', w)"
| temporal: "(\<And>k. received w k \<Longrightarrow> received w' k) \<Longrightarrow> dispatch_step client received (s, w) (s, w')"

section \<open>Lemmas\<close>

lemma pending_commands_sound:
  "i \<in> set (pending_commands locked cs) \<Longrightarrow>
     i < length cs \<and> wc_dispatched_at (cs ! i) = None \<and> \<not> locked i"
  by (auto simp: pending_commands_def dest: in_set_takeD)

lemma pending_commands_distinct: "distinct (pending_commands locked cs)"
  by (simp add: pending_commands_def)

lemma dispatch_command_ok:
  assumes "temporal_contract client received" and "dispatch_command client c w = (Inr u, w')"
    and "command_call c = Some k"
  shows "received w' k"
  using assms
  by (auto simp: dispatch_command_def temporal_contract_def command_call_def
      split: prod.splits sum.splits if_splits)

lemma dispatch_command_keeps:
  assumes "temporal_contract client received" and "dispatch_command client c w = (r, w')"
    and "received w j"
  shows "received w' j"
  using assms
  by (force simp: dispatch_command_def temporal_contract_def
      split: prod.splits sum.splits if_splits option.splits)

lemma dispatch_all_keeps:
  "temporal_contract client received \<Longrightarrow> dispatch_all client clock is cs w = (r, w') \<Longrightarrow>
   received w j \<Longrightarrow> received w' j"
  by (induction client clock "is" cs w rule: dispatch_all.induct)
     (auto split: prod.splits sum.splits dest: dispatch_command_keeps)

lemma dispatch_all_marks:
  "dispatch_all client clock is cs w = (Inr cs', w') \<Longrightarrow> temporal_contract client received \<Longrightarrow>
   distinct is \<Longrightarrow> \<forall>i\<in>set is. i < length cs \<Longrightarrow>
   length cs' = length cs \<and> (\<forall>i. i \<notin> set is \<longrightarrow> cs' ! i = cs ! i) \<and>
   (\<forall>i\<in>set is. cs' ! i = (cs ! i)\<lparr>wc_dispatched_at := Some (clock i)\<rparr> \<and>
      (\<forall>k. command_call (cs ! i) = Some k \<longrightarrow> received w' k))"
proof (induction "is" arbitrary: cs w)
  case (Cons i "is")
  let ?c = "(cs ! i)\<lparr>wc_dispatched_at := Some (clock i)\<rparr>"
  obtain w1 where c: "dispatch_command client (cs ! i) w = (Inr (), w1)"
    and r: "dispatch_all client clock is (cs[i := ?c]) w1 = (Inr cs', w')"
    using Cons.prems(1) by (auto split: prod.splits sum.splits)
  have IH: "length cs' = length (cs[i := ?c]) \<and> (\<forall>j. j \<notin> set is \<longrightarrow> cs' ! j = cs[i := ?c] ! j) \<and>
     (\<forall>j\<in>set is. cs' ! j = (cs[i := ?c] ! j)\<lparr>wc_dispatched_at := Some (clock j)\<rparr> \<and>
        (\<forall>k. command_call (cs[i := ?c] ! j) = Some k \<longrightarrow> received w' k))"
    using Cons.prems by (intro Cons.IH [OF r]) auto
  have k: "received w' k" if "command_call (cs ! i) = Some k" for k
    using dispatch_all_keeps [OF Cons.prems(2) r dispatch_command_ok [OF Cons.prems(2) c that]] .
  have i: "i < length cs" "i \<notin> set is" using Cons.prems by auto
  have ne: "cs[i := ?c] ! j = cs ! j" if "j \<noteq> i" for j using that by simp
  show ?case
  proof (intro conjI ballI allI impI)
    fix j assume "j \<notin> set (i # is)"
    then show "cs' ! j = cs ! j" using IH ne [of j] by simp
  next
    fix j assume "j \<in> set (i # is)"
    then show "cs' ! j = (cs ! j)\<lparr>wc_dispatched_at := Some (clock j)\<rparr>"
      using IH ne [of j] i by (cases "j = i") auto
  next
    fix j m assume "j \<in> set (i # is)" "command_call (cs ! j) = Some m"
    then show "received w' m" using IH ne [of j] i k by (cases "j = i") auto
  qed (use IH in simp)
qed simp

text \<open>A row of the table later: the row itself, or dispatched, and then received.\<close>

definition command_later :: "('t \<Rightarrow> workflow_call \<Rightarrow> bool) \<Rightarrow> 't \<Rightarrow> command_row \<Rightarrow> command_row \<Rightarrow> bool" where
  "command_later received w c c' \<longleftrightarrow>
     c' = c \<or> wc_dispatched_at c = None \<and>
       (\<exists>t. c' = c\<lparr>wc_dispatched_at := Some t\<rparr>) \<and> (\<forall>k. command_call c = Some k \<longrightarrow> received w k)"

definition commands_later ::
  "('t \<Rightarrow> workflow_call \<Rightarrow> bool) \<Rightarrow> 't \<Rightarrow> command_row list \<Rightarrow> command_row list \<Rightarrow> bool" where
  "commands_later received w cs cs' \<longleftrightarrow>
     length cs \<le> length cs' \<and> (\<forall>i<length cs. command_later received w (cs ! i) (cs' ! i))"

lemma commands_later_refl: "commands_later received w cs cs"
  by (simp add: commands_later_def command_later_def)

lemma commands_later_trans:
  assumes "commands_later received w cs cs1" and "commands_later received w1 cs1 cs2"
    and "\<And>k. received w k \<Longrightarrow> received w1 k"
  shows "commands_later received w1 cs cs2"
proof -
  have "command_later received w1 (cs ! i) (cs2 ! i)" if "i < length cs" for i
  proof -
    have "command_later received w (cs ! i) (cs1 ! i)" "command_later received w1 (cs1 ! i) (cs2 ! i)"
      using assms(1,2) that by (simp_all add: commands_later_def)
    then show ?thesis using assms(3) by (auto simp: command_later_def)
  qed
  then show ?thesis using assms(1,2) by (auto simp: commands_later_def)
qed

lemma dispatch_pass_cases:
  assumes "dispatch_pass client locked clock commits (s, w) = (r, s', w')"
    and "temporal_contract client received"
  shows "(\<forall>k. received w k \<longrightarrow> received w' k) \<and>
     (case r of Inl e \<Rightarrow> s' = s
      | Inr n \<Rightarrow> \<exists>cs. s' = s\<lparr>pd_commands := cs\<rparr> \<and> length cs = length (pd_commands s) \<and>
          (\<forall>i<length cs. if i \<in> set (pending_commands locked (pd_commands s))
             then cs ! i = (pd_commands s ! i)\<lparr>wc_dispatched_at := Some (clock i)\<rparr> \<and>
                  (\<forall>k. command_call (pd_commands s ! i) = Some k \<longrightarrow> received w' k)
             else cs ! i = pd_commands s ! i))"
proof -
  let ?cs = "pd_commands s" and ?is = "pending_commands locked (pd_commands s)"
  obtain q w1 where q: "dispatch_all client clock ?is ?cs w = (q, w1)" by fastforce
  have w: "w1 = w'" using assms(1) q by (auto simp: dispatch_pass_def Let_def split: sum.splits if_splits)
  have keeps: "received w j \<Longrightarrow> received w' j" for j
    using dispatch_all_keeps [OF assms(2) q] w by simp
  show ?thesis
  proof (cases r)
    case (Inl e)
    then show ?thesis using assms(1) q keeps
      by (auto simp: dispatch_pass_def Let_def split: sum.splits if_splits)
  next
    case (Inr n)
    then obtain cs where cs: "q = Inr cs" "s' = s\<lparr>pd_commands := cs\<rparr>"
      using assms(1) q by (auto simp: dispatch_pass_def Let_def split: sum.splits if_splits)
    have m: "length cs = length ?cs \<and> (\<forall>i. i \<notin> set ?is \<longrightarrow> cs ! i = ?cs ! i) \<and>
      (\<forall>i\<in>set ?is. cs ! i = (?cs ! i)\<lparr>wc_dispatched_at := Some (clock i)\<rparr> \<and>
         (\<forall>k. command_call (?cs ! i) = Some k \<longrightarrow> received w1 k))"
      using pending_commands_sound
      by (intro dispatch_all_marks [OF q [unfolded cs(1)] assms(2) pending_commands_distinct]) blast
    show ?thesis unfolding Inr using m keeps w cs(2) by auto
  qed
qed

lemma dispatch_step_later:
  assumes "dispatch_step client received sw sw'" and "temporal_contract client received"
  shows "(\<forall>k. received (snd sw) k \<longrightarrow> received (snd sw') k) \<and>
     commands_later received (snd sw') (pd_commands (fst sw)) (pd_commands (fst sw'))"
  using assms(1)
proof cases
  case (pass locked clock commits s w r s' w')
  note D = dispatch_pass_cases [OF pass(3) assms(2)]
  show ?thesis
  proof (cases r)
    case (Inl e)
    then show ?thesis using D pass(1,2) by (simp add: commands_later_refl)
  next
    case (Inr n)
    have "commands_later received w' (pd_commands s) (pd_commands s')"
      using D pending_commands_sound [of _ locked "pd_commands s"] unfolding Inr
      by (fastforce simp: commands_later_def command_later_def split: if_splits)
    then show ?thesis using D pass(1,2) by simp
  qed
next
  case (enqueue c s s' w)
  then show ?thesis
    by (auto simp: pg_command_def writeS_def commands_later_def command_later_def nth_append)
qed (simp_all add: commands_later_refl)

lemma dispatch_run_later:
  assumes "(dispatch_step client received)\<^sup>*\<^sup>* sw sw'" and "temporal_contract client received"
  shows "(\<forall>k. received (snd sw) k \<longrightarrow> received (snd sw') k) \<and>
     commands_later received (snd sw') (pd_commands (fst sw)) (pd_commands (fst sw'))"
  using assms(1)
proof (induction rule: rtranclp_induct)
  case (step sw1 sw2)
  then show ?case
    using dispatch_step_later [OF step(2) assms(2)]
      commands_later_trans [where received = received] by blast
qed (simp add: commands_later_refl)

section \<open>What the dispatcher promises\<close>

text \<open>C19: The dispatcher loses no command. Over any run of dispatchers, with Temporal refusing calls,
  losing answers and the process dying before a commit, a command of the table stays as it is or
  is marked as dispatched, and then Temporal has received its call. A turn that ends in an error
  marks none, a turn that ends well has marked every command it selected. The price: when
  Temporal refuses the first pending command (a cancellation of a workflow that has ended), the
  turn fails before it reaches any other.\<close>

theorem dispatcher_loses_no_command:
  assumes "temporal_contract client received"
    and "(dispatch_step client received)\<^sup>*\<^sup>* (s, w) (s', w')" and "i < length (pd_commands s)"
  shows "i < length (pd_commands s') \<and>
     (pd_commands s' ! i = pd_commands s ! i \<or>
      wc_dispatched_at (pd_commands s ! i) = None \<and>
      (\<exists>t. pd_commands s' ! i = (pd_commands s ! i)\<lparr>wc_dispatched_at := Some t\<rparr>) \<and>
      (let c = pd_commands s ! i; x = wc_execution_id c in
       (wc_command c = ''START'' \<longrightarrow> received w' (StartWorkflow x (wc_organization_id c))) \<and>
       (wc_command c = ''APPROVE'' \<longrightarrow> received w' (SignalApprove x (command_actor c))) \<and>
       (wc_command c = ''CANCEL'' \<longrightarrow> received w' (SignalCancel x (command_actor c))))) \<and>
     (\<forall>locked clock commits r s2 w2.
        dispatch_pass client locked clock commits (s', w') = (r, s2, w2) \<longrightarrow>
        (case r of Inl e \<Rightarrow> s2 = s'
         | Inr n \<Rightarrow> \<forall>j\<in>set (pending_commands locked (pd_commands s')).
             wc_dispatched_at (pd_commands s2 ! j) = Some (clock j))) \<and>
     (\<forall>locked clock commits j js k e w2.
        pending_commands locked (pd_commands s') = j # js \<longrightarrow>
        command_call (pd_commands s' ! j) = Some k \<longrightarrow> client k w' = (Inl e, w2) \<longrightarrow>
        e \<noteq> WorkflowAlreadyStartedError \<longrightarrow>
        dispatch_pass client locked clock commits (s', w') = (Inl e, s', w2))"
proof (intro conjI allI impI)
  have L: "commands_later received w' (pd_commands s) (pd_commands s')"
    using dispatch_run_later [OF assms(2,1)] by simp
  then show "i < length (pd_commands s')" using assms(3) by (simp add: commands_later_def)
  have "command_later received w' (pd_commands s ! i) (pd_commands s' ! i)"
    using L assms(3) by (simp add: commands_later_def)
  then show "pd_commands s' ! i = pd_commands s ! i \<or>
      wc_dispatched_at (pd_commands s ! i) = None \<and>
      (\<exists>t. pd_commands s' ! i = (pd_commands s ! i)\<lparr>wc_dispatched_at := Some t\<rparr>) \<and>
      (let c = pd_commands s ! i; x = wc_execution_id c in
       (wc_command c = ''START'' \<longrightarrow> received w' (StartWorkflow x (wc_organization_id c))) \<and>
       (wc_command c = ''APPROVE'' \<longrightarrow> received w' (SignalApprove x (command_actor c))) \<and>
       (wc_command c = ''CANCEL'' \<longrightarrow> received w' (SignalCancel x (command_actor c))))"
    by (auto simp: command_later_def command_call_def Let_def)
next
  fix locked clock commits r s2 w2
  assume "dispatch_pass client locked clock commits (s', w') = (r, s2, w2)"
  from dispatch_pass_cases [OF this assms(1)]
  show "case r of Inl e \<Rightarrow> s2 = s'
     | Inr n \<Rightarrow> \<forall>j\<in>set (pending_commands locked (pd_commands s')).
         wc_dispatched_at (pd_commands s2 ! j) = Some (clock j)"
    using pending_commands_sound [of _ locked "pd_commands s'"] by (cases r) fastforce+
next
  fix locked clock commits j js k e w2
  assume "pending_commands locked (pd_commands s') = j # js" "command_call (pd_commands s' ! j) = Some k"
    "client k w' = (Inl e, w2)" "e \<noteq> WorkflowAlreadyStartedError"
  then show "dispatch_pass client locked clock commits (s', w') = (Inl e, s', w2)"
    by (simp add: dispatch_pass_def dispatch_command_def)
qed

text \<open>
  An instance of the contract: the workflows of the repository in a dictionary. A workflow that
  ended accepts no signal.
\<close>

definition sample_signal ::
  "uuid \<Rightarrow> (workflow_state \<Rightarrow> workflow_state) \<Rightarrow> (uuid, workflow_state) dict \<Rightarrow>
     (client_error + unit) \<times> (uuid, workflow_state) dict" where
  "sample_signal x f ws =
     (case dget ws x of
        None \<Rightarrow> (Inl (RPCError ''workflow not found''), ws)
      | Some v \<Rightarrow>
          (case ws_phase v of
             WP_Completed r \<Rightarrow> (Inl (RPCError ''workflow execution already completed''), ws)
           | WP_Failed \<Rightarrow> (Inl (RPCError ''workflow execution already completed''), ws)
           | _ \<Rightarrow> (Inr (), dset x (f v) ws)))"

fun sample_client :: "(uuid, workflow_state) dict temporal_client" where
  "sample_client (StartWorkflow x og) ws =
     (if dget ws x = None then (Inr (), dset x workflow_init ws)
      else (Inl WorkflowAlreadyStartedError, ws))"
| "sample_client (SignalApprove x actor) ws = sample_signal x (signal_approve actor) ws"
| "sample_client (SignalCancel x actor) ws = sample_signal x (signal_cancel actor) ws"

fun sample_received :: "(uuid, workflow_state) dict \<Rightarrow> workflow_call \<Rightarrow> bool" where
  "sample_received ws (StartWorkflow x og) \<longleftrightarrow> dget ws x \<noteq> None"
| "sample_received ws (SignalApprove x actor) \<longleftrightarrow> (\<exists>v. dget ws x = Some v \<and> ws_approved v)"
| "sample_received ws (SignalCancel x actor) \<longleftrightarrow> (\<exists>v. dget ws x = Some v \<and> ws_cancelled v)"

lemma sample_signal_keeps:
  "sample_signal x f ws = (r, ws') \<Longrightarrow>
   (\<And>v. (ws_approved v \<longrightarrow> ws_approved (f v)) \<and> (ws_cancelled v \<longrightarrow> ws_cancelled (f v))) \<Longrightarrow>
   sample_received ws j \<Longrightarrow> sample_received ws' j"
  by (cases j) (auto simp: sample_signal_def split: option.splits workflow_phase.splits if_splits)

lemma sample_contract: "temporal_contract sample_client sample_received"
  unfolding temporal_contract_def
proof (intro conjI allI impI)
  fix k w w' assume "sample_client k w = (Inr (), w')"
  then show "sample_received w' k"
    by (cases k) (auto simp: sample_signal_def signal_approve_def signal_cancel_def
        split: if_splits option.splits workflow_phase.splits)
next
  fix x og w w' assume "sample_client (StartWorkflow x og) w = (Inl WorkflowAlreadyStartedError, w')"
  then show "sample_received w' (StartWorkflow x og)" by (auto split: if_splits)
next
  fix k j w r w' assume c: "sample_client k w = (r, w')" and j: "sample_received w j"
  show "sample_received w' j"
  proof (cases k)
    case (StartWorkflow x og)
    then show ?thesis using c j by (cases j) (auto split: if_splits)
  next
    case (SignalApprove x actor)
    then show ?thesis using c j
      by (auto intro!: sample_signal_keeps [of x "signal_approve actor" w r w'] simp: signal_approve_def)
  next
    case (SignalCancel x actor)
    then show ?thesis using c j
      by (auto intro!: sample_signal_keeps [of x "signal_cancel actor" w r w'] simp: signal_cancel_def)
  qed
qed

definition sample_command :: "string \<Rightarrow> command_row" where
  "sample_command name = \<lparr>wc_organization_id = 1, wc_execution_id = 100, wc_command = name,
     wc_actor_subject = None, wc_dispatched_at = None\<rparr>"

definition sample_commands :: dl_db where
  "sample_commands = dl_db_init\<lparr>pd_commands := [sample_command ''START'', sample_command ''CANCEL'']\<rparr>"

lemma sample_pending:
  "pending_commands (\<lambda>_. False) [sample_command ''START'', sample_command ''CANCEL''] = [0, 1]"
proof -
  have "[0..<length [sample_command ''START'', sample_command ''CANCEL'']] = [0, Suc 0]" by simp
  then show ?thesis by (simp add: pending_commands_def sample_command_def)
qed

lemma sample_dispatch:
  "dispatch_command sample_client (sample_command ''START'') [] = (Inr (), [(100, workflow_init)])"
  "dispatch_command sample_client (sample_command ''START'') [(100, w)] = (Inr (), [(100, w)])"
  "ws_phase w = WP_Recording \<Longrightarrow>
   dispatch_command sample_client (sample_command ''CANCEL'') [(100, w)] =
     (Inr (), [(100, signal_cancel ''unknown'' w)])"
  by (simp_all add: dispatch_command_def command_call_def sample_command_def command_actor_def
      sample_signal_def)

text \<open>The process dies before the first commit; the next turn carries both commands over.\<close>

theorem dispatcher_loses_no_command_witness:
  "case dispatch_pass sample_client (\<lambda>_. False) (\<lambda>_. 6) True
      (snd (dispatch_pass sample_client (\<lambda>_. False) (\<lambda>_. 5) False (sample_commands, [])))
   of (r, s', w') \<Rightarrow> 1 < length (pd_commands s') \<and> r = Inr 2 \<and>
     sample_received w' (SignalCancel 100 ''unknown'')"
proof -
  obtain r1 s1 w1 where p1: "dispatch_pass sample_client (\<lambda>_. False) (\<lambda>_. 5) False (sample_commands, []) = (r1, s1, w1)"
    by (metis prod_cases3)
  obtain r s' w' where p2: "dispatch_pass sample_client (\<lambda>_. False) (\<lambda>_. 6) True (s1, w1) = (r, s', w')"
    by (metis prod_cases3)
  have run: "(dispatch_step sample_client sample_received)\<^sup>*\<^sup>* (sample_commands, []) (s', w')"
    using dispatch_step.pass [OF p1] dispatch_step.pass [OF p2]
    by (meson converse_rtranclp_into_rtranclp rtranclp.rtrancl_refl)
  have ph: "ws_phase workflow_init = WP_Recording" "ws_phase (signal_cancel a workflow_init) = WP_Recording" for a
    by (simp_all add: workflow_init_def signal_cancel_def)
  have 1: "s1 = sample_commands" "w1 = [(100, signal_cancel ''unknown'' workflow_init)]"
    using p1 by (simp_all add: Let_def dispatch_pass_def sample_commands_def sample_pending sample_dispatch ph)
  have r: "r = Inr 2" "pd_commands s' ! 1 = (sample_command ''CANCEL'')\<lparr>wc_dispatched_at := Some 6\<rparr>"
    using p2 by (auto simp: 1 Let_def dispatch_pass_def sample_commands_def sample_pending sample_dispatch ph)
  have c: "pd_commands sample_commands ! 1 = sample_command ''CANCEL''" "1 < length (pd_commands sample_commands)"
    by (simp_all add: sample_commands_def)
  have "1 < length (pd_commands s') \<and> sample_received w' (SignalCancel 100 ''unknown'')"
    using dispatcher_loses_no_command [OF sample_contract run c(2)] r unfolding c(1)
    by (auto simp: sample_command_def command_actor_def Let_def)
  then show ?thesis using r by (simp add: p1 p2)
qed

end
