(* ===== verification/InDomain.thy ===== *)
theory InDomain
  imports Contracts
begin

text \<open>
  \<open>domain/errors.py\<close> and \<open>domain/models.py\<close> of the integrations service: source-control
  configurations, connector installations with their transitions, repository connections and
  pull request results. The three secret references of a configuration are kept as the
  documents \<open>model_dump()\<close> gives, the way the code has them.
\<close>

datatype integration_error =
    InvalidInstallationState string
  | RepositoryAccessDenied string
  | DuplicateDelivery string

fun integration_error_code :: "integration_error \<Rightarrow> string" where
  "integration_error_code (InvalidInstallationState m) = ''invalid_installation_state''"
| "integration_error_code (RepositoryAccessDenied m) = ''repository_access_denied''"
| "integration_error_code (DuplicateDelivery m) = ''duplicate_delivery''"

datatype installation_status = IS_ACTIVE | IS_SUSPENDED | IS_DISCONNECTED

fun installation_status_value :: "installation_status \<Rightarrow> string" where
  "installation_status_value IS_ACTIVE = ''ACTIVE''"
| "installation_status_value IS_SUSPENDED = ''SUSPENDED''"
| "installation_status_value IS_DISCONNECTED = ''DISCONNECTED''"

datatype webhook_mode = WM_WEBHOOK | WM_POLLING

fun webhook_mode_value :: "webhook_mode \<Rightarrow> string" where
  "webhook_mode_value WM_WEBHOOK = ''WEBHOOK''"
| "webhook_mode_value WM_POLLING = ''POLLING''"

datatype configuration_health = CH_PENDING | CH_HEALTHY | CH_INVALID | CH_DISABLED

fun configuration_health_value :: "configuration_health \<Rightarrow> string" where
  "configuration_health_value CH_PENDING = ''PENDING''"
| "configuration_health_value CH_HEALTHY = ''HEALTHY''"
| "configuration_health_value CH_INVALID = ''INVALID''"
| "configuration_health_value CH_DISABLED = ''DISABLED''"

datatype repository_access_status = RA_ACTIVE | RA_REVOKED

fun repository_access_status_value :: "repository_access_status \<Rightarrow> string" where
  "repository_access_status_value RA_ACTIVE = ''ACTIVE''"
| "repository_access_status_value RA_REVOKED = ''REVOKED''"

definition InstallationStatus :: "string \<Rightarrow> installation_status option" where
  "InstallationStatus = enum_of installation_status_value [IS_ACTIVE, IS_SUSPENDED, IS_DISCONNECTED]"

definition WebhookMode :: "string \<Rightarrow> webhook_mode option" where
  "WebhookMode = enum_of webhook_mode_value [WM_WEBHOOK, WM_POLLING]"

definition ConfigurationHealth :: "string \<Rightarrow> configuration_health option" where
  "ConfigurationHealth =
     enum_of configuration_health_value [CH_PENDING, CH_HEALTHY, CH_INVALID, CH_DISABLED]"

definition RepositoryAccessStatus :: "string \<Rightarrow> repository_access_status option" where
  "RepositoryAccessStatus = enum_of repository_access_status_value [RA_ACTIVE, RA_REVOKED]"

lemma integration_enums [simp]:
  "InstallationStatus (installation_status_value i) = Some i"
  "WebhookMode (webhook_mode_value w) = Some w"
  "ConfigurationHealth (configuration_health_value h) = Some h"
  "RepositoryAccessStatus (repository_access_status_value a) = Some a"
     apply (cases i; simp add: InstallationStatus_def enum_of_def)
    apply (cases w; simp add: WebhookMode_def enum_of_def)
   apply (cases h; simp add: ConfigurationHealth_def enum_of_def)
  apply (cases a; simp add: RepositoryAccessStatus_def enum_of_def)
  done

record source_control_configuration =
  sc_id :: uuid
  sc_display_name :: string
  sc_provider :: string
  sc_web_base_url :: string
  sc_api_base_url :: string
  sc_api_version :: string
  sc_app_id :: string
  sc_client_id :: string
  sc_app_slug :: string
  sc_private_key_reference :: json
  sc_client_secret_reference :: json
  sc_webhook_secret_reference :: json
  sc_webhook_mode :: webhook_mode
  sc_enabled :: bool
  sc_health :: configuration_health
  sc_created_at :: time

record connector_installation =
  ci_id :: uuid
  ci_organization_id :: uuid
  ci_provider :: string
  ci_external_account_id :: string
  ci_account_login :: string
  ci_requested_permissions :: "string list"
  ci_is_development_substitute :: bool
  ci_provider_configuration_id :: "uuid option"
  ci_granted_permissions :: "string list"
  ci_repository_selection :: string
  ci_last_reconciled_at :: "time option"
  ci_status :: installation_status
  ci_created_at :: time

definition suspend :: "connector_installation \<Rightarrow> integration_error + connector_installation" where
  "suspend i =
     (if ci_status i = IS_DISCONNECTED
      then Inl (InvalidInstallationState ''a disconnected installation cannot be suspended'')
      else Inr (i\<lparr>ci_status := IS_SUSPENDED\<rparr>))"

definition activate :: "connector_installation \<Rightarrow> integration_error + connector_installation" where
  "activate i =
     (if ci_status i = IS_DISCONNECTED
      then Inl (InvalidInstallationState ''a disconnected installation cannot be reactivated'')
      else Inr (i\<lparr>ci_status := IS_ACTIVE\<rparr>))"

definition disconnect :: "connector_installation \<Rightarrow> connector_installation" where
  "disconnect i = i\<lparr>ci_status := IS_DISCONNECTED\<rparr>"

lemma transitions_keep:
  "suspend i = Inr j \<Longrightarrow> ci_status i \<noteq> IS_DISCONNECTED \<and> j = i\<lparr>ci_status := IS_SUSPENDED\<rparr>"
  "activate i = Inr j \<Longrightarrow> ci_status i \<noteq> IS_DISCONNECTED \<and> j = i\<lparr>ci_status := IS_ACTIVE\<rparr>"
  by (auto simp: suspend_def activate_def split: if_splits)

record repository_connection =
  rc_id :: uuid
  rc_organization_id :: uuid
  rc_installation_id :: uuid
  rc_external_repository_id :: string
  rc_owner :: string
  rc_name :: string
  rc_default_branch :: string
  rc_clone_locator :: string
  rc_is_private :: bool
  rc_is_development_substitute :: bool
  rc_access_status :: repository_access_status
  rc_last_seen_at :: "time option"
  rc_revoked_at :: "time option"
  rc_created_at :: time

definition full_name :: "repository_connection \<Rightarrow> string" where
  "full_name r = rc_owner r @ ''/'' @ rc_name r"

record pull_request_result =
  pq_reference :: external_reference
  pq_title :: string
  pq_url :: string
  pq_head_branch :: string
  pq_base_branch :: string
  pq_is_development_substitute :: bool

end
