(* ===== verification/InService.thy ===== *)
theory InService
  imports InDomain
begin

text \<open>
  \<open>application/ports.py\<close> and \<open>application/service.py\<close> of the integrations service: the
  repository and the source-control providers as records of operations on one state, and the
  use cases of \<open>IntegrationService\<close> over any of them. The values of \<open>uuid4()\<close> and of the
  clock are arguments; a loop that draws them takes them from a function of its pass.
\<close>

datatype in_error =
    IntegrationE integration_error
  | InValueE string
  | InKeyE
  | InTypeE
  | InAttributeE
  | InIntegrityE
  | InOverflowE
  | InHttpE nat string
  | InHttpxE
  | InCryptoE
  | InFileE
  | InNotImplementedE string

definition integrationS :: "integration_error + 'a \<Rightarrow> ('s, in_error, 'a) oper" where
  "integrationS r = liftS (map_sum IntegrationE id r)"

lemma integrationS_iff:
  "integrationS r s = (Inr a, s') \<longleftrightarrow> r = Inr a \<and> s' = s"
  "integrationS r s = (Inl e, s') \<longleftrightarrow> (\<exists>d. r = Inl d \<and> e = IntegrationE d) \<and> s' = s"
  by (cases r; auto simp: integrationS_def liftS_def)+

section \<open>Ports\<close>

record repository_descriptor =
  de_external_id :: string
  de_owner :: string
  de_name :: string
  de_default_branch :: string
  de_clone_locator :: string
  de_is_private :: bool

record in_audit =
  ia_organization_id :: uuid
  ia_actor_subject :: string
  ia_action :: string
  ia_target_type :: string
  ia_target_id :: uuid
  ia_details :: "(string \<times> json) list"

record platform_audit =
  pa_actor_subject :: string
  pa_action :: string
  pa_target_type :: string
  pa_target_id :: uuid
  pa_details :: "(string \<times> json) list"

record webhook_delivery =
  wh_provider :: string
  wh_delivery_id :: string
  wh_organization_id :: "uuid option"
  wh_event_name :: string
  wh_payload_hash :: string

record 's source_control_provider =
  sp_provider_name :: string
  sp_is_development_substitute :: bool
  sp_repositories :: "string \<Rightarrow> ('s, in_error, repository_descriptor list) oper"
  sp_create_pull_request :: "connector_installation \<Rightarrow> repository_connection \<Rightarrow> string \<Rightarrow> string \<Rightarrow>
    string \<Rightarrow> string \<Rightarrow> string \<Rightarrow> ('s, in_error, pull_request_result) oper"
  sp_add_comment :: "uuid \<Rightarrow> connector_installation \<Rightarrow> string \<Rightarrow> string \<Rightarrow> string \<Rightarrow> ('s, in_error, unit) oper"
  sp_create_check_run :: "connector_installation \<Rightarrow> repository_connection \<Rightarrow> string \<Rightarrow> string \<Rightarrow>
    string \<Rightarrow> string \<Rightarrow> ('s, in_error, unit) oper"

text \<open>
  The operations of \<open>IntegrationRepository\<close>. The two that consume a setup attempt and the one
  that redeems a capability may read the clock themselves: their first argument.
\<close>

record 's in_repository =
  ir_create_platform_setup_attempt :: "string \<Rightarrow> string \<Rightarrow> time \<Rightarrow> ('s, in_error, unit) oper"
  ir_consume_platform_setup_attempt :: "time \<Rightarrow> string \<Rightarrow> string \<Rightarrow> time \<Rightarrow> ('s, in_error, bool) oper"
  ir_create_connector_setup_attempt ::
    "uuid \<Rightarrow> string \<Rightarrow> string \<Rightarrow> uuid \<Rightarrow> time \<Rightarrow> ('s, in_error, unit) oper"
  ir_consume_connector_setup_attempt ::
    "time \<Rightarrow> uuid \<Rightarrow> string \<Rightarrow> string \<Rightarrow> time \<Rightarrow> ('s, in_error, uuid option) oper"
  ir_redeem_source_capability :: "time \<Rightarrow> uuid \<Rightarrow> string \<Rightarrow> time \<Rightarrow> ('s, in_error, bool) oper"
  ir_add_source_control_configuration :: "source_control_configuration \<Rightarrow> ('s, in_error, unit) oper"
  ir_get_source_control_configuration ::
    "uuid \<Rightarrow> ('s, in_error, source_control_configuration option) oper"
  ir_source_control_configuration_for_app_id ::
    "string \<Rightarrow> string \<Rightarrow> ('s, in_error, source_control_configuration option) oper"
  ir_list_source_control_configurations :: "('s, in_error, source_control_configuration list) oper"
  ir_update_source_control_configuration_health ::
    "uuid \<Rightarrow> string \<Rightarrow> bool \<Rightarrow> ('s, in_error, unit) oper"
  ir_record_platform_audit :: "platform_audit \<Rightarrow> ('s, in_error, unit) oper"
  ir_add_installation :: "connector_installation \<Rightarrow> ('s, in_error, unit) oper"
  ir_get_installation :: "uuid \<Rightarrow> uuid \<Rightarrow> ('s, in_error, connector_installation option) oper"
  ir_organization_for_external_installation :: "string \<Rightarrow> string \<Rightarrow> ('s, in_error, uuid option) oper"
  ir_installation_for_external ::
    "uuid \<Rightarrow> string \<Rightarrow> string \<Rightarrow> ('s, in_error, connector_installation option) oper"
  ir_list_installation_routes :: "('s, in_error, (uuid \<times> uuid) list) oper"
  ir_update_installation :: "connector_installation \<Rightarrow> ('s, in_error, unit) oper"
  ir_add_repository :: "repository_connection \<Rightarrow> ('s, in_error, unit) oper"
  ir_upsert_repository :: "repository_connection \<Rightarrow> ('s, in_error, unit) oper"
  ir_revoke_repositories_except ::
    "uuid \<Rightarrow> uuid \<Rightarrow> string list \<Rightarrow> time \<Rightarrow> ('s, in_error, unit) oper"
  ir_get_repository :: "uuid \<Rightarrow> uuid \<Rightarrow> ('s, in_error, repository_connection option) oper"
  ir_list_repositories :: "uuid \<Rightarrow> ('s, in_error, repository_connection list) oper"
  ir_record_webhook_delivery :: "webhook_delivery \<Rightarrow> ('s, in_error, bool) oper"
  ir_record_audit :: "in_audit \<Rightarrow> ('s, in_error, unit) oper"

section \<open>Use cases\<close>

definition GITHUB_MINIMUM_PERMISSIONS :: "string list" where
  "GITHUB_MINIMUM_PERMISSIONS =
     [''metadata:read'', ''contents:read-write'', ''pull_requests:read-write'', ''checks:read-write'']"

definition in_record_audit ::
  "'s in_repository \<Rightarrow> uuid \<Rightarrow> string \<Rightarrow> string \<Rightarrow> string \<Rightarrow> uuid \<Rightarrow> (string \<times> json) list \<Rightarrow>
     ('s, in_error, unit) oper" where
  "in_record_audit R organization_id actor_subject action target_type target_id details =
     ir_record_audit R \<lparr>ia_organization_id = organization_id, ia_actor_subject = actor_subject,
       ia_action = action, ia_target_type = target_type, ia_target_id = target_id,
       ia_details = details\<rparr>"

definition configure_source_control ::
  "'s in_repository \<Rightarrow> time \<Rightarrow> uuid \<Rightarrow> string \<Rightarrow> string \<Rightarrow> string \<Rightarrow> string \<Rightarrow> string \<Rightarrow> string \<Rightarrow> string \<Rightarrow>
     string \<Rightarrow> string \<Rightarrow> secret_reference \<Rightarrow> secret_reference \<Rightarrow> secret_reference \<Rightarrow> webhook_mode \<Rightarrow>
     ('s, in_error, source_control_configuration) oper" where
  "configure_source_control R now configuration_id actor_subject display_name provider web_base_url
     api_base_url api_version app_id client_id app_slug private_key_reference
     client_secret_reference webhook_secret_reference mode =
     (let configuration =
        \<lparr>sc_id = configuration_id, sc_display_name = display_name, sc_provider = provider,
         sc_web_base_url = web_base_url, sc_api_base_url = api_base_url,
         sc_api_version = api_version, sc_app_id = app_id, sc_client_id = client_id,
         sc_app_slug = app_slug,
         sc_private_key_reference = dump_secret_reference private_key_reference,
         sc_client_secret_reference = dump_secret_reference client_secret_reference,
         sc_webhook_secret_reference = dump_secret_reference webhook_secret_reference,
         sc_webhook_mode = mode, sc_enabled = True, sc_health = CH_PENDING,
         sc_created_at = now\<rparr> in
      seqS (ir_add_source_control_configuration R configuration)
      (seqS (ir_record_platform_audit R
         \<lparr>pa_actor_subject = actor_subject, pa_action = ''source_control_configuration.created'',
          pa_target_type = ''source_control_configuration'', pa_target_id = configuration_id,
          pa_details = [(''provider'', JStr provider),
                        (''webhook_mode'', JStr (webhook_mode_value mode))]\<rparr>)
      (returnS configuration)))"

text \<open>\<open>self._providers[provider]\<close>.\<close>

definition provider_for ::
  "(string, 's source_control_provider) dict \<Rightarrow> string \<Rightarrow>
     ('s, in_error, 's source_control_provider) oper" where
  "provider_for providers name = requireS InKeyE (dget providers name)"

text \<open>The loop of \<open>connect\<close>: a repository connection per descriptor.\<close>

fun connect_repositories ::
  "'s in_repository \<Rightarrow> (nat \<Rightarrow> uuid \<times> time) \<Rightarrow> uuid \<Rightarrow> uuid \<Rightarrow> bool \<Rightarrow> nat \<Rightarrow>
     repository_descriptor list \<Rightarrow> ('s, in_error, repository_connection list) oper" where
  "connect_repositories R fresh organization_id installation_id substitute n [] = returnS []"
| "connect_repositories R fresh organization_id installation_id substitute n (d # ds) =
     (let r = \<lparr>rc_id = fst (fresh n), rc_organization_id = organization_id,
               rc_installation_id = installation_id, rc_external_repository_id = de_external_id d,
               rc_owner = de_owner d, rc_name = de_name d,
               rc_default_branch = de_default_branch d, rc_clone_locator = de_clone_locator d,
               rc_is_private = de_is_private d, rc_is_development_substitute = substitute,
               rc_access_status = RA_ACTIVE, rc_last_seen_at = None, rc_revoked_at = None,
               rc_created_at = snd (fresh n)\<rparr> in
      seqS (ir_add_repository R r)
      (bindS (connect_repositories R fresh organization_id installation_id substitute (Suc n) ds)
        (\<lambda>rs. returnS (r # rs))))"

definition in_connect ::
  "'s in_repository \<Rightarrow> (string, 's source_control_provider) dict \<Rightarrow> uuid \<Rightarrow> time \<Rightarrow>
     (nat \<Rightarrow> uuid \<times> time) \<Rightarrow> uuid \<Rightarrow> string \<Rightarrow> string \<Rightarrow> string \<Rightarrow> string \<Rightarrow> uuid option \<Rightarrow>
     string list \<Rightarrow> string \<Rightarrow>
     ('s, in_error, connector_installation \<times> repository_connection list) oper" where
  "in_connect R providers installation_id now fresh organization_id actor_subject provider
     external_account_id account_login provider_configuration_id granted_permissions
     repository_selection =
     bindS (provider_for providers provider) (\<lambda>adapter.
     let installation =
       \<lparr>ci_id = installation_id, ci_organization_id = organization_id, ci_provider = provider,
        ci_external_account_id = external_account_id, ci_account_login = account_login,
        ci_requested_permissions = GITHUB_MINIMUM_PERMISSIONS,
        ci_is_development_substitute = sp_is_development_substitute adapter,
        ci_provider_configuration_id = provider_configuration_id,
        ci_granted_permissions = granted_permissions,
        ci_repository_selection = repository_selection, ci_last_reconciled_at = None,
        ci_status = IS_ACTIVE, ci_created_at = now\<rparr> in
     seqS (ir_add_installation R installation)
     (bindS (sp_repositories adapter external_account_id) (\<lambda>descriptors.
      bindS (connect_repositories R fresh organization_id installation_id
               (sp_is_development_substitute adapter) 0 descriptors) (\<lambda>connected.
      seqS (in_record_audit R organization_id actor_subject ''connector.connected''
              ''connector_installation'' installation_id
              [(''provider'', JStr provider), (''repository_count'', JInt (int (length connected))),
               (''development_substitute'', JBool (sp_is_development_substitute adapter))])
      (returnS (installation, connected))))))"

text \<open>
  The loop of \<open>reconcile\<close>: a known repository keeps its identifier and creation time.
\<close>

definition reconciled ::
  "(string, repository_connection) dict \<Rightarrow> uuid \<Rightarrow> time \<Rightarrow> uuid \<Rightarrow> uuid \<Rightarrow> bool \<Rightarrow>
     repository_descriptor \<Rightarrow> repository_connection" where
  "reconciled existing new_id now organization_id installation_id substitute d =
     (let previous = dget existing (de_external_id d) in
      \<lparr>rc_id = (case previous of None \<Rightarrow> new_id | Some p \<Rightarrow> rc_id p),
       rc_organization_id = organization_id, rc_installation_id = installation_id,
       rc_external_repository_id = de_external_id d, rc_owner = de_owner d, rc_name = de_name d,
       rc_default_branch = de_default_branch d, rc_clone_locator = de_clone_locator d,
       rc_is_private = de_is_private d, rc_is_development_substitute = substitute,
       rc_access_status = RA_ACTIVE, rc_last_seen_at = Some now, rc_revoked_at = None,
       rc_created_at = (case previous of None \<Rightarrow> now | Some p \<Rightarrow> rc_created_at p)\<rparr>)"

fun reconcile_repositories ::
  "'s in_repository \<Rightarrow> (string, repository_connection) dict \<Rightarrow> (nat \<Rightarrow> uuid) \<Rightarrow> time \<Rightarrow> uuid \<Rightarrow> uuid \<Rightarrow>
     bool \<Rightarrow> nat \<Rightarrow> repository_descriptor list \<Rightarrow> ('s, in_error, repository_connection list) oper" where
  "reconcile_repositories R existing fresh now organization_id installation_id substitute n [] =
     returnS []"
| "reconcile_repositories R existing fresh now organization_id installation_id substitute n (d # ds) =
     (let r = reconciled existing (fresh n) now organization_id installation_id substitute d in
      seqS (ir_upsert_repository R r)
      (bindS (reconcile_repositories R existing fresh now organization_id installation_id substitute
                (Suc n) ds)
        (\<lambda>rs. returnS (r # rs))))"

definition existing_repositories ::
  "uuid \<Rightarrow> repository_connection list \<Rightarrow> (string, repository_connection) dict" where
  "existing_repositories installation_id items =
     fold (\<lambda>item d. dset (rc_external_repository_id item) item d)
       (filter (\<lambda>item. rc_installation_id item = installation_id) items) []"

definition in_reconcile ::
  "'s in_repository \<Rightarrow> (string, 's source_control_provider) dict \<Rightarrow> (nat \<Rightarrow> uuid) \<Rightarrow> time \<Rightarrow>
     connector_installation \<Rightarrow> string \<Rightarrow> ('s, in_error, repository_connection list) oper" where
  "in_reconcile R providers fresh now installation actor_subject =
     bindS (provider_for providers (ci_provider installation)) (\<lambda>adapter.
     bindS (ir_list_repositories R (ci_organization_id installation)) (\<lambda>items.
     bindS (sp_repositories adapter (ci_external_account_id installation)) (\<lambda>descriptors.
     bindS (reconcile_repositories R (existing_repositories (ci_id installation) items) fresh now
              (ci_organization_id installation) (ci_id installation)
              (sp_is_development_substitute adapter) 0 descriptors) (\<lambda>connected.
     seqS (ir_revoke_repositories_except R (ci_organization_id installation) (ci_id installation)
             (map de_external_id descriptors) now)
     (seqS (ir_update_installation R (installation\<lparr>ci_last_reconciled_at := Some now\<rparr>))
     (seqS (in_record_audit R (ci_organization_id installation) actor_subject ''connector.reconciled''
              ''connector_installation'' (ci_id installation)
              [(''repository_count'', JInt (int (length connected)))])
     (returnS connected)))))))"

definition in_create_pull_request ::
  "'s in_repository \<Rightarrow> (string, 's source_control_provider) dict \<Rightarrow> uuid \<Rightarrow> string \<Rightarrow> uuid \<Rightarrow> string \<Rightarrow>
     string \<Rightarrow> string \<Rightarrow> string option \<Rightarrow> string \<Rightarrow> ('s, in_error, pull_request_result) oper" where
  "in_create_pull_request R providers organization_id actor_subject repository_id title body
     head_branch head_sha idempotency_key =
     bindS (ir_get_repository R organization_id repository_id) (\<lambda>found.
     bindS (requireS (IntegrationE (RepositoryAccessDenied
              ''repository is not connected for this organization'')) found) (\<lambda>repository.
     bindS (ir_get_installation R organization_id (rc_installation_id repository)) (\<lambda>found'.
     bindS (requireS (IntegrationE (RepositoryAccessDenied ''connector installation is not active''))
              (case found' of None \<Rightarrow> None
               | Some i \<Rightarrow> if ci_status i = IS_ACTIVE then Some i else None)) (\<lambda>installation.
     bindS (provider_for providers (ci_provider installation)) (\<lambda>adapter.
     bindS (sp_create_pull_request adapter installation repository title body head_branch
              (rc_default_branch repository) idempotency_key) (\<lambda>result.
     seqS (case head_sha of
             None \<Rightarrow> returnS ()
           | Some sha \<Rightarrow>
               if sha = [] then returnS ()
               else sp_create_check_run adapter installation repository sha
                      ''MVP Master independent verification''
                      ''Agent output was independently validated before publication.''
                      (idempotency_key @ '':verification''))
     (seqS (in_record_audit R organization_id actor_subject ''pull_request.created''
              ''repository_connection'' (rc_id repository)
              [(''external_id'', JStr (xr_external_id (pq_reference result))),
               (''development_substitute'', JBool (pq_is_development_substitute result))])
     (returnS result))))))))"

end
