(* ===== verification/InMemory.thy ===== *)
theory InMemory
  imports InService TenantStore
begin

text \<open>
  \<open>adapters/memory.py\<close> of the integrations service: the repository as dictionaries, sets and
  lists in one state. A set of keys is the list of its elements. An operation hands out the
  stored installation itself; no use case changes one in place, so the model returns values.
\<close>

record in_memory =
  im_installations :: "(uuid, connector_installation) dict"
  im_repositories :: "(uuid, repository_connection) dict"
  im_webhook_deliveries :: "(string \<times> string) list"
  im_audits :: "in_audit list"
  im_configurations :: "(uuid, source_control_configuration) dict"
  im_platform_audits :: "platform_audit list"
  im_platform_setup_attempts :: "(string, string \<times> time \<times> bool) dict"
  im_connector_setup_attempts :: "(uuid \<times> string, string \<times> uuid \<times> time \<times> bool) dict"
  im_source_capability_redemptions :: "(uuid \<times> string) list"

definition in_memory_init :: in_memory where
  "in_memory_init =
     \<lparr>im_installations = [], im_repositories = [], im_webhook_deliveries = [], im_audits = [],
      im_configurations = [], im_platform_audits = [], im_platform_setup_attempts = [],
      im_connector_setup_attempts = [], im_source_capability_redemptions = []\<rparr>"

section \<open>Setup attempts and capabilities\<close>

definition im_create_platform_setup_attempt ::
  "string \<Rightarrow> string \<Rightarrow> time \<Rightarrow> (in_memory, in_error, unit) oper" where
  "im_create_platform_setup_attempt state_hash actor_subject expires_at =
     writeS (\<lambda>s. s\<lparr>im_platform_setup_attempts :=
       dset state_hash (actor_subject, expires_at, False) (im_platform_setup_attempts s)\<rparr>)"

definition im_consume_platform_setup_attempt ::
  "time \<Rightarrow> string \<Rightarrow> string \<Rightarrow> time \<Rightarrow> (in_memory, in_error, bool) oper" where
  "im_consume_platform_setup_attempt used_at state_hash actor_subject now =
     bindS (readS (\<lambda>s. dget (im_platform_setup_attempts s) state_hash)) (\<lambda>attempt.
     case attempt of
       None \<Rightarrow> returnS False
     | Some (actor, expires_at, used) \<Rightarrow>
         if actor \<noteq> actor_subject \<or> used \<or> expires_at \<le> now then returnS False
         else seqS (writeS (\<lambda>s. s\<lparr>im_platform_setup_attempts :=
                dset state_hash (actor, expires_at, True) (im_platform_setup_attempts s)\<rparr>))
              (returnS True))"

definition im_create_connector_setup_attempt ::
  "uuid \<Rightarrow> string \<Rightarrow> string \<Rightarrow> uuid \<Rightarrow> time \<Rightarrow> (in_memory, in_error, unit) oper" where
  "im_create_connector_setup_attempt organization_id state_hash actor_subject configuration_id expires_at =
     writeS (\<lambda>s. s\<lparr>im_connector_setup_attempts :=
       dset (organization_id, state_hash) (actor_subject, configuration_id, expires_at, False)
         (im_connector_setup_attempts s)\<rparr>)"

definition im_consume_connector_setup_attempt ::
  "time \<Rightarrow> uuid \<Rightarrow> string \<Rightarrow> string \<Rightarrow> time \<Rightarrow> (in_memory, in_error, uuid option) oper" where
  "im_consume_connector_setup_attempt used_at organization_id state_hash actor_subject now =
     bindS (readS (\<lambda>s. dget (im_connector_setup_attempts s) (organization_id, state_hash))) (\<lambda>attempt.
     case attempt of
       None \<Rightarrow> returnS None
     | Some (actor, configuration_id, expires_at, used) \<Rightarrow>
         if actor \<noteq> actor_subject \<or> used \<or> expires_at \<le> now then returnS None
         else seqS (writeS (\<lambda>s. s\<lparr>im_connector_setup_attempts :=
                dset (organization_id, state_hash) (actor, configuration_id, expires_at, True)
                  (im_connector_setup_attempts s)\<rparr>))
              (returnS (Some configuration_id)))"

definition im_redeem_source_capability ::
  "time \<Rightarrow> uuid \<Rightarrow> string \<Rightarrow> time \<Rightarrow> (in_memory, in_error, bool) oper" where
  "im_redeem_source_capability redeemed_at organization_id capability_id expires_at =
     bindS (readS im_source_capability_redemptions) (\<lambda>redeemed.
     if (organization_id, capability_id) \<in> set redeemed then returnS False
     else seqS (writeS (\<lambda>s. s\<lparr>im_source_capability_redemptions :=
            redeemed @ [(organization_id, capability_id)]\<rparr>)) (returnS True))"

section \<open>Configurations\<close>

definition im_add_source_control_configuration ::
  "source_control_configuration \<Rightarrow> (in_memory, in_error, unit) oper" where
  "im_add_source_control_configuration c =
     writeS (\<lambda>s. s\<lparr>im_configurations := dset (sc_id c) c (im_configurations s)\<rparr>)"

definition im_get_source_control_configuration ::
  "uuid \<Rightarrow> (in_memory, in_error, source_control_configuration option) oper" where
  "im_get_source_control_configuration configuration_id =
     readS (\<lambda>s. dget (im_configurations s) configuration_id)"

definition im_source_control_configuration_for_app_id ::
  "string \<Rightarrow> string \<Rightarrow> (in_memory, in_error, source_control_configuration option) oper" where
  "im_source_control_configuration_for_app_id provider app_id =
     readS (\<lambda>s. find (\<lambda>c. sc_provider c = provider \<and> sc_app_id c = app_id)
                  (dvals (im_configurations s)))"

definition im_list_source_control_configurations ::
  "(in_memory, in_error, source_control_configuration list) oper" where
  "im_list_source_control_configurations = readS (\<lambda>s. dvals (im_configurations s))"

definition im_update_source_control_configuration_health ::
  "uuid \<Rightarrow> string \<Rightarrow> bool \<Rightarrow> (in_memory, in_error, unit) oper" where
  "im_update_source_control_configuration_health configuration_id health enabled =
     bindS (readS (\<lambda>s. dget (im_configurations s) configuration_id)) (\<lambda>found.
     case found of
       None \<Rightarrow> returnS ()
     | Some c \<Rightarrow>
         bindS (requireS (InValueE ''not a valid ConfigurationHealth'') (ConfigurationHealth health)) (\<lambda>h.
         writeS (\<lambda>s. s\<lparr>im_configurations :=
           dset configuration_id (c\<lparr>sc_health := h, sc_enabled := enabled\<rparr>) (im_configurations s)\<rparr>)))"

definition im_record_platform_audit :: "platform_audit \<Rightarrow> (in_memory, in_error, unit) oper" where
  "im_record_platform_audit a = writeS (\<lambda>s. s\<lparr>im_platform_audits := im_platform_audits s @ [a]\<rparr>)"

section \<open>Installations\<close>

definition im_add_installation :: "connector_installation \<Rightarrow> (in_memory, in_error, unit) oper" where
  "im_add_installation i =
     writeS (\<lambda>s. s\<lparr>im_installations := dset (ci_id i) i (im_installations s)\<rparr>)"

definition im_get_installation ::
  "uuid \<Rightarrow> uuid \<Rightarrow> (in_memory, in_error, connector_installation option) oper" where
  "im_get_installation organization_id installation_id =
     readS (\<lambda>s. owned ci_organization_id organization_id (dget (im_installations s) installation_id))"

definition im_organization_for_external_installation ::
  "string \<Rightarrow> string \<Rightarrow> (in_memory, in_error, uuid option) oper" where
  "im_organization_for_external_installation provider external_account_id =
     readS (\<lambda>s. map_option ci_organization_id
       (find (\<lambda>i. ci_provider i = provider \<and> ci_external_account_id i = external_account_id)
         (dvals (im_installations s))))"

definition im_installation_for_external ::
  "uuid \<Rightarrow> string \<Rightarrow> string \<Rightarrow> (in_memory, in_error, connector_installation option) oper" where
  "im_installation_for_external organization_id provider external_account_id =
     readS (\<lambda>s. find (\<lambda>i. ci_organization_id i = organization_id \<and> ci_provider i = provider \<and>
         ci_external_account_id i = external_account_id) (dvals (im_installations s)))"

definition im_list_installation_routes :: "(in_memory, in_error, (uuid \<times> uuid) list) oper" where
  "im_list_installation_routes =
     readS (\<lambda>s. map (\<lambda>i. (ci_organization_id i, ci_id i)) (dvals (im_installations s)))"

definition im_update_installation :: "connector_installation \<Rightarrow> (in_memory, in_error, unit) oper" where
  "im_update_installation i =
     writeS (\<lambda>s. s\<lparr>im_installations := dset (ci_id i) i (im_installations s)\<rparr>)"

section \<open>Repository connections\<close>

definition im_add_repository :: "repository_connection \<Rightarrow> (in_memory, in_error, unit) oper" where
  "im_add_repository r =
     writeS (\<lambda>s. s\<lparr>im_repositories := dset (rc_id r) r (im_repositories s)\<rparr>)"

text \<open>The connection an upsert replaces: same organization, installation and external identifier.\<close>

definition same_repository :: "repository_connection \<Rightarrow> repository_connection \<Rightarrow> bool" where
  "same_repository r item \<longleftrightarrow>
     rc_organization_id item = rc_organization_id r \<and>
     rc_installation_id item = rc_installation_id r \<and>
     rc_external_repository_id item = rc_external_repository_id r"

definition im_upsert_repository :: "repository_connection \<Rightarrow> (in_memory, in_error, unit) oper" where
  "im_upsert_repository r =
     bindS (readS (\<lambda>s. find (same_repository r) (dvals (im_repositories s)))) (\<lambda>existing.
     writeS (\<lambda>s. s\<lparr>im_repositories := dset (rc_id r) r
       (case existing of None \<Rightarrow> im_repositories s
        | Some item \<Rightarrow> AList.delete (rc_id item) (im_repositories s))\<rparr>))"

definition revoke :: "time \<Rightarrow> repository_connection \<Rightarrow> repository_connection" where
  "revoke revoked_at r = r\<lparr>rc_access_status := RA_REVOKED, rc_revoked_at := Some revoked_at\<rparr>"

definition im_revoke_repositories_except ::
  "uuid \<Rightarrow> uuid \<Rightarrow> string list \<Rightarrow> time \<Rightarrow> (in_memory, in_error, unit) oper" where
  "im_revoke_repositories_except organization_id installation_id active_external_ids revoked_at =
     writeS (\<lambda>s. s\<lparr>im_repositories := map (\<lambda>(k, r).
       (k, if rc_organization_id r = organization_id \<and> rc_installation_id r = installation_id \<and>
              rc_external_repository_id r \<notin> set active_external_ids
           then revoke revoked_at r else r)) (im_repositories s)\<rparr>)"

definition im_get_repository ::
  "uuid \<Rightarrow> uuid \<Rightarrow> (in_memory, in_error, repository_connection option) oper" where
  "im_get_repository organization_id repository_id =
     readS (\<lambda>s. owned rc_organization_id organization_id (dget (im_repositories s) repository_id))"

definition im_list_repositories :: "uuid \<Rightarrow> (in_memory, in_error, repository_connection list) oper" where
  "im_list_repositories organization_id =
     readS (\<lambda>s. filter (\<lambda>r. rc_organization_id r = organization_id) (dvals (im_repositories s)))"

section \<open>Webhook deliveries and audit\<close>

definition im_record_webhook_delivery :: "webhook_delivery \<Rightarrow> (in_memory, in_error, bool) oper" where
  "im_record_webhook_delivery d =
     bindS (readS im_webhook_deliveries) (\<lambda>seen.
     if (wh_provider d, wh_delivery_id d) \<in> set seen then returnS False
     else seqS (writeS (\<lambda>s. s\<lparr>im_webhook_deliveries := seen @ [(wh_provider d, wh_delivery_id d)]\<rparr>))
            (returnS True))"

definition im_record_audit :: "in_audit \<Rightarrow> (in_memory, in_error, unit) oper" where
  "im_record_audit a = writeS (\<lambda>s. s\<lparr>im_audits := im_audits s @ [a]\<rparr>)"

definition MemoryIntegrationRepository :: "in_memory in_repository" where
  "MemoryIntegrationRepository =
     \<lparr>ir_create_platform_setup_attempt = im_create_platform_setup_attempt,
      ir_consume_platform_setup_attempt = im_consume_platform_setup_attempt,
      ir_create_connector_setup_attempt = im_create_connector_setup_attempt,
      ir_consume_connector_setup_attempt = im_consume_connector_setup_attempt,
      ir_redeem_source_capability = im_redeem_source_capability,
      ir_add_source_control_configuration = im_add_source_control_configuration,
      ir_get_source_control_configuration = im_get_source_control_configuration,
      ir_source_control_configuration_for_app_id = im_source_control_configuration_for_app_id,
      ir_list_source_control_configurations = im_list_source_control_configurations,
      ir_update_source_control_configuration_health = im_update_source_control_configuration_health,
      ir_record_platform_audit = im_record_platform_audit,
      ir_add_installation = im_add_installation, ir_get_installation = im_get_installation,
      ir_organization_for_external_installation = im_organization_for_external_installation,
      ir_installation_for_external = im_installation_for_external,
      ir_list_installation_routes = im_list_installation_routes,
      ir_update_installation = im_update_installation, ir_add_repository = im_add_repository,
      ir_upsert_repository = im_upsert_repository,
      ir_revoke_repositories_except = im_revoke_repositories_except,
      ir_get_repository = im_get_repository, ir_list_repositories = im_list_repositories,
      ir_record_webhook_delivery = im_record_webhook_delivery, ir_record_audit = im_record_audit\<rparr>"

end
