(* ===== verification/InPostgres.thy ===== *)
theory InPostgres
  imports InMemory
begin

text \<open>
  \<open>adapters/postgres.py\<close> of the integrations service: the tables as dictionaries by primary
  key, and \<open>PostgresIntegrationRepository\<close> over them, read and written as in the delivery
  service: row level security (migrations 0001 to 0003) shows a tenant table's rows only where
  their organization is the one \<open>set_organization\<close> selected; the configurations, the platform
  tables and the installation routes have no policy. Adding a row under a primary or unique
  key in use raises the database's integrity error.
\<close>

section \<open>Rows\<close>

record in_configuration_row =
  cw_id :: uuid
  cw_display_name :: string
  cw_provider :: string
  cw_web_base_url :: string
  cw_api_base_url :: string
  cw_api_version :: string
  cw_app_id :: string
  cw_client_id :: string
  cw_app_slug :: string
  cw_private_key_reference :: json
  cw_client_secret_reference :: json
  cw_webhook_secret_reference :: json
  cw_webhook_mode :: string
  cw_enabled :: bool
  cw_health :: string
  cw_created_at :: time

record platform_attempt_row =
  pt_actor_subject :: string
  pt_expires_at :: time
  pt_used_at :: "time option"

record connector_attempt_row =
  ct_organization_id :: uuid
  ct_actor_subject :: string
  ct_configuration_id :: uuid
  ct_expires_at :: time
  ct_used_at :: "time option"

record redemption_row =
  rd_organization_id :: uuid
  rd_expires_at :: time
  rd_redeemed_at :: time

record credential_row =
  mc_id :: uuid
  mc_organization_id :: uuid
  mc_provider :: string
  mc_display_name :: string
  mc_secret_reference :: json
  mc_idempotency_key :: string
  mc_status :: string
  mc_created_at :: time
  mc_revoked_at :: "time option"

record installation_row =
  iw_id :: uuid
  iw_organization_id :: uuid
  iw_provider :: string
  iw_external_account_id :: string
  iw_account_login :: string
  iw_requested_permissions :: "string list"
  iw_is_development_substitute :: bool
  iw_provider_configuration_id :: "uuid option"
  iw_granted_permissions :: "string list"
  iw_repository_selection :: string
  iw_last_reconciled_at :: "time option"
  iw_status :: string
  iw_created_at :: time

record in_membership_row =
  mm_organization_id :: uuid
  mm_subject :: string
  mm_role :: string
  mm_active :: bool

record repository_row =
  yw_id :: uuid
  yw_organization_id :: uuid
  yw_installation_id :: uuid
  yw_external_repository_id :: string
  yw_owner :: string
  yw_name :: string
  yw_default_branch :: string
  yw_clone_locator :: string
  yw_is_private :: bool
  yw_is_development_substitute :: bool
  yw_access_status :: string
  yw_last_seen_at :: "time option"
  yw_revoked_at :: "time option"
  yw_created_at :: time

record in_inbox_row =
  ib_organization_id :: uuid
  ib_event_type :: string

record in_db =
  id_organization :: "uuid option"
  id_memberships :: "(uuid \<times> string, in_membership_row) dict"
  id_configurations :: "(uuid, in_configuration_row) dict"
  id_platform_audits :: "platform_audit list"
  id_platform_attempts :: "(string, platform_attempt_row) dict"
  id_connector_attempts :: "(string, connector_attempt_row) dict"
  id_redemptions :: "(string, redemption_row) dict"
  id_credentials :: "(uuid, credential_row) dict"
  id_installations :: "(uuid, installation_row) dict"
  id_routes :: "(string \<times> string, uuid \<times> uuid) dict"
  id_repositories :: "(uuid, repository_row) dict"
  id_webhooks :: "webhook_delivery list"
  id_audits :: "in_audit list"
  id_inbox :: "(uuid, in_inbox_row) dict"

definition in_db_init :: in_db where
  "in_db_init =
     \<lparr>id_organization = None, id_memberships = [], id_configurations = [], id_platform_audits = [],
      id_platform_attempts = [], id_connector_attempts = [], id_redemptions = [],
      id_credentials = [], id_installations = [], id_routes = [], id_repositories = [],
      id_webhooks = [], id_audits = [], id_inbox = []\<rparr>"

abbreviation in_insertS :: "('s \<Rightarrow> bool) \<Rightarrow> ('s \<Rightarrow> 's) \<Rightarrow> ('s, in_error, unit) oper" where
  "in_insertS \<equiv> insert_orS InIntegrityE"

definition ip_set_organization :: "uuid \<Rightarrow> (in_db, in_error, unit) oper" where
  "ip_set_organization organization_id = writeS (\<lambda>s. s\<lparr>id_organization := Some organization_id\<rparr>)"

lemma seqS_ip_set_organization [simp]:
  "seqS (ip_set_organization o') m s = m (s\<lparr>id_organization := Some o'\<rparr>)"
  by (simp add: ip_set_organization_def)

section \<open>Setup attempts and capabilities\<close>

definition ip_create_platform_setup_attempt ::
  "string \<Rightarrow> string \<Rightarrow> time \<Rightarrow> (in_db, in_error, unit) oper" where
  "ip_create_platform_setup_attempt state_hash actor_subject expires_at =
     in_insertS (\<lambda>s. dget (id_platform_attempts s) state_hash \<noteq> None)
       (\<lambda>s. s\<lparr>id_platform_attempts := dset state_hash \<lparr>pt_actor_subject = actor_subject,
          pt_expires_at = expires_at, pt_used_at = None\<rparr> (id_platform_attempts s)\<rparr>)"

definition ip_consume_platform_setup_attempt ::
  "time \<Rightarrow> string \<Rightarrow> string \<Rightarrow> time \<Rightarrow> (in_db, in_error, bool) oper" where
  "ip_consume_platform_setup_attempt used_at state_hash actor_subject now =
     bindS (readS (\<lambda>s. dget (id_platform_attempts s) state_hash)) (\<lambda>found.
     case found of
       None \<Rightarrow> returnS False
     | Some row \<Rightarrow>
         if pt_actor_subject row \<noteq> actor_subject \<or> pt_used_at row \<noteq> None \<or> pt_expires_at row \<le> now
         then returnS False
         else seqS (writeS (\<lambda>s. s\<lparr>id_platform_attempts :=
                dset state_hash (row\<lparr>pt_used_at := Some used_at\<rparr>) (id_platform_attempts s)\<rparr>))
              (returnS True))"

definition ip_create_connector_setup_attempt ::
  "uuid \<Rightarrow> string \<Rightarrow> string \<Rightarrow> uuid \<Rightarrow> time \<Rightarrow> (in_db, in_error, unit) oper" where
  "ip_create_connector_setup_attempt organization_id state_hash actor_subject configuration_id expires_at =
     seqS (ip_set_organization organization_id)
     (in_insertS (\<lambda>s. dget (id_connector_attempts s) state_hash \<noteq> None)
       (\<lambda>s. s\<lparr>id_connector_attempts := dset state_hash
          \<lparr>ct_organization_id = organization_id, ct_actor_subject = actor_subject,
           ct_configuration_id = configuration_id, ct_expires_at = expires_at, ct_used_at = None\<rparr>
          (id_connector_attempts s)\<rparr>))"

definition ip_consume_connector_setup_attempt ::
  "time \<Rightarrow> uuid \<Rightarrow> string \<Rightarrow> string \<Rightarrow> time \<Rightarrow> (in_db, in_error, uuid option) oper" where
  "ip_consume_connector_setup_attempt used_at organization_id state_hash actor_subject now =
     seqS (ip_set_organization organization_id)
     (bindS (readS (\<lambda>s. row_of ct_organization_id (id_organization s) (id_connector_attempts s)
                          state_hash)) (\<lambda>found.
      case found of
        None \<Rightarrow> returnS None
      | Some row \<Rightarrow>
          if ct_organization_id row \<noteq> organization_id \<or> ct_actor_subject row \<noteq> actor_subject \<or>
             ct_used_at row \<noteq> None \<or> ct_expires_at row \<le> now
          then returnS None
          else seqS (writeS (\<lambda>s. s\<lparr>id_connector_attempts :=
                 dset state_hash (row\<lparr>ct_used_at := Some used_at\<rparr>) (id_connector_attempts s)\<rparr>))
               (returnS (Some (ct_configuration_id row)))))"

definition ip_redeem_source_capability ::
  "time \<Rightarrow> uuid \<Rightarrow> string \<Rightarrow> time \<Rightarrow> (in_db, in_error, bool) oper" where
  "ip_redeem_source_capability redeemed_at organization_id capability_id expires_at =
     seqS (ip_set_organization organization_id)
     (bindS (readS (\<lambda>s. row_of rd_organization_id (id_organization s) (id_redemptions s) capability_id))
      (\<lambda>existing.
      if existing \<noteq> None then returnS False
      else seqS (in_insertS (\<lambda>s. dget (id_redemptions s) capability_id \<noteq> None)
             (\<lambda>s. s\<lparr>id_redemptions := dset capability_id \<lparr>rd_organization_id = organization_id,
                  rd_expires_at = expires_at, rd_redeemed_at = redeemed_at\<rparr> (id_redemptions s)\<rparr>))
           (returnS True)))"

section \<open>Model credentials\<close>

definition ip_add_model_credential ::
  "time \<Rightarrow> uuid \<Rightarrow> uuid \<Rightarrow> string \<Rightarrow> string \<Rightarrow> secret_reference \<Rightarrow> string \<Rightarrow>
     (in_db, in_error, credential_row) oper" where
  "ip_add_model_credential now credential_id organization_id provider display_name reference
     idempotency_key =
     seqS (ip_set_organization organization_id)
     (bindS (readS (\<lambda>s. find (\<lambda>c. mc_organization_id c = organization_id \<and>
                mc_idempotency_key c = idempotency_key)
                (visible mc_organization_id (id_organization s) (id_credentials s)))) (\<lambda>existing.
      case existing of
        Some row \<Rightarrow> returnS row
      | None \<Rightarrow>
          let row = \<lparr>mc_id = credential_id, mc_organization_id = organization_id,
                     mc_provider = provider, mc_display_name = display_name,
                     mc_secret_reference = dump_secret_reference reference,
                     mc_idempotency_key = idempotency_key, mc_status = ''ACTIVE'',
                     mc_created_at = now, mc_revoked_at = None\<rparr> in
          seqS (in_insertS (\<lambda>s. dget (id_credentials s) credential_id \<noteq> None \<or>
                  (\<exists>c \<in> set (dvals (id_credentials s)). mc_organization_id c = organization_id \<and>
                     mc_idempotency_key c = idempotency_key))
                (\<lambda>s. s\<lparr>id_credentials := dset credential_id row (id_credentials s)\<rparr>))
          (returnS row)))"

definition ip_list_model_credentials :: "uuid \<Rightarrow> (in_db, in_error, credential_row list) oper" where
  "ip_list_model_credentials organization_id =
     seqS (ip_set_organization organization_id)
     (readS (\<lambda>s. sort_key mc_created_at
        (visible mc_organization_id (id_organization s) (id_credentials s))))"

definition ip_get_model_credential ::
  "uuid \<Rightarrow> uuid \<Rightarrow> (in_db, in_error, credential_row option) oper" where
  "ip_get_model_credential organization_id credential_id =
     seqS (ip_set_organization organization_id)
     (readS (\<lambda>s. owned mc_organization_id organization_id
        (row_of mc_organization_id (id_organization s) (id_credentials s) credential_id)))"

definition ip_revoke_model_credential ::
  "time \<Rightarrow> uuid \<Rightarrow> uuid \<Rightarrow> (in_db, in_error, credential_row option) oper" where
  "ip_revoke_model_credential now organization_id credential_id =
     bindS (ip_get_model_credential organization_id credential_id) (\<lambda>found.
     case found of
       None \<Rightarrow> returnS None
     | Some row \<Rightarrow>
         if mc_status row \<noteq> ''REVOKED'' then
           let row' = row\<lparr>mc_status := ''REVOKED'', mc_revoked_at := Some now\<rparr> in
           seqS (writeS (\<lambda>s. s\<lparr>id_credentials := dset credential_id row' (id_credentials s)\<rparr>))
           (returnS (Some row'))
         else returnS (Some row))"

section \<open>Configurations\<close>

definition configuration_row_of :: "source_control_configuration \<Rightarrow> in_configuration_row" where
  "configuration_row_of c =
     \<lparr>cw_id = sc_id c, cw_display_name = sc_display_name c, cw_provider = sc_provider c,
      cw_web_base_url = sc_web_base_url c, cw_api_base_url = sc_api_base_url c,
      cw_api_version = sc_api_version c, cw_app_id = sc_app_id c, cw_client_id = sc_client_id c,
      cw_app_slug = sc_app_slug c, cw_private_key_reference = sc_private_key_reference c,
      cw_client_secret_reference = sc_client_secret_reference c,
      cw_webhook_secret_reference = sc_webhook_secret_reference c,
      cw_webhook_mode = webhook_mode_value (sc_webhook_mode c), cw_enabled = sc_enabled c,
      cw_health = configuration_health_value (sc_health c), cw_created_at = sc_created_at c\<rparr>"

definition configuration_of_row :: "in_configuration_row \<Rightarrow> in_error + source_control_configuration" where
  "configuration_of_row row =
     (case WebhookMode (cw_webhook_mode row) of
        None \<Rightarrow> Inl (InValueE ''not a valid WebhookMode'')
      | Some mode \<Rightarrow>
          (case ConfigurationHealth (cw_health row) of
             None \<Rightarrow> Inl (InValueE ''not a valid ConfigurationHealth'')
           | Some health \<Rightarrow> Inr
               \<lparr>sc_id = cw_id row, sc_display_name = cw_display_name row, sc_provider = cw_provider row,
                sc_web_base_url = cw_web_base_url row, sc_api_base_url = cw_api_base_url row,
                sc_api_version = cw_api_version row, sc_app_id = cw_app_id row,
                sc_client_id = cw_client_id row, sc_app_slug = cw_app_slug row,
                sc_private_key_reference = cw_private_key_reference row,
                sc_client_secret_reference = cw_client_secret_reference row,
                sc_webhook_secret_reference = cw_webhook_secret_reference row,
                sc_webhook_mode = mode, sc_enabled = cw_enabled row, sc_health = health,
                sc_created_at = cw_created_at row\<rparr>))"

text \<open>\<open>self._configuration(row) if row else None\<close>, and the same for the other two row types.\<close>

definition read_optional :: "('r \<Rightarrow> in_error + 'a) \<Rightarrow> 'r option \<Rightarrow> ('s, in_error, 'a option) oper" where
  "read_optional decode found =
     (case found of None \<Rightarrow> returnS None | Some row \<Rightarrow> liftS (map_sum id Some (decode row)))"

text \<open>\<open>tuple(self._configuration(row) for row in rows)\<close>.\<close>

fun read_all :: "('r \<Rightarrow> in_error + 'a) \<Rightarrow> 'r list \<Rightarrow> in_error + 'a list" where
  "read_all decode [] = Inr []"
| "read_all decode (row # rows) =
     (case decode row of
        Inl e \<Rightarrow> Inl e
      | Inr a \<Rightarrow> (case read_all decode rows of Inl e \<Rightarrow> Inl e | Inr as \<Rightarrow> Inr (a # as)))"

definition ip_add_source_control_configuration ::
  "source_control_configuration \<Rightarrow> (in_db, in_error, unit) oper" where
  "ip_add_source_control_configuration c =
     in_insertS (\<lambda>s. dget (id_configurations s) (sc_id c) \<noteq> None \<or>
         (\<exists>row \<in> set (dvals (id_configurations s)).
            cw_provider row = sc_provider c \<and> cw_app_id row = sc_app_id c))
       (\<lambda>s. s\<lparr>id_configurations := dset (sc_id c) (configuration_row_of c) (id_configurations s)\<rparr>)"

definition ip_get_source_control_configuration ::
  "uuid \<Rightarrow> (in_db, in_error, source_control_configuration option) oper" where
  "ip_get_source_control_configuration configuration_id =
     bindS (readS (\<lambda>s. dget (id_configurations s) configuration_id)) (read_optional configuration_of_row)"

definition ip_source_control_configuration_for_app_id ::
  "string \<Rightarrow> string \<Rightarrow> (in_db, in_error, source_control_configuration option) oper" where
  "ip_source_control_configuration_for_app_id provider app_id =
     bindS (readS (\<lambda>s. find (\<lambda>row. cw_provider row = provider \<and> cw_app_id row = app_id)
                          (dvals (id_configurations s)))) (read_optional configuration_of_row)"

definition ip_list_source_control_configurations ::
  "(in_db, in_error, source_control_configuration list) oper" where
  "ip_list_source_control_configurations =
     bindS (readS (\<lambda>s. dvals (id_configurations s))) (\<lambda>rows. liftS (read_all configuration_of_row rows))"

definition ip_update_source_control_configuration_health ::
  "uuid \<Rightarrow> string \<Rightarrow> bool \<Rightarrow> (in_db, in_error, unit) oper" where
  "ip_update_source_control_configuration_health configuration_id health enabled =
     bindS (readS (\<lambda>s. dget (id_configurations s) configuration_id)) (\<lambda>found.
     case found of
       None \<Rightarrow> returnS ()
     | Some row \<Rightarrow> writeS (\<lambda>s. s\<lparr>id_configurations := dset configuration_id
           (row\<lparr>cw_health := health, cw_enabled := enabled\<rparr>) (id_configurations s)\<rparr>))"

definition ip_record_platform_audit :: "platform_audit \<Rightarrow> (in_db, in_error, unit) oper" where
  "ip_record_platform_audit a = writeS (\<lambda>s. s\<lparr>id_platform_audits := id_platform_audits s @ [a]\<rparr>)"

section \<open>Memberships and the inbox\<close>

definition ip_role_for :: "uuid \<Rightarrow> string \<Rightarrow> (in_db, in_error, string option) oper" where
  "ip_role_for organization_id subject =
     seqS (ip_set_organization organization_id)
     (readS (\<lambda>s. map_option mm_role
        (find (\<lambda>m. mm_organization_id m = organization_id \<and> mm_subject m = subject \<and> mm_active m)
          (visible mm_organization_id (id_organization s) (id_memberships s)))))"

definition ip_upsert_membership ::
  "uuid \<Rightarrow> string \<Rightarrow> string \<Rightarrow> bool \<Rightarrow> (in_db, in_error, unit) oper" where
  "ip_upsert_membership organization_id subject r active =
     seqS (ip_set_organization organization_id)
     (bindS (readS (\<lambda>s. row_of mm_organization_id (id_organization s) (id_memberships s)
                (organization_id, subject))) (\<lambda>found.
      case found of
        Some row \<Rightarrow> writeS (\<lambda>s. s\<lparr>id_memberships := dset (organization_id, subject)
                       (row\<lparr>mm_role := r, mm_active := active\<rparr>) (id_memberships s)\<rparr>)
      | None \<Rightarrow> in_insertS (\<lambda>s. dget (id_memberships s) (organization_id, subject) \<noteq> None)
          (\<lambda>s. s\<lparr>id_memberships := dset (organization_id, subject)
             \<lparr>mm_organization_id = organization_id, mm_subject = subject, mm_role = r,
              mm_active = active\<rparr> (id_memberships s)\<rparr>)))"

definition ip_record_inbox :: "uuid \<Rightarrow> uuid \<Rightarrow> string \<Rightarrow> (in_db, in_error, bool) oper" where
  "ip_record_inbox event_id organization_id event_type =
     seqS (ip_set_organization organization_id)
     (bindS (readS (\<lambda>s. row_of ib_organization_id (id_organization s) (id_inbox s) event_id)) (\<lambda>found.
      if found \<noteq> None then returnS False
      else seqS (in_insertS (\<lambda>s. dget (id_inbox s) event_id \<noteq> None)
             (\<lambda>s. s\<lparr>id_inbox := dset event_id \<lparr>ib_organization_id = organization_id,
                  ib_event_type = event_type\<rparr> (id_inbox s)\<rparr>))
           (returnS True)))"

section \<open>Installations\<close>

definition installation_row_of :: "connector_installation \<Rightarrow> installation_row" where
  "installation_row_of i =
     \<lparr>iw_id = ci_id i, iw_organization_id = ci_organization_id i, iw_provider = ci_provider i,
      iw_external_account_id = ci_external_account_id i, iw_account_login = ci_account_login i,
      iw_requested_permissions = ci_requested_permissions i,
      iw_is_development_substitute = ci_is_development_substitute i,
      iw_provider_configuration_id = ci_provider_configuration_id i,
      iw_granted_permissions = ci_granted_permissions i,
      iw_repository_selection = ci_repository_selection i,
      iw_last_reconciled_at = ci_last_reconciled_at i,
      iw_status = installation_status_value (ci_status i), iw_created_at = ci_created_at i\<rparr>"

definition installation_of_row :: "installation_row \<Rightarrow> in_error + connector_installation" where
  "installation_of_row row =
     (case InstallationStatus (iw_status row) of
        None \<Rightarrow> Inl (InValueE ''not a valid InstallationStatus'')
      | Some status \<Rightarrow> Inr
          \<lparr>ci_id = iw_id row, ci_organization_id = iw_organization_id row,
           ci_provider = iw_provider row, ci_external_account_id = iw_external_account_id row,
           ci_account_login = iw_account_login row,
           ci_requested_permissions = iw_requested_permissions row,
           ci_is_development_substitute = iw_is_development_substitute row,
           ci_provider_configuration_id = iw_provider_configuration_id row,
           ci_granted_permissions = iw_granted_permissions row,
           ci_repository_selection = iw_repository_selection row,
           ci_last_reconciled_at = iw_last_reconciled_at row, ci_status = status,
           ci_created_at = iw_created_at row\<rparr>)"

definition ip_add_installation :: "connector_installation \<Rightarrow> (in_db, in_error, unit) oper" where
  "ip_add_installation i =
     seqS (ip_set_organization (ci_organization_id i))
     (seqS (in_insertS (\<lambda>s. dget (id_installations s) (ci_id i) \<noteq> None)
        (\<lambda>s. s\<lparr>id_installations := dset (ci_id i) (installation_row_of i) (id_installations s)\<rparr>))
     (in_insertS (\<lambda>s. dget (id_routes s) (ci_provider i, ci_external_account_id i) \<noteq> None)
        (\<lambda>s. s\<lparr>id_routes := dset (ci_provider i, ci_external_account_id i)
           (ci_organization_id i, ci_id i) (id_routes s)\<rparr>)))"

definition ip_get_installation ::
  "uuid \<Rightarrow> uuid \<Rightarrow> (in_db, in_error, connector_installation option) oper" where
  "ip_get_installation organization_id installation_id =
     seqS (ip_set_organization organization_id)
     (bindS (readS (\<lambda>s. row_of iw_organization_id (id_organization s) (id_installations s) installation_id))
       (read_optional installation_of_row))"

definition ip_organization_for_external_installation ::
  "string \<Rightarrow> string \<Rightarrow> (in_db, in_error, uuid option) oper" where
  "ip_organization_for_external_installation provider external_account_id =
     readS (\<lambda>s. map_option fst (dget (id_routes s) (provider, external_account_id)))"

definition ip_installation_for_external ::
  "uuid \<Rightarrow> string \<Rightarrow> string \<Rightarrow> (in_db, in_error, connector_installation option) oper" where
  "ip_installation_for_external organization_id provider external_account_id =
     seqS (ip_set_organization organization_id)
     (bindS (readS (\<lambda>s. find (\<lambda>row. iw_organization_id row = organization_id \<and>
                iw_provider row = provider \<and> iw_external_account_id row = external_account_id)
                (visible iw_organization_id (id_organization s) (id_installations s))))
       (read_optional installation_of_row))"

definition ip_list_installation_routes :: "(in_db, in_error, (uuid \<times> uuid) list) oper" where
  "ip_list_installation_routes = readS (\<lambda>s. dvals (id_routes s))"

definition ip_update_installation :: "connector_installation \<Rightarrow> (in_db, in_error, unit) oper" where
  "ip_update_installation i =
     seqS (ip_set_organization (ci_organization_id i))
     (bindS (readS (\<lambda>s. row_of iw_organization_id (id_organization s) (id_installations s) (ci_id i)))
      (\<lambda>found. case found of
          None \<Rightarrow> returnS ()
        | Some row \<Rightarrow> writeS (\<lambda>s. s\<lparr>id_installations := dset (ci_id i)
            (row\<lparr>iw_status := installation_status_value (ci_status i)\<rparr>) (id_installations s)\<rparr>)))"

section \<open>Repository connections\<close>

definition repository_row_of :: "repository_connection \<Rightarrow> repository_row" where
  "repository_row_of r =
     \<lparr>yw_id = rc_id r, yw_organization_id = rc_organization_id r,
      yw_installation_id = rc_installation_id r,
      yw_external_repository_id = rc_external_repository_id r, yw_owner = rc_owner r,
      yw_name = rc_name r, yw_default_branch = rc_default_branch r,
      yw_clone_locator = rc_clone_locator r, yw_is_private = rc_is_private r,
      yw_is_development_substitute = rc_is_development_substitute r,
      yw_access_status = repository_access_status_value (rc_access_status r),
      yw_last_seen_at = rc_last_seen_at r, yw_revoked_at = rc_revoked_at r,
      yw_created_at = rc_created_at r\<rparr>"

definition repository_of_row :: "repository_row \<Rightarrow> in_error + repository_connection" where
  "repository_of_row row =
     (case RepositoryAccessStatus (yw_access_status row) of
        None \<Rightarrow> Inl (InValueE ''not a valid RepositoryAccessStatus'')
      | Some status \<Rightarrow> Inr
          \<lparr>rc_id = yw_id row, rc_organization_id = yw_organization_id row,
           rc_installation_id = yw_installation_id row,
           rc_external_repository_id = yw_external_repository_id row, rc_owner = yw_owner row,
           rc_name = yw_name row, rc_default_branch = yw_default_branch row,
           rc_clone_locator = yw_clone_locator row, rc_is_private = yw_is_private row,
           rc_is_development_substitute = yw_is_development_substitute row,
           rc_access_status = status, rc_last_seen_at = yw_last_seen_at row,
           rc_revoked_at = yw_revoked_at row, rc_created_at = yw_created_at row\<rparr>)"

definition repository_key :: "repository_row \<Rightarrow> uuid \<times> uuid \<times> string" where
  "repository_key row = (yw_organization_id row, yw_installation_id row, yw_external_repository_id row)"

definition ip_add_repository :: "repository_connection \<Rightarrow> (in_db, in_error, unit) oper" where
  "ip_add_repository r =
     seqS (ip_set_organization (rc_organization_id r))
     (in_insertS (\<lambda>s. dget (id_repositories s) (rc_id r) \<noteq> None \<or>
         (\<exists>row \<in> set (dvals (id_repositories s)). repository_key row = repository_key (repository_row_of r)))
       (\<lambda>s. s\<lparr>id_repositories := dset (rc_id r) (repository_row_of r) (id_repositories s)\<rparr>))"

definition refreshed_row :: "repository_connection \<Rightarrow> repository_row \<Rightarrow> repository_row" where
  "refreshed_row r row = row
     \<lparr>yw_owner := rc_owner r, yw_name := rc_name r, yw_default_branch := rc_default_branch r,
      yw_clone_locator := rc_clone_locator r, yw_is_private := rc_is_private r,
      yw_access_status := repository_access_status_value (rc_access_status r),
      yw_last_seen_at := rc_last_seen_at r, yw_revoked_at := rc_revoked_at r\<rparr>"

definition ip_upsert_repository :: "repository_connection \<Rightarrow> (in_db, in_error, unit) oper" where
  "ip_upsert_repository r =
     seqS (ip_set_organization (rc_organization_id r))
     (bindS (readS (\<lambda>s. find (\<lambda>row. repository_key row = repository_key (repository_row_of r))
                (visible yw_organization_id (id_organization s) (id_repositories s)))) (\<lambda>found.
      case found of
        None \<Rightarrow> ip_add_repository r
      | Some row \<Rightarrow> writeS (\<lambda>s. s\<lparr>id_repositories :=
          dset (yw_id row) (refreshed_row r row) (id_repositories s)\<rparr>)))"

definition revoked_row :: "time \<Rightarrow> repository_row \<Rightarrow> repository_row" where
  "revoked_row revoked_at row =
     row\<lparr>yw_access_status := repository_access_status_value RA_REVOKED, yw_revoked_at := Some revoked_at\<rparr>"

definition ip_revoke_repositories_except ::
  "uuid \<Rightarrow> uuid \<Rightarrow> string list \<Rightarrow> time \<Rightarrow> (in_db, in_error, unit) oper" where
  "ip_revoke_repositories_except organization_id installation_id active_external_ids revoked_at =
     seqS (ip_set_organization organization_id)
     (writeS (\<lambda>s. s\<lparr>id_repositories := map (\<lambda>(k, row).
        (k, if id_organization s = Some (yw_organization_id row) \<and>
               yw_installation_id row = installation_id \<and>
               yw_external_repository_id row \<notin> set active_external_ids
            then revoked_row revoked_at row else row)) (id_repositories s)\<rparr>))"

definition ip_get_repository ::
  "uuid \<Rightarrow> uuid \<Rightarrow> (in_db, in_error, repository_connection option) oper" where
  "ip_get_repository organization_id repository_id =
     seqS (ip_set_organization organization_id)
     (bindS (readS (\<lambda>s. row_of yw_organization_id (id_organization s) (id_repositories s) repository_id))
       (read_optional repository_of_row))"

definition ip_list_repositories :: "uuid \<Rightarrow> (in_db, in_error, repository_connection list) oper" where
  "ip_list_repositories organization_id =
     seqS (ip_set_organization organization_id)
     (bindS (readS (\<lambda>s. visible yw_organization_id (id_organization s) (id_repositories s)))
       (\<lambda>rows. liftS (read_all repository_of_row rows)))"

section \<open>Webhook deliveries and audit\<close>

text \<open>The unique key of a delivery spans all organizations; the policy hides foreign rows.\<close>

definition ip_record_webhook_delivery :: "webhook_delivery \<Rightarrow> (in_db, in_error, bool) oper" where
  "ip_record_webhook_delivery d =
     (case wh_organization_id d of
        None \<Rightarrow> returnS False
      | Some organization_id \<Rightarrow>
          seqS (ip_set_organization organization_id)
          (bindS (readS (\<lambda>s. \<exists>row \<in> set (id_webhooks s). wh_organization_id row \<noteq> None \<and>
                    wh_organization_id row = id_organization s \<and>
                    wh_provider row = wh_provider d \<and> wh_delivery_id row = wh_delivery_id d)) (\<lambda>seen.
           if seen then returnS False
           else seqS (in_insertS (\<lambda>s. \<exists>row \<in> set (id_webhooks s).
                    wh_provider row = wh_provider d \<and> wh_delivery_id row = wh_delivery_id d)
                  (\<lambda>s. s\<lparr>id_webhooks := id_webhooks s @ [d]\<rparr>))
                (returnS True))))"

definition ip_record_audit :: "in_audit \<Rightarrow> (in_db, in_error, unit) oper" where
  "ip_record_audit a =
     seqS (ip_set_organization (ia_organization_id a))
     (writeS (\<lambda>s. s\<lparr>id_audits := id_audits s @ [a]\<rparr>))"

definition PostgresIntegrationRepository :: "in_db in_repository" where
  "PostgresIntegrationRepository =
     \<lparr>ir_create_platform_setup_attempt = ip_create_platform_setup_attempt,
      ir_consume_platform_setup_attempt = ip_consume_platform_setup_attempt,
      ir_create_connector_setup_attempt = ip_create_connector_setup_attempt,
      ir_consume_connector_setup_attempt = ip_consume_connector_setup_attempt,
      ir_redeem_source_capability = ip_redeem_source_capability,
      ir_add_source_control_configuration = ip_add_source_control_configuration,
      ir_get_source_control_configuration = ip_get_source_control_configuration,
      ir_source_control_configuration_for_app_id = ip_source_control_configuration_for_app_id,
      ir_list_source_control_configurations = ip_list_source_control_configurations,
      ir_update_source_control_configuration_health = ip_update_source_control_configuration_health,
      ir_record_platform_audit = ip_record_platform_audit,
      ir_add_installation = ip_add_installation, ir_get_installation = ip_get_installation,
      ir_organization_for_external_installation = ip_organization_for_external_installation,
      ir_installation_for_external = ip_installation_for_external,
      ir_list_installation_routes = ip_list_installation_routes,
      ir_update_installation = ip_update_installation, ir_add_repository = ip_add_repository,
      ir_upsert_repository = ip_upsert_repository,
      ir_revoke_repositories_except = ip_revoke_repositories_except,
      ir_get_repository = ip_get_repository, ir_list_repositories = ip_list_repositories,
      ir_record_webhook_delivery = ip_record_webhook_delivery, ir_record_audit = ip_record_audit\<rparr>"

section \<open>Round trips\<close>

lemma integration_rows_roundtrip:
  "configuration_of_row (configuration_row_of c) = Inr c"
  "installation_of_row (installation_row_of i) = Inr i"
  "repository_of_row (repository_row_of r) = Inr r"
  by (simp_all add: configuration_of_row_def configuration_row_of_def installation_of_row_def
      installation_row_of_def repository_of_row_def repository_row_of_def)

lemma read_optional_iff:
  "read_optional f found s = (Inr x, s') \<longleftrightarrow>
     s' = s \<and> (case found of None \<Rightarrow> x = None | Some row \<Rightarrow> (\<exists>a. f row = Inr a \<and> x = Some a))"
  by (auto simp: read_optional_def oper_defs split: option.splits sum.splits)
     (metis Inl_Inr_False map_sum.simps sum.exhaust id_apply Inr_inject)+

end
