(* ===== verification/InAdapters.thy ===== *)
theory InAdapters
  imports InPostgres
begin

text \<open>
  The adapters of the integrations service beside the database:
  \<open>adapters/local_source_control.py\<close>, \<open>adapters/encrypted_file_secrets.py\<close> and
  \<open>adapters/github.py\<close>, and the state of a process that has all of them.

  Parameters stand for what lies outside: the GitHub server (\<open>en_server\<close>, what it answers to a
  request after the requests before), the ciphers and signatures of the cryptography libraries,
  what the file system resolves a path to, and the clock \<open>en_clock\<close>, read before a request.
  Bytes are strings of characters; a file holds the JSON document written to it, and a write
  that fails half way is not modelled.
\<close>

section \<open>Bytes\<close>

text \<open>\<open>str.encode()\<close> and \<open>bytes.decode()\<close> (UTF-8) on the first 256 code points.\<close>

definition utf8_char :: "char \<Rightarrow> string" where
  "utf8_char c =
     (let n = (of_char c :: nat) in
      if n < 128 then [c] else [char_of (192 + n div 64), char_of (128 + n mod 64)])"

definition utf8 :: "string \<Rightarrow> string" where
  "utf8 s = concat (map utf8_char s)"

fun utf8_decode :: "string \<Rightarrow> string option" where
  "utf8_decode [] = Some []"
| "utf8_decode (c # cs) =
     (if (of_char c :: nat) < 128 then map_option ((#) c) (utf8_decode cs)
      else
        (case cs of
           [] \<Rightarrow> None
         | d # ds \<Rightarrow>
             if (194 \<le> (of_char c :: nat) \<and> (of_char c :: nat) \<le> 195) \<and>
                128 \<le> (of_char d :: nat) \<and> (of_char d :: nat) < 192
             then map_option ((#) (char_of (64 * ((of_char c :: nat) - 192) + ((of_char d :: nat) - 128))))
                    (utf8_decode ds)
             else None))"

lemma utf8_roundtrip: "utf8_decode (utf8 s) = Some s"
proof (induction s)
  case Nil
  then show ?case by (simp add: utf8_def)
next
  case (Cons c s)
  let ?n = "of_char c :: nat"
  have lt: "?n < 256" by (metis of_char_mod_256 mod_less_divisor zero_less_numeral)
  show ?case
  proof (cases "?n < 128")
    case True
    then show ?thesis using Cons by (simp add: utf8_def utf8_char_def)
  next
    case False
    have lead: "of_char (char_of (192 + ?n div 64) :: char) = 192 + ?n div 64"
      using less_mult_imp_div_less [of ?n 4 64] lt by (simp add: take_bit_eq_mod)
    have cont: "of_char (char_of (128 + ?n mod 64) :: char) = 128 + ?n mod 64"
      by (simp add: take_bit_eq_mod)
    have "2 \<le> ?n div 64 \<and> ?n div 64 \<le> 3"
      using div_le_mono [of 128 ?n 64] less_mult_imp_div_less [of ?n 4 64] False lt by simp
    then show ?thesis
      using Cons False lead cont by (auto simp: utf8_def utf8_char_def Let_def mult.commute)
  qed
qed

text \<open>\<open>bytes.hex()\<close> and \<open>bytes.fromhex()\<close>, which skips white space between bytes.\<close>

definition hex_of_bytes :: "string \<Rightarrow> string" where
  "hex_of_bytes s = concat (map (\<lambda>c. hexn 2 (of_char c)) s)"

definition is_blank :: "char \<Rightarrow> bool" where
  "is_blank c \<longleftrightarrow> (9 \<le> (of_char c :: nat) \<and> (of_char c :: nat) \<le> 13) \<or> c = CHR '' ''"

fun bytes_of_hex :: "string \<Rightarrow> string option" where
  "bytes_of_hex [] = Some []"
| "bytes_of_hex (c # cs) =
     (if is_blank c then bytes_of_hex cs
      else
        (case cs of
           [] \<Rightarrow> None
         | d # ds \<Rightarrow>
             (case (hex_value c, hex_value d) of
                (Some a, Some b) \<Rightarrow> map_option ((#) (char_of (16 * a + b))) (bytes_of_hex ds)
              | _ \<Rightarrow> None)))"

lemma bytes_of_hex_pair:
  "hex_value c = Some a \<Longrightarrow> hex_value d = Some b \<Longrightarrow>
     bytes_of_hex (c # d # t) = map_option ((#) (char_of (16 * a + b))) (bytes_of_hex t)"
proof -
  assume c: "hex_value c = Some a" and d: "hex_value d = Some b"
  have "\<not> is_blank c" using c by (auto simp: is_blank_def hex_value_def Let_def split: if_splits)
  then show ?thesis using c d by simp
qed

lemma hex_roundtrip: "bytes_of_hex (hex_of_bytes s) = Some s"
proof (induction s)
  case Nil
  then show ?case by (simp add: hex_of_bytes_def)
next
  case (Cons c s)
  let ?n = "of_char c :: nat"
  have lt: "?n < 256" by (metis of_char_mod_256 mod_less_divisor zero_less_numeral)
  have two: "hexn 2 ?n = [digit_char (?n div 16 mod 16), digit_char (?n mod 16)]"
    by (simp add: numeral_2_eq_2)
  have a: "hex_value (digit_char (?n div 16 mod 16)) = Some (?n div 16)"
    using lt by (simp add: hex_value_digit_char less_mult_imp_div_less)
  have b: "hex_value (digit_char (?n mod 16)) = Some (?n mod 16)"
    by (simp add: hex_value_digit_char)
  have "hex_of_bytes (c # s) =
      digit_char (?n div 16 mod 16) # digit_char (?n mod 16) # hex_of_bytes s"
    by (simp add: hex_of_bytes_def two)
  moreover have "16 * (?n div 16) + ?n mod 16 = ?n" by simp
  ultimately show ?case
    using Cons by (simp only: bytes_of_hex_pair [OF a b]) simp
qed

section \<open>The state and the environment of the service\<close>

record local_source_control =
  lc_pull_requests :: "(string, pull_request_result) dict"
  lc_comments :: "(string, string) dict list"
  lc_check_runs :: "(string, (string, string) dict) dict"

record http_request =
  hq_method :: string
  hq_url :: string
  hq_headers :: "(string, string) dict"
  hq_params :: "(string, json) dict"
  hq_json :: "json option"
  hq_data :: "(string, string) dict"

text \<open>An answer: a status with a JSON body (\<open>None\<close> where it is not JSON), or no answer at all.\<close>

datatype http_result = TransportFailure | HttpResponse nat "json option"

record in_world =
  wo_db :: in_db
  wo_files :: "(string list, json) dict"
  wo_local :: local_source_control
  wo_requests :: "http_request list"

record in_env =
  en_server :: "http_request list \<Rightarrow> http_request \<Rightarrow> http_result"
  en_clock :: "nat \<Rightarrow> time"
  en_rs256 :: "(string \<times> json) list \<Rightarrow> string \<Rightarrow> string option"
  en_encrypt :: "string \<Rightarrow> string \<Rightarrow> string \<Rightarrow> string \<Rightarrow> string"
  en_decrypt :: "string \<Rightarrow> string \<Rightarrow> string \<Rightarrow> string \<Rightarrow> string option"
  en_resolve :: "string list \<Rightarrow> string list"
  en_repr :: "json \<Rightarrow> string"

text \<open>An operation on one part of the state, as an operation on the whole.\<close>

definition onS ::
  "('w \<Rightarrow> 's) \<Rightarrow> (('s \<Rightarrow> 's) \<Rightarrow> 'w \<Rightarrow> 'w) \<Rightarrow> ('s, 'e, 'a) oper \<Rightarrow> ('w, 'e, 'a) oper" where
  "onS get upd m w = (case m (get w) of (r, s') \<Rightarrow> (r, upd (\<lambda>_. s') w))"

abbreviation on_db :: "(in_db, in_error, 'a) oper \<Rightarrow> (in_world, in_error, 'a) oper" where
  "on_db \<equiv> onS wo_db wo_db_update"

abbreviation on_local :: "(local_source_control, in_error, 'a) oper \<Rightarrow> (in_world, in_error, 'a) oper" where
  "on_local \<equiv> onS wo_local wo_local_update"

lemma onS_iff: "onS get upd m w = (r, w') \<longleftrightarrow> (\<exists>s'. m (get w) = (r, s') \<and> w' = upd (\<lambda>_. s') w)"
  by (auto simp: onS_def split: prod.splits)

lemma preserves_onS: "(\<And>g w. f (upd g w) = f w) \<Longrightarrow> preserves f (onS get upd m)"
  by (simp add: preserves_def onS_def split: prod.splits)

section \<open>The local source control\<close>

definition ls_repositories ::
  "string \<Rightarrow> (local_source_control, in_error, repository_descriptor list) oper" where
  "ls_repositories external_account_id = returnS
     [\<lparr>de_external_id = ''local-'' @ external_account_id @ ''-sample'',
       de_owner = external_account_id, de_name = ''sample-webapp'', de_default_branch = ''main'',
       de_clone_locator = ''file:///fixtures/sample-webapp.git'', de_is_private = True\<rparr>]"

definition ls_create_pull_request ::
  "connector_installation \<Rightarrow> repository_connection \<Rightarrow> string \<Rightarrow> string \<Rightarrow> string \<Rightarrow> string \<Rightarrow> string \<Rightarrow>
     (local_source_control, in_error, pull_request_result) oper" where
  "ls_create_pull_request installation repository title body head_branch base_branch idempotency_key =
     bindS (readS (\<lambda>s. dget (lc_pull_requests s) idempotency_key)) (\<lambda>existing.
     case existing of
       Some result \<Rightarrow> returnS result
     | None \<Rightarrow>
         bindS (readS (\<lambda>s. length (lc_pull_requests s) + 1)) (\<lambda>number.
         bindS (liftS (map_sum InValueE id (ExternalReference ''github-local''
                  (ci_external_account_id installation) (Some (full_name repository))
                  ''pull_request'' (str_nat number)))) (\<lambda>reference.
         let result = \<lparr>pq_reference = reference, pq_title = title,
                       pq_url = ''http://localhost:3000/dev/github/pulls/'' @ str_nat number,
                       pq_head_branch = head_branch, pq_base_branch = base_branch,
                       pq_is_development_substitute = True\<rparr> in
         seqS (writeS (\<lambda>s. s\<lparr>lc_pull_requests := dset idempotency_key result (lc_pull_requests s)\<rparr>))
         (returnS result))))"

definition ls_add_comment ::
  "uuid \<Rightarrow> connector_installation \<Rightarrow> string \<Rightarrow> string \<Rightarrow> string \<Rightarrow>
     (local_source_control, in_error, unit) oper" where
  "ls_add_comment comment_id installation external_reference_id body idempotency_key =
     writeS (\<lambda>s. s\<lparr>lc_comments := lc_comments s @
       [[(''installation_id'', str_uuid (ci_id installation)),
         (''external_reference_id'', external_reference_id), (''body'', body),
         (''idempotency_key'', idempotency_key), (''comment_id'', str_uuid comment_id)]]\<rparr>)"

definition ls_create_check_run ::
  "connector_installation \<Rightarrow> repository_connection \<Rightarrow> string \<Rightarrow> string \<Rightarrow> string \<Rightarrow> string \<Rightarrow>
     (local_source_control, in_error, unit) oper" where
  "ls_create_check_run installation repository head_sha name summary idempotency_key =
     writeS (\<lambda>s. if dget (lc_check_runs s) idempotency_key \<noteq> None then s
       else s\<lparr>lc_check_runs := dset idempotency_key
         [(''repository'', full_name repository), (''head_sha'', head_sha), (''name'', name),
          (''summary'', summary)] (lc_check_runs s)\<rparr>)"

definition LocalSourceControl :: "in_world source_control_provider" where
  "LocalSourceControl =
     \<lparr>sp_provider_name = ''github-local'', sp_is_development_substitute = True,
      sp_repositories = (\<lambda>a. on_local (ls_repositories a)),
      sp_create_pull_request = (\<lambda>i r t b h d k. on_local (ls_create_pull_request i r t b h d k)),
      sp_add_comment = (\<lambda>c i x b k. on_local (ls_add_comment c i x b k)),
      sp_create_check_run = (\<lambda>i r h n s k. on_local (ls_create_check_run i r h n s k))\<rparr>"

section \<open>The encrypted secret store\<close>

record secret_store =
  ss_root :: "string list"
  ss_key :: string

definition EncryptedFileSecretStore ::
  "in_env \<Rightarrow> string list \<Rightarrow> string \<Rightarrow> in_error + secret_store" where
  "EncryptedFileSecretStore env root_path master_key =
     (if length master_key \<noteq> 32
      then Inl (InValueE ''secret master key must contain exactly 32 bytes'')
      else Inr \<lparr>ss_root = en_resolve env root_path, ss_key = master_key\<rparr>)"

text \<open>\<open>PurePath.stem\<close> and \<open>with_suffix\<close> of a path given by its parts.\<close>

definition stem :: "string \<Rightarrow> string" where
  "stem name =
     (let tail = rev (takeWhile (\<lambda>c. c \<noteq> CHR ''.'') (rev name));
          i = length name - length tail - 1 in
      if CHR ''.'' \<in> set name \<and> 0 < i \<and> tail \<noteq> [] then take i name else name)"

definition with_suffix :: "string list \<Rightarrow> string \<Rightarrow> string list" where
  "with_suffix path suffix = butlast path @ [stem (last path) @ suffix]"

definition is_relative_to :: "string list \<Rightarrow> string list \<Rightarrow> bool" where
  "is_relative_to path base \<longleftrightarrow> take (length base) path = base"

definition secret_parts :: "secret_reference \<Rightarrow> string list" where
  "secret_parts reference = split_on (CHR ''/'') (sr_namespace reference) @ [sr_key reference]"

definition unsafe_part :: "string \<Rightarrow> bool" where
  "unsafe_part part \<longleftrightarrow>
     part \<in> {[], ''.'', ''..''} \<or> CHR ''/'' \<in> set part \<or> char_of (92 :: nat) \<in> set part"

definition secret_path :: "in_env \<Rightarrow> secret_store \<Rightarrow> secret_reference \<Rightarrow> in_error + string list" where
  "secret_path env st reference =
     (if sr_store reference \<noteq> ''encrypted-file'' then Inl (InValueE ''unsupported secret store'')
      else if list_ex unsafe_part (secret_parts reference)
      then Inl (InValueE ''secret reference contains an unsafe path'')
      else
        let candidate = en_resolve env (with_suffix (ss_root st @ secret_parts reference) ''.json'') in
        if \<not> is_relative_to candidate (ss_root st)
        then Inl (InValueE ''secret reference escaped configured root'')
        else Inr candidate)"

definition secret_aad :: "secret_reference \<Rightarrow> string" where
  "secret_aad reference = utf8 (sr_store reference @ '':'' @ sr_namespace reference @ '':'' @
     sr_key reference @ '':'' @ (case sr_version reference of None \<Rightarrow> [] | Some v \<Rightarrow> v))"

definition secret_put ::
  "in_env \<Rightarrow> secret_store \<Rightarrow> string \<Rightarrow> secret_reference \<Rightarrow> string \<Rightarrow> (in_world, in_error, unit) oper" where
  "secret_put env st nonce reference value =
     bindS (liftS (secret_path env st reference)) (\<lambda>path.
     writeS (\<lambda>w. w\<lparr>wo_files := dset path
       (JObj [(''version'', JInt 1), (''nonce'', JStr (hex_of_bytes nonce)),
              (''ciphertext'', JStr (hex_of_bytes
                 (en_encrypt env (ss_key st) nonce value (secret_aad reference))))])
       (wo_files w)\<rparr>))"

text \<open>\<open>document.get("version") != 1\<close>: in Python \<open>True == 1 == 1.0\<close>.\<close>

definition is_one :: "json \<Rightarrow> bool" where
  "is_one j \<longleftrightarrow> j = JInt 1 \<or> j = JBool True \<or> j = JFloat 1"

text \<open>\<open>payload[key]\<close> of a decoded JSON value, and iterating over one.\<close>

definition json_item :: "json \<Rightarrow> string \<Rightarrow> in_error + json" where
  "json_item j key =
     (case j of
        JObj kvs \<Rightarrow> (case dget kvs key of None \<Rightarrow> Inl InKeyE | Some v \<Rightarrow> Inr v)
      | _ \<Rightarrow> Inl InTypeE)"

definition json_items :: "json \<Rightarrow> in_error + json list" where
  "json_items j =
     (case j of
        JList xs \<Rightarrow> Inr xs
      | JStr s \<Rightarrow> Inr (map (\<lambda>c. JStr [c]) s)
      | JObj kvs \<Rightarrow> Inr (map (\<lambda>kv. JStr (fst kv)) kvs)
      | _ \<Rightarrow> Inl InTypeE)"

definition hex_field :: "in_env \<Rightarrow> json \<Rightarrow> string \<Rightarrow> in_error + string" where
  "hex_field env document key =
     (case json_item document key of
        Inl e \<Rightarrow> Inl e
      | Inr v \<Rightarrow> (case bytes_of_hex (py_str (en_repr env) v) of
                    None \<Rightarrow> Inl (InValueE ''non-hexadecimal number found in fromhex() arg'')
                  | Some b \<Rightarrow> Inr b))"

definition secret_get ::
  "in_env \<Rightarrow> secret_store \<Rightarrow> secret_reference \<Rightarrow> (in_world, in_error, string) oper" where
  "secret_get env st reference =
     bindS (liftS (secret_path env st reference)) (\<lambda>path.
     bindS (readS (\<lambda>w. dget (wo_files w) path)) (\<lambda>found.
     bindS (requireS InFileE found) (\<lambda>document.
     case document of
       JObj kvs \<Rightarrow>
         if \<not> is_one (obj_get kvs ''version'')
         then raiseS (InValueE ''unsupported encrypted secret version'')
         else
           bindS (liftS (hex_field env document ''nonce'')) (\<lambda>nonce.
           bindS (liftS (hex_field env document ''ciphertext'')) (\<lambda>ciphertext.
           requireS InCryptoE
             (en_decrypt env (ss_key st) nonce ciphertext (secret_aad reference))))
     | _ \<Rightarrow> raiseS InAttributeE)))"

definition secret_delete ::
  "in_env \<Rightarrow> secret_store \<Rightarrow> secret_reference \<Rightarrow> (in_world, in_error, unit) oper" where
  "secret_delete env st reference =
     bindS (liftS (secret_path env st reference)) (\<lambda>path.
     writeS (\<lambda>w. w\<lparr>wo_files := AList.delete path (wo_files w)\<rparr>))"

end
