(* ===== verification/InGitHub.thy ===== *)
theory InGitHub
  imports InAdapters
begin

text \<open>
  \<open>adapters/github.py\<close>: the requests the service sends to GitHub and what it makes of the
  answers. A request carries the credential it was made with; every request is kept in
  \<open>wo_requests\<close> in the order sent. \<open>hmac\<close> is the hexadecimal HMAC-SHA256 digest.
\<close>

section \<open>Webhook signatures\<close>

text \<open>
  \<open>hmac.compare_digest\<close> of two strings: equality, and \<open>TypeError\<close> where one is not ASCII.
\<close>

definition is_ascii :: "string \<Rightarrow> bool" where
  "is_ascii s \<longleftrightarrow> list_all (\<lambda>c. (of_char c :: nat) < 128) s"

definition compare_digest :: "string \<Rightarrow> string \<Rightarrow> in_error + bool" where
  "compare_digest a b = (if is_ascii a \<and> is_ascii b then Inr (a = b) else Inl InTypeE)"

definition verify_webhook_signature ::
  "(string \<Rightarrow> string \<Rightarrow> string) \<Rightarrow> string \<Rightarrow> string \<Rightarrow> string \<Rightarrow> in_error + bool" where
  "verify_webhook_signature hmac body signature_header secret =
     (if \<not> startswith signature_header ''sha256='' then Inr False
      else
        let supplied = removeprefix signature_header ''sha256='' in
        if length supplied \<noteq> 64 then Inr False
        else compare_digest (hmac secret body) supplied)"

section \<open>Requests\<close>

definition http_send :: "in_env \<Rightarrow> http_request \<Rightarrow> (in_world, in_error, nat \<times> json option) oper" where
  "http_send env request =
     bindS (readS wo_requests) (\<lambda>earlier.
     seqS (writeS (\<lambda>w. w\<lparr>wo_requests := earlier @ [request]\<rparr>))
     (case en_server env earlier request of
        TransportFailure \<Rightarrow> raiseS InHttpxE
      | HttpResponse status body \<Rightarrow> returnS (status, body)))"

definition raise_for_status :: "nat \<Rightarrow> (in_world, in_error, unit) oper" where
  "raise_for_status status = (if 200 \<le> status \<and> status < 300 then returnS () else raiseS InHttpxE)"

definition json_body :: "json option \<Rightarrow> (in_world, in_error, json) oper" where
  "json_body body = requireS (InValueE ''response is not JSON'') body"

text \<open>A request whose answer must be a success, and its JSON body.\<close>

definition http_json :: "in_env \<Rightarrow> http_request \<Rightarrow> (in_world, in_error, json) oper" where
  "http_json env request =
     bindS (http_send env request) (\<lambda>(status, body).
     seqS (raise_for_status status) (json_body body))"

definition str_item :: "in_env \<Rightarrow> json \<Rightarrow> string \<Rightarrow> in_error + string" where
  "str_item env j key = map_sum id (py_str (en_repr env)) (json_item j key)"

definition unix_now :: "in_env \<Rightarrow> (in_world, in_error, int) oper" where
  "unix_now env = readS (\<lambda>w. en_clock env (length (wo_requests w)) div 1000000)"

section \<open>The app client\<close>

record github_app_client =
  ga_base_url :: string
  ga_api_version :: string

record github_manifest_result =
  gm_app_id :: string
  gm_client_id :: string
  gm_client_secret :: string
  gm_pem :: string
  gm_webhook_secret :: string
  gm_app_slug :: string

record github_credential =
  gc_token :: string
  gc_expires_at :: "string option"

definition ga_headers :: "string \<Rightarrow> (string, string) dict" where
  "ga_headers api_version =
     [(''Accept'', ''application/vnd.github+json''), (''X-GitHub-Api-Version'', api_version)]"

definition bearer :: "string \<Rightarrow> string \<times> string" where
  "bearer token = (''Authorization'', ''Bearer '' @ token)"

definition convert_manifest ::
  "in_env \<Rightarrow> github_app_client \<Rightarrow> string \<Rightarrow> (in_world, in_error, github_manifest_result) oper" where
  "convert_manifest env client code =
     bindS (http_json env \<lparr>hq_method = ''POST'',
        hq_url = ga_base_url client @ ''/app-manifests/'' @ code @ ''/conversions'',
        hq_headers = ga_headers (ga_api_version client), hq_params = [], hq_json = None,
        hq_data = []\<rparr>) (\<lambda>payload.
     bindS (liftS (str_item env payload ''id'')) (\<lambda>app_id.
     bindS (liftS (str_item env payload ''client_id'')) (\<lambda>client_id.
     bindS (liftS (str_item env payload ''client_secret'')) (\<lambda>client_secret.
     bindS (liftS (str_item env payload ''pem'')) (\<lambda>pem.
     bindS (liftS (str_item env payload ''webhook_secret'')) (\<lambda>webhook_secret.
     bindS (liftS (str_item env payload ''slug'')) (\<lambda>slug.
     returnS \<lparr>gm_app_id = app_id, gm_client_id = client_id,
       gm_client_secret = utf8 client_secret, gm_pem = utf8 pem,
       gm_webhook_secret = utf8 webhook_secret, gm_app_slug = slug\<rparr>)))))))"

definition app_jwt :: "in_env \<Rightarrow> string \<Rightarrow> string \<Rightarrow> (in_world, in_error, string) oper" where
  "app_jwt env app_id private_key =
     bindS (unix_now env) (\<lambda>now.
     requireS (InValueE ''Could not parse the provided public key.'')
       (en_rs256 env [(''iat'', JInt (now - 60)), (''exp'', JInt (now + 540)), (''iss'', JStr app_id)]
          private_key))"

text \<open>\<open>dict(response.json())\<close> of an object.\<close>

definition app_get ::
  "in_env \<Rightarrow> github_app_client \<Rightarrow> string \<Rightarrow> string \<Rightarrow> string \<Rightarrow>
     (in_world, in_error, (string \<times> json) list) oper" where
  "app_get env client path app_id private_key =
     bindS (app_jwt env app_id private_key) (\<lambda>token.
     bindS (http_json env \<lparr>hq_method = ''GET'', hq_url = ga_base_url client @ path,
        hq_headers = ga_headers (ga_api_version client) @ [bearer token], hq_params = [],
        hq_json = None, hq_data = []\<rparr>) (\<lambda>payload.
     case payload of JObj kvs \<Rightarrow> returnS kvs | _ \<Rightarrow> raiseS InTypeE))"

definition ga_installation ::
  "in_env \<Rightarrow> github_app_client \<Rightarrow> string \<Rightarrow> string \<Rightarrow> string \<Rightarrow>
     (in_world, in_error, (string \<times> json) list) oper" where
  "ga_installation env client installation_id app_id private_key =
     app_get env client (''/app/installations/'' @ installation_id) app_id private_key"

definition ga_app ::
  "in_env \<Rightarrow> github_app_client \<Rightarrow> string \<Rightarrow> string \<Rightarrow>
     (in_world, in_error, (string \<times> json) list) oper" where
  "ga_app env client app_id private_key = app_get env client ''/app'' app_id private_key"

definition token_body ::
  "string option \<Rightarrow> (string, string) dict \<Rightarrow> in_error + (string \<times> json) list" where
  "token_body repository_id permissions =
     (let ps = (if permissions = [] then []
                else [(''permissions'', JObj (map (\<lambda>(k, v). (k, JStr v)) permissions))]) in
      case repository_id of
        None \<Rightarrow> Inr ps
      | Some r \<Rightarrow>
          if r = [] then Inr ps
          else (case py_int_str r of
                  None \<Rightarrow> Inl (InValueE ''invalid literal for int()'')
                | Some i \<Rightarrow> Inr ((''repository_ids'', JList [JInt i]) # ps)))"

definition installation_token ::
  "in_env \<Rightarrow> github_app_client \<Rightarrow> string \<Rightarrow> string \<Rightarrow> string \<Rightarrow> string option \<Rightarrow> (string, string) dict \<Rightarrow>
     (in_world, in_error, github_credential) oper" where
  "installation_token env client installation_id app_id private_key repository_id permissions =
     bindS (app_jwt env app_id private_key) (\<lambda>token.
     bindS (liftS (token_body repository_id permissions)) (\<lambda>body.
     bindS (http_json env \<lparr>hq_method = ''POST'',
        hq_url = ga_base_url client @ ''/app/installations/'' @ installation_id @ ''/access_tokens'',
        hq_headers = ga_headers (ga_api_version client) @ [bearer token], hq_params = [],
        hq_json = Some (JObj body), hq_data = []\<rparr>) (\<lambda>payload.
     bindS (liftS (str_item env payload ''token'')) (\<lambda>value.
     let expires = (case payload of JObj kvs \<Rightarrow> obj_get kvs ''expires_at'' | _ \<Rightarrow> JNull) in
     returnS \<lparr>gc_token = value,
       gc_expires_at = (if truthy expires then Some (py_str (en_repr env) expires) else None)\<rparr>))))"

text \<open>\<open>GitHubInstallationCredentialProvider\<close>.\<close>

record credential_provider =
  gp_app_client :: github_app_client
  gp_app_id :: string
  gp_private_key_reference :: secret_reference
  gp_secrets :: secret_store

definition for_installation ::
  "in_env \<Rightarrow> credential_provider \<Rightarrow> string \<Rightarrow> string option \<Rightarrow> (string, string) dict \<Rightarrow>
     (in_world, in_error, github_credential) oper" where
  "for_installation env p external_account_id repository_id permissions =
     bindS (secret_get env (gp_secrets p) (gp_private_key_reference p)) (\<lambda>private_key.
     installation_token env (gp_app_client p) external_account_id (gp_app_id p) private_key
       repository_id permissions)"

section \<open>The source control\<close>

record github_source_control =
  gs_base_url :: string
  gs_credential_provider :: credential_provider
  gs_api_version :: string

definition gs_headers ::
  "in_env \<Rightarrow> github_source_control \<Rightarrow> string \<Rightarrow> string option \<Rightarrow> (string, string) dict \<Rightarrow>
     (in_world, in_error, (string, string) dict) oper" where
  "gs_headers env g external_account_id repository_id permissions =
     bindS (for_installation env (gs_credential_provider g) external_account_id repository_id permissions)
      (\<lambda>credential.
     returnS [(''Accept'', ''application/vnd.github+json''), bearer (gc_token credential),
              (''X-GitHub-Api-Version'', gs_api_version g)])"

definition descriptor_of :: "in_env \<Rightarrow> json \<Rightarrow> in_error + repository_descriptor" where
  "descriptor_of env item =
     (case str_item env item ''id'' of Inl e \<Rightarrow> Inl e | Inr external_id \<Rightarrow>
     (case json_item item ''owner'' of Inl e \<Rightarrow> Inl e | Inr owner \<Rightarrow>
     (case str_item env owner ''login'' of Inl e \<Rightarrow> Inl e | Inr login \<Rightarrow>
     (case str_item env item ''name'' of Inl e \<Rightarrow> Inl e | Inr name \<Rightarrow>
     (case str_item env item ''default_branch'' of Inl e \<Rightarrow> Inl e | Inr branch \<Rightarrow>
     (case str_item env item ''clone_url'' of Inl e \<Rightarrow> Inl e | Inr clone_url \<Rightarrow>
     (case json_item item ''private'' of Inl e \<Rightarrow> Inl e | Inr private \<Rightarrow>
        Inr \<lparr>de_external_id = external_id, de_owner = login, de_name = name,
             de_default_branch = branch, de_clone_locator = clone_url,
             de_is_private = truthy private\<rparr>)))))))"

text \<open>The pages of \<open>for page in range(1, 101)\<close>; a page of fewer than 100 items is the last.\<close>

fun repository_pages ::
  "in_env \<Rightarrow> github_source_control \<Rightarrow> (string, string) dict \<Rightarrow> nat list \<Rightarrow>
     (in_world, in_error, repository_descriptor list) oper" where
  "repository_pages env g headers [] = returnS []"
| "repository_pages env g headers (page # pages) =
     bindS (http_json env \<lparr>hq_method = ''GET'',
        hq_url = gs_base_url g @ ''/installation/repositories'', hq_headers = headers,
        hq_params = [(''per_page'', JInt 100), (''page'', JInt (int page))], hq_json = None,
        hq_data = []\<rparr>) (\<lambda>payload.
     bindS (liftS (json_item payload ''repositories'')) (\<lambda>repositories.
     bindS (liftS (json_items repositories)) (\<lambda>items.
     bindS (liftS (read_all (descriptor_of env) items)) (\<lambda>descriptors.
     if length items < 100 then returnS descriptors
     else bindS (repository_pages env g headers pages) (\<lambda>rest. returnS (descriptors @ rest))))))"

definition gs_repositories ::
  "in_env \<Rightarrow> github_source_control \<Rightarrow> string \<Rightarrow> (in_world, in_error, repository_descriptor list) oper" where
  "gs_repositories env g external_account_id =
     bindS (gs_headers env g external_account_id None [(''metadata'', ''read'')]) (\<lambda>headers.
     repository_pages env g headers [1..<101])"

definition first_item :: "json \<Rightarrow> in_error + json" where
  "first_item j =
     (case j of
        JList (x # xs) \<Rightarrow> Inr x
      | JStr (c # s) \<Rightarrow> Inr (JStr [c])
      | JObj kvs \<Rightarrow> Inl InKeyE
      | _ \<Rightarrow> Inl InTypeE)"

definition gs_create_pull_request ::
  "in_env \<Rightarrow> github_source_control \<Rightarrow> connector_installation \<Rightarrow> repository_connection \<Rightarrow> string \<Rightarrow>
     string \<Rightarrow> string \<Rightarrow> string \<Rightarrow> string \<Rightarrow> (in_world, in_error, pull_request_result) oper" where
  "gs_create_pull_request env g installation repository title body head_branch base_branch
     idempotency_key =
     bindS (gs_headers env g (ci_external_account_id installation)
              (Some (rc_external_repository_id repository)) [(''pull_requests'', ''write'')]) (\<lambda>headers.
     let pulls = gs_base_url g @ ''/repos/'' @ full_name repository @ ''/pulls'' in
     bindS (http_json env \<lparr>hq_method = ''GET'', hq_url = pulls, hq_headers = headers,
        hq_params = [(''state'', JStr ''all''),
                     (''head'', JStr (rc_owner repository @ '':'' @ head_branch)),
                     (''base'', JStr base_branch), (''per_page'', JInt 1)],
        hq_json = None, hq_data = []\<rparr>) (\<lambda>existing.
     bindS (if truthy existing then liftS (first_item existing)
            else http_json env \<lparr>hq_method = ''POST'', hq_url = pulls, hq_headers = headers,
               hq_params = [],
               hq_json = Some (JObj [(''title'', JStr title), (''body'', JStr body),
                                     (''head'', JStr head_branch), (''base'', JStr base_branch)]),
               hq_data = []\<rparr>) (\<lambda>payload.
     bindS (liftS (str_item env payload ''number'')) (\<lambda>number.
     bindS (liftS (map_sum InValueE id (ExternalReference ''github''
              (ci_external_account_id installation) (Some (full_name repository)) ''pull_request''
              number))) (\<lambda>reference.
     bindS (liftS (str_item env payload ''html_url'')) (\<lambda>url.
     returnS \<lparr>pq_reference = reference, pq_title = title, pq_url = url,
       pq_head_branch = head_branch, pq_base_branch = base_branch,
       pq_is_development_substitute = False\<rparr>))))))"

definition gs_add_comment ::
  "uuid \<Rightarrow> connector_installation \<Rightarrow> string \<Rightarrow> string \<Rightarrow> string \<Rightarrow> (in_world, in_error, unit) oper" where
  "gs_add_comment comment_id installation external_reference_id body idempotency_key =
     raiseS (InNotImplementedE
       ''real comment routing requires an external reference with repository context'')"

definition gs_create_check_run ::
  "in_env \<Rightarrow> github_source_control \<Rightarrow> connector_installation \<Rightarrow> repository_connection \<Rightarrow> string \<Rightarrow>
     string \<Rightarrow> string \<Rightarrow> string \<Rightarrow> (in_world, in_error, unit) oper" where
  "gs_create_check_run env g installation repository head_sha name summary idempotency_key =
     bindS (gs_headers env g (ci_external_account_id installation)
              (Some (rc_external_repository_id repository)) [(''checks'', ''write'')]) (\<lambda>headers.
     bindS (http_send env \<lparr>hq_method = ''POST'',
        hq_url = gs_base_url g @ ''/repos/'' @ full_name repository @ ''/check-runs'',
        hq_headers = headers, hq_params = [],
        hq_json = Some (JObj
          [(''name'', JStr name), (''head_sha'', JStr head_sha), (''status'', JStr ''completed''),
           (''conclusion'', JStr ''success''), (''external_id'', JStr idempotency_key),
           (''output'', JObj [(''title'', JStr name), (''summary'', JStr summary)])]),
        hq_data = []\<rparr>) (\<lambda>(status, body).
     raise_for_status status))"

definition GitHubSourceControl ::
  "in_env \<Rightarrow> github_source_control \<Rightarrow> in_world source_control_provider" where
  "GitHubSourceControl env g =
     \<lparr>sp_provider_name = ''github'', sp_is_development_substitute = False,
      sp_repositories = gs_repositories env g, sp_create_pull_request = gs_create_pull_request env g,
      sp_add_comment = gs_add_comment, sp_create_check_run = gs_create_check_run env g\<rparr>"

end
