(* ===== verification/InApi.thy ===== *)
theory InApi
  imports InGitHub
begin

text \<open>
  The request handlers of \<open>entrypoints/api.py\<close> of the integrations service for platform
  operators and organizations. A request is a session on the tables: committed when the handler
  returns, rolled back when it raises. The secret files, the pull requests of the local source
  control (one object per process) and the requests sent to GitHub are outside the transaction
  and stay. The authenticated principal, the header values, the clocks and the values of
  \<open>uuid4()\<close>, \<open>secrets.token_urlsafe\<close> and \<open>os.urandom\<close> are arguments.
\<close>

section \<open>The application\<close>

text \<open>
  A file setting is \<open>None\<close> where it is not set, \<open>Some None\<close> where the file cannot be read, and
  otherwise its content. \<open>ap_jwt_decode token key audience required now\<close> is \<open>jwt.decode\<close> with
  the issuer \<open>mvp-delivery\<close>, \<open>None\<close> where it raises; \<open>ap_sha256\<close> and \<open>ap_hmac\<close> are the
  hexadecimal digests, \<open>ap_loads\<close> is \<open>json.loads\<close>.
\<close>

record in_settings =
  se_github_api_url :: string
  se_github_web_url :: string
  se_github_api_version :: string
  se_public_base_url :: string
  se_encrypted_secret_root :: "string list"
  se_secret_master_key_file :: "string option option"
  se_github_webhook_secret_file :: "string option option"
  se_internal_service_token :: string

record in_app =
  ap_env :: in_env
  ap_settings :: in_settings
  ap_sha256 :: "string \<Rightarrow> string"
  ap_hmac :: "string \<Rightarrow> string \<Rightarrow> string"
  ap_jwt_decode :: "string \<Rightarrow> string \<Rightarrow> string \<Rightarrow> string list \<Rightarrow> time \<Rightarrow> (string \<times> json) list option"
  ap_loads :: "string \<Rightarrow> in_error + json"

record principal =
  pl_subject :: string
  pl_is_platform_operator :: bool

type_synonym 'a in_handler = "(in_world, in_error, 'a) oper"

definition in_request :: "'a in_handler \<Rightarrow> 'a in_handler" where
  "in_request m w =
     (let db = (wo_db w)\<lparr>id_organization := None\<rparr> in
      case m (w\<lparr>wo_db := db\<rparr>) of
        (Inl e, w') \<Rightarrow> (Inl e, w'\<lparr>wo_db := db\<rparr>)
      | (Inr a, w') \<Rightarrow> (Inr a, w'\<lparr>wo_db := (wo_db w')\<lparr>id_organization := None\<rparr>\<rparr>))"

definition in_http_error :: "nat \<Rightarrow> string \<Rightarrow> 'a in_handler" where
  "in_http_error code detail = raiseS (InHttpE code detail)"

text \<open>\<open>if not condition: raise HTTPException(...)\<close>.\<close>

definition require_or :: "nat \<Rightarrow> string \<Rightarrow> bool \<Rightarrow> unit in_handler" where
  "require_or code detail ok = (if ok then returnS () else in_http_error code detail)"

lemma require_or_iff:
  "require_or code detail ok w = (Inr u, w') \<longleftrightarrow> ok \<and> w' = w"
  "require_or code detail ok w = (Inl e, w') \<longleftrightarrow> \<not> ok \<and> e = InHttpE code detail \<and> w' = w"
  by (auto simp: require_or_def in_http_error_def oper_defs)

lemma preserves_in_basic [preserving]:
  "preserves f (in_http_error code detail)" "preserves f (require_or code detail ok)"
  by (simp_all add: in_http_error_def require_or_def preserving)

definition encrypted_secrets :: "in_app \<Rightarrow> secret_store in_handler" where
  "encrypted_secrets app =
     (case se_secret_master_key_file (ap_settings app) of
        None \<Rightarrow> in_http_error 503 ''encrypted secret store is not configured''
      | Some None \<Rightarrow> in_http_error 503 ''encrypted secret store is unavailable''
      | Some (Some master_key) \<Rightarrow>
          (case EncryptedFileSecretStore (ap_env app) (se_encrypted_secret_root (ap_settings app))
                  master_key of
             Inl _ \<Rightarrow> in_http_error 503 ''encrypted secret store is unavailable''
           | Inr st \<Rightarrow> returnS st))"

text \<open>\<open>PostgresIntegrationRepository(session)\<close> as operations on the whole state.\<close>

definition WorldRepository :: "in_world in_repository" where
  "WorldRepository =
     \<lparr>ir_create_platform_setup_attempt = (\<lambda>a b c. on_db (ip_create_platform_setup_attempt a b c)),
      ir_consume_platform_setup_attempt = (\<lambda>a b c d. on_db (ip_consume_platform_setup_attempt a b c d)),
      ir_create_connector_setup_attempt = (\<lambda>a b c d e. on_db (ip_create_connector_setup_attempt a b c d e)),
      ir_consume_connector_setup_attempt = (\<lambda>a b c d e. on_db (ip_consume_connector_setup_attempt a b c d e)),
      ir_redeem_source_capability = (\<lambda>a b c d. on_db (ip_redeem_source_capability a b c d)),
      ir_add_source_control_configuration = (\<lambda>a. on_db (ip_add_source_control_configuration a)),
      ir_get_source_control_configuration = (\<lambda>a. on_db (ip_get_source_control_configuration a)),
      ir_source_control_configuration_for_app_id = (\<lambda>a b. on_db (ip_source_control_configuration_for_app_id a b)),
      ir_list_source_control_configurations = on_db ip_list_source_control_configurations,
      ir_update_source_control_configuration_health =
        (\<lambda>a b c. on_db (ip_update_source_control_configuration_health a b c)),
      ir_record_platform_audit = (\<lambda>a. on_db (ip_record_platform_audit a)),
      ir_add_installation = (\<lambda>a. on_db (ip_add_installation a)),
      ir_get_installation = (\<lambda>a b. on_db (ip_get_installation a b)),
      ir_organization_for_external_installation = (\<lambda>a b. on_db (ip_organization_for_external_installation a b)),
      ir_installation_for_external = (\<lambda>a b c. on_db (ip_installation_for_external a b c)),
      ir_list_installation_routes = on_db ip_list_installation_routes,
      ir_update_installation = (\<lambda>a. on_db (ip_update_installation a)),
      ir_add_repository = (\<lambda>a. on_db (ip_add_repository a)),
      ir_upsert_repository = (\<lambda>a. on_db (ip_upsert_repository a)),
      ir_revoke_repositories_except = (\<lambda>a b c d. on_db (ip_revoke_repositories_except a b c d)),
      ir_get_repository = (\<lambda>a b. on_db (ip_get_repository a b)),
      ir_list_repositories = (\<lambda>a. on_db (ip_list_repositories a)),
      ir_record_webhook_delivery = (\<lambda>a. on_db (ip_record_webhook_delivery a)),
      ir_record_audit = (\<lambda>a. on_db (ip_record_audit a))\<rparr>"

definition local_providers :: "(string, in_world source_control_provider) dict" where
  "local_providers = [(''github-local'', LocalSourceControl)]"

text \<open>\<open>SecretReference(**document)\<close>.\<close>

definition reference_of :: "json \<Rightarrow> secret_reference in_handler" where
  "reference_of document = liftS (map_sum InValueE id (secret_reference_of_json document))"

definition github_providers ::
  "in_app \<Rightarrow> secret_store \<Rightarrow> secret_reference \<Rightarrow> source_control_configuration \<Rightarrow> string \<Rightarrow>
     (string, in_world source_control_provider) dict" where
  "github_providers app st private_reference configuration api_version =
     [(''github'', GitHubSourceControl (ap_env app)
        \<lparr>gs_base_url = sc_api_base_url configuration,
         gs_credential_provider =
           \<lparr>gp_app_client = \<lparr>ga_base_url = sc_api_base_url configuration,
                             ga_api_version = sc_api_version configuration\<rparr>,
            gp_app_id = sc_app_id configuration, gp_private_key_reference = private_reference,
            gp_secrets = st\<rparr>,
         gs_api_version = api_version\<rparr>)]"

definition service_for_repository ::
  "in_app \<Rightarrow> uuid \<Rightarrow> uuid \<Rightarrow> (string, in_world source_control_provider) dict in_handler" where
  "service_for_repository app organization_id repository_id =
     bindS (on_db (ip_get_repository organization_id repository_id)) (\<lambda>found.
     bindS (requireS (InHttpE 404 ''repository is not connected'') found) (\<lambda>connected.
     bindS (on_db (ip_get_installation organization_id (rc_installation_id connected))) (\<lambda>found'.
     case found' of
       None \<Rightarrow> returnS local_providers
     | Some installation \<Rightarrow>
         if ci_provider installation = ''github-local'' then returnS local_providers
         else
           bindS (requireS (InHttpE 409 ''source-control provider is unavailable'')
                    (if ci_provider installation \<noteq> ''github'' then None
                     else ci_provider_configuration_id installation)) (\<lambda>configuration_id.
           bindS (on_db (ip_get_source_control_configuration configuration_id)) (\<lambda>found''.
           bindS (requireS (InHttpE 409 ''GitHub configuration is unavailable'')
                    (case found'' of None \<Rightarrow> None | Some c \<Rightarrow> if sc_enabled c then Some c else None))
            (\<lambda>configuration.
           bindS (encrypted_secrets app) (\<lambda>st.
           bindS (reference_of (sc_private_key_reference configuration)) (\<lambda>private_reference.
           returnS (github_providers app st private_reference configuration
                      (sc_api_version configuration)))))))))) "

definition in_authorize :: "uuid \<Rightarrow> string \<Rightarrow> string list \<Rightarrow> unit in_handler" where
  "in_authorize organization_id subject allowed =
     bindS (on_db (ip_role_for organization_id subject)) (\<lambda>r.
     require_or 403 ''membership cannot perform this action''
       (case r of None \<Rightarrow> False | Some r' \<Rightarrow> r' \<in> set allowed))"

definition require_platform_operator :: "principal \<Rightarrow> unit in_handler" where
  "require_platform_operator p =
     require_or 403 ''platform operator permission is required'' (pl_is_platform_operator p)"

definition hash_state :: "in_app \<Rightarrow> string \<Rightarrow> string" where
  "hash_state app value = ap_sha256 app (utf8 value)"

text \<open>\<open>urllib.parse.quote\<close>.\<close>

definition quote_safe :: "char \<Rightarrow> bool" where
  "quote_safe c \<longleftrightarrow>
     (let n = (of_char c :: nat) in
      (48 \<le> n \<and> n \<le> 57) \<or> (65 \<le> n \<and> n \<le> 90) \<or> (97 \<le> n \<and> n \<le> 122)) \<or> c \<in> set ''_.-~/''"

definition quote :: "string \<Rightarrow> string" where
  "quote s = concat (map (\<lambda>c. if quote_safe c then [c] else CHR ''%'' # upper (hexn 2 (of_char c))) (utf8 s))"

section \<open>Platform operators\<close>

record github_manifest_start =
  ms_display_name :: string
  ms_owner :: "string option"
  ms_webhook_mode :: webhook_mode

definition manifest_document :: "in_app \<Rightarrow> string \<Rightarrow> github_manifest_start \<Rightarrow> (string \<times> json) list" where
  "manifest_document app state p =
     (let base = se_public_base_url (ap_settings app) in
      [(''name'', JStr (ms_display_name p)), (''url'', JStr base),
       (''redirect_url'', JStr (base @ ''/app/admin/integrations/github/callback?state='' @ quote state)),
       (''callback_urls'', JList [JStr (base @ ''/app/github/installations/callback'')]),
       (''setup_url'', JStr (base @ ''/app/github/installations/callback'')),
       (''request_oauth_on_install'', JBool True), (''public'', JBool True),
       (''hook_attributes'', JObj [(''url'', JStr (base @ ''/api/github/webhooks'')),
                                   (''active'', JBool (ms_webhook_mode p = WM_WEBHOOK))]),
       (''default_permissions'', JObj [(''contents'', JStr ''write''), (''pull_requests'', JStr ''write''),
                                       (''checks'', JStr ''write''), (''metadata'', JStr ''read'')]),
       (''default_events'', JList [])])"

definition api_start_github_manifest ::
  "in_app \<Rightarrow> string \<Rightarrow> time \<Rightarrow> principal \<Rightarrow> github_manifest_start \<Rightarrow> (string \<times> json) list in_handler" where
  "api_start_github_manifest app state now p payload =
     seqS (require_platform_operator p)
     (bindS (on_db ip_list_source_control_configurations) (\<lambda>configurations.
      seqS (require_or 409 ''an active source-control configuration already exists''
              (\<not> list_ex sc_enabled configurations))
      (seqS (on_db (ip_create_platform_setup_attempt (hash_state app state) (pl_subject p)
                      (now + minutes 10)))
      (let web = se_github_web_url (ap_settings app);
           base = (case ms_owner payload of
                     None \<Rightarrow> web @ ''/settings/apps/new''
                   | Some owner \<Rightarrow> if owner = [] then web @ ''/settings/apps/new''
                       else web @ ''/organizations/'' @ quote owner @ ''/settings/apps/new'') in
       returnS [(''registration_url'', JStr (base @ ''?state='' @ quote state)), (''state'', JStr state),
                (''manifest'', JObj (manifest_document app state payload))]))))"

record github_manifest_complete =
  mf_state :: string
  mf_code :: string
  mf_name :: string
  mf_webhook_mode :: webhook_mode

text \<open>The loops \<open>for reference, value in references_and_values\<close>.\<close>

fun put_secrets ::
  "in_app \<Rightarrow> secret_store \<Rightarrow> (nat \<Rightarrow> string) \<Rightarrow> nat \<Rightarrow> (secret_reference \<times> string) list \<Rightarrow> unit in_handler" where
  "put_secrets app st nonce n [] = returnS ()"
| "put_secrets app st nonce n ((reference, value) # rest) =
     seqS (secret_put (ap_env app) st (nonce n) reference value)
       (put_secrets app st nonce (Suc n) rest)"

fun delete_secrets :: "in_app \<Rightarrow> secret_store \<Rightarrow> (secret_reference \<times> string) list \<Rightarrow> unit in_handler" where
  "delete_secrets app st [] = returnS ()"
| "delete_secrets app st ((reference, value) # rest) =
     seqS (secret_delete (ap_env app) st reference) (delete_secrets app st rest)"

definition app_reference :: "uuid \<Rightarrow> string \<Rightarrow> secret_reference in_handler" where
  "app_reference configuration_id key =
     liftS (map_sum InValueE id (SecretReference ''encrypted-file''
       (''github-app/'' @ str_uuid configuration_id) key None))"

text \<open>\<open>except httpx.HTTPError as error: raise HTTPException(502, ...)\<close>.\<close>

definition bad_gateway :: "string \<Rightarrow> in_error \<Rightarrow> in_error" where
  "bad_gateway detail e = (if e = InHttpxE then InHttpE 502 detail else e)"

definition api_complete_github_manifest ::
  "in_app \<Rightarrow> time \<Rightarrow> time \<Rightarrow> time \<Rightarrow> uuid \<Rightarrow> (nat \<Rightarrow> string) \<Rightarrow> principal \<Rightarrow> github_manifest_complete \<Rightarrow>
     source_control_configuration in_handler" where
  "api_complete_github_manifest app used_at now created configuration_id nonce p payload =
     (let settings = ap_settings app;
          client = \<lparr>ga_base_url = se_github_api_url settings,
                    ga_api_version = se_github_api_version settings\<rparr> in
      seqS (require_platform_operator p)
      (bindS (on_db (ip_consume_platform_setup_attempt used_at (hash_state app (mf_state payload))
                       (pl_subject p) now)) (\<lambda>consumed.
       seqS (require_or 409 ''setup state is invalid or expired'' consumed)
       (bindS (map_errorS (bad_gateway ''GitHub manifest exchange failed'')
                (convert_manifest (ap_env app) client (mf_code payload))) (\<lambda>conversion.
        bindS (app_reference configuration_id ''private-key'') (\<lambda>private_key.
        bindS (app_reference configuration_id ''client-secret'') (\<lambda>client_secret.
        bindS (app_reference configuration_id ''webhook-secret'') (\<lambda>webhook_secret.
        bindS (encrypted_secrets app) (\<lambda>st.
        let secrets = [(private_key, gm_pem conversion), (client_secret, gm_client_secret conversion),
                       (webhook_secret, gm_webhook_secret conversion)] in
        on_errorS
          (seqS (put_secrets app st nonce 0 secrets)
           (bindS (configure_source_control WorldRepository created configuration_id (pl_subject p)
                     (mf_name payload) ''github'' (se_github_web_url settings)
                     (se_github_api_url settings) (se_github_api_version settings)
                     (gm_app_id conversion) (gm_client_id conversion) (gm_app_slug conversion)
                     private_key client_secret webhook_secret (mf_webhook_mode payload)) (\<lambda>result.
            bindS (ga_app (ap_env app) client (gm_app_id conversion) (gm_pem conversion)) (\<lambda>_.
            seqS (on_db (ip_update_source_control_configuration_health configuration_id ''HEALTHY'' True))
            (returnS result)))))
          (delete_secrets app st secrets))))))))))"

definition api_source_control_configurations ::
  "principal \<Rightarrow> source_control_configuration list in_handler" where
  "api_source_control_configurations p =
     seqS (require_platform_operator p) (on_db ip_list_source_control_configurations)"

definition api_disable_source_control_configuration ::
  "uuid \<Rightarrow> principal \<Rightarrow> (string, string) dict in_handler" where
  "api_disable_source_control_configuration configuration_id p =
     seqS (require_platform_operator p)
     (bindS (on_db (ip_get_source_control_configuration configuration_id)) (\<lambda>found.
      bindS (requireS (InHttpE 404 ''configuration was not found'') found) (\<lambda>configuration.
      seqS (on_db (ip_update_source_control_configuration_health configuration_id ''DISABLED'' False))
      (seqS (on_db (ip_record_platform_audit
         \<lparr>pa_actor_subject = pl_subject p, pa_action = ''source_control_configuration.disabled'',
          pa_target_type = ''source_control_configuration'', pa_target_id = configuration_id,
          pa_details = [(''provider'', JStr (sc_provider configuration))]\<rparr>))
      (returnS [(''status'', ''disabled'')])))))"

end
