(* ===== verification/InRepositories.thy ===== *)
theory InRepositories
  imports InApi
begin

text \<open>
  What reconciliation relies on when it refreshes and revokes repository connections, as the
  locale \<open>connected_repositories\<close>: the repository as a map from the external identifiers of each
  installation to its connections. The memory repository and the tables behind the service are
  its instances, so the result of \<open>reconcile\<close> is proved once for both.
\<close>

section \<open>Connections as maps\<close>

definition connection_key :: "repository_connection \<Rightarrow> uuid \<times> uuid \<times> string" where
  "connection_key r = (rc_organization_id r, rc_installation_id r, rc_external_repository_id r)"

definition connection_view ::
  "repository_connection list \<Rightarrow> uuid \<Rightarrow> uuid \<Rightarrow> string \<Rightarrow> repository_connection option" where
  "connection_view cs org inst x = find (\<lambda>r. connection_key r = (org, inst, x)) cs"

lemma connection_view_Some:
  "inj_on connection_key (set cs) \<Longrightarrow>
     connection_view cs org inst x = Some r \<longleftrightarrow> r \<in> set cs \<and> connection_key r = (org, inst, x)"
  unfolding connection_view_def
  by (auto dest: find_SomeD simp: inj_on_def intro!: find_unique)

text \<open>The view after a connection was stored under its own key.\<close>

definition view_upsert ::
  "(uuid \<Rightarrow> uuid \<Rightarrow> string \<Rightarrow> repository_connection option) \<Rightarrow> repository_connection \<Rightarrow>
     uuid \<Rightarrow> uuid \<Rightarrow> string \<Rightarrow> repository_connection option" where
  "view_upsert v r = (\<lambda>org inst x. if (org, inst, x) = connection_key r then Some r else v org inst x)"

definition view_revoke ::
  "(uuid \<Rightarrow> uuid \<Rightarrow> string \<Rightarrow> repository_connection option) \<Rightarrow> uuid \<Rightarrow> uuid \<Rightarrow> string list \<Rightarrow> time \<Rightarrow>
     uuid \<Rightarrow> uuid \<Rightarrow> string \<Rightarrow> repository_connection option" where
  "view_revoke v org inst active t = (\<lambda>o' i x.
     if o' = org \<and> i = inst \<and> x \<notin> set active then map_option (revoke t) (v o' i x) else v o' i x)"

text \<open>
  A connection that may be stored: under a key in use it keeps what only the first connection
  determines, and its identifier belongs to no other key.
\<close>

definition admissible ::
  "(uuid \<Rightarrow> uuid \<Rightarrow> string \<Rightarrow> repository_connection option) \<Rightarrow> repository_connection \<Rightarrow> bool" where
  "admissible v r \<longleftrightarrow>
     (\<forall>org inst x p. v org inst x = Some p \<longrightarrow>
        (if (org, inst, x) = connection_key r
         then rc_id p = rc_id r \<and> rc_created_at p = rc_created_at r \<and>
              rc_is_development_substitute p = rc_is_development_substitute r
         else rc_id p \<noteq> rc_id r))"

lemma fold_view_upsert:
  assumes "distinct (map connection_key rs)"
  shows "fold (\<lambda>r v. view_upsert v r) rs v org inst x =
     (case connection_view rs org inst x of None \<Rightarrow> v org inst x | Some r \<Rightarrow> Some r)"
  using assms
proof (induction rs arbitrary: v)
  case Nil
  then show ?case by (simp add: connection_view_def)
next
  case (Cons r rs)
  then have ind: "fold (\<lambda>r v. view_upsert v r) rs (view_upsert v r) org inst x =
      (case connection_view rs org inst x of None \<Rightarrow> view_upsert v r org inst x | Some r \<Rightarrow> Some r)"
    by simp
  show ?case
  proof (cases "connection_key r = (org, inst, x)")
    case True
    then have "connection_view rs org inst x = None"
      using Cons.prems by (auto simp: connection_view_def find_None_iff image_iff)
    then show ?thesis using ind True by (simp add: connection_view_def view_upsert_def)
  next
    case False
    then show ?thesis using ind
      by (auto simp: connection_view_def view_upsert_def split: option.splits)
  qed
qed

text \<open>
  What a reconciliation does to the connections of one installation: the ones the provider
  reported are active and carry its data, all others are revoked, and a connection keeps the
  identifier and the creation time it had.
\<close>

definition matches :: "repository_descriptor \<Rightarrow> repository_connection \<Rightarrow> bool" where
  "matches d p \<longleftrightarrow>
     rc_external_repository_id p = de_external_id d \<and> rc_owner p = de_owner d \<and> rc_name p = de_name d \<and>
     rc_default_branch p = de_default_branch d \<and> rc_clone_locator p = de_clone_locator d \<and>
     rc_is_private p = de_is_private d \<and> rc_access_status p = RA_ACTIVE \<and> rc_revoked_at p = None"

definition reconciles ::
  "uuid \<Rightarrow> uuid \<Rightarrow> repository_descriptor list \<Rightarrow>
     (uuid \<Rightarrow> uuid \<Rightarrow> string \<Rightarrow> repository_connection option) \<Rightarrow>
     (uuid \<Rightarrow> uuid \<Rightarrow> string \<Rightarrow> repository_connection option) \<Rightarrow> bool" where
  "reconciles org inst ds v v' \<longleftrightarrow>
     (\<forall>o' i x. (o', i) \<noteq> (org, inst) \<longrightarrow> v' o' i x = v o' i x) \<and>
     (\<forall>d \<in> set ds. \<exists>p. v' org inst (de_external_id d) = Some p \<and> matches d p) \<and>
     (\<forall>x. x \<notin> de_external_id ` set ds \<longrightarrow>
        (case v org inst x of
           None \<Rightarrow> v' org inst x = None
         | Some q \<Rightarrow> \<exists>p. v' org inst x = Some p \<and> rc_access_status p = RA_REVOKED)) \<and>
     (\<forall>x p q. v org inst x = Some q \<longrightarrow> v' org inst x = Some p \<longrightarrow>
        rc_id p = rc_id q \<and> rc_created_at p = rc_created_at q)"

lemma reconciled_fields:
  "connection_key (reconciled existing k now org inst sub d) = (org, inst, de_external_id d)"
  "matches d (reconciled existing k now org inst sub d)"
  by (simp_all add: reconciled_def Let_def connection_key_def matches_def)

lemma reconciles_fold:
  assumes "distinct (map de_external_id ds)" and "\<forall>x. dget existing x = v org inst x"
    and rs: "rs = map (\<lambda>(m, d). reconciled existing (fresh m) now org inst sub d) (zip [n..<n + length ds] ds)"
  shows "reconciles org inst ds v
     (view_revoke (fold (\<lambda>r v. view_upsert v r) rs v) org inst (map de_external_id ds) now)"
proof -
  have keys: "map connection_key rs = map (\<lambda>d. (org, inst, de_external_id d)) ds"
    unfolding rs by (rule nth_equalityI) (auto simp: reconciled_fields)
  have dist: "distinct (map connection_key rs)"
    unfolding keys using assms(1) by (simp add: distinct_map inj_on_def)
  have rs': "rs = map (\<lambda>m. reconciled existing (fresh (n + m)) now org inst sub (ds ! m)) [0..<length ds]"
    unfolding rs by (rule nth_equalityI) auto
  have mem: "r \<in> set rs \<longleftrightarrow> (\<exists>m. m < length ds \<and> r = reconciled existing (fresh (n + m)) now org inst sub (ds ! m))"
    for r unfolding rs' by auto
  note find = connection_view_Some [of rs] fold_view_upsert [OF dist, of v]
  have inj: "inj_on connection_key (set rs)" using dist by (simp add: distinct_map)
  have hit: "connection_view rs org inst (de_external_id (ds ! m))
      = Some (reconciled existing (fresh (n + m)) now org inst sub (ds ! m))" if "m < length ds" for m
    using that mem by (auto simp: connection_view_Some [OF inj] reconciled_fields)
  have miss: "connection_view rs o' i x = None"
    if "(o', i) \<noteq> (org, inst) \<or> x \<notin> de_external_id ` set ds" for o' i x
    using that by (auto simp: connection_view_def find_None_iff mem reconciled_fields)
  let ?v = "fold (\<lambda>r v. view_upsert v r) rs v"
  have keep: "rc_id p = rc_id q \<and> rc_created_at p = rc_created_at q"
    if q: "v org inst x = Some q"
      and p: "view_revoke ?v org inst (map de_external_id ds) now org inst x = Some p" for x p q
  proof (cases "x \<in> de_external_id ` set ds")
    case True
    then obtain m where m: "m < length ds" "x = de_external_id (ds ! m)" by (auto simp: in_set_conv_nth)
    then have "p = reconciled existing (fresh (n + m)) now org inst sub (ds ! m)"
      using p hit [of m] by (auto simp: view_revoke_def fold_view_upsert [OF dist])
    then show ?thesis using q m assms(2) by (simp add: reconciled_def Let_def)
  next
    case False
    then show ?thesis
      using p q miss [of org inst x] by (auto simp: view_revoke_def fold_view_upsert [OF dist] revoke_def)
  qed
  show ?thesis unfolding reconciles_def
  proof (intro conjI allI ballI impI)
    fix o' i x assume "(o', i) \<noteq> (org, inst)"
    then show "view_revoke ?v org inst (map de_external_id ds) now o' i x = v o' i x"
      using miss [of o' i x] by (auto simp: view_revoke_def fold_view_upsert [OF dist])
  next
    fix d assume "d \<in> set ds"
    then obtain m where "m < length ds" "d = ds ! m" by (auto simp: in_set_conv_nth)
    then show "\<exists>p. view_revoke ?v org inst (map de_external_id ds) now org inst (de_external_id d) = Some p
        \<and> matches d p"
      using hit [of m] by (auto simp: view_revoke_def fold_view_upsert [OF dist] reconciled_fields)
  next
    fix x assume "x \<notin> de_external_id ` set ds"
    then show "case v org inst x of
        None \<Rightarrow> view_revoke ?v org inst (map de_external_id ds) now org inst x = None
      | Some q \<Rightarrow> \<exists>p. view_revoke ?v org inst (map de_external_id ds) now org inst x = Some p \<and>
            rc_access_status p = RA_REVOKED"
      using miss [of org inst x] by (auto simp: view_revoke_def fold_view_upsert [OF dist] revoke_def
          split: option.splits)
  next
    fix x p q assume "v org inst x = Some q"
      and "view_revoke ?v org inst (map de_external_id ds) now org inst x = Some p"
    from keep [OF this] show "rc_id p = rc_id q" by simp
  next
    fix x p q assume "v org inst x = Some q"
      and "view_revoke ?v org inst (map de_external_id ds) now org inst x = Some p"
    from keep [OF this] show "rc_created_at p = rc_created_at q" by simp
  qed
qed

section \<open>The interface\<close>

locale connected_repositories =
  fixes R :: "'s in_repository"
    and view :: "'s \<Rightarrow> uuid \<Rightarrow> uuid \<Rightarrow> string \<Rightarrow> repository_connection option"
    and wf :: "'s \<Rightarrow> bool"
  assumes view_key: "wf s \<Longrightarrow> view s org inst x = Some p \<Longrightarrow> connection_key p = (org, inst, x)"
    and view_id: "wf s \<Longrightarrow> view s org inst x = Some p \<Longrightarrow> view s o2 i2 x2 = Some q \<Longrightarrow>
      rc_id p = rc_id q \<Longrightarrow> p = q"
    and list_repositories: "wf s \<Longrightarrow> ir_list_repositories R org s = (Inr items, s') \<Longrightarrow>
      wf s' \<and> view s' = view s \<and>
      (\<forall>r. r \<in> set items \<longleftrightarrow>
         (\<exists>inst x. view s org inst x = Some r))"
    and upsert: "wf s \<Longrightarrow> admissible (view s) r \<Longrightarrow> ir_upsert_repository R r s = (Inr (), s') \<Longrightarrow>
      wf s' \<and> view s' = view_upsert (view s) r"
    and revoke_except: "wf s \<Longrightarrow> ir_revoke_repositories_except R org inst active t s = (Inr (), s') \<Longrightarrow>
      wf s' \<and> view s' = view_revoke (view s) org inst active t"
    and update_installation: "wf s \<Longrightarrow> ir_update_installation R i s = (Inr (), s') \<Longrightarrow>
      wf s' \<and> view s' = view s"
    and record_audit: "wf s \<Longrightarrow> ir_record_audit R a s = (Inr (), s') \<Longrightarrow> wf s' \<and> view s' = view s"
begin

lemma existing_view:
  assumes "wf s" and "ir_list_repositories R org s = (Inr items, s')"
  shows "dget (existing_repositories inst items) x = view s org inst x"
proof -
  let ?items = "filter (\<lambda>item. rc_installation_id item = inst) items"
  have items: "r \<in> set items \<longleftrightarrow> (\<exists>i y. view s org i y = Some r)" for r
    using list_repositories [OF assms] by blast
  show ?thesis
  proof (cases "dget (existing_repositories inst items) x")
    case None
    have no: "\<forall>item \<in> set ?items. rc_external_repository_id item \<noteq> x"
      using dget_fold_dset_None [of rc_external_repository_id ?items "[]" x] None
      by (simp add: existing_repositories_def)
    have "view s org inst x = None"
    proof (cases "view s org inst x")
      case (Some p)
      then have "p \<in> set items" using items by blast
      then show ?thesis using no view_key [OF assms(1) Some] by (auto simp: connection_key_def)
    qed simp
    then show ?thesis using None by simp
  next
    case (Some p)
    then have "p \<in> set ?items" "rc_external_repository_id p = x"
      using dget_fold_dset_Some [of rc_external_repository_id ?items "[]" x p]
      by (auto simp: existing_repositories_def)
    then obtain i y where v: "view s org i y = Some p" and "rc_installation_id p = inst" using items by auto
    then have "i = inst" "y = x" using view_key [OF assms(1) v] \<open>rc_external_repository_id p = x\<close>
      by (auto simp: connection_key_def)
    then show ?thesis using v Some by simp
  qed
qed

lemma reconcile_length:
  "reconcile_repositories R existing fresh now org inst sub n ds s = (Inr rs, s') \<Longrightarrow> length rs = length ds"
  by (induction ds arbitrary: n s rs) (auto simp: oper_iffs Let_def)

lemma reconcile_loop:
  assumes old: "\<And>m o' i x p. v0 o' i x = Some p \<Longrightarrow> rc_id p \<noteq> fresh m"
    and old_ids: "\<And>o1 i1 x1 p o2 i2 x2 q. v0 o1 i1 x1 = Some p \<Longrightarrow> v0 o2 i2 x2 = Some q \<Longrightarrow>
      rc_id p = rc_id q \<Longrightarrow> (o1, i1, x1) = (o2, i2, x2)"
    and sub: "\<And>x p. v0 org inst x = Some p \<Longrightarrow> rc_is_development_substitute p = sub"
    and ex: "\<And>x. dget existing x = v0 org inst x"
  shows "inj_on fresh {..<n + length ds} \<Longrightarrow> wf s \<Longrightarrow> \<forall>x \<in> de_external_id ` set ds. view s org inst x = v0 org inst x \<Longrightarrow>
     \<forall>o' i x p. view s o' i x = Some p \<longrightarrow>
       (\<exists>q. v0 o' i x = Some q \<and> rc_id p = rc_id q) \<or> (v0 o' i x = None \<and> (\<exists>m < n. rc_id p = fresh m)) \<Longrightarrow>
     distinct (map de_external_id ds) \<Longrightarrow>
     reconcile_repositories R existing fresh now org inst sub n ds s = (Inr rs, s') \<Longrightarrow>
     wf s' \<and> rs = map (\<lambda>(m, d). reconciled existing (fresh m) now org inst sub d) (zip [n..<n + length ds] ds) \<and>
     view s' = fold (\<lambda>r v. view_upsert v r) rs (view s)"
proof (induction ds arbitrary: n s rs)
  case Nil
  then show ?case by (simp add: oper_iffs)
next
  case (Cons d ds)
  let ?r = "reconciled existing (fresh n) now org inst sub d" and ?x = "de_external_id d"
  obtain s1 rest where up: "ir_upsert_repository R ?r s = (Inr (), s1)"
    and rest: "reconcile_repositories R existing fresh now org inst sub (Suc n) ds s1 = (Inr rest, s')"
    and rs: "rs = ?r # rest"
    using Cons.prems(6) by (auto simp: Let_def oper_iffs)
  have key: "connection_key ?r = (org, inst, ?x)" by (rule reconciled_fields)
  have idr: "rc_id ?r = (case v0 org inst ?x of None \<Rightarrow> fresh n | Some q \<Rightarrow> rc_id q)"
    by (simp add: reconciled_def ex Let_def split: option.splits)
  have adm: "admissible (view s) ?r" unfolding admissible_def
  proof (intro allI impI)
    fix o' i x p assume p: "view s o' i x = Some p"
    have from0: "(\<exists>q. v0 o' i x = Some q \<and> rc_id p = rc_id q) \<or> (v0 o' i x = None \<and> (\<exists>m < n. rc_id p = fresh m))"
      using Cons.prems(4) p by blast
    show "if (o', i, x) = connection_key ?r
        then rc_id p = rc_id ?r \<and> rc_created_at p = rc_created_at ?r \<and>
             rc_is_development_substitute p = rc_is_development_substitute ?r
        else rc_id p \<noteq> rc_id ?r"
    proof (cases "(o', i, x) = connection_key ?r")
      case True
      then have "v0 org inst ?x = Some p" using p key Cons.prems(3) by simp
      then show ?thesis using True sub [of ?x p] by (simp add: reconciled_def ex Let_def)
    next
      case False
      have "rc_id p \<noteq> rc_id ?r"
      proof
        assume same: "rc_id p = rc_id ?r"
        show False
        proof (cases "v0 org inst ?x")
          case None
          then have "rc_id p = fresh n" using same idr by simp
          then show False using from0 old inj_onD [OF Cons.prems(1), of _ n] by fastforce
        next
          case (Some q)
          then have pq: "rc_id p = rc_id q" using same idr by simp
          from from0 show False
          proof
            assume "\<exists>q'. v0 o' i x = Some q' \<and> rc_id p = rc_id q'"
            then show False using old_ids [OF _ Some] pq False key by metis
          next
            assume "v0 o' i x = None \<and> (\<exists>m < n. rc_id p = fresh m)"
            then show False using old [OF Some] pq by metis
          qed
        qed
      qed
      then show ?thesis using False by simp
    qed
  qed
  from upsert [OF Cons.prems(2) adm up] have w1: "wf s1" and v1: "view s1 = view_upsert (view s) ?r" by simp_all
  have "wf s' \<and> rest = map (\<lambda>(m, d). reconciled existing (fresh m) now org inst sub d)
      (zip [Suc n..<Suc n + length ds] ds) \<and> view s' = fold (\<lambda>r v. view_upsert v r) rest (view s1)"
  proof (rule Cons.IH [OF _ w1 _ _ _ rest])
    show "inj_on fresh {..<Suc n + length ds}" using Cons.prems(1) by simp
    show "\<forall>x \<in> de_external_id ` set ds. view s1 org inst x = v0 org inst x"
      using Cons.prems(3,5) by (auto simp: v1 view_upsert_def key image_iff)
    show "distinct (map de_external_id ds)" using Cons.prems(5) by simp
    show "\<forall>o' i x p. view s1 o' i x = Some p \<longrightarrow>
       (\<exists>q. v0 o' i x = Some q \<and> rc_id p = rc_id q) \<or> (v0 o' i x = None \<and> (\<exists>m < Suc n. rc_id p = fresh m))"
    proof (intro allI impI)
      fix o' i x p assume p: "view s1 o' i x = Some p"
      show "(\<exists>q. v0 o' i x = Some q \<and> rc_id p = rc_id q) \<or> (v0 o' i x = None \<and> (\<exists>m < Suc n. rc_id p = fresh m))"
      proof (cases "(o', i, x) = connection_key ?r")
        case True
        then have "p = ?r" "v0 o' i x = v0 org inst ?x" using p key by (simp_all add: v1 view_upsert_def)
        then show ?thesis using idr by (auto split: option.splits)
      next
        case False
        then have "view s o' i x = Some p" using p by (simp add: v1 view_upsert_def)
        then show ?thesis using Cons.prems(4) less_SucI by meson
      qed
    qed
  qed
  moreover have "[n..<n + length (d # ds)] = n # [Suc n..<Suc n + length ds]"
    by (subst upt_conv_Cons) simp_all
  ultimately show ?case using rs v1 by (simp del: upt_Suc)
qed

text \<open>A reconciliation over a provider that leaves the repositories alone.\<close>

lemma reconcile:
  assumes "wf s" and "in_reconcile R providers fresh now installation actor s = (Inr rs, s')"
    and "dget providers (ci_provider installation) = Some adapter"
    and pure: "\<And>t ds t'. wf t \<Longrightarrow> sp_repositories adapter (ci_external_account_id installation) t = (Inr ds, t') \<Longrightarrow>
      wf t' \<and> view t' = view t"
    and fresh: "inj_on fresh {..<length rs}" "\<And>m o' i x p. view s o' i x = Some p \<Longrightarrow> rc_id p \<noteq> fresh m"
    and sub: "\<And>x p. view s (ci_organization_id installation) (ci_id installation) x = Some p \<Longrightarrow>
      rc_is_development_substitute p = sp_is_development_substitute adapter"
  shows "\<exists>ds t t'. sp_repositories adapter (ci_external_account_id installation) t = (Inr ds, t') \<and>
     (distinct (map de_external_id ds) \<longrightarrow> wf s' \<and>
        reconciles (ci_organization_id installation) (ci_id installation) ds (view s) (view s'))"
proof -
  let ?org = "ci_organization_id installation" and ?inst = "ci_id installation"
  obtain items s1 ds s2 s3 s4 s5 a where
    l: "ir_list_repositories R ?org s = (Inr items, s1)"
    and d: "sp_repositories adapter (ci_external_account_id installation) s1 = (Inr ds, s2)"
    and loop: "reconcile_repositories R (existing_repositories ?inst items) fresh now ?org ?inst
        (sp_is_development_substitute adapter) 0 ds s2 = (Inr rs, s3)"
    and rev: "ir_revoke_repositories_except R ?org ?inst (map de_external_id ds) now s3 = (Inr (), s4)"
    and upd: "ir_update_installation R (installation\<lparr>ci_last_reconciled_at := Some now\<rparr>) s4 = (Inr (), s5)"
    and aud: "ir_record_audit R a s5 = (Inr (), s')"
    using assms(2,3) by (auto simp: in_reconcile_def provider_for_def in_record_audit_def oper_iffs)
  note ex = existing_view [OF assms(1) l]
  have w1: "wf s1" "view s1 = view s" using list_repositories [OF assms(1) l] by simp_all
  have w2: "wf s2" "view s2 = view s" using pure [OF w1(1) d] w1(2) by simp_all
  have "reconciles ?org ?inst ds (view s) (view s') \<and> wf s'" if dist: "distinct (map de_external_id ds)"
  proof -
    have ids: "(o1, i1, x1) = (o2, i2, x2)"
      if "view s o1 i1 x1 = Some p" "view s o2 i2 x2 = Some q" "rc_id p = rc_id q" for o1 i1 x1 p o2 i2 x2 q
      using view_id [OF assms(1) that] view_key [OF assms(1) that(1)] view_key [OF assms(1) that(2)] by simp
    have w3: "wf s3" and rs: "rs = map (\<lambda>(m, d). reconciled (existing_repositories ?inst items) (fresh m) now ?org ?inst
          (sp_is_development_substitute adapter) d) (zip [0..<0 + length ds] ds)"
      and v3: "view s3 = fold (\<lambda>r v. view_upsert v r) rs (view s2)"
      using reconcile_loop [where ?v0.0 = "view s", OF fresh(2) ids sub ex _ w2(1) _ _ dist loop] w2(2)
        fresh(1) reconcile_length [OF loop] by simp_all
    have w4: "wf s4" "view s4 = view_revoke (view s3) ?org ?inst (map de_external_id ds) now"
      using revoke_except [OF w3 rev] by simp_all
    have w5: "wf s5" "view s5 = view s4" using update_installation [OF w4(1) upd] by simp_all
    have w6: "wf s'" "view s' = view s5" using record_audit [OF w5(1) aud] by blast+
    show ?thesis
      using reconciles_fold [OF dist _ rs, of "view s"] ex w2(2) w4(2) w5(2) w6 v3 by simp
  qed
  then show ?thesis using d by blast
qed

end

end
