(* ===== verification/InOrgApi.thy ===== *)
theory InOrgApi
  imports InApi
begin

text \<open>
  The request handlers of \<open>entrypoints/api.py\<close> of the integrations service for organizations:
  installing the GitHub app, connections, repositories, model credentials, pull requests.
\<close>

section \<open>GitHub installations\<close>

definition enabled_configuration :: "nat \<Rightarrow> string \<Rightarrow> uuid \<Rightarrow> source_control_configuration in_handler" where
  "enabled_configuration code detail configuration_id =
     bindS (on_db (ip_get_source_control_configuration configuration_id)) (\<lambda>found.
     requireS (InHttpE code detail)
       (case found of None \<Rightarrow> None | Some c \<Rightarrow> if sc_enabled c then Some c else None))"

definition api_start_github_installation ::
  "in_app \<Rightarrow> string \<Rightarrow> time \<Rightarrow> uuid \<Rightarrow> principal \<Rightarrow> uuid \<Rightarrow> (string, string) dict in_handler" where
  "api_start_github_installation app state now organization_id p configuration_id =
     seqS (in_authorize organization_id (pl_subject p) [''OWNER'', ''ADMIN''])
     (bindS (enabled_configuration 404 ''GitHub configuration is unavailable'' configuration_id) (\<lambda>configuration.
      seqS (on_db (ip_create_connector_setup_attempt organization_id (hash_state app state)
                     (pl_subject p) (sc_id configuration) (now + minutes 10)))
      (returnS [(''installation_url'', sc_web_base_url configuration @ ''/apps/'' @
                   quote (sc_app_slug configuration) @ ''/installations/new?state='' @ quote state),
                (''state'', state)])))"

definition api_available_source_control_configurations ::
  "uuid \<Rightarrow> principal \<Rightarrow> (string, string) dict list in_handler" where
  "api_available_source_control_configurations organization_id p =
     seqS (in_authorize organization_id (pl_subject p) [''OWNER'', ''ADMIN''])
     (bindS (on_db ip_list_source_control_configurations) (\<lambda>configurations.
      returnS (map (\<lambda>item.
        [(''id'', str_uuid (sc_id item)), (''display_name'', sc_display_name item),
         (''provider'', sc_provider item), (''app_slug'', sc_app_slug item),
         (''webhook_mode'', webhook_mode_value (sc_webhook_mode item))])
        (filter sc_enabled configurations))))"

record github_installation_complete =
  gi_state :: string
  gi_code :: string
  gi_installation_id :: string

definition oauth_request :: "source_control_configuration \<Rightarrow> string \<Rightarrow> string \<Rightarrow> http_request" where
  "oauth_request configuration client_secret code =
     \<lparr>hq_method = ''POST'',
      hq_url = sc_web_base_url configuration @ ''/login/oauth/access_token'',
      hq_headers = [(''Accept'', ''application/json'')], hq_params = [], hq_json = None,
      hq_data = [(''client_id'', sc_client_id configuration), (''client_secret'', client_secret),
                 (''code'', code)]\<rparr>"

text \<open>\<open>payload.get(key, default)\<close> of a decoded JSON value.\<close>

definition json_get :: "json \<Rightarrow> string \<Rightarrow> json \<Rightarrow> in_error + json" where
  "json_get j key d = (case j of JObj kvs \<Rightarrow> Inr (obj_get_default kvs key d) | _ \<Rightarrow> Inl InAttributeE)"

text \<open>\<open>any(str(item["id"]) == wanted for item in installations)\<close>, stopping at the first.\<close>

fun any_installation :: "in_env \<Rightarrow> string \<Rightarrow> json list \<Rightarrow> in_error + bool" where
  "any_installation env wanted [] = Inr False"
| "any_installation env wanted (item # items) =
     (case str_item env item ''id'' of
        Inl e \<Rightarrow> Inl e
      | Inr x \<Rightarrow> if x = wanted then Inr True else any_installation env wanted items)"

fun installation_visible ::
  "in_env \<Rightarrow> source_control_configuration \<Rightarrow> string \<Rightarrow> string \<Rightarrow> nat list \<Rightarrow> bool in_handler" where
  "installation_visible env configuration user_token wanted [] = returnS False"
| "installation_visible env configuration user_token wanted (page # pages) =
     bindS (http_send env \<lparr>hq_method = ''GET'',
        hq_url = sc_api_base_url configuration @ ''/user/installations'',
        hq_headers = [(''Accept'', ''application/vnd.github+json''), bearer user_token,
                      (''X-GitHub-Api-Version'', sc_api_version configuration)],
        hq_params = [(''per_page'', JInt 100), (''page'', JInt (int page))], hq_json = None,
        hq_data = []\<rparr>) (\<lambda>(status, body).
     seqS (require_or 502 ''GitHub installation verification failed'' (status < 400))
     (bindS (json_body body) (\<lambda>payload.
      bindS (liftS (json_get payload ''installations'' (JList []))) (\<lambda>installations.
      bindS (liftS (json_items installations)) (\<lambda>items.
      bindS (liftS (any_installation env wanted items)) (\<lambda>found.
      if found then returnS True
      else if length items < 100 then returnS False
      else installation_visible env configuration user_token wanted pages))))))"

text \<open>\<open>dict(value)\<close> of a decoded JSON value, where all keys are strings.\<close>

definition dict_pair :: "json \<Rightarrow> (string \<times> json) option" where
  "dict_pair j =
     (case j of
        JList [JStr k, v] \<Rightarrow> Some (k, v)
      | JStr [a, b] \<Rightarrow> Some ([a], JStr [b])
      | JObj [(a, _), (b, _)] \<Rightarrow> Some (a, JStr b)
      | _ \<Rightarrow> None)"

definition py_dict :: "json \<Rightarrow> (string \<times> json) list option" where
  "py_dict j =
     (case j of
        JObj kvs \<Rightarrow> Some kvs
      | JList xs \<Rightarrow>
          if list_all (\<lambda>x. dict_pair x \<noteq> None) xs
          then Some (fold (\<lambda>x d. case dict_pair x of None \<Rightarrow> d | Some (k, v) \<Rightarrow> dset k v d) xs [])
          else None
      | JStr s \<Rightarrow> if s = [] then Some [] else None
      | _ \<Rightarrow> None)"

definition granted_permissions :: "in_env \<Rightarrow> (string \<times> json) list \<Rightarrow> in_error + string list" where
  "granted_permissions env payload =
     (let ps = obj_get payload ''permissions'' in
      case py_dict (if truthy ps then ps else JObj []) of
        None \<Rightarrow> Inl InTypeE
      | Some kvs \<Rightarrow> Inr (map (\<lambda>(k, v). k @ '':'' @ py_str (en_repr env) v) kvs))"

definition api_complete_github_installation ::
  "in_app \<Rightarrow> time \<Rightarrow> time \<Rightarrow> uuid \<Rightarrow> time \<Rightarrow> (nat \<Rightarrow> uuid \<times> time) \<Rightarrow> uuid \<Rightarrow> principal \<Rightarrow>
     github_installation_complete \<Rightarrow> (connector_installation \<times> repository_connection list) in_handler" where
  "api_complete_github_installation app used_at now installation_uuid created fresh organization_id p
     payload =
     (let env = ap_env app in
      seqS (in_authorize organization_id (pl_subject p) [''OWNER'', ''ADMIN''])
      (bindS (on_db (ip_consume_connector_setup_attempt used_at organization_id
                (hash_state app (gi_state payload)) (pl_subject p) now)) (\<lambda>consumed.
       bindS (requireS (InHttpE 409 ''installation state is invalid or expired'') consumed)
        (\<lambda>configuration_id.
       bindS (enabled_configuration 404 ''GitHub configuration is unavailable'' configuration_id)
        (\<lambda>configuration.
       bindS (encrypted_secrets app) (\<lambda>st.
       bindS (reference_of (sc_client_secret_reference configuration)) (\<lambda>client_reference.
       bindS (secret_get env st client_reference) (\<lambda>client_secret_bytes.
       bindS (requireS (InValueE ''invalid utf-8'') (utf8_decode client_secret_bytes)) (\<lambda>client_secret.
       bindS (http_send env (oauth_request configuration client_secret (gi_code payload)))
        (\<lambda>(status, body).
       seqS (require_or 502 ''GitHub OAuth exchange failed'' (status < 400))
       (bindS (json_body body) (\<lambda>token_payload.
       bindS (liftS (json_get token_payload ''access_token'' (JStr []))) (\<lambda>access_token.
       let user_token = py_str (en_repr env) access_token in
       seqS (require_or 403 ''GitHub user authorization failed'' (user_token \<noteq> []))
       (bindS (installation_visible env configuration user_token (gi_installation_id payload) [1..<11])
         (\<lambda>is_visible.
       seqS (require_or 403 ''GitHub installation is not accessible to the authorizing user'' is_visible)
       (bindS (reference_of (sc_private_key_reference configuration)) (\<lambda>private_reference.
       bindS (secret_get env st private_reference) (\<lambda>private_key.
       bindS (ga_installation env \<lparr>ga_base_url = sc_api_base_url configuration,
                ga_api_version = sc_api_version configuration\<rparr> (gi_installation_id payload)
                (sc_app_id configuration) private_key) (\<lambda>installation_payload.
       let account = obj_get installation_payload ''account'' in
       bindS (liftS (json_get (if truthy account then account else JObj []) ''login'' (JStr ''unknown'')))
        (\<lambda>login.
       bindS (liftS (granted_permissions env installation_payload)) (\<lambda>permissions.
       in_connect WorldRepository
         (github_providers app st private_reference configuration ''2026-03-10'')
         installation_uuid created fresh organization_id (pl_subject p) ''github''
         (gi_installation_id payload) (py_str (en_repr env) login) (Some (sc_id configuration))
         permissions
         (upper (py_str (en_repr env)
            (obj_get_default installation_payload ''repository_selection'' (JStr ''selected'')))))))))))))))))))))))))"

section \<open>Connections and repositories\<close>

record connection_create =
  cc_external_account_id :: string
  cc_account_login :: string
  cc_provider :: string

definition valid_connection_create :: "connection_create \<Rightarrow> bool" where
  "valid_connection_create p \<longleftrightarrow>
     field_length 1 256 (cc_external_account_id p) \<and> field_length 1 256 (cc_account_login p)"

definition api_connect ::
  "uuid \<Rightarrow> time \<Rightarrow> (nat \<Rightarrow> uuid \<times> time) \<Rightarrow> uuid \<Rightarrow> principal \<Rightarrow> connection_create \<Rightarrow>
     (connector_installation \<times> repository_connection list) in_handler" where
  "api_connect installation_id now fresh organization_id p payload =
     seqS (in_authorize organization_id (pl_subject p) [''OWNER'', ''ADMIN''])
     (seqS (require_or 501 ''real GitHub is not configured; select github-local explicitly''
              (cc_provider payload = ''github-local''))
     (in_connect WorldRepository local_providers installation_id now fresh organization_id
        (pl_subject p) (cc_provider payload) (cc_external_account_id payload)
        (cc_account_login payload) None [] ''SELECTED''))"

definition api_repositories :: "uuid \<Rightarrow> principal \<Rightarrow> repository_connection list in_handler" where
  "api_repositories organization_id p =
     seqS (in_authorize organization_id (pl_subject p) [''OWNER'', ''ADMIN'', ''DEVELOPER'', ''REVIEWER''])
     (on_db (ip_list_repositories organization_id))"

section \<open>Model credentials\<close>

record model_credential_write =
  mw_value :: string
  mw_provider :: string
  mw_display_name :: string

definition credential_document ::
  "uuid \<Rightarrow> string \<Rightarrow> string \<Rightarrow> string \<Rightarrow> secret_reference \<Rightarrow> (string, string) dict" where
  "credential_document credential_id provider display_name status reference =
     [(''id'', str_uuid credential_id), (''provider'', provider), (''display_name'', display_name),
      (''status'', status), (''store'', sr_store reference), (''namespace'', sr_namespace reference),
      (''key'', sr_key reference)]"

definition reference_details :: "secret_reference \<Rightarrow> (string \<times> json) list" where
  "reference_details r =
     [(''store'', JStr (sr_store r)), (''namespace'', JStr (sr_namespace r)), (''key'', JStr (sr_key r))]"

definition api_create_model_credential ::
  "in_app \<Rightarrow> uuid \<Rightarrow> string \<Rightarrow> time \<Rightarrow> uuid \<Rightarrow> principal \<Rightarrow> model_credential_write \<Rightarrow> string option \<Rightarrow>
     (string, string) dict in_handler" where
  "api_create_model_credential app credential_id nonce now organization_id p payload idempotency_key =
     seqS (in_authorize organization_id (pl_subject p) [''OWNER'', ''ADMIN''])
     (bindS (requireS (InHttpE 400 ''Idempotency-Key is required'')
               (case idempotency_key of None \<Rightarrow> None | Some k \<Rightarrow> if k = [] then None else Some k)) (\<lambda>key.
      bindS (liftS (map_sum InValueE id (SecretReference ''encrypted-file''
               (''model-credentials/'' @ str_uuid organization_id) (str_uuid credential_id) None))) (\<lambda>reference.
      bindS (on_db (ip_list_model_credentials organization_id)) (\<lambda>items.
      case find (\<lambda>item. mc_idempotency_key item = key) items of
        Some existing \<Rightarrow>
          bindS (reference_of (mc_secret_reference existing)) (\<lambda>existing_reference.
          returnS (credential_document (mc_id existing) (mc_provider existing)
                     (mc_display_name existing) (mc_status existing) existing_reference))
      | None \<Rightarrow>
          bindS (encrypted_secrets app) (\<lambda>st.
          seqS (secret_put (ap_env app) st nonce reference (utf8 (mw_value payload)))
          (bindS (on_errorS
             (on_db (ip_add_model_credential now credential_id organization_id (mw_provider payload)
                       (mw_display_name payload) reference key))
             (secret_delete (ap_env app) st reference)) (\<lambda>_.
          seqS (on_db (ip_record_audit
             \<lparr>ia_organization_id = organization_id, ia_actor_subject = pl_subject p,
              ia_action = ''model_credential.created'', ia_target_type = ''secret_reference'',
              ia_target_id = credential_id, ia_details = reference_details reference\<rparr>))
          (returnS (credential_document credential_id (mw_provider payload)
                      (mw_display_name payload) ''ACTIVE'' reference)))))))))"

definition api_list_model_credentials ::
  "(time \<Rightarrow> string) \<Rightarrow> uuid \<Rightarrow> principal \<Rightarrow> (string, string) dict list in_handler" where
  "api_list_model_credentials isoformat organization_id p =
     seqS (in_authorize organization_id (pl_subject p) [''OWNER'', ''ADMIN''])
     (bindS (on_db (ip_list_model_credentials organization_id)) (\<lambda>items.
      returnS (map (\<lambda>item.
        [(''id'', str_uuid (mc_id item)), (''provider'', mc_provider item),
         (''display_name'', mc_display_name item), (''status'', mc_status item),
         (''created_at'', isoformat (mc_created_at item))]) items)))"

definition api_revoke_model_credential ::
  "in_app \<Rightarrow> time \<Rightarrow> uuid \<Rightarrow> uuid \<Rightarrow> principal \<Rightarrow> (string, string) dict in_handler" where
  "api_revoke_model_credential app now organization_id credential_id p =
     seqS (in_authorize organization_id (pl_subject p) [''OWNER'', ''ADMIN''])
     (bindS (on_db (ip_revoke_model_credential now organization_id credential_id)) (\<lambda>found.
      bindS (requireS (InHttpE 404 ''model credential was not found'') found) (\<lambda>credential.
      bindS (encrypted_secrets app) (\<lambda>st.
      bindS (reference_of (mc_secret_reference credential)) (\<lambda>reference.
      seqS (secret_delete (ap_env app) st reference)
      (seqS (on_db (ip_record_audit
         \<lparr>ia_organization_id = organization_id, ia_actor_subject = pl_subject p,
          ia_action = ''model_credential.revoked'', ia_target_type = ''secret_reference'',
          ia_target_id = mc_id credential, ia_details = [(''provider'', JStr (mc_provider credential))]\<rparr>))
      (returnS [(''id'', str_uuid (mc_id credential)), (''status'', ''REVOKED'')])))))))"

section \<open>Pull requests\<close>

record pull_request_create =
  pc_title :: string
  pc_body :: string
  pc_head_branch :: string
  pc_head_sha :: "string option"

definition api_create_pull_request ::
  "in_app \<Rightarrow> uuid \<Rightarrow> uuid \<Rightarrow> principal \<Rightarrow> pull_request_create \<Rightarrow> string \<Rightarrow>
     pull_request_result in_handler" where
  "api_create_pull_request app organization_id repository_id p payload idempotency_key =
     seqS (in_authorize organization_id (pl_subject p) [''OWNER'', ''ADMIN'', ''DEVELOPER''])
     (bindS (service_for_repository app organization_id repository_id) (\<lambda>providers.
      in_create_pull_request WorldRepository providers organization_id (pl_subject p) repository_id
        (pc_title payload) (pc_body payload) (pc_head_branch payload) (pc_head_sha payload)
        idempotency_key))"

definition api_internal_pull_request ::
  "in_app \<Rightarrow> uuid \<Rightarrow> uuid \<Rightarrow> pull_request_create \<Rightarrow> string \<Rightarrow> string \<Rightarrow> pull_request_result in_handler" where
  "api_internal_pull_request app organization_id repository_id payload idempotency_key service_token =
     bindS (liftS (compare_digest service_token (se_internal_service_token (ap_settings app)))) (\<lambda>same.
     seqS (require_or 401 ''invalid service identity'' same)
     (bindS (service_for_repository app organization_id repository_id) (\<lambda>providers.
      in_create_pull_request WorldRepository providers organization_id ''delivery-service'' repository_id
        (pc_title payload) (pc_body payload) (pc_head_branch payload) (pc_head_sha payload)
        idempotency_key)))"

end
