(* ===== verification/InExchange.thy ===== *)
theory InExchange
  imports InOrgApi
begin

text \<open>
  The requests and loops of the integrations service that no user starts: the GitHub webhook and
  the exchange of capabilities for credentials (\<open>entrypoints/api.py\<close>), the reconciliation of
  installations (\<open>entrypoints/reconcile.py\<close>) and the consumer of membership events
  (\<open>entrypoints/events.py\<close>).
\<close>

section \<open>Webhooks\<close>

definition WEBHOOK_LIMIT :: int where
  "WEBHOOK_LIMIT = 2097152"

text \<open>\<open>bytes.strip()\<close>.\<close>

definition strip_bytes :: "string \<Rightarrow> string" where
  "strip_bytes s = rev (dropWhile is_blank (rev (dropWhile is_blank s)))"

definition check_content_length :: "string option \<Rightarrow> unit in_handler" where
  "check_content_length content_length =
     (case content_length of
        None \<Rightarrow> returnS ()
      | Some h \<Rightarrow>
          if h = [] then returnS ()
          else (case py_int_str h of
                  None \<Rightarrow> in_http_error 400 ''content length is invalid''
                | Some n \<Rightarrow> require_or 413 ''webhook payload is too large'' (n \<le> WEBHOOK_LIMIT)))"

definition webhook_secret :: "in_app \<Rightarrow> string option \<Rightarrow> string in_handler" where
  "webhook_secret app target_id =
     (if target_id \<noteq> None \<and> target_id \<noteq> Some [] then
        bindS (on_db (ip_source_control_configuration_for_app_id ''github'' (the target_id))) (\<lambda>found.
        bindS (requireS (InHttpE 404 ''GitHub App is not configured'')
                 (case found of None \<Rightarrow> None | Some c \<Rightarrow> if sc_enabled c then Some c else None))
         (\<lambda>configuration.
        bindS (encrypted_secrets app) (\<lambda>st.
        bindS (reference_of (sc_webhook_secret_reference configuration)) (\<lambda>reference.
        secret_get (ap_env app) st reference))))
      else
        (case se_github_webhook_secret_file (ap_settings app) of
           None \<Rightarrow> in_http_error 503 ''GitHub webhook adapter is disabled''
         | Some None \<Rightarrow> raiseS InFileE
         | Some (Some content) \<Rightarrow> returnS (strip_bytes content)))"

text \<open>
  \<open>json.loads(body)\<close> and \<open>payload["installation"]["id"]\<close>; only a decoding error, a missing key
  and a wrong type are answered with 422.
\<close>

definition webhook_payload :: "in_app \<Rightarrow> string \<Rightarrow> ((string \<times> json) list \<times> string) in_handler" where
  "webhook_payload app body =
     (case ap_loads app body of
        Inl (InValueE m) \<Rightarrow> in_http_error 422 ''webhook has no installation identity''
      | Inl e \<Rightarrow> raiseS e
      | Inr payload \<Rightarrow>
          (case json_item payload ''installation'' of
             Inl _ \<Rightarrow> in_http_error 422 ''webhook has no installation identity''
           | Inr installation \<Rightarrow>
               (case (payload, str_item (ap_env app) installation ''id'') of
                  (JObj kvs, Inr external_id) \<Rightarrow> returnS (kvs, external_id)
                | _ \<Rightarrow> in_http_error 422 ''webhook has no installation identity'')))"

definition installation_action ::
  "string \<Rightarrow> connector_installation \<Rightarrow> integration_error + connector_installation" where
  "installation_action action i =
     (if action = ''deleted'' then Inr (disconnect i)
      else if action = ''suspend'' then suspend i
      else if action = ''unsuspend'' then activate i
      else Inr i)"

definition api_github_webhook ::
  "in_app \<Rightarrow> string option \<Rightarrow> string \<Rightarrow> string \<Rightarrow> string \<Rightarrow> string \<Rightarrow> string option \<Rightarrow>
     (string, string) dict in_handler" where
  "api_github_webhook app content_length body delivery event signature target_id =
     seqS (check_content_length content_length)
     (seqS (require_or 413 ''webhook payload is too large'' (int (length body) \<le> WEBHOOK_LIMIT))
     (bindS (webhook_secret app target_id) (\<lambda>secret.
      bindS (liftS (verify_webhook_signature (ap_hmac app) body signature secret)) (\<lambda>genuine.
      seqS (require_or 401 ''invalid webhook signature'' genuine)
      (bindS (webhook_payload app body) (\<lambda>(payload, external_installation_id).
       bindS (on_db (ip_organization_for_external_installation ''github'' external_installation_id))
        (\<lambda>route.
       bindS (requireS (InHttpE 404 ''installation is not connected'') route) (\<lambda>organization_id.
       bindS (on_db (ip_record_webhook_delivery
                \<lparr>wh_provider = ''github'', wh_delivery_id = delivery,
                 wh_organization_id = Some organization_id, wh_event_name = event,
                 wh_payload_hash = ap_sha256 app body\<rparr>)) (\<lambda>accepted.
       seqS (if \<not> accepted \<or> event \<noteq> ''installation'' then returnS ()
             else
               bindS (on_db (ip_installation_for_external organization_id ''github''
                        external_installation_id)) (\<lambda>found.
               case found of
                 None \<Rightarrow> returnS ()
               | Some installation \<Rightarrow>
                   let action = py_str (en_repr (ap_env app))
                                  (obj_get_default payload ''action'' (JStr [])) in
                   bindS (integrationS (installation_action action installation)) (\<lambda>changed.
                   seqS (on_db (ip_update_installation changed))
                   (on_db (ip_record_audit
                      \<lparr>ia_organization_id = organization_id, ia_actor_subject = ''github-webhook'',
                       ia_action = ''connector.installation.'' @
                         (if action = [] then ''received'' else action),
                       ia_target_type = ''connector_installation'', ia_target_id = ci_id changed,
                       ia_details = [(''delivery_id'', JStr delivery)]\<rparr>)))))
       (returnS [(''status'', if accepted then ''accepted'' else ''duplicate'')]))))))))))"

section \<open>Exchanging capabilities\<close>

definition catching_401 :: "string \<Rightarrow> in_error + 'a \<Rightarrow> 'a in_handler" where
  "catching_401 detail r =
     (case r of
        Inr a \<Rightarrow> returnS a
      | Inl InOverflowE \<Rightarrow> raiseS InOverflowE
      | Inl e \<Rightarrow> in_http_error 401 detail)"

text \<open>
  \<open>datetime.fromtimestamp(seconds, tz=UTC)\<close>: \<open>ValueError\<close> outside the years 1 to 9999; further
  out the C library fails, which Python reports with other exceptions.
\<close>

definition fromtimestamp :: "int \<Rightarrow> in_error + time" where
  "fromtimestamp s =
     (if -62135596800 \<le> s \<and> s \<le> 253402300799 then Inr (seconds s)
      else if -67768040609740800 \<le> s \<and> s \<le> 67768036191676799
      then Inl (InValueE ''year is out of range'')
      else Inl InOverflowE)"

definition claim_uuid :: "in_env \<Rightarrow> (string \<times> json) list \<Rightarrow> string \<Rightarrow> in_error + uuid" where
  "claim_uuid env claims key =
     (case dget claims key of
        None \<Rightarrow> Inl InKeyE
      | Some v \<Rightarrow> (case uuid_of_str (py_str (en_repr env) v) of
                    None \<Rightarrow> Inl (InValueE ''badly formed hexadecimal UUID string'')
                  | Some u \<Rightarrow> Inr u))"

definition claim_expiry :: "(string \<times> json) list \<Rightarrow> in_error + time" where
  "claim_expiry claims =
     (case dget claims ''exp'' of
        None \<Rightarrow> Inl InKeyE
      | Some v \<Rightarrow> (case py_int v of
                    None \<Rightarrow> Inl (InValueE ''invalid literal for int()'')
                  | Some s \<Rightarrow> fromtimestamp s))"

definition claim_str :: "in_env \<Rightarrow> (string \<times> json) list \<Rightarrow> string \<Rightarrow> string in_handler" where
  "claim_str env claims key =
     requireS InKeyE (map_option (py_str (en_repr env)) (dget claims key))"

definition decoded_claims ::
  "in_app \<Rightarrow> string \<Rightarrow> string list \<Rightarrow> string \<Rightarrow> time \<Rightarrow> in_error + (string \<times> json) list" where
  "decoded_claims app audience required token now =
     (case ap_jwt_decode app token (se_internal_service_token (ap_settings app)) audience required now of
        None \<Rightarrow> Inl (InValueE ''token is invalid'')
      | Some claims \<Rightarrow> Inr claims)"

definition source_capability_claims ::
  "in_app \<Rightarrow> time \<Rightarrow> string \<Rightarrow> in_error + ((string \<times> json) list \<times> uuid \<times> uuid \<times> time)" where
  "source_capability_claims app now token =
     (case decoded_claims app ''mvp-integrations-source''
             [''exp'', ''iat'', ''jti'', ''organization_id'', ''repository_id'', ''purpose''] token now of
        Inl e \<Rightarrow> Inl e
      | Inr claims \<Rightarrow>
     (case claim_uuid (ap_env app) claims ''organization_id'' of Inl e \<Rightarrow> Inl e | Inr organization_id \<Rightarrow>
     (case claim_uuid (ap_env app) claims ''repository_id'' of Inl e \<Rightarrow> Inl e | Inr repository_id \<Rightarrow>
     (case claim_expiry claims of Inl e \<Rightarrow> Inl e | Inr expires_at \<Rightarrow>
        Inr (claims, organization_id, repository_id, expires_at)))))"

definition api_exchange_source_credential ::
  "in_app \<Rightarrow> time \<Rightarrow> time \<Rightarrow> string \<Rightarrow> (string, string) dict in_handler" where
  "api_exchange_source_credential app now redeemed_at token =
     (let env = ap_env app in
      bindS (catching_401 ''source capability is invalid'' (source_capability_claims app now token))
       (\<lambda>(claims, organization_id, repository_id, expires_at).
      bindS (claim_str env claims ''purpose'') (\<lambda>purpose.
      seqS (require_or 401 ''source capability purpose is invalid''
              (purpose \<in> set [''CHECKOUT_READ'', ''PUBLISH_WRITE'']))
      (bindS (claim_str env claims ''jti'') (\<lambda>jti.
       bindS (on_db (ip_redeem_source_capability redeemed_at organization_id jti expires_at)) (\<lambda>redeemed.
       seqS (require_or 409 ''source capability was already redeemed'' redeemed)
       (bindS (on_db (ip_get_repository organization_id repository_id)) (\<lambda>found.
        bindS (requireS (InHttpE 403 ''repository access is not active'')
                 (case found of None \<Rightarrow> None
                  | Some r \<Rightarrow> if rc_access_status r = RA_ACTIVE then Some r else None)) (\<lambda>connected.
        bindS (on_db (ip_get_installation organization_id (rc_installation_id connected))) (\<lambda>found'.
        if (case found' of None \<Rightarrow> False | Some i \<Rightarrow> ci_provider i = ''github-local'') \<and>
           rc_is_development_substitute connected
        then returnS
          [(''clone_locator'', rc_clone_locator connected),
           (''default_branch'', rc_default_branch connected), (''username'', []), (''token'', []),
           (''expires_at'', []), (''development_substitute'', ''true'')]
        else
          bindS (requireS (InHttpE 403 ''connector installation is not active'')
                   (case found' of None \<Rightarrow> None
                    | Some i \<Rightarrow> if ci_status i = IS_ACTIVE
                                then map_option (Pair i) (ci_provider_configuration_id i) else None))
           (\<lambda>(installation, configuration_id).
          bindS (enabled_configuration 403 ''GitHub configuration is not active'' configuration_id)
           (\<lambda>configuration.
          bindS (encrypted_secrets app) (\<lambda>st.
          bindS (reference_of (sc_private_key_reference configuration)) (\<lambda>private_reference.
          bindS (secret_get env st private_reference) (\<lambda>private_key.
          bindS (installation_token env \<lparr>ga_base_url = sc_api_base_url configuration,
                   ga_api_version = sc_api_version configuration\<rparr>
                   (ci_external_account_id installation) (sc_app_id configuration) private_key
                   (Some (rc_external_repository_id connected))
                   [(''contents'', if purpose = ''CHECKOUT_READ'' then ''read'' else ''write'')])
           (\<lambda>credential.
          returnS
            [(''clone_locator'', rc_clone_locator connected),
             (''default_branch'', rc_default_branch connected), (''username'', ''x-access-token''),
             (''token'', gc_token credential),
             (''expires_at'', (case gc_expires_at credential of None \<Rightarrow> [] | Some e \<Rightarrow> e))]))))))))))))))))"

definition model_capability_claims ::
  "in_app \<Rightarrow> time \<Rightarrow> string \<Rightarrow>
     in_error + ((string \<times> json) list \<times> uuid \<times> uuid \<times> time \<times> secret_reference)" where
  "model_capability_claims app now token =
     (case decoded_claims app ''mvp-integrations-model''
             [''exp'', ''iat'', ''jti'', ''organization_id'', ''execution_id'', ''secret_reference'',
              ''purpose''] token now of
        Inl e \<Rightarrow> Inl e
      | Inr claims \<Rightarrow>
     (case claim_uuid (ap_env app) claims ''organization_id'' of Inl e \<Rightarrow> Inl e | Inr organization_id \<Rightarrow>
     (case claim_uuid (ap_env app) claims ''execution_id'' of Inl e \<Rightarrow> Inl e | Inr execution_id \<Rightarrow>
     (case claim_expiry claims of Inl e \<Rightarrow> Inl e | Inr expires_at \<Rightarrow>
     (case dget claims ''secret_reference'' of None \<Rightarrow> Inl InKeyE | Some v \<Rightarrow>
     (case py_dict v of None \<Rightarrow> Inl InTypeE | Some kvs \<Rightarrow>
     (case secret_reference_of_json (JObj kvs) of Inl m \<Rightarrow> Inl (InValueE m) | Inr reference \<Rightarrow>
        Inr (claims, organization_id, execution_id, expires_at, reference))))))))"

definition api_exchange_model_credential ::
  "in_app \<Rightarrow> time \<Rightarrow> time \<Rightarrow> string \<Rightarrow> (string, string) dict in_handler" where
  "api_exchange_model_credential app now redeemed_at token =
     (let env = ap_env app in
      bindS (catching_401 ''model capability is invalid'' (model_capability_claims app now token))
       (\<lambda>(claims, organization_id, execution_id, expires_at, reference).
      bindS (claim_str env claims ''purpose'') (\<lambda>purpose.
      seqS (require_or 401 ''model capability purpose is invalid'' (purpose = ''MODEL_CREDENTIAL_READ''))
      (bindS (claim_str env claims ''jti'') (\<lambda>jti.
       bindS (on_db (ip_redeem_source_capability redeemed_at organization_id jti expires_at)) (\<lambda>redeemed.
       seqS (require_or 409 ''model capability was already redeemed'' redeemed)
       (seqS (require_or 403 ''secret reference is not owned by this organization''
               (sr_namespace reference = ''model-credentials/'' @ str_uuid organization_id))
       (bindS (encrypted_secrets app) (\<lambda>st.
        bindS (secret_get env st reference) (\<lambda>bytes.
        bindS (requireS (InValueE ''invalid utf-8'') (utf8_decode bytes)) (\<lambda>value.
        seqS (on_db (ip_record_audit
           \<lparr>ia_organization_id = organization_id, ia_actor_subject = ''runner'',
            ia_action = ''model_credential.exchanged'', ia_target_type = ''execution'',
            ia_target_id = execution_id, ia_details = reference_details reference\<rparr>))
        (returnS [(''value'', value)]))))))))))))"

section \<open>Reconciliation\<close>

text \<open>
  The session of one route: \<open>Some None\<close> is \<open>continue\<close>, which leaves the session without a
  commit; an exception is logged and the next route follows.
\<close>

definition reconcile_route ::
  "in_app \<Rightarrow> secret_store \<Rightarrow> (nat \<Rightarrow> uuid) \<Rightarrow> time \<Rightarrow> uuid \<times> uuid \<Rightarrow>
     repository_connection list option in_handler" where
  "reconcile_route app st fresh now route =
     (case route of (organization_id, installation_id) \<Rightarrow>
      bindS (on_db (ip_get_installation organization_id installation_id)) (\<lambda>found.
      case (case found of None \<Rightarrow> None
            | Some i \<Rightarrow> if ci_provider i \<noteq> ''github'' \<or> ci_status i \<noteq> IS_ACTIVE then None
                        else map_option (Pair i) (ci_provider_configuration_id i)) of
        None \<Rightarrow> returnS None
      | Some (installation, configuration_id) \<Rightarrow>
          bindS (on_db (ip_get_source_control_configuration configuration_id)) (\<lambda>found'.
          case (case found' of None \<Rightarrow> None | Some c \<Rightarrow> if sc_enabled c then Some c else None) of
            None \<Rightarrow> returnS None
          | Some configuration \<Rightarrow>
              bindS (reference_of (sc_private_key_reference configuration)) (\<lambda>private_reference.
              bindS (in_reconcile WorldRepository
                       (github_providers app st private_reference configuration
                          (sc_api_version configuration))
                       fresh now installation ''github-reconciliation-worker'') (\<lambda>connected.
              returnS (Some connected))))))"

fun reconcile_routes ::
  "in_app \<Rightarrow> secret_store \<Rightarrow> (nat \<Rightarrow> nat \<Rightarrow> uuid) \<Rightarrow> (nat \<Rightarrow> time) \<Rightarrow> nat \<Rightarrow> (uuid \<times> uuid) list \<Rightarrow>
     in_world \<Rightarrow> in_world" where
  "reconcile_routes app st fresh clock n [] w = w"
| "reconcile_routes app st fresh clock n (route # routes) w =
     reconcile_routes app st fresh clock (Suc n) routes
       (snd (in_request (reconcile_route app st (fresh n) (clock n) route) w))"

definition reconcile_once ::
  "in_app \<Rightarrow> (nat \<Rightarrow> nat \<Rightarrow> uuid) \<Rightarrow> (nat \<Rightarrow> time) \<Rightarrow> unit in_handler" where
  "reconcile_once app fresh clock w =
     (case se_secret_master_key_file (ap_settings app) of
        None \<Rightarrow> (Inr (), w)
      | Some None \<Rightarrow> (Inl InFileE, w)
      | Some (Some master_key) \<Rightarrow>
          (case EncryptedFileSecretStore (ap_env app) (se_encrypted_secret_root (ap_settings app))
                  master_key of
             Inl e \<Rightarrow> (Inl e, w)
           | Inr st \<Rightarrow>
               (case ip_list_installation_routes (wo_db w) of
                  (Inl e, _) \<Rightarrow> (Inl e, w)
                | (Inr routes, _) \<Rightarrow> (Inr (), reconcile_routes app st fresh clock 0 routes w))))"

section \<open>Membership events\<close>

definition process_membership_event :: "in_env \<Rightarrow> event_envelope \<Rightarrow> unit in_handler" where
  "process_membership_event env event =
     in_request
      (bindS (on_db (ip_record_inbox (ev_id event) (ev_organization_id event) (ev_type event))) (\<lambda>accepted.
       if \<not> accepted then returnS ()
       else
         bindS (requireS InKeyE (dget (ev_data event) ''subject'')) (\<lambda>subject.
         bindS (requireS InKeyE (dget (ev_data event) ''role'')) (\<lambda>r.
         bindS (requireS InKeyE (dget (ev_data event) ''active'')) (\<lambda>active.
         on_db (ip_upsert_membership (ev_organization_id event) (py_str (en_repr env) subject)
           (py_str (en_repr env) r) (truthy active)))))))"

end
