(* ===== verification/InReconcile.thy ===== *)
theory InReconcile
  imports InRepositories InExchange
begin

text \<open>
  The two instances of \<open>connected_repositories\<close>: the memory repository, and the tables of
  \<open>PostgresIntegrationRepository\<close> as the service uses them.
\<close>

section \<open>Views of lists of connections\<close>

lemma connection_view_cong:
  assumes "inj_on connection_key (set cs)"
    and "\<And>r. connection_key r = (org, inst, x) \<Longrightarrow> w = Some r \<longleftrightarrow> r \<in> set cs"
    and "\<And>r. w = Some r \<Longrightarrow> connection_key r = (org, inst, x)"
  shows "connection_view cs org inst x = w"
proof (cases w)
  case None
  then have no: "connection_view cs org inst x \<noteq> Some r" for r
    using assms(2) by (auto simp: connection_view_Some [OF assms(1)])
  then show ?thesis using None no by (metis option.exhaust)
next
  case (Some r)
  then show ?thesis using assms(2) [of r] assms(3) [of r] by (simp add: connection_view_Some [OF assms(1)])
qed

lemma connection_view_insert:
  assumes inj: "inj_on connection_key (set cs)"
    and set: "set cs' = insert r {u \<in> set cs. connection_key u \<noteq> connection_key r}"
  shows "inj_on connection_key (set cs')" and "connection_view cs' = view_upsert (connection_view cs) r"
proof -
  show inj': "inj_on connection_key (set cs')"
    unfolding set using inj by (auto simp: inj_on_def)
  show "connection_view cs' = view_upsert (connection_view cs) r"
  proof (intro ext)
    fix org inst x
    show "connection_view cs' org inst x = view_upsert (connection_view cs) r org inst x"
      by (rule connection_view_cong [OF inj'])
         (auto simp: view_upsert_def set connection_view_Some [OF inj] split: if_splits)
  qed
qed

lemma connection_view_map:
  assumes inj: "inj_on connection_key (set cs)" and key: "\<And>u. connection_key (f u) = connection_key u"
    and set: "set cs' = f ` set cs"
  shows "inj_on connection_key (set cs')"
    and "connection_view cs' org inst x = map_option f (connection_view cs org inst x)"
proof -
  show inj': "inj_on connection_key (set cs')"
    unfolding set using inj key by (auto simp: inj_on_def)
  show "connection_view cs' org inst x = map_option f (connection_view cs org inst x)"
  proof (rule connection_view_cong [OF inj'])
    fix r assume "connection_key r = (org, inst, x)"
    then show "map_option f (connection_view cs org inst x) = Some r \<longleftrightarrow> r \<in> set cs'"
      using key by (auto simp: set connection_view_Some [OF inj])
  next
    fix r assume "map_option f (connection_view cs org inst x) = Some r"
    then show "connection_key r = (org, inst, x)"
      using key by (auto simp: connection_view_Some [OF inj])
  qed
qed

definition revoked_if :: "uuid \<Rightarrow> uuid \<Rightarrow> string list \<Rightarrow> time \<Rightarrow> repository_connection \<Rightarrow> repository_connection" where
  "revoked_if org inst active t r =
     (if rc_organization_id r = org \<and> rc_installation_id r = inst \<and>
         rc_external_repository_id r \<notin> set active then revoke t r else r)"

lemma revoked_if_fields [simp]:
  "connection_key (revoked_if org inst active t r) = connection_key r"
  "rc_id (revoked_if org inst active t r) = rc_id r"
  by (simp_all add: revoked_if_def revoke_def connection_key_def)

lemma connection_view_revoke:
  assumes inj: "inj_on connection_key (set cs)" and set: "set cs' = revoked_if org inst active t ` set cs"
  shows "connection_view cs' = view_revoke (connection_view cs) org inst active t"
proof (intro ext)
  fix o' i x
  have "connection_view cs' o' i x = map_option (revoked_if org inst active t) (connection_view cs o' i x)"
    by (rule connection_view_map [OF inj _ set]) simp
  also have "\<dots> = view_revoke (connection_view cs) org inst active t o' i x"
  proof (cases "connection_view cs o' i x")
    case (Some u)
    then have "connection_key u = (o', i, x)" using connection_view_Some [OF inj] by blast
    then show ?thesis using Some by (auto simp: view_revoke_def revoked_if_def connection_key_def)
  qed (auto simp: view_revoke_def)
  finally show "connection_view cs' o' i x = view_revoke (connection_view cs) org inst active t o' i x" .
qed

lemma connection_view_list:
  "inj_on connection_key (set cs) \<Longrightarrow>
     r \<in> set (filter (\<lambda>r. rc_organization_id r = org) cs) \<longleftrightarrow> (\<exists>inst x. connection_view cs org inst x = Some r)"
  by (simp add: connection_view_Some) (auto simp: connection_key_def)

section \<open>The memory repository\<close>

definition memory_view :: "in_memory \<Rightarrow> uuid \<Rightarrow> uuid \<Rightarrow> string \<Rightarrow> repository_connection option" where
  "memory_view s = connection_view (dvals (im_repositories s))"

definition memory_repositories_wf :: "in_memory \<Rightarrow> bool" where
  "memory_repositories_wf s \<longleftrightarrow>
     wf_dict (im_repositories s) \<and> keyed rc_id (im_repositories s) \<and>
     inj_on connection_key (set (dvals (im_repositories s)))"

lemma in_keyed_dvals:
  "wf_dict d \<Longrightarrow> keyed key d \<Longrightarrow> v \<in> snd ` set d \<longleftrightarrow> dget d (key v) = Some v"
  using in_dvals_iff [of d v] by (auto simp: keyed_def)

lemma keyed_inj:
  assumes "wf_dict d" and "keyed key d"
  shows "inj_on key (set (dvals d))"
proof (rule inj_onI)
  fix u v assume "u \<in> set (dvals d)" "v \<in> set (dvals d)" "key u = key v"
  then have "dget d (key v) = Some u" "dget d (key v) = Some v"
    using in_keyed_dvals [OF assms, of u] in_keyed_dvals [OF assms, of v] by auto
  then show "u = v" by simp
qed

lemma memory_upsert:
  assumes wf: "memory_repositories_wf s" and adm: "admissible (memory_view s) r"
    and up: "im_upsert_repository r s = (Inr (), s')"
  shows "memory_repositories_wf s' \<and> memory_view s' = view_upsert (memory_view s) r"
proof -
  let ?d = "im_repositories s"
  have w: "wf_dict ?d" "keyed rc_id ?d" and inj: "inj_on connection_key (set (dvals ?d))"
    using wf by (simp_all add: memory_repositories_wf_def)
  let ?old = "find (same_repository r) (dvals ?d)"
  let ?base = "case ?old of None \<Rightarrow> ?d | Some item \<Rightarrow> AList.delete (rc_id item) ?d"
  have s': "im_repositories s' = dset (rc_id r) r ?base"
    using up by (auto simp: im_upsert_repository_def oper_iffs)
  have adm': "u \<in> set (dvals ?d) \<Longrightarrow> (rc_id u = rc_id r) = (connection_key u = connection_key r)" for u
  proof -
    assume u: "u \<in> set (dvals ?d)"
    obtain org inst x where k: "connection_key u = (org, inst, x)" by (cases "connection_key u")
    have "memory_view s org inst x = Some u"
      unfolding memory_view_def connection_view_Some [OF inj] using u k by simp
    then show "(rc_id u = rc_id r) = (connection_key u = connection_key r)"
      using adm k unfolding admissible_def by (metis (full_types))
  qed
  have base: "?base = ?d \<or> ?base = AList.delete (rc_id r) ?d"
  proof (cases ?old)
    case (Some item)
    then have "item \<in> set (dvals ?d)" "connection_key item = connection_key r"
      using find_SomeD [OF Some] by (auto simp: same_repository_def connection_key_def)
    then have "rc_id item = rc_id r" using adm' by blast
    then show ?thesis using Some by simp
  qed simp
  have wfb: "wf_dict ?base" using base w(1) by (auto simp: wf_dict_def distinct_delete)
  have get: "dget ?base k = dget ?d k" if "k \<noteq> rc_id r" for k
    using base that by (auto simp: delete_conv')
  have "set (dvals (im_repositories s')) = insert r {u. \<exists>j. j \<noteq> rc_id r \<and> dget ?base j = Some u}"
    unfolding s' by (rule set_dvals_dset_key [OF wfb])
  also have "\<dots> = insert r {u \<in> set (dvals ?d). rc_id u \<noteq> rc_id r}"
  proof -
    have "(\<exists>j. j \<noteq> rc_id r \<and> dget ?base j = Some u) \<longleftrightarrow> dget ?d (rc_id u) = Some u \<and> rc_id u \<noteq> rc_id r" for u
      using get keyedD [OF w(2)] by metis
    then show ?thesis using in_keyed_dvals [OF w] by simp
  qed
  also have "\<dots> = insert r {u \<in> set (dvals ?d). connection_key u \<noteq> connection_key r}"
    using adm' by blast
  finally have set: "set (dvals (im_repositories s')) =
      insert r {u \<in> set (dvals ?d). connection_key u \<noteq> connection_key r}" .
  have "keyed rc_id (im_repositories s')"
    unfolding s' using get keyedD [OF w(2)] by (auto simp: keyed_def split: if_splits)
  then show ?thesis
    using connection_view_insert [OF inj set] wfb
    unfolding memory_repositories_wf_def memory_view_def s' by simp
qed

lemma memory_revoke:
  assumes wf: "memory_repositories_wf s"
    and rev: "im_revoke_repositories_except org inst active t s = (Inr (), s')"
  shows "memory_repositories_wf s' \<and> memory_view s' = view_revoke (memory_view s) org inst active t"
proof -
  let ?d = "im_repositories s" and ?f = "revoked_if org inst active t"
  have w: "wf_dict ?d" "keyed rc_id ?d" and inj: "inj_on connection_key (set (dvals ?d))"
    using wf by (simp_all add: memory_repositories_wf_def)
  have s': "im_repositories s' = map (\<lambda>(k, r). (k, ?f r)) ?d"
    using rev by (auto simp: im_revoke_repositories_except_def oper_iffs revoked_if_def)
  have set: "set (dvals (im_repositories s')) = ?f ` set (dvals ?d)"
    unfolding s' by (force simp: image_iff)
  have get: "dget (im_repositories s') k = map_option ?f (dget ?d k)" for k
    unfolding s' by (simp add: map_of_map comp_def)
  have "wf_dict (im_repositories s')" using w(1) by (simp add: s' wf_dict_def comp_def case_prod_beta)
  moreover have "keyed rc_id (im_repositories s')"
    using keyedD [OF w(2)] by (auto simp: keyed_def get)
  ultimately show ?thesis
    using connection_view_revoke [OF inj set] connection_view_map(1) [OF inj _ set]
    by (simp add: memory_repositories_wf_def memory_view_def)
qed

interpretation memory_repositories:
  connected_repositories MemoryIntegrationRepository memory_view memory_repositories_wf
proof unfold_locales
  fix s org inst x p
  assume "memory_repositories_wf s" "memory_view s org inst x = Some p"
  then show "connection_key p = (org, inst, x)"
    by (auto simp: memory_view_def memory_repositories_wf_def connection_view_Some)
next
  fix s org inst x p o2 i2 x2 q
  assume wf: "memory_repositories_wf s" and "memory_view s org inst x = Some p"
    "memory_view s o2 i2 x2 = Some q" "rc_id p = rc_id q"
  then show "p = q"
    using inj_onD [OF keyed_inj [of "im_repositories s" rc_id], of p q]
    by (simp add: memory_view_def memory_repositories_wf_def connection_view_Some)
next
  fix s org items s'
  assume wf: "memory_repositories_wf s" and l: "ir_list_repositories MemoryIntegrationRepository org s = (Inr items, s')"
  then have s': "s' = s" and items: "items = filter (\<lambda>r. rc_organization_id r = org) (dvals (im_repositories s))"
    by (auto simp: MemoryIntegrationRepository_def im_list_repositories_def oper_iffs)
  have inj: "inj_on connection_key (set (dvals (im_repositories s)))"
    using wf by (simp add: memory_repositories_wf_def)
  have "\<forall>r. r \<in> set items \<longleftrightarrow> (\<exists>inst x. memory_view s org inst x = Some r)"
    unfolding items memory_view_def by (intro allI connection_view_list [OF inj])
  then show "memory_repositories_wf s' \<and> memory_view s' = memory_view s \<and>
      (\<forall>r. r \<in> set items \<longleftrightarrow> (\<exists>inst x. memory_view s org inst x = Some r))"
    using wf s' by blast
next
  fix s r s'
  assume "memory_repositories_wf s" "admissible (memory_view s) r"
    "ir_upsert_repository MemoryIntegrationRepository r s = (Inr (), s')"
  then show "memory_repositories_wf s' \<and> memory_view s' = view_upsert (memory_view s) r"
    by (intro memory_upsert) (simp_all add: MemoryIntegrationRepository_def)
next
  fix s org inst active t s'
  assume "memory_repositories_wf s"
    "ir_revoke_repositories_except MemoryIntegrationRepository org inst active t s = (Inr (), s')"
  then show "memory_repositories_wf s' \<and> memory_view s' = view_revoke (memory_view s) org inst active t"
    by (intro memory_revoke) (simp_all add: MemoryIntegrationRepository_def)
next
  fix s i s'
  assume "memory_repositories_wf s" "ir_update_installation MemoryIntegrationRepository i s = (Inr (), s')"
  then show "memory_repositories_wf s' \<and> memory_view s' = memory_view s"
    by (simp add: MemoryIntegrationRepository_def im_update_installation_def basic_oper_iff
        memory_view_def memory_repositories_wf_def)
next
  fix s a s'
  assume "memory_repositories_wf s" "ir_record_audit MemoryIntegrationRepository a s = (Inr (), s')"
  then show "memory_repositories_wf s' \<and> memory_view s' = memory_view s"
    by (simp add: MemoryIntegrationRepository_def im_record_audit_def basic_oper_iff
        memory_view_def memory_repositories_wf_def)
qed

section \<open>The tables\<close>

definition row_connections :: "(uuid, repository_row) dict \<Rightarrow> repository_connection list" where
  "row_connections d =
     concat (map (\<lambda>row. case repository_of_row row of Inl _ \<Rightarrow> [] | Inr r \<Rightarrow> [r]) (dvals d))"

definition table_view :: "in_db \<Rightarrow> uuid \<Rightarrow> uuid \<Rightarrow> string \<Rightarrow> repository_connection option" where
  "table_view s = connection_view (row_connections (id_repositories s))"

definition table_repositories_wf :: "in_db \<Rightarrow> bool" where
  "table_repositories_wf s \<longleftrightarrow>
     wf_dict (id_repositories s) \<and> keyed yw_id (id_repositories s) \<and>
     inj_on repository_key (set (dvals (id_repositories s))) \<and>
     (\<forall>row \<in> set (dvals (id_repositories s)). \<exists>r. row = repository_row_of r)"

lemma repository_row_fields [simp]:
  "repository_key (repository_row_of r) = connection_key r" "yw_id (repository_row_of r) = rc_id r"
  "yw_organization_id (repository_row_of r) = rc_organization_id r"
  "yw_installation_id (repository_row_of r) = rc_installation_id r"
  "yw_external_repository_id (repository_row_of r) = rc_external_repository_id r"
  by (simp_all add: repository_row_of_def repository_key_def connection_key_def)

lemma read_all_set:
  "read_all f rows = Inr items \<Longrightarrow> r \<in> set items \<longleftrightarrow> (\<exists>row \<in> set rows. f row = Inr r)"
proof (induction rows arbitrary: items)
  case (Cons row rows)
  then show ?case by (auto split: sum.splits)
qed simp

lemma repository_row_inj: "repository_row_of p = repository_row_of r \<Longrightarrow> p = r"
  by (metis integration_rows_roundtrip(3) Inr_inject)

lemma set_row_connections:
  assumes "\<forall>row \<in> set (dvals d). \<exists>r. row = repository_row_of r"
  shows "set (row_connections d) = {r. repository_row_of r \<in> set (dvals d)}"
proof (intro set_eqI iffI)
  fix r assume "r \<in> set (row_connections d)"
  then obtain row where row: "row \<in> set (dvals d)" "repository_of_row row = Inr r"
    by (auto simp: row_connections_def split: sum.splits) (metis image_eqI snd_conv)
  then obtain p where "row = repository_row_of p" using assms by blast
  then show "r \<in> {r. repository_row_of r \<in> set (dvals d)}"
    using row by (simp add: integration_rows_roundtrip)
next
  fix r assume "r \<in> {r. repository_row_of r \<in> set (dvals d)}"
  then show "r \<in> set (row_connections d)"
    by (force simp: row_connections_def integration_rows_roundtrip)
qed

lemma row_connections_inj:
  assumes "\<forall>row \<in> set (dvals d). \<exists>r. row = repository_row_of r" and "inj_on repository_key (set (dvals d))"
  shows "inj_on connection_key (set (row_connections d))"
proof (rule inj_onI)
  fix p q assume "p \<in> set (row_connections d)" "q \<in> set (row_connections d)"
    "connection_key p = connection_key q"
  then show "p = q"
    using inj_onD [OF assms(2), of "repository_row_of p" "repository_row_of q"] repository_row_inj
    unfolding set_row_connections [OF assms(1)] by simp
qed

lemma table_insert:
  assumes wf: "table_repositories_wf s"
    and wfd: "wf_dict (id_repositories s')" "keyed yw_id (id_repositories s')"
    and rows: "set (dvals (id_repositories s')) =
      insert (repository_row_of r) {u \<in> set (dvals (id_repositories s)). repository_key u \<noteq> connection_key r}"
  shows "table_repositories_wf s' \<and> table_view s' = view_upsert (table_view s) r"
proof -
  have all: "\<forall>row \<in> set (dvals (id_repositories s)). \<exists>r. row = repository_row_of r"
    and keys: "inj_on repository_key (set (dvals (id_repositories s)))"
    using wf unfolding table_repositories_wf_def by blast+
  have all': "\<forall>row \<in> set (dvals (id_repositories s')). \<exists>r. row = repository_row_of r"
    unfolding rows using all by blast
  have keys': "inj_on repository_key (set (dvals (id_repositories s')))"
    unfolding rows using keys by (auto simp: inj_on_def)
  have "set (row_connections (id_repositories s')) =
      insert r {u \<in> set (row_connections (id_repositories s)). connection_key u \<noteq> connection_key r}"
    unfolding set_row_connections [OF all] set_row_connections [OF all'] rows
    by (auto dest: repository_row_inj)
  from connection_view_insert(2) [OF row_connections_inj [OF all keys] this]
  show ?thesis using wfd all' keys' unfolding table_repositories_wf_def table_view_def by simp
qed

lemma refreshed:
  assumes "connection_key p = connection_key r" and "rc_id p = rc_id r"
    and "rc_created_at p = rc_created_at r"
    and "rc_is_development_substitute p = rc_is_development_substitute r"
  shows "refreshed_row r (repository_row_of p) = repository_row_of r"
  using assms by (simp add: refreshed_row_def repository_row_of_def connection_key_def)

lemma table_view_Some:
  assumes "table_repositories_wf s"
  shows "table_view s org inst x = Some p \<longleftrightarrow>
     repository_row_of p \<in> set (dvals (id_repositories s)) \<and> connection_key p = (org, inst, x)"
proof -
  have all: "\<forall>row \<in> set (dvals (id_repositories s)). \<exists>r. row = repository_row_of r"
    and keys: "inj_on repository_key (set (dvals (id_repositories s)))"
    using assms unfolding table_repositories_wf_def by blast+
  show ?thesis
    unfolding table_view_def connection_view_Some [OF row_connections_inj [OF all keys]]
      set_row_connections [OF all] by simp
qed

lemma table_upsert:
  assumes wf: "table_repositories_wf s" and adm: "admissible (table_view s) r"
    and up: "ip_upsert_repository r s = (Inr (), s')"
  shows "table_repositories_wf s' \<and> table_view s' = view_upsert (table_view s) r"
proof -
  let ?d = "id_repositories s" and ?P = "\<lambda>row. repository_key row = repository_key (repository_row_of r)"
  have w: "wf_dict ?d" "keyed yw_id ?d" and all: "\<forall>row \<in> set (dvals ?d). \<exists>r. row = repository_row_of r"
    using wf unfolding table_repositories_wf_def by blast+
  let ?found = "find ?P (visible yw_organization_id (Some (rc_organization_id r)) ?d)"
  have adm': "(yw_id u = rc_id r) = (repository_key u = connection_key r)"
    "repository_key u = connection_key r \<Longrightarrow> refreshed_row r u = repository_row_of r"
    if u: "u \<in> set (dvals ?d)" for u
  proof -
    obtain p where p: "u = repository_row_of p" using all u by blast
    obtain org inst x where k: "connection_key p = (org, inst, x)" by (cases "connection_key p")
    have "table_view s org inst x = Some p"
      unfolding table_view_Some [OF wf] using u k p by simp
    then have "if connection_key p = connection_key r
        then rc_id p = rc_id r \<and> rc_created_at p = rc_created_at r \<and>
             rc_is_development_substitute p = rc_is_development_substitute r
        else rc_id p \<noteq> rc_id r"
      using adm k unfolding admissible_def by metis
    then show "(yw_id u = rc_id r) = (repository_key u = connection_key r)"
      "repository_key u = connection_key r \<Longrightarrow> refreshed_row r u = repository_row_of r"
      using p refreshed [of p r] by (simp_all split: if_splits)
  qed
  have vis: "?P u \<Longrightarrow> u \<in> set (dvals ?d) \<Longrightarrow>
      u \<in> set (visible yw_organization_id (Some (rc_organization_id r)) ?d)" for u
    by (auto simp: visible_def repository_key_def repository_row_of_def)
  have "dget ?d (rc_id r) = None \<or> (\<exists>row. dget ?d (rc_id r) = Some row \<and> repository_key row = connection_key r)"
    using keyedD [OF w(2), of "rc_id r"] dget_in_dvals [of ?d "rc_id r"] adm'(1)
    by (cases "dget ?d (rc_id r)") auto
  have s': "id_repositories s' = dset (rc_id r) (repository_row_of r) ?d"
  proof (cases ?found)
    case None
    then show ?thesis using up by (auto simp: ip_upsert_repository_def ip_add_repository_def oper_iffs insertS_iff)
  next
    case (Some row)
    then have row: "row \<in> set (dvals ?d)" "repository_key row = connection_key r"
      using find_SomeD [OF Some] by (auto simp: visible_def)
    then have "yw_id row = rc_id r" "refreshed_row r row = repository_row_of r" using adm' by blast+
    then show ?thesis using up Some by (auto simp: ip_upsert_repository_def oper_iffs)
  qed
  have "set (dvals (id_repositories s')) = insert (repository_row_of r) {u. \<exists>j. j \<noteq> rc_id r \<and> dget ?d j = Some u}"
    unfolding s' by (rule set_dvals_dset_key [OF w(1)])
  also have "{u. \<exists>j. j \<noteq> rc_id r \<and> dget ?d j = Some u} = {u \<in> set (dvals ?d). yw_id u \<noteq> rc_id r}"
  proof -
    have "(\<exists>j. j \<noteq> rc_id r \<and> dget ?d j = Some u) \<longleftrightarrow> dget ?d (yw_id u) = Some u \<and> yw_id u \<noteq> rc_id r" for u
      using keyedD [OF w(2)] by metis
    then show ?thesis using in_keyed_dvals [OF w] by simp
  qed
  also have "\<dots> = {u \<in> set (dvals ?d). repository_key u \<noteq> connection_key r}" using adm' by blast
  finally have rows: "set (dvals (id_repositories s')) =
      insert (repository_row_of r) {u \<in> set (dvals ?d). repository_key u \<noteq> connection_key r}" .
  show ?thesis by (rule table_insert [OF wf _ _ rows]) (simp_all add: s' w)
qed

lemma table_revoke:
  assumes wf: "table_repositories_wf s"
    and rev: "ip_revoke_repositories_except org inst active t s = (Inr (), s')"
  shows "table_repositories_wf s' \<and> table_view s' = view_revoke (table_view s) org inst active t"
proof -
  let ?d = "id_repositories s" and ?f = "revoked_if org inst active t"
  define g where "g = (\<lambda>row. if org = yw_organization_id row \<and> yw_installation_id row = inst \<and>
      yw_external_repository_id row \<notin> set active then revoked_row t row else row)"
  have w: "wf_dict ?d" "keyed yw_id ?d" and all: "\<forall>row \<in> set (dvals ?d). \<exists>r. row = repository_row_of r"
    and keys: "inj_on repository_key (set (dvals ?d))"
    using wf unfolding table_repositories_wf_def by blast+
  have s': "id_repositories s' = map (\<lambda>(k, row). (k, g row)) ?d"
    using rev by (auto simp: ip_revoke_repositories_except_def oper_iffs g_def)
  have g: "g (repository_row_of r) = repository_row_of (?f r)" for r
    by (simp add: g_def revoked_if_def revoke_def revoked_row_def repository_row_of_def)
  have g_fields: "yw_id (g row) = yw_id row" "repository_key (g row) = repository_key row" for row
    by (simp_all add: g_def revoked_row_def repository_key_def)
  have "dvals (id_repositories s') = map g (dvals ?d)" unfolding s' by (simp add: case_prod_beta)
  then have rows: "set (dvals (id_repositories s')) = g ` set (dvals ?d)" by (simp only: set_map)
  have get: "dget (id_repositories s') k = map_option g (dget ?d k)" for k
    unfolding s' by (simp add: map_of_map comp_def)
  have all': "\<forall>row \<in> set (dvals (id_repositories s')). \<exists>r. row = repository_row_of r"
    unfolding rows
  proof
    fix row assume "row \<in> g ` set (dvals ?d)"
    then obtain u where u: "row = g u" "u \<in> set (dvals ?d)" by (rule imageE)
    from bspec [OF all u(2)] obtain r where "u = repository_row_of r" by (rule exE)
    then show "\<exists>r. row = repository_row_of r" using u(1) g by (intro exI [of _ "?f r"]) (simp only:)
  qed
  have keys': "inj_on repository_key (set (dvals (id_repositories s')))"
    unfolding rows
  proof (rule inj_onI, elim imageE)
    fix u v a b assume "repository_key u = repository_key v" "u = g a" "v = g b"
      "a \<in> set (dvals ?d)" "b \<in> set (dvals ?d)"
    then show "u = v" using inj_onD [OF keys, of a b] g_fields(2) [of a] g_fields(2) [of b] by metis
  qed
  have wd: "wf_dict (id_repositories s')" using w(1) by (simp add: s' wf_dict_def comp_def case_prod_beta)
  have kd: "keyed yw_id (id_repositories s')"
    using keyedD [OF w(2)] g_fields(1) by (auto simp: keyed_def get)
  have "set (row_connections (id_repositories s')) = ?f ` set (row_connections ?d)"
    unfolding set_row_connections [OF all] set_row_connections [OF all'] rows
  proof (intro set_eqI iffI)
    fix r assume "r \<in> {r. repository_row_of r \<in> g ` set (dvals ?d)}"
    then obtain row where row: "row \<in> set (dvals ?d)" "repository_row_of r = g row" by blast
    then obtain p where "row = repository_row_of p" using all by blast
    then show "r \<in> ?f ` {r. repository_row_of r \<in> set (dvals ?d)}"
      using row g [of p] repository_row_inj [of r "?f p"] by auto
  next
    fix r assume "r \<in> ?f ` {r. repository_row_of r \<in> set (dvals ?d)}"
    then show "r \<in> {r. repository_row_of r \<in> g ` set (dvals ?d)}"
      using g by (metis (mono_tags, lifting) imageE image_eqI mem_Collect_eq)
  qed
  from connection_view_revoke [OF row_connections_inj [OF all keys] this]
  show ?thesis using wd kd all' keys' unfolding table_repositories_wf_def table_view_def by simp
qed

interpretation table_repositories:
  connected_repositories WorldRepository "\<lambda>w. table_view (wo_db w)" "\<lambda>w. table_repositories_wf (wo_db w)"
proof unfold_locales
  fix w org inst x p
  assume "table_repositories_wf (wo_db w)" "table_view (wo_db w) org inst x = Some p"
  then show "connection_key p = (org, inst, x)" by (simp add: table_view_Some)
next
  fix w org inst x p o2 i2 x2 q
  assume wf: "table_repositories_wf (wo_db w)" and p: "table_view (wo_db w) org inst x = Some p"
    and q: "table_view (wo_db w) o2 i2 x2 = Some q" and id: "rc_id p = rc_id q"
  have "inj_on yw_id (set (dvals (id_repositories (wo_db w))))"
    using wf by (intro keyed_inj) (simp_all add: table_repositories_wf_def)
  from inj_onD [OF this, of "repository_row_of p" "repository_row_of q"]
  show "p = q" using p q id repository_row_inj by (simp add: table_view_Some [OF wf])
next
  fix w org items w'
  assume wf: "table_repositories_wf (wo_db w)"
    and l: "ir_list_repositories WorldRepository org w = (Inr items, w')"
  have all: "\<forall>row \<in> set (dvals (id_repositories (wo_db w))). \<exists>r. row = repository_row_of r"
    using wf unfolding table_repositories_wf_def by blast
  from l have w': "wo_db w' = (wo_db w)\<lparr>id_organization := Some org\<rparr>"
    and items: "read_all repository_of_row (visible yw_organization_id (Some org)
        (id_repositories (wo_db w))) = Inr items"
    by (auto simp: WorldRepository_def onS_iff ip_list_repositories_def oper_iffs)
  from read_all_set [OF items] have mem: "r \<in> set items \<longleftrightarrow>
      (\<exists>row \<in> set (visible yw_organization_id (Some org) (id_repositories (wo_db w))).
         repository_of_row row = Inr r)" for r .
  have "r \<in> set items \<longleftrightarrow> repository_row_of r \<in> set (dvals (id_repositories (wo_db w))) \<and>
      rc_organization_id r = org" for r
  proof
    assume "r \<in> set items"
    then obtain row where row: "row \<in> set (dvals (id_repositories (wo_db w)))"
      "yw_organization_id row = org" "repository_of_row row = Inr r"
      unfolding mem by (auto simp: visible_def)
    then obtain p where "row = repository_row_of p" using all by blast
    then show "repository_row_of r \<in> set (dvals (id_repositories (wo_db w))) \<and> rc_organization_id r = org"
      using row by (simp add: integration_rows_roundtrip)
  next
    assume "repository_row_of r \<in> set (dvals (id_repositories (wo_db w))) \<and> rc_organization_id r = org"
    then show "r \<in> set items"
      unfolding mem by (intro bexI [of _ "repository_row_of r"])
        (simp_all add: visible_def integration_rows_roundtrip)
  qed
  moreover have "(\<exists>inst x. table_view (wo_db w) org inst x = Some r) \<longleftrightarrow>
      repository_row_of r \<in> set (dvals (id_repositories (wo_db w))) \<and> rc_organization_id r = org" for r
    unfolding table_view_Some [OF wf] by (simp add: connection_key_def)
  ultimately show "table_repositories_wf (wo_db w') \<and> table_view (wo_db w') = table_view (wo_db w) \<and>
      (\<forall>r. r \<in> set items \<longleftrightarrow> (\<exists>inst x. table_view (wo_db w) org inst x = Some r))"
    using wf by (simp add: w' table_view_def table_repositories_wf_def)
next
  fix w r w'
  assume "table_repositories_wf (wo_db w)" "admissible (table_view (wo_db w)) r"
    "ir_upsert_repository WorldRepository r w = (Inr (), w')"
  then show "table_repositories_wf (wo_db w') \<and> table_view (wo_db w') = view_upsert (table_view (wo_db w)) r"
    by (intro table_upsert) (auto simp: WorldRepository_def onS_iff)
next
  fix w org inst active t w'
  assume "table_repositories_wf (wo_db w)"
    "ir_revoke_repositories_except WorldRepository org inst active t w = (Inr (), w')"
  then show "table_repositories_wf (wo_db w') \<and>
      table_view (wo_db w') = view_revoke (table_view (wo_db w)) org inst active t"
    by (intro table_revoke) (auto simp: WorldRepository_def onS_iff)
next
  fix w i w'
  assume wf: "table_repositories_wf (wo_db w)" and u: "ir_update_installation WorldRepository i w = (Inr (), w')"
  from u have "id_repositories (wo_db w') = id_repositories (wo_db w)"
    by (auto simp: WorldRepository_def onS_iff ip_update_installation_def oper_iffs split: option.splits)
  then show "table_repositories_wf (wo_db w') \<and> table_view (wo_db w') = table_view (wo_db w)"
    using wf by (simp add: table_view_def table_repositories_wf_def)
next
  fix w a w'
  assume wf: "table_repositories_wf (wo_db w)" and u: "ir_record_audit WorldRepository a w = (Inr (), w')"
  from u have "id_repositories (wo_db w') = id_repositories (wo_db w)"
    by (auto simp: WorldRepository_def onS_iff ip_record_audit_def oper_iffs)
  then show "table_repositories_wf (wo_db w') \<and> table_view (wo_db w') = table_view (wo_db w)"
    using wf by (simp add: table_view_def table_repositories_wf_def)
qed

end
