(* ===== verification/InFrames.thy ===== *)
theory InFrames
  imports InReconcile InExchange "HOL-Library.Sublist"
begin

text \<open>
  What the operations of the integrations service do to its tables: the exchanges with GitHub and
  the secret files leave them alone, and every operation on them moves them forward, along the
  preorder \<open>forward\<close>, which the handlers inherit.
\<close>

section \<open>Outside the tables\<close>

lemma keeps_db [preserving]:
  "preserves wo_db (on_local m)" "preserves wo_db (http_send env request)"
  "preserves wo_db (raise_for_status status)" "preserves wo_db (json_body body)"
  "preserves wo_db (unix_now env)" "preserves wo_db (secret_get env st reference)"
  "preserves wo_db (secret_put env st nonce reference value)"
  "preserves wo_db (secret_delete env st reference)"
  "preserves wo_db (encrypted_secrets app)" "preserves wo_db (reference_of document)"
  by (auto simp: preserves_def onS_def http_send_def raise_for_status_def json_body_def unix_now_def
      secret_get_def secret_put_def secret_delete_def encrypted_secrets_def reference_of_def
      in_http_error_def bindS_def seqS_def oper_defs
      split: prod.splits sum.splits option.splits http_result.splits json.splits)

lemma keeps_db_json [preserving]:
  "preserves wo_db (http_json env request)" "preserves wo_db (app_jwt env app_id private_key)"
  unfolding http_json_def app_jwt_def by (intro preserving)+

lemma preserves_json_cases [preserving]:
  "(\<And>kvs. j = JObj kvs \<Longrightarrow> preserves f (g kvs)) \<Longrightarrow> preserves f m \<Longrightarrow>
     preserves f (case j of JObj kvs \<Rightarrow> g kvs | _ \<Rightarrow> m)"
  by (cases j) simp_all

lemma keeps_db_github [preserving]:
  "preserves wo_db (convert_manifest env client code)" "preserves wo_db (app_get env client path app_id key)"
  "preserves wo_db (installation_token env client iid app_id key r ps)"
  unfolding convert_manifest_def app_get_def installation_token_def by (intro preserving)+

lemma keeps_db_source_control [preserving]:
  "preserves wo_db (ga_installation env client iid app_id key)" "preserves wo_db (ga_app env client app_id key)"
  "preserves wo_db (for_installation env p account r ps)" "preserves wo_db (gs_headers env g account r ps)"
  "preserves wo_db (gs_create_pull_request env g inst rep t b h d k)"
  "preserves wo_db (gs_create_check_run env g inst rep h n s k)"
  unfolding ga_installation_def ga_app_def for_installation_def gs_headers_def gs_create_pull_request_def
    gs_create_check_run_def
  by (intro preserving)+

lemma keeps_db_pages [preserving]: "preserves wo_db (repository_pages env g headers pages)"
proof (induction pages)
  case (Cons page pages)
  show ?case unfolding repository_pages.simps by (intro preserving Cons)
qed (simp add: preserving)

lemma keeps_db_repositories [preserving]: "preserves wo_db (gs_repositories env g account)"
  unfolding gs_repositories_def by (intro preserving)

section \<open>How rows change\<close>

definition platform_attempt_step :: "platform_attempt_row \<Rightarrow> platform_attempt_row \<Rightarrow> bool" where
  "platform_attempt_step r r' \<longleftrightarrow>
     r' = r\<lparr>pt_used_at := pt_used_at r'\<rparr> \<and> (pt_used_at r \<noteq> None \<longrightarrow> r' = r)"

definition connector_attempt_step :: "connector_attempt_row \<Rightarrow> connector_attempt_row \<Rightarrow> bool" where
  "connector_attempt_step r r' \<longleftrightarrow>
     r' = r\<lparr>ct_used_at := ct_used_at r'\<rparr> \<and> (ct_used_at r \<noteq> None \<longrightarrow> r' = r)"

definition credential_step :: "credential_row \<Rightarrow> credential_row \<Rightarrow> bool" where
  "credential_step r r' \<longleftrightarrow>
     r' = r\<lparr>mc_status := mc_status r', mc_revoked_at := mc_revoked_at r'\<rparr> \<and>
     (mc_status r = ''REVOKED'' \<longrightarrow> r' = r)"

definition configuration_step :: "in_configuration_row \<Rightarrow> in_configuration_row \<Rightarrow> bool" where
  "configuration_step r r' \<longleftrightarrow> r' = r\<lparr>cw_health := cw_health r', cw_enabled := cw_enabled r'\<rparr>"

definition installation_step :: "installation_row \<Rightarrow> installation_row \<Rightarrow> bool" where
  "installation_step r r' \<longleftrightarrow> r' = r\<lparr>iw_status := iw_status r'\<rparr>"

definition repository_step :: "repository_row \<Rightarrow> repository_row \<Rightarrow> bool" where
  "repository_step r r' \<longleftrightarrow>
     yw_id r' = yw_id r \<and> repository_key r' = repository_key r \<and>
     yw_created_at r' = yw_created_at r \<and>
     yw_is_development_substitute r' = yw_is_development_substitute r"

definition membership_step :: "in_membership_row \<Rightarrow> in_membership_row \<Rightarrow> bool" where
  "membership_step r r' \<longleftrightarrow> r' = r\<lparr>mm_role := mm_role r', mm_active := mm_active r'\<rparr>"

lemmas row_step_defs = platform_attempt_step_def connector_attempt_step_def credential_step_def
  configuration_step_def installation_step_def repository_step_def membership_step_def

lemma row_step_refl [simp]:
  "platform_attempt_step a a" "connector_attempt_step b b" "credential_step c c"
  "configuration_step d d" "installation_step i i" "repository_step r r" "membership_step m m"
  by (simp_all add: row_step_defs)

lemma row_step_trans:
  "platform_attempt_step a a' \<Longrightarrow> platform_attempt_step a' a'' \<Longrightarrow> platform_attempt_step a a''"
  "connector_attempt_step b b' \<Longrightarrow> connector_attempt_step b' b'' \<Longrightarrow> connector_attempt_step b b''"
  "credential_step c c' \<Longrightarrow> credential_step c' c'' \<Longrightarrow> credential_step c c''"
  "configuration_step d d' \<Longrightarrow> configuration_step d' d'' \<Longrightarrow> configuration_step d d''"
  "installation_step i i' \<Longrightarrow> installation_step i' i'' \<Longrightarrow> installation_step i i''"
  "repository_step r r' \<Longrightarrow> repository_step r' r'' \<Longrightarrow> repository_step r r''"
  "membership_step m m' \<Longrightarrow> membership_step m' m'' \<Longrightarrow> membership_step m m''"
        apply (cases a; cases a'; cases a''; auto simp: row_step_defs)
       apply (cases b; cases b'; cases b''; auto simp: row_step_defs)
      apply (cases c; cases c'; cases c''; auto simp: row_step_defs)
     apply (cases d; cases d'; cases d''; auto simp: row_step_defs)
    apply (cases i; cases i'; cases i''; auto simp: row_step_defs)
   apply (auto simp: row_step_defs)[1]
  by (cases m; cases m'; cases m''; auto simp: row_step_defs)

text \<open>
  No row is lost; a redeemed capability, a route and a processed event stay as they are, used
  attempts and revoked credentials too; of the others only the columns change that have to.
\<close>

definition tables_forward :: "in_db \<Rightarrow> in_db \<Rightarrow> bool" where
  "tables_forward s s' \<longleftrightarrow>
     advances (=) (id_redemptions s) (id_redemptions s') \<and> advances (=) (id_routes s) (id_routes s') \<and>
     advances (=) (id_inbox s) (id_inbox s') \<and>
     advances platform_attempt_step (id_platform_attempts s) (id_platform_attempts s') \<and>
     advances connector_attempt_step (id_connector_attempts s) (id_connector_attempts s') \<and>
     advances credential_step (id_credentials s) (id_credentials s') \<and>
     advances configuration_step (id_configurations s) (id_configurations s') \<and>
     advances installation_step (id_installations s) (id_installations s') \<and>
     advances repository_step (id_repositories s) (id_repositories s') \<and>
     advances membership_step (id_memberships s) (id_memberships s') \<and>
     prefix (id_platform_audits s) (id_platform_audits s') \<and> prefix (id_audits s) (id_audits s') \<and>
     prefix (id_webhooks s) (id_webhooks s')"

definition forward :: "in_db \<Rightarrow> in_db \<Rightarrow> bool" where
  "forward s s' \<longleftrightarrow> (table_repositories_wf s \<longrightarrow> table_repositories_wf s' \<and> tables_forward s s')"

lemma tables_forward_refl: "tables_forward s s"
  by (simp add: tables_forward_def advances_refl)

lemma tables_forward_trans: "tables_forward s t \<Longrightarrow> tables_forward t u \<Longrightarrow> tables_forward s u"
  unfolding tables_forward_def
  by (elim conjE, intro conjI) (erule (1) advances_trans prefix_order.trans; erule (1) row_step_trans trans)+

lemma forward_refl [simp]: "forward s s"
  by (simp add: forward_def tables_forward_refl)

lemma forward_preorder [following]: "reflp forward" "transp forward"
  by (auto simp: forward_def reflp_def transp_def tables_forward_refl dest: tables_forward_trans)

section \<open>The operations on the tables\<close>

lemma forward_columns [following]:
  "forward s (s\<lparr>id_organization := v\<rparr>)" "forward s (s\<lparr>id_audits := id_audits s @ as\<rparr>)"
  "forward s (s\<lparr>id_platform_audits := id_platform_audits s @ ps\<rparr>)"
  "forward s (s\<lparr>id_webhooks := id_webhooks s @ ws\<rparr>)"
  by (simp_all add: forward_def tables_forward_def table_repositories_wf_def advances_refl)

lemma forward_rows:
  "advances platform_attempt_step (id_platform_attempts s) d1 \<Longrightarrow> forward s (s\<lparr>id_platform_attempts := d1\<rparr>)"
  "advances connector_attempt_step (id_connector_attempts s) d2 \<Longrightarrow> forward s (s\<lparr>id_connector_attempts := d2\<rparr>)"
  "advances (=) (id_redemptions s) d3 \<Longrightarrow> forward s (s\<lparr>id_redemptions := d3\<rparr>)"
  "advances credential_step (id_credentials s) d4 \<Longrightarrow> forward s (s\<lparr>id_credentials := d4\<rparr>)"
  "advances configuration_step (id_configurations s) d5 \<Longrightarrow> forward s (s\<lparr>id_configurations := d5\<rparr>)"
  "advances installation_step (id_installations s) d6 \<Longrightarrow> forward s (s\<lparr>id_installations := d6\<rparr>)"
  "advances (=) (id_routes s) d7 \<Longrightarrow> forward s (s\<lparr>id_routes := d7\<rparr>)"
  "advances (=) (id_inbox s) d8 \<Longrightarrow> forward s (s\<lparr>id_inbox := d8\<rparr>)"
  "advances membership_step (id_memberships s) d9 \<Longrightarrow> forward s (s\<lparr>id_memberships := d9\<rparr>)"
  by (simp_all add: forward_def tables_forward_def table_repositories_wf_def advances_refl)

lemma forward_organization: "forward (s\<lparr>id_organization := v\<rparr>) t \<Longrightarrow> forward s t"
  by (simp add: forward_def tables_forward_def table_repositories_wf_def)

lemma follows_read_optional [following]: "reflp R \<Longrightarrow> follows R (read_optional f found)"
  unfolding read_optional_def by (intro following)

lemma follows_set_organization [following]: "follows forward (ip_set_organization organization_id)"
  unfolding ip_set_organization_def by (intro following)

lemma reads_forward [following]:
  "follows forward (ip_list_model_credentials org)" "follows forward (ip_get_model_credential org k)"
  "follows forward (ip_get_source_control_configuration k)"
  "follows forward (ip_source_control_configuration_for_app_id p a)"
  "follows forward ip_list_source_control_configurations" "follows forward (ip_role_for org subject)"
  "follows forward (ip_get_installation org k)"
  "follows forward (ip_organization_for_external_installation p a)"
  "follows forward (ip_installation_for_external org p a)" "follows forward ip_list_installation_routes"
  "follows forward (ip_get_repository org k)" "follows forward (ip_list_repositories org)"
  unfolding ip_list_model_credentials_def ip_get_model_credential_def
    ip_get_source_control_configuration_def ip_source_control_configuration_for_app_id_def
    ip_list_source_control_configurations_def ip_role_for_def ip_get_installation_def
    ip_organization_for_external_installation_def ip_installation_for_external_def
    ip_list_installation_routes_def ip_get_repository_def ip_list_repositories_def
  by (intro following)+

lemma appends_forward [following]:
  "follows forward (ip_record_platform_audit a)" "follows forward (ip_record_audit b)"
  "follows forward (ip_record_webhook_delivery d)"
  unfolding ip_record_platform_audit_def ip_record_audit_def ip_record_webhook_delivery_def
  by (intro following)+

lemma inserts_forward [following]:
  "follows forward (ip_create_platform_setup_attempt h a e)"
  "follows forward (ip_create_connector_setup_attempt org h a c e)"
  "follows forward (ip_redeem_source_capability t org k e)"
  "follows forward (ip_add_model_credential t cid org p n r key)"
  "follows forward (ip_add_source_control_configuration c')" "follows forward (ip_add_installation i)"
  "follows forward (ip_record_inbox eid org ty)"
  unfolding ip_create_platform_setup_attempt_def ip_create_connector_setup_attempt_def
    ip_redeem_source_capability_def ip_add_model_credential_def ip_add_source_control_configuration_def
    ip_add_installation_def ip_record_inbox_def
  by (intro following; auto intro!: forward_rows advances_dset)+

text \<open>Where a row read before is written back, it is still the row of the table.\<close>

lemma follows_modify:
  assumes "reflp R" and "\<And>s row. f s = Some row \<Longrightarrow> \<not> c row \<Longrightarrow> R s (w row s)"
  shows "follows R (bindS (readS f) (\<lambda>found. case found of None \<Rightarrow> returnS x
     | Some row \<Rightarrow> if c row then returnS y else seqS (writeS (w row)) (returnS (z row))))"
  using assms by (auto simp: follows_def reflp_def oper_defs split: option.split)

lemma consume_platform_forward [following]:
  "follows forward (ip_consume_platform_setup_attempt t h a now)"
  unfolding ip_consume_platform_setup_attempt_def
  by (intro follows_modify forward_preorder forward_rows advances_dset)
     (auto simp: row_step_defs)

lemma consume_connector_forward [following]:
  "follows forward (ip_consume_connector_setup_attempt t org h a now)"
  unfolding ip_consume_connector_setup_attempt_def
  by (intro follows_seqS follows_set_organization follows_modify forward_preorder forward_rows advances_dset)
     (auto simp: row_step_defs row_of_Some)

lemma get_credential_row:
  "ip_get_model_credential org k s = (Inr found, t) \<longleftrightarrow>
     t = s\<lparr>id_organization := Some org\<rparr> \<and> found = owned mc_organization_id org (dget (id_credentials s) k)"
  by (auto simp: ip_get_model_credential_def oper_defs owned_def split: option.splits)

lemma revoke_credential_forward [following]: "follows forward (ip_revoke_model_credential t org k)"
proof (rule followsI)
  fix s r s' assume "ip_revoke_model_credential t org k s = (r, s')"
  then consider "s' = s\<lparr>id_organization := Some org\<rparr>"
    | row where "dget (id_credentials s) k = Some row" "mc_status row \<noteq> ''REVOKED''"
      "s' = (s\<lparr>id_organization := Some org\<rparr>)
        \<lparr>id_credentials := dset k (row\<lparr>mc_status := ''REVOKED'', mc_revoked_at := Some t\<rparr>) (id_credentials s)\<rparr>"
    by (auto simp: ip_revoke_model_credential_def ip_get_model_credential_def bindS_def oper_defs owned_Some_iff
        Let_def split: option.splits if_splits)
  then show "forward s s'"
  proof cases
    case 1
    then show ?thesis by (simp add: forward_columns)
  next
    case 2
    then show ?thesis
      by (simp only:) (rule forward_organization [OF forward_rows(4)], simp, rule advances_dset, auto simp: row_step_defs)
  qed
qed

lemma health_forward [following]: "follows forward (ip_update_source_control_configuration_health k h e)"
proof (rule followsI)
  fix s r s' assume "ip_update_source_control_configuration_health k h e s = (r, s')"
  then show "forward s s'"
    by (cases "dget (id_configurations s) k")
       (auto simp: ip_update_source_control_configuration_health_def oper_defs row_step_defs
          intro!: forward_rows advances_dset)
qed

lemma membership_forward [following]: "follows forward (ip_upsert_membership org u r a)"
proof -
  have "follows forward (bindS (readS (\<lambda>s. row_of mm_organization_id (id_organization s) (id_memberships s) (org, u)))
      (\<lambda>found. case found of
        Some row \<Rightarrow> writeS (\<lambda>s. s\<lparr>id_memberships := dset (org, u) (row\<lparr>mm_role := r, mm_active := a\<rparr>) (id_memberships s)\<rparr>)
      | None \<Rightarrow> in_insertS (\<lambda>s. dget (id_memberships s) (org, u) \<noteq> None)
          (\<lambda>s. s\<lparr>id_memberships := dset (org, u) \<lparr>mm_organization_id = org, mm_subject = u, mm_role = r,
              mm_active = a\<rparr> (id_memberships s)\<rparr>)))"
    by (rule followsI, simp add: oper_defs)
       (auto simp: oper_defs insertS_iff insert_orS_def row_of_Some row_step_defs
          split: option.splits if_splits intro!: forward_rows advances_dset)
  then show ?thesis
    unfolding ip_upsert_membership_def
    by (intro follows_seqS forward_preorder follows_set_organization)
qed

lemma update_installation_forward [following]: "follows forward (ip_update_installation i)"
proof -
  have "follows forward (bindS (readS (\<lambda>s. row_of iw_organization_id (id_organization s) (id_installations s) (ci_id i)))
      (\<lambda>found. case found of
          None \<Rightarrow> returnS ()
        | Some row \<Rightarrow> writeS (\<lambda>s. s\<lparr>id_installations := dset (ci_id i)
            (row\<lparr>iw_status := installation_status_value (ci_status i)\<rparr>) (id_installations s)\<rparr>)))"
    by (rule followsI, simp add: oper_defs)
       (auto simp: oper_defs row_of_Some row_step_defs
          split: option.splits intro!: forward_rows advances_dset)
  then show ?thesis
    unfolding ip_update_installation_def
    by (intro follows_seqS forward_preorder follows_set_organization)
qed

section \<open>The repository connections\<close>

lemma forward_repositories:
  assumes "table_repositories_wf s \<Longrightarrow>
      table_repositories_wf (s\<lparr>id_repositories := d\<rparr>) \<and> advances repository_step (id_repositories s) d"
  shows "forward s (s\<lparr>id_repositories := d\<rparr>)"
  using assms by (auto simp: forward_def tables_forward_def advances_refl)

lemma table_add:
  assumes wf: "table_repositories_wf s" and new: "dget (id_repositories s) (rc_id r) = None"
    "\<forall>row \<in> set (dvals (id_repositories s)). repository_key row \<noteq> repository_key (repository_row_of r)"
  shows "table_repositories_wf (s\<lparr>id_repositories := dset (rc_id r) (repository_row_of r) (id_repositories s)\<rparr>)"
proof -
  have w: "wf_dict (id_repositories s)" "keyed yw_id (id_repositories s)"
    using wf unfolding table_repositories_wf_def by blast+
  have "set (dvals (dset (rc_id r) (repository_row_of r) (id_repositories s))) =
      insert (repository_row_of r) {u \<in> set (dvals (id_repositories s)). repository_key u \<noteq> connection_key r}"
    using new by (auto simp: dset_new)
  then show ?thesis
    using table_insert [OF wf, of "s\<lparr>id_repositories := dset (rc_id r) (repository_row_of r) (id_repositories s)\<rparr>" r] w
    by simp
qed

lemma inj_on_replace: "inj_on f A \<Longrightarrow> a \<in> A \<Longrightarrow> f b = f a \<Longrightarrow> inj_on f (insert b {u \<in> A. u \<noteq> a})"
  by (auto simp: inj_on_def)

lemma table_refresh:
  assumes wf: "table_repositories_wf s" and row: "row \<in> set (dvals (id_repositories s))"
  shows "table_repositories_wf (s\<lparr>id_repositories := dset (yw_id row) (refreshed_row r row) (id_repositories s)\<rparr>)"
    and "dget (id_repositories s) (yw_id row) = Some row"
proof -
  let ?d = "id_repositories s" and ?new = "refreshed_row r row"
  have w: "wf_dict ?d" "keyed yw_id ?d" and all: "\<forall>row \<in> set (dvals ?d). \<exists>r. row = repository_row_of r"
    and keys: "inj_on repository_key (set (dvals ?d))"
    using wf unfolding table_repositories_wf_def by blast+
  show get: "dget ?d (yw_id row) = Some row" using row in_keyed_dvals [OF w] by simp
  have new: "yw_id ?new = yw_id row" "repository_key ?new = repository_key row"
    by (simp_all add: refreshed_row_def repository_key_def)
  obtain p where "row = repository_row_of p" using all row by blast
  then have readable: "\<exists>q. ?new = repository_row_of q"
    by (intro exI [of _ "p\<lparr>rc_owner := rc_owner r, rc_name := rc_name r, rc_default_branch := rc_default_branch r,
        rc_clone_locator := rc_clone_locator r, rc_is_private := rc_is_private r,
        rc_access_status := rc_access_status r, rc_last_seen_at := rc_last_seen_at r,
        rc_revoked_at := rc_revoked_at r\<rparr>"]) (simp add: refreshed_row_def repository_row_of_def)
  have rows: "set (dvals (dset (yw_id row) ?new ?d)) \<subseteq> insert ?new {u \<in> set (dvals ?d). u \<noteq> row}"
  proof
    fix u assume "u \<in> set (dvals (dset (yw_id row) ?new ?d))"
    then consider "u = ?new" | j where "j \<noteq> yw_id row" "dget ?d j = Some u"
      unfolding set_dvals_dset_key [OF w(1)] by blast
    then show "u \<in> insert ?new {u \<in> set (dvals ?d). u \<noteq> row}"
    proof cases
      case 2
      then have "u \<in> set (dvals ?d)" "u \<noteq> row" using dget_in_dvals [of ?d j u] keyedD [OF w(2), of j u] by auto
      then show ?thesis by simp
    qed simp
  qed
  have "inj_on repository_key (insert ?new {u \<in> set (dvals ?d). u \<noteq> row})"
    by (rule inj_on_replace [OF keys row new(2)])
  then have "inj_on repository_key (set (dvals (dset (yw_id row) ?new ?d)))" by (rule inj_on_subset [OF _ rows])
  moreover have "\<forall>u \<in> set (dvals (dset (yw_id row) ?new ?d)). \<exists>q. u = repository_row_of q"
    using rows all readable by blast
  moreover have repos: "id_repositories (s\<lparr>id_repositories := dset (yw_id row) ?new ?d\<rparr>) =
      dset (yw_id row) ?new ?d" by simp
  ultimately show "table_repositories_wf (s\<lparr>id_repositories := dset (yw_id row) ?new ?d\<rparr>)"
    using wf_dict_dset [OF w(1), of "yw_id row" ?new] keyed_dset [OF w(2) new(1)]
    unfolding table_repositories_wf_def repos by blast
qed

lemma add_repository_forward [following]: "follows forward (ip_add_repository r)"
  unfolding ip_add_repository_def
proof (intro follows_seqS follows_insertS forward_preorder follows_set_organization)
  fix s :: in_db
  assume "\<not> (dget (id_repositories s) (rc_id r) \<noteq> None \<or>
    (\<exists>row \<in> set (dvals (id_repositories s)). repository_key row = repository_key (repository_row_of r)))"
  then have new: "dget (id_repositories s) (rc_id r) = None"
    "\<forall>row \<in> set (dvals (id_repositories s)). repository_key row \<noteq> repository_key (repository_row_of r)"
    by blast+
  show "forward s (s\<lparr>id_repositories := dset (rc_id r) (repository_row_of r) (id_repositories s)\<rparr>)"
  proof (rule forward_repositories, rule conjI)
    assume "table_repositories_wf s"
    from table_add [OF this new]
    show "table_repositories_wf (s\<lparr>id_repositories := dset (rc_id r) (repository_row_of r) (id_repositories s)\<rparr>)" .
    show "advances repository_step (id_repositories s) (dset (rc_id r) (repository_row_of r) (id_repositories s))"
      using new(1) by (intro advances_dset) simp_all
  qed
qed

lemma refresh_forward:
  assumes found: "find P (visible yw_organization_id org (id_repositories s)) = Some row"
  shows "forward s (s\<lparr>id_repositories := dset (yw_id row) (refreshed_row r row) (id_repositories s)\<rparr>)"
proof (rule forward_repositories, rule conjI)
  assume wf: "table_repositories_wf s"
  have row: "row \<in> set (dvals (id_repositories s))" using find_SomeD [OF found] by (auto simp: visible_def)
  from table_refresh(1) [OF wf row]
  show "table_repositories_wf (s\<lparr>id_repositories := dset (yw_id row) (refreshed_row r row) (id_repositories s)\<rparr>)" .
  have "repository_step row (refreshed_row r row)"
    by (simp add: repository_step_def refreshed_row_def repository_key_def)
  then show "advances repository_step (id_repositories s) (dset (yw_id row) (refreshed_row r row) (id_repositories s))"
    using table_refresh(2) [OF wf row] by (intro advances_dset) simp_all
qed

lemma upsert_forward [following]: "follows forward (ip_upsert_repository r)"
  unfolding ip_upsert_repository_def
proof (intro follows_seqS forward_preorder follows_set_organization followsI)
  fix s s' :: in_db and r'
  let ?found = "find (\<lambda>row. repository_key row = repository_key (repository_row_of r))
      (visible yw_organization_id (id_organization s) (id_repositories s))"
  assume run: "bindS (readS (\<lambda>s. find (\<lambda>row. repository_key row = repository_key (repository_row_of r))
                (visible yw_organization_id (id_organization s) (id_repositories s)))) (\<lambda>found.
      case found of
        None \<Rightarrow> ip_add_repository r
      | Some row \<Rightarrow> writeS (\<lambda>s. s\<lparr>id_repositories :=
          dset (yw_id row) (refreshed_row r row) (id_repositories s)\<rparr>)) s = (r', s')"
  show "forward s s'"
  proof (cases ?found)
    case None
    then show ?thesis using run followsD [OF add_repository_forward] by simp
  next
    case (Some row)
    then show ?thesis using run refresh_forward [OF Some] by (simp add: basic_oper_iff)
  qed
qed

lemma revoke_forward [following]: "follows forward (ip_revoke_repositories_except org inst active t)"
proof (rule followsI)
  fix s r' s' assume run: "ip_revoke_repositories_except org inst active t s = (r', s')"
  define g where "g = (\<lambda>row. if org = yw_organization_id row \<and> yw_installation_id row = inst \<and>
    yw_external_repository_id row \<notin> set active then revoked_row t row else row)"
  have s': "s' = (s\<lparr>id_organization := Some org\<rparr>)\<lparr>id_repositories := map (\<lambda>(k, row). (k, g row)) (id_repositories s)\<rparr>"
    "r' = Inr ()" using run by (simp_all add: ip_revoke_repositories_except_def basic_oper_iff g_def)
  have "repository_step row (g row)" for row
    by (simp add: g_def repository_step_def revoked_row_def repository_key_def)
  then have "advances repository_step (id_repositories s) (id_repositories s')"
    unfolding s' by (simp add: advances_map)
  moreover have "table_repositories_wf s \<Longrightarrow> table_repositories_wf s'"
    using table_revoke [of s org inst active t s'] run s'(2) by simp
  ultimately show "forward s s'"
    by (simp add: forward_def tables_forward_def s' advances_refl)
qed

end
