(* ===== verification/InSystem.thy ===== *)
theory InSystem
  imports InFrames
begin

text \<open>
  The integrations service as a whole: every request handler, the session of a reconciliation
  route and the consumer of membership events as the steps of \<open>integration_step\<close>, and what every
  run of them keeps: the tables move \<open>forward\<close>.
\<close>

section \<open>Handlers move the tables forward\<close>

definition world_forward :: "in_world \<Rightarrow> in_world \<Rightarrow> bool" where
  "world_forward w w' \<longleftrightarrow> forward (wo_db w) (wo_db w')"

lemma world_forward_preorder [following]: "reflp world_forward" "transp world_forward"
  using forward_preorder by (auto simp: world_forward_def reflp_def transp_def)

lemma on_db_forward [following]: "follows forward m \<Longrightarrow> follows world_forward (on_db m)"
  by (rule followsI) (auto simp: onS_iff world_forward_def dest: followsD)

lemma keeps_world_forward: "preserves wo_db m \<Longrightarrow> follows world_forward m"
  by (erule follows_preserves) (simp add: world_forward_def)

lemmas outside_forward [following] =
  keeps_db [THEN keeps_world_forward] keeps_db_json [THEN keeps_world_forward]
  keeps_db_github [THEN keeps_world_forward] keeps_db_source_control [THEN keeps_world_forward]
  keeps_db_repositories [THEN keeps_world_forward]

lemma in_request_forward: "follows world_forward m \<Longrightarrow> follows world_forward (in_request m)"
proof (rule followsI)
  fix w r w' assume m: "follows world_forward m" and run: "in_request m w = (r, w')"
  let ?w = "w\<lparr>wo_db := (wo_db w)\<lparr>id_organization := None\<rparr>\<rparr>"
  obtain q v where v: "m ?w = (q, v)" by (cases "m ?w")
  have "forward (wo_db w) (wo_db v)"
    using followsD [OF m v] forward_organization by (simp add: world_forward_def)
  moreover have "forward (wo_db v) ((wo_db v)\<lparr>id_organization := None\<rparr>)"
    "forward (wo_db w) ((wo_db w)\<lparr>id_organization := None\<rparr>)" by (rule forward_columns(1))+
  ultimately have "forward (wo_db w) ((wo_db v)\<lparr>id_organization := None\<rparr>)"
    "forward (wo_db w) ((wo_db w)\<lparr>id_organization := None\<rparr>)"
    using transpD [OF forward_preorder(2)] by blast+
  then show "world_forward w w'"
    using run v by (auto simp: in_request_def Let_def world_forward_def split: sum.splits)
qed

lemma basics_forward [following]:
  "follows world_forward (in_http_error code detail)" "follows world_forward (require_or code detail ok)"
  by (intro keeps_world_forward preserving)+

lemma json_cases_forward [following]:
  "(\<And>kvs. j = JObj kvs \<Longrightarrow> follows R (g kvs)) \<Longrightarrow> follows R m \<Longrightarrow>
     follows R (case j of JObj kvs \<Rightarrow> g kvs | _ \<Rightarrow> m)"
  by (cases j) simp_all

lemma sum_cases_forward [following]:
  "(\<And>e. x = Inl e \<Longrightarrow> follows R (f e)) \<Longrightarrow> (\<And>a. x = Inr a \<Longrightarrow> follows R (g a)) \<Longrightarrow>
     follows R (case x of Inl e \<Rightarrow> f e | Inr a \<Rightarrow> g a)"
  by (cases x) simp_all

lemma helpers_forward [following]:
  "follows world_forward (service_for_repository app org k)" "follows world_forward (in_authorize org subject allowed)"
  "follows world_forward (require_platform_operator p)" "follows world_forward (app_reference k key)"
  "follows world_forward (enabled_configuration code detail k)"
  unfolding service_for_repository_def in_authorize_def require_platform_operator_def app_reference_def
    enabled_configuration_def
  by (intro following)+

lemma secrets_forward [following]:
  "follows world_forward (put_secrets app st nonce n xs)" "follows world_forward (delete_secrets app st xs)"
  by (induction xs arbitrary: n) (auto intro!: following)

lemma connect_loop_forward [following]:
  "follows world_forward (connect_repositories WorldRepository fresh org k sub n ds)"
  by (induction ds arbitrary: n) (auto simp: WorldRepository_def Let_def intro!: following)

lemma reconcile_loop_forward [following]:
  "follows world_forward (reconcile_repositories WorldRepository existing fresh now org k sub n ds)"
  by (induction ds arbitrary: n) (auto simp: WorldRepository_def Let_def intro!: following)

text \<open>The operations of a provider that leaves the tables alone.\<close>

definition outside :: "(string, in_world source_control_provider) dict \<Rightarrow> bool" where
  "outside providers \<longleftrightarrow> (\<forall>name adapter. dget providers name = Some adapter \<longrightarrow>
     (\<forall>a. preserves wo_db (sp_repositories adapter a)) \<and>
     (\<forall>i r t b h d k. preserves wo_db (sp_create_pull_request adapter i r t b h d k)) \<and>
     (\<forall>i r h n s k. preserves wo_db (sp_create_check_run adapter i r h n s k)))"

lemma outside_providers:
  "outside local_providers" "outside (github_providers app st reference configuration v)"
  by (simp_all add: outside_def local_providers_def github_providers_def LocalSourceControl_def
      GitHubSourceControl_def preserving)

lemma follows_require:
  "reflp R \<Longrightarrow> (\<And>a. x = Some a \<Longrightarrow> follows R (g a)) \<Longrightarrow> follows R (bindS (requireS e x) g)"
  by (cases x) (auto simp: follows_def requireS_def bindS_def oper_defs reflp_def)

lemma use_cases_forward:
  assumes "outside providers"
  shows "follows world_forward (in_connect WorldRepository providers i now fresh org actor p a l c ps sel)"
    and "follows world_forward (in_reconcile WorldRepository providers fresh' now inst actor)"
    and "follows world_forward (in_create_pull_request WorldRepository providers org actor k t b h sha key)"
proof -
  have repo: "follows world_forward (ir_add_installation WorldRepository x)"
    "follows world_forward (ir_record_audit WorldRepository y)"
    "follows world_forward (ir_list_repositories WorldRepository org)"
    "follows world_forward (ir_revoke_repositories_except WorldRepository org inst active t')"
    "follows world_forward (ir_update_installation WorldRepository x)"
    "follows world_forward (ir_get_repository WorldRepository org k)"
    "follows world_forward (ir_get_installation WorldRepository org k)" for x y org inst active t' k
    by (simp_all add: WorldRepository_def following)
  have adapter: "follows world_forward (sp_repositories d acc)"
    "follows world_forward (sp_create_pull_request d i' r' t' b' h' m' n')"
    "follows world_forward (sp_create_check_run d i' r' h' t' b' n')"
    if "dget providers name = Some d" for d name acc i' r' t' b' h' m' n'
    using assms that by (auto simp: outside_def intro!: keeps_world_forward)
  note rules = follows_bindS follows_seqS follows_require follows_cases follows_Let follows_basic
    world_forward_preorder repo adapter connect_loop_forward reconcile_loop_forward
  show "follows world_forward (in_connect WorldRepository providers i now fresh org actor p a l c ps sel)"
    unfolding in_connect_def provider_for_def in_record_audit_def
    by (rule follows_require, intro rules, intro rules)
  show "follows world_forward (in_reconcile WorldRepository providers fresh' now inst actor)"
    unfolding in_reconcile_def provider_for_def in_record_audit_def
    by (rule follows_require, intro rules, intro rules)
  show "follows world_forward (in_create_pull_request WorldRepository providers org actor k t b h sha key)"
    unfolding in_create_pull_request_def provider_for_def in_record_audit_def
    apply (rule follows_bindS, intro rules, intro rules)
    apply (rule follows_bindS, intro rules, intro rules)
    apply (rule follows_bindS, intro rules, intro rules)
    apply (rule follows_bindS, intro rules, intro rules)
    by (rule follows_require, intro rules, intro rules)
qed

lemmas given_use_cases_forward [following] =
  use_cases_forward [OF outside_providers(1)] use_cases_forward [OF outside_providers(2)]

lemma configure_forward [following]:
  "follows world_forward (configure_source_control WorldRepository now k actor n p wu au v a c sl r1 r2 r3 mode)"
  by (simp add: configure_source_control_def WorldRepository_def Let_def following)

lemma installation_visible_forward [following]:
  "follows world_forward (installation_visible env c token wanted pages)"
proof (induction pages)
  case (Cons page pages)
  show ?case unfolding installation_visible.simps by (intro following Cons)
qed (simp add: following)

text \<open>What every result of an operation satisfies.\<close>

definition yields :: "('a \<Rightarrow> bool) \<Rightarrow> ('s, 'e, 'a) oper \<Rightarrow> bool" where
  "yields P m \<longleftrightarrow> (\<forall>s a s'. m s = (Inr a, s') \<longrightarrow> P a)"

lemma yieldsD: "yields P m \<Longrightarrow> m s = (Inr a, s') \<Longrightarrow> P a"
  unfolding yields_def by blast

lemma yields_rules:
  "P a \<Longrightarrow> yields P (returnS a)" "(\<And>b. yields P (g b)) \<Longrightarrow> yields P (bindS m g)"
  "yields P n \<Longrightarrow> (\<And>c. yields P (h c)) \<Longrightarrow> yields P (case x of None \<Rightarrow> n | Some c \<Rightarrow> h c)"
  "yields P n \<Longrightarrow> yields P n' \<Longrightarrow> yields P (if q then n else n')"
  by (auto simp: yields_def oper_iffs split: option.splits)

lemma service_outside: "yields outside (service_for_repository app org k)"
  unfolding service_for_repository_def by (intro yields_rules outside_providers)

lemma follows_service [following]:
  assumes "\<And>providers. outside providers \<Longrightarrow> follows world_forward (g providers)"
  shows "follows world_forward (bindS (service_for_repository app org k) g)"
proof (rule followsI)
  fix s r s' assume "bindS (service_for_repository app org k) g s = (r, s')"
  then show "world_forward s s'"
    using followsD [OF helpers_forward(1), of app org k s] yieldsD [OF service_outside, of app org k s] followsD [OF assms]
      transpD [OF world_forward_preorder(2)]
    by (auto simp: bindS_def split: prod.splits sum.splits)
qed

lemma handlers_forward:
  "follows world_forward (api_start_github_manifest app state now p d1)"
  "follows world_forward (api_complete_github_manifest app t now c k nonce p d2)"
  "follows world_forward (api_source_control_configurations p)"
  "follows world_forward (api_disable_source_control_configuration k p)"
  "follows world_forward (api_start_github_installation app state now org p k)"
  "follows world_forward (api_available_source_control_configurations org p)"
  "follows world_forward (api_complete_github_installation app t now k c fresh org p d3)"
  "follows world_forward (api_connect k now fresh org p d4)"
  "follows world_forward (api_repositories org p)"
  "follows world_forward (api_create_model_credential app k nonce' now org p d5 key)"
  "follows world_forward (api_list_model_credentials fmt org p)"
  "follows world_forward (api_revoke_model_credential app now org k p)"
  "follows world_forward (api_create_pull_request app org k p d6 idem)"
  "follows world_forward (api_internal_pull_request app org k d6 idem st)"
proof -
  show "follows world_forward (api_create_pull_request app org k p d6 idem)"
    "follows world_forward (api_internal_pull_request app org k d6 idem st)"
    unfolding api_create_pull_request_def api_internal_pull_request_def
    by (intro follows_seqS follows_bindS follows_service following use_cases_forward; assumption)+
qed (unfold api_start_github_manifest_def api_complete_github_manifest_def api_source_control_configurations_def
    api_disable_source_control_configuration_def api_start_github_installation_def
    api_available_source_control_configurations_def api_complete_github_installation_def api_connect_def
    api_repositories_def api_create_model_credential_def api_list_model_credentials_def
    api_revoke_model_credential_def, (intro following)+)

lemma preserves_catching_401 [preserving]: "preserves f (catching_401 detail x)"
  by (auto simp: preserves_def catching_401_def in_http_error_def oper_defs split: sum.split in_error.split)

lemma preserves_webhook_reads [preserving]:
  "preserves f (check_content_length cl)" "preserves f (webhook_payload app body)"
  "preserves f (claim_str env claims key)"
  by (auto simp: preserves_def check_content_length_def webhook_payload_def claim_str_def require_or_def
      in_http_error_def oper_defs split: option.split sum.split in_error.split json.split)

lemmas reads_world_forward [following] =
  preserves_catching_401 [THEN keeps_world_forward] preserves_webhook_reads [THEN keeps_world_forward]

lemma exchange_forward:
  "follows world_forward (api_github_webhook app cl body delivery event signature target)"
  "follows world_forward (api_exchange_source_credential app now t token)"
  "follows world_forward (api_exchange_model_credential app now t token)"
  "follows world_forward (reconcile_route app st fresh now route)"
  unfolding api_github_webhook_def webhook_secret_def api_exchange_source_credential_def
    api_exchange_model_credential_def reconcile_route_def integrationS_def
  by (intro following)+

section \<open>Runs of the service\<close>

text \<open>
  Every request, route and event is handled by \<open>in_request\<close>, with any arguments: the principal,
  the clocks, the identifiers drawn and the answers of GitHub are not restricted.
\<close>

inductive integration_step :: "in_world \<Rightarrow> in_world \<Rightarrow> bool" where
  start_manifest: "in_request (api_start_github_manifest app state now p d) w = (r, w') \<Longrightarrow>
     integration_step w w'"
| complete_manifest: "in_request (api_complete_github_manifest app used now created k nonce p d) w = (r, w') \<Longrightarrow>
     integration_step w w'"
| list_configurations: "in_request (api_source_control_configurations p) w = (r, w') \<Longrightarrow>
     integration_step w w'"
| disable_configuration: "in_request (api_disable_source_control_configuration k p) w = (r, w') \<Longrightarrow>
     integration_step w w'"
| start_installation: "in_request (api_start_github_installation app state now org p k) w = (r, w') \<Longrightarrow>
     integration_step w w'"
| available: "in_request (api_available_source_control_configurations org p) w = (r, w') \<Longrightarrow>
     integration_step w w'"
| complete_installation:
    "in_request (api_complete_github_installation app used now k created fresh org p d) w = (r, w') \<Longrightarrow>
     integration_step w w'"
| connect: "in_request (api_connect k now fresh org p d) w = (r, w') \<Longrightarrow> integration_step w w'"
| repositories: "in_request (api_repositories org p) w = (r, w') \<Longrightarrow> integration_step w w'"
| create_credential: "in_request (api_create_model_credential app k nonce now org p d key) w = (r, w') \<Longrightarrow>
     integration_step w w'"
| list_credentials: "in_request (api_list_model_credentials fmt org p) w = (r, w') \<Longrightarrow> integration_step w w'"
| revoke_credential: "in_request (api_revoke_model_credential app now org k p) w = (r, w') \<Longrightarrow>
     integration_step w w'"
| pull_request: "in_request (api_create_pull_request app org k p d key) w = (r, w') \<Longrightarrow> integration_step w w'"
| internal_pull_request: "in_request (api_internal_pull_request app org k d key token) w = (r, w') \<Longrightarrow>
     integration_step w w'"
| webhook: "in_request (api_github_webhook app cl body delivery event signature target) w = (r, w') \<Longrightarrow>
     integration_step w w'"
| exchange_source: "in_request (api_exchange_source_credential app now redeemed token) w = (r, w') \<Longrightarrow>
     integration_step w w'"
| exchange_model: "in_request (api_exchange_model_credential app now redeemed token) w = (r, w') \<Longrightarrow>
     integration_step w w'"
| route: "in_request (reconcile_route app st fresh now rt) w = (r, w') \<Longrightarrow> integration_step w w'"
| membership: "process_membership_event env ev w = (r, w') \<Longrightarrow> integration_step w w'"

lemma membership_event_forward: "follows world_forward (process_membership_event env ev)"
  unfolding process_membership_event_def by (rule in_request_forward) (intro following)

lemma integration_step_forward: "integration_step w w' \<Longrightarrow> world_forward w w'"
  by (induction rule: integration_step.induct)
     (erule followsD [rotated]; intro in_request_forward handlers_forward exchange_forward membership_event_forward)+

lemma integration_run_forward: "integration_step\<^sup>*\<^sup>* w w' \<Longrightarrow> forward (wo_db w) (wo_db w')"
proof (induction rule: rtranclp_induct)
  case (step v u)
  then show ?case
    using integration_step_forward [OF step.hyps(2)] transpD [OF forward_preorder(2)]
    by (auto simp: world_forward_def)
qed simp

end
