(* ===== verification/InRun.thy ===== *)
theory InRun
  imports InSystem
begin

text \<open>
  A run of the integrations service on concrete data: the owner \<open>ann\<close> of organization 1 and the
  owner \<open>bob\<close> of organization 2 connect the local source control and store a model credential.
  The worlds with a GitHub configuration are given by their tables. The cipher of the example is
  the identity, a token is its own name, and the server answers every request with success.
\<close>

definition demo_claims :: "string \<Rightarrow> (string \<times> json) list option" where
  "demo_claims token =
     (if token = ''source'' then
        Some [(''exp'', JInt 600), (''iat'', JInt 0), (''jti'', JStr ''cap''),
              (''organization_id'', JStr (str_uuid 1)), (''repository_id'', JStr (str_uuid 30)),
              (''purpose'', JStr ''CHECKOUT_READ'')]
      else if token = ''model'' then
        Some [(''exp'', JInt 600), (''iat'', JInt 0), (''jti'', JStr ''cap2''),
              (''organization_id'', JStr (str_uuid 1)), (''execution_id'', JStr (str_uuid 100)),
              (''secret_reference'', JObj [(''store'', JStr ''encrypted-file''),
                 (''namespace'', JStr (''model-credentials/'' @ str_uuid 1)),
                 (''key'', JStr (str_uuid 50))]),
              (''purpose'', JStr ''MODEL_CREDENTIAL_READ'')]
      else None)"

definition demo_repository :: json where
  "demo_repository = JObj [(''id'', JStr ''R1''), (''owner'', JObj [(''login'', JStr ''acme'')]),
     (''name'', JStr ''shop''), (''default_branch'', JStr ''main''),
     (''clone_url'', JStr ''https://github.com/acme/shop.git''), (''private'', JBool True)]"

definition demo_server :: "http_request list \<Rightarrow> http_request \<Rightarrow> http_result" where
  "demo_server earlier request =
     (if hq_method request = ''POST''
      then HttpResponse 201 (Some (JObj [(''token'', JStr ''t''), (''access_token'', JStr ''u'')]))
      else HttpResponse 200 (Some (JObj [(''repositories'', JList [demo_repository]),
        (''installations'', JList [JObj [(''id'', JStr ''88'')]])])))"

definition demo_env :: in_env where
  "demo_env = \<lparr>en_server = demo_server, en_clock = (\<lambda>_. 0), en_rs256 = (\<lambda>_ _. Some ''jwt''),
     en_encrypt = (\<lambda>k n v a. v), en_decrypt = (\<lambda>k n c a. Some c), en_resolve = id, en_repr = (\<lambda>_. [])\<rparr>"

lemma demo_env_fields [simp]:
  "en_server demo_env = demo_server" "en_clock demo_env = (\<lambda>_. 0)" "en_rs256 demo_env = (\<lambda>_ _. Some ''jwt'')"
  "en_encrypt demo_env = (\<lambda>k n v a. v)" "en_decrypt demo_env = (\<lambda>k n c a. Some c)"
  "en_resolve demo_env = id" "en_repr demo_env = (\<lambda>_. [])"
  by (simp_all add: demo_env_def)

definition demo_key :: string where
  "demo_key = replicate 32 CHR ''k''"

definition demo_app :: in_app where
  "demo_app =
     \<lparr>ap_env = demo_env,
      ap_settings =
        \<lparr>se_github_api_url = ''https://api.github.com'', se_github_web_url = ''https://github.com'',
         se_github_api_version = ''2022-11-28'', se_public_base_url = ''https://mvp'',
         se_encrypted_secret_root = [''secrets''], se_secret_master_key_file = Some (Some demo_key),
         se_github_webhook_secret_file = Some (Some ''hook''), se_internal_service_token = ''s''\<rparr>,
      ap_sha256 = id, ap_hmac = (\<lambda>secret body. replicate 64 CHR ''a''),
      ap_jwt_decode = (\<lambda>token key audience required now. demo_claims token),
      ap_loads = (\<lambda>body. Inr (JObj [(''installation'', JObj [(''id'', JStr ''77'')]), (''action'', JStr ''suspend'')]))\<rparr>"

definition ann :: principal where
  "ann = \<lparr>pl_subject = ''ann'', pl_is_platform_operator = False\<rparr>"

definition bob :: principal where
  "bob = \<lparr>pl_subject = ''bob'', pl_is_platform_operator = False\<rparr>"

definition owner_event :: "uuid \<Rightarrow> uuid \<Rightarrow> string \<Rightarrow> event_envelope" where
  "owner_event event_id org subject =
     \<lparr>ev_specversion = ''1.0'', ev_id = event_id, ev_source = ''control-plane'',
      ev_type = ''membership.changed'', ev_time = 0, ev_subject = subject, ev_organization_id = org,
      ev_aggregate_version = 1, ev_correlation_id = 9, ev_causation_id = None, ev_traceparent = None,
      ev_data = [(''subject'', JStr subject), (''role'', JStr ''OWNER''), (''active'', JBool True)]\<rparr>"

definition demo_connection :: "string \<Rightarrow> connection_create" where
  "demo_connection account =
     \<lparr>cc_external_account_id = account, cc_account_login = account, cc_provider = ''github-local''\<rparr>"

definition demo0 :: in_world where
  "demo0 = \<lparr>wo_db = in_db_init, wo_files = [],
     wo_local = \<lparr>lc_pull_requests = [], lc_comments = [], lc_check_runs = []\<rparr>, wo_requests = []\<rparr>"

definition demo1 :: in_world where
  "demo1 = snd (process_membership_event demo_env (owner_event 900 1 ''ann'') demo0)"

definition demo2 :: in_world where
  "demo2 = snd (process_membership_event demo_env (owner_event 901 2 ''bob'') demo1)"

definition demo3 :: in_world where
  "demo3 = snd (in_request (api_connect 20 0 (\<lambda>n. (30, 0)) 1 ann (demo_connection ''acme'')) demo2)"

definition demo4 :: in_world where
  "demo4 = snd (in_request (api_connect 22 0 (\<lambda>n. (32, 0)) 2 bob (demo_connection ''other'')) demo3)"

definition demo_credential :: model_credential_write where
  "demo_credential = \<lparr>mw_value = ''sk'', mw_provider = ''anthropic'', mw_display_name = ''Claude''\<rparr>"

definition demo5 :: in_world where
  "demo5 = snd (in_request (api_create_model_credential demo_app 50 ''n'' 0 1 ann demo_credential (Some ''k'')) demo4)"

lemma demo_run:
  "integration_step\<^sup>*\<^sup>* demo0 demo2" "integration_step\<^sup>*\<^sup>* demo2 demo4" "integration_step\<^sup>*\<^sup>* demo4 demo5"
proof -
  show "integration_step\<^sup>*\<^sup>* demo0 demo2"
    by (rule rtranclp_trans [OF r_into_rtranclp r_into_rtranclp],
        unfold demo2_def demo1_def, (rule integration_step.membership [OF prod.collapse [symmetric]])+)
  show "integration_step\<^sup>*\<^sup>* demo2 demo4"
    by (rule rtranclp_trans [OF r_into_rtranclp r_into_rtranclp],
        unfold demo4_def demo3_def, (rule integration_step.connect [OF prod.collapse [symmetric]])+)
  show "integration_step\<^sup>*\<^sup>* demo4 demo5"
    unfolding demo5_def by (rule r_into_rtranclp integration_step.create_credential [OF prod.collapse [symmetric]])+
qed

lemmas demo_defs = in_request_def Let_def bindS_def seqS_def oper_defs insert_orS_def owned_def row_of_def
  visible_def onS_def ip_set_organization_def require_or_def in_http_error_def in_authorize_def ip_role_for_def
  WorldRepository_def local_providers_def LocalSourceControl_def provider_for_def in_record_audit_def
  ip_record_audit_def demo_app_def demo_env_def ann_def bob_def

definition demo2_db :: in_db where
  "demo2_db = in_db_init
     \<lparr>id_memberships := [((1, ''ann''), \<lparr>mm_organization_id = 1, mm_subject = ''ann'', mm_role = ''OWNER'', mm_active = True\<rparr>),
        ((2, ''bob''), \<lparr>mm_organization_id = 2, mm_subject = ''bob'', mm_role = ''OWNER'', mm_active = True\<rparr>)],
      id_inbox := [(900, \<lparr>ib_organization_id = 1, ib_event_type = ''membership.changed''\<rparr>),
        (901, \<lparr>ib_organization_id = 2, ib_event_type = ''membership.changed''\<rparr>)]\<rparr>"

lemma demo2_eq: "demo2 = demo0\<lparr>wo_db := demo2_db\<rparr>"
  by (simp add: demo2_def demo1_def demo0_def demo2_db_def in_db_init_def process_membership_event_def owner_event_def
      demo_defs ip_record_inbox_def ip_upsert_membership_def py_str_def)

definition demo_installation :: "uuid \<Rightarrow> uuid \<Rightarrow> string \<Rightarrow> connector_installation" where
  "demo_installation k org account =
     \<lparr>ci_id = k, ci_organization_id = org, ci_provider = ''github-local'', ci_external_account_id = account,
      ci_account_login = account, ci_requested_permissions = GITHUB_MINIMUM_PERMISSIONS,
      ci_is_development_substitute = True, ci_provider_configuration_id = None,
      ci_granted_permissions = [], ci_repository_selection = ''SELECTED'', ci_last_reconciled_at = None,
      ci_status = IS_ACTIVE, ci_created_at = 0\<rparr>"

definition demo_connected :: "uuid \<Rightarrow> uuid \<Rightarrow> uuid \<Rightarrow> string \<Rightarrow> repository_connection" where
  "demo_connected k org installation account =
     \<lparr>rc_id = k, rc_organization_id = org, rc_installation_id = installation,
      rc_external_repository_id = ''local-'' @ account @ ''-sample'', rc_owner = account,
      rc_name = ''sample-webapp'', rc_default_branch = ''main'',
      rc_clone_locator = ''file:///fixtures/sample-webapp.git'', rc_is_private = True,
      rc_is_development_substitute = True, rc_access_status = RA_ACTIVE, rc_last_seen_at = None,
      rc_revoked_at = None, rc_created_at = 0\<rparr>"

lemma demo_row_fields [simp]:
  "iw_organization_id (installation_row_of i) = ci_organization_id i" "iw_id (installation_row_of i) = ci_id i"
  "ci_organization_id (demo_installation k org account) = org" "ci_provider (demo_installation k org account) = ''github-local''"
  "ci_status (demo_installation k org account) = IS_ACTIVE"
  "rc_organization_id (demo_connected k org j account) = org" "rc_installation_id (demo_connected k org j account) = j"
  "rc_access_status (demo_connected k org j account) = RA_ACTIVE"
  "rc_is_development_substitute (demo_connected k org j account)"
  "rc_clone_locator (demo_connected k org j account) = ''file:///fixtures/sample-webapp.git''"
  "rc_default_branch (demo_connected k org j account) = ''main''"
  by (simp_all add: installation_row_of_def demo_installation_def demo_connected_def)

definition demo_audit :: "uuid \<Rightarrow> string \<Rightarrow> uuid \<Rightarrow> in_audit" where
  "demo_audit org subject k =
     \<lparr>ia_organization_id = org, ia_actor_subject = subject, ia_action = ''connector.connected'',
      ia_target_type = ''connector_installation'', ia_target_id = k,
      ia_details = [(''provider'', JStr ''github-local''), (''repository_count'', JInt 1),
                    (''development_substitute'', JBool True)]\<rparr>"

definition demo4_db :: in_db where
  "demo4_db = demo2_db
     \<lparr>id_installations := [(20, installation_row_of (demo_installation 20 1 ''acme'')),
                          (22, installation_row_of (demo_installation 22 2 ''other''))],
      id_routes := [((''github-local'', ''acme''), (1, 20)), ((''github-local'', ''other''), (2, 22))],
      id_repositories := [(30, repository_row_of (demo_connected 30 1 20 ''acme'')),
                         (32, repository_row_of (demo_connected 32 2 22 ''other''))],
      id_audits := [demo_audit 1 ''ann'' 20, demo_audit 2 ''bob'' 22]\<rparr>"

lemmas demo_data = demo2_db_def in_db_init_def demo_installation_def demo_connected_def demo_audit_def
  demo_connection_def demo0_def

lemma demo4_eq: "demo4 = demo0\<lparr>wo_db := demo4_db\<rparr>"
  unfolding demo4_def demo3_def demo2_eq
  by (simp add: demo4_db_def demo_data demo_defs api_connect_def in_connect_def ip_add_installation_def
      ls_repositories_def ip_add_repository_def repository_key_def installation_row_of_def repository_row_of_def)

definition demo_reference :: secret_reference where
  "demo_reference = \<lparr>sr_store = ''encrypted-file'', sr_namespace = ''model-credentials/'' @ str_uuid 1,
     sr_key = str_uuid 50, sr_version = None\<rparr>"

lemma demo_reference_valid:
  "SecretReference ''encrypted-file'' (''model-credentials/'' @ str_uuid 1) (str_uuid 50) None = Inr demo_reference"
  by code_simp

lemmas demo_reference_valid_simp [simp] = demo_reference_valid [unfolded append_Cons append_Nil]

definition demo_path :: "string list" where
  "demo_path = [''secrets'', ''model-credentials'', str_uuid 1, str_uuid 50 @ ''.json'']"

definition demo_store :: secret_store where
  "demo_store = \<lparr>ss_root = [''secrets''], ss_key = demo_key\<rparr>"

lemma demo_store_eq: "encrypted_secrets demo_app w = (Inr demo_store, w)"
  by (simp add: encrypted_secrets_def EncryptedFileSecretStore_def demo_app_def demo_env_def demo_key_def
      demo_store_def oper_defs)

lemma demo_path_eq: "secret_path demo_env demo_store demo_reference = Inr demo_path"
  by code_simp

definition demo_file :: json where
  "demo_file = JObj [(''version'', JInt 1), (''nonce'', JStr (hex_of_bytes ''n'')),
     (''ciphertext'', JStr (hex_of_bytes ''sk''))]"

definition demo_credential_row :: credential_row where
  "demo_credential_row = \<lparr>mc_id = 50, mc_organization_id = 1, mc_provider = ''anthropic'',
     mc_display_name = ''Claude'', mc_secret_reference = dump_secret_reference demo_reference,
     mc_idempotency_key = ''k'', mc_status = ''ACTIVE'', mc_created_at = 0, mc_revoked_at = None\<rparr>"

definition demo5_db :: in_db where
  "demo5_db = demo4_db\<lparr>id_credentials := [(50, demo_credential_row)],
     id_audits := id_audits demo4_db @
       [\<lparr>ia_organization_id = 1, ia_actor_subject = ''ann'', ia_action = ''model_credential.created'',
         ia_target_type = ''secret_reference'', ia_target_id = 50,
         ia_details = reference_details demo_reference\<rparr>]\<rparr>"

lemma demo_utf8: "utf8 ''sk'' = ''sk''" by code_simp

lemma demo5_run:
  "in_request (api_create_model_credential demo_app 50 ''n'' 0 1 ann demo_credential (Some ''k'')) demo4 =
     (Inr (credential_document 50 ''anthropic'' ''Claude'' ''ACTIVE'' demo_reference),
      demo0\<lparr>wo_db := demo5_db, wo_files := [(demo_path, demo_file)]\<rparr>)"
proof -
  have put: "secret_put demo_env demo_store ''n'' demo_reference ''sk'' w =
      (Inr (), w\<lparr>wo_files := dset demo_path demo_file (wo_files w)\<rparr>)" for w
    by (simp add: secret_put_def demo_path_eq oper_defs demo_file_def)
  have env: "ap_env demo_app = demo_env" by (simp add: demo_app_def)
  show ?thesis
    unfolding demo4_eq
    by (simp add: api_create_model_credential_def demo_store_eq env put demo_credential_def demo_utf8
        in_request_def Let_def bindS_def seqS_def oper_defs insert_orS_def visible_def onS_def
        ip_set_organization_def require_or_def in_authorize_def ip_role_for_def on_errorS_def
        ip_record_audit_def ann_def demo4_db_def demo2_db_def in_db_init_def demo0_def demo5_db_def
        ip_list_model_credentials_def ip_add_model_credential_def demo_credential_row_def)
qed

lemma demo5_eq: "demo5 = demo0\<lparr>wo_db := demo5_db, wo_files := [(demo_path, demo_file)]\<rparr>"
  unfolding demo5_def demo5_run by simp

lemma demo_app_fields [simp]:
  "ap_env demo_app = demo_env" "se_internal_service_token (ap_settings demo_app) = ''s''"
  "ap_jwt_decode demo_app token key audience required now = demo_claims token"
  by (simp_all add: demo_app_def)

lemma demo_source_claims:
  "source_capability_claims demo_app now ''source'' =
     Inr (the (demo_claims ''source''), 1, 30, seconds 600)"
  by (simp add: source_capability_claims_def decoded_claims_def demo_claims_def claim_uuid_def py_str_def
      claim_expiry_def fromtimestamp_def py_int_def)

lemma demo_exchange:
  "\<exists>w. in_request (api_exchange_source_credential demo_app 0 5 ''source'') demo4 =
     (Inr [(''clone_locator'', ''file:///fixtures/sample-webapp.git''), (''default_branch'', ''main''),
           (''username'', []), (''token'', []), (''expires_at'', []), (''development_substitute'', ''true'')], w)"
  unfolding demo4_eq
  by (simp add: api_exchange_source_credential_def catching_401_def demo_source_claims demo_claims_def
      claim_str_def py_str_def in_request_def Let_def bindS_def seqS_def oper_defs insert_orS_def onS_def
      ip_set_organization_def require_or_def ip_redeem_source_capability_def ip_get_repository_def
      ip_get_installation_def demo4_db_def demo2_db_def in_db_init_def demo0_def read_optional_def
      integration_rows_roundtrip owned_Some)

section \<open>A world with a GitHub installation\<close>

definition app_secret :: "string \<Rightarrow> secret_reference" where
  "app_secret key = \<lparr>sr_store = ''encrypted-file'', sr_namespace = ''github-app/x'', sr_key = key, sr_version = None\<rparr>"

definition hub_configuration :: source_control_configuration where
  "hub_configuration =
     \<lparr>sc_id = 40, sc_display_name = ''MVP'', sc_provider = ''github'', sc_web_base_url = ''https://github.com'',
      sc_api_base_url = ''https://api.github.com'', sc_api_version = ''2022-11-28'', sc_app_id = ''7'',
      sc_client_id = ''c'', sc_app_slug = ''mvp'',
      sc_private_key_reference = dump_secret_reference (app_secret ''private-key''),
      sc_client_secret_reference = dump_secret_reference (app_secret ''client-secret''),
      sc_webhook_secret_reference = dump_secret_reference (app_secret ''webhook-secret''),
      sc_webhook_mode = WM_WEBHOOK, sc_enabled = True, sc_health = CH_HEALTHY, sc_created_at = 0\<rparr>"

definition hub_installation :: connector_installation where
  "hub_installation = (demo_installation 21 1 ''77'')
     \<lparr>ci_provider := ''github'', ci_is_development_substitute := False, ci_provider_configuration_id := Some 40\<rparr>"

definition hub_old :: repository_connection where
  "hub_old = (demo_connected 33 1 21 ''acme'')
     \<lparr>rc_external_repository_id := ''R0'', rc_is_development_substitute := False\<rparr>"

definition hub_file :: json where
  "hub_file = JObj [(''version'', JInt 1), (''nonce'', JStr ''00''), (''ciphertext'', JStr ''6b'')]"

definition hub_path :: "string \<Rightarrow> string list" where
  "hub_path key = [''secrets'', ''github-app'', ''x'', key @ ''.json'']"

definition hub0 :: in_world where
  "hub0 = demo0\<lparr>wo_db := demo2_db
       \<lparr>id_configurations := [(40, configuration_row_of hub_configuration)],
        id_installations := [(21, installation_row_of hub_installation)],
        id_routes := [((''github'', ''77''), (1, 21))],
        id_repositories := [(33, repository_row_of hub_old)]\<rparr>,
     wo_files := [(hub_path ''private-key'', hub_file), (hub_path ''client-secret'', hub_file),
                  (hub_path ''webhook-secret'', hub_file)]\<rparr>"

definition hub_descriptor :: repository_descriptor where
  "hub_descriptor = \<lparr>de_external_id = ''R1'', de_owner = ''acme'', de_name = ''shop'', de_default_branch = ''main'',
     de_clone_locator = ''https://github.com/acme/shop.git'', de_is_private = True\<rparr>"

lemma hub_reference:
  "reference_of (dump_secret_reference (app_secret key)) w = (Inr (app_secret key), w)"
  if "key \<in> {''private-key'', ''client-secret'', ''webhook-secret''}"
proof -
  have "secret_reference_of_json (dump_secret_reference (app_secret key)) = Inr (app_secret key)"
    using that by (elim insertE emptyE; simp only:) code_simp+
  then show ?thesis by (simp add: reference_of_def oper_defs)
qed

lemma hub_secret:
  assumes "key \<in> {''private-key'', ''client-secret'', ''webhook-secret''}"
    and "wo_files w = wo_files hub0"
  shows "secret_get demo_env demo_store (app_secret key) w = (Inr ''k'', w)"
proof -
  have "secret_path demo_env demo_store (app_secret key) = Inr (hub_path key)"
    using assms(1) by (elim insertE emptyE; simp only:) code_simp+
  moreover have "dget (wo_files w) (hub_path key) = Some hub_file"
    using assms by (auto simp: hub0_def hub_path_def)
  moreover have "bytes_of_hex ''00'' = Some [char_of (0 :: nat)]" "bytes_of_hex ''6b'' = Some ''k''"
    by code_simp+
  ultimately show ?thesis
    by (simp add: secret_get_def oper_defs hub_file_def is_one_def obj_get_def hex_field_def json_item_def py_str_def)
qed

text \<open>The source control of a configuration, as the worker builds it.\<close>

definition github_source ::
  "secret_store \<Rightarrow> secret_reference \<Rightarrow> source_control_configuration \<Rightarrow> github_source_control" where
  "github_source st reference c =
     \<lparr>gs_base_url = sc_api_base_url c,
      gs_credential_provider = \<lparr>gp_app_client = \<lparr>ga_base_url = sc_api_base_url c, ga_api_version = sc_api_version c\<rparr>,
        gp_app_id = sc_app_id c, gp_private_key_reference = reference, gp_secrets = st\<rparr>,
      gs_api_version = sc_api_version c\<rparr>"

text \<open>Only the requests sent grow.\<close>

definition sends_only :: "in_world \<Rightarrow> in_world \<Rightarrow> bool" where
  "sends_only w v \<longleftrightarrow> wo_db v = wo_db w \<and> wo_files v = wo_files w \<and> wo_local v = wo_local w"

lemma hub_token:
  "\<exists>v. installation_token demo_env client account app_id key None ps w =
     (Inr \<lparr>gc_token = ''t'', gc_expires_at = None\<rparr>, v) \<and> sends_only w v"
  by (simp add: installation_token_def app_jwt_def unix_now_def token_body_def Let_def http_json_def http_send_def
      demo_server_def raise_for_status_def json_body_def oper_defs bindS_def seqS_def str_item_def json_item_def
      py_str_def obj_get_def sends_only_def)

lemma hub_repositories_version:
  assumes "wo_files w = wo_files hub0"
  shows "\<exists>v. gs_repositories demo_env ((github_source demo_store (app_secret ''private-key'') c)\<lparr>gs_api_version := x\<rparr>)
     account w = (Inr [hub_descriptor], v) \<and> sends_only w v"
proof -
  let ?g = "(github_source demo_store (app_secret ''private-key'') c)\<lparr>gs_api_version := x\<rparr>"
  have pages: "[1..<101] = 1 # [2..<101]" by (simp add: upt_conv_Cons)
  have page: "\<exists>v. repository_pages demo_env g headers [1..<101] u = (Inr [hub_descriptor], v) \<and> sends_only u v"
    for g headers u
    unfolding pages
    by (simp add: http_json_def http_send_def demo_server_def raise_for_status_def json_body_def oper_defs bindS_def
        seqS_def str_item_def json_item_def json_items_def py_str_def descriptor_of_def demo_repository_def
        hub_descriptor_def sends_only_def)
  obtain u where t: "installation_token demo_env \<lparr>ga_base_url = sc_api_base_url c, ga_api_version = sc_api_version c\<rparr>
      account (sc_app_id c) ''k'' None [(''metadata'', ''read'')] w =
      (Inr \<lparr>gc_token = ''t'', gc_expires_at = None\<rparr>, u)" and u: "sends_only w u" using hub_token by blast
  obtain headers where h: "gs_headers demo_env ?g account None [(''metadata'', ''read'')] w = (Inr headers, u)"
    by (simp add: gs_headers_def for_installation_def github_source_def bindS_def hub_secret [OF _ assms] t oper_defs)
  obtain v where "repository_pages demo_env ?g headers [1..<101] u = (Inr [hub_descriptor], v)" "sends_only u v"
    using page by blast
  then show ?thesis using u by (auto simp: gs_repositories_def bindS_def h sends_only_def)
qed

lemma hub_repositories:
  assumes "wo_files w = wo_files hub0"
  shows "\<exists>v. gs_repositories demo_env (github_source demo_store (app_secret ''private-key'') c) account w =
     (Inr [hub_descriptor], v) \<and> sends_only w v"
  using hub_repositories_version [OF assms, where c = c and x = "sc_api_version c" and account = account] by (simp add: github_source_def)

lemma hub_reads:
  assumes "wo_db w = (wo_db hub0)\<lparr>id_organization := v\<rparr>"
  shows "on_db (ip_get_installation 1 21) w = (Inr (Some hub_installation), w\<lparr>wo_db := (wo_db w)\<lparr>id_organization := Some 1\<rparr>\<rparr>)"
    and "on_db (ip_get_source_control_configuration 40) w = (Inr (Some hub_configuration), w)"
  using assms
  by (simp_all add: onS_def ip_get_installation_def ip_get_source_control_configuration_def hub0_def demo2_db_def
      in_db_init_def oper_defs read_optional_def owned_Some integration_rows_roundtrip hub_installation_def)

definition hub_fresh :: "nat \<Rightarrow> uuid" where
  "hub_fresh n = (if n = 0 then 1000 else 1001)"

lemma hub_reconciled:
  "\<exists>r w'. in_request (reconcile_route demo_app demo_store hub_fresh 5 (1, 21)) hub0 = (Inr (Some [r]), w')"
proof -
  let ?g = "GitHubSourceControl demo_env (github_source demo_store (app_secret ''private-key'') hub_configuration)"
  define w where "w = hub0\<lparr>wo_db := (wo_db hub0)\<lparr>id_organization := Some 1\<rparr>\<rparr>"
  have "wo_files w = wo_files hub0" by (simp add: w_def)
  then obtain v where g: "sp_repositories ?g ''77'' w = (Inr [hub_descriptor], v)" and v: "sends_only w v"
    using hub_repositories [of w hub_configuration "''77''"] by (auto simp: GitHubSourceControl_def)
  have db: "wo_db v = wo_db w" using v by (simp add: sends_only_def)
  have inst: "ci_provider hub_installation = ''github''" "ci_status hub_installation = IS_ACTIVE"
    "ci_provider_configuration_id hub_installation = Some 40" "ci_external_account_id hub_installation = ''77''"
    "ci_organization_id hub_installation = 1" "ci_id hub_installation = 21"
    by (simp_all add: hub_installation_def demo_installation_def)
  have conf: "sc_enabled hub_configuration"
    "sc_private_key_reference hub_configuration = dump_secret_reference (app_secret ''private-key'')"
    by (simp_all add: hub_configuration_def)
  have g': "github_providers demo_app demo_store (app_secret ''private-key'') hub_configuration
      (sc_api_version hub_configuration) = [(''github'', ?g)]"
    by (simp add: github_providers_def github_source_def)
  have repo: "ir_list_repositories WorldRepository org = on_db (ip_list_repositories org)"
    "ir_upsert_repository WorldRepository r = on_db (ip_upsert_repository r)"
    "ir_revoke_repositories_except WorldRepository org k xs t = on_db (ip_revoke_repositories_except org k xs t)"
    "ir_update_installation WorldRepository i = on_db (ip_update_installation i)"
    "ir_record_audit WorldRepository a = on_db (ip_record_audit a)" for org r k xs t i a
    by (simp_all add: WorldRepository_def)
  have w_db: "wo_db w = (wo_db hub0)\<lparr>id_organization := Some 1\<rparr>" by (simp add: w_def)
  have rows0: "id_repositories (wo_db hub0) = [(33, repository_row_of hub_old)]" by (simp add: hub0_def)
  have rows: "id_repositories (wo_db w) = [(33, repository_row_of hub_old)]" by (simp add: w_def hub0_def)
  have old: "rc_organization_id hub_old = 1" "rc_installation_id hub_old = 21" "rc_external_repository_id hub_old = ''R0''"
    "rc_id hub_old = 33"
    by (simp_all add: hub_old_def demo_connected_def)
  have list: "on_db (ip_list_repositories 1) w = (Inr [hub_old], w)"
    by (simp add: ip_list_repositories_def onS_def oper_defs ip_set_organization_def seqS_def bindS_def visible_def rows0
        integration_rows_roundtrip old w_def)
  let ?r = "reconciled (existing_repositories 21 [hub_old]) (hub_fresh 0) 5 1 21 False hub_descriptor"
  have r: "connection_key ?r = (1, 21, ''R1'')" "rc_id ?r = 1000" "rc_organization_id ?r = 1"
    by (simp_all add: reconciled_def Let_def connection_key_def hub_descriptor_def hub_fresh_def existing_repositories_def old)
  obtain u where up: "on_db (ip_upsert_repository ?r) v = (Inr (), u)"
    by (simp add: ip_upsert_repository_def ip_add_repository_def onS_def ip_set_organization_def r visible_def db rows
        insert_orS_def old seqS_def bindS_def oper_defs connection_key_def [of hub_old])
  have total: "\<exists>w'. on_db (ip_revoke_repositories_except 1 21 xs 5) w = (Inr (), w')"
    "\<exists>w'. on_db (ip_update_installation i) w = (Inr (), w')" "\<exists>w'. on_db (ip_record_audit a) w = (Inr (), w')"
    for xs i a w
    by (simp_all add: ip_revoke_repositories_except_def ip_update_installation_def ip_record_audit_def onS_def
        ip_set_organization_def seqS_def bindS_def oper_defs split: option.split)
  obtain u2 where u2: "on_db (ip_revoke_repositories_except 1 21 [de_external_id hub_descriptor] 5) u = (Inr (), u2)"
    using total(1) by blast
  obtain u3 where u3: "on_db (ip_update_installation (hub_installation\<lparr>ci_last_reconciled_at := Some 5\<rparr>)) u2 = (Inr (), u3)"
    using total(2) by blast
  obtain u4 where u4: "on_db (ip_record_audit \<lparr>ia_organization_id = 1, ia_actor_subject = ''github-reconciliation-worker'',
      ia_action = ''connector.reconciled'', ia_target_type = ''connector_installation'', ia_target_id = 21,
      ia_details = [(''repository_count'', JInt 1)]\<rparr>) u3 = (Inr (), u4)"
    using total(3) by blast
  have sub: "\<not> sp_is_development_substitute ?g" by (simp add: GitHubSourceControl_def)
  have "\<exists>r w'. in_reconcile WorldRepository [(''github'', ?g)] hub_fresh 5 hub_installation ''github-reconciliation-worker'' w
      = (Inr [r], w')"
    by (simp add: in_reconcile_def provider_for_def inst repo bindS_def seqS_def g list sub up u2 u3 u4
        in_record_audit_def Let_def oper_defs)
  then show ?thesis
    using hub_reads(1) [of "hub0\<lparr>wo_db := (wo_db hub0)\<lparr>id_organization := None\<rparr>\<rparr>" None]
      hub_reads(2) [of w "Some 1"] hub_reference [of "''private-key''"] w_db
    by (auto simp: in_request_def Let_def reconcile_route_def bindS_def inst conf oper_defs g' w_def [symmetric])
qed

end
