(* ===== verification/InProperties.thy ===== *)
theory InProperties
  imports InRun
begin

text \<open>
  The properties of the integrations service over the runs of \<open>integration_step\<close>: the tables move
  forward, capabilities and setup attempts are used once, webhooks need a signature, secrets stay
  with their tenant, and reconciliation mirrors the provider.
\<close>

section \<open>Sessions\<close>

text \<open>The state after a request that raised: what the session did is rolled back.\<close>

definition rolled_back :: "in_world \<Rightarrow> in_world" where
  "rolled_back w = w\<lparr>wo_db := (wo_db w)\<lparr>id_organization := None\<rparr>\<rparr>"

lemma in_request_Inr:
  "in_request m w = (Inr a, w') \<longleftrightarrow>
     (\<exists>v. m (rolled_back w) = (Inr a, v) \<and> w' = rolled_back v)"
  by (auto simp: in_request_def rolled_back_def Let_def split: prod.splits sum.splits)

lemma in_request_Inl:
  "in_request m w = (Inl e, w') \<longleftrightarrow>
     (\<exists>v. m (rolled_back w) = (Inl e, v) \<and> w' = v\<lparr>wo_db := wo_db (rolled_back w)\<rparr>)"
  by (auto simp: in_request_def rolled_back_def Let_def split: prod.splits sum.splits)

lemma rolled_back_fields [simp]:
  "wo_files (rolled_back w) = wo_files w" "wo_local (rolled_back w) = wo_local w"
  "wo_requests (rolled_back w) = wo_requests w"
  "wo_db (rolled_back w) = (wo_db w)\<lparr>id_organization := None\<rparr>"
  by (simp_all add: rolled_back_def)

text \<open>A request that fails before it did anything outside the tables.\<close>

lemma rejected:
  assumes "in_request m w = (r, w')"
    and "\<And>q v. m (rolled_back w) = (q, v) \<Longrightarrow> (\<exists>e. q = Inl e) \<and> v\<lparr>wo_db := wo_db (rolled_back w)\<rparr> = rolled_back w"
  shows "(\<exists>e. r = Inl e) \<and> w' = rolled_back w"
proof (cases r)
  case (Inl e)
  then obtain v where "m (rolled_back w) = (Inl e, v)" "w' = v\<lparr>wo_db := wo_db (rolled_back w)\<rparr>"
    using assms(1) by (auto simp: in_request_Inl)
  then show ?thesis using assms(2) Inl by blast
next
  case (Inr a)
  then obtain v where "m (rolled_back w) = (Inr a, v)" using assms(1) by (auto simp: in_request_Inr)
  then show ?thesis using assms(2) by blast
qed

section \<open>Capabilities\<close>

definition source_capability_id :: "in_app \<Rightarrow> time \<Rightarrow> string \<Rightarrow> string option" where
  "source_capability_id app now token =
     (case source_capability_claims app now token of
        Inl _ \<Rightarrow> None
      | Inr (claims, _) \<Rightarrow> map_option (py_str (en_repr (ap_env app))) (dget claims ''jti''))"

definition model_capability_id :: "in_app \<Rightarrow> time \<Rightarrow> string \<Rightarrow> string option" where
  "model_capability_id app now token =
     (case model_capability_claims app now token of
        Inl _ \<Rightarrow> None
      | Inr (claims, _) \<Rightarrow> map_option (py_str (en_repr (ap_env app))) (dget claims ''jti''))"

text \<open>An exchange of a capability with the given identifier, of either kind.\<close>

inductive capability_exchange ::
  "in_world \<Rightarrow> string \<Rightarrow> in_error + (string, string) dict \<Rightarrow> in_world \<Rightarrow> bool" where
  source: "source_capability_id app now token = Some k \<Longrightarrow>
     in_request (api_exchange_source_credential app now redeemed token) w = (r, w') \<Longrightarrow>
     capability_exchange w k r w'"
| model: "model_capability_id app now token = Some k \<Longrightarrow>
     in_request (api_exchange_model_credential app now redeemed token) w = (r, w') \<Longrightarrow>
     capability_exchange w k r w'"

lemma redeem_iff:
  "ip_redeem_source_capability t org k expires s = (Inr True, s') \<longleftrightarrow>
     dget (id_redemptions s) k = None \<and>
     s' = s\<lparr>id_organization := Some org, id_redemptions := dset k \<lparr>rd_organization_id = org,
       rd_expires_at = expires, rd_redeemed_at = t\<rparr> (id_redemptions s)\<rparr>"
  by (auto simp: ip_redeem_source_capability_def oper_iffs insertS_iff owned_def split: option.splits)

lemma redeem_redeemed:
  assumes "dget (id_redemptions s) k = Some row"
  shows "ip_redeem_source_capability t org k expires s =
     (if rd_organization_id row = org then Inr False else Inl InIntegrityE, s\<lparr>id_organization := Some org\<rparr>)"
  using assms by (simp add: ip_redeem_source_capability_def oper_defs owned_Some)

text \<open>What holds after every successful run of an operation.\<close>

definition establishes :: "('s \<Rightarrow> bool) \<Rightarrow> ('s, 'e, 'a) oper \<Rightarrow> bool" where
  "establishes P m \<longleftrightarrow> (\<forall>s a s'. m s = (Inr a, s') \<longrightarrow> P s')"

text \<open>Operations that fail in every state of a kind, having done nothing outside the tables.\<close>

definition rejects :: "(in_world \<Rightarrow> bool) \<Rightarrow> 'a in_handler \<Rightarrow> bool" where
  "rejects P m \<longleftrightarrow> (\<forall>w r v. P w \<longrightarrow> m w = (r, v) \<longrightarrow> (\<exists>e. r = Inl e) \<and> v\<lparr>wo_db := wo_db w\<rparr> = w)"

lemma rejectsD:
  assumes "rejects P m" and "P (rolled_back w)" and "in_request m w = (r, w')"
  shows "(\<exists>e. r = Inl e) \<and> w' = rolled_back w"
  by (rule rejected [OF assms(3)]) (use assms(1,2) in \<open>auto simp: rejects_def\<close>)

lemma claims_rules:
  "(\<And>a. x = Inr a \<Longrightarrow> establishes P (g a)) \<Longrightarrow> establishes P (bindS (catching_401 d x) g)"
  "(\<And>a. x = Inr a \<Longrightarrow> rejects Q (h a)) \<Longrightarrow> rejects Q (bindS (catching_401 d x) h)"
  "(\<And>j. dget claims key = Some j \<Longrightarrow> establishes P (g' (py_str (en_repr env) j))) \<Longrightarrow>
     establishes P (bindS (claim_str env claims key) g')"
  "(\<And>j. dget claims key = Some j \<Longrightarrow> rejects Q (h' (py_str (en_repr env) j))) \<Longrightarrow>
     rejects Q (bindS (claim_str env claims key) h')"
  "establishes P m \<Longrightarrow> establishes P (seqS (require_or c d ok) m)"
  "rejects Q m' \<Longrightarrow> rejects Q (seqS (require_or c d ok) m')"
  by (auto simp: establishes_def rejects_def catching_401_def claim_str_def require_or_def in_http_error_def
      requireS_def bindS_def seqS_def oper_defs split: sum.splits in_error.splits option.splits if_splits)

lemma pair_rules:
  "(\<And>x y. p = (x, y) \<Longrightarrow> establishes P (f x y)) \<Longrightarrow> establishes P (case p of (x, y) \<Rightarrow> f x y)"
  "(\<And>x y. q = (x, y) \<Longrightarrow> rejects Q (f' x y)) \<Longrightarrow> rejects Q (case q of (x, y) \<Rightarrow> f' x y)"
  by (simp_all split: prod.split)

abbreviation capability_used :: "string \<Rightarrow> in_world \<Rightarrow> bool" where
  "capability_used k w \<equiv> dget (id_redemptions (wo_db w)) k \<noteq> None"

lemma redeem_establishes:
  assumes "k' = k" and "preserves (\<lambda>w. id_redemptions (wo_db w)) m"
  shows "establishes (capability_used k)
     (bindS (on_db (ip_redeem_source_capability t org k' e)) (\<lambda>redeemed. seqS (require_or c d redeemed) m))"
  using preservesD [OF assms(2)] assms(1)
  by (auto simp: establishes_def oper_iffs require_or_iff onS_iff redeem_iff)

lemma redeem_rejects:
  "k' = k \<Longrightarrow> rejects (capability_used k)
     (bindS (on_db (ip_redeem_source_capability t org k' e)) (\<lambda>redeemed. seqS (require_or c d redeemed) m))"
  by (auto simp: rejects_def onS_def bindS_def redeem_redeemed require_or_def in_http_error_def seqS_def
      oper_defs split: if_splits)

lemma keeps_table:
  "preserves wo_db m \<Longrightarrow> preserves (\<lambda>w. f (wo_db w)) m"
  by (simp add: preserves_def)

lemma on_table [preserving]: "preserves f n \<Longrightarrow> preserves (\<lambda>w. f (wo_db w)) (on_db n)"
  by (auto simp: preserves_def onS_def split: prod.splits) (metis snd_conv)

lemmas outside_tables [preserving] =
  keeps_db [THEN keeps_table] keeps_db_json [THEN keeps_table] keeps_db_github [THEN keeps_table]
  keeps_db_source_control [THEN keeps_table] keeps_db_repositories [THEN keeps_table]

lemma preserves_read_optional [preserving]: "preserves f (read_optional g found)"
  unfolding read_optional_def by (intro preserving)

lemma redemptions_kept [preserving]:
  "preserves id_redemptions (ip_set_organization org)"
  "preserves id_redemptions (ip_get_repository org k)" "preserves id_redemptions (ip_get_installation org k)"
  "preserves id_redemptions (ip_record_audit a)" "preserves id_redemptions (ip_get_source_control_configuration k)"
  by (simp_all add: ip_get_repository_def ip_get_installation_def ip_record_audit_def
      ip_get_source_control_configuration_def ip_set_organization_def preserving)

lemma exchange_source:
  assumes "source_capability_id app now token = Some k"
  shows "establishes (capability_used k) (api_exchange_source_credential app now t token)"
    and "rejects (capability_used k) (api_exchange_source_credential app now t token)"
  unfolding api_exchange_source_credential_def Let_def enabled_configuration_def
  by (intro claims_rules pair_rules redeem_establishes redeem_rejects;
      (insert assms, simp add: source_capability_id_def; fail | intro preserving))+

lemma exchange_model:
  assumes "model_capability_id app now token = Some k"
  shows "establishes (capability_used k) (api_exchange_model_credential app now t token)"
    and "rejects (capability_used k) (api_exchange_model_credential app now t token)"
  unfolding api_exchange_model_credential_def Let_def
  by (intro claims_rules pair_rules redeem_establishes redeem_rejects;
      (insert assms, simp add: model_capability_id_def; fail | intro preserving))+

lemma exchange_success: "capability_exchange w k (Inr doc) w' \<Longrightarrow> capability_used k w'"
proof (induction w k "Inr doc :: in_error + (string, string) dict" w' rule: capability_exchange.induct)
  case (source app now token k t w w')
  then show ?case
    using exchange_source(1) [OF source(1)] by (auto simp: in_request_Inr establishes_def)
next
  case (model app now token k t w w')
  then show ?case
    using exchange_model(1) [OF model(1)] by (auto simp: in_request_Inr establishes_def)
qed

lemma exchange_rejected:
  "capability_exchange w k r w' \<Longrightarrow> capability_used k w \<Longrightarrow> (\<exists>e. r = Inl e) \<and> w' = rolled_back w"
  by (induction rule: capability_exchange.induct)
     (erule rejectsD [rotated 2, OF _ exchange_source(2)] rejectsD [rotated 2, OF _ exchange_model(2)]; simp)+

section \<open>Runs\<close>

lemma initial_tables_wf: "table_repositories_wf in_db_init"
  by (simp add: table_repositories_wf_def in_db_init_def)

text \<open>C32: The tables only move forward. Whatever requests, reconciliations and events the service handles
  from well-formed tables on, no row is lost; redeemed capabilities, routes and processed events stay as
  they are, so do used setup attempts and revoked credentials; an installation changes only its status, a
  configuration only its health, a connection keeps its identity; audit trails are only appended to. And the
  connections stay readable and unique by identifier and by installation and external identifier.\<close>

theorem integration_tables_move_forward:
  assumes "integration_step\<^sup>*\<^sup>* w w'" and "table_repositories_wf (wo_db w)"
  shows "table_repositories_wf (wo_db w') \<and> tables_forward (wo_db w) (wo_db w')"
  using integration_run_forward [OF assms(1)] assms(2) by (simp add: forward_def)

theorem integration_tables_move_forward_witness:
  "table_repositories_wf (wo_db demo5) \<and> tables_forward (wo_db demo4) (wo_db demo5) \<and>
     id_credentials (wo_db demo5) = [(50, demo_credential_row)]"
proof -
  have "table_repositories_wf (wo_db demo0)" by (simp add: demo0_def initial_tables_wf)
  then have "table_repositories_wf (wo_db demo4)"
    using integration_tables_move_forward [OF rtranclp_trans [OF demo_run(1,2)]] by blast
  from integration_tables_move_forward [OF demo_run(3) this] show ?thesis by (simp add: demo5_eq demo5_db_def)
qed

text \<open>C10: A capability is redeemed at most once: after a source or model capability was exchanged, every later
  exchange of a capability with the same identifier, of either kind, by any organization and at any time,
  fails and leaves the tables, the secrets and the requests sent to GitHub as they were.\<close>

theorem capability_redeemed_at_most_once:
  assumes "table_repositories_wf (wo_db w)" and "capability_exchange w k (Inr document) w1"
    and "integration_step\<^sup>*\<^sup>* w1 w2" and "capability_exchange w2 k r w3"
  shows "(\<exists>e. r = Inl e) \<and> w3 = rolled_back w2"
proof -
  have "integration_step w w1"
    using assms(2) by cases (blast intro: integration_step.exchange_source integration_step.exchange_model)+
  then have "integration_step\<^sup>*\<^sup>* w w1" by (rule r_into_rtranclp)
  then have "table_repositories_wf (wo_db w1)"
    using integration_run_forward assms(1) by (auto simp: forward_def)
  then have "advances (=) (id_redemptions (wo_db w1)) (id_redemptions (wo_db w2))"
    using integration_run_forward [OF assms(3)] by (simp add: forward_def tables_forward_def)
  then have "capability_used k w2"
    using exchange_success [OF assms(2)] by (auto dest: advancesD)
  from exchange_rejected [OF assms(4) this] show ?thesis .
qed

theorem capability_redeemed_at_most_once_witness:
  "\<exists>w e. capability_exchange demo4 ''cap'' (Inr [(''clone_locator'', ''file:///fixtures/sample-webapp.git''),
       (''default_branch'', ''main''), (''username'', []), (''token'', []), (''expires_at'', []),
       (''development_substitute'', ''true'')]) w \<and>
     in_request (api_exchange_source_credential demo_app 9 9 ''source'') w = (Inl e, rolled_back w)"
proof -
  have k: "source_capability_id demo_app t ''source'' = Some ''cap''" for t
    by (simp add: source_capability_id_def demo_source_claims demo_claims_def py_str_def)
  from demo_exchange obtain w where w: "in_request (api_exchange_source_credential demo_app 0 5 ''source'') demo4 =
     (Inr [(''clone_locator'', ''file:///fixtures/sample-webapp.git''), (''default_branch'', ''main''),
           (''username'', []), (''token'', []), (''expires_at'', []), (''development_substitute'', ''true'')], w)" by blast
  note first = capability_exchange.source [OF k w]
  obtain r w3 where again: "in_request (api_exchange_source_credential demo_app 9 9 ''source'') w = (r, w3)"
    by (cases "in_request (api_exchange_source_credential demo_app 9 9 ''source'') w")
  have "forward (wo_db demo0) (wo_db demo4)"
    by (rule integration_run_forward [OF rtranclp_trans [OF demo_run(1,2)]])
  then have "table_repositories_wf (wo_db demo4)"
    using initial_tables_wf by (simp add: forward_def demo0_def)
  from capability_redeemed_at_most_once [OF this first rtranclp.rtrancl_refl capability_exchange.source [OF k again]]
  show ?thesis using first again by auto
qed

section \<open>Reconciliation\<close>

lemma read_unchanged:
  "on_db (ip_get_installation org k) w = (Inr found, w') \<Longrightarrow>
     wo_db w' = (wo_db w)\<lparr>id_organization := Some org\<rparr> \<and>
     (\<forall>i. found = Some i \<longrightarrow> (\<exists>row. dget (id_installations (wo_db w)) k = Some row \<and>
        iw_organization_id row = org \<and> installation_of_row row = Inr i))"
  "on_db (ip_get_source_control_configuration k) w = (Inr found', w') \<Longrightarrow> w' = w"
  "reference_of d w = (Inr reference, w') \<Longrightarrow> w' = w"
  by (auto simp: ip_get_installation_def ip_get_source_control_configuration_def reference_of_def onS_iff oper_iffs
      read_optional_iff owned_Some_iff split: option.splits)

lemma route_run:
  assumes "reconcile_route app st fresh now (org, k) w = (Inr (Some rs), v)"
  obtains i row c reference w1 where
    "dget (id_installations (wo_db w)) k = Some row" "iw_organization_id row = org" "installation_of_row row = Inr i"
    "ci_provider i = ''github''" "ci_status i = IS_ACTIVE" "sc_enabled c"
    "wo_db w1 = (wo_db w)\<lparr>id_organization := Some org\<rparr>"
    "in_reconcile WorldRepository (github_providers app st reference c (sc_api_version c)) fresh now i
       ''github-reconciliation-worker'' w1 = (Inr rs, v)"
proof -
  from assms obtain found w1 where found: "on_db (ip_get_installation org k) w = (Inr found, w1)"
    by (auto simp: reconcile_route_def bindS_Inr_iff)
  note got = read_unchanged(1) [OF found]
  from assms found obtain i cid where i: "found = Some i" "ci_provider i = ''github''" "ci_status i = IS_ACTIVE"
      "ci_provider_configuration_id i = Some cid"
    by (auto simp: reconcile_route_def bindS_Inr_iff basic_oper_iff split: option.splits if_splits)
  from assms found i obtain found' w2 where found': "on_db (ip_get_source_control_configuration cid) w1 = (Inr found', w2)"
    by (auto simp: reconcile_route_def bindS_Inr_iff)
  note same = read_unchanged(2) [OF found']
  from assms found i found' obtain c where c: "found' = Some c" "sc_enabled c"
    by (auto simp: reconcile_route_def bindS_Inr_iff basic_oper_iff split: option.splits if_splits)
  from assms found i found' c obtain reference w3 where reference: "reference_of (sc_private_key_reference c) w2 = (Inr reference, w3)"
    and run: "in_reconcile WorldRepository (github_providers app st reference c (sc_api_version c)) fresh now i
       ''github-reconciliation-worker'' w3 = (Inr rs, v)"
    by (auto simp: reconcile_route_def bindS_Inr_iff basic_oper_iff)
  show ?thesis
    using that got i c run same read_unchanged(3) [OF reference] by blast
qed

text \<open>C11: Reconciliation mirrors the provider: when the worker has reconciled an installation, the connections
  of that installation are the repositories the provider listed, active and with the provider's data; all its
  other connections are revoked, none is lost or changes its identifier or creation time, and the connections
  of every other installation and organization are untouched.\<close>

theorem reconciliation_mirrors_provider:
  assumes "table_repositories_wf (wo_db w)" and "keyed iw_id (id_installations (wo_db w))"
    and "in_request (reconcile_route app st fresh now (org, k)) w = (Inr (Some rs), w')"
    and "inj_on fresh {..<length rs}" and "\<forall>row \<in> set (dvals (id_repositories (wo_db w))). yw_id row \<notin> range fresh"
    and "\<forall>row \<in> set (dvals (id_repositories (wo_db w))).
      yw_organization_id row = org \<and> yw_installation_id row = k \<longrightarrow> \<not> yw_is_development_substitute row"
  shows "\<exists>(i :: connector_installation) c reference ds t t'.
     gs_repositories (ap_env app) (github_source st reference c) (ci_external_account_id i) t = (Inr ds, t') \<and>
     ci_organization_id i = org \<and> ci_id i = k \<and> ci_status i = IS_ACTIVE \<and> sc_enabled c \<and>
     (distinct (map de_external_id ds) \<longrightarrow>
        reconciles org k ds (table_view (wo_db w)) (table_view (wo_db w')))"
proof -
  from assms(3) obtain v where run: "reconcile_route app st fresh now (org, k) (rolled_back w) = (Inr (Some rs), v)"
    and w': "w' = rolled_back v" by (auto simp: in_request_Inr)
  from route_run [OF run] obtain i row c reference w1 where
    row: "dget (id_installations (wo_db (rolled_back w))) k = Some row" "iw_organization_id row = org"
      "installation_of_row row = Inr i"
    and i: "ci_provider i = ''github''" "ci_status i = IS_ACTIVE" "sc_enabled c"
    and w1: "wo_db w1 = (wo_db (rolled_back w))\<lparr>id_organization := Some org\<rparr>"
    and rec: "in_reconcile WorldRepository (github_providers app st reference c (sc_api_version c)) fresh now i
       ''github-reconciliation-worker'' w1 = (Inr rs, v)" .
  let ?g = "GitHubSourceControl (ap_env app) (github_source st reference c)"
  have ids: "ci_organization_id i = org" "ci_id i = k"
    using row keyedD [OF assms(2), of k row] by (auto simp: installation_of_row_def split: option.splits)
  have view: "table_view (wo_db w1) = table_view (wo_db w)" and wf: "table_repositories_wf (wo_db w1)"
    using assms(1) by (simp_all add: w1 table_view_def table_repositories_wf_def)
  have rows: "repository_row_of p \<in> set (dvals (id_repositories (wo_db w)))" "connection_key p = (o', j, x)"
    if "table_view (wo_db w1) o' j x = Some p" for o' j x p
    using that table_view_Some [OF wf] by (simp_all add: w1)
  have "\<exists>ds t t'. sp_repositories ?g (ci_external_account_id i) t = (Inr ds, t') \<and>
     (distinct (map de_external_id ds) \<longrightarrow> table_repositories_wf (wo_db v) \<and>
        reconciles (ci_organization_id i) (ci_id i) ds (table_view (wo_db w1)) (table_view (wo_db v)))"
  proof (rule table_repositories.reconcile [OF wf rec _ _ assms(4)])
    show "dget (github_providers app st reference c (sc_api_version c)) (ci_provider i) = Some ?g"
      by (simp add: github_providers_def github_source_def i)
    show "table_repositories_wf (wo_db t') \<and> table_view (wo_db t') = table_view (wo_db t)"
      if "table_repositories_wf (wo_db t)" "sp_repositories ?g (ci_external_account_id i) t = (Inr ds, t')" for t ds t'
      using preservesD [OF keeps_db_repositories] that by (fastforce simp: GitHubSourceControl_def)
    show "rc_id p \<noteq> fresh m" if "table_view (wo_db w1) o' j x = Some p" for m o' j x p
      using rows(1) [OF that] assms(5) by (metis repository_row_fields(2) rangeI)
    show "rc_is_development_substitute p = sp_is_development_substitute ?g"
      if "table_view (wo_db w1) (ci_organization_id i) (ci_id i) x = Some p" for x p
      using bspec [OF assms(6) rows(1) [OF that]] rows(2) [OF that] ids
      by (simp add: GitHubSourceControl_def connection_key_def repository_row_of_def)
  qed
  then obtain ds t t' where "sp_repositories ?g (ci_external_account_id i) t = (Inr ds, t')"
    "distinct (map de_external_id ds) \<longrightarrow>
        reconciles (ci_organization_id i) (ci_id i) ds (table_view (wo_db w1)) (table_view (wo_db v))" by blast
  then show ?thesis
    using ids i view by (intro exI [of _ i] exI [of _ c] exI [of _ reference] exI [of _ ds] exI [of _ t] exI [of _ t'])
      (simp add: GitHubSourceControl_def w' table_view_def)
qed

theorem reconciliation_mirrors_provider_witness:
  "\<exists>r w'. in_request (reconcile_route demo_app demo_store hub_fresh 5 (1, 21)) hub0 = (Inr (Some [r]), w') \<and>
     (\<exists>(i :: connector_installation) c reference ds t t'.
       gs_repositories demo_env (github_source demo_store reference c) (ci_external_account_id i) t = (Inr ds, t') \<and>
       ci_organization_id i = 1 \<and> ci_id i = 21 \<and> ci_status i = IS_ACTIVE \<and> sc_enabled c \<and>
       (distinct (map de_external_id ds) \<longrightarrow>
          reconciles 1 21 ds (table_view (wo_db hub0)) (table_view (wo_db w'))))"
proof -
  from hub_reconciled obtain r w' where
    run: "in_request (reconcile_route demo_app demo_store hub_fresh 5 (1, 21)) hub0 = (Inr (Some [r]), w')" by blast
  have rows: "id_repositories (wo_db hub0) = [(33, repository_row_of hub_old)]" by (simp add: hub0_def)
  have wf: "table_repositories_wf (wo_db hub0)"
    by (auto simp: table_repositories_wf_def rows wf_dict_def keyed_def hub_old_def demo_connected_def)
  have keyed: "keyed iw_id (id_installations (wo_db hub0))"
    by (simp add: keyed_def hub0_def hub_installation_def demo_installation_def)
  have fresh: "\<forall>row \<in> set (dvals (id_repositories (wo_db hub0))). yw_id row \<notin> range hub_fresh"
    "\<forall>row \<in> set (dvals (id_repositories (wo_db hub0))).
      yw_organization_id row = 1 \<and> yw_installation_id row = 21 \<longrightarrow> \<not> yw_is_development_substitute row"
    by (auto simp: rows hub_fresh_def hub_old_def demo_connected_def repository_row_of_def)
  have "inj_on hub_fresh {..<length [r]}" by (auto simp: inj_on_def)
  from reconciliation_mirrors_provider [OF wf keyed run this fresh] run show ?thesis by auto
qed

section \<open>Webhooks\<close>

lemma webhook_reads:
  "check_content_length cl w = (Inr u, v) \<Longrightarrow> v = w" "webhook_payload app body w = (Inr p, v) \<Longrightarrow> v = w"
  by (rule preservesD [OF preserves_webhook_reads(1) [where f = "\<lambda>w. w"]], assumption)
     (rule preservesD [OF preserves_webhook_reads(2) [where f = "\<lambda>w. w"]], assumption)

lemma preserves_configuration_for_app_id [preserving]:
  "preserves f (ip_source_control_configuration_for_app_id p a)"
  unfolding ip_source_control_configuration_for_app_id_def by (intro preserving)

lemma webhook_secret_keeps: "preserves wo_db (webhook_secret app target)"
  unfolding webhook_secret_def by (intro preserving)

definition delivered_before :: "in_db \<Rightarrow> string \<Rightarrow> bool" where
  "delivered_before s delivery \<longleftrightarrow>
     (\<exists>d \<in> set (id_webhooks s). wh_provider d = ''github'' \<and> wh_delivery_id d = delivery)"

lemma record_delivery_iff:
  assumes "wh_organization_id d = Some org"
  shows "ip_record_webhook_delivery d s = (Inr accepted, s') \<longleftrightarrow>
     (if accepted then \<not> (\<exists>row \<in> set (id_webhooks s). wh_provider row = wh_provider d \<and> wh_delivery_id row = wh_delivery_id d) \<and>
        s' = s\<lparr>id_organization := Some org, id_webhooks := id_webhooks s @ [d]\<rparr>
      else (\<exists>row \<in> set (id_webhooks s). wh_provider row = wh_provider d \<and> wh_delivery_id row = wh_delivery_id d \<and>
          wh_organization_id row = Some org) \<and> s' = s\<lparr>id_organization := Some org\<rparr>)"
  using assms
  by (auto simp: ip_record_webhook_delivery_def ip_set_organization_def oper_iffs insertS_iff)

definition received :: "in_app \<Rightarrow> uuid \<Rightarrow> string \<Rightarrow> string \<Rightarrow> string \<Rightarrow> webhook_delivery" where
  "received app org delivery event body =
     \<lparr>wh_provider = ''github'', wh_delivery_id = delivery, wh_organization_id = Some org,
      wh_event_name = event, wh_payload_hash = ap_sha256 app body\<rparr>"

definition webhook_effect :: "uuid \<Rightarrow> string \<Rightarrow> string \<Rightarrow> string \<Rightarrow> unit in_handler" where
  "webhook_effect org x action delivery =
     bindS (on_db (ip_installation_for_external org ''github'' x)) (\<lambda>found.
     case found of
       None \<Rightarrow> returnS ()
     | Some installation \<Rightarrow>
         bindS (integrationS (installation_action action installation)) (\<lambda>changed.
         seqS (on_db (ip_update_installation changed))
         (on_db (ip_record_audit
            \<lparr>ia_organization_id = org, ia_actor_subject = ''github-webhook'',
             ia_action = ''connector.installation.'' @ (if action = [] then ''received'' else action),
             ia_target_type = ''connector_installation'', ia_target_id = ci_id changed,
             ia_details = [(''delivery_id'', JStr delivery)]\<rparr>))))"

lemma bindS_InrE:
  assumes "bindS m g s = (Inr b, s')"
  obtains a t where "m s = (Inr a, t)" "g a t = (Inr b, s')"
  using assms by (auto simp: bindS_Inr_iff)

lemma seqS_InrE:
  assumes "seqS m n s = (Inr b, s')"
  obtains t where "m s = (Inr (), t)" "n t = (Inr b, s')"
  using assms by (auto simp: seqS_iff)

lemma webhook_run:
  assumes "api_github_webhook app cl body delivery event signature target w = (Inr answer, v)"
  obtains secret u x org k accepted s action where
    "webhook_secret app target w = (Inr secret, u)"
    "verify_webhook_signature (ap_hmac app) body signature secret = Inr True"
    "dget (id_routes (wo_db w)) (''github'', x) = Some (org, k)"
    "ip_record_webhook_delivery (received app org delivery event body) (wo_db w) = (Inr accepted, s)"
    "(if \<not> accepted \<or> event \<noteq> ''installation'' then returnS ()
      else webhook_effect org x action delivery) (u\<lparr>wo_db := s\<rparr>) = (Inr (), v)"
    "answer = [(''status'', if accepted then ''accepted'' else ''duplicate'')]"
  using assms unfolding api_github_webhook_def Let_def
  apply (elim bindS_InrE seqS_InrE)
  apply (simp only: split_paired_all prod.case)
  apply (elim bindS_InrE seqS_InrE)
  apply (simp only: require_or_iff requireS_iff basic_oper_iff)
  subgoal premises p for t ta secret u aa tc td payload x te ac tf org tg accepted th ti
  proof -
    have t: "t = w" "te = u" using webhook_reads(1) [OF p(2)] webhook_reads(2) [OF p(7)] by simp_all
    have db: "wo_db u = wo_db w" using preservesD [OF webhook_secret_keeps p(4)] p(3) t by simp
    have route: "tf = u" "map_option fst (dget (id_routes (wo_db w)) (''github'', x)) = Some org"
      using p(8) db t by (auto simp: onS_iff ip_organization_for_external_installation_def basic_oper_iff)
    then obtain k where k: "dget (id_routes (wo_db w)) (''github'', x) = Some (org, k)" by auto
    from p(10) route(1) db obtain s where s: "ip_record_webhook_delivery (received app org delivery event body) (wo_db w)
        = (Inr accepted, s)" "th = u\<lparr>wo_db := s\<rparr>"
      by (auto simp: onS_iff received_def)
    show ?thesis
    proof (rule p(1) [OF _ _ k s(1)])
      show "webhook_secret app target w = (Inr secret, u)" using p(3,4) t by simp
      show "verify_webhook_signature (ap_hmac app) body signature secret =
          verify_webhook_signature (ap_hmac app) body signature secret" by (rule refl)
      show "(if \<not> accepted \<or> event \<noteq> ''installation'' then returnS ()
          else webhook_effect org x (py_str (en_repr (ap_env app)) (obj_get_default payload ''action'' (JStr [])))
            delivery) (u\<lparr>wo_db := s\<rparr>) = (Inr (), ti)"
        using p(11) unfolding s(2) webhook_effect_def .
      show "answer = [(''status'', if accepted then ''accepted'' else ''duplicate'')]" using p(12) by simp
    qed
  qed
  done

lemma find_external:
  "on_db (ip_installation_for_external org p x) w = (Inr found, v) \<Longrightarrow>
     wo_db v = (wo_db w)\<lparr>id_organization := Some org\<rparr> \<and>
     (\<forall>i. found = Some i \<longrightarrow> (\<exists>row \<in> set (dvals (id_installations (wo_db w))). installation_of_row row = Inr i \<and>
        iw_organization_id row = org \<and> iw_provider row = p \<and> iw_external_account_id row = x))"
  by (auto simp: ip_installation_for_external_def onS_iff oper_iffs read_optional_iff visible_def
      split: option.splits dest!: find_SomeD)

lemma action_keeps: "installation_action a i = Inr j \<Longrightarrow> \<exists>status. j = i\<lparr>ci_status := status\<rparr>"
  by (auto simp: installation_action_def disconnect_def suspend_def activate_def split: if_splits)
     (metis connector_installation.surjective connector_installation.update_convs(12))

lemma organization_again:
  "id_organization s = v \<Longrightarrow> s\<lparr>id_installations := d, id_organization := v, id_audits := e\<rparr> =
     s\<lparr>id_installations := d, id_audits := e\<rparr>"
  by (cases s) simp

lemma webhook_effect_run:
  assumes "webhook_effect org x action delivery w = (Inr (), v)"
    and wf: "wf_dict (id_installations (wo_db w))" "keyed iw_id (id_installations (wo_db w))"
    and org: "id_organization (wo_db w) = Some org"
  shows "wo_db v = wo_db w \<or> (\<exists>row i j a. dget (id_installations (wo_db w)) (iw_id row) = Some row \<and>
     iw_organization_id row = org \<and> iw_provider row = ''github'' \<and> iw_external_account_id row = x \<and>
     installation_of_row row = Inr i \<and> installation_action action i = Inr j \<and>
     wo_db v = (wo_db w)\<lparr>id_installations := dset (iw_id row)
         (row\<lparr>iw_status := installation_status_value (ci_status j)\<rparr>) (id_installations (wo_db w)),
       id_audits := id_audits (wo_db w) @ [a]\<rparr>)"
  using assms(1) unfolding webhook_effect_def
  apply (elim bindS_InrE)
  subgoal premises p for found t
  proof -
    have same: "(wo_db w)\<lparr>id_organization := Some org\<rparr> = wo_db w" using org by simp
    note found = find_external [OF p(1), unfolded same]
    show ?thesis
    proof (cases found)
      case None
      then show ?thesis using p(2) found by (simp add: basic_oper_iff)
    next
      case (Some i)
      then obtain row where row: "row \<in> set (dvals (id_installations (wo_db w)))" "installation_of_row row = Inr i"
        "iw_organization_id row = org" "iw_provider row = ''github''" "iw_external_account_id row = x"
        using found by blast
      have get: "dget (id_installations (wo_db w)) (iw_id row) = Some row"
        using row(1) in_keyed_dvals [OF wf] by simp
      have ids: "ci_id i = iw_id row" "ci_organization_id i = org"
        using row by (auto simp: installation_of_row_def split: option.splits)
      from p(2) Some obtain j where j: "installation_action action i = Inr j"
        and rest: "seqS (on_db (ip_update_installation j)) (on_db
            (ip_record_audit
            \<lparr>ia_organization_id = org, ia_actor_subject = ''github-webhook'',
             ia_action = ''connector.installation.'' @ (if action = [] then ''received'' else action),
             ia_target_type = ''connector_installation'', ia_target_id = ci_id j,
             ia_details = [(''delivery_id'', JStr delivery)]\<rparr>)) t = (Inr (), v)"
        by (auto simp: bindS_Inr_iff integrationS_iff)
      obtain status where "j = i\<lparr>ci_status := status\<rparr>" using action_keeps [OF j] by blast
      then have "ci_id j = iw_id row" "ci_organization_id j = org" using ids by simp_all
      then have "\<exists>a. wo_db v = (wo_db w)\<lparr>id_installations := dset (iw_id row)
         (row\<lparr>iw_status := installation_status_value (ci_status j)\<rparr>) (id_installations (wo_db w)),
         id_audits := id_audits (wo_db w) @ [a]\<rparr>"
        using rest found get row(3) org
        by (simp add: seqS_iff onS_iff ip_update_installation_def ip_record_audit_def ip_set_organization_def
            basic_oper_iff owned_Some)
           (elim conjE exE; simp add: organization_again; blast)
      then show ?thesis using get row j by blast
    qed
  qed
  done

text \<open>The status of one of the organization's installations changed by the action of an event.\<close>

definition status_changed ::
  "uuid \<Rightarrow> string \<Rightarrow> (uuid, installation_row) dict \<Rightarrow> (uuid, installation_row) dict \<Rightarrow> bool" where
  "status_changed org x d d' \<longleftrightarrow>
     (\<exists>row i j action. dget d (iw_id row) = Some row \<and> iw_organization_id row = org \<and>
        iw_provider row = ''github'' \<and> iw_external_account_id row = x \<and> installation_of_row row = Inr i \<and>
        installation_action action i = Inr j \<and>
        d' = dset (iw_id row) (row\<lparr>iw_status := installation_status_value (ci_status j)\<rparr>) d)"

text \<open>What a verified header is: the prefix and the digest of the body under the secret.\<close>

lemma prefix_removed: "startswith s p \<Longrightarrow> s = p @ removeprefix s p"
  using append_take_drop_id [of "length p" s] by (simp add: startswith_def removeprefix_def)

lemma verified_signature:
  assumes "verify_webhook_signature hmac body signature secret = Inr True"
  shows "signature = ''sha256='' @ hmac secret body" and "length (hmac secret body) = 64"
proof -
  have p: "startswith signature ''sha256=''" and d: "length (removeprefix signature ''sha256='') = 64"
    "compare_digest (hmac secret body) (removeprefix signature ''sha256='') = Inr True"
    using assms by (auto simp: verify_webhook_signature_def Let_def split: if_splits)
  have "signature = ''sha256='' @ removeprefix signature ''sha256=''" by (rule prefix_removed [OF p])
  moreover have "hmac secret body = removeprefix signature ''sha256=''"
    using d(2) by (auto simp: compare_digest_def split: if_splits)
  ultimately show "signature = ''sha256='' @ hmac secret body" "length (hmac secret body) = 64"
    using d(1) by simp_all
qed

lemma webhook_secret_source:
  assumes "webhook_secret app target w = (Inr secret, u)"
  shows "target \<in> {None, Some []} \<longrightarrow> (\<exists>content.
      se_github_webhook_secret_file (ap_settings app) = Some (Some content) \<and> secret = strip_bytes content)"
    and "\<forall>t. target = Some t \<longrightarrow> t \<noteq> [] \<longrightarrow> (\<exists>c v. sc_enabled c \<and>
      on_db (ip_source_control_configuration_for_app_id ''github'' t) w = (Inr (Some c), v))"
proof -
  show "target \<in> {None, Some []} \<longrightarrow> (\<exists>content.
      se_github_webhook_secret_file (ap_settings app) = Some (Some content) \<and> secret = strip_bytes content)"
  proof
    assume "target \<in> {None, Some []}"
    then have c: "\<not> (target \<noteq> None \<and> target \<noteq> Some [])" by blast
    have "(case se_github_webhook_secret_file (ap_settings app) of
           None \<Rightarrow> in_http_error 503 ''GitHub webhook adapter is disabled''
         | Some None \<Rightarrow> raiseS InFileE
         | Some (Some content) \<Rightarrow> returnS (strip_bytes content)) w = (Inr secret, u)"
      using assms unfolding webhook_secret_def if_not_P [OF c] .
    then show "\<exists>content. se_github_webhook_secret_file (ap_settings app) = Some (Some content) \<and>
        secret = strip_bytes content"
      by (simp add: in_http_error_def raiseS_def returnS_def split: option.splits)
  qed
  show "\<forall>t. target = Some t \<longrightarrow> t \<noteq> [] \<longrightarrow> (\<exists>c v. sc_enabled c \<and>
      on_db (ip_source_control_configuration_for_app_id ''github'' t) w = (Inr (Some c), v))"
  proof (intro allI impI)
    fix t assume t: "target = Some t" "t \<noteq> []"
    then have c: "target \<noteq> None \<and> target \<noteq> Some []" by simp
    from assms show "\<exists>c v. sc_enabled c \<and>
        on_db (ip_source_control_configuration_for_app_id ''github'' t) w = (Inr (Some c), v)"
      unfolding webhook_secret_def if_P [OF c]
      by (elim bindS_InrE) (auto simp: t(1) requireS_iff split: option.splits if_splits)
  qed
qed


definition demo_signature :: string where
  "demo_signature = ''sha256='' @ replicate 64 CHR ''a''"

lemma hub_webhook_run:
  "\<exists>w'. in_request (api_github_webhook demo_app None ''{}'' ''d1'' ''installation''
     demo_signature None) hub0 = (Inr [(''status'', ''accepted'')], w')"
proof -
  have sig: "verify_webhook_signature (ap_hmac demo_app) ''{}'' demo_signature secret = Inr True"
    for secret
  proof -
    have "startswith demo_signature ''sha256=''"
      "removeprefix demo_signature ''sha256='' = replicate 64 CHR ''a''"
      "is_ascii (replicate 64 CHR ''a'')" by code_simp+
    then show ?thesis by (simp add: verify_webhook_signature_def compare_digest_def demo_app_def)
  qed
  have secret: "webhook_secret demo_app None w = (Inr (strip_bytes ''hook''), w)" for w
    by (simp add: webhook_secret_def demo_app_def oper_defs)
  have payload: "webhook_payload demo_app ''{}'' w =
      (Inr ([(''installation'', JObj [(''id'', JStr ''77'')]), (''action'', JStr ''suspend'')], ''77''), w)" for w
    by (simp add: webhook_payload_def demo_app_def json_item_def str_item_def py_str_def oper_defs)
  have fields: "iw_organization_id (installation_row_of hub_installation) = 1"
    "iw_provider (installation_row_of hub_installation) = ''github''"
    "iw_external_account_id (installation_row_of hub_installation) = ''77''"
    "ci_status hub_installation = IS_ACTIVE" "ci_id hub_installation = 21" "ci_organization_id hub_installation = 1"
    by (simp_all add: hub_installation_def demo_installation_def installation_row_of_def)
  show ?thesis
    by (simp add: in_request_def Let_def api_github_webhook_def check_content_length_def WEBHOOK_LIMIT_def
        require_or_def secret sig payload bindS_def seqS_def oper_defs onS_def hub0_def demo2_db_def in_db_init_def
        ip_organization_for_external_installation_def ip_record_webhook_delivery_def ip_set_organization_def
        insert_orS_def ip_installation_for_external_def visible_def fields read_optional_def integration_rows_roundtrip
        obj_get_default_def py_str_def installation_action_def suspend_def integrationS_def
        ip_update_installation_def owned_Some ip_record_audit_def)
qed


end
