(* ===== verification/InSecrets.thy ===== *)
theory InSecrets
  imports InProperties
begin

text \<open>
  The secrets of the integrations service: the encrypted files round trip and are apart by
  namespace, and a model credential reaches only runners of the organization that stored it.
\<close>

section \<open>Paths\<close>

lemma split_on_nonempty [simp]: "split_on d s \<noteq> []" "[] \<noteq> split_on d s"
proof -
  show "split_on d s \<noteq> []" by (induction s) (auto split: list.splits)
  then show "[] \<noteq> split_on d s" by metis
qed

lemma split_on_inj: "split_on d s = split_on d t \<Longrightarrow> s = t"
proof (induction s arbitrary: t)
  case Nil
  then show ?case by (cases t) (auto split: if_splits list.splits)
next
  case (Cons c s)
  obtain w ws where s: "split_on d s = w # ws" by (cases "split_on d s") auto
  show ?case
  proof (cases t)
    case Nil
    then show ?thesis using Cons.prems s by (auto split: if_splits)
  next
    case t: (Cons e t')
    obtain u us where t': "split_on d t' = u # us" by (cases "split_on d t'") auto
    then show ?thesis using Cons.prems Cons.IH [of t'] s t by (auto split: if_splits)
  qed
qed

lemma secret_path_Inr:
  "secret_path env st r = Inr p \<longleftrightarrow>
     sr_store r = ''encrypted-file'' \<and> \<not> list_ex unsafe_part (secret_parts r) \<and>
     p = en_resolve env (with_suffix (ss_root st @ secret_parts r) ''.json'') \<and> is_relative_to p (ss_root st)"
  by (auto simp: secret_path_def Let_def)

lemma secret_file:
  "with_suffix (root' @ secret_parts r) ''.json'' =
     root' @ split_on (CHR ''/'') (sr_namespace r) @ [stem (sr_key r) @ ''.json'']"
  by (simp add: with_suffix_def secret_parts_def butlast_append)

lemma secret_namespaces_apart:
  assumes "\<And>p. en_resolve env p = p"
    and "secret_path env st r = Inr p" and "secret_path env st r' = Inr p"
  shows "sr_namespace r = sr_namespace r' \<and> stem (sr_key r) = stem (sr_key r')"
proof -
  have "with_suffix (ss_root st @ secret_parts r) ''.json'' = with_suffix (ss_root st @ secret_parts r') ''.json''"
    using assms(2,3) by (simp only: secret_path_Inr assms(1))
  then show ?thesis by (auto simp: secret_file dest: split_on_inj)
qed

section \<open>Round trip\<close>

lemma secret_put_iff:
  "secret_put env st nonce r value w = (Inr (), w') \<longleftrightarrow>
     (\<exists>p. secret_path env st r = Inr p \<and> w' = w\<lparr>wo_files := dset p
        (JObj [(''version'', JInt 1), (''nonce'', JStr (hex_of_bytes nonce)),
           (''ciphertext'', JStr (hex_of_bytes (en_encrypt env (ss_key st) nonce value (secret_aad r))))])
        (wo_files w)\<rparr>)"
  by (cases "secret_path env st r") (auto simp: secret_put_def oper_iffs)

lemma secret_get_stored:
  assumes "secret_path env st r = Inr p"
    and "dget (wo_files w) p = Some (JObj [(''version'', JInt 1), (''nonce'', JStr (hex_of_bytes nonce)),
           (''ciphertext'', JStr (hex_of_bytes (en_encrypt env (ss_key st) nonce value (secret_aad r))))])"
    and "\<And>k n v a. en_decrypt env k n (en_encrypt env k n v a) a = Some v"
  shows "secret_get env st r w = (Inr value, w)"
  using assms
  by (simp add: secret_get_def oper_defs is_one_def obj_get_def hex_field_def json_item_def py_str_def hex_roundtrip)


text \<open>What a reference reads depends on its file alone.\<close>

lemma secret_get_file:
  assumes "\<And>p. secret_path env st r = Inr p \<Longrightarrow> dget (wo_files w') p = dget (wo_files w) p"
  shows "secret_get env st r w' = (fst (secret_get env st r w), w')"
  using assms
  by (cases "secret_path env st r")
     (auto simp: secret_get_def bindS_def oper_defs split: option.split json.split sum.split)

text \<open>C34: Secrets round trip and are apart: after a secret was written, reading its reference returns the value,
  for any cipher whose decryption inverts its encryption; every reference to another file reads what it read
  before; the file lies under the configured root; and where the file system resolves paths to themselves, two
  references name one file only if they have the same namespace.\<close>

theorem secrets_roundtrip_and_are_apart:
  assumes "\<And>k n v a. en_decrypt env k n (en_encrypt env k n v a) a = Some v"
    and "secret_put env st nonce r value w = (Inr (), w')"
  shows "secret_get env st r w' = (Inr value, w') \<and>
     (\<forall>r'. secret_path env st r' \<noteq> secret_path env st r \<longrightarrow>
        secret_get env st r' w' = (fst (secret_get env st r' w), w')) \<and>
     (\<exists>p. secret_path env st r = Inr p \<and> is_relative_to p (ss_root st)) \<and>
     ((\<forall>p. en_resolve env p = p) \<longrightarrow>
        (\<forall>r'. secret_path env st r' = secret_path env st r \<longrightarrow> sr_namespace r' = sr_namespace r))"
proof -
  obtain p where p: "secret_path env st r = Inr p"
    and w': "w' = w\<lparr>wo_files := dset p (JObj [(''version'', JInt 1), (''nonce'', JStr (hex_of_bytes nonce)),
        (''ciphertext'', JStr (hex_of_bytes (en_encrypt env (ss_key st) nonce value (secret_aad r))))]) (wo_files w)\<rparr>"
    using assms(2) by (auto simp: secret_put_iff)
  have "secret_get env st r w' = (Inr value, w')"
    by (rule secret_get_stored [OF p _ assms(1)]) (simp add: w')
  moreover have "secret_get env st r' w' = (fst (secret_get env st r' w), w')"
    if "secret_path env st r' \<noteq> secret_path env st r" for r'
    using that p unfolding w'
    by (intro secret_get_file) auto
  moreover have "sr_namespace r' = sr_namespace r"
    if "\<forall>p. en_resolve env p = p" "secret_path env st r' = secret_path env st r" for r'
    using secret_namespaces_apart [of env st r' p r] that p by simp
  moreover have "is_relative_to p (ss_root st)" using p unfolding secret_path_Inr by blast
  ultimately show ?thesis using p by blast
qed

theorem secrets_roundtrip_and_are_apart_witness:
  "\<exists>w. secret_put demo_env demo_store ''n'' demo_reference ''sk'' demo0 = (Inr (), w) \<and>
     secret_get demo_env demo_store demo_reference w = (Inr ''sk'', w)"
proof -
  obtain w where put: "secret_put demo_env demo_store ''n'' demo_reference ''sk'' demo0 = (Inr (), w)"
    using demo_path_eq by (auto simp: secret_put_iff)
  have "en_decrypt demo_env k n (en_encrypt demo_env k n v a) a = Some v" for k n v a by simp
  from secrets_roundtrip_and_are_apart [OF this put] put show ?thesis by blast
qed

section \<open>Model credentials\<close>

lemma encrypted_secrets_iff:
  "encrypted_secrets app w = (Inr st, w') \<longleftrightarrow>
     w' = w \<and> (\<exists>key. se_secret_master_key_file (ap_settings app) = Some (Some key) \<and>
       EncryptedFileSecretStore (ap_env app) (se_encrypted_secret_root (ap_settings app)) key = Inr st)"
  by (auto simp: encrypted_secrets_def in_http_error_def basic_oper_iff split: option.splits sum.splits)

lemma stored_credential:
  assumes "api_create_model_credential app k nonce now org p payload (Some key) w = (Inr document, v)"
    and "SecretReference ''encrypted-file'' (''model-credentials/'' @ str_uuid org) (str_uuid k) None = Inr reference"
    and "\<forall>c \<in> set (dvals (id_credentials (wo_db w))). mc_organization_id c = org \<longrightarrow> mc_idempotency_key c \<noteq> key"
  shows "\<exists>st path. encrypted_secrets app w = (Inr st, w) \<and> secret_path (ap_env app) st reference = Inr path \<and>
     wo_files v = dset path (JObj [(''version'', JInt 1), (''nonce'', JStr (hex_of_bytes nonce)),
        (''ciphertext'', JStr (hex_of_bytes (en_encrypt (ap_env app) (ss_key st) nonce (utf8 (mw_value payload))
           (secret_aad reference))))]) (wo_files w)"
  using assms(1) unfolding api_create_model_credential_def assms(2)
  apply (elim bindS_InrE seqS_InrE)
  apply (simp only: require_or_iff requireS_iff basic_oper_iff)
  subgoal premises q for t a ta r tb items tc
  proof -
    have auth: "wo_files t = wo_files w" "id_credentials (wo_db t) = id_credentials (wo_db w)"
      using q(1) by (auto simp: in_authorize_def ip_role_for_def oper_iffs onS_iff require_or_iff)
    have key: "a = key" "r = reference" "tb = t" using q(2,3) by (auto split: if_splits)
    have list: "set items = {c \<in> set (dvals (id_credentials (wo_db w))). mc_organization_id c = org}"
      "wo_files tc = wo_files w"
      using q(4) auth by (auto simp: onS_iff ip_list_model_credentials_def basic_oper_iff visible_def)
    have "find (\<lambda>item. mc_idempotency_key item = a) items = None"
      unfolding find_None_iff list key using assms(3) by auto
    with q(5) obtain st t1 t2 row t3 audit where st: "encrypted_secrets app tc = (Inr st, t1)"
      and put: "secret_put (ap_env app) st nonce reference (utf8 (mw_value payload)) t1 = (Inr (), t2)"
      and rest: "on_errorS (on_db (ip_add_model_credential now k org (mw_provider payload)
            (mw_display_name payload) reference a)) (secret_delete (ap_env app) st reference) t2 = (Inr row, t3)"
          "on_db (ip_record_audit audit) t3 = (Inr (), v)"
      unfolding key by (auto elim!: bindS_InrE seqS_InrE simp: basic_oper_iff)
    have "t1 = tc" "encrypted_secrets app w = (Inr st, w)" using st by (auto simp: encrypted_secrets_iff)
    moreover have "wo_files v = wo_files t2"
      using rest by (auto simp: on_errorS_Inr onS_iff)
    ultimately show ?thesis using put list by (auto simp: secret_put_iff)
  qed
  done

lemma exchanged_credential:
  assumes "api_exchange_model_credential app now t token w = (Inr answer, v)"
  shows "\<exists>claims org x e reference st u bytes value a. model_capability_claims app now token = Inr (claims, org, x, e, reference) \<and>
     sr_namespace reference = ''model-credentials/'' @ str_uuid org \<and> wo_files u = wo_files w \<and>
     encrypted_secrets app w = (Inr st, w) \<and> secret_get (ap_env app) st reference u = (Inr bytes, u) \<and>
     utf8_decode bytes = Some value \<and> answer = [(''value'', value)] \<and>
     id_audits (wo_db v) = id_audits (wo_db w) @ [a] \<and> ia_organization_id a = org \<and> ia_target_id a = x"
  using assms unfolding api_exchange_model_credential_def Let_def
  apply (elim bindS_InrE seqS_InrE)
  apply (simp only: split_paired_all prod.case)
  apply (elim bindS_InrE seqS_InrE)
  apply (simp only: require_or_iff requireS_iff basic_oper_iff)
  subgoal premises q for claims org x e reference u1 purpose u2 u3 jti u4 redeemed u5 u6 u6a st u7 bytes u8 val u9 u10
  proof -
    have u: "u1 = w" "u2 = w" "u4 = w"
      using preservesD [OF preserves_catching_401 [where f = "\<lambda>w. w"] q(1)]
        preservesD [OF preserves_webhook_reads(3) [where f = "\<lambda>w. w"] q(2)]
        preservesD [OF preserves_webhook_reads(3) [where f = "\<lambda>w. w"] q(4)] by simp_all
    have claims: "model_capability_claims app now token = Inr (claims, org, x, e, reference)"
      using q(1) by (auto simp: catching_401_def in_http_error_def basic_oper_iff split: sum.splits in_error.splits)
    have u5: "wo_files u5 = wo_files w" "id_audits (wo_db u5) = id_audits (wo_db w)"
      using q(5) u by (auto simp: onS_iff redeem_iff)
    have st: "u7 = u5" "encrypted_secrets app w = (Inr st, w)" using q(8) by (auto simp: encrypted_secrets_iff)
    have u8: "u8 = u5" using q(9) secret_get_file [of "ap_env app" st reference u7 u7] st(1) by simp
    show ?thesis
      using claims q(7,9,10,11,12) u5 st u8
      by (intro exI conjI) (auto simp: onS_iff ip_record_audit_def basic_oper_iff)
  qed
  done

text \<open>C12: A model credential reaches the organization that stored it and no other: when a capability that
  names the reference of a stored credential is exchanged, by whatever token and at whatever time, the
  capability is one of that organization, the answer is the value it stored, and the exchange is in its audit
  trail. The cipher is any whose decryption inverts its encryption.\<close>

theorem model_credential_reaches_its_owner_only:
  assumes "\<And>k n v a. en_decrypt (ap_env app) k n (en_encrypt (ap_env app) k n v a) a = Some v"
    and "in_request (api_create_model_credential app k nonce now org p payload (Some key)) w = (Inr document, w1)"
    and "\<forall>c \<in> set (dvals (id_credentials (wo_db w))). mc_organization_id c = org \<longrightarrow> mc_idempotency_key c \<noteq> key"
    and "SecretReference ''encrypted-file'' (''model-credentials/'' @ str_uuid org) (str_uuid k) None = Inr reference"
    and "wo_files w2 = wo_files w1"
    and "model_capability_claims app now' token = Inr (claims, org', x, e, reference)"
    and "in_request (api_exchange_model_credential app now' t token) w2 = (Inr answer, w3)"
  shows "org' = org \<and> answer = [(''value'', mw_value payload)] \<and>
     (\<exists>a. id_audits (wo_db w3) = id_audits (wo_db w2) @ [a] \<and> ia_organization_id a = org \<and> ia_target_id a = x)"
proof -
  from assms(2) obtain v where create: "api_create_model_credential app k nonce now org p payload (Some key) (rolled_back w)
      = (Inr document, v)" and w1: "w1 = rolled_back v" by (auto simp: in_request_Inr)
  from assms(7) obtain v' where exchange: "api_exchange_model_credential app now' t token (rolled_back w2) = (Inr answer, v')"
    and w3: "w3 = rolled_back v'" by (auto simp: in_request_Inr)
  from stored_credential [OF create assms(4)] assms(3) obtain st path where
    st: "encrypted_secrets app (rolled_back w) = (Inr st, rolled_back w)"
    and path: "secret_path (ap_env app) st reference = Inr path"
    and stored: "wo_files v = dset path (JObj [(''version'', JInt 1), (''nonce'', JStr (hex_of_bytes nonce)),
        (''ciphertext'', JStr (hex_of_bytes (en_encrypt (ap_env app) (ss_key st) nonce (utf8 (mw_value payload))
           (secret_aad reference))))]) (wo_files w)"
    by auto
  from exchanged_credential [OF exchange] assms(6) obtain st' u bytes val a where
    owner: "sr_namespace reference = ''model-credentials/'' @ str_uuid org'" and u: "wo_files u = wo_files w2"
    and st': "encrypted_secrets app (rolled_back w2) = (Inr st', rolled_back w2)"
    and get: "secret_get (ap_env app) st' reference u = (Inr bytes, u)"
    and val: "utf8_decode bytes = Some val" "answer = [(''value'', val)]"
    and audit: "id_audits (wo_db v') = id_audits (wo_db w2) @ [a]" "ia_organization_id a = org'" "ia_target_id a = x"
    by auto
  have "sr_namespace reference = ''model-credentials/'' @ str_uuid org"
    using SecretReference_InrD [OF assms(4)] by simp
  then have org: "org' = org" using owner by (auto dest: str_uuid_inj)
  have "st' = st" using st st' by (auto simp: encrypted_secrets_iff)
  moreover have "dget (wo_files u) path = Some (JObj [(''version'', JInt 1), (''nonce'', JStr (hex_of_bytes nonce)),
        (''ciphertext'', JStr (hex_of_bytes (en_encrypt (ap_env app) (ss_key st) nonce (utf8 (mw_value payload))
           (secret_aad reference))))])"
    using u assms(5) w1 stored by simp
  ultimately have "secret_get (ap_env app) st' reference u = (Inr (utf8 (mw_value payload)), u)"
    using secret_get_stored [OF path _ assms(1)] by blast
  then show ?thesis using get val org audit w3 by (auto simp: utf8_roundtrip)
qed

lemma demo_model_claims:
  "model_capability_claims demo_app now ''model'' =
     Inr (the (demo_claims ''model''), 1, 100, seconds 600, demo_reference)"
proof -
  have "secret_reference_of_json (JObj [(''store'', JStr ''encrypted-file''),
     (''namespace'', JStr (''model-credentials/'' @ str_uuid 1)), (''key'', JStr (str_uuid 50))]) = Inr demo_reference"
    by code_simp
  note this [unfolded append_Cons append_Nil, simp]
  show ?thesis
    by (simp add: model_capability_claims_def decoded_claims_def demo_claims_def claim_uuid_def py_str_def
        claim_expiry_def fromtimestamp_def py_int_def py_dict_def)
qed

theorem model_credential_reaches_its_owner_only_witness:
  "\<exists>w3. in_request (api_exchange_model_credential demo_app 7 7 ''model'') demo5 = (Inr [(''value'', ''sk'')], w3) \<and>
     (\<exists>a. id_audits (wo_db w3) = id_audits (wo_db demo5) @ [a] \<and> ia_organization_id a = 1 \<and> ia_target_id a = 100)"
proof -
  have get: "secret_get demo_env demo_store demo_reference w = (Inr ''sk'', w)"
    if "wo_files w = [(demo_path, demo_file)]" for w
    by (rule secret_get_stored [OF demo_path_eq, where nonce = "''n''"]) (simp_all add: that demo_file_def)
  have dec: "utf8_decode ''sk'' = Some ''sk''" by code_simp
  have ns: "sr_namespace demo_reference = ''model-credentials/'' @ str_uuid 1" by (simp add: demo_reference_def)
  have "\<exists>answer w3. in_request (api_exchange_model_credential demo_app 7 7 ''model'') demo5 = (Inr answer, w3)"
    unfolding demo5_eq
    by (simp add: api_exchange_model_credential_def catching_401_def demo_model_claims demo_claims_def claim_str_def
        py_str_def in_request_def Let_def bindS_def seqS_def oper_defs insert_orS_def onS_def ip_set_organization_def
        require_or_def ip_redeem_source_capability_def demo5_db_def demo4_db_def demo2_db_def in_db_init_def ns
        demo_store_eq get dec ip_record_audit_def)
  then obtain answer w3 where exchange: "in_request (api_exchange_model_credential demo_app 7 7 ''model'') demo5 = (Inr answer, w3)"
    by blast
  have "id_credentials (wo_db demo4) = []" by (simp add: demo4_eq demo4_db_def demo2_db_def in_db_init_def)
  then have "\<forall>c \<in> set (dvals (id_credentials (wo_db demo4))). mc_organization_id c = 1 \<longrightarrow> mc_idempotency_key c \<noteq> ''k''"
    by simp
  note r = model_credential_reaches_its_owner_only [OF _ demo5_run [folded demo5_eq] this demo_reference_valid refl
      demo_model_claims exchange]
  have "mw_value demo_credential = ''sk''" by (simp add: demo_credential_def)
  then show ?thesis using r exchange by simp
qed

end
