(* ===== verification/InAccess.thy ===== *)
theory InAccess
  imports InSecrets
begin

text \<open>
  Who may do what in the integrations service: setup attempts are used once, organization requests
  need a role; and a gap of the local source control, which keys pull requests by the caller's
  idempotency key alone.
\<close>

section \<open>Setup attempts\<close>

lemma consume_connector_iff:
  "ip_consume_connector_setup_attempt used org h subject now s = (Inr (Some c), s') \<longleftrightarrow>
     (\<exists>row. dget (id_connector_attempts s) h = Some row \<and> ct_organization_id row = org \<and>
        ct_actor_subject row = subject \<and> ct_used_at row = None \<and> now < ct_expires_at row \<and>
        c = ct_configuration_id row \<and>
        s' = s\<lparr>id_organization := Some org, id_connector_attempts :=
               dset h (row\<lparr>ct_used_at := Some used\<rparr>) (id_connector_attempts s)\<rparr>)"
  by (auto simp: ip_consume_connector_setup_attempt_def oper_iffs owned_Some_iff owned_Some split: option.splits)

lemma consume_connector_used:
  assumes "dget (id_connector_attempts s) h = Some row" and "ct_used_at row \<noteq> None"
  shows "ip_consume_connector_setup_attempt used org h subject now s = (Inr None, s\<lparr>id_organization := Some org\<rparr>)"
  using assms by (simp add: ip_consume_connector_setup_attempt_def oper_defs owned_Some)

definition attempt_used :: "string \<Rightarrow> in_world \<Rightarrow> bool" where
  "attempt_used h w \<longleftrightarrow> (\<exists>row. dget (id_connector_attempts (wo_db w)) h = Some row \<and> ct_used_at row \<noteq> None)"

lemma attempt_used_forward:
  assumes "forward (wo_db w) (wo_db w')" and "table_repositories_wf (wo_db w)" and "attempt_used h w"
  shows "attempt_used h w'"
proof -
  have "advances connector_attempt_step (id_connector_attempts (wo_db w)) (id_connector_attempts (wo_db w'))"
    using assms(1,2) by (simp add: forward_def tables_forward_def)
  then show ?thesis
    using assms(3) unfolding attempt_used_def by (fastforce dest: advancesD simp: connector_attempt_step_def)
qed

lemma authorize_state:
  "in_authorize org subject allowed w = (r, w') \<Longrightarrow> w' = w\<lparr>wo_db := (wo_db w)\<lparr>id_organization := Some org\<rparr>\<rparr>"
  by (auto simp: in_authorize_def ip_role_for_def onS_def ip_set_organization_def require_or_def in_http_error_def
      bindS_def seqS_def oper_defs split: option.splits if_splits)

lemma bindS_require_then:
  assumes "bindS m (\<lambda>x. bindS (requireS e x) g) s = (Inr b, s')" and "\<And>a. follows R (g a)"
  shows "\<exists>a t. m s = (Inr (Some a), t) \<and> R t s'"
  using assms(1) followsD [OF assms(2)] by (auto simp: bindS_Inr_iff requireS_iff)

lemma complete_installation_run:
  assumes "api_complete_github_installation app used now k created fresh org p payload w = (Inr result, v)"
    and "table_repositories_wf (wo_db w)"
  shows "(\<exists>row. dget (id_connector_attempts (wo_db w)) (hash_state app (gi_state payload)) = Some row \<and>
        ct_organization_id row = org \<and> ct_actor_subject row = pl_subject p \<and> ct_used_at row = None \<and>
        now < ct_expires_at row) \<and>
     attempt_used (hash_state app (gi_state payload)) v"
proof -
  let ?h = "hash_state app (gi_state payload)"
  from assms(1) have "\<exists>t c t2. in_authorize org (pl_subject p) [''OWNER'', ''ADMIN''] w = (Inr (), t) \<and>
      on_db (ip_consume_connector_setup_attempt used org ?h (pl_subject p) now) t = (Inr (Some c), t2) \<and>
      world_forward t2 v"
    unfolding api_complete_github_installation_def Let_def
    apply (elim seqS_InrE)
    apply (drule bindS_require_then [where R = world_forward])
     apply (intro following)
    apply blast
    done
  then obtain t c t2 where t: "t = w\<lparr>wo_db := (wo_db w)\<lparr>id_organization := Some org\<rparr>\<rparr>"
    and c: "on_db (ip_consume_connector_setup_attempt used org ?h (pl_subject p) now) t = (Inr (Some c), t2)"
    and rest: "forward (wo_db t2) (wo_db v)"
    by (auto simp: world_forward_def dest: authorize_state)
  then obtain row where row: "dget (id_connector_attempts (wo_db w)) ?h = Some row" "ct_organization_id row = org"
      "ct_actor_subject row = pl_subject p" "ct_used_at row = None" "now < ct_expires_at row"
    and t2: "wo_db t2 = (wo_db w)\<lparr>id_organization := Some org, id_connector_attempts :=
        dset ?h (row\<lparr>ct_used_at := Some used\<rparr>) (id_connector_attempts (wo_db w))\<rparr>"
    by (auto simp: onS_iff consume_connector_iff)
  have "table_repositories_wf (wo_db t2)" using assms(2) by (simp add: t2 table_repositories_wf_def)
  moreover have "attempt_used ?h t2" by (simp add: t2 attempt_used_def)
  ultimately have "attempt_used ?h v" using rest attempt_used_forward by blast
  then show ?thesis using row by blast
qed

lemma rejects_authorize:
  assumes "rejects P m" and "\<And>w v. P w \<Longrightarrow> P (w\<lparr>wo_db := (wo_db w)\<lparr>id_organization := v\<rparr>\<rparr>)"
  shows "rejects P (seqS (in_authorize org subject allowed) m)"
  unfolding rejects_def
proof (intro allI impI)
  fix w r v assume P: "P w" and run: "seqS (in_authorize org subject allowed) m w = (r, v)"
  obtain q t where auth: "in_authorize org subject allowed w = (q, t)" by (cases "in_authorize org subject allowed w")
  have t: "t = w\<lparr>wo_db := (wo_db w)\<lparr>id_organization := Some org\<rparr>\<rparr>" by (rule authorize_state [OF auth])
  show "(\<exists>e. r = Inl e) \<and> v\<lparr>wo_db := wo_db w\<rparr> = w"
  proof (cases q)
    case (Inl e)
    then show ?thesis using run auth t by (auto simp: seqS_def bindS_def)
  next
    case (Inr u)
    then have "m t = (r, v)" using run auth by (simp add: seqS_def bindS_def)
    then have "(\<exists>e. r = Inl e) \<and> v\<lparr>wo_db := wo_db t\<rparr> = t"
      using assms(1) assms(2) [OF P, of "Some org"] unfolding t rejects_def by blast
    then have "\<exists>e. r = Inl e" and "(v\<lparr>wo_db := wo_db t\<rparr>)\<lparr>wo_db := wo_db w\<rparr> = t\<lparr>wo_db := wo_db w\<rparr>" by simp_all
    then show ?thesis by (simp add: t)
  qed
qed

lemma rejects_consume:
  "rejects (attempt_used h)
     (bindS (on_db (ip_consume_connector_setup_attempt used org h subject now)) (\<lambda>x. bindS (requireS e x) g))"
  by (auto simp: rejects_def attempt_used_def bindS_def onS_def consume_connector_used requireS_def raiseS_def)

lemma complete_installation_rejects:
  "rejects (attempt_used (hash_state app (gi_state payload)))
     (api_complete_github_installation app used now k created fresh org p payload)"
  unfolding api_complete_github_installation_def Let_def
  by (intro rejects_authorize rejects_consume) (simp add: attempt_used_def)

text \<open>C33: A setup attempt completes one installation: completing a GitHub installation needs the state of an
  attempt that the same subject started for the same organization, unused and not expired; once it succeeded,
  every later completion with that state, by whomever and for whatever organization, fails before anything is
  sent to GitHub and changes nothing.\<close>

theorem setup_attempt_completes_once:
  assumes "table_repositories_wf (wo_db w)"
    and "in_request (api_complete_github_installation app used now k created fresh org p payload) w = (Inr result, w1)"
    and "integration_step\<^sup>*\<^sup>* w1 w2"
    and "hash_state app' (gi_state payload') = hash_state app (gi_state payload)"
    and "in_request (api_complete_github_installation app' used' now' k' created' fresh' org' p' payload') w2 = (r, w3)"
  shows "(\<exists>row. dget (id_connector_attempts (wo_db w)) (hash_state app (gi_state payload)) = Some row \<and>
        ct_organization_id row = org \<and> ct_actor_subject row = pl_subject p \<and> ct_used_at row = None \<and>
        now < ct_expires_at row) \<and>
     (\<exists>e. r = Inl e) \<and> w3 = rolled_back w2"
proof -
  from assms(2) obtain v where run: "api_complete_github_installation app used now k created fresh org p payload
      (rolled_back w) = (Inr result, v)" and w1: "w1 = rolled_back v" by (auto simp: in_request_Inr)
  have "table_repositories_wf (wo_db (rolled_back w))" using assms(1) by (simp add: table_repositories_wf_def)
  note first = complete_installation_run [OF run this]
  have "forward (wo_db w) (wo_db w1)"
    using integration_step_forward [OF integration_step.complete_installation [OF assms(2)]] by (simp add: world_forward_def)
  then have "table_repositories_wf (wo_db w1)" using assms(1) by (simp add: forward_def)
  moreover have "attempt_used (hash_state app (gi_state payload)) w1" using first w1 by (simp add: attempt_used_def)
  ultimately have "attempt_used (hash_state app' (gi_state payload')) (rolled_back w2)"
    using attempt_used_forward [OF integration_run_forward [OF assms(3)]] assms(4) by (simp add: attempt_used_def)
  from rejectsD [OF complete_installation_rejects this assms(5)] show ?thesis using first by simp
qed

definition hub1 :: in_world where
  "hub1 = hub0\<lparr>wo_db := (wo_db hub0)\<lparr>id_connector_attempts :=
     [(hash_state demo_app ''s1'', \<lparr>ct_organization_id = 1, ct_actor_subject = ''ann'', ct_configuration_id = 40,
        ct_expires_at = minutes 10, ct_used_at = None\<rparr>)]\<rparr>\<rparr>"

lemma hub_started:
  "\<exists>answer. in_request (api_start_github_installation demo_app ''s1'' 0 1 ann 40) hub0 = (Inr answer, hub1)"
proof -
  have role: "in_authorize 1 ''ann'' [''OWNER'', ''ADMIN''] (hub0\<lparr>wo_db := (wo_db hub0)\<lparr>id_organization := None\<rparr>\<rparr>)
      = (Inr (), hub0\<lparr>wo_db := (wo_db hub0)\<lparr>id_organization := Some 1\<rparr>\<rparr>)"
    by (simp add: in_authorize_def ip_role_for_def onS_def ip_set_organization_def require_or_def bindS_def seqS_def
        oper_defs visible_def hub0_def demo2_db_def)
  have conf: "sc_enabled hub_configuration" "sc_id hub_configuration = 40"
    by (simp_all add: hub_configuration_def)
  have none: "id_connector_attempts (wo_db hub0) = []" "id_organization (wo_db hub0) = None"
    by (simp_all add: hub0_def demo2_db_def in_db_init_def)
  have unset: "s\<lparr>id_connector_attempts := d, id_organization := None\<rparr> = s\<lparr>id_connector_attempts := d\<rparr>"
    if "id_organization s = None" for s :: in_db and d by (cases s) (use that in simp)
  show ?thesis
    using hub_reads(2) [of "hub0\<lparr>wo_db := (wo_db hub0)\<lparr>id_organization := Some 1\<rparr>\<rparr>" "Some 1"]
    by (simp add: in_request_def Let_def api_start_github_installation_def ann_def role enabled_configuration_def conf
        bindS_def seqS_def oper_defs onS_def ip_create_connector_setup_attempt_def ip_set_organization_def
        insert_orS_def none hub1_def unset)
qed

lemma hub_http:
  "\<exists>v. http_send demo_env (oauth_request c secret code) w =
     (Inr (201, Some (JObj [(''token'', JStr ''t''), (''access_token'', JStr ''u'')])), v) \<and> sends_only w v"
  "\<exists>v. installation_visible demo_env c user_token ''88'' [1..<11] w = (Inr True, v) \<and> sends_only w v"
  "\<exists>v kvs. ga_installation demo_env client x app_id key w = (Inr kvs, v) \<and> sends_only w v \<and>
     dget kvs ''account'' = None \<and> dget kvs ''permissions'' = None \<and> dget kvs ''repository_selection'' = None"
proof -
  have pages: "[1..<11] = 1 # [2..<11]" by (simp add: upt_conv_Cons)
  show "\<exists>v. http_send demo_env (oauth_request c secret code) w =
     (Inr (201, Some (JObj [(''token'', JStr ''t''), (''access_token'', JStr ''u'')])), v) \<and> sends_only w v"
    by (simp add: http_send_def oauth_request_def demo_server_def bindS_def seqS_def oper_defs sends_only_def)
  show "\<exists>v. installation_visible demo_env c user_token ''88'' [1..<11] w = (Inr True, v) \<and> sends_only w v"
    unfolding pages
    by (simp add: http_send_def demo_server_def bindS_def seqS_def oper_defs sends_only_def require_or_def json_body_def
        json_get_def obj_get_default_def json_items_def str_item_def json_item_def py_str_def)
  show "\<exists>v kvs. ga_installation demo_env client x app_id key w = (Inr kvs, v) \<and> sends_only w v \<and>
     dget kvs ''account'' = None \<and> dget kvs ''permissions'' = None \<and> dget kvs ''repository_selection'' = None"
    by (simp add: ga_installation_def app_get_def app_jwt_def unix_now_def http_json_def http_send_def demo_server_def
        bindS_def seqS_def oper_defs sends_only_def raise_for_status_def json_body_def)
qed

lemma hub_connect:
  assumes "wo_files w = wo_files hub0" and "id_installations (wo_db w) = id_installations (wo_db hub0)"
    and "id_routes (wo_db w) = id_routes (wo_db hub0)" and "id_repositories (wo_db w) = id_repositories (wo_db hub0)"
  shows "\<exists>result v. in_connect WorldRepository (github_providers demo_app demo_store (app_secret ''private-key'')
      hub_configuration x) 23 0 (\<lambda>n. (34, 0)) 1 ''ann'' ''github'' ''88'' login (Some 40) ps selection w = (Inr result, v)"
proof -
  let ?g = "GitHubSourceControl demo_env ((github_source demo_store (app_secret ''private-key'') hub_configuration)\<lparr>gs_api_version := x\<rparr>)"
  have g': "github_providers demo_app demo_store (app_secret ''private-key'') hub_configuration x = [(''github'', ?g)]"
    by (simp add: github_providers_def github_source_def)
  have repo: "ir_add_installation WorldRepository i = on_db (ip_add_installation i)"
    "ir_add_repository WorldRepository r = on_db (ip_add_repository r)"
    "ir_record_audit WorldRepository a = on_db (ip_record_audit a)" for i r a
    by (simp_all add: WorldRepository_def)
  have old: "rc_installation_id hub_old = 21" by (simp add: hub_old_def)
  have inst: "on_db (ip_add_installation i) w = (Inr (), w\<lparr>wo_db := (wo_db w)\<lparr>id_organization := Some (ci_organization_id i),
      id_installations := dset (ci_id i) (installation_row_of i) (id_installations (wo_db w)),
      id_routes := dset (ci_provider i, ci_external_account_id i) (ci_organization_id i, ci_id i) (id_routes (wo_db w))\<rparr>\<rparr>)"
    if "ci_id i = 23" "ci_external_account_id i = ''88''" for i
    using that assms by (simp add: ip_add_installation_def onS_def ip_set_organization_def insert_orS_def seqS_def bindS_def
        oper_defs hub0_def)
  have repos: "\<exists>u. on_db (ip_add_repository r) v = (Inr (), u)"
    if "id_repositories (wo_db v) = id_repositories (wo_db hub0)" "rc_id r = 34" "rc_installation_id r = 23" for r v
    using that by (simp add: ip_add_repository_def onS_def ip_set_organization_def insert_orS_def seqS_def bindS_def
        oper_defs hub0_def connection_key_def old)
  have audit: "\<exists>u. on_db (ip_record_audit a) v = (Inr (), u)" for a v
    by (simp add: ip_record_audit_def onS_def ip_set_organization_def seqS_def bindS_def oper_defs)
  define i where "i = \<lparr>ci_id = 23 :: uuid, ci_organization_id = 1, ci_provider = ''github'', ci_external_account_id = ''88'',
    ci_account_login = login, ci_requested_permissions = GITHUB_MINIMUM_PERMISSIONS,
    ci_is_development_substitute = False, ci_provider_configuration_id = Some 40, ci_granted_permissions = ps,
    ci_repository_selection = selection, ci_last_reconciled_at = None, ci_status = IS_ACTIVE, ci_created_at = 0\<rparr>"
  obtain w1 where w1: "on_db (ip_add_installation i) w = (Inr (), w1)" "wo_files w1 = wo_files hub0"
    "id_repositories (wo_db w1) = id_repositories (wo_db hub0)"
    using inst [of i] assms by (simp add: i_def)
  obtain v1 where v1: "sp_repositories ?g ''88'' w1 = (Inr [hub_descriptor], v1)" "sends_only w1 v1"
    using hub_repositories_version [OF w1(2), where c = hub_configuration and x = x and account = "''88''"]
    by (auto simp: GitHubSourceControl_def)
  define r where "r = \<lparr>rc_id = 34 :: uuid, rc_organization_id = 1, rc_installation_id = 23,
    rc_external_repository_id = de_external_id hub_descriptor, rc_owner = de_owner hub_descriptor,
    rc_name = de_name hub_descriptor, rc_default_branch = de_default_branch hub_descriptor,
    rc_clone_locator = de_clone_locator hub_descriptor, rc_is_private = de_is_private hub_descriptor,
    rc_is_development_substitute = False, rc_access_status = RA_ACTIVE, rc_last_seen_at = None,
    rc_revoked_at = None, rc_created_at = 0\<rparr>"
  obtain u where u: "on_db (ip_add_repository r) v1 = (Inr (), u)"
    using repos [of v1 r] w1(3) v1(2) by (auto simp: sends_only_def r_def)
  obtain z where z: "on_db (ip_record_audit \<lparr>ia_organization_id = 1, ia_actor_subject = ''ann'', ia_action = ''connector.connected'',
      ia_target_type = ''connector_installation'', ia_target_id = 23, ia_details = [(''provider'', JStr ''github''),
      (''repository_count'', JInt 1), (''development_substitute'', JBool False)]\<rparr>) u = (Inr (), z)"
    using audit by blast
  have sub: "\<not> sp_is_development_substitute ?g" by (simp add: GitHubSourceControl_def)
  have loop: "connect_repositories WorldRepository (\<lambda>n. (34, 0)) 1 23 False 0 [hub_descriptor] v1 = (Inr [r], u)"
    using u by (simp add: repo Let_def r_def [symmetric] seqS_def bindS_def oper_defs)
  show ?thesis
    by (simp add: g' in_connect_def in_record_audit_def repo provider_for_def Let_def sub i_def [symmetric] w1(1) v1(1)
        loop z seqS_def bindS_def oper_defs del: connect_repositories.simps)
qed

lemma hub_completed:
  "\<exists>result w. in_request (api_complete_github_installation demo_app 1 1 23 0 (\<lambda>n. (34, 0)) 1 ann
     \<lparr>gi_state = ''s1'', gi_code = ''c'', gi_installation_id = ''88''\<rparr>) hub1 = (Inr result, w)"
proof -
  define w0 where "w0 = hub1\<lparr>wo_db := (wo_db hub1)\<lparr>id_organization := Some 1\<rparr>\<rparr>"
  have auth: "in_authorize 1 ''ann'' [''OWNER'', ''ADMIN''] (hub1\<lparr>wo_db := (wo_db hub1)\<lparr>id_organization := None\<rparr>\<rparr>)
      = (Inr (), w0)"
    by (simp add: in_authorize_def ip_role_for_def onS_def ip_set_organization_def require_or_def bindS_def seqS_def
        oper_defs visible_def hub1_def hub0_def demo2_db_def w0_def)
  obtain w1 where consume: "on_db (ip_consume_connector_setup_attempt 1 1 (hash_state demo_app ''s1'') ''ann'' 1) w0
      = (Inr (Some 40), w1)"
    and w1: "wo_files w1 = wo_files hub0" "id_configurations (wo_db w1) = id_configurations (wo_db hub0)"
      "id_installations (wo_db w1) = id_installations (wo_db hub0)" "id_routes (wo_db w1) = id_routes (wo_db hub0)"
      "id_repositories (wo_db w1) = id_repositories (wo_db hub0)"
    by (simp add: onS_iff consume_connector_iff w0_def hub1_def minutes_def seconds_def)
  have conf: "enabled_configuration code detail 40 w1 = (Inr hub_configuration, w1)" for code detail
    using w1(2) by (simp add: enabled_configuration_def ip_get_source_control_configuration_def onS_def oper_defs bindS_def
        hub0_def read_optional_def integration_rows_roundtrip) (simp add: hub_configuration_def)
  have refs: "sc_client_secret_reference hub_configuration = dump_secret_reference (app_secret ''client-secret'')"
    "sc_private_key_reference hub_configuration = dump_secret_reference (app_secret ''private-key'')"
    "sc_id hub_configuration = 40"
    by (simp_all add: hub_configuration_def)
  have secret: "secret_get demo_env demo_store (app_secret key) w = (Inr ''k'', w)"
    if "key \<in> {''private-key'', ''client-secret''}" "wo_files w = wo_files hub0" for key w
    by (rule hub_secret) (use that in auto)
  have dec: "utf8_decode ''k'' = Some ''k''" by code_simp
  obtain w2 where oauth: "http_send demo_env (oauth_request hub_configuration ''k'' ''c'') w1 =
      (Inr (201, Some (JObj [(''token'', JStr ''t''), (''access_token'', JStr ''u'')])), w2)" "sends_only w1 w2"
    using hub_http(1) by blast
  obtain w3 where vis: "installation_visible demo_env hub_configuration ''u'' ''88'' [1..<11] w2 = (Inr True, w3)" "sends_only w2 w3"
    using hub_http(2) by blast
  obtain w4 kvs where app: "ga_installation demo_env \<lparr>ga_base_url = sc_api_base_url hub_configuration,
      ga_api_version = sc_api_version hub_configuration\<rparr> ''88'' (sc_app_id hub_configuration) ''k'' w3 = (Inr kvs, w4)"
    "sends_only w3 w4" "dget kvs ''account'' = None" "dget kvs ''permissions'' = None"
    "dget kvs ''repository_selection'' = None"
    using hub_http(3) by metis
  have same: "wo_files w4 = wo_files hub0" "wo_files w3 = wo_files hub0" "wo_db w4 = wo_db w1"
    using oauth(2) vis(2) app(2) w1 by (simp_all add: sends_only_def)
  have "\<exists>result v. in_connect WorldRepository (github_providers demo_app demo_store (app_secret ''private-key'')
      hub_configuration ''2026-03-10'') 23 0 (\<lambda>n. (34, 0)) 1 ''ann'' ''github'' ''88'' ''unknown'' (Some 40) [] ''SELECTED'' w4
      = (Inr result, v)"
    by (rule hub_connect) (simp_all add: same w1)
  then obtain result v where connect: "in_connect WorldRepository (github_providers demo_app demo_store (app_secret ''private-key'')
      hub_configuration ''2026-03-10'') 23 0 (\<lambda>n. (34, 0)) 1 ''ann'' ''github'' ''88'' ''unknown'' (Some 40) [] ''SELECTED'' w4
      = (Inr result, v)" by blast
  have up: "upper ''selected'' = ''SELECTED''" by code_simp
  show ?thesis
    using auth consume conf refs secret dec oauth vis app same w1 connect
    by (simp add: in_request_def Let_def api_complete_github_installation_def ann_def bindS_def seqS_def oper_defs
        demo_store_eq hub_reference json_get_def obj_get_default_def obj_get_def py_str_def json_body_def require_or_def
        granted_permissions_def py_dict_def up)
qed

theorem setup_attempt_completes_once_witness:
  "\<exists>result w1 e. in_request (api_complete_github_installation demo_app 1 1 23 0 (\<lambda>n. (34, 0)) 1 ann
       \<lparr>gi_state = ''s1'', gi_code = ''c'', gi_installation_id = ''88''\<rparr>) hub1 = (Inr result, w1) \<and>
     in_request (api_complete_github_installation demo_app 2 2 24 0 (\<lambda>n. (35, 0)) 1 ann
       \<lparr>gi_state = ''s1'', gi_code = ''d'', gi_installation_id = ''89''\<rparr>) w1 = (Inl e, rolled_back w1)"
proof -
  from hub_completed obtain result w1 where first: "in_request (api_complete_github_installation demo_app 1 1 23 0
      (\<lambda>n. (34, 0)) 1 ann \<lparr>gi_state = ''s1'', gi_code = ''c'', gi_installation_id = ''88''\<rparr>) hub1 = (Inr result, w1)"
    by blast
  obtain r w3 where again: "in_request (api_complete_github_installation demo_app 2 2 24 0 (\<lambda>n. (35, 0)) 1 ann
       \<lparr>gi_state = ''s1'', gi_code = ''d'', gi_installation_id = ''89''\<rparr>) w1 = (r, w3)" by (rule prod.exhaust)
  have rows: "id_repositories (wo_db hub1) = [(33, repository_row_of hub_old)]" by (simp add: hub1_def hub0_def)
  have wf: "table_repositories_wf (wo_db hub1)"
    by (auto simp: table_repositories_wf_def rows wf_dict_def keyed_def hub_old_def demo_connected_def)
  have state: "hash_state demo_app (gi_state \<lparr>gi_state = ''s1'', gi_code = ''d'', gi_installation_id = ''89''\<rparr>) =
      hash_state demo_app (gi_state \<lparr>gi_state = ''s1'', gi_code = ''c'', gi_installation_id = ''88''\<rparr>)" by simp
  from setup_attempt_completes_once [OF wf first rtranclp.rtrancl_refl state again] first again
  show ?thesis by auto
qed

section \<open>Roles\<close>

definition in_role_permits :: "in_world \<Rightarrow> uuid \<Rightarrow> string \<Rightarrow> string list \<Rightarrow> bool" where
  "in_role_permits w org subject allowed \<longleftrightarrow>
     (\<exists>m \<in> set (dvals (id_memberships (wo_db w))). mm_organization_id m = org \<and> mm_subject m = subject \<and>
        mm_active m \<and> mm_role m \<in> set allowed)"

definition in_forbidden :: "'a in_handler \<Rightarrow> in_world \<Rightarrow> bool" where
  "in_forbidden m w \<longleftrightarrow> (\<exists>e. in_request m w = (Inl (InHttpE 403 e), rolled_back w))"

lemma forbidden_organization:
  assumes "\<not> in_role_permits w org subject allowed"
  shows "in_forbidden (seqS (in_authorize org subject allowed) m) w"
proof -
  let ?w = "w\<lparr>wo_db := (wo_db w)\<lparr>id_organization := Some org\<rparr>\<rparr>"
  have "in_authorize org subject allowed (rolled_back w) = (Inl (InHttpE 403 ''membership cannot perform this action''), ?w)"
    using assms
    by (auto simp: in_authorize_def ip_role_for_def onS_def ip_set_organization_def require_or_def in_http_error_def
        bindS_def seqS_def oper_defs rolled_back_def visible_def in_role_permits_def dest!: find_SomeD
        split: option.splits)
  then show ?thesis
    by (simp add: in_forbidden_def in_request_Inl seqS_def bindS_def)
qed

lemma forbidden_platform:
  assumes "\<not> pl_is_platform_operator p"
  shows "in_forbidden (seqS (require_platform_operator p) m) w"
  using assms
  by (simp add: in_forbidden_def in_request_Inl seqS_def bindS_def require_platform_operator_def require_or_def
      in_http_error_def raiseS_def)

text \<open>C35: Every request of the integrations service needs its role: owners and administrators connect
  accounts, install the GitHub app and manage model credentials, developers may also create pull requests,
  reviewers may also list repositories, and the configurations of the platform are for platform operators.
  Anyone else gets 403, and nothing changes: no table, no secret, no request to GitHub.\<close>

theorem integration_requests_require_role:
  shows "(\<not> in_role_permits w org (pl_subject p) [''OWNER'', ''ADMIN''] \<longrightarrow>
       in_forbidden (api_start_github_installation app state now org p k) w \<and>
       in_forbidden (api_available_source_control_configurations org p) w \<and>
       in_forbidden (api_complete_github_installation app t now k t' fresh org p d1) w \<and>
       in_forbidden (api_connect k now fresh org p d2) w \<and>
       in_forbidden (api_create_model_credential app k nonce now org p d3 key) w \<and>
       in_forbidden (api_list_model_credentials fmt org p) w \<and>
       in_forbidden (api_revoke_model_credential app now org k p) w) \<and>
     (\<not> in_role_permits w org (pl_subject p) [''OWNER'', ''ADMIN'', ''DEVELOPER''] \<longrightarrow>
       in_forbidden (api_create_pull_request app org k p d4 idem) w) \<and>
     (\<not> in_role_permits w org (pl_subject p) [''OWNER'', ''ADMIN'', ''DEVELOPER'', ''REVIEWER''] \<longrightarrow>
       in_forbidden (api_repositories org p) w) \<and>
     (\<not> pl_is_platform_operator p \<longrightarrow>
       in_forbidden (api_start_github_manifest app state now p d5) w \<and>
       in_forbidden (api_complete_github_manifest app t now t' k nonce' p d6) w \<and>
       in_forbidden (api_source_control_configurations p) w \<and>
       in_forbidden (api_disable_source_control_configuration k p) w)"
  unfolding api_start_github_installation_def api_available_source_control_configurations_def
    api_complete_github_installation_def api_connect_def api_create_model_credential_def
    api_list_model_credentials_def api_revoke_model_credential_def api_create_pull_request_def
    api_repositories_def api_start_github_manifest_def api_complete_github_manifest_def
    api_source_control_configurations_def api_disable_source_control_configuration_def Let_def
  by (intro conjI impI; erule forbidden_organization forbidden_platform)

theorem integration_requests_require_role_witness:
  "in_forbidden (api_connect 24 0 (\<lambda>n. (35, 0)) 1 bob (demo_connection ''mallory'')) demo4"
proof -
  have "\<not> in_role_permits demo4 1 (pl_subject bob) [''OWNER'', ''ADMIN'']"
    by (simp add: in_role_permits_def demo4_eq demo4_db_def demo2_db_def bob_def)
  then show ?thesis using integration_requests_require_role [THEN conjunct1] by blast
qed

section \<open>Pull requests of the local source control\<close>

lemma local_pull_request_again:
  assumes "dget (lc_pull_requests (wo_local w)) key = Some result"
  shows "sp_create_pull_request LocalSourceControl i r t b h d key w = (Inr result, w)"
  using assms by (simp add: LocalSourceControl_def onS_def ls_create_pull_request_def oper_defs)

text \<open>
  A connected repository of the organization's local source control.
\<close>

definition local_repository :: "in_world \<Rightarrow> uuid \<Rightarrow> uuid \<Rightarrow> bool" where
  "local_repository w org k \<longleftrightarrow>
     (\<exists>r i. dget (id_repositories (wo_db w)) k = Some (repository_row_of r) \<and> rc_organization_id r = org \<and>
        dget (id_installations (wo_db w)) (rc_installation_id r) = Some (installation_row_of i) \<and>
        ci_organization_id i = org \<and> ci_provider i = ''github-local'' \<and> ci_status i = IS_ACTIVE)"

text \<open>C36: The local source control keeps pull requests by the caller's idempotency key alone, in one process
  for all organizations: whoever asks for a pull request under a key in use gets the pull request that was made
  first, of whatever organization and repository, instead of one of its own.\<close>

theorem local_pull_requests_cross_organizations:
  assumes "dget (lc_pull_requests (wo_local w)) key = Some earlier" and "local_repository w org k"
    and "in_request (api_create_pull_request app org k p payload key) w = (Inr result, w')"
  shows "result = earlier \<and> lc_pull_requests (wo_local w') = lc_pull_requests (wo_local w)"
proof -
  obtain r i where r: "dget (id_repositories (wo_db w)) k = Some (repository_row_of r)" "rc_organization_id r = org"
    and i: "dget (id_installations (wo_db w)) (rc_installation_id r) = Some (installation_row_of i)"
      "ci_organization_id i = org" "ci_provider i = ''github-local''" "ci_status i = IS_ACTIVE"
    using assms(2) by (auto simp: local_repository_def)
  define t where "t = w\<lparr>wo_db := (wo_db w)\<lparr>id_organization := Some org\<rparr>\<rparr>"
  have get: "on_db (ip_get_repository org k) t = (Inr (Some r), t)"
    "on_db (ip_get_installation org (rc_installation_id r)) t = (Inr (Some i), t)"
    using r i by (simp_all add: t_def onS_def ip_get_repository_def ip_get_installation_def ip_set_organization_def
        oper_defs bindS_def seqS_def owned_Some read_optional_def integration_rows_roundtrip)
  have service: "service_for_repository app org k t = (Inr local_providers, t)"
    using get i by (simp add: service_for_repository_def bindS_def oper_defs)
  have again: "sp_create_pull_request LocalSourceControl i' r' ti b h d key t = (Inr earlier, t)" for i' r' ti b h d
    by (rule local_pull_request_again) (simp add: t_def assms(1))
  have t: "(rolled_back w)\<lparr>wo_db := (wo_db w)\<lparr>id_organization := Some org\<rparr>\<rparr> = t"
    by (simp add: rolled_back_def t_def)
  obtain v where run: "api_create_pull_request app org k p payload key (rolled_back w) = (Inr result, v)"
    and w': "w' = rolled_back v" using assms(3) by (auto simp: in_request_Inr)
  then obtain u where auth: "in_authorize org (pl_subject p) [''OWNER'', ''ADMIN'', ''DEVELOPER''] (rolled_back w) = (Inr (), u)"
    and rest: "in_create_pull_request WorldRepository local_providers org (pl_subject p) k (pc_title payload)
        (pc_body payload) (pc_head_branch payload) (pc_head_sha payload) key t = (Inr result, v)"
    using authorize_state [of org "pl_subject p" "[''OWNER'', ''ADMIN'', ''DEVELOPER'']" "rolled_back w"] service
    by (auto simp: api_create_pull_request_def seqS_iff bindS_Inr_iff t)
  have repo: "ir_get_repository WorldRepository org k = on_db (ip_get_repository org k)"
    "ir_get_installation WorldRepository org j = on_db (ip_get_installation org j)"
    "ir_record_audit WorldRepository a = on_db (ip_record_audit a)" for j a
    by (simp_all add: WorldRepository_def)
  have "result = earlier \<and> lc_pull_requests (wo_local v) = lc_pull_requests (wo_local t)"
    using rest unfolding in_create_pull_request_def in_record_audit_def repo provider_for_def
    apply (elim bindS_InrE seqS_InrE)
    subgoal premises q for found t1 repository t2 found' t3 installation t4 adapter t5 made t6 t7 t8
    proof -
      have "found = Some r" "t1 = t" using q(1) get(1) by simp_all
      then have r: "repository = r" "t2 = t" using q(2) by (auto simp: requireS_iff)
      have "found' = Some i" "t3 = t" using q(3) get(2) r by simp_all
      then have i': "installation = i" "t4 = t" using q(4) i by (auto simp: requireS_iff split: if_splits)
      have adapter: "adapter = LocalSourceControl" "t5 = t"
        using q(5) i' i by (auto simp: requireS_iff local_providers_def)
      have made: "made = earlier" "t6 = t" using q(6) again adapter r i' by simp_all
      have "lc_pull_requests (wo_local t7) = lc_pull_requests (wo_local t6)"
        using q(7) adapter
        by (auto simp: LocalSourceControl_def ls_create_check_run_def basic_oper_iff onS_iff
            split: option.splits if_splits)
      moreover have "wo_local t8 = wo_local t7" using q(8) by (auto simp: onS_iff)
      ultimately show ?thesis using q(9) made by (simp add: basic_oper_iff)
    qed
    done
  then show ?thesis by (simp add: w' t_def)
qed

definition demo_pull_request :: "string \<Rightarrow> pull_request_create" where
  "demo_pull_request title = \<lparr>pc_title = title, pc_body = ''b'', pc_head_branch = ''f'', pc_head_sha = None\<rparr>"

definition demo_pull_result :: pull_request_result where
  "demo_pull_result =
     \<lparr>pq_reference = \<lparr>xr_provider = ''github-local'', xr_account_id = ''acme'',
        xr_repository = Some ''acme/sample-webapp'', xr_resource_type = ''pull_request'', xr_external_id = ''1''\<rparr>,
      pq_title = ''mine'', pq_url = ''http://localhost:3000/dev/github/pulls/1'', pq_head_branch = ''f'',
      pq_base_branch = ''main'', pq_is_development_substitute = True\<rparr>"

lemma demo_local_repository:
  "local_repository demo4 1 30" "local_repository demo4 2 32"
  unfolding local_repository_def demo4_eq
  by (rule exI [of _ "demo_connected 30 1 20 ''acme''"], rule exI [of _ "demo_installation 20 1 ''acme''"],
      simp add: demo4_db_def)
     (rule exI [of _ "demo_connected 32 2 22 ''other''"], rule exI [of _ "demo_installation 22 2 ''other''"],
      simp add: demo4_db_def)

lemma demo_pull_reference:
  "ExternalReference ''github-local'' ''acme'' (Some ''acme/sample-webapp'') ''pull_request'' ''1'' =
     Inr (pq_reference demo_pull_result)" "str_nat (Suc 0) = ''1''"
  by code_simp+

definition demo6 :: in_world where
  "demo6 = snd (in_request (api_create_pull_request demo_app 1 30 ann (demo_pull_request ''mine'') ''k1'') demo4)"

lemmas pull_defs = in_request_def Let_def api_create_pull_request_def in_authorize_def ip_role_for_def
  ip_set_organization_def require_or_def service_for_repository_def ip_get_repository_def ip_get_installation_def
  read_optional_def integration_rows_roundtrip in_create_pull_request_def WorldRepository_def provider_for_def
  local_providers_def LocalSourceControl_def ls_create_pull_request_def in_record_audit_def ip_record_audit_def
  bindS_def seqS_def oper_defs onS_def visible_def owned_Some demo_pull_request_def

lemma demo_names:
  "ci_external_account_id (demo_installation k org account) = account"
  "rc_owner (demo_connected k org j account) = account" "rc_name (demo_connected k org j account) = ''sample-webapp''"
  "rc_id (demo_connected k org j account) = k"
  by (simp_all add: demo_installation_def demo_connected_def)

lemma demo6_eq:
  "in_request (api_create_pull_request demo_app 1 30 ann (demo_pull_request ''mine'') ''k1'') demo4 =
     (Inr demo_pull_result, demo6)"
  "id_repositories (wo_db demo6) = id_repositories demo4_db" "id_installations (wo_db demo6) = id_installations demo4_db"
  "id_memberships (wo_db demo6) = id_memberships demo4_db"
  "lc_pull_requests (wo_local demo6) = [(''k1'', demo_pull_result)]"
  by (simp_all add: demo6_def demo4_eq demo4_db_def demo2_db_def in_db_init_def demo0_def pull_defs ann_def full_name_def demo_names
      demo_pull_reference) (simp_all add: demo_pull_result_def)

theorem local_pull_requests_cross_organizations_witness:
  "\<exists>w'. in_request (api_create_pull_request demo_app 1 30 ann (demo_pull_request ''mine'') ''k1'') demo4 =
       (Inr demo_pull_result, demo6) \<and>
     in_request (api_create_pull_request demo_app 2 32 bob (demo_pull_request ''other'') ''k1'') demo6 =
       (Inr demo_pull_result, w') \<and>
     xr_account_id (pq_reference demo_pull_result) = ''acme''"
proof -
  have "local_repository demo6 2 32"
    using demo_local_repository(2) by (simp add: local_repository_def demo6_eq demo4_eq)
  moreover have "\<exists>result w'. in_request (api_create_pull_request demo_app 2 32 bob (demo_pull_request ''other'') ''k1'') demo6 =
      (Inr result, w')"
    by (simp add: pull_defs demo6_eq demo4_db_def demo2_db_def bob_def)
  then obtain result w' where
    run: "in_request (api_create_pull_request demo_app 2 32 bob (demo_pull_request ''other'') ''k1'') demo6 = (Inr result, w')"
    by blast
  moreover have "dget (lc_pull_requests (wo_local demo6)) ''k1'' = Some demo_pull_result" by (simp add: demo6_eq)
  ultimately have "result = demo_pull_result"
    using local_pull_requests_cross_organizations by blast
  then show ?thesis using run demo6_eq(1) by (simp add: demo_pull_result_def)
qed

end
