(* ===== verification/RnDomain.thy ===== *)
theory RnDomain
  imports Contracts DlRuntimes
begin

text \<open>
  \<open>domain/models.py\<close>, \<open>domain/errors.py\<close>, \<open>application/ports.py\<close> and \<open>application/execute.py\<close>
  of the runner (\<open>runners/docker_runner\<close>): agent requests, events and results, validation
  evidence, and the execution of one job over any agent, validator and workspace manager. The
  creation time of an event, which no code reads, is left out. \<open>rn_error\<close> is the exception an
  operation raises; \<open>error_name\<close> is \<open>type(error).__name__\<close>.
\<close>

section \<open>Errors\<close>

datatype runner_error =
    UnknownProvider string
  | UnsupportedRuntime string
  | UnsupportedAuthenticationMode string
  | SecretResolutionFailed string

datatype rn_error =
    RunnerE runner_error
  | RnRuntimeE string
  | RnValueE string
  | RnKeyE string
  | RnTypeE
  | RnAttributeE
  | RnTimeoutE
  | RnCancelledE
  | RnNotFoundE
  | RnOtherE string

fun runner_error_name :: "runner_error \<Rightarrow> string" where
  "runner_error_name (UnknownProvider _) = ''UnknownProvider''"
| "runner_error_name (UnsupportedRuntime _) = ''UnsupportedRuntime''"
| "runner_error_name (UnsupportedAuthenticationMode _) = ''UnsupportedAuthenticationMode''"
| "runner_error_name (SecretResolutionFailed _) = ''SecretResolutionFailed''"

fun runner_error_message :: "runner_error \<Rightarrow> string" where
  "runner_error_message (UnknownProvider m) = m"
| "runner_error_message (UnsupportedRuntime m) = m"
| "runner_error_message (UnsupportedAuthenticationMode m) = m"
| "runner_error_message (SecretResolutionFailed m) = m"

fun error_name :: "rn_error \<Rightarrow> string" where
  "error_name (RunnerE e) = runner_error_name e"
| "error_name (RnRuntimeE _) = ''RuntimeError''"
| "error_name (RnValueE _) = ''ValueError''"
| "error_name (RnKeyE _) = ''KeyError''"
| "error_name RnTypeE = ''TypeError''"
| "error_name RnAttributeE = ''AttributeError''"
| "error_name RnTimeoutE = ''TimeoutError''"
| "error_name RnCancelledE = ''CancelledError''"
| "error_name RnNotFoundE = ''NotFound''"
| "error_name (RnOtherE name) = name"

text \<open>What \<open>except Exception\<close> catches: a cancellation is a \<open>BaseException\<close>.\<close>

definition is_exception :: "rn_error \<Rightarrow> bool" where
  "is_exception e \<longleftrightarrow> e \<noteq> RnCancelledE"

section \<open>Models\<close>

datatype agent_event_kind = EK_PLAN | EK_TOOL | EK_COMMAND | EK_RESULT | EK_ERROR | EK_APPROVAL | EK_USAGE

fun agent_event_kind_value :: "agent_event_kind \<Rightarrow> string" where
  "agent_event_kind_value EK_PLAN = ''PLAN''"
| "agent_event_kind_value EK_TOOL = ''TOOL''"
| "agent_event_kind_value EK_COMMAND = ''COMMAND''"
| "agent_event_kind_value EK_RESULT = ''RESULT''"
| "agent_event_kind_value EK_ERROR = ''ERROR''"
| "agent_event_kind_value EK_APPROVAL = ''APPROVAL''"
| "agent_event_kind_value EK_USAGE = ''USAGE''"

record agent_capabilities =
  cap_supports_resume :: bool
  cap_supports_structured_events :: bool
  cap_supports_usage :: bool
  cap_supports_approval :: bool
  cap_supported_authentication_modes :: "string list"

record agent_request =
  req_execution_id :: uuid
  req_organization_id :: uuid
  req_provider :: string
  req_model :: string
  req_authentication_mode :: string
  req_secret_reference :: "secret_reference option"
  req_workspace :: "string list"
  req_title :: string
  req_problem :: string
  req_acceptance_criteria :: "string list"
  req_max_turns :: int
  req_max_duration_seconds :: int

record agent_event =
  evt_sequence :: int
  evt_kind :: agent_event_kind
  evt_name :: string
  evt_message :: string
  evt_metadata :: "(string \<times> json) list"

record agent_result =
  res_success :: bool
  res_summary :: string
  res_session_id :: "string option"
  res_input_tokens :: "int option"
  res_cached_input_tokens :: "int option"
  res_output_tokens :: "int option"
  res_turns :: int
  res_changed_paths :: "string list"
  res_events :: "agent_event list"

record validation_command =
  cmd_executable :: string
  cmd_arguments :: "string list"
  cmd_timeout_seconds :: int

record validation_evidence =
  evd_executable :: string
  evd_arguments :: "string list"
  evd_exit_code :: int
  evd_stdout :: string
  evd_stderr :: string
  evd_duration_ms :: int

record validation_result =
  vld_passed :: bool
  vld_validator_image :: string
  vld_evidence :: "validation_evidence list"

definition int_json :: "int option \<Rightarrow> json" where
  "int_json v = (case v of None \<Rightarrow> JNull | Some i \<Rightarrow> JInt i)"

text \<open>\<open>s[:n]\<close> is \<open>take n s\<close>; \<open>s[-n:]\<close> for a positive \<open>n\<close>.\<close>

definition last_chars :: "nat \<Rightarrow> 'a list \<Rightarrow> 'a list" where
  "last_chars n s = drop (length s - n) s"

lemma length_last_chars [simp]: "length (last_chars n s) = min n (length s)"
  by (simp add: last_chars_def min_def)

section \<open>Executing a job\<close>

text \<open>
  The ports of \<open>application/ports.py\<close>, over a state \<open>'s\<close>: what \<open>RunnerExecutionService\<close> calls.
\<close>

record 's agent_runtime =
  rt_name :: string
  rt_is_development_substitute :: bool
  rt_available :: "('s, rn_error, bool) oper"
  rt_capabilities :: agent_capabilities
  rt_execute :: "agent_request \<Rightarrow> ('s, rn_error, agent_result) oper"

record 's runner_ports =
  po_agents :: "(string, 's agent_runtime) dict"
  po_validate :: "string list \<Rightarrow> validation_command list \<Rightarrow> ('s, rn_error, validation_result) oper"
  po_provision :: "string \<Rightarrow> ('s, rn_error, string list) oper"
  po_cleanup :: "string \<Rightarrow> ('s, rn_error, unit) oper"

text \<open>\<open>repr\<close> of a tuple of strings.\<close>

definition repr_tuple :: "string list \<Rightarrow> string" where
  "repr_tuple xs =
     (case xs of [x] \<Rightarrow> ''('' @ repr_str x @ '',)''
      | _ \<Rightarrow> ''('' @ join '', '' (map repr_str xs) @ '')'')"

definition unsupported_mode :: "string \<Rightarrow> string \<Rightarrow> agent_capabilities \<Rightarrow> rn_error" where
  "unsupported_mode runtime authentication_mode capabilities =
     RunnerE (UnsupportedAuthenticationMode
       (''runtime '' @ repr_str runtime @ '' does not support authentication_mode ''
        @ repr_str authentication_mode @ '' (supports ''
        @ repr_tuple (cap_supported_authentication_modes capabilities) @ '')''))"

definition execute_job ::
  "'s runner_ports \<Rightarrow> agent_request \<Rightarrow> string \<Rightarrow> validation_command list \<Rightarrow> bool \<Rightarrow>
     ('s, rn_error, agent_result \<times> validation_result) oper" where
  "execute_job ports request runtime validation_commands keep_failed_workspace =
     bindS (requireS (RunnerE (UnsupportedRuntime
              (''unsupported agent runtime: '' @ repr_str runtime))) (dget (po_agents ports) runtime)) (\<lambda>agent.
     bindS (rt_available agent) (\<lambda>available.
     seqS (if available then returnS ()
           else raiseS (RnRuntimeE (''agent runtime '' @ repr_str runtime @ '' is not available'')))
     (seqS (if req_authentication_mode request \<in> set (cap_supported_authentication_modes (rt_capabilities agent))
            then returnS ()
            else raiseS (unsupported_mode runtime (req_authentication_mode request) (rt_capabilities agent)))
     (let execution = str_uuid (req_execution_id request) in
      bindS (po_provision ports execution) (\<lambda>workspace.
      finallyS
        (bindS (rt_execute agent (request\<lparr>req_workspace := workspace\<rparr>)) (\<lambda>result.
         bindS (po_validate ports workspace validation_commands) (\<lambda>validation.
         returnS (result, validation))))
        (if keep_failed_workspace then returnS () else po_cleanup ports execution))))))"

end
