(* ===== verification/RnMachine.thy ===== *)
theory RnMachine
  imports RnDomain
begin

text \<open>
  What the runner works on: the files of its host, the environment of its process, and
  everything outside it (other processes, Docker, the two services) behind the record \<open>host\<close>.
  A path is the list of its components; \<open>files\<close> maps paths to directories and text
  files (modes, owners and links are not represented: where the code resolves links,
  \<open>ho_resolve\<close> stands for what it finds). Every subprocess, HTTP request, Docker call and read of
  a file the job container wrote is kept in \<open>m_log\<close>, in order and with its outcome.
\<close>

section \<open>Files\<close>

type_synonym path = "string list"

datatype node = Directory | TextFile string

type_synonym files = "(path, node) dict"

definition path_str :: "path \<Rightarrow> string" where
  "path_str p = concat (map (\<lambda>c. CHR ''/'' # c) p)"

text \<open>\<open>q.is_relative_to(p)\<close>.\<close>

definition under :: "path \<Rightarrow> path \<Rightarrow> bool" where
  "under p q \<longleftrightarrow> take (length p) q = p"

text \<open>What is at a path: a path with something below it is a directory, listed or not.\<close>

definition node_at :: "path \<Rightarrow> files \<Rightarrow> node option" where
  "node_at p fs =
     (case dget fs p of
        Some n \<Rightarrow> Some n
      | None \<Rightarrow> if \<exists>q \<in> set (map fst fs). under p q then Some Directory else None)"

definition exists_path :: "path \<Rightarrow> files \<Rightarrow> bool" where
  "exists_path p fs \<longleftrightarrow> node_at p fs \<noteq> None"

definition rmtree :: "path \<Rightarrow> files \<Rightarrow> rn_error + files" where
  "rmtree p fs =
     (case node_at p fs of
        None \<Rightarrow> Inl (RnOtherE ''FileNotFoundError'')
      | Some (TextFile _) \<Rightarrow> Inl (RnOtherE ''NotADirectoryError'')
      | Some Directory \<Rightarrow> Inr (filter (\<lambda>(q, _). \<not> under p q) fs))"

fun is_text_file :: "node option \<Rightarrow> bool" where
  "is_text_file (Some (TextFile _)) = True"
| "is_text_file _ = False"

text \<open>\<open>mkdir(parents=True)\<close>: the ancestors of \<open>p\<close> that are not listed yet, then \<open>p\<close>.\<close>

definition prefixes_of :: "path \<Rightarrow> path list" where
  "prefixes_of p = map (\<lambda>n. take n p) [1..<length p]"

definition make_dirs :: "path \<Rightarrow> files \<Rightarrow> files" where
  "make_dirs p fs =
     fold (\<lambda>q fs. if dget fs q = None then dset q Directory fs else fs) (prefixes_of p @ [p]) fs"

definition mkdir :: "bool \<Rightarrow> path \<Rightarrow> files \<Rightarrow> rn_error + files" where
  "mkdir exist_ok p fs =
     (case node_at p fs of
        Some n \<Rightarrow> if exist_ok \<and> n = Directory then Inr fs else Inl (RnOtherE ''FileExistsError'')
      | None \<Rightarrow>
          if \<exists>q \<in> set (prefixes_of p). is_text_file (node_at q fs)
          then Inl (RnOtherE ''NotADirectoryError'')
          else Inr (make_dirs p fs))"

definition copytree :: "path \<Rightarrow> path \<Rightarrow> files \<Rightarrow> rn_error + files" where
  "copytree src dst fs =
     (case node_at src fs of
        None \<Rightarrow> Inl (RnOtherE ''FileNotFoundError'')
      | Some (TextFile _) \<Rightarrow> Inl (RnOtherE ''NotADirectoryError'')
      | Some Directory \<Rightarrow>
          (case mkdir False dst fs of
             Inl e \<Rightarrow> Inl e
           | Inr fs' \<Rightarrow>
               Inr (fold (\<lambda>(q, n) fs. dset (dst @ drop (length src) q) n fs)
                      (filter (\<lambda>(q, _). under src q) fs) fs')))"

definition write_text :: "path \<Rightarrow> string \<Rightarrow> files \<Rightarrow> rn_error + files" where
  "write_text p text fs =
     (if node_at p fs = Some Directory then Inl (RnOtherE ''IsADirectoryError'')
      else (case node_at (butlast p) fs of
              Some Directory \<Rightarrow> Inr (dset p (TextFile text) fs)
            | Some (TextFile _) \<Rightarrow> Inl (RnOtherE ''NotADirectoryError'')
            | None \<Rightarrow> Inl (RnOtherE ''FileNotFoundError'')))"

definition read_text :: "path \<Rightarrow> files \<Rightarrow> rn_error + string" where
  "read_text p fs =
     (case node_at p fs of
        None \<Rightarrow> Inl (RnOtherE ''FileNotFoundError'')
      | Some Directory \<Rightarrow> Inl (RnOtherE ''IsADirectoryError'')
      | Some (TextFile text) \<Rightarrow> Inr text)"

text \<open>The children \<open>iterdir()\<close> yields, and the removal of one file and of an empty directory.\<close>

definition children :: "path \<Rightarrow> files \<Rightarrow> path list" where
  "children p fs = remdups (map (take (Suc (length p))) (filter (\<lambda>q. under p q \<and> q \<noteq> p) (map fst fs)))"

definition iterdir :: "path \<Rightarrow> files \<Rightarrow> rn_error + path list" where
  "iterdir p fs =
     (case node_at p fs of
        None \<Rightarrow> Inl (RnOtherE ''FileNotFoundError'')
      | Some (TextFile _) \<Rightarrow> Inl (RnOtherE ''NotADirectoryError'')
      | Some Directory \<Rightarrow> Inr (children p fs))"

definition unlink :: "path \<Rightarrow> files \<Rightarrow> rn_error + files" where
  "unlink p fs =
     (case node_at p fs of
        None \<Rightarrow> Inl (RnOtherE ''FileNotFoundError'')
      | Some Directory \<Rightarrow> Inl (RnOtherE ''IsADirectoryError'')
      | Some (TextFile _) \<Rightarrow> Inr (filter (\<lambda>(q, _). q \<noteq> p) fs))"

definition rmdir :: "path \<Rightarrow> files \<Rightarrow> rn_error + files" where
  "rmdir p fs =
     (case node_at p fs of
        None \<Rightarrow> Inl (RnOtherE ''FileNotFoundError'')
      | Some (TextFile _) \<Rightarrow> Inl (RnOtherE ''NotADirectoryError'')
      | Some Directory \<Rightarrow>
          if children p fs \<noteq> [] then Inl (RnOtherE ''OSError'')
          else Inr (filter (\<lambda>(q, _). q \<noteq> p) fs))"

section \<open>Docker containers\<close>

record container_spec =
  ct_image :: string
  ct_name :: "string option"
  ct_command :: "string list"
  ct_working_dir :: "string option"
  ct_volumes :: "(string \<times> string \<times> string) list"
  ct_environment :: "(string, string) dict"
  ct_network :: "string option"
  ct_network_disabled :: bool
  ct_read_only :: bool
  ct_cap_drop :: "string list"
  ct_security_opt :: "string list"
  ct_mem_limit :: "string option"
  ct_nano_cpus :: "int option"
  ct_pids_limit :: "int option"
  ct_user :: "string option"
  ct_tmpfs :: "(string, string) dict"
  ct_restart_policy :: "string option"

record http_call =
  hc_url :: string
  hc_headers :: "(string, string) dict"
  hc_json :: "json option"
  hc_timeout :: int

record process_end =
  pe_returncode :: int
  pe_stdout :: string
  pe_stderr :: string

section \<open>The world\<close>

text \<open>
  One entry of the log: a subprocess (arguments, environment, working directory), a POST request,
  a container started, waited for or removed, a network created, a file read.
\<close>

datatype entry =
    Ran "string list" "(string, string) dict" "rn_error + process_end"
  | Sent http_call "rn_error + nat \<times> json option"
  | Launched container_spec "rn_error + string"
  | Waited string int "rn_error + int"
  | Removed string "rn_error + unit"
  | NetworkCreated string bool "rn_error + unit"
  | NetworkJoined string string "rn_error + unit"
  | NetworkRemoved string "rn_error + unit"
  | ReadFile path string

datatype json_style = Compact | Spaced | Indented

text \<open>
  The outside: what a subprocess, a request and a Docker call return and do to the outside state
  and (processes and containers) to the files. \<open>ho_monotonic\<close> is \<open>time.monotonic()\<close> in
  microseconds, \<open>ho_tmp\<close> the fresh directory \<open>mkdtemp\<close> makes, \<open>ho_loads\<close> and \<open>ho_dumps\<close> read
  and print JSON, \<open>ho_repr\<close> prints floats and containers. Process output is decoded text.
\<close>

record 'x host =
  ho_process :: "string list \<Rightarrow> (string, string) dict \<Rightarrow> path option \<Rightarrow> int option \<Rightarrow> 'x \<Rightarrow> files \<Rightarrow>
     (rn_error + process_end) \<times> 'x \<times> files"
  ho_request :: "http_call \<Rightarrow> 'x \<Rightarrow> (rn_error + nat \<times> json option) \<times> 'x"
  ho_run :: "container_spec \<Rightarrow> 'x \<Rightarrow> files \<Rightarrow> (rn_error + string) \<times> 'x \<times> files"
  ho_wait :: "string \<Rightarrow> int \<Rightarrow> 'x \<Rightarrow> files \<Rightarrow> (rn_error + int) \<times> 'x \<times> files"
  ho_logs :: "string \<Rightarrow> bool \<Rightarrow> bool \<Rightarrow> 'x \<Rightarrow> rn_error + string"
  ho_remove :: "string \<Rightarrow> 'x \<Rightarrow> (rn_error + unit) \<times> 'x"
  ho_network :: "string \<Rightarrow> 'x \<Rightarrow> rn_error + unit"
  ho_network_create :: "string \<Rightarrow> bool \<Rightarrow> 'x \<Rightarrow> (rn_error + unit) \<times> 'x"
  ho_network_connect :: "string \<Rightarrow> string \<Rightarrow> 'x \<Rightarrow> (rn_error + unit) \<times> 'x"
  ho_network_remove :: "string \<Rightarrow> 'x \<Rightarrow> (rn_error + unit) \<times> 'x"
  ho_container :: "string \<Rightarrow> 'x \<Rightarrow> rn_error + string \<times> string"
  ho_start :: "string \<Rightarrow> 'x \<Rightarrow> (rn_error + unit) \<times> 'x"
  ho_monotonic :: "'x \<Rightarrow> int"
  ho_tmp :: "'x \<Rightarrow> path"
  ho_resolve :: "path \<Rightarrow> path"
  ho_loads :: "string \<Rightarrow> json option"
  ho_dumps :: "json_style \<Rightarrow> json \<Rightarrow> string"
  ho_repr :: "json \<Rightarrow> string"

record 'x machine =
  m_files :: files
  m_environ :: "(string, string) dict"
  m_outside :: 'x
  m_log :: "entry list"

type_synonym ('x, 'a) act = "('x machine, rn_error, 'a) oper"

definition log_entry :: "entry \<Rightarrow> ('x, unit) act" where
  "log_entry e = writeS (\<lambda>m. m\<lparr>m_log := m_log m @ [e]\<rparr>)"

text \<open>
  \<open>reach\<close> performs one interaction with the outside and logs it; \<open>reach_files\<close> one that may
  also change the files.
\<close>

definition reach ::
  "('x \<Rightarrow> (rn_error + 'a) \<times> 'x) \<Rightarrow> ((rn_error + 'a) \<Rightarrow> entry) \<Rightarrow> ('x, 'a) act" where
  "reach f e m = (case f (m_outside m) of (r, x) \<Rightarrow> (r, m\<lparr>m_outside := x, m_log := m_log m @ [e r]\<rparr>))"

definition reach_files ::
  "('x \<Rightarrow> files \<Rightarrow> (rn_error + 'a) \<times> 'x \<times> files) \<Rightarrow> ((rn_error + 'a) \<Rightarrow> entry) \<Rightarrow> ('x, 'a) act" where
  "reach_files f e m =
     (case f (m_outside m) (m_files m) of
        (r, x, fs) \<Rightarrow> (r, m\<lparr>m_files := fs, m_outside := x, m_log := m_log m @ [e r]\<rparr>))"

definition with_files :: "(files \<Rightarrow> rn_error + files) \<Rightarrow> ('x, unit) act" where
  "with_files f m =
     (case f (m_files m) of Inl e \<Rightarrow> (Inl e, m) | Inr fs \<Rightarrow> (Inr (), m\<lparr>m_files := fs\<rparr>))"

definition from_files :: "(files \<Rightarrow> rn_error + 'a) \<Rightarrow> ('x, 'a) act" where
  "from_files f m = (f (m_files m), m)"

definition run_process ::
  "'x host \<Rightarrow> string list \<Rightarrow> (string, string) dict \<Rightarrow> path option \<Rightarrow> int option \<Rightarrow> ('x, process_end) act" where
  "run_process host argv environment cwd timeout =
     reach_files (ho_process host argv environment cwd timeout) (Ran argv environment)"

definition monotonic :: "'x host \<Rightarrow> ('x, int) act" where
  "monotonic host = readS (\<lambda>m. ho_monotonic host (m_outside m))"

text \<open>Items of a decoded JSON document: \<open>document[key]\<close>, \<open>document.get(key, default)\<close>, iteration.\<close>

definition json_at :: "json \<Rightarrow> string \<Rightarrow> rn_error + json" where
  "json_at document key =
     (case document of
        JObj kvs \<Rightarrow> (case map_of kvs key of None \<Rightarrow> Inl (RnKeyE key) | Some v \<Rightarrow> Inr v)
      | _ \<Rightarrow> Inl RnTypeE)"

definition json_get :: "json \<Rightarrow> string \<Rightarrow> json \<Rightarrow> rn_error + json" where
  "json_get document key dflt =
     (case document of JObj kvs \<Rightarrow> Inr (obj_get_default kvs key dflt) | _ \<Rightarrow> Inl RnAttributeE)"

fun json_items :: "json \<Rightarrow> rn_error + json list" where
  "json_items (JList xs) = Inr xs"
| "json_items (JStr s) = Inr (map (\<lambda>c. JStr [c]) s)"
| "json_items (JObj kvs) = Inr (map (\<lambda>p. JStr (fst p)) kvs)"
| "json_items _ = Inl RnTypeE"

definition json_int :: "json \<Rightarrow> rn_error + int" where
  "json_int j =
     (case py_int j of
        Some i \<Rightarrow> Inr i
      | None \<Rightarrow> (case j of JStr _ \<Rightarrow> Inl (RnValueE ''invalid literal for int()'') | _ \<Rightarrow> Inl RnTypeE))"

definition str_at :: "'x host \<Rightarrow> json \<Rightarrow> string \<Rightarrow> rn_error + string" where
  "str_at host document key = map_sum id (py_str (ho_repr host)) (json_at document key)"

definition int_at :: "json \<Rightarrow> string \<Rightarrow> rn_error + int" where
  "int_at document key = (case json_at document key of Inl e \<Rightarrow> Inl e | Inr v \<Rightarrow> json_int v)"

text \<open>A loop over a list whose body may raise, collecting the results in order.\<close>

fun traverse :: "('a \<Rightarrow> 'e + 'b) \<Rightarrow> 'a list \<Rightarrow> 'e + 'b list" where
  "traverse f [] = Inr []"
| "traverse f (x # xs) =
     (case f x of Inl e \<Rightarrow> Inl e
      | Inr y \<Rightarrow> (case traverse f xs of Inl e \<Rightarrow> Inl e | Inr ys \<Rightarrow> Inr (y # ys)))"

fun each :: "('a \<Rightarrow> ('s, 'e, unit) oper) \<Rightarrow> 'a list \<Rightarrow> ('s, 'e, unit) oper" where
  "each f [] = returnS ()"
| "each f (x # xs) = seqS (f x) (each f xs)"

end
