(* ===== verification/RnIsolation.thy ===== *)
theory RnIsolation
  imports RnCatalog
begin

text \<open>
  The adapters the runner's daemon works through: the containers agents and validators run in
  (\<open>adapters/docker_agent.py\<close>, \<open>docker_validator.py\<close>, \<open>validator.py\<close>), the egress proxy
  (\<open>egress_network.py\<close>), the workspaces (\<open>workspace.py\<close>), the clients of the delivery and
  integrations services (\<open>control_client.py\<close>) and the resolution of a job's model credential
  (\<open>leased_secret_resolver.py\<close>).
\<close>

section \<open>Workspaces\<close>

record workspace_manager =
  wm_root :: path
  wm_fixture :: path

definition LocalWorkspaceManager :: "'x host \<Rightarrow> path \<Rightarrow> path \<Rightarrow> workspace_manager" where
  "LocalWorkspaceManager host directory fixture =
     \<lparr>wm_root = ho_resolve host directory, wm_fixture = ho_resolve host fixture\<rparr>"

definition safe_character :: "char \<Rightarrow> bool" where
  "safe_character c \<longleftrightarrow> c \<in> set ''abcdefghijklmnopqrstuvwxyz0123456789-''"

definition workspace_path :: "'x host \<Rightarrow> workspace_manager \<Rightarrow> string \<Rightarrow> rn_error + path" where
  "workspace_path host wm execution_id =
     (if execution_id = [] \<or> \<not> list_all safe_character (lower execution_id)
      then Inl (RnValueE ''execution ID contains unsafe path characters'')
      else
        let candidate = ho_resolve host (wm_root wm @ [execution_id]) in
        if \<not> under (wm_root wm) candidate then Inl (RnValueE ''workspace escaped configured root'')
        else Inr candidate)"

text \<open>\<open>if path.exists(): shutil.rmtree(path)\<close>.\<close>

definition remove_if_exists :: "path \<Rightarrow> ('x, unit) act" where
  "remove_if_exists p =
     bindS (readS (\<lambda>m. exists_path p (m_files m))) (\<lambda>there.
     if there then with_files (rmtree p) else returnS ())"

definition git_suffix :: "string \<Rightarrow> string" where
  "git_suffix execution_id = execution_id @ ''-git''"

definition provision :: "'x host \<Rightarrow> workspace_manager \<Rightarrow> string \<Rightarrow> ('x, path) act" where
  "provision host wm execution_id =
     bindS (liftS (workspace_path host wm execution_id)) (\<lambda>p.
     seqS (remove_if_exists p)
     (seqS (with_files (copytree (wm_fixture wm) p)) (returnS p)))"

definition provision_empty :: "'x host \<Rightarrow> workspace_manager \<Rightarrow> string \<Rightarrow> ('x, path \<times> path) act" where
  "provision_empty host wm execution_id =
     bindS (liftS (workspace_path host wm execution_id)) (\<lambda>p.
     bindS (liftS (workspace_path host wm (git_suffix execution_id))) (\<lambda>metadata.
     seqS (remove_if_exists p)
     (seqS (remove_if_exists metadata)
     (seqS (with_files (mkdir False p)) (returnS (p, metadata))))))"

definition cleanup :: "'x host \<Rightarrow> workspace_manager \<Rightarrow> string \<Rightarrow> ('x, unit) act" where
  "cleanup host wm execution_id =
     bindS (liftS (workspace_path host wm execution_id)) (\<lambda>p.
     bindS (liftS (workspace_path host wm (git_suffix execution_id))) (\<lambda>metadata.
     seqS (remove_if_exists p) (remove_if_exists metadata)))"

section \<open>Agent containers\<close>

definition agent_container ::
  "string \<Rightarrow> path \<Rightarrow> path \<Rightarrow> (string, string) dict \<Rightarrow> string option \<Rightarrow> container_spec" where
  "agent_container img workspace exchange environment network =
     \<lparr>ct_image = img, ct_name = None,
      ct_command = [''python'', ''-m'', ''mvp_runner.entrypoints.job'', ''/job/input.json'', ''/job/output.json''],
      ct_working_dir = None,
      ct_volumes = [(path_str workspace, ''/workspace'', ''rw''), (path_str exchange, ''/job'', ''rw'')],
      ct_environment = environment, ct_network = network, ct_network_disabled = (network = None),
      ct_read_only = True, ct_cap_drop = [''ALL''], ct_security_opt = [''no-new-privileges:true''],
      ct_mem_limit = Some ''768m'', ct_nano_cpus = Some 1000000000, ct_pids_limit = Some 128,
      ct_user = Some ''10001:10001'',
      ct_tmpfs = [(''/tmp'', ''rw,noexec,nosuid,size=64m''),
                  (''/home/app'', ''rw,nosuid,size=256m,uid=10001,gid=10001,mode=0700'')],
      ct_restart_policy = None\<rparr>"

definition docker_run :: "'x host \<Rightarrow> container_spec \<Rightarrow> ('x, string) act" where
  "docker_run host spec = reach_files (ho_run host spec) (Launched spec)"

definition docker_wait :: "'x host \<Rightarrow> string \<Rightarrow> int \<Rightarrow> ('x, int) act" where
  "docker_wait host container timeout =
     reach_files (ho_wait host container timeout) (Waited container timeout)"

definition docker_logs :: "'x host \<Rightarrow> string \<Rightarrow> bool \<Rightarrow> bool \<Rightarrow> ('x, string) act" where
  "docker_logs host container out err m = (ho_logs host container out err (m_outside m), m)"

definition docker_remove :: "'x host \<Rightarrow> string \<Rightarrow> ('x, unit) act" where
  "docker_remove host container = reach (ho_remove host container) (Removed container)"

text \<open>\<open>json.loads((exchange / "output.json").read_text())\<close>.\<close>

definition read_output :: "'x host \<Rightarrow> path \<Rightarrow> ('x, json) act" where
  "read_output host p =
     bindS (from_files (read_text p)) (\<lambda>text.
     seqS (log_entry (ReadFile p text))
     (requireS (RnValueE ''JSONDecodeError'') (ho_loads host text)))"

definition agent_execute ::
  "'x host \<Rightarrow> string \<Rightarrow> path \<Rightarrow> path \<Rightarrow> int \<Rightarrow> (string, string) dict \<Rightarrow> string option \<Rightarrow> ('x, json) act" where
  "agent_execute host img workspace exchange timeout_seconds environment network =
     bindS (docker_run host (agent_container img workspace exchange environment network)) (\<lambda>container.
     finallyS
       (bindS (docker_wait host container timeout_seconds) (\<lambda>status.
        if status \<noteq> 0 then
          bindS (docker_logs host container True True) (\<lambda>logs.
          raiseS (RnRuntimeE (''agent job container failed: '' @ last_chars 4000 logs)))
        else read_output host (exchange @ [''output.json''])))
       (docker_remove host container))"

section \<open>Validators\<close>

definition validator_container :: "string \<Rightarrow> path \<Rightarrow> validation_command \<Rightarrow> container_spec" where
  "validator_container img workspace command =
     \<lparr>ct_image = img, ct_name = None,
      ct_command = cmd_executable command # cmd_arguments command,
      ct_working_dir = Some ''/workspace'',
      ct_volumes = [(path_str workspace, ''/workspace'', ''ro'')],
      ct_environment = [], ct_network = None, ct_network_disabled = True,
      ct_read_only = True, ct_cap_drop = [''ALL''], ct_security_opt = [''no-new-privileges:true''],
      ct_mem_limit = Some ''512m'', ct_nano_cpus = Some 1000000000, ct_pids_limit = Some 128,
      ct_user = Some ''65532:65532'', ct_tmpfs = [(''/tmp'', ''rw,noexec,nosuid,size=64m'')],
      ct_restart_policy = None\<rparr>"

text \<open>The milliseconds since \<open>started\<close>.\<close>

definition duration_ms :: "int \<Rightarrow> int \<Rightarrow> int" where
  "duration_ms started now = (now - started) div 1000"

definition docker_command ::
  "'x host \<Rightarrow> string \<Rightarrow> path \<Rightarrow> validation_command \<Rightarrow> ('x, validation_evidence) act" where
  "docker_command host img workspace command =
     bindS (monotonic host) (\<lambda>started.
     bindS (docker_run host (validator_container img workspace command)) (\<lambda>container.
     bindS (finallyS
       (bindS (docker_wait host container (cmd_timeout_seconds command)) (\<lambda>status.
        bindS (docker_logs host container True False) (\<lambda>out.
        bindS (docker_logs host container False True) (\<lambda>err. returnS (status, out, err)))))
       (docker_remove host container)) (\<lambda>(status, out, err).
     bindS (monotonic host) (\<lambda>now.
     returnS \<lparr>evd_executable = cmd_executable command, evd_arguments = cmd_arguments command,
       evd_exit_code = status, evd_stdout = last_chars 65536 out, evd_stderr = last_chars 65536 err,
       evd_duration_ms = duration_ms started now\<rparr>))))"

text \<open>\<open>SubprocessValidator\<close>, the adapter of the tests: the command as a process of the host.\<close>

definition subprocess_command ::
  "'x host \<Rightarrow> path \<Rightarrow> validation_command \<Rightarrow> ('x, validation_evidence) act" where
  "subprocess_command host workspace command =
     bindS (monotonic host) (\<lambda>started.
     bindS (\<lambda>m. case run_process host (cmd_executable command # cmd_arguments command)
                   [(''PATH'', ''/usr/local/bin:/usr/bin:/bin''), (''CI'', ''true'')] (Some workspace)
                   (Some (cmd_timeout_seconds command)) m of
               (Inl RnTimeoutE, m') \<Rightarrow>
                 (Inr \<lparr>pe_returncode = -9, pe_stdout = [], pe_stderr = ''validator command timed out''\<rparr>, m')
             | r \<Rightarrow> r) (\<lambda>process.
     bindS (monotonic host) (\<lambda>now.
     returnS \<lparr>evd_executable = cmd_executable command, evd_arguments = cmd_arguments command,
       evd_exit_code = pe_returncode process, evd_stdout = last_chars 65536 (pe_stdout process),
       evd_stderr = last_chars 65536 (pe_stderr process), evd_duration_ms = duration_ms started now\<rparr>)))"

text \<open>The loop of both validators: it stops at the first command that fails.\<close>

fun run_commands ::
  "(validation_command \<Rightarrow> ('x, validation_evidence) act) \<Rightarrow> validation_command list \<Rightarrow>
     ('x, bool \<times> validation_evidence list) act" where
  "run_commands run [] = returnS (True, [])"
| "run_commands run (command # commands) =
     bindS (run command) (\<lambda>evidence.
     if evd_exit_code evidence \<noteq> 0 then returnS (False, [evidence])
     else bindS (run_commands run commands) (\<lambda>(passed, rest). returnS (passed, evidence # rest)))"

definition docker_validate ::
  "'x host \<Rightarrow> string \<Rightarrow> path \<Rightarrow> validation_command list \<Rightarrow> ('x, validation_result) act" where
  "docker_validate host img workspace commands =
     bindS (run_commands (docker_command host img workspace) commands) (\<lambda>(passed, evidence).
     returnS \<lparr>vld_passed = passed, vld_validator_image = img, vld_evidence = evidence\<rparr>)"

definition subprocess_validate ::
  "'x host \<Rightarrow> string \<Rightarrow> path \<Rightarrow> validation_command list \<Rightarrow> ('x, validation_result) act" where
  "subprocess_validate host img workspace commands =
     bindS (run_commands (subprocess_command host workspace) commands) (\<lambda>(passed, evidence).
     returnS \<lparr>vld_passed = passed, vld_validator_image = img, vld_evidence = evidence\<rparr>)"

section \<open>The egress proxy\<close>

record egress_manager =
  eg_network_name :: string
  eg_proxy_container_name :: string
  eg_proxy_image :: string
  eg_proxy_port :: int
  eg_allowed_hosts :: "string list"
  eg_config_root :: path

definition tinyproxy_conf :: "int \<Rightarrow> string" where
  "tinyproxy_conf port =
     concat (map (\<lambda>line. line @ [CHR 0x0A])
       [''User nobody'', ''Group nobody'', ''Port '' @ str_int port, ''Timeout 30'',
        ''DisableViaHeader Yes'', ''Filter '' @ [CHR 0x22] @ ''/etc/tinyproxy/filter'' @ [CHR 0x22],
        ''FilterDefaultDeny Yes'', ''ConnectPort 443''])"

text \<open>\<open>except NotFound\<close>: the handler runs for this exception only.\<close>

definition on_not_found :: "('x, 'a) act \<Rightarrow> ('x, 'a) act \<Rightarrow> ('x, 'a) act" where
  "on_not_found m handler s = (case m s of (Inl RnNotFoundE, s') \<Rightarrow> handler s' | r \<Rightarrow> r)"

definition docker_network :: "'x host \<Rightarrow> string \<Rightarrow> ('x, unit) act" where
  "docker_network host name m = (ho_network host name (m_outside m), m)"

definition ensure_network :: "'x host \<Rightarrow> egress_manager \<Rightarrow> ('x, unit) act" where
  "ensure_network host eg =
     on_not_found (docker_network host (eg_network_name eg))
       (reach (ho_network_create host (eg_network_name eg) True) (NetworkCreated (eg_network_name eg) True))"

definition write_proxy_config :: "egress_manager \<Rightarrow> ('x, unit) act" where
  "write_proxy_config eg =
     seqS (with_files (mkdir True (eg_config_root eg)))
     (seqS (with_files (write_text (eg_config_root eg @ [''tinyproxy.conf'']) (tinyproxy_conf (eg_proxy_port eg))))
     (with_files (write_text (eg_config_root eg @ [''filter''])
        (join [CHR 0x0A] (eg_allowed_hosts eg) @ [CHR 0x0A]))))"

definition proxy_container :: "egress_manager \<Rightarrow> container_spec" where
  "proxy_container eg =
     \<lparr>ct_image = eg_proxy_image eg, ct_name = Some (eg_proxy_container_name eg), ct_command = [],
      ct_working_dir = None,
      ct_volumes =
        [(path_str (eg_config_root eg @ [''tinyproxy.conf'']), ''/etc/tinyproxy/tinyproxy.conf'', ''ro''),
         (path_str (eg_config_root eg @ [''filter'']), ''/etc/tinyproxy/filter'', ''ro'')],
      ct_environment = [], ct_network = None, ct_network_disabled = False, ct_read_only = False,
      ct_cap_drop = [], ct_security_opt = [], ct_mem_limit = None, ct_nano_cpus = None,
      ct_pids_limit = None, ct_user = None, ct_tmpfs = [], ct_restart_policy = Some ''unless-stopped''\<rparr>"

definition docker_container :: "'x host \<Rightarrow> string \<Rightarrow> ('x, string \<times> string) act" where
  "docker_container host name m = (ho_container host name (m_outside m), m)"

definition docker_start :: "'x host \<Rightarrow> string \<Rightarrow> ('x, unit) act" where
  "docker_start host container m =
     (case ho_start host container (m_outside m) of (r, x) \<Rightarrow> (r, m\<lparr>m_outside := x\<rparr>))"

definition ensure_proxy_container :: "'x host \<Rightarrow> egress_manager \<Rightarrow> ('x, unit) act" where
  "ensure_proxy_container host eg =
     bindS (on_not_found
       (bindS (docker_container host (eg_proxy_container_name eg)) (\<lambda>(container, status).
        seqS (if status \<noteq> ''running'' then docker_start host container else returnS ()) (returnS True)))
       (returnS False)) (\<lambda>found.
     if found then returnS ()
     else
       bindS (docker_run host (proxy_container eg)) (\<lambda>container.
       seqS (docker_network host (eg_network_name eg))
       (reach (ho_network_connect host (eg_network_name eg) container)
          (NetworkJoined (eg_network_name eg) container))))"

definition egress_ensure :: "'x host \<Rightarrow> egress_manager \<Rightarrow> ('x, string) act" where
  "egress_ensure host eg =
     seqS (ensure_network host eg)
     (seqS (write_proxy_config eg)
     (seqS (ensure_proxy_container host eg)
     (returnS (''http://'' @ eg_proxy_container_name eg @ '':'' @ str_int (eg_proxy_port eg)))))"

definition egress_teardown :: "'x host \<Rightarrow> egress_manager \<Rightarrow> ('x, unit) act" where
  "egress_teardown host eg =
     seqS (on_not_found
       (bindS (docker_container host (eg_proxy_container_name eg)) (\<lambda>(container, _).
        docker_remove host container)) (returnS ()))
     (on_not_found
       (seqS (docker_network host (eg_network_name eg))
        (reach (ho_network_remove host (eg_network_name eg)) (NetworkRemoved (eg_network_name eg))))
       (returnS ()))"

section \<open>The clients of the services\<close>

record runner_identity =
  ri_runner_id :: string
  ri_credential :: string

text \<open>\<open>base_url.rstrip("/")\<close>.\<close>

definition rstrip_slash :: "string \<Rightarrow> string" where
  "rstrip_slash s = rev (dropWhile (\<lambda>c. c = CHR ''/'') (rev s))"

definition http_post :: "'x host \<Rightarrow> http_call \<Rightarrow> ('x, nat \<times> json option) act" where
  "http_post host call = reach (ho_request host call) (Sent call)"

definition response_json :: "nat \<times> json option \<Rightarrow> ('x, json) act" where
  "response_json response =
     (case response of (status, body) \<Rightarrow>
      if \<not> (200 \<le> status \<and> status < 300) then raiseS (RnOtherE ''HTTPStatusError'')
      else requireS (RnValueE ''JSONDecodeError'') body)"

definition raise_for_status :: "nat \<times> json option \<Rightarrow> ('x, unit) act" where
  "raise_for_status response =
     (if 200 \<le> fst response \<and> fst response < 300 then returnS ()
      else raiseS (RnOtherE ''HTTPStatusError''))"

definition runner_headers :: "runner_identity \<Rightarrow> (string, string) dict" where
  "runner_headers identity =
     [(''Authorization'', ''Runner '' @ ri_credential identity), (''X-Runner-ID'', ri_runner_id identity)]"

definition runner_call ::
  "string \<Rightarrow> runner_identity \<Rightarrow> string \<Rightarrow> json option \<Rightarrow> int \<Rightarrow> http_call" where
  "runner_call base identity endpoint body timeout =
     \<lparr>hc_url = rstrip_slash base @ ''/runner/v1/'' @ endpoint, hc_headers = runner_headers identity,
      hc_json = body, hc_timeout = timeout\<rparr>"

definition enroll ::
  "'x host \<Rightarrow> string \<Rightarrow> string \<Rightarrow> string \<Rightarrow> string list \<Rightarrow> ('x, runner_identity) act" where
  "enroll host base token name capabilities =
     bindS (http_post host \<lparr>hc_url = rstrip_slash base @ ''/runner/v1/enroll'', hc_headers = [],
        hc_json = Some (JObj [(''enrollment_token'', JStr token), (''name'', JStr name),
                     (''capabilities'', JList (map JStr capabilities))]), hc_timeout = 5\<rparr>) (\<lambda>response.
     bindS (response_json response) (\<lambda>payload.
     bindS (liftS (str_at host payload ''runner_id'')) (\<lambda>runner_id.
     bindS (liftS (str_at host payload ''runner_credential'')) (\<lambda>credential.
     returnS \<lparr>ri_runner_id = runner_id, ri_credential = credential\<rparr>))))"

text \<open>A lease: \<open>None\<close> for 204, else the document, \<open>dict(response.json())\<close>.\<close>

definition lease :: "'x host \<Rightarrow> http_call \<Rightarrow> ('x, json option) act" where
  "lease host call =
     bindS (http_post host call) (\<lambda>response.
     if fst response = 204 then returnS None
     else bindS (response_json response) (\<lambda>payload.
       case payload of JObj kvs \<Rightarrow> returnS (Some (JObj kvs)) | _ \<Rightarrow> raiseS RnTypeE))"

definition lease_job :: "'x host \<Rightarrow> string \<Rightarrow> runner_identity \<Rightarrow> ('x, json option) act" where
  "lease_job host base identity = lease host (runner_call base identity ''jobs/lease'' None 35)"

definition lease_provider_verification ::
  "'x host \<Rightarrow> string \<Rightarrow> runner_identity \<Rightarrow> ('x, json option) act" where
  "lease_provider_verification host base identity =
     lease host (runner_call base identity ''provider-verifications/lease'' None 35)"

text \<open>A request whose answer is only checked.\<close>

definition notify :: "'x host \<Rightarrow> http_call \<Rightarrow> ('x, unit) act" where
  "notify host call = bindS (http_post host call) raise_for_status"

definition complete_job ::
  "'x host \<Rightarrow> string \<Rightarrow> runner_identity \<Rightarrow> string \<Rightarrow> json \<Rightarrow> ('x, unit) act" where
  "complete_job host base identity job_id result =
     notify host (runner_call base identity (''jobs/'' @ job_id @ ''/complete'') (Some result) 35)"

definition heartbeat_job :: "'x host \<Rightarrow> string \<Rightarrow> runner_identity \<Rightarrow> string \<Rightarrow> ('x, unit) act" where
  "heartbeat_job host base identity job_id =
     notify host (runner_call base identity (''jobs/'' @ job_id @ ''/heartbeat'') None 10)"

definition heartbeat_provider_verification ::
  "'x host \<Rightarrow> string \<Rightarrow> runner_identity \<Rightarrow> string \<Rightarrow> ('x, unit) act" where
  "heartbeat_provider_verification host base identity verification_id =
     notify host (runner_call base identity (''provider-verifications/'' @ verification_id @ ''/heartbeat'') None 10)"

definition complete_provider_verification ::
  "'x host \<Rightarrow> string \<Rightarrow> runner_identity \<Rightarrow> string \<Rightarrow> json \<Rightarrow> ('x, unit) act" where
  "complete_provider_verification host base identity verification_id result =
     notify host (runner_call base identity (''provider-verifications/'' @ verification_id @ ''/complete'')
       (Some result) 35)"

definition capability :: "'x host \<Rightarrow> http_call \<Rightarrow> ('x, string) act" where
  "capability host call =
     bindS (http_post host call) (\<lambda>response.
     bindS (response_json response) (\<lambda>payload. liftS (str_at host payload ''capability'')))"

definition source_capability_call :: "string \<Rightarrow> runner_identity \<Rightarrow> string \<Rightarrow> string \<Rightarrow> http_call" where
  "source_capability_call base identity job_id purpose =
     (runner_call base identity (''jobs/'' @ job_id @ ''/source-capability'') None 10)
       \<lparr>hc_headers := runner_headers identity @ [(''X-Source-Purpose'', purpose)]\<rparr>"

definition source_capability ::
  "'x host \<Rightarrow> string \<Rightarrow> runner_identity \<Rightarrow> string \<Rightarrow> string \<Rightarrow> ('x, string) act" where
  "source_capability host base identity job_id purpose =
     capability host (source_capability_call base identity job_id purpose)"

definition model_capability :: "'x host \<Rightarrow> string \<Rightarrow> runner_identity \<Rightarrow> string \<Rightarrow> ('x, string) act" where
  "model_capability host base identity job_id =
     capability host (runner_call base identity (''jobs/'' @ job_id @ ''/model-capability'') None 10)"

definition provider_verification_model_capability ::
  "'x host \<Rightarrow> string \<Rightarrow> runner_identity \<Rightarrow> string \<Rightarrow> ('x, string) act" where
  "provider_verification_model_capability host base identity verification_id =
     capability host
       (runner_call base identity (''provider-verifications/'' @ verification_id @ ''/model-capability'') None 10)"

definition exchange_call :: "string \<Rightarrow> string \<Rightarrow> string \<Rightarrow> http_call" where
  "exchange_call base credentials token =
     \<lparr>hc_url = rstrip_slash base @ ''/internal/v1/'' @ credentials @ ''/exchange'', hc_headers = [],
      hc_json = Some (JObj [(''capability'', JStr token)]), hc_timeout = 30\<rparr>"

text \<open>\<open>SourceCredentialClient.exchange\<close> and \<open>ModelCredentialClient.exchange\<close>.\<close>

definition exchange_source :: "'x host \<Rightarrow> string \<Rightarrow> string \<Rightarrow> ('x, (string, string) dict) act" where
  "exchange_source host base token =
     bindS (http_post host (exchange_call base ''source-credentials'' token)) (\<lambda>response.
     bindS (response_json response) (\<lambda>payload.
     case payload of
       JObj kvs \<Rightarrow> returnS (map (\<lambda>(k, v). (k, py_str (ho_repr host) v)) kvs)
     | _ \<Rightarrow> raiseS RnAttributeE))"

definition exchange_model :: "'x host \<Rightarrow> string \<Rightarrow> string \<Rightarrow> ('x, string) act" where
  "exchange_model host base token =
     bindS (http_post host (exchange_call base ''model-credentials'' token)) (\<lambda>response.
     bindS (response_json response) (\<lambda>payload. liftS (str_at host payload ''value'')))"

text \<open>\<open>LeasedSecretResolver.resolve\<close>: every exception becomes one error.\<close>

definition resolve_secret ::
  "'x host \<Rightarrow> string \<Rightarrow> string \<Rightarrow> runner_identity \<Rightarrow> string \<Rightarrow> ('x, string) act" where
  "resolve_secret host delivery integrations identity job_id =
     map_errorS (\<lambda>e. if is_exception e
         then RunnerE (SecretResolutionFailed (''could not resolve model credential for job '' @ job_id))
         else e)
       (bindS (model_capability host delivery identity job_id) (exchange_model host integrations))"

end
