(* ===== verification/RnGit.thy ===== *)
theory RnGit
  imports RnIsolation
begin

text \<open>
  The git commands of \<open>entrypoints/daemon.py\<close>: how \<open>git()\<close> builds a command and its environment,
  the throw-away askpass helper that carries a credential, and the repositories a job works on.
\<close>

definition GIT_ENVIRONMENT :: "(string, string) dict" where
  "GIT_ENVIRONMENT =
     [(''PATH'', ''/usr/local/bin:/usr/bin:/bin''),
      (''GIT_AUTHOR_NAME'', ''MVP Master Agent''), (''GIT_AUTHOR_EMAIL'', ''agent@mvp-master.invalid''),
      (''GIT_COMMITTER_NAME'', ''MVP Master Agent''), (''GIT_COMMITTER_EMAIL'', ''agent@mvp-master.invalid''),
      (''GIT_CONFIG_NOSYSTEM'', ''1''), (''GIT_TERMINAL_PROMPT'', ''0''), (''GIT_LFS_SKIP_SMUDGE'', ''1'')]"

definition ASKPASS_SCRIPT :: string where
  "ASKPASS_SCRIPT =
     (let q = [CHR 0x22]; s = [CHR 0x27] in
      concat (map (\<lambda>line. line @ [CHR 0x0A])
       [''#!/bin/sh'',
        ''case '' @ q @ ''$1'' @ q @ '' in'',
        ''  *Username*) printf '' @ s @ ''%s'' @ s @ '' '' @ q @ ''$MVP_GIT_USERNAME'' @ q @ '' ;;'',
        ''  *) printf '' @ s @ ''%s'' @ s @ '' '' @ q @ ''$MVP_GIT_TOKEN'' @ q @ '' ;;'',
        ''esac'']))"

definition git_command :: "path \<Rightarrow> path option \<Rightarrow> string list \<Rightarrow> string list" where
  "git_command workspace metadata arguments =
     (case metadata of
        None \<Rightarrow> [''git'', ''-C'', path_str workspace]
      | Some directory \<Rightarrow> [''git'', ''--git-dir'', path_str directory, ''--work-tree'', path_str workspace])
     @ arguments"

text \<open>\<open>credential[key]\<close>.\<close>

definition item_of :: "(string, string) dict \<Rightarrow> string \<Rightarrow> rn_error + string" where
  "item_of credential key =
     (case dget credential key of None \<Rightarrow> Inl (RnKeyE key) | Some v \<Rightarrow> Inr v)"

definition git_run :: "'x host \<Rightarrow> string list \<Rightarrow> (string, string) dict \<Rightarrow> ('x, string) act" where
  "git_run host command environment =
     bindS (run_process host command environment None None) (\<lambda>process.
     if pe_returncode process \<noteq> 0 then raiseS (RnRuntimeE (last_chars 4000 (pe_stderr process)))
     else returnS (strip (pe_stdout process)))"

definition credential_environment ::
  "path \<Rightarrow> (string, string) dict \<Rightarrow> rn_error + (string, string) dict" where
  "credential_environment askpass credential =
     (case item_of credential ''username'' of
        Inl e \<Rightarrow> Inl e
      | Inr username \<Rightarrow>
          (case item_of credential ''token'' of
             Inl e \<Rightarrow> Inl e
           | Inr token \<Rightarrow>
               Inr (GIT_ENVIRONMENT @ [(''GIT_ASKPASS'', path_str askpass),
                      (''MVP_GIT_USERNAME'', username), (''MVP_GIT_TOKEN'', token)])))"

text \<open>
  \<open>git(workspace, *arguments, metadata=..., credential=...)\<close>; an empty credential counts as none.
\<close>

definition git ::
  "'x host \<Rightarrow> path \<Rightarrow> path option \<Rightarrow> (string, string) dict \<Rightarrow> string list \<Rightarrow> ('x, string) act" where
  "git host workspace metadata credential arguments =
     (if credential = [] then git_run host (git_command workspace metadata arguments) GIT_ENVIRONMENT
      else
        bindS (readS (\<lambda>m. ho_tmp host (m_outside m))) (\<lambda>askpass_root.
        seqS (with_files (mkdir False askpass_root))
        (seqS (with_files (write_text (askpass_root @ [''askpass'']) ASKPASS_SCRIPT))
        (bindS (liftS (credential_environment (askpass_root @ [''askpass'']) credential)) (\<lambda>environment.
         finallyS (git_run host (git_command workspace metadata arguments) environment)
           (with_files (rmtree askpass_root)))))))"

definition git_do :: "'x host \<Rightarrow> path \<Rightarrow> path option \<Rightarrow> (string, string) dict \<Rightarrow> string list \<Rightarrow> ('x, unit) act" where
  "git_do host workspace metadata credential arguments =
     bindS (git host workspace metadata credential arguments) (\<lambda>_. returnS ())"

definition ensure_repository_has_content :: "path \<Rightarrow> ('x, unit) act" where
  "ensure_repository_has_content workspace =
     bindS (from_files (iterdir workspace)) (\<lambda>paths.
     if \<exists>p \<in> set paths. last p \<noteq> ''.git'' then returnS ()
     else with_files (write_text (workspace @ [''.mvp-empty-repository''])
            (''Isolated workspace initialized by MVP Master.'' @ [CHR 0x0A])))"

definition prepare_provider_probe_workspace :: "'x host \<Rightarrow> path \<Rightarrow> string \<Rightarrow> ('x, unit) act" where
  "prepare_provider_probe_workspace host workspace runtime =
     (if runtime \<noteq> ''deterministic'' then returnS ()
      else
        seqS (with_files (mkdir False (workspace @ [''src''])))
        (with_files (write_text (workspace @ [''src'', ''status.json''])
           (ho_dumps host Spaced (JObj [(''title'', JStr ''Provider probe''), (''status'', JStr ''Pending'')])
            @ [CHR 0x0A]))))"

definition initialize_repository :: "'x host \<Rightarrow> path \<Rightarrow> ('x, unit) act" where
  "initialize_repository host workspace =
     seqS (git_do host workspace None [] [''init'', ''--initial-branch=main''])
     (seqS (ensure_repository_has_content workspace)
     (seqS (git_do host workspace None [] [''add'', ''--all''])
     (git_do host workspace None [] [''commit'', ''-m'', ''chore: initialize isolated fixture''])))"

definition clone_repository ::
  "'x host \<Rightarrow> path \<Rightarrow> path \<Rightarrow> (string, string) dict \<Rightarrow> ('x, string) act" where
  "clone_repository host workspace metadata credential =
     seqS (with_files (rmdir workspace))
     (bindS (liftS (item_of credential ''default_branch'')) (\<lambda>branch.
      bindS (liftS (item_of credential ''clone_locator'')) (\<lambda>locator.
      seqS (git_do host (butlast workspace) None credential
              [''clone'', ''--no-recurse-submodules'', ''--single-branch'', ''--branch'', branch,
               ''--separate-git-dir'', path_str metadata, locator, path_str workspace])
      (seqS (git_do host workspace (Some metadata) [] [''config'', ''core.hooksPath'', ''/dev/null''])
      (git host workspace (Some metadata) [] [''rev-parse'', ''HEAD''])))))"

text \<open>The subcommand of a git command line.\<close>

fun git_verb :: "string list \<Rightarrow> string option" where
  "git_verb (g # o' # d # rest) =
     (if g \<noteq> ''git'' then None
      else if o' = ''-C'' then (case rest of [] \<Rightarrow> None | v # _ \<Rightarrow> Some v)
      else if o' = ''--git-dir'' then (case rest of _ # _ # v # _ \<Rightarrow> Some v | _ \<Rightarrow> None)
      else None)"
| "git_verb _ = None"

lemma git_verb_command [simp]:
  "git_verb (git_command workspace metadata (v # arguments)) = Some v"
  by (auto simp: git_command_def split: option.split)

end
