(* ===== verification/RnDaemon.thy ===== *)
theory RnDaemon
  imports RnGit
begin

text \<open>
  \<open>entrypoints/daemon.py\<close> of the runner: a leased job from its checkout to its report, the
  heartbeats while it runs, provider verifications, and one turn of the polling loop. Logging
  and sleeping have no effect here. A task of the event loop is a resumption: \<open>More f\<close> runs until
  the next time \<open>asyncio.wait\<close> looks at it; \<open>dm_create_task\<close> cuts a coroutine into such slices.
\<close>

record settings =
  se_delivery_url :: string
  se_integrations_url :: string
  se_runner_id :: string
  se_runner_credential :: string
  se_workspace_root :: path
  se_fixture_path :: path
  se_job_image :: string
  se_agent_egress_enabled :: bool
  se_agent_egress_network :: string
  se_agent_egress_proxy_image :: string
  se_agent_egress_proxy_port :: int

codatatype ('s, 'a) task = Done "rn_error + 'a" | More "'s \<Rightarrow> ('s, 'a) task \<times> 's"

record 'x daemon =
  dm_host :: "'x host"
  dm_settings :: settings
  dm_identity :: runner_identity
  dm_workspaces :: workspace_manager
  dm_egress :: "egress_manager option"
  dm_create_task :: "('x, json) act \<Rightarrow> ('x machine, json) task"

section \<open>The parts of a job\<close>

type_synonym document = "(string \<times> json) list"

text \<open>The credential of the repository of a job, when the job names one.\<close>

definition source_credential :: "'x daemon \<Rightarrow> document \<Rightarrow> string \<Rightarrow> ('x, (string, string) dict) act" where
  "source_credential d job purpose =
     bindS (liftS (str_at (dm_host d) (JObj job) ''job_id'')) (\<lambda>job_id.
     bindS (source_capability (dm_host d) (se_delivery_url (dm_settings d)) (dm_identity d) job_id purpose)
       (exchange_source (dm_host d) (se_integrations_url (dm_settings d))))"

definition checkout_credential ::
  "'x daemon \<Rightarrow> document \<Rightarrow> ('x, bool \<times> (string, string) dict) act" where
  "checkout_credential d job =
     (if truthy (obj_get job ''repository_connection_id'') then
        bindS (source_credential d job ''CHECKOUT_READ'') (\<lambda>credential.
        returnS (dget credential ''development_substitute'' \<noteq> Some ''true'', credential))
      else returnS (False, []))"

text \<open>The workspace, the git directory of a clone, and the commit it was cloned at.\<close>

definition prepare_checkout ::
  "'x daemon \<Rightarrow> string \<Rightarrow> bool \<Rightarrow> (string, string) dict \<Rightarrow> ('x, path \<times> path option \<times> string) act" where
  "prepare_checkout d execution_id linked credential =
     (if linked \<and> credential \<noteq> [] then
        bindS (provision_empty (dm_host d) (dm_workspaces d) execution_id) (\<lambda>(workspace, metadata).
        bindS (clone_repository (dm_host d) workspace metadata credential) (\<lambda>base_sha.
        returnS (workspace, Some metadata, base_sha)))
      else
        bindS (provision (dm_host d) (dm_workspaces d) execution_id) (\<lambda>workspace.
        returnS (workspace, None, '''')))"

text \<open>\<open>SecretReference(**payload)\<close>.\<close>

definition reference_of :: "json \<Rightarrow> rn_error + secret_reference" where
  "reference_of payload =
     (case secret_reference_of_json payload of
        Inr r \<Rightarrow> Inr r
      | Inl _ \<Rightarrow> (case payload of JObj _ \<Rightarrow> Inl (RnOtherE ''ValidationError'') | _ \<Rightarrow> Inl RnTypeE))"

definition job_secret :: "'x daemon \<Rightarrow> document \<Rightarrow> ('x, (string, string) dict) act" where
  "job_secret d job =
     (let payload = obj_get job ''secret_reference'' in
      if py_str (ho_repr (dm_host d)) (obj_get_default job ''authentication_mode'' (JStr '''')) = ''API_KEY_REFERENCE''
         \<and> truthy payload
      then
        bindS (liftS (str_at (dm_host d) (JObj job) ''job_id'')) (\<lambda>job_id.
        bindS (liftS (reference_of payload)) (\<lambda>_.
        bindS (resolve_secret (dm_host d) (se_delivery_url (dm_settings d))
                 (se_integrations_url (dm_settings d)) (dm_identity d) job_id) (\<lambda>secret.
        returnS [(''MVP_MODEL_CREDENTIAL'', secret)])))
      else returnS [])"

definition PROXY_VARIABLES :: "string list" where
  "PROXY_VARIABLES = [''HTTPS_PROXY'', ''https_proxy'', ''HTTP_PROXY'', ''http_proxy'']"

definition proxy_environment :: "string \<Rightarrow> (string, string) dict \<Rightarrow> (string, string) dict" where
  "proxy_environment proxy_url environment =
     dset ''no_proxy'' '''' (dset ''NO_PROXY'' ''''
       (fold (\<lambda>name d. dset name proxy_url d) PROXY_VARIABLES environment))"

text \<open>The environment and the network of the agent's container.\<close>

definition job_network ::
  "'x daemon \<Rightarrow> rn_error \<Rightarrow> string \<Rightarrow> (string, string) dict \<Rightarrow>
     ('x, (string, string) dict \<times> string option) act" where
  "job_network d disabled runtime environment =
     (if runtime \<in> set EGRESS_REQUIRED_RUNTIMES then
        (case dm_egress d of
           None \<Rightarrow> raiseS disabled
         | Some egress \<Rightarrow>
             bindS (egress_ensure (dm_host d) egress) (\<lambda>proxy_url.
             returnS (proxy_environment proxy_url environment,
                      Some (se_agent_egress_network (dm_settings d)))))
      else returnS (environment, None))"

definition egress_disabled :: "string \<Rightarrow> rn_error" where
  "egress_disabled runtime =
     RnRuntimeE (''runtime '' @ repr_str runtime @ '' requires agent egress, which is disabled ''
       @ ''on this runner (AGENT_EGRESS_ENABLED=false)'')"

definition command_of :: "'x host \<Rightarrow> json \<Rightarrow> rn_error + validation_command" where
  "command_of host item =
     (case str_at host item ''executable'' of Inl e \<Rightarrow> Inl e | Inr executable \<Rightarrow>
     (case json_at item ''arguments'' of Inl e \<Rightarrow> Inl e | Inr arguments \<Rightarrow>
     (case json_items arguments of Inl e \<Rightarrow> Inl e | Inr values \<Rightarrow>
     (case int_at item ''timeout_seconds'' of Inl e \<Rightarrow> Inl e | Inr timeout \<Rightarrow>
        Inr \<lparr>cmd_executable = executable, cmd_arguments = map (py_str (ho_repr host)) values,
             cmd_timeout_seconds = timeout\<rparr>))))"

definition job_commands :: "'x host \<Rightarrow> document \<Rightarrow> rn_error + validation_command list" where
  "job_commands host job =
     (case json_at (JObj job) ''validation_commands'' of Inl e \<Rightarrow> Inl e | Inr items \<Rightarrow>
     (case json_items items of Inl e \<Rightarrow> Inl e | Inr xs \<Rightarrow> traverse (command_of host) xs))"

definition validate :: "'x daemon \<Rightarrow> path \<Rightarrow> validation_command list \<Rightarrow> ('x, validation_result) act" where
  "validate d = docker_validate (dm_host d) (se_job_image (dm_settings d))"

section \<open>Publishing\<close>

text \<open>
  A checkout the job works on: the workspace, its git directory, and the commands that verify it.
\<close>

record checkout =
  co_workspace :: path
  co_metadata :: "path option"
  co_commands :: "validation_command list"

text \<open>
  \<open>for _ in range(2)\<close>: fetch the base; where it moved, rebase onto it and validate again.
\<close>

fun rebase_loop ::
  "'x daemon \<Rightarrow> document \<Rightarrow> checkout \<Rightarrow> nat \<Rightarrow> string \<Rightarrow> validation_result \<Rightarrow> ('x, validation_result) act" where
  "rebase_loop d job c 0 base_sha validation = returnS validation"
| "rebase_loop d job c (Suc n) base_sha validation =
     bindS (source_credential d job ''CHECKOUT_READ'') (\<lambda>credential.
     bindS (liftS (item_of credential ''default_branch'')) (\<lambda>branch.
     seqS (git_do (dm_host d) (co_workspace c) (co_metadata c) credential
             [''fetch'', ''--no-tags'', ''origin'', branch])
     (bindS (git (dm_host d) (co_workspace c) (co_metadata c) [] [''rev-parse'', ''origin/'' @ branch])
       (\<lambda>remote_sha.
      if remote_sha = base_sha then returnS validation
      else
        seqS (git_do (dm_host d) (co_workspace c) (co_metadata c) [] [''rebase'', ''origin/'' @ branch])
        (bindS (validate d (co_workspace c) (co_commands c)) (\<lambda>validation'.
         if \<not> vld_passed validation'
         then raiseS (RnRuntimeE ''validation failed after rebasing onto the latest base'')
         else rebase_loop d job c n remote_sha validation'))))))"

definition execution_branch :: "string \<Rightarrow> string" where
  "execution_branch execution_id = ''HEAD:refs/heads/mvp-master/executions/'' @ execution_id"

definition push_branch :: "'x daemon \<Rightarrow> document \<Rightarrow> checkout \<Rightarrow> string \<Rightarrow> ('x, unit) act" where
  "push_branch d job c execution_id =
     bindS (source_credential d job ''PUBLISH_WRITE'') (\<lambda>credential.
     git_do (dm_host d) (co_workspace c) (co_metadata c) credential
       [''push'', ''origin'', execution_branch execution_id])"

text \<open>The commit: nothing under \<open>.github/workflows/\<close> may be staged.\<close>

definition commit_work :: "'x daemon \<Rightarrow> checkout \<Rightarrow> string \<Rightarrow> ('x, unit) act" where
  "commit_work d c execution_id =
     seqS (git_do (dm_host d) (co_workspace c) (co_metadata c) [] [''add'', ''--all''])
     (bindS (git (dm_host d) (co_workspace c) (co_metadata c) [] [''diff'', ''--cached'', ''--name-only''])
       (\<lambda>names.
      if \<exists>p \<in> set (splitlines names). startswith p ''.github/workflows/''
      then raiseS (RnRuntimeE ''changes to GitHub workflow files are not permitted'')
      else git_do (dm_host d) (co_workspace c) (co_metadata c) []
             [''commit'', ''-m'',
              ''feat: implement approved work item'' @ [CHR 0x0A, CHR 0x0A] @ ''Execution: '' @ execution_id]))"

definition deliver_work ::
  "'x daemon \<Rightarrow> document \<Rightarrow> checkout \<Rightarrow> string \<Rightarrow> bool \<Rightarrow> string \<Rightarrow> json \<Rightarrow> validation_result \<Rightarrow>
     ('x, string \<times> string \<times> validation_result) act" where
  "deliver_work d job c execution_id publish base_sha agent_result validation =
     bindS (liftS (json_at agent_result ''success'')) (\<lambda>success.
     if truthy success \<and> vld_passed validation then
       seqS (commit_work d c execution_id)
       (bindS (if publish then
                 bindS (rebase_loop d job c 2 base_sha validation) (\<lambda>validation'.
                 seqS (push_branch d job c execution_id) (returnS validation'))
               else returnS validation) (\<lambda>validation'.
        bindS (git (dm_host d) (co_workspace c) (co_metadata c) [] [''rev-parse'', ''HEAD'']) (\<lambda>commit_sha.
        bindS (git (dm_host d) (co_workspace c) (co_metadata c) []
                 [''format-patch'', ''-1'', ''--stdout'', ''HEAD'']) (\<lambda>patch.
        returnS (commit_sha, patch, validation')))))
     else returnS (replicate 40 (CHR ''0''), '''', validation))"

section \<open>The report\<close>

definition event_document :: "'x host \<Rightarrow> json \<Rightarrow> rn_error + json" where
  "event_document host event =
     (case int_at event ''sequence'' of Inl e \<Rightarrow> Inl e | Inr sequence \<Rightarrow>
     (case str_at host event ''kind'' of Inl e \<Rightarrow> Inl e | Inr kind \<Rightarrow>
     (case str_at host event ''name'' of Inl e \<Rightarrow> Inl e | Inr name \<Rightarrow>
     (case str_at host event ''message'' of Inl e \<Rightarrow> Inl e | Inr message \<Rightarrow>
     (case json_get event ''metadata'' JNull of Inl e \<Rightarrow> Inl e | Inr metadata \<Rightarrow>
     (case (if truthy metadata then metadata else JObj []) of
        JObj kvs \<Rightarrow>
          Inr (JObj [(''sequence'', JInt sequence), (''kind'', JStr kind), (''name'', JStr name),
                     (''message'', JStr message), (''metadata'', JObj kvs)])
      | _ \<Rightarrow> Inl RnTypeE))))))"

definition evidence_document :: "validation_evidence \<Rightarrow> json" where
  "evidence_document item =
     JObj [(''executable'', JStr (evd_executable item)),
           (''arguments'', JList (map JStr (evd_arguments item))),
           (''exit_code'', JInt (evd_exit_code item)), (''stdout'', JStr (evd_stdout item)),
           (''stderr'', JStr (evd_stderr item)), (''duration_ms'', JInt (evd_duration_ms item))]"

definition validation_document :: "validation_result \<Rightarrow> json" where
  "validation_document validation =
     JObj [(''passed'', JBool (vld_passed validation)),
           (''validator_image'', JStr (vld_validator_image validation)),
           (''evidence'', JList (map evidence_document (vld_evidence validation)))]"

text \<open>The \<open>"agent"\<close> part of the report, read out of what the job container wrote.\<close>

definition agent_document :: "'x host \<Rightarrow> json \<Rightarrow> rn_error + json" where
  "agent_document host agent_result =
     (case json_at agent_result ''success'' of Inl e \<Rightarrow> Inl e | Inr success \<Rightarrow>
     (case str_at host agent_result ''summary'' of Inl e \<Rightarrow> Inl e | Inr summary \<Rightarrow>
     (case int_at agent_result ''turns'' of Inl e \<Rightarrow> Inl e | Inr turns \<Rightarrow>
     (case json_at agent_result ''changed_paths'' of Inl e \<Rightarrow> Inl e | Inr changed \<Rightarrow>
     (case json_items changed of Inl e \<Rightarrow> Inl e | Inr paths \<Rightarrow>
     (case json_at agent_result ''events'' of Inl e \<Rightarrow> Inl e | Inr events \<Rightarrow>
     (case json_items events of Inl e \<Rightarrow> Inl e | Inr items \<Rightarrow>
     (case traverse (event_document host) items of Inl e \<Rightarrow> Inl e | Inr event_documents \<Rightarrow>
     (case agent_result of
        JObj kvs \<Rightarrow>
          Inr (JObj [(''success'', JBool (truthy success)), (''summary'', JStr summary),
                (''turns'', JInt turns), (''changed_paths'', JList paths),
                (''session_id'', obj_get kvs ''session_id''),
                (''input_tokens'', obj_get kvs ''input_tokens''),
                (''cached_input_tokens'', obj_get kvs ''cached_input_tokens''),
                (''output_tokens'', obj_get kvs ''output_tokens''),
                (''events'', JList event_documents)])
      | _ \<Rightarrow> Inl RnTypeE)))))))))"

definition job_report ::
  "'x host \<Rightarrow> string \<Rightarrow> string \<Rightarrow> int \<Rightarrow> json \<Rightarrow> validation_result \<Rightarrow> rn_error + json" where
  "job_report host commit_sha patch duration_seconds agent_result validation =
     (case agent_document host agent_result of
        Inl e \<Rightarrow> Inl e
      | Inr agent \<Rightarrow>
          Inr (JObj [(''commit_sha'', JStr commit_sha), (''patch'', JStr (last_chars 131072 patch)),
                (''duration_seconds'', JInt duration_seconds), (''cost_minor'', JInt 0),
                (''agent'', agent), (''validation'', validation_document validation)]))"

definition failed_job_result :: "rn_error \<Rightarrow> string \<Rightarrow> json" where
  "failed_job_result error job_image =
     JObj [(''commit_sha'', JStr (replicate 40 (CHR ''0''))), (''patch'', JStr ''''),
           (''duration_seconds'', JInt 0), (''cost_minor'', JInt 0),
           (''agent'', JObj
             [(''success'', JBool False),
              (''summary'', JStr ''The isolated runner job failed before independent verification.''),
              (''turns'', JInt 0), (''changed_paths'', JList []),
              (''events'', JList [JObj
                [(''sequence'', JInt 1), (''kind'', JStr ''ERROR''), (''name'', JStr ''runner.job_failed''),
                 (''message'', JStr (''Runner job failed with '' @ error_name error
                    @ ''; details remain in runner logs.''))]])]),
           (''validation'', JObj
             [(''passed'', JBool False), (''validator_image'', JStr job_image), (''evidence'', JList [])])]"

section \<open>A job\<close>

text \<open>\<open>for child in exchange.iterdir(): child.unlink()\<close>, then \<open>exchange.rmdir()\<close>.\<close>

definition remove_exchange :: "path \<Rightarrow> ('x, unit) act" where
  "remove_exchange exchange =
     bindS (from_files (iterdir exchange)) (\<lambda>paths.
     seqS (each (\<lambda>p. with_files (unlink p)) paths) (with_files (rmdir exchange)))"

definition exchange_path :: "'x daemon \<Rightarrow> string \<Rightarrow> path" where
  "exchange_path d execution_id = se_workspace_root (dm_settings d) @ [execution_id @ ''-exchange'']"

definition job_body ::
  "'x daemon \<Rightarrow> document \<Rightarrow> int \<Rightarrow> string \<Rightarrow> path \<Rightarrow> bool \<Rightarrow> (string, string) dict \<Rightarrow>
     path \<Rightarrow> path option \<Rightarrow> string \<Rightarrow> ('x, json) act" where
  "job_body d job started execution_id exchange linked credential workspace metadata base_sha =
     (let host = dm_host d in
      seqS (if linked then returnS () else initialize_repository host workspace)
      (seqS (with_files (write_text (exchange @ [''input.json'']) (ho_dumps host Compact (JObj job))))
      (bindS (job_secret d job) (\<lambda>environment.
       bindS (let runtime = py_str (ho_repr host) (obj_get_default job ''runtime'' (JStr '''')) in
              job_network d (egress_disabled runtime) runtime environment) (\<lambda>(environment', network).
       bindS (liftS (int_at (JObj job) ''max_duration_seconds'')) (\<lambda>timeout.
       bindS (agent_execute host (se_job_image (dm_settings d)) workspace exchange timeout environment' network)
         (\<lambda>agent_result.
       bindS (liftS (job_commands host job)) (\<lambda>commands.
       bindS (validate d workspace commands) (\<lambda>validation.
       bindS (deliver_work d job
                \<lparr>co_workspace = workspace, co_metadata = metadata, co_commands = commands\<rparr>
                execution_id (linked \<and> metadata \<noteq> None \<and> credential \<noteq> []) base_sha
                agent_result validation) (\<lambda>(commit_sha, patch, validation').
       bindS (monotonic host) (\<lambda>now.
       liftS (job_report host commit_sha patch ((now - started) div 1000000) agent_result validation'))))))))))))"

definition run_job :: "'x daemon \<Rightarrow> document \<Rightarrow> ('x, json) act" where
  "run_job d job =
     bindS (monotonic (dm_host d)) (\<lambda>started.
     bindS (liftS (str_at (dm_host d) (JObj job) ''execution_id'')) (\<lambda>execution_id.
     bindS (checkout_credential d job) (\<lambda>(linked, credential).
     bindS (prepare_checkout d execution_id linked credential) (\<lambda>(workspace, metadata, base_sha).
     seqS (with_files (mkdir False (exchange_path d execution_id)))
     (finallyS
       (job_body d job started execution_id (exchange_path d execution_id) linked credential
          workspace metadata base_sha)
       (seqS (cleanup (dm_host d) (dm_workspaces d) execution_id)
             (remove_exchange (exchange_path d execution_id))))))))"

end
