(* ===== verification/RnLoop.thy ===== *)
theory RnLoop
  imports RnDaemon
begin

text \<open>
  The rest of \<open>entrypoints/daemon.py\<close>: the wait for a job with its heartbeats, the verification
  of a provider, and one turn of \<open>main()\<close>'s polling loop. The wait may never end, so it is a
  partial function; \<open>None\<close> is a wait that never returns.
\<close>

section \<open>Waiting for a task\<close>

text \<open>
  \<open>while True: wait ten seconds; if done return await task; heartbeat\<close>. A heartbeat that raises
  leaves the loop; what becomes of the task then is \<open>heartbeat_leaves\<close> below.
\<close>

partial_function (option) heartbeat_loop ::
  "('s \<Rightarrow> (rn_error + unit) \<times> 's) \<Rightarrow> ('s, 'a) task \<Rightarrow> 's \<Rightarrow> ((rn_error + 'a) \<times> 's) option" where
  "heartbeat_loop beat task s =
     (case task of
        Done r \<Rightarrow> Some (r, s)
      | More f \<Rightarrow>
          (case f s of
             (Done r, s') \<Rightarrow> Some (r, s')
           | (More g, s') \<Rightarrow>
               (case beat s' of
                  (Inl e, s'') \<Rightarrow> Some (Inl e, s'')
                | (Inr _, s'') \<Rightarrow> heartbeat_loop beat (More g) s'')))"

definition job_heartbeat :: "'x daemon \<Rightarrow> document \<Rightarrow> ('x, unit) act" where
  "job_heartbeat d job =
     bindS (liftS (str_at (dm_host d) (JObj job) ''job_id''))
       (heartbeat_job (dm_host d) (se_delivery_url (dm_settings d)) (dm_identity d))"

definition run_with_heartbeat ::
  "'x daemon \<Rightarrow> document \<Rightarrow> 'x machine \<Rightarrow> ((rn_error + json) \<times> 'x machine) option" where
  "run_with_heartbeat d job = heartbeat_loop (job_heartbeat d job) (dm_create_task d (run_job d job))"

section \<open>Provider verifications\<close>

text \<open>\<open>if exchange.exists()\<close>: remove it.\<close>

definition remove_probe_exchange :: "path \<Rightarrow> ('x, unit) act" where
  "remove_probe_exchange exchange =
     bindS (readS (\<lambda>m. exists_path exchange (m_files m))) (\<lambda>there.
     if there then remove_exchange exchange else returnS ())"

definition probe_payload :: "document \<Rightarrow> string \<Rightarrow> document" where
  "probe_payload verification verification_id =
     fold (\<lambda>(k, v) d. dset k v d)
       [(''execution_id'', JStr verification_id),
        (''title'', JStr ''Provider connection verification''),
        (''problem'', JStr (''Confirm this coding-agent connection. Return a short READY response ''
           @ ''and do not modify repository files.'')),
        (''acceptance_criteria'', JList [JStr ''Provider authentication succeeds''])]
       verification"

definition probe_secret ::
  "'x daemon \<Rightarrow> document \<Rightarrow> string \<Rightarrow> ('x, (string, string) dict) act" where
  "probe_secret d verification verification_id =
     (if py_str (ho_repr (dm_host d)) (obj_get verification ''authentication_mode'') = ''API_KEY_REFERENCE''
      then
        bindS (provider_verification_model_capability (dm_host d) (se_delivery_url (dm_settings d))
                 (dm_identity d) verification_id) (\<lambda>token.
        bindS (exchange_model (dm_host d) (se_integrations_url (dm_settings d)) token) (\<lambda>secret.
        returnS [(''MVP_MODEL_CREDENTIAL'', secret)]))
      else returnS [])"

definition probe_result :: "json \<Rightarrow> rn_error + json" where
  "probe_result result =
     (case json_at result ''success'' of Inl e \<Rightarrow> Inl e | Inr success \<Rightarrow>
     (case result of
        JObj kvs \<Rightarrow>
          Inr (JObj [(''success'', JBool (truthy success)),
                (''summary'', JStr (if truthy success then ''Provider connection verified.''
                   else ''Provider connection could not be verified.'')),
                (''input_tokens'', obj_get kvs ''input_tokens''),
                (''cached_input_tokens'', obj_get kvs ''cached_input_tokens''),
                (''output_tokens'', obj_get kvs ''output_tokens'')])
      | _ \<Rightarrow> Inl RnTypeE))"

definition probe_exchange_path :: "'x daemon \<Rightarrow> string \<Rightarrow> path" where
  "probe_exchange_path d verification_id =
     se_workspace_root (dm_settings d) @ [verification_id @ ''-probe-exchange'']"

definition probe_body ::
  "'x daemon \<Rightarrow> document \<Rightarrow> string \<Rightarrow> path \<Rightarrow> path \<Rightarrow> ('x, json) act" where
  "probe_body d verification verification_id workspace exchange =
     (let host = dm_host d in
      bindS (liftS (str_at host (JObj verification) ''runtime'')) (\<lambda>runtime.
      seqS (prepare_provider_probe_workspace host workspace runtime)
      (seqS (initialize_repository host workspace)
      (bindS (probe_secret d verification verification_id) (\<lambda>environment.
       bindS (job_network d (RnRuntimeE ''scoped provider egress is disabled on this runner'') runtime environment)
         (\<lambda>(environment', network).
       seqS (with_files (write_text (exchange @ [''input.json''])
               (ho_dumps host Compact (JObj (probe_payload verification verification_id)))))
       (bindS (liftS (int_at (JObj verification) ''max_duration_seconds'')) (\<lambda>timeout.
        bindS (agent_execute host (se_job_image (dm_settings d)) workspace exchange timeout environment' network)
          (\<lambda>result. liftS (probe_result result))))))))))"

definition run_provider_verification :: "'x daemon \<Rightarrow> document \<Rightarrow> ('x, json) act" where
  "run_provider_verification d verification =
     bindS (liftS (str_at (dm_host d) (JObj verification) ''verification_id'')) (\<lambda>verification_id.
     bindS (provision_empty (dm_host d) (dm_workspaces d) verification_id) (\<lambda>(workspace, _).
     seqS (with_files (mkdir False (probe_exchange_path d verification_id)))
     (finallyS
       (probe_body d verification verification_id workspace (probe_exchange_path d verification_id))
       (seqS (cleanup (dm_host d) (dm_workspaces d) verification_id)
             (remove_probe_exchange (probe_exchange_path d verification_id))))))"

definition verification_heartbeat :: "'x daemon \<Rightarrow> document \<Rightarrow> ('x, unit) act" where
  "verification_heartbeat d verification =
     bindS (liftS (str_at (dm_host d) (JObj verification) ''verification_id''))
       (heartbeat_provider_verification (dm_host d) (se_delivery_url (dm_settings d)) (dm_identity d))"

definition run_provider_verification_with_heartbeat ::
  "'x daemon \<Rightarrow> document \<Rightarrow> 'x machine \<Rightarrow> ((rn_error + json) \<times> 'x machine) option" where
  "run_provider_verification_with_heartbeat d verification =
     heartbeat_loop (verification_heartbeat d verification)
       (dm_create_task d (run_provider_verification d verification))"

definition failed_verification_result :: json where
  "failed_verification_result =
     JObj [(''success'', JBool False),
           (''summary'', JStr ''Provider verification failed inside the isolated runner.''),
           (''input_tokens'', JNull), (''cached_input_tokens'', JNull), (''output_tokens'', JNull)]"

section \<open>One turn of the polling loop\<close>

text \<open>
  \<open>try: result = ... except Exception as error: result = handler\<close>, then the report.
\<close>

definition report_outcome ::
  "((rn_error + json) \<times> 'x machine) option \<Rightarrow> (rn_error \<Rightarrow> json) \<Rightarrow> (json \<Rightarrow> ('x, unit) act) \<Rightarrow>
     ((rn_error + unit) \<times> 'x machine) option" where
  "report_outcome outcome handler report =
     (case outcome of
        None \<Rightarrow> None
      | Some (Inr result, m) \<Rightarrow> Some (report result m)
      | Some (Inl e, m) \<Rightarrow> if is_exception e then Some (report (handler e) m) else Some (Inl e, m))"

definition serve_job :: "'x daemon \<Rightarrow> document \<Rightarrow> 'x machine \<Rightarrow> ((rn_error + unit) \<times> 'x machine) option" where
  "serve_job d job m =
     report_outcome (run_with_heartbeat d job m)
       (\<lambda>e. failed_job_result e (se_job_image (dm_settings d)))
       (\<lambda>result. bindS (liftS (str_at (dm_host d) (JObj job) ''job_id'')) (\<lambda>job_id.
          complete_job (dm_host d) (se_delivery_url (dm_settings d)) (dm_identity d) job_id result))"

definition serve_verification ::
  "'x daemon \<Rightarrow> document \<Rightarrow> 'x machine \<Rightarrow> ((rn_error + unit) \<times> 'x machine) option" where
  "serve_verification d verification m =
     report_outcome (run_provider_verification_with_heartbeat d verification m)
       (\<lambda>_. failed_verification_result)
       (\<lambda>result. bindS (liftS (str_at (dm_host d) (JObj verification) ''verification_id'')) (\<lambda>verification_id.
          complete_provider_verification (dm_host d) (se_delivery_url (dm_settings d)) (dm_identity d)
            verification_id result))"

definition document_of :: "json \<Rightarrow> document" where
  "document_of j = (case j of JObj kvs \<Rightarrow> kvs | _ \<Rightarrow> [])"

text \<open>The body of the loop, and what its \<open>except Exception\<close> lets through.\<close>

definition daemon_poll :: "'x daemon \<Rightarrow> 'x machine \<Rightarrow> ((rn_error + unit) \<times> 'x machine) option" where
  "daemon_poll d m =
     (case lease_job (dm_host d) (se_delivery_url (dm_settings d)) (dm_identity d) m of
        (Inl e, m') \<Rightarrow> Some (Inl e, m')
      | (Inr (Some job), m') \<Rightarrow> serve_job d (document_of job) m'
      | (Inr None, m') \<Rightarrow>
          (case lease_provider_verification (dm_host d) (se_delivery_url (dm_settings d)) (dm_identity d) m' of
             (Inl e, m'') \<Rightarrow> Some (Inl e, m'')
           | (Inr None, m'') \<Rightarrow> Some (Inr (), m'')
           | (Inr (Some verification), m'') \<Rightarrow> serve_verification d (document_of verification) m''))"

definition daemon_turn :: "'x daemon \<Rightarrow> 'x machine \<Rightarrow> ((rn_error + unit) \<times> 'x machine) option" where
  "daemon_turn d m =
     (case daemon_poll d m of
        Some (Inl e, m') \<Rightarrow> if is_exception e then Some (Inr (), m') else Some (Inl e, m')
      | r \<Rightarrow> r)"

text \<open>The set-up before the loop: the objects, and the egress proxy where it is enabled.\<close>

definition start_daemon ::
  "'x host \<Rightarrow> settings \<Rightarrow> (('x, json) act \<Rightarrow> ('x machine, json) task) \<Rightarrow> ('x, 'x daemon) act" where
  "start_daemon host settings create_task =
     (let egress = (if se_agent_egress_enabled settings
                    then Some \<lparr>eg_network_name = se_agent_egress_network settings,
                           eg_proxy_container_name = se_agent_egress_network settings @ ''-proxy'',
                           eg_proxy_image = se_agent_egress_proxy_image settings,
                           eg_proxy_port = se_agent_egress_proxy_port settings,
                           eg_allowed_hosts = allowlisted_hosts,
                           eg_config_root = se_workspace_root settings @ [''egress-proxy-config'']\<rparr>
                    else None) in
      seqS (case egress of None \<Rightarrow> returnS () | Some eg \<Rightarrow> bindS (egress_ensure host eg) (\<lambda>_. returnS ()))
      (returnS \<lparr>dm_host = host, dm_settings = settings,
         dm_identity = \<lparr>ri_runner_id = se_runner_id settings, ri_credential = se_runner_credential settings\<rparr>,
         dm_workspaces = LocalWorkspaceManager host (se_workspace_root settings) (se_fixture_path settings),
         dm_egress = egress, dm_create_task = create_task\<rparr>))"

end
