(* ===== verification/RnLog.thy ===== *)
theory RnLog
  imports RnLoop
begin

text \<open>
  Reasoning about the runner: triples over operations that may raise, with one postcondition for
  the result and one for the exception, and what every operation of the runner adds to the log.
\<close>

section \<open>Triples\<close>

definition triple :: "('s \<Rightarrow> bool) \<Rightarrow> ('s, 'e, 'a) oper \<Rightarrow> ('a \<Rightarrow> 's \<Rightarrow> bool) \<Rightarrow> ('s \<Rightarrow> bool) \<Rightarrow> bool" where
  "triple P m Q E \<longleftrightarrow>
     (\<forall>s r s'. P s \<longrightarrow> m s = (r, s') \<longrightarrow> (case r of Inr a \<Rightarrow> Q a s' | Inl _ \<Rightarrow> E s'))"

lemma tripleI:
  assumes "\<And>s a s'. P s \<Longrightarrow> m s = (Inr a, s') \<Longrightarrow> Q a s'"
    and "\<And>s e s'. P s \<Longrightarrow> m s = (Inl e, s') \<Longrightarrow> E s'"
  shows "triple P m Q E"
  using assms unfolding triple_def by (auto split: sum.split)

lemma tripleD:
  "triple P m Q E \<Longrightarrow> P s \<Longrightarrow> m s = (Inr a, s') \<Longrightarrow> Q a s'"
  "triple P m Q E \<Longrightarrow> P s \<Longrightarrow> m s = (Inl e, s') \<Longrightarrow> E s'"
  unfolding triple_def by (metis old.sum.simps(6), metis old.sum.simps(5))

lemma triple_weaken:
  assumes "triple P' m Q' E'" and "\<And>s. P s \<Longrightarrow> P' s" and "\<And>a s. Q' a s \<Longrightarrow> Q a s" and "\<And>s. E' s \<Longrightarrow> E s"
  shows "triple P m Q E"
  by (rule tripleI) (use tripleD [OF assms(1)] assms(2-4) in blast)+

named_theorems triples

lemma triple_bindS:
  assumes "triple P m Q E" and "\<And>a. triple (Q a) (f a) R E"
  shows "triple P (bindS m f) R E"
proof (rule tripleI)
  fix s b s' assume P: "P s" and "bindS m f s = (Inr b, s')"
  then obtain a t where m: "m s = (Inr a, t)" and f: "f a t = (Inr b, s')" by (auto simp: bindS_Inr_iff)
  show "R b s'" by (rule tripleD(1) [OF assms(2) tripleD(1) [OF assms(1) P m] f])
next
  fix s e s' assume P: "P s" and "bindS m f s = (Inl e, s')"
  then consider "m s = (Inl e, s')" | a t where "m s = (Inr a, t)" "f a t = (Inl e, s')"
    by (auto simp: bindS_Inl_iff)
  then show "E s'"
  proof cases
    case 1
    then show ?thesis by (rule tripleD(2) [OF assms(1) P])
  next
    case 2
    show ?thesis by (rule tripleD(2) [OF assms(2) tripleD(1) [OF assms(1) P 2(1)] 2(2)])
  qed
qed

lemma triple_seqS:
  assumes "triple P m (\<lambda>_. Q) E" and "triple Q n R E"
  shows "triple P (seqS m n) R E"
  unfolding seqS_def by (rule triple_bindS [OF assms(1)]) (rule assms(2))

lemma triple_returnS: "(\<And>s. P s \<Longrightarrow> Q a s) \<Longrightarrow> triple P (returnS a) Q E"
  by (auto simp: triple_def returnS_def)

lemma triple_raiseS: "(\<And>s. P s \<Longrightarrow> E s) \<Longrightarrow> triple P (raiseS e) Q E"
  by (auto simp: triple_def raiseS_def)

lemma triple_liftS:
  "(\<And>s a. P s \<Longrightarrow> r = Inr a \<Longrightarrow> Q a s) \<Longrightarrow> (\<And>s. P s \<Longrightarrow> E s) \<Longrightarrow> triple P (liftS r) Q E"
  by (auto simp: triple_def liftS_def split: sum.split)

lemma triple_if:
  "(b \<Longrightarrow> triple P m Q E) \<Longrightarrow> (\<not> b \<Longrightarrow> triple P n Q E) \<Longrightarrow> triple P (if b then m else n) Q E"
  by simp

lemma triple_assume: "(B \<Longrightarrow> triple P m Q E) \<Longrightarrow> triple (\<lambda>s. B \<and> P s) m Q E"
  unfolding triple_def by blast

lemma triple_finallyS:
  assumes "triple P m Q E" and "\<And>a. triple (Q a) c (\<lambda>_. Q' a) E'" and "triple E c (\<lambda>_. E') E'"
  shows "triple P (finallyS m c) Q' E'"
proof (rule tripleI)
  fix s a s' assume P: "P s" and "finallyS m c s = (Inr a, s')"
  then obtain t where m: "m s = (Inr a, t)" and c: "c t = (Inr (), s')" by (auto simp: finallyS_Inr_iff)
  show "Q' a s'" by (rule tripleD(1) [OF assms(2) tripleD(1) [OF assms(1) P m] c])
next
  fix s e s' assume P: "P s" and run: "finallyS m c s = (Inl e, s')"
  obtain r t where m: "m s = (r, t)" by fastforce
  show "E' s'"
  proof (cases r)
    case (Inl e')
    then show ?thesis
      using run m tripleD(2) [OF assms(1) P, of e' t] tripleD [OF assms(3), of t]
      by (auto simp: finallyS_def split: prod.splits sum.splits)
  next
    case (Inr a)
    then show ?thesis
      using run m tripleD(1) [OF assms(1) P, of a t] tripleD(2) [OF assms(2), of a t]
      by (auto simp: finallyS_def split: prod.splits sum.splits)
  qed
qed

section \<open>What an operation adds to the log\<close>

definition emits :: "(entry \<Rightarrow> bool) \<Rightarrow> 'x machine \<Rightarrow> 'x machine \<Rightarrow> bool" where
  "emits P m m' \<longleftrightarrow> (\<exists>new. m_log m' = m_log m @ new \<and> list_all P new)"

lemma emits_refl [simp, intro]: "emits P m m"
  by (simp add: emits_def)

lemma emits_preorder [following]: "reflp (emits P)" "transp (emits P)"
  by (auto intro!: reflpI transpI simp: emits_def)

lemma emits_same_log: "m_log m' = m_log m \<Longrightarrow> emits P m m'"
  by (simp add: emits_def)

lemma emits_with_files [following]: "follows (emits P) (with_files f)"
  by (rule followsI) (auto simp: with_files_def split: sum.splits intro: emits_same_log)

lemma emits_from_files [following]: "follows (emits P) (from_files f)"
  by (rule followsI) (auto simp: from_files_def)

lemma emits_reach [following]: "(\<And>r. P (e r)) \<Longrightarrow> follows (emits P) (reach f e)"
  by (rule followsI) (auto simp: reach_def emits_def split: prod.splits)

lemma emits_reach_files [following]: "(\<And>r. P (e r)) \<Longrightarrow> follows (emits P) (reach_files f e)"
  by (rule followsI) (auto simp: reach_files_def emits_def split: prod.splits)

lemma emits_log_entry [following]: "P e \<Longrightarrow> follows (emits P) (log_entry e)"
  by (rule followsI) (auto simp: log_entry_def writeS_def emits_def)

lemma emits_docker_logs [following]: "follows (emits P) (docker_logs host c a b)"
  by (rule followsI) (auto simp: docker_logs_def)

lemma emits_docker_network [following]: "follows (emits P) (docker_network host n)"
  by (rule followsI) (auto simp: docker_network_def)

lemma emits_docker_container [following]: "follows (emits P) (docker_container host n)"
  by (rule followsI) (auto simp: docker_container_def)

lemma emits_docker_start [following]: "follows (emits P) (docker_start host c)"
  by (rule followsI) (auto simp: docker_start_def split: prod.splits intro: emits_same_log)

lemma emits_on_not_found [following]:
  "follows (emits P) m \<Longrightarrow> follows (emits P) n \<Longrightarrow> follows (emits P) (on_not_found m n)"
proof (rule followsI)
  fix s r s' assume f: "follows (emits P) m" "follows (emits P) n" and run: "on_not_found m n s = (r, s')"
  obtain q t where m: "m s = (q, t)" by fastforce
  have "t = s' \<or> n t = (r, s')"
    using run m by (auto simp: on_not_found_def split: sum.splits rn_error.splits)
  then show "emits P s s'"
    using followsD [OF f(1) m] followsD [OF f(2), of t r s'] transpD [OF emits_preorder(2)] by blast
qed

lemma emits_each [following]:
  "(\<And>x. follows (emits P) (f x)) \<Longrightarrow> follows (emits P) (each f xs)"
  by (induction xs) (auto intro!: following)

lemma reach_log:
  "reach f e m = (r, m') \<Longrightarrow> m_log m' = m_log m @ [e r]"
  "reach_files g e m = (r, m') \<Longrightarrow> m_log m' = m_log m @ [e r]"
  by (auto simp: reach_def reach_files_def split: prod.splits)

text \<open>An operation none of whose entries matters keeps a property of the log.\<close>

lemma triple_follows:
  assumes "follows (emits N) m"
    and "\<And>s s'. P s \<Longrightarrow> emits N s s' \<Longrightarrow> P s'"
  shows "triple P m (\<lambda>_. P) P"
  by (rule tripleI) (use followsD [OF assms(1)] assms(2) in blast)+

section \<open>The operations\<close>

text \<open>A request to a service, a git command other than a push, a container, a file read.\<close>

definition is_sent :: "entry \<Rightarrow> bool" where
  "is_sent e \<longleftrightarrow> (\<exists>call r. e = Sent call r)"

fun entry_verb :: "entry \<Rightarrow> string option" where
  "entry_verb (Ran argv environment r) = git_verb argv"
| "entry_verb _ = None"

definition no_push :: "entry \<Rightarrow> bool" where
  "no_push e \<longleftrightarrow> entry_verb e \<noteq> Some ''push''"

lemma emits_weaken: "follows (emits P) m \<Longrightarrow> (\<And>e. P e \<Longrightarrow> Q e) \<Longrightarrow> follows (emits Q) m"
  unfolding follows_def emits_def by (metis list_all_iff)

lemma emits_http_post: "follows (emits is_sent) (http_post host call)"
  by (auto simp: http_post_def is_sent_def intro!: following)

lemma emits_response_json [following]: "follows (emits P) (response_json r)"
  by (cases r) (auto simp: response_json_def intro!: following)

lemma emits_raise_for_status [following]: "follows (emits P) (raise_for_status r)"
  by (auto simp: raise_for_status_def intro!: following)

lemma emits_capability: "follows (emits is_sent) (capability host call)"
  unfolding capability_def by (intro following emits_http_post)

lemma emits_exchange_source: "follows (emits is_sent) (exchange_source host base token)"
  unfolding exchange_source_def
  by (intro following emits_http_post) (auto split: json.split intro!: following)

lemma emits_exchange_model: "follows (emits is_sent) (exchange_model host base token)"
  unfolding exchange_model_def by (intro following emits_http_post)

lemma emits_source_credential: "follows (emits is_sent) (source_credential d job purpose)"
  unfolding source_credential_def source_capability_def
  by (intro following emits_capability emits_exchange_source)

lemma sent_no_push: "is_sent e \<Longrightarrow> no_push e"
  by (auto simp: is_sent_def no_push_def)

lemma emits_git:
  assumes "\<And>argv environment r. git_verb argv = Some v \<Longrightarrow> P (Ran argv environment r)"
  shows "follows (emits P) (git host workspace metadata credential (v # arguments))"
  unfolding git_def git_run_def run_process_def
  by (intro following) (auto intro: assms)

lemma emits_git_do:
  assumes "\<And>argv environment r. git_verb argv = Some v \<Longrightarrow> P (Ran argv environment r)"
  shows "follows (emits P) (git_do host workspace metadata credential (v # arguments))"
  unfolding git_do_def by (intro following emits_git assms)

end
