(* ===== verification/RnPublish.thy ===== *)
theory RnPublish
  imports RnLog
begin

text \<open>
  What a push of the runner rests on. The conditions are read off the log of a job: what the agent
  reported, which files were staged, which validation containers ran since the last change of the
  tree, and with which capability the push was made. \<open>justified\<close> says that every push in a log meets
  them; the triples below carry it through the stages of \<open>run_job\<close>.
\<close>

section \<open>The conditions\<close>

text \<open>The containers of a validation all of whose commands exited with 0, in order.\<close>

fun validated :: "string \<Rightarrow> path \<Rightarrow> validation_command list \<Rightarrow> entry list \<Rightarrow> bool" where
  "validated img workspace [] es \<longleftrightarrow> es = []"
| "validated img workspace (c # cs) es \<longleftrightarrow>
     (\<exists>container rest.
        es = Launched (validator_container img workspace c) (Inr container)
             # Waited container (cmd_timeout_seconds c) (Inr 0) # Removed container (Inr ()) # rest
        \<and> validated img workspace cs rest)"

text \<open>Entries after which a validated tree is still the validated tree.\<close>

definition quiet :: "entry \<Rightarrow> bool" where
  "quiet e \<longleftrightarrow> is_sent e \<or>
     entry_verb e \<in> {Some ''add'', Some ''diff'', Some ''commit'', Some ''fetch'', Some ''rev-parse''}"

definition verified :: "string \<Rightarrow> path \<Rightarrow> validation_command list \<Rightarrow> entry list \<Rightarrow> bool" where
  "verified img workspace commands es \<longleftrightarrow>
     (\<exists>earlier run later. es = earlier @ run @ later \<and> validated img workspace commands run \<and>
        list_all quiet later)"

definition agent_reported :: "'x host \<Rightarrow> path \<Rightarrow> entry list \<Rightarrow> bool" where
  "agent_reported host exchange es \<longleftrightarrow>
     (\<exists>text result success. ReadFile (exchange @ [''output.json'']) text \<in> set es \<and>
        ho_loads host text = Some result \<and> json_at result ''success'' = Inr success \<and> truthy success)"

definition no_workflow_files :: "path \<Rightarrow> path option \<Rightarrow> entry list \<Rightarrow> bool" where
  "no_workflow_files workspace metadata es \<longleftrightarrow>
     (\<exists>process.
        Ran (git_command workspace metadata [''diff'', ''--cached'', ''--name-only'']) GIT_ENVIRONMENT
          (Inr process) \<in> set es \<and>
        pe_returncode process = 0 \<and>
        (\<forall>p \<in> set (splitlines (strip (pe_stdout process))). \<not> startswith p ''.github/workflows/''))"

text \<open>A job as the log sees it: its identifier, checkout and commands.\<close>

definition job_checkout :: "'x daemon \<Rightarrow> document \<Rightarrow> string \<Rightarrow> checkout \<Rightarrow> bool" where
  "job_checkout d job execution_id c \<longleftrightarrow>
     str_at (dm_host d) (JObj job) ''execution_id'' = Inr execution_id \<and>
     workspace_path (dm_host d) (dm_workspaces d) execution_id = Inr (co_workspace c) \<and>
     job_commands (dm_host d) job = Inr (co_commands c)"

definition ready :: "'x daemon \<Rightarrow> string \<Rightarrow> checkout \<Rightarrow> entry list \<Rightarrow> bool" where
  "ready d execution_id c es \<longleftrightarrow>
     agent_reported (dm_host d) (exchange_path d execution_id) es \<and>
     no_workflow_files (co_workspace c) (co_metadata c) es \<and>
     verified (se_job_image (dm_settings d)) (co_workspace c) (co_commands c) es"

text \<open>The two requests that yield the credential of a push.\<close>

definition publish_requests :: "'x daemon \<Rightarrow> document \<Rightarrow> entry list \<Rightarrow> bool" where
  "publish_requests d job es \<longleftrightarrow>
     (\<exists>job_id token r1 r2.
        str_at (dm_host d) (JObj job) ''job_id'' = Inr job_id \<and>
        es = [Sent (source_capability_call (se_delivery_url (dm_settings d)) (dm_identity d) job_id
                      ''PUBLISH_WRITE'') r1,
              Sent (exchange_call (se_integrations_url (dm_settings d)) ''source-credentials'' token) r2])"

definition publishable :: "'x daemon \<Rightarrow> document \<Rightarrow> entry list \<Rightarrow> string list \<Rightarrow> bool" where
  "publishable d job es argv \<longleftrightarrow>
     (\<exists>execution_id c earlier requests.
        job_checkout d job execution_id c \<and>
        argv = git_command (co_workspace c) (co_metadata c) [''push'', ''origin'', execution_branch execution_id] \<and>
        es = earlier @ requests \<and> ready d execution_id c earlier \<and> publish_requests d job requests)"

definition justified :: "'x daemon \<Rightarrow> document \<Rightarrow> entry list \<Rightarrow> bool" where
  "justified d job es \<longleftrightarrow>
     (\<forall>earlier argv environment r later. es = earlier @ Ran argv environment r # later \<longrightarrow>
        git_verb argv = Some ''push'' \<longrightarrow> publishable d job earlier argv)"

section \<open>Growing logs\<close>

abbreviation "clean es \<equiv> list_all no_push es"

lemma clean_justified: "clean es \<Longrightarrow> justified d job es"
  by (auto simp: justified_def no_push_def)

lemma justified_append: "justified d job es \<Longrightarrow> clean new \<Longrightarrow> justified d job (es @ new)"
  unfolding justified_def
proof (intro allI impI)
  fix earlier argv environment r later
  assume old: "\<forall>earlier argv environment r later. es = earlier @ Ran argv environment r # later \<longrightarrow>
      git_verb argv = Some ''push'' \<longrightarrow> publishable d job earlier argv"
    and new: "clean new" and eq: "es @ new = earlier @ Ran argv environment r # later"
    and v: "git_verb argv = Some ''push''"
  from eq obtain zs where
    "(es = earlier @ zs \<and> zs @ new = Ran argv environment r # later) \<or>
     (es @ zs = earlier \<and> new = zs @ Ran argv environment r # later)"
    by (auto simp: append_eq_append_conv2)
  then show "publishable d job earlier argv"
    using old new v by (cases zs) (auto simp: no_push_def)
qed

lemma justified_push:
  "clean es \<Longrightarrow> publishable d job es argv \<Longrightarrow> justified d job (es @ [Ran argv environment r])"
  unfolding justified_def
proof (intro allI impI)
  fix earlier argv' environment' r' later
  assume es: "clean es" "publishable d job es argv"
    and eq: "es @ [Ran argv environment r] = earlier @ Ran argv' environment' r' # later"
    and v: "git_verb argv' = Some ''push''"
  from eq show "publishable d job earlier argv'"
  proof (cases later rule: rev_cases)
    case Nil
    then show ?thesis using eq es by simp
  next
    case (snoc xs x)
    then have "es = earlier @ Ran argv' environment' r' # xs" using eq by simp
    then show ?thesis using es(1) v by (simp add: no_push_def)
  qed
qed

lemma grows:
  "agent_reported host exchange es \<Longrightarrow> agent_reported host exchange (es @ new)"
  "no_workflow_files workspace metadata es \<Longrightarrow> no_workflow_files workspace metadata (es @ new)"
  "verified img workspace commands es \<Longrightarrow> list_all quiet new \<Longrightarrow> verified img workspace commands (es @ new)"
  by (auto simp: agent_reported_def no_workflow_files_def verified_def) (metis append.assoc list_all_append)

lemma validated_verified: "validated img workspace commands run \<Longrightarrow> verified img workspace commands (es @ run)"
  unfolding verified_def by (metis append_Nil2 list.pred_inject(1))

lemma validated_clean: "validated img workspace commands es \<Longrightarrow> clean es"
  by (induction img workspace commands es rule: validated.induct) (auto simp: no_push_def)

lemma quiet_clean: "quiet e \<Longrightarrow> no_push e"
  by (auto simp: quiet_def no_push_def is_sent_def)

text \<open>An operation that makes only quiet entries, or at least no push.\<close>

lemma triple_quiet:
  assumes "follows (emits quiet) m" and "\<And>es new. P es \<Longrightarrow> list_all quiet new \<Longrightarrow> P (es @ new)"
  shows "triple (\<lambda>m. P (m_log m)) m (\<lambda>_ m. P (m_log m)) (\<lambda>m. P (m_log m))"
  by (rule triple_follows [OF assms(1)]) (auto simp: emits_def intro: assms(2))

lemma triple_no_push:
  assumes "follows (emits no_push) m" and "\<And>es new. P es \<Longrightarrow> clean new \<Longrightarrow> P (es @ new)"
  shows "triple (\<lambda>m. P (m_log m)) m (\<lambda>_ m. P (m_log m)) (\<lambda>m. P (m_log m))"
  by (rule triple_follows [OF assms(1)]) (auto simp: emits_def intro: assms(2))

lemma emits_source_quiet: "follows (emits quiet) (source_credential d job purpose)"
  by (rule emits_weaken [OF emits_source_credential]) (simp add: quiet_def)

lemma emits_git_quiet:
  "v \<in> {''add'', ''diff'', ''commit'', ''fetch'', ''rev-parse''} \<Longrightarrow>
   follows (emits quiet) (git host workspace metadata credential (v # arguments))"
  "v \<in> {''add'', ''diff'', ''commit'', ''fetch'', ''rev-parse''} \<Longrightarrow>
   follows (emits quiet) (git_do host workspace metadata credential (v # arguments))"
  by (auto intro!: emits_git emits_git_do simp: quiet_def)

lemma emits_git_no_push:
  "v \<noteq> ''push'' \<Longrightarrow> follows (emits no_push) (git host workspace metadata credential (v # arguments))"
  "v \<noteq> ''push'' \<Longrightarrow> follows (emits no_push) (git_do host workspace metadata credential (v # arguments))"
  by (auto intro!: emits_git emits_git_do simp: no_push_def)

section \<open>Validation\<close>

lemma docker_command_passed:
  assumes "docker_command host img workspace c m = (Inr evidence, m')" and "evd_exit_code evidence = 0"
  shows "\<exists>container. m_log m' = m_log m @
     [Launched (validator_container img workspace c) (Inr container),
      Waited container (cmd_timeout_seconds c) (Inr 0), Removed container (Inr ())]"
proof -
  from assms obtain container t1 t2 t3 where
    run: "docker_run host (validator_container img workspace c) m = (Inr container, t1)"
    and wait: "docker_wait host container (cmd_timeout_seconds c) t1 = (Inr 0, t2)"
    and remove: "docker_remove host container t2 = (Inr (), t3)" and log: "m_log m' = m_log t3"
    by (auto simp: docker_command_def oper_iffs monotonic_def docker_logs_def finallyS_Inr_iff
        split: prod.splits)
  show ?thesis
    using reach_log(2) [OF run [unfolded docker_run_def]] reach_log(2) [OF wait [unfolded docker_wait_def]]
      reach_log(1) [OF remove [unfolded docker_remove_def]] log by simp
qed

lemma run_commands_passed:
  assumes "run_commands (docker_command host img workspace) commands m = (Inr (True, evidence), m')"
  shows "\<exists>run. m_log m' = m_log m @ run \<and> validated img workspace commands run"
  using assms
proof (induction commands arbitrary: m evidence)
  case Nil
  then show ?case by (auto simp: oper_iffs)
next
  case (Cons c commands)
  from Cons.prems obtain e t rest where
    c: "docker_command host img workspace c m = (Inr e, t)" "evd_exit_code e = 0"
    and rest: "run_commands (docker_command host img workspace) commands t = (Inr (True, rest), m')"
    by (auto simp: oper_iffs split: if_splits)
  from docker_command_passed [OF c] Cons.IH [OF rest] show ?case by fastforce
qed

lemma emits_validate: "follows (emits no_push) (validate d workspace commands)"
proof -
  have one: "follows (emits no_push) (docker_command host img workspace c)" for host :: "'a host" and img c
    unfolding docker_command_def monotonic_def docker_run_def docker_wait_def docker_remove_def
    by (intro following) (simp_all add: no_push_def)
  have "follows (emits no_push) (run_commands (docker_command host img workspace) commands)"
    for host :: "'a host" and img
    by (induction commands) (auto intro!: following one)
  then show ?thesis unfolding validate_def docker_validate_def by (intro following)
qed

lemma validate_passed:
  assumes "validate d workspace commands m = (Inr validation, m')" and "vld_passed validation"
  shows "\<exists>run. m_log m' = m_log m @ run \<and>
     validated (se_job_image (dm_settings d)) workspace commands run"
  using assms run_commands_passed
  by (fastforce simp: validate_def docker_validate_def oper_iffs split: prod.splits)

lemma triple_validate:
  assumes "\<And>es new. P es \<Longrightarrow> clean new \<Longrightarrow> P (es @ new)"
  shows "triple (\<lambda>m. P (m_log m)) (validate d workspace commands)
     (\<lambda>v m. P (m_log m) \<and>
        (vld_passed v \<longrightarrow> verified (se_job_image (dm_settings d)) workspace commands (m_log m)))
     (\<lambda>m. P (m_log m))"
proof (rule tripleI)
  fix s v s' assume P: "P (m_log s)" and run: "validate d workspace commands s = (Inr v, s')"
  have "P (m_log s')"
    using followsD [OF emits_validate run] assms [OF P] by (auto simp: emits_def)
  then show "P (m_log s') \<and>
      (vld_passed v \<longrightarrow> verified (se_job_image (dm_settings d)) workspace commands (m_log s'))"
    using validate_passed [OF run] validated_verified by metis
next
  fix s e s' assume P: "P (m_log s)" and run: "validate d workspace commands s = (Inl e, s')"
  show "P (m_log s')"
    using followsD [OF emits_validate run] assms [OF P] by (auto simp: emits_def)
qed

end
