(* ===== verification/RnPush.thy ===== *)
theory RnPush
  imports RnPublish
begin

text \<open>
  The conditions of \<open>RnPublish\<close> carried through a job: the agent, the validation, the commit, the
  rebases, the push, and everything after it.
\<close>

section \<open>Stages\<close>

text \<open>One quiet step, and one step without a push, inside a stage that may raise.\<close>

lemma quiet_step:
  assumes "follows (emits quiet) m" and "\<And>es new. P es \<Longrightarrow> list_all quiet new \<Longrightarrow> P (es @ new)"
    and "\<And>es. P es \<Longrightarrow> E es"
  shows "triple (\<lambda>m. P (m_log m)) m (\<lambda>_ m. P (m_log m)) (\<lambda>m. E (m_log m))"
  by (rule triple_weaken [OF triple_quiet [where P = P, OF assms(1,2)]]) (auto intro: assms(3))

lemma no_push_step:
  assumes "follows (emits no_push) m" and "\<And>es new. P es \<Longrightarrow> clean new \<Longrightarrow> P (es @ new)"
    and "\<And>es. P es \<Longrightarrow> E es"
  shows "triple (\<lambda>m. P (m_log m)) m (\<lambda>_ m. P (m_log m)) (\<lambda>m. E (m_log m))"
  by (rule triple_weaken [OF triple_no_push [where P = P, OF assms(1,2)]]) (auto intro: assms(3))

lemma git_plain:
  assumes "git host workspace metadata [] arguments m = (Inr s, m')"
  shows "\<exists>process. m_log m' = m_log m @
     [Ran (git_command workspace metadata arguments) GIT_ENVIRONMENT (Inr process)] \<and>
     pe_returncode process = 0 \<and> s = strip (pe_stdout process)"
proof -
  from assms obtain process where
    run: "run_process host (git_command workspace metadata arguments) GIT_ENVIRONMENT None None m = (Inr process, m')"
    and "pe_returncode process = 0" and "s = strip (pe_stdout process)"
    by (auto simp: git_def git_run_def oper_iffs split: if_splits)
  then show ?thesis using reach_log(2) [OF run [unfolded run_process_def]] by blast
qed

text \<open>Before the commit: a clean log with a successful agent and a validated tree.\<close>

definition checked :: "'x daemon \<Rightarrow> string \<Rightarrow> checkout \<Rightarrow> entry list \<Rightarrow> bool" where
  "checked d execution_id c es \<longleftrightarrow> clean es \<and>
     agent_reported (dm_host d) (exchange_path d execution_id) es \<and>
     verified (se_job_image (dm_settings d)) (co_workspace c) (co_commands c) es"

definition set_ready :: "'x daemon \<Rightarrow> string \<Rightarrow> checkout \<Rightarrow> entry list \<Rightarrow> bool" where
  "set_ready d execution_id c es \<longleftrightarrow> clean es \<and> ready d execution_id c es"

lemma clean_append: "clean es \<Longrightarrow> clean new \<Longrightarrow> clean (es @ new)"
  by simp

lemma quiet_list_clean: "list_all quiet new \<Longrightarrow> clean new"
  using quiet_clean by (simp add: list_all_iff)

lemma stage_stable:
  "checked d execution_id c es \<Longrightarrow> list_all quiet new \<Longrightarrow> checked d execution_id c (es @ new)"
  "set_ready d execution_id c es \<Longrightarrow> list_all quiet new \<Longrightarrow> set_ready d execution_id c (es @ new)"
  using grows quiet_list_clean
  by (auto simp: checked_def set_ready_def ready_def)

lemma stage_clean:
  "checked d execution_id c es \<Longrightarrow> clean es" "set_ready d execution_id c es \<Longrightarrow> clean es"
  by (simp_all add: checked_def set_ready_def)

lemma commit_work_ready:
  "triple (\<lambda>m. checked d execution_id c (m_log m)) (commit_work d c execution_id)
     (\<lambda>_ m. set_ready d execution_id c (m_log m)) (\<lambda>m. clean (m_log m))"
proof -
  let ?diff = "git (dm_host d) (co_workspace c) (co_metadata c) [] [''diff'', ''--cached'', ''--name-only'']"
  let ?Q = "\<lambda>names m. checked d execution_id c (m_log m) \<and>
     (list_all (\<lambda>p. \<not> startswith p ''.github/workflows/'') (splitlines names) \<longrightarrow>
        no_workflow_files (co_workspace c) (co_metadata c) (m_log m))"
  have diff: "triple (\<lambda>m. checked d execution_id c (m_log m)) ?diff ?Q (\<lambda>m. clean (m_log m))"
  proof (rule tripleI)
    fix s names s' assume P: "checked d execution_id c (m_log s)" and run: "?diff s = (Inr names, s')"
    from git_plain [OF run] obtain process where
      log: "m_log s' = m_log s @ [Ran (git_command (co_workspace c) (co_metadata c)
              [''diff'', ''--cached'', ''--name-only'']) GIT_ENVIRONMENT (Inr process)]"
      and p: "pe_returncode process = 0" "names = strip (pe_stdout process)" by blast
    have "checked d execution_id c (m_log s')"
      unfolding log by (rule stage_stable(1) [OF P]) (simp add: quiet_def)
    then show "?Q names s'"
      using p by (auto simp: no_workflow_files_def log list_all_iff)
  next
    fix s e s' assume P: "checked d execution_id c (m_log s)" and run: "?diff s = (Inl e, s')"
    show "clean (m_log s')"
      using followsD [OF emits_git_no_push(1) run] stage_clean(1) [OF P] by (auto simp: emits_def)
  qed
  have commit: "triple (\<lambda>m. set_ready d execution_id c (m_log m))
      (git_do (dm_host d) (co_workspace c) (co_metadata c) [] (''commit'' # arguments))
      (\<lambda>_ m. set_ready d execution_id c (m_log m)) (\<lambda>m. clean (m_log m))" for arguments
    by (rule quiet_step [OF emits_git_quiet(2)]) (auto intro: stage_stable stage_clean)
  show ?thesis
    unfolding commit_work_def
    apply (rule triple_seqS)
     apply (rule quiet_step [OF emits_git_quiet(2)])
       apply (auto intro: stage_stable stage_clean) [3]
    apply (rule triple_bindS [OF diff])
    apply (rule triple_if)
     apply (rule triple_raiseS, auto dest: stage_clean) [1]
    apply (rule triple_weaken [OF commit])
      apply (auto simp: list_all_iff checked_def set_ready_def ready_def)
    done
qed

lemma rebase_loop_ready:
  "triple (\<lambda>m. set_ready d execution_id c (m_log m)) (rebase_loop d job c n base_sha validation)
     (\<lambda>_ m. set_ready d execution_id c (m_log m)) (\<lambda>m. clean (m_log m))"
proof (induction n arbitrary: base_sha validation)
  case 0
  show ?case by (auto intro: triple_returnS)
next
  case (Suc n)
  let ?P = "\<lambda>es. clean es \<and> agent_reported (dm_host d) (exchange_path d execution_id) es \<and>
      no_workflow_files (co_workspace c) (co_metadata c) es"
  have stable: "?P es \<Longrightarrow> clean new \<Longrightarrow> ?P (es @ new)" for es new using grows by auto
  have rebase: "triple (\<lambda>m. set_ready d execution_id c (m_log m))
     (seqS (git_do (dm_host d) (co_workspace c) (co_metadata c) [] [''rebase'', b])
        (bindS (validate d (co_workspace c) (co_commands c)) (\<lambda>v.
           if \<not> vld_passed v then raiseS (RnRuntimeE ''validation failed after rebasing onto the latest base'')
           else rebase_loop d job c n sha v)))
     (\<lambda>_ m. set_ready d execution_id c (m_log m)) (\<lambda>m. clean (m_log m))" for b sha
    apply (rule triple_seqS [where Q = "\<lambda>m. ?P (m_log m)"])
     apply (rule triple_weaken [OF no_push_step [where P = ?P and E = ?P, OF emits_git_no_push(2)]])
         apply (simp, erule (1) stable, assumption)
       apply (auto simp: set_ready_def ready_def) [3]
    apply (rule triple_bindS)
     apply (rule triple_weaken [OF triple_validate [where P = ?P, OF stable]])
        apply (assumption, assumption, assumption, assumption, simp)
    apply (rule triple_if)
     apply (rule triple_raiseS, simp)
    apply (rule triple_weaken [OF Suc.IH])
      apply (auto simp: set_ready_def ready_def)
    done
  show ?case
    unfolding rebase_loop.simps
    apply (rule triple_bindS)
     apply (rule quiet_step [OF emits_source_quiet])
      apply (auto intro: stage_stable stage_clean) [2]
    apply (rule triple_bindS)
     apply (rule triple_liftS [where Q = "\<lambda>_ m. set_ready d execution_id c (m_log m)"])
      apply (auto intro: stage_clean) [2]
    apply (rule triple_seqS)
     apply (rule quiet_step [OF emits_git_quiet(2)])
       apply (auto intro: stage_stable stage_clean) [3]
    apply (rule triple_bindS)
     apply (rule quiet_step [OF emits_git_quiet(1)])
       apply (auto intro: stage_stable stage_clean) [3]
    apply (rule triple_if)
     apply (rule triple_returnS, assumption)
    apply (rule rebase)
    done
qed

section \<open>The push\<close>

lemma http_post_log: "http_post host call m = (r, m') \<Longrightarrow> m_log m' = m_log m @ [Sent call r]"
  unfolding http_post_def by (rule reach_log(1))

lemma response_json_state: "response_json r m = (q, m') \<Longrightarrow> m' = m"
  by (auto simp: response_json_def oper_iffs raiseS_def requireS_def returnS_def
      split: prod.splits if_splits option.splits)

lemma capability_log:
  assumes "capability host call m = (Inr token, m')"
  shows "\<exists>r. m_log m' = m_log m @ [Sent call r]"
proof -
  from assms obtain r t where "http_post host call m = (Inr r, t)" and "m' = t"
    by (auto simp: capability_def bindS_Inr_iff basic_oper_iff dest!: response_json_state)
  then show ?thesis using http_post_log by blast
qed

lemma exchange_source_log:
  assumes "exchange_source host base token m = (Inr credential, m')"
  shows "\<exists>r. m_log m' = m_log m @ [Sent (exchange_call base ''source-credentials'' token) r]"
proof -
  from assms obtain r t payload t' where
    post: "http_post host (exchange_call base ''source-credentials'' token) m = (Inr r, t)"
    and "response_json r t = (Inr payload, t')"
    and rest: "(case payload of JObj kvs \<Rightarrow> returnS (map (\<lambda>(k, v). (k, py_str (ho_repr host) v)) kvs)
       | _ \<Rightarrow> raiseS RnAttributeE) t' = (Inr credential, m')"
    unfolding exchange_source_def bindS_Inr_iff by blast
  then have "t' = t" using response_json_state by blast
  moreover have "m' = t'" using rest by (cases payload) (simp_all add: basic_oper_iff)
  ultimately show ?thesis using http_post_log [OF post] by blast
qed

lemma source_credential_requests:
  assumes "source_credential d job ''PUBLISH_WRITE'' m = (Inr credential, m')"
  shows "\<exists>requests. m_log m' = m_log m @ requests \<and> publish_requests d job requests"
proof -
  from assms obtain job_id token t where
    job: "str_at (dm_host d) (JObj job) ''job_id'' = Inr job_id"
    and cap: "capability (dm_host d) (source_capability_call (se_delivery_url (dm_settings d))
        (dm_identity d) job_id ''PUBLISH_WRITE'') m = (Inr token, t)"
    and exchange: "exchange_source (dm_host d) (se_integrations_url (dm_settings d)) token t = (Inr credential, m')"
    unfolding source_credential_def source_capability_def bindS_Inr_iff liftS_def by blast
  from capability_log [OF cap] exchange_source_log [OF exchange] job show ?thesis
    unfolding publish_requests_def by auto
qed

text \<open>A git command makes at most one entry, the command itself.\<close>

lemma same_log_step:
  assumes "follows (emits (\<lambda>_. False)) m"
  shows "triple (\<lambda>m. P (m_log m)) m (\<lambda>_ m. P (m_log m)) (\<lambda>m. P (m_log m))"
  by (rule triple_follows [OF assms]) (auto simp: emits_def list_all_iff)

lemma git_do_entry:
  assumes "\<And>es. A es \<Longrightarrow> B es"
    and "\<And>es environment q. A es \<Longrightarrow>
      B (es @ [Ran (git_command workspace metadata arguments) environment q])"
  shows "triple (\<lambda>m. A (m_log m)) (git_do host workspace metadata credential arguments)
     (\<lambda>_ m. B (m_log m)) (\<lambda>m. B (m_log m))"
proof -
  have keep: "triple (\<lambda>m. A (m_log m)) m (\<lambda>_ m. A (m_log m)) (\<lambda>m. B (m_log m))"
    if "follows (emits (\<lambda>_. False)) m" for m :: "('x, 'b) act"
    by (rule triple_weaken [OF same_log_step [OF that, where P = A]]) (auto intro: assms(1))
  have run: "triple (\<lambda>m. A (m_log m)) (git_run host (git_command workspace metadata arguments) environment)
     (\<lambda>_ m. B (m_log m)) (\<lambda>m. B (m_log m))" for environment
    unfolding git_run_def
  proof (rule triple_bindS)
    show "triple (\<lambda>m. A (m_log m))
       (run_process host (git_command workspace metadata arguments) environment None None)
       (\<lambda>_ m. B (m_log m)) (\<lambda>m. B (m_log m))"
      by (rule tripleI) (auto simp: run_process_def dest!: reach_log(2) intro: assms(2))
  qed (auto intro: triple_if triple_raiseS triple_returnS)
  have end_step: "triple (\<lambda>m. B (m_log m)) (with_files f) (\<lambda>_ m. B (m_log m)) (\<lambda>m. B (m_log m))" for f
    by (rule same_log_step) (rule emits_with_files)
  show ?thesis
    unfolding git_do_def git_def
    apply (rule triple_bindS [where Q = "\<lambda>_ m. B (m_log m)"])
     apply (rule triple_if, rule run)
     apply (rule triple_bindS, rule keep, intro following)
     apply (rule triple_seqS, rule keep, intro following)
     apply (rule triple_seqS, rule keep, intro following)
     apply (rule triple_bindS, rule keep, intro following)
     apply (rule triple_finallyS [OF run end_step end_step])
    apply (rule triple_returnS, assumption)
    done
qed

lemma push_branch_justified:
  assumes "job_checkout d job execution_id c"
  shows "triple (\<lambda>m. set_ready d execution_id c (m_log m)) (push_branch d job c execution_id)
     (\<lambda>_ m. justified d job (m_log m)) (\<lambda>m. justified d job (m_log m))"
proof -
  let ?argv = "git_command (co_workspace c) (co_metadata c) [''push'', ''origin'', execution_branch execution_id]"
  have requests: "triple (\<lambda>m. set_ready d execution_id c (m_log m)) (source_credential d job ''PUBLISH_WRITE'')
     (\<lambda>_ m. clean (m_log m) \<and> publishable d job (m_log m) ?argv) (\<lambda>m. justified d job (m_log m))"
  proof (rule tripleI)
    fix s credential s'
    assume P: "set_ready d execution_id c (m_log s)"
      and run: "source_credential d job ''PUBLISH_WRITE'' s = (Inr credential, s')"
    from source_credential_requests [OF run] obtain requests where
      log: "m_log s' = m_log s @ requests" and r: "publish_requests d job requests" by blast
    have "clean requests" using r by (auto simp: publish_requests_def no_push_def)
    then have "clean (m_log s')" using P by (simp add: log set_ready_def)
    moreover have "publishable d job (m_log s') ?argv"
      unfolding publishable_def using assms log r P [unfolded set_ready_def] by blast
    ultimately show "clean (m_log s') \<and> publishable d job (m_log s') ?argv" ..
  next
    fix s e s'
    assume P: "set_ready d execution_id c (m_log s)"
      and run: "source_credential d job ''PUBLISH_WRITE'' s = (Inl e, s')"
    have "clean (m_log s')"
      using followsD [OF emits_source_quiet run] stage_clean(2) [OF P] quiet_list_clean
      by (auto simp: emits_def)
    then show "justified d job (m_log s')" by (rule clean_justified)
  qed
  show ?thesis
    unfolding push_branch_def
  proof (rule triple_bindS [OF requests])
    fix credential
    show "triple (\<lambda>m. clean (m_log m) \<and> publishable d job (m_log m) ?argv)
       (git_do (dm_host d) (co_workspace c) (co_metadata c) credential
          [''push'', ''origin'', execution_branch execution_id])
       (\<lambda>_ m. justified d job (m_log m)) (\<lambda>m. justified d job (m_log m))"
      by (rule git_do_entry [where A = "\<lambda>es. clean es \<and> publishable d job es ?argv"])
        (auto intro: justified_push clean_justified)
  qed
qed

section \<open>The whole job\<close>

lemma justified_step:
  assumes "follows (emits no_push) m"
  shows "triple (\<lambda>m. justified d job (m_log m)) m (\<lambda>_ m. justified d job (m_log m))
     (\<lambda>m. justified d job (m_log m))"
  by (rule triple_no_push [OF assms, where P = "justified d job"]) (rule justified_append)

lemma deliver_work_justified:
  assumes c: "job_checkout d job execution_id c"
  shows "triple (\<lambda>m. clean (m_log m) \<and>
       (\<exists>text. ReadFile (exchange_path d execution_id @ [''output.json'']) text \<in> set (m_log m) \<and>
          ho_loads (dm_host d) text = Some agent_result) \<and>
       (vld_passed validation \<longrightarrow>
          verified (se_job_image (dm_settings d)) (co_workspace c) (co_commands c) (m_log m)))
     (deliver_work d job c execution_id publish base_sha agent_result validation)
     (\<lambda>_ m. justified d job (m_log m)) (\<lambda>m. justified d job (m_log m))"
    (is "triple ?P _ _ _")
proof -
  let ?J = "\<lambda>m. justified d job (m_log m)"
  have rest: "triple ?J
     (bindS (git (dm_host d) (co_workspace c) (co_metadata c) [] [''rev-parse'', ''HEAD'']) (\<lambda>commit_sha.
      bindS (git (dm_host d) (co_workspace c) (co_metadata c) [] [''format-patch'', ''-1'', ''--stdout'', ''HEAD'']) (\<lambda>patch.
      returnS (commit_sha, patch, v)))) (\<lambda>_. ?J) ?J" for v
    by (rule triple_bindS [OF justified_step [OF emits_git_no_push(1)]], simp,
        rule triple_bindS [OF justified_step [OF emits_git_no_push(1)]], simp, rule triple_returnS)
  have publishing: "triple (\<lambda>m. set_ready d execution_id c (m_log m))
     (if publish then bindS (rebase_loop d job c 2 base_sha validation) (\<lambda>validation'.
        seqS (push_branch d job c execution_id) (returnS validation')) else returnS validation)
     (\<lambda>_. ?J) ?J"
    apply (rule triple_if)
     apply (rule triple_bindS [where Q = "\<lambda>_ m. set_ready d execution_id c (m_log m)"])
      apply (rule triple_weaken [OF rebase_loop_ready])
        apply (assumption, assumption, erule clean_justified)
     apply (rule triple_seqS [OF push_branch_justified [OF c]])
     apply (rule triple_returnS, assumption)
    apply (rule triple_returnS)
    apply (drule stage_clean(2), erule clean_justified)
    done
  show ?thesis
    unfolding deliver_work_def
    apply (rule triple_bindS)
     apply (rule triple_liftS [where Q = "\<lambda>success m. json_at agent_result ''success'' = Inr success \<and> ?P m"])
      apply simp
     apply (auto intro: clean_justified) [1]
    apply (rule triple_if)
     apply (rule triple_seqS [where Q = "\<lambda>m. set_ready d execution_id c (m_log m)"])
      apply (rule triple_weaken [OF commit_work_ready [where execution_id = execution_id]])
        apply (auto simp: checked_def agent_reported_def) [1]
       apply assumption
      apply (erule clean_justified)
     apply (rule triple_bindS [OF publishing], rule rest)
    apply (rule triple_returnS, auto intro: clean_justified)
    done
qed

end
