(* ===== verification/RnPushed.thy ===== *)
theory RnPushed
  imports RnPush
begin

text \<open>
  The stages of \<open>RnPush\<close> put together: every push in the log of a job is justified, however the
  job ends.
\<close>

section \<open>Steps that never push\<close>

lemma emits_initialize: "follows (emits no_push) (initialize_repository host workspace)"
  unfolding initialize_repository_def ensure_repository_has_content_def
  by (intro following emits_git_no_push) simp_all

lemma emits_egress_ensure: "follows (emits no_push) (egress_ensure host eg)"
  unfolding egress_ensure_def ensure_network_def write_proxy_config_def ensure_proxy_container_def docker_run_def
  by (intro following) (auto simp: no_push_def)

lemma emits_job_network: "follows (emits no_push) (job_network d e runtime environment)"
  unfolding job_network_def by (intro following emits_egress_ensure)

lemma emits_job_secret: "follows (emits no_push) (job_secret d job)"
  unfolding job_secret_def resolve_secret_def model_capability_def
  by (intro following emits_weaken [OF emits_capability] emits_weaken [OF emits_exchange_model] sent_no_push)

lemma emits_checkout_credential: "follows (emits no_push) (checkout_credential d job)"
  unfolding checkout_credential_def
  by (intro following emits_weaken [OF emits_source_credential] sent_no_push)

lemma emits_remove_if_exists [following]: "follows (emits P) (remove_if_exists p)"
  unfolding remove_if_exists_def by (intro following)

lemma emits_provision: "follows (emits P) (provision host wm execution_id)"
  unfolding provision_def by (intro following)

lemma emits_provision_empty: "follows (emits P) (provision_empty host wm execution_id)"
  unfolding provision_empty_def by (intro following)

lemma emits_cleanup: "follows (emits P) (cleanup host wm execution_id)"
  unfolding cleanup_def by (intro following)

lemma emits_remove_exchange: "follows (emits P) (remove_exchange exchange)"
  unfolding remove_exchange_def by (intro following)

lemma emits_prepare_checkout: "follows (emits no_push) (prepare_checkout d execution_id linked credential)"
  unfolding prepare_checkout_def clone_repository_def
  by (intro following emits_provision emits_provision_empty emits_git_no_push) simp_all

section \<open>The agent\<close>

lemma agent_execute_reads:
  fixes host :: "'x host"
  shows "triple (\<lambda>m. clean (m_log m)) (agent_execute host img workspace exchange timeout environment network)
     (\<lambda>result m. clean (m_log m) \<and> (\<exists>text. ReadFile (exchange @ [''output.json'']) text \<in> set (m_log m) \<and>
        ho_loads host text = Some result)) (\<lambda>m. clean (m_log m))"
    (is "triple ?C _ ?Q ?C")
proof -
  have step: "triple ?C m (\<lambda>_. ?C) ?C" if "follows (emits no_push) m" for m :: "('x, 'b) act"
    by (rule triple_no_push [OF that, where P = clean]) simp
  have launch: "follows (emits no_push) (docker_run host spec)"
    and wait: "follows (emits no_push) (docker_wait host container timeout)"
    and remove: "follows (emits no_push) (docker_remove host container)" for spec container
    unfolding docker_run_def docker_wait_def docker_remove_def by (intro following; simp add: no_push_def)+
  have read: "triple ?C (read_output host (exchange @ [''output.json''])) ?Q ?C"
    by (rule tripleI)
      (auto simp: read_output_def oper_iffs from_files_def log_entry_def no_push_def split: sum.splits)
  have keep: "triple (?Q result) (docker_remove host container) (\<lambda>_. ?Q result) ?C" for result container
  proof -
    let ?P = "\<lambda>es. clean es \<and> (\<exists>text. ReadFile (exchange @ [''output.json'']) text \<in> set es \<and>
        ho_loads host text = Some result)"
    show ?thesis
      by (rule triple_weaken [OF triple_no_push [OF remove, where P = ?P]]) auto
  qed
  show ?thesis
    unfolding agent_execute_def
    apply (rule triple_bindS [OF step [OF launch]])
    apply (rule triple_finallyS [OF _ keep])
     apply (rule triple_bindS [OF step [OF wait]])
     apply (rule triple_if)
      apply (rule triple_bindS [OF step], intro following)
      apply (rule triple_raiseS, assumption)
     apply (rule read)
    apply (rule step [OF remove])
    done
qed

section \<open>The job\<close>

lemma job_body_justified:
  assumes execution: "str_at (dm_host d) (JObj job) ''execution_id'' = Inr execution_id"
    and workspace: "workspace_path (dm_host d) (dm_workspaces d) execution_id = Inr workspace"
  shows "triple (\<lambda>m. clean (m_log m))
     (job_body d job started execution_id (exchange_path d execution_id) linked credential workspace metadata base_sha)
     (\<lambda>_ m. justified d job (m_log m)) (\<lambda>m. justified d job (m_log m))"
proof -
  let ?C = "\<lambda>m. clean (m_log m)" and ?J = "\<lambda>m. justified d job (m_log m)"
  let ?read = "\<lambda>result es. clean es \<and> (\<exists>text. ReadFile (exchange_path d execution_id @ [''output.json'']) text \<in> set es \<and>
      ho_loads (dm_host d) text = Some result)"
  have step: "triple ?C m (\<lambda>_. ?C) ?J" if "follows (emits no_push) m" for m :: "('x, 'b) act"
    by (rule no_push_step [OF that, where P = clean]) (auto intro: clean_justified)
  have stable: "?read result es \<Longrightarrow> clean new \<Longrightarrow> ?read result (es @ new)" for result es new by auto
  show ?thesis
    unfolding job_body_def Let_def
    apply (rule triple_seqS [OF step], intro following emits_initialize)
    apply (rule triple_seqS [OF step], intro following)
    apply (rule triple_bindS [OF step], rule emits_job_secret)
    apply (rule triple_bindS [OF step], rule emits_job_network)
    apply (clarsimp simp: case_prod_beta)
    apply (rule triple_bindS [OF step], intro following)
    apply (rule triple_bindS [where Q = "\<lambda>result m. ?read result (m_log m)"])
     apply (rule triple_weaken [OF agent_execute_reads])
       apply (assumption, assumption, erule clean_justified)
    subgoal for environment network timeout agent_result
      apply (rule triple_bindS [where Q = "\<lambda>commands m. job_commands (dm_host d) job = Inr commands \<and>
            ?read agent_result (m_log m)"])
       apply (rule triple_liftS, simp, simp add: clean_justified)
      subgoal for commands
        apply (rule triple_assume)
        apply (rule triple_bindS [where Q = "\<lambda>v m. ?read agent_result (m_log m) \<and>
            (vld_passed v \<longrightarrow> verified (se_job_image (dm_settings d)) workspace commands (m_log m))"])
         apply (rule triple_weaken [OF triple_validate [where P = "?read agent_result", OF stable]])
            apply (assumption, assumption, assumption, assumption, simp add: clean_justified)
        apply (rule triple_bindS [where Q = "\<lambda>_. ?J"])
         apply (rule triple_weaken [OF deliver_work_justified])
            apply (simp add: job_checkout_def execution workspace)
           apply simp
          apply (assumption, assumption)
        apply (clarsimp simp: case_prod_beta)
        apply (rule triple_bindS [OF justified_step])
         apply (simp add: monotonic_def, intro following)
        apply (rule triple_liftS, assumption, assumption)
        done
      done
    done
qed

lemma prepare_checkout_workspace:
  "prepare_checkout d execution_id linked credential m = (Inr (workspace, metadata, base_sha), m') \<Longrightarrow>
     workspace_path (dm_host d) (dm_workspaces d) execution_id = Inr workspace"
  by (auto simp: prepare_checkout_def provision_def provision_empty_def bindS_Inr_iff seqS_iff liftS_def
      returnS_def split: if_splits)

lemma run_job_justified:
  "triple (\<lambda>m. clean (m_log m)) (run_job d job) (\<lambda>_ m. justified d job (m_log m))
     (\<lambda>m. justified d job (m_log m))"
proof -
  let ?C = "\<lambda>m. clean (m_log m)" and ?J = "\<lambda>m. justified d job (m_log m)"
  have step: "triple ?C m (\<lambda>_. ?C) ?J" if "follows (emits no_push) m" for m :: "('x, 'b) act"
    by (rule no_push_step [OF that, where P = clean]) (auto intro: clean_justified)
  have prepare: "triple ?C (prepare_checkout d execution_id linked credential)
     (\<lambda>(workspace, metadata, base_sha) m.
        workspace_path (dm_host d) (dm_workspaces d) execution_id = Inr workspace \<and> ?C m) ?J"
    for execution_id linked credential
    by (rule tripleI)
      (use tripleD [OF step [OF emits_prepare_checkout]] prepare_checkout_workspace in \<open>fastforce\<close>)+
  show ?thesis
    unfolding run_job_def
    apply (rule triple_bindS [OF step], simp add: monotonic_def, intro following)
    apply (rule triple_bindS [where Q = "\<lambda>execution_id m.
        str_at (dm_host d) (JObj job) ''execution_id'' = Inr execution_id \<and> ?C m"])
     apply (rule triple_liftS, simp, erule clean_justified)
    apply (rule triple_assume)
    apply (rule triple_bindS [OF step], rule emits_checkout_credential)
    apply (clarsimp simp: case_prod_beta)
    apply (rule triple_bindS [OF prepare])
    apply (clarsimp simp: case_prod_beta)
    apply (rule triple_assume)
    apply (rule triple_seqS [OF step], intro following)
    apply (rule triple_finallyS [OF job_body_justified])
       apply assumption+
     apply (rule justified_step, intro following emits_cleanup emits_remove_exchange)
    apply (rule justified_step, intro following emits_cleanup emits_remove_exchange)
    done
qed

end
