(* ===== verification/RnRun.thy ===== *)
theory RnRun
  imports RnGit RnLoop
begin

text \<open>
  A job of the runner on a small concrete host, computed stage by stage: a connected repository is
  cloned, the agent and the validation succeed, the work is pushed and everything is removed again.
\<close>

section \<open>A concrete host\<close>

text \<open>
  A host whose processes and containers succeed, whose services answer every request with the same
  document, and whose agent reports success; the job is the one of a connected repository.
\<close>

definition demo_answer :: json where
  "demo_answer = JObj [(''capability'', JStr ''t''), (''username'', JStr ''u''), (''token'', JStr ''t''),
     (''default_branch'', JStr ''main''), (''clone_locator'', JStr ''r'')]"

definition demo_report :: json where
  "demo_report = JObj [(''success'', JBool True), (''summary'', JStr ''done''), (''turns'', JInt 1),
     (''changed_paths'', JList []), (''events'', JList [])]"

definition demo_host :: "unit host" where
  "demo_host =
     \<lparr>ho_process = (\<lambda>argv environment cwd timeout x fs.
        (Inr \<lparr>pe_returncode = 0, pe_stdout = ''a'', pe_stderr = ''''\<rparr>, x, fs)),
      ho_request = (\<lambda>call x. (Inr (200, Some demo_answer), x)),
      ho_run = (\<lambda>spec x fs. (Inr ''c'', x, dset [''w'', ''1-exchange'', ''output.json''] (TextFile ''r'') fs)),
      ho_wait = (\<lambda>container timeout x fs. (Inr 0, x, fs)),
      ho_logs = (\<lambda>container out err x. Inr ''''),
      ho_remove = (\<lambda>container x. (Inr (), x)),
      ho_network = (\<lambda>name x. Inr ()), ho_network_create = (\<lambda>name internal x. (Inr (), x)),
      ho_network_connect = (\<lambda>name container x. (Inr (), x)), ho_network_remove = (\<lambda>name x. (Inr (), x)),
      ho_container = (\<lambda>name x. Inr (name, ''running'')), ho_start = (\<lambda>container x. (Inr (), x)),
      ho_monotonic = (\<lambda>x. 0), ho_tmp = (\<lambda>x. [''tmp'', ''g'']), ho_resolve = (\<lambda>p. p),
      ho_loads = (\<lambda>text. Some demo_report), ho_dumps = (\<lambda>style j. ''{}''), ho_repr = (\<lambda>j. '''')\<rparr>"

definition demo_settings :: settings where
  "demo_settings =
     \<lparr>se_delivery_url = ''http://d'', se_integrations_url = ''http://i'', se_runner_id = ''6'',
      se_runner_credential = ''c'', se_workspace_root = [''w''], se_fixture_path = [''f''],
      se_job_image = ''job'', se_agent_egress_enabled = False, se_agent_egress_network = ''n'',
      se_agent_egress_proxy_image = ''p'', se_agent_egress_proxy_port = 3128\<rparr>"

text \<open>A task that is done when it is first waited for.\<close>

definition at_once :: "('s, rn_error, 'a) oper \<Rightarrow> ('s, 'a) task" where
  "at_once m = More (\<lambda>s. case m s of (r, s') \<Rightarrow> (Done r, s'))"

definition demo_daemon :: "unit daemon" where
  "demo_daemon =
     \<lparr>dm_host = demo_host, dm_settings = demo_settings,
      dm_identity = \<lparr>ri_runner_id = ''6'', ri_credential = ''c''\<rparr>,
      dm_workspaces = LocalWorkspaceManager demo_host [''w''] [''f''], dm_egress = None,
      dm_create_task = at_once\<rparr>"

definition demo_job :: document where
  "demo_job = [(''execution_id'', JStr ''1''), (''job_id'', JStr ''2''),
     (''repository_connection_id'', JStr ''3''), (''runtime'', JStr ''deterministic''),
     (''max_duration_seconds'', JInt 60),
     (''validation_commands'', JList [JObj [(''executable'', JStr ''pytest''), (''arguments'', JList []),
        (''timeout_seconds'', JInt 5)]])]"

section \<open>Its run\<close>

definition mach :: "files \<Rightarrow> entry list \<Rightarrow> unit machine" where
  "mach fs es = \<lparr>m_files = fs, m_environ = [], m_outside = (), m_log = es\<rparr>"

lemmas steps = bindS_def seqS_def liftS_def readS_def returnS_def raiseS_def requireS_def finallyS_def
  reach_def reach_files_def with_files_def from_files_def log_entry_def writeS_def mach_def

lemmas demos = demo_host_def demo_daemon_def demo_settings_def demo_job_def demo_answer_def demo_report_def

lemma demo_paths:
  "workspace_path demo_host (LocalWorkspaceManager demo_host [''w''] [''f'']) ''1'' = Inr [''w'', ''1'']"
  "workspace_path demo_host (LocalWorkspaceManager demo_host [''w''] [''f'']) ''1-git'' = Inr [''w'', ''1-git'']"
  by (simp_all add: workspace_path_def LocalWorkspaceManager_def demo_host_def lower_def lower_char_def
      safe_character_def under_def Let_def)

definition demo_credential :: "(string, string) dict" where
  "demo_credential = [(''capability'', ''t''), (''username'', ''u''), (''token'', ''t''),
     (''default_branch'', ''main''), (''clone_locator'', ''r'')]"

definition demo_requests :: "string \<Rightarrow> entry list" where
  "demo_requests purpose =
     [Sent (source_capability_call ''http://d'' \<lparr>ri_runner_id = ''6'', ri_credential = ''c''\<rparr> ''2'' purpose)
        (Inr (200, Some demo_answer)),
      Sent (exchange_call ''http://i'' ''source-credentials'' ''t'') (Inr (200, Some demo_answer))]"

lemma demo_source:
  "source_credential demo_daemon demo_job purpose (mach fs es) =
     (Inr demo_credential, mach fs (es @ demo_requests purpose))"
  by (simp add: source_credential_def source_capability_def capability_def demo_requests_def demo_credential_def
     exchange_source_def demos str_at_def json_at_def steps http_post_def  py_str_def response_json_def)

definition demo_end :: process_end where
  "demo_end = \<lparr>pe_returncode = 0, pe_stdout = ''a'', pe_stderr = ''''\<rparr>"

lemma demo_git:
  "git demo_host workspace metadata [] arguments (mach fs es) =
     (Inr ''a'', mach fs (es @ [Ran (git_command workspace metadata arguments) GIT_ENVIRONMENT (Inr demo_end)]))"
  by (simp add: git_def git_run_def run_process_def steps demos demo_end_def strip_def is_space_def)

definition tmp_free :: "files \<Rightarrow> bool" where
  "tmp_free fs \<longleftrightarrow> dget fs [''tmp''] = Some Directory \<and> node_at [''tmp'', ''g''] fs = None \<and>
     node_at [''tmp'', ''g'', ''askpass''] fs = None \<and> filter (\<lambda>(q, _). \<not> under [''tmp'', ''g''] q) fs = fs"

lemma node_at_None: "node_at p fs = None \<Longrightarrow> dget fs p = None"
  by (auto simp: node_at_def split: option.splits)

lemma askpass_files:
  assumes "tmp_free fs"
  shows "mkdir False [''tmp'', ''g''] fs = Inr (fs @ [([''tmp'', ''g''], Directory)])"
    and "write_text [''tmp'', ''g'', ''askpass''] t (fs @ [([''tmp'', ''g''], Directory)]) =
       Inr (fs @ [([''tmp'', ''g''], Directory), ([''tmp'', ''g'', ''askpass''], TextFile t)])"
    and "rmtree [''tmp'', ''g''] (fs @ [([''tmp'', ''g''], Directory), ([''tmp'', ''g'', ''askpass''], TextFile t)]) = Inr fs"
proof -
  note f = assms [unfolded tmp_free_def]
  have d: "dget fs [''tmp'', ''g''] = None" "dget fs [''tmp'', ''g'', ''askpass''] = None"
    using f node_at_None by blast+
  have up: "node_at [''tmp''] fs = Some Directory" using f by (simp add: node_at_def)
  have below: "\<not> under [''tmp'', ''g'', ''askpass''] q" if "q \<in> set (map fst fs)" for q
    using f that by (auto simp: node_at_def split: option.splits if_splits)
  show "mkdir False [''tmp'', ''g''] fs = Inr (fs @ [([''tmp'', ''g''], Directory)])"
    using f d up by (simp add: mkdir_def make_dirs_def prefixes_of_def dset_new)
  show "write_text [''tmp'', ''g'', ''askpass''] t (fs @ [([''tmp'', ''g''], Directory)]) =
       Inr (fs @ [([''tmp'', ''g''], Directory), ([''tmp'', ''g'', ''askpass''], TextFile t)])"
    using d below by (auto simp: write_text_def node_at_def map_add_def under_def dset_new)
  show "rmtree [''tmp'', ''g''] (fs @ [([''tmp'', ''g''], Directory), ([''tmp'', ''g'', ''askpass''], TextFile t)]) = Inr fs"
    using d f by (simp add: rmtree_def node_at_def map_add_def) (simp add: under_def)
qed

definition demo_environment :: "(string, string) dict" where
  "demo_environment = GIT_ENVIRONMENT @ [(''GIT_ASKPASS'', ''/tmp/g/askpass''), (''MVP_GIT_USERNAME'', ''u''),
     (''MVP_GIT_TOKEN'', ''t'')]"

lemma demo_git_credential:
  assumes "tmp_free fs"
  shows "git demo_host workspace metadata demo_credential arguments (mach fs es) =
     (Inr ''a'', mach fs (es @ [Ran (git_command workspace metadata arguments) demo_environment (Inr demo_end)]))"
  using askpass_files [OF assms]
  by (simp add: git_def git_run_def run_process_def steps demos demo_end_def strip_def is_space_def
      demo_credential_def credential_environment_def item_of_def demo_environment_def path_str_def)

definition demo_files :: "nat \<Rightarrow> files" where
  "demo_files n = [([''w''], Directory), ([''f''], Directory), ([''tmp''], Directory)] @
     take n [([''w'', ''1-exchange''], Directory), ([''w'', ''1-exchange'', ''input.json''], TextFile ''{}''),
             ([''w'', ''1-exchange'', ''output.json''], TextFile ''r'')]"

lemma demo_tmp_free: "n \<le> 3 \<Longrightarrow> tmp_free (demo_files n)"
  by (cases n rule: nat.exhaust; simp add: tmp_free_def demo_files_def node_at_def under_def)
     (auto simp: tmp_free_def demo_files_def node_at_def under_def numeral_eq_Suc less_Suc_eq_le le_Suc_eq)

definition git_ran :: "string list \<Rightarrow> entry" where
  "git_ran arguments = Ran (git_command [''w'', ''1''] (Some [''w'', ''1-git'']) arguments) GIT_ENVIRONMENT (Inr demo_end)"

definition ran_with :: "string list \<Rightarrow> entry" where
  "ran_with arguments = Ran (git_command [''w'', ''1''] (Some [''w'', ''1-git'']) arguments) demo_environment (Inr demo_end)"

lemma demo_manager: "dm_workspaces demo_daemon = LocalWorkspaceManager demo_host [''w''] [''f'']" "dm_host demo_daemon = demo_host"
  by (simp_all add: demo_daemon_def)

lemma demo_prepare:
  "prepare_checkout demo_daemon ''1'' True demo_credential (mach (demo_files 0) es) =
     (Inr ([''w'', ''1''], Some [''w'', ''1-git''], ''a''), mach (demo_files 0) (es @
        [Ran (git_command [''w''] None [''clone'', ''--no-recurse-submodules'', ''--single-branch'', ''--branch'', ''main'',
               ''--separate-git-dir'', ''/w/1-git'', ''r'', ''/w/1'']) demo_environment (Inr demo_end),
         git_ran [''config'', ''core.hooksPath'', ''/dev/null''], git_ran [''rev-parse'', ''HEAD'']]))"
proof -
  have "provision_empty demo_host (LocalWorkspaceManager demo_host [''w''] [''f'']) ''1'' (mach (demo_files 0) es) =
      (Inr ([''w'', ''1''], [''w'', ''1-git'']), mach (demo_files 0 @ [([''w'', ''1''], Directory)]) es)"
    by (simp add: provision_empty_def git_suffix_def demo_paths bindS_def seqS_def liftS_def readS_def returnS_def
       remove_if_exists_def exists_path_def node_at_def mach_def demo_files_def under_def with_files_def mkdir_def
       prefixes_of_def make_dirs_def)
  moreover have "with_files (rmdir [''w'', ''1'']) (mach (demo_files 0 @ [([''w'', ''1''], Directory)]) es) =
      (Inr (), mach (demo_files 0) es)"
    by (simp add: with_files_def rmdir_def node_at_def children_def mach_def demo_files_def under_def)
  ultimately show ?thesis
    using demo_tmp_free [of 0]
    by (simp add: prepare_checkout_def demo_manager clone_repository_def bindS_def seqS_def liftS_def returnS_def
      git_do_def demo_git demo_git_credential item_of_def demo_credential_def [THEN arg_cong, of "\<lambda>c. dget c k" for k]
      demo_credential_def [THEN arg_cong, of "\<lambda>c. c = []"] path_str_def git_ran_def)
qed

definition demo_command :: validation_command where
  "demo_command = \<lparr>cmd_executable = ''pytest'', cmd_arguments = [], cmd_timeout_seconds = 5\<rparr>"

definition demo_validation :: validation_result where
  "demo_validation = \<lparr>vld_passed = True, vld_validator_image = ''job'', vld_evidence =
     [\<lparr>evd_executable = ''pytest'', evd_arguments = [], evd_exit_code = 0, evd_stdout = '''', evd_stderr = '''',
       evd_duration_ms = 0\<rparr>]\<rparr>"

definition demo_contained :: "container_spec \<Rightarrow> int \<Rightarrow> entry list \<Rightarrow> entry list" where
  "demo_contained spec timeout es = [Launched spec (Inr ''c''), Waited ''c'' timeout (Inr 0)] @ es @ [Removed ''c'' (Inr ())]"

lemma demo_output: "dset [''w'', ''1-exchange'', ''output.json''] (TextFile ''r'') (demo_files 2) = demo_files 3"
  "dset [''w'', ''1-exchange'', ''output.json''] (TextFile ''r'') (demo_files 3) = demo_files 3"
  by (simp_all add: demo_files_def numeral_eq_Suc)

lemma demo_agent:
  "agent_execute demo_host ''job'' [''w'', ''1''] [''w'', ''1-exchange''] 60 [] None (mach (demo_files 2) es) =
     (Inr demo_report, mach (demo_files 3) (es @ demo_contained
        (agent_container ''job'' [''w'', ''1''] [''w'', ''1-exchange''] [] None) 60
        [ReadFile [''w'', ''1-exchange'', ''output.json''] ''r'']))"
  by (simp add: agent_execute_def docker_run_def docker_wait_def docker_remove_def read_output_def steps demo_host_def
      demo_output demo_contained_def)
    (simp add: read_text_def node_at_def demo_files_def numeral_eq_Suc returnS_def)

lemma demo_validate:
  "validate demo_daemon [''w'', ''1''] [demo_command] (mach (demo_files 3) es) =
     (Inr demo_validation, mach (demo_files 3) (es @ demo_contained
        (validator_container ''job'' [''w'', ''1''] demo_command) 5 []))"
  by (simp add: validate_def docker_validate_def docker_command_def monotonic_def docker_run_def docker_wait_def
      docker_remove_def docker_logs_def steps demo_host_def demo_daemon_def demo_settings_def demo_output
      demo_contained_def demo_validation_def demo_command_def duration_ms_def last_chars_def)

lemma demo_commit:
  "commit_work demo_daemon \<lparr>co_workspace = [''w'', ''1''], co_metadata = Some [''w'', ''1-git''], co_commands = cs\<rparr> ''1''
     (mach fs es) = (Inr (), mach fs (es @ [git_ran [''add'', ''--all''], git_ran [''diff'', ''--cached'', ''--name-only''],
        git_ran [''commit'', ''-m'', ''feat: implement approved work item'' @ [CHR 0x0A, CHR 0x0A] @ ''Execution: 1'']]))"
  by (simp add: commit_work_def demo_manager git_do_def demo_git bindS_def seqS_def returnS_def git_ran_def
      splitlines_def line_break_def startswith_def)

lemma demo_branch: "item_of demo_credential ''default_branch'' = Inr ''main''"
  by (simp add: item_of_def demo_credential_def)

lemma demo_rebase:
  "rebase_loop demo_daemon demo_job \<lparr>co_workspace = [''w'', ''1''], co_metadata = Some [''w'', ''1-git''], co_commands = cs\<rparr>
     2 ''a'' v (mach (demo_files 3) es) =
     (Inr v, mach (demo_files 3) (es @ demo_requests ''CHECKOUT_READ'' @
        [ran_with [''fetch'', ''--no-tags'', ''origin'', ''main''], git_ran [''rev-parse'', ''origin/main'']]))"
  using demo_tmp_free [of 3]
  by (simp add: numeral_2_eq_2 demo_source demo_branch demo_manager git_do_def demo_git demo_git_credential
      bindS_def seqS_def liftS_def returnS_def git_ran_def ran_with_def)

lemma demo_push:
  "push_branch demo_daemon demo_job \<lparr>co_workspace = [''w'', ''1''], co_metadata = Some [''w'', ''1-git''], co_commands = cs\<rparr>
     ''1'' (mach (demo_files 3) es) =
     (Inr (), mach (demo_files 3) (es @ demo_requests ''PUBLISH_WRITE'' @
        [ran_with [''push'', ''origin'', execution_branch ''1'']]))"
  using demo_tmp_free [of 3]
  by (simp add: push_branch_def demo_source demo_manager git_do_def demo_git_credential bindS_def seqS_def returnS_def
      ran_with_def)

definition demo_work :: "entry list" where
  "demo_work =
     [git_ran [''add'', ''--all''], git_ran [''diff'', ''--cached'', ''--name-only''],
      git_ran [''commit'', ''-m'', ''feat: implement approved work item'' @ [CHR 0x0A, CHR 0x0A] @ ''Execution: 1'']]
     @ demo_requests ''CHECKOUT_READ''
     @ [ran_with [''fetch'', ''--no-tags'', ''origin'', ''main''], git_ran [''rev-parse'', ''origin/main'']]
     @ demo_requests ''PUBLISH_WRITE''"

lemma demo_deliver:
  "deliver_work demo_daemon demo_job
     \<lparr>co_workspace = [''w'', ''1''], co_metadata = Some [''w'', ''1-git''], co_commands = cs\<rparr> ''1'' True ''a''
     demo_report demo_validation (mach (demo_files 3) es) =
     (Inr (''a'', ''a'', demo_validation), mach (demo_files 3) (es @ demo_work @
        [ran_with [''push'', ''origin'', execution_branch ''1''], git_ran [''rev-parse'', ''HEAD''],
         git_ran [''format-patch'', ''-1'', ''--stdout'', ''HEAD'']]))"
proof -
  have s: "json_at demo_report ''success'' = Inr (JBool True)" by (simp add: demo_report_def json_at_def)
  have v: "vld_passed demo_validation" by (simp add: demo_validation_def)
  show ?thesis
    by (simp add: deliver_work_def s v demo_commit demo_rebase demo_push demo_manager demo_git bindS_def seqS_def
        liftS_def returnS_def demo_work_def git_ran_def)
qed

definition demo_agent_document :: json where
  "demo_agent_document = JObj [(''success'', JBool True), (''summary'', JStr ''done''), (''turns'', JInt 1),
     (''changed_paths'', JList []), (''session_id'', JNull), (''input_tokens'', JNull),
     (''cached_input_tokens'', JNull), (''output_tokens'', JNull), (''events'', JList [])]"

definition demo_result :: json where
  "demo_result = JObj [(''commit_sha'', JStr ''a''), (''patch'', JStr ''a''), (''duration_seconds'', JInt 0),
     (''cost_minor'', JInt 0), (''agent'', demo_agent_document), (''validation'', validation_document demo_validation)]"

definition demo_before :: "entry list" where
  "demo_before =
     demo_requests ''CHECKOUT_READ''
     @ [Ran (git_command [''w''] None [''clone'', ''--no-recurse-submodules'', ''--single-branch'', ''--branch'', ''main'',
               ''--separate-git-dir'', ''/w/1-git'', ''r'', ''/w/1'']) demo_environment (Inr demo_end),
        git_ran [''config'', ''core.hooksPath'', ''/dev/null''], git_ran [''rev-parse'', ''HEAD'']]
     @ demo_contained (agent_container ''job'' [''w'', ''1''] [''w'', ''1-exchange''] [] None) 60
         [ReadFile [''w'', ''1-exchange'', ''output.json''] ''r'']
     @ demo_contained (validator_container ''job'' [''w'', ''1''] demo_command) 5 []
     @ demo_work"

lemma demo_job_parts:
  "job_secret demo_daemon demo_job m = (Inr [], m)"
  "job_network demo_daemon e ''deterministic'' [] m = (Inr ([], None), m)"
  "job_commands demo_host demo_job = Inr [demo_command]"
  "int_at (JObj demo_job) ''max_duration_seconds'' = Inr 60"
  "obj_get_default demo_job ''runtime'' (JStr '''') = JStr ''deterministic''"
  "job_report demo_host ''a'' ''a'' 0 demo_report demo_validation = Inr demo_result"
       apply (simp add: job_secret_def demo_job_def obj_get_def obj_get_default_def py_str_def returnS_def)
      apply (simp add: job_network_def EGRESS_REQUIRED_RUNTIMES_def SUPPORTED_RUNTIMES_def returnS_def)
     apply (simp add: job_commands_def demo_job_def json_at_def command_of_def str_at_def int_at_def json_int_def
      py_int_def py_str_def demo_command_def)
    apply (simp add: int_at_def demo_job_def json_at_def json_int_def py_int_def)
   apply (simp add: demo_job_def obj_get_default_def)
  apply (simp add: job_report_def agent_document_def demo_report_def json_at_def str_at_def int_at_def json_int_def
      py_int_def py_str_def obj_get_def demo_result_def demo_agent_document_def last_chars_def)
  done

lemma demo_input:
  "with_files (write_text [''w'', ''1-exchange'', ''input.json''] ''{}'') (mach (demo_files (Suc 0)) es) =
     (Inr (), mach (demo_files 2) es)"
  by (simp add: with_files_def write_text_def node_at_def mach_def demo_files_def under_def numeral_eq_Suc)

lemma demo_body:
  "job_body demo_daemon demo_job 0 ''1'' [''w'', ''1-exchange''] True demo_credential [''w'', ''1'']
     (Some [''w'', ''1-git'']) ''a'' (mach (demo_files (Suc 0)) es) =
     (Inr demo_result, mach (demo_files 3) (es @ drop 5 demo_before @
        [ran_with [''push'', ''origin'', execution_branch ''1''], git_ran [''rev-parse'', ''HEAD''],
         git_ran [''format-patch'', ''-1'', ''--stdout'', ''HEAD'']]))"
proof -
  have d: "drop 5 demo_before =
      demo_contained (agent_container ''job'' [''w'', ''1''] [''w'', ''1-exchange''] [] None) 60
         [ReadFile [''w'', ''1-exchange'', ''output.json''] ''r'']
     @ demo_contained (validator_container ''job'' [''w'', ''1''] demo_command) 5 [] @ demo_work"
    by (simp add: demo_before_def demo_requests_def)
  have c: "demo_credential \<noteq> []" by (simp add: demo_credential_def)
  have parts: "ho_dumps demo_host s j = ''{}''" "ho_monotonic demo_host x = 0"
    "se_job_image (dm_settings demo_daemon) = ''job''" for s j x
    by (simp_all add: demo_host_def demo_daemon_def demo_settings_def)
  show ?thesis
    by (simp add: job_body_def Let_def demo_manager parts demo_input demo_job_parts demo_agent demo_validate
        demo_deliver py_str_def bindS_def seqS_def liftS_def returnS_def monotonic_def readS_def c d)
qed

lemma demo_job_exchange:
  "with_files (mkdir False [''w'', ''1-exchange'']) (mach (demo_files 0) es) = (Inr (), mach (demo_files (Suc 0)) es)"
  "cleanup demo_host (LocalWorkspaceManager demo_host [''w''] [''f'']) ''1'' (mach (demo_files 3) es) =
     (Inr (), mach (demo_files 3) es)"
  "remove_exchange [''w'', ''1-exchange''] (mach (demo_files 3) es) = (Inr (), mach (demo_files 0) es)"
    apply (simp add: with_files_def mkdir_def node_at_def mach_def demo_files_def under_def prefixes_of_def make_dirs_def)
   apply (simp add: cleanup_def demo_paths git_suffix_def bindS_def seqS_def liftS_def readS_def returnS_def
      remove_if_exists_def exists_path_def node_at_def mach_def demo_files_def under_def)
  apply (simp add: remove_exchange_def iterdir_def from_files_def bindS_def seqS_def mach_def demo_files_def
      node_at_def children_def under_def numeral_eq_Suc with_files_def unlink_def rmdir_def returnS_def)
  done

lemma demo_job_runs:
  "run_job demo_daemon demo_job (mach (demo_files 0) []) =
     (Inr demo_result, mach (demo_files 0) (demo_before @
        [ran_with [''push'', ''origin'', execution_branch ''1''], git_ran [''rev-parse'', ''HEAD''],
         git_ran [''format-patch'', ''-1'', ''--stdout'', ''HEAD'']]))"
proof -
  have execution: "str_at demo_host (JObj demo_job) ''execution_id'' = Inr ''1''"
    by (simp add: str_at_def json_at_def demo_job_def py_str_def)
  have exchange: "exchange_path demo_daemon ''1'' = [''w'', ''1-exchange'']"
    by (simp add: exchange_path_def demo_daemon_def demo_settings_def)
  have checkout: "checkout_credential demo_daemon demo_job (mach fs es) =
      (Inr (True, demo_credential), mach fs (es @ demo_requests ''CHECKOUT_READ''))" for fs es
    by (simp add: checkout_credential_def demo_source bindS_def returnS_def obj_get_def demo_job_def [THEN arg_cong, of "\<lambda>j. map_of j k" for k])
      (simp add: demo_credential_def)
  have clock: "ho_monotonic demo_host x = 0" for x by (simp add: demo_host_def)
  have split: "demo_before = demo_requests ''CHECKOUT_READ''
     @ [Ran (git_command [''w''] None [''clone'', ''--no-recurse-submodules'', ''--single-branch'', ''--branch'', ''main'',
               ''--separate-git-dir'', ''/w/1-git'', ''r'', ''/w/1'']) demo_environment (Inr demo_end),
        git_ran [''config'', ''core.hooksPath'', ''/dev/null''], git_ran [''rev-parse'', ''HEAD'']] @ drop 5 demo_before"
    by (simp add: demo_before_def demo_requests_def)
  show ?thesis
    by (subst (1) split) (simp add: run_job_def demo_manager monotonic_def clock execution exchange checkout demo_prepare demo_job_exchange demo_body
        bindS_def seqS_def liftS_def returnS_def readS_def finallyS_def del: drop_append)
qed

end
