(* ===== verification/RnProperties.thy ===== *)
theory RnProperties
  imports RnPushed RnRun
begin

text \<open>
  The properties of the runner's daemon: what a push rests on, what a job leaves behind, and that
  the polling loop always comes round again.
\<close>

section \<open>Publishing\<close>



section \<open>What a job leaves behind\<close>

lemma exists_path_iff: "exists_path q fs \<longleftrightarrow> (\<exists>p \<in> fst ` set fs. under q p)"
  by (force simp: exists_path_def node_at_def under_def dest: map_of_SomeD split: option.splits)

lemma under_trans: "under q p \<Longrightarrow> under p r \<Longrightarrow> under q r"
  by (metis take_take under_def min.absorb1 length_take min.cobounded2 nle_le)

lemma exists_path_under: "\<not> exists_path q fs \<Longrightarrow> under q p \<Longrightarrow> \<not> exists_path p fs"
  using under_trans by (auto simp: exists_path_iff)

lemma exists_path_mono: "\<not> exists_path q fs \<Longrightarrow> set fs' \<subseteq> set fs \<Longrightarrow> \<not> exists_path q fs'"
  by (auto simp: exists_path_iff)

text \<open>Removal only removes.\<close>

definition shrinks :: "'x machine \<Rightarrow> 'x machine \<Rightarrow> bool" where
  "shrinks m m' \<longleftrightarrow> set (m_files m') \<subseteq> set (m_files m)"

lemma shrinks_preorder [following]: "reflp shrinks" "transp shrinks"
  by (auto intro!: reflpI transpI simp: shrinks_def)

lemma shrinks_with_files:
  "(\<And>fs fs'. f fs = Inr fs' \<Longrightarrow> set fs' \<subseteq> set fs) \<Longrightarrow> follows shrinks (with_files f)"
  by (rule followsI) (auto simp: with_files_def shrinks_def split: sum.splits)

lemma removals_shrink:
  "rmtree q fs = Inr fs' \<Longrightarrow> set fs' \<subseteq> set fs"
  "unlink q fs = Inr fs' \<Longrightarrow> set fs' \<subseteq> set fs"
  "rmdir q fs = Inr fs' \<Longrightarrow> set fs' \<subseteq> set fs"
  by (auto simp: rmtree_def unlink_def rmdir_def split: option.splits node.splits if_splits)

lemma shrinks_each [following]: "(\<And>x. follows shrinks (f x)) \<Longrightarrow> follows shrinks (each f xs)"
  by (induction xs) (auto intro!: following)

lemma shrinks_remove_exchange: "follows shrinks (remove_exchange exchange)"
proof -
  have "follows shrinks (from_files f)" for f :: "files \<Rightarrow> rn_error + 'b"
    by (rule followsI) (simp add: from_files_def shrinks_def)
  then show ?thesis
    unfolding remove_exchange_def by (intro following shrinks_with_files removals_shrink)
qed

lemma shrinks_remove_if_exists: "follows shrinks (remove_if_exists q)"
  unfolding remove_if_exists_def by (intro following shrinks_with_files removals_shrink)

lemma remove_if_exists_removes:
  assumes "remove_if_exists q m = (Inr (), m')"
  shows "\<not> exists_path q (m_files m')"
  using assms
  by (auto simp: remove_if_exists_def bindS_def readS_def returnS_def with_files_def rmtree_def exists_path_iff
      split: if_splits option.splits node.splits)

lemma rmdir_removes:
  assumes "rmdir q fs = Inr fs'"
  shows "\<not> exists_path q fs'"
proof -
  have "set (children q fs) = {}" and fs': "fs' = filter (\<lambda>(p, _). p \<noteq> q) fs"
    using assms by (auto simp: rmdir_def split: option.splits node.splits if_splits)
  then have "\<forall>p \<in> fst ` set fs. under q p \<longrightarrow> p = q" by (auto simp: children_def)
  then show ?thesis unfolding exists_path_iff fs' by force
qed

lemma remove_exchange_removes:
  assumes "remove_exchange exchange m = (Inr (), m')"
  shows "\<not> exists_path exchange (m_files m')"
proof -
  from assms obtain t where "with_files (rmdir exchange) t = (Inr (), m')"
    by (auto simp: remove_exchange_def bindS_Inr_iff seqS_iff)
  then show ?thesis using rmdir_removes by (auto simp: with_files_def split: sum.splits)
qed

text \<open>C37: A job that returns a report, whatever its agent, git and the containers did, has left none of
  its files on the runner: no path at or below its workspace, the git directory of its clone or its
  exchange directory (where the input of the job and the output of the agent were) is left.\<close>

theorem finished_job_leaves_nothing:
  assumes "run_job d job m = (Inr report, m')"
  shows "\<exists>execution_id workspace metadata.
     str_at (dm_host d) (JObj job) ''execution_id'' = Inr execution_id \<and>
     workspace_path (dm_host d) (dm_workspaces d) execution_id = Inr workspace \<and>
     workspace_path (dm_host d) (dm_workspaces d) (git_suffix execution_id) = Inr metadata \<and>
     (\<forall>p. under workspace p \<or> under metadata p \<or> under (exchange_path d execution_id) p \<longrightarrow>
        \<not> exists_path p (m_files m'))"
proof -
  from assms obtain execution_id t u where
    execution: "str_at (dm_host d) (JObj job) ''execution_id'' = Inr execution_id"
    and cleanup: "cleanup (dm_host d) (dm_workspaces d) execution_id t = (Inr (), u)"
    and exchange: "remove_exchange (exchange_path d execution_id) u = (Inr (), m')"
    by (auto simp: run_job_def bindS_Inr_iff seqS_iff finallyS_Inr_iff liftS_def split: prod.splits)
  from cleanup obtain workspace metadata v where
    paths: "workspace_path (dm_host d) (dm_workspaces d) execution_id = Inr workspace"
      "workspace_path (dm_host d) (dm_workspaces d) (git_suffix execution_id) = Inr metadata"
    and w: "remove_if_exists workspace t = (Inr (), v)" and g: "remove_if_exists metadata v = (Inr (), u)"
    by (auto simp: cleanup_def bindS_Inr_iff seqS_iff liftS_def)
  have u: "set (m_files u) \<subseteq> set (m_files v)" and m': "set (m_files m') \<subseteq> set (m_files u)"
    using followsD [OF shrinks_remove_if_exists g] followsD [OF shrinks_remove_exchange exchange]
    by (simp_all add: shrinks_def)
  have "\<not> exists_path workspace (m_files m')" "\<not> exists_path metadata (m_files m')"
    "\<not> exists_path (exchange_path d execution_id) (m_files m')"
    using remove_if_exists_removes [OF w] remove_if_exists_removes [OF g] remove_exchange_removes [OF exchange]
      u m' exists_path_mono by blast+
  then show ?thesis using execution paths exists_path_under by blast
qed

theorem finished_job_leaves_nothing_witness:
  "\<exists>execution_id workspace. workspace_path demo_host (dm_workspaces demo_daemon) execution_id = Inr workspace \<and>
     \<not> exists_path workspace (demo_files 0)"
proof -
  have "under p p" for p by (simp add: under_def)
  then show ?thesis
    using finished_job_leaves_nothing [OF demo_job_runs] by (auto simp: mach_def demo_manager)
qed

section \<open>The polling loop\<close>

text \<open>A task that is done after finitely many slices, whatever happens in between.\<close>

inductive ends :: "('s, 'a) task \<Rightarrow> bool" where
  ends_Done: "ends (Done r)"
| ends_More: "(\<And>s. ends (fst (f s))) \<Longrightarrow> ends (More f)"

lemma heartbeat_loop_returns:
  assumes "ends task"
  shows "\<exists>r s'. heartbeat_loop beat task s = Some (r, s')"
  using assms
proof (induction arbitrary: s rule: ends.induct)
  case (ends_Done r)
  show ?case by (subst heartbeat_loop.simps) simp
next
  case (ends_More f)
  show ?case
    by (subst heartbeat_loop.simps) (use ends_More.IH [of s] in \<open>auto split: prod.splits task.splits sum.splits\<close>)
qed

lemma report_outcome_returns:
  "outcome \<noteq> None \<Longrightarrow> report_outcome outcome handler report \<noteq> None"
  by (auto simp: report_outcome_def split: prod.splits sum.splits)

text \<open>C38: One turn of the polling loop returns for every state of the world, and the loop goes on: when
  the tasks of jobs and verifications end, the wait with its heartbeats returns, whatever the services
  answer, and no exception but a cancellation leaves the turn.\<close>

theorem polling_turn_returns:
  assumes "\<And>operation. ends (dm_create_task d operation)"
  shows "\<exists>r m'. daemon_turn d m = Some (r, m') \<and> (r = Inr () \<or> r = Inl RnCancelledE)"
proof -
  have wait: "heartbeat_loop beat (dm_create_task d operation) s \<noteq> None" for beat operation s
    using heartbeat_loop_returns [OF assms] by (metis option.distinct(1))
  have "serve_job d job s \<noteq> None" for job s
    unfolding serve_job_def run_with_heartbeat_def by (intro report_outcome_returns wait)
  moreover have "serve_verification d verification s \<noteq> None" for verification s
    unfolding serve_verification_def run_provider_verification_with_heartbeat_def
    by (intro report_outcome_returns wait)
  ultimately have "daemon_poll d m \<noteq> None"
    unfolding daemon_poll_def by (auto split: prod.splits sum.splits option.splits)
  then show ?thesis
    by (auto simp: daemon_turn_def is_exception_def split: prod.splits sum.splits)
qed

lemma at_once_ends: "ends (at_once operation)"
  unfolding at_once_def by (rule ends_More) (auto split: prod.splits intro: ends_Done)

theorem polling_turn_returns_witness:
  "\<exists>r m'. daemon_turn demo_daemon (mach (demo_files 0) []) = Some (r, m') \<and> (r = Inr () \<or> r = Inl RnCancelledE)"
  by (rule polling_turn_returns) (simp add: demo_daemon_def at_once_ends)

text \<open>
  A heartbeat that raises ends the wait while the task is still unfinished: nothing cancels it, and the
  job is reported as failed with the heartbeat's error.
\<close>

lemma failed_heartbeat_abandons_the_task:
  assumes "f s = (More g, t)" and "beat t = (Inl e, u)"
  shows "heartbeat_loop beat (More f) s = Some (Inl e, u)"
  by (subst heartbeat_loop.simps) (simp add: assms)

theorem failed_heartbeat_abandons_the_job:
  assumes "dm_create_task d (run_job d job) = More f" and "f m = (More g, t)"
    and "job_heartbeat d job t = (Inl e, u)" and "is_exception e"
  shows "serve_job d job m = Some (bindS (liftS (str_at (dm_host d) (JObj job) ''job_id'')) (\<lambda>job_id.
     complete_job (dm_host d) (se_delivery_url (dm_settings d)) (dm_identity d) job_id
       (failed_job_result e (se_job_image (dm_settings d)))) u)"
  using failed_heartbeat_abandons_the_task [where f = f and beat = "job_heartbeat d job"] assms
  by (simp add: serve_job_def run_with_heartbeat_def report_outcome_def)

section \<open>A directory the agent leaves\<close>

text \<open>
  The exchange directory is removed file by file, so a directory in it, which the agent's container can
  make, stays; and a job whose exchange directory exists cannot start.
\<close>

lemma node_at_unlink:
  assumes "unlink q fs = Inr fs'" and "length q = length p" and "node_at p fs = Some Directory"
  shows "node_at p fs' = Some Directory"
proof -
  have fs': "fs' = filter (\<lambda>(r, _). r \<noteq> q) fs" and q: "is_text_file (node_at q fs)"
    using assms(1) by (auto simp: unlink_def split: option.splits node.splits)
  have "q \<noteq> p" using q assms(3) by auto
  have keep: "dget fs' p = dget fs p"
    unfolding fs' using \<open>q \<noteq> p\<close> by (induction fs) auto
  have "\<exists>r \<in> fst ` set fs. under p r" using assms(3) exists_path_iff by (auto simp: exists_path_def)
  moreover have "\<not> under p q" using \<open>q \<noteq> p\<close> assms(2) by (auto simp: under_def)
  ultimately have "\<exists>r \<in> fst ` set fs'. under p r" unfolding fs' by force
  then show ?thesis using keep assms(3) by (auto simp: node_at_def split: option.splits)
qed

lemma unlinks_stop_at_a_directory:
  assumes "p \<in> set paths" and "\<And>q. q \<in> set paths \<Longrightarrow> length q = length p"
    and "node_at p (m_files m) = Some Directory"
  shows "\<exists>e m'. each (\<lambda>q. with_files (unlink q)) paths m = (Inl e, m') \<and> node_at p (m_files m') = Some Directory"
  using assms
proof (induction paths arbitrary: m)
  case (Cons q paths)
  show ?case
  proof (cases "unlink q (m_files m)")
    case (Inl e)
    then show ?thesis using Cons.prems(3) by (simp add: seqS_def bindS_def with_files_def)
  next
    case (Inr fs')
    have l: "length q = length p" by (rule Cons.prems(2)) simp
    have d: "node_at p fs' = Some Directory"
      by (rule node_at_unlink [OF Inr l Cons.prems(3)])
    have "q \<noteq> p" using Inr Cons.prems(3) by (auto simp: unlink_def)
    then have paths: "p \<in> set paths" using Cons.prems(1) by simp
    have "\<exists>e m'. each (\<lambda>q. with_files (unlink q)) paths (m\<lparr>m_files := fs'\<rparr>) = (Inl e, m') \<and>
        node_at p (m_files m') = Some Directory"
    proof (rule Cons.IH [OF paths])
      fix q' assume "q' \<in> set paths"
      then show "length q' = length p" by (intro Cons.prems(2)) simp
    qed (simp add: d)
    moreover have "with_files (unlink q) m = (Inr (), m\<lparr>m_files := fs'\<rparr>)"
      using Inr by (simp add: with_files_def)
    ultimately show ?thesis by (simp add: seqS_def bindS_def)
  qed
qed simp

lemma directory_keeps_the_exchange:
  assumes "node_at (exchange @ [name]) (m_files m) = Some Directory"
  shows "\<exists>e m'. remove_exchange exchange m = (Inl e, m') \<and> exists_path exchange (m_files m')"
proof (cases "iterdir exchange (m_files m)")
  case (Inl e)
  have "exists_path (exchange @ [name]) (m_files m)" using assms by (simp add: exists_path_def)
  then have "exists_path exchange (m_files m)"
    using exists_path_under [of exchange "m_files m" "exchange @ [name]"] by (auto simp: under_def)
  then show ?thesis using Inl by (simp add: remove_exchange_def from_files_def bindS_def)
next
  case (Inr paths)
  then have paths: "paths = children exchange (m_files m)"
    by (auto simp: iterdir_def split: option.splits node.splits)
  obtain r where r: "r \<in> fst ` set (m_files m)" "under (exchange @ [name]) r"
    using assms exists_path_iff [of "exchange @ [name]" "m_files m"] by (auto simp: exists_path_def)
  then have t: "take (Suc (length exchange)) r = exchange @ [name]" by (simp add: under_def)
  then have u: "under exchange r" "r \<noteq> exchange"
    by (auto simp: under_def) (metis append_eq_conv_conj take_take min.absorb1 le_SucI order_refl)
  have "exchange @ [name] \<in> set paths"
    unfolding paths children_def using r(1) t u by (force simp: image_iff)
  moreover have "length q = length (exchange @ [name])" if "q \<in> set paths" for q
  proof -
    from that obtain x where "q = take (Suc (length exchange)) x" "under exchange x" "x \<noteq> exchange"
      unfolding paths children_def by auto
    then have x: "take (length exchange) x = exchange" by (simp add: under_def)
    then have "length exchange < length x"
      using \<open>x \<noteq> exchange\<close> by (metis linorder_not_less take_all)
    then show ?thesis using \<open>q = take (Suc (length exchange)) x\<close> by simp
  qed
  ultimately obtain e m' where "each (\<lambda>q. with_files (unlink q)) paths m = (Inl e, m')"
    and d: "node_at (exchange @ [name]) (m_files m') = Some Directory"
    using unlinks_stop_at_a_directory [OF _ _ assms] by blast
  moreover have "exists_path exchange (m_files m')"
    using d exists_path_under [of exchange "m_files m'" "exchange @ [name]"] by (auto simp: exists_path_def under_def)
  ultimately show ?thesis using Inr by (simp add: remove_exchange_def from_files_def bindS_def seqS_def)
qed

lemma keys_kept:
  "dget fs p \<noteq> None \<Longrightarrow> dget (fold (\<lambda>x fs. dset (g x) (h x) fs) xs fs) p \<noteq> None"
  by (induction xs arbitrary: fs) (simp_all del: not_None_eq)

lemma directories_kept:
  "dget fs p \<noteq> None \<Longrightarrow>
     dget (fold (\<lambda>q fs. if dget fs q = None then dset q Directory fs else fs) qs fs) p \<noteq> None"
  by (induction qs arbitrary: fs) (simp_all del: not_None_eq)

lemma provision_keeps:
  assumes "provision host wm execution_id m = (r, m')" and "workspace_path host wm execution_id = Inr workspace"
    and "dget (m_files m) p \<noteq> None" and "\<not> under workspace p"
  shows "dget (m_files m') p \<noteq> None"
proof -
  have copy: "dget fs' p \<noteq> None" if "copytree src dst fs = Inr fs'" and p: "dget fs p \<noteq> None" for src dst fs fs'
  proof -
    from that(1) obtain t where "mkdir False dst fs = Inr t"
      and fs': "fs' = fold (\<lambda>(q, n) fs. dset (dst @ drop (length src) q) n fs) (filter (\<lambda>(q, _). under src q) fs) t"
      by (auto simp: copytree_def split: option.splits node.splits sum.splits)
    then have "t = make_dirs dst fs" by (auto simp: mkdir_def split: option.splits if_splits)
    then have "dget t p \<noteq> None" unfolding make_dirs_def using directories_kept [OF p] by blast
    then show ?thesis unfolding fs' case_prod_beta by (rule keys_kept)
  qed
  have filtered: "dget (filter (\<lambda>(q, _). \<not> under workspace q) fs) p = dget fs p" for fs :: files
    using assms(4) by (induction fs) auto
  have tree: "dget fs' p \<noteq> None" if "rmtree workspace fs = Inr fs'" "dget fs p \<noteq> None" for fs fs'
    using that filtered [of fs] by (auto simp: rmtree_def split: option.splits node.splits)
  obtain q t where removed: "remove_if_exists workspace m = (q, t)" by fastforce
  have "t = m \<or> (\<exists>fs'. rmtree workspace (m_files m) = Inr fs' \<and> t = m\<lparr>m_files := fs'\<rparr>)"
    using removed by (auto simp: remove_if_exists_def bindS_def readS_def returnS_def with_files_def
        split: if_splits sum.splits)
  then have t: "dget (m_files t) p \<noteq> None"
  proof
    assume "t = m"
    then show ?thesis using assms(3) by simp
  next
    assume "\<exists>fs'. rmtree workspace (m_files m) = Inr fs' \<and> t = m\<lparr>m_files := fs'\<rparr>"
    then obtain fs' where fs': "rmtree workspace (m_files m) = Inr fs'" and t: "t = m\<lparr>m_files := fs'\<rparr>" by blast
    show ?thesis using tree [OF fs' assms(3)] t by simp
  qed
  have "m' = t \<or> (\<exists>fs'. copytree (wm_fixture wm) workspace (m_files t) = Inr fs' \<and> m' = t\<lparr>m_files := fs'\<rparr>)"
    using assms(1) removed
    by (auto simp: provision_def assms(2) bindS_def seqS_def liftS_def returnS_def with_files_def
        split: sum.splits)
  then show ?thesis
  proof
    assume "m' = t"
    then show ?thesis using t by simp
  next
    assume "\<exists>fs'. copytree (wm_fixture wm) workspace (m_files t) = Inr fs' \<and> m' = t\<lparr>m_files := fs'\<rparr>"
    then obtain fs' where fs': "copytree (wm_fixture wm) workspace (m_files t) = Inr fs'"
      and m': "m' = t\<lparr>m_files := fs'\<rparr>" by blast
    show ?thesis using copy [OF fs' t] m' by simp
  qed
qed

theorem stale_exchange_blocks_the_job:
  assumes "\<not> truthy (obj_get job ''repository_connection_id'')"
    and "str_at (dm_host d) (JObj job) ''execution_id'' = Inr execution_id"
    and "workspace_path (dm_host d) (dm_workspaces d) execution_id = Inr workspace"
    and "dget (m_files m) p \<noteq> None" and "under (exchange_path d execution_id) p" and "\<not> under workspace p"
  shows "\<exists>e m'. run_job d job m = (Inl e, m') \<and> exists_path (exchange_path d execution_id) (m_files m')"
proof -
  obtain r t where provision: "provision (dm_host d) (dm_workspaces d) execution_id m = (r, t)" by fastforce
  have "exists_path (exchange_path d execution_id) (m_files t)"
    using provision_keeps [OF provision assms(3,4,6)] assms(5)
    by (auto simp: exists_path_iff dest!: map_of_SomeD intro!: bexI)
  then show ?thesis
    using provision assms(1,2)
    by (cases r)
      (auto simp: run_job_def monotonic_def checkout_credential_def prepare_checkout_def bindS_def seqS_def
        liftS_def readS_def returnS_def with_files_def mkdir_def exists_path_def)
qed

end
