(* ===== verification/RnAgents.thy ===== *)
theory RnAgents
  imports RnCatalog
begin

text \<open>
  The agent runtimes of the runner: \<open>adapters/deterministic_agent.py\<close>, \<open>adapters/codex_cli.py\<close>,
  \<open>adapters/claude_code_cli.py\<close> and \<open>adapters/claude_agent_sdk.py\<close>, with their registry
  (\<open>adapters/agent_registry.py\<close>). An agent object is fresh for each job: its mutable fields are
  \<open>ao_cancelled\<close> and \<open>ao_events\<close>, threaded through its operations; the process it started has
  ended when \<open>execute\<close> returns. What the Agent SDK's \<open>query()\<close> yields is a parameter.
\<close>

record agent_object =
  ao_secret :: "string option"
  ao_endpoint :: "provider_endpoint option"
  ao_executable :: string
  ao_events :: "agent_event list"
  ao_cancelled :: bool

definition new_agent :: "string option \<Rightarrow> provider_endpoint option \<Rightarrow> string \<Rightarrow> agent_object" where
  "new_agent secret endpoint executable =
     \<lparr>ao_secret = secret, ao_endpoint = endpoint, ao_executable = executable, ao_events = [],
      ao_cancelled = False\<rparr>"

text \<open>\<open>cancel()\<close> of an agent whose process, if it had one, has ended; \<open>stream()\<close>.\<close>

definition agent_cancel :: "agent_object \<Rightarrow> agent_object" where
  "agent_cancel agent = agent\<lparr>ao_cancelled := True\<rparr>"

definition agent_stream :: "agent_object \<Rightarrow> agent_event list" where
  "agent_stream agent = ao_events agent"

definition failed_agent_result :: "string \<Rightarrow> agent_event list \<Rightarrow> agent_result" where
  "failed_agent_result summary events =
     \<lparr>res_success = False, res_summary = summary, res_session_id = None, res_input_tokens = None,
      res_cached_input_tokens = None, res_output_tokens = None, res_turns = 0,
      res_changed_paths = [], res_events = events\<rparr>"

definition count_kind :: "agent_event_kind \<Rightarrow> agent_event list \<Rightarrow> int" where
  "count_kind kind events = int (length (filter (\<lambda>e. evt_kind e = kind) events))"

text \<open>\<open>len(events) + 1\<close>.\<close>

definition next_sequence :: "agent_event list \<Rightarrow> int" where
  "next_sequence events = int (length events) + 1"

fun int_or_none :: "json \<Rightarrow> int option" where
  "int_or_none (JStr s) = None"
| "int_or_none j = py_int j"

definition str_or_none :: "'x host \<Rightarrow> json \<Rightarrow> string option" where
  "str_or_none host j = (if j = JNull then None else Some (py_str (ho_repr host) j))"

text \<open>\<open>os.environ.get(name, default)\<close>, and the environment the two CLIs start from.\<close>

definition env_get :: "(string, string) dict \<Rightarrow> string \<Rightarrow> string \<Rightarrow> string" where
  "env_get environ name dflt = (case dget environ name of None \<Rightarrow> dflt | Some v \<Rightarrow> v)"

definition base_environment :: "(string, string) dict \<Rightarrow> string \<Rightarrow> (string, string) dict" where
  "base_environment environ home =
     fold (\<lambda>name d. case dget environ name of None \<Rightarrow> d | Some v \<Rightarrow> dset name v d)
       [''HTTPS_PROXY'', ''HTTP_PROXY'', ''NO_PROXY'']
       [(''PATH'', env_get environ ''PATH'' ''''), (''HOME'', env_get environ ''HOME'' home)]"

definition with_secret ::
  "agent_object \<Rightarrow> (string, string) dict \<Rightarrow> rn_error + (string, string) dict" where
  "with_secret agent environment =
     (case (ao_endpoint agent, ao_secret agent) of
        (Some endpoint, Some secret) \<Rightarrow>
          map_sum id (\<lambda>update. fold (\<lambda>(k, v) d. dset k v d) update environment)
            (environment_for endpoint (Some secret))
      | _ \<Rightarrow> Inl (RunnerE (UnsupportedAuthenticationMode
               ''API_KEY_REFERENCE requires a resolved secret and provider endpoint'')))"

section \<open>The deterministic agent\<close>

definition deterministic_capabilities :: agent_capabilities where
  "deterministic_capabilities =
     \<lparr>cap_supports_resume = False, cap_supports_structured_events = True, cap_supports_usage = True,
      cap_supports_approval = False, cap_supported_authentication_modes = [''NONE'']\<rparr>"

definition deterministic_events :: "agent_event list" where
  "deterministic_events =
     [\<lparr>evt_sequence = 1, evt_kind = EK_PLAN, evt_name = ''plan.created'',
       evt_message = ''Update the fixture status card and its deterministic assertion.'',
       evt_metadata = []\<rparr>,
      \<lparr>evt_sequence = 2, evt_kind = EK_TOOL, evt_name = ''file.updated'',
       evt_message = ''Updated src/status.json in the isolated workspace.'',
       evt_metadata = [(''path'', JStr ''src/status.json'')]\<rparr>,
      \<lparr>evt_sequence = 3, evt_kind = EK_RESULT, evt_name = ''agent.completed'',
       evt_message = ''Deterministic fixture change completed; independent validation is pending.'',
       evt_metadata = []\<rparr>]"

definition deterministic_execute ::
  "'x host \<Rightarrow> agent_object \<Rightarrow> agent_request \<Rightarrow> ('x, agent_result \<times> agent_object) act" where
  "deterministic_execute host agent request =
     (if ao_cancelled agent then raiseS RnCancelledE
      else
        let target = ho_resolve host (req_workspace request @ [''src'', ''status.json'']) in
        if \<not> under (ho_resolve host (req_workspace request)) target
        then raiseS (RnValueE ''target escaped workspace'')
        else
          bindS (from_files (read_text target)) (\<lambda>text.
          bindS (requireS (RnValueE ''JSONDecodeError'') (ho_loads host text)) (\<lambda>current.
          case current of
            JObj kvs \<Rightarrow>
              seqS (with_files (write_text target (ho_dumps host Indented
                     (JObj (dset ''status'' (JStr ''Delivered by deterministic local agent'')
                       (dset ''title'' (JStr (req_title request)) kvs))) @ [CHR 0x0A])))
              (returnS
                (\<lparr>res_success = True, res_summary = ''Updated the delivery status fixture.'',
                  res_session_id = None, res_input_tokens = Some 0, res_cached_input_tokens = Some 0,
                  res_output_tokens = Some 0, res_turns = 1,
                  res_changed_paths = [''src/status.json''], res_events = deterministic_events\<rparr>,
                 agent\<lparr>ao_events := deterministic_events\<rparr>))
          | _ \<Rightarrow> raiseS RnTypeE)))"

section \<open>Codex\<close>

definition codex_capabilities :: agent_capabilities where
  "codex_capabilities =
     \<lparr>cap_supports_resume = True, cap_supports_structured_events = True, cap_supports_usage = True,
      cap_supports_approval = True,
      cap_supported_authentication_modes = [''LOCAL_SESSION'', ''API_KEY_REFERENCE'']\<rparr>"

definition KIND_BY_EVENT_TYPE :: "(string, agent_event_kind) dict" where
  "KIND_BY_EVENT_TYPE =
     [(''item.started'', EK_PLAN), (''item.updated'', EK_PLAN), (''item.completed'', EK_TOOL),
      (''turn.completed'', EK_USAGE), (''turn.failed'', EK_ERROR), (''error'', EK_ERROR)]"

definition cli_available :: "'x host \<Rightarrow> agent_object \<Rightarrow> ('x, bool) act" where
  "cli_available host agent =
     bindS (readS m_environ) (\<lambda>environment.
     bindS (run_process host [ao_executable agent, ''--version''] environment None None) (\<lambda>process.
     returnS (pe_returncode process = 0)))"

definition codex_environment ::
  "(string, string) dict \<Rightarrow> agent_object \<Rightarrow> agent_request \<Rightarrow> rn_error + (string, string) dict" where
  "codex_environment environ agent request =
     (let environment = base_environment environ ''/nonexistent'' in
      if req_authentication_mode request = ''LOCAL_SESSION''
      then Inr (dset ''CODEX_HOME'' (env_get environ ''CODEX_HOME'' ''/home/app/.codex'') environment)
      else if req_authentication_mode request = ''API_KEY_REFERENCE'' then with_secret agent environment
      else Inl (RunnerE (UnsupportedAuthenticationMode
             (''codex-cli does not support authentication_mode '' @ repr_str (req_authentication_mode request)))))"

text \<open>What a parser of NDJSON output has read so far.\<close>

record stream_state =
  st_events :: "agent_event list"
  st_session :: "string option"
  st_input :: "int option"
  st_cached :: "int option"
  st_output :: "int option"
  st_success :: bool

definition stream_start :: stream_state where
  "stream_start = \<lparr>st_events = [], st_session = None, st_input = None, st_cached = None,
     st_output = None, st_success = True\<rparr>"

definition add_event ::
  "agent_event_kind \<Rightarrow> string \<Rightarrow> string \<Rightarrow> (string \<times> json) list \<Rightarrow> agent_event list \<Rightarrow> agent_event list" where
  "add_event kind name message metadata events =
     events @ [\<lparr>evt_sequence = next_sequence events, evt_kind = kind, evt_name = name,
       evt_message = message, evt_metadata = metadata\<rparr>]"

text \<open>
  The loop over the lines of the output: a line that is not JSON is skipped, a document that is
  not an object raises.
\<close>

fun parse_lines ::
  "(string \<Rightarrow> json option) \<Rightarrow> ((string \<times> json) list \<Rightarrow> stream_state \<Rightarrow> stream_state) \<Rightarrow>
     string list \<Rightarrow> stream_state \<Rightarrow> rn_error + stream_state" where
  "parse_lines loads f [] st = Inr st"
| "parse_lines loads f (line # lines) st =
     (case loads line of
        None \<Rightarrow> parse_lines loads f lines st
      | Some (JObj document) \<Rightarrow> parse_lines loads f lines (f document st)
      | Some _ \<Rightarrow> Inl RnAttributeE)"

definition token_metadata :: "stream_state \<Rightarrow> (string \<times> json) list" where
  "token_metadata st =
     [(''input_tokens'', int_json (st_input st)), (''cached_input_tokens'', int_json (st_cached st)),
      (''output_tokens'', int_json (st_output st))]"

definition read_usage :: "string \<Rightarrow> (string \<times> json) list \<Rightarrow> stream_state \<Rightarrow> stream_state" where
  "read_usage cached usage st =
     st\<lparr>st_input := int_or_none (obj_get usage ''input_tokens''),
        st_cached := int_or_none (obj_get usage cached),
        st_output := int_or_none (obj_get usage ''output_tokens'')\<rparr>"

definition codex_document ::
  "'x host \<Rightarrow> (string \<times> json) list \<Rightarrow> stream_state \<Rightarrow> stream_state" where
  "codex_document host document st =
     (let event_type = py_str (ho_repr host) (obj_get_default document ''type'' (JStr ''runtime.event''));
          kind = (case dget KIND_BY_EVENT_TYPE event_type of None \<Rightarrow> EK_TOOL | Some k \<Rightarrow> k);
          (st', metadata) =
            (case obj_get document ''usage'' of
               JObj usage \<Rightarrow> (let u = read_usage ''cached_input_tokens'' usage st in (u, token_metadata u))
             | _ \<Rightarrow> (st, [])) in
      st'\<lparr>st_events := add_event kind event_type ''Codex emitted a structured runtime event.'' metadata
            (st_events st')\<rparr>)"

definition codex_parse :: "'x host \<Rightarrow> string \<Rightarrow> rn_error + stream_state" where
  "codex_parse host stdout = parse_lines (ho_loads host) (codex_document host) (splitlines stdout) stream_start"

definition timeout_event :: "string \<Rightarrow> agent_event list" where
  "timeout_event message = add_event EK_ERROR ''runtime.timeout'' message [] []"

text \<open>The events after the output was parsed: one more when the process wrote to stderr.\<close>

definition stderr_event :: "string \<Rightarrow> agent_event list \<Rightarrow> agent_event list" where
  "stderr_event stderr events =
     (if stderr = [] then events
      else add_event EK_ERROR ''runtime.stderr'' (last_chars 2000 stderr) [] events)"

text \<open>\<open>try: m except TimeoutError: handler\<close>.\<close>

definition on_timeout :: "('x, 'a) act \<Rightarrow> ('x, 'a) act \<Rightarrow> ('x, 'a) act" where
  "on_timeout m handler s =
     (case m s of (Inl RnTimeoutE, s') \<Rightarrow> handler s' | r \<Rightarrow> r)"

definition codex_arguments :: "agent_object \<Rightarrow> agent_request \<Rightarrow> string list" where
  "codex_arguments agent request =
     [ao_executable agent, ''exec'', ''--json'', ''--sandbox'', ''workspace-write'', ''--model'',
      req_model request, ''--cd'', path_str (req_workspace request), build_prompt request]"

definition codex_execute ::
  "'x host \<Rightarrow> agent_object \<Rightarrow> agent_request \<Rightarrow> ('x, agent_result \<times> agent_object) act" where
  "codex_execute host agent request =
     (if ao_cancelled agent then raiseS RnCancelledE
      else
        bindS (readS m_environ) (\<lambda>environ.
        bindS (liftS (codex_environment environ agent request)) (\<lambda>environment.
        bindS (on_timeout
          (bindS (run_process host (codex_arguments agent request) environment None
                   (Some (req_max_duration_seconds request))) (\<lambda>process. returnS (Some process)))
          (returnS None)) (\<lambda>outcome.
        case outcome of
          None \<Rightarrow>
            let events = timeout_event ''Codex CLI did not finish within max_duration_seconds.'' in
            returnS (failed_agent_result ''Codex CLI timed out.'' events,
              (agent_cancel agent)\<lparr>ao_events := events\<rparr>)
        | Some process \<Rightarrow>
            bindS (liftS (codex_parse host (pe_stdout process))) (\<lambda>st.
            let events = stderr_event (pe_stderr process) (st_events st);
                success = (pe_returncode process = 0) in
            bindS (changed_paths host (req_workspace request)) (\<lambda>changed.
            returnS
              (\<lparr>res_success = success,
                res_summary = (if success then ''Codex CLI completed.'' else ''Codex CLI failed.''),
                res_session_id = None, res_input_tokens = st_input st,
                res_cached_input_tokens = st_cached st, res_output_tokens = st_output st,
                res_turns = count_kind EK_USAGE events, res_changed_paths = changed,
                res_events = events\<rparr>,
               agent\<lparr>ao_events := events\<rparr>)))))))"

end
