(* ===== verification/RnClaude.thy ===== *)
theory RnClaude
  imports RnAgents
begin

text \<open>
  \<open>adapters/claude_code_cli.py\<close> and \<open>adapters/claude_agent_sdk.py\<close> of the runner, and the
  registry \<open>build_agents\<close>. The messages the SDK's \<open>query()\<close> yields, and how the loop over them
  ends, are a parameter: \<open>sdk_run\<close>. In messages two hyphens stand for the em dash, which is
  outside the code points of \<open>string\<close>.
\<close>

section \<open>Claude Code\<close>

definition claude_capabilities :: agent_capabilities where
  "claude_capabilities =
     \<lparr>cap_supports_resume = False, cap_supports_structured_events = True, cap_supports_usage = True,
      cap_supports_approval = False,
      cap_supported_authentication_modes = [''LOCAL_SESSION'', ''API_KEY_REFERENCE'']\<rparr>"

definition path_of_str :: "string \<Rightarrow> path" where
  "path_of_str s = filter (\<lambda>c. c \<noteq> []) (split_on (CHR ''/'') s)"

definition prepare_local_session :: "string \<Rightarrow> ('x, string) act" where
  "prepare_local_session home =
     bindS (readS (\<lambda>m. (path_of_str (env_get (m_environ m) ''CLAUDE_SESSION_MOUNT'' ''/run/secrets/claude''),
                        m_files m))) (\<lambda>(mounted, fs).
     let target = path_of_str home @ [''.claude''] in
     seqS (if exists_path mounted fs \<and> \<not> exists_path target fs
           then with_files (copytree mounted target) else returnS ())
     (returnS (path_str target)))"

definition claude_environment :: "agent_object \<Rightarrow> agent_request \<Rightarrow> ('x, (string, string) dict) act" where
  "claude_environment agent request =
     bindS (readS (\<lambda>m. base_environment (m_environ m) ''/home/app'')) (\<lambda>environment.
     if req_authentication_mode request = ''LOCAL_SESSION'' then
       if req_provider request \<noteq> ''anthropic'' then
         raiseS (RunnerE (UnsupportedAuthenticationMode
           (''LOCAL_SESSION is only valid with provider '' @ repr_str ''anthropic'' @ '' -- a ''
            @ ''subscription session cannot authenticate a third-party endpoint'')))
       else
         bindS (prepare_local_session (env_get environment ''HOME'' ''''))
           (\<lambda>directory. returnS (dset ''CLAUDE_CONFIG_DIR'' directory environment))
     else if req_authentication_mode request = ''API_KEY_REFERENCE''
     then liftS (with_secret agent environment)
     else raiseS (RunnerE (UnsupportedAuthenticationMode
            (''claude-code-cli does not support authentication_mode ''
             @ repr_str (req_authentication_mode request)))))"

text \<open>\<open>message.get("content", [])\<close> when there is a message with a list of blocks.\<close>

definition content_blocks :: "(string \<times> json) list \<Rightarrow> json list" where
  "content_blocks document =
     (case obj_get document ''message'' of
        JObj message \<Rightarrow>
          (case obj_get_default message ''content'' (JList []) of JList blocks \<Rightarrow> blocks | _ \<Rightarrow> [])
      | _ \<Rightarrow> [])"

definition tool_use_event :: "string \<Rightarrow> string \<Rightarrow> agent_event list \<Rightarrow> agent_event list" where
  "tool_use_event agent_name tool_name =
     add_event (if tool_name = ''Bash'' then EK_COMMAND else EK_TOOL) (''tool_use.'' @ tool_name)
       (agent_name @ '' invoked the '' @ tool_name @ '' tool.'') [(''tool.name'', JStr tool_name)]"

definition assistant_block :: "'x host \<Rightarrow> json \<Rightarrow> agent_event list \<Rightarrow> agent_event list" where
  "assistant_block host block events =
     (case block of
        JObj b \<Rightarrow>
          if obj_get b ''type'' = JStr ''text'' then
            add_event EK_PLAN ''assistant.text''
              (take 2000 (py_str (ho_repr host) (obj_get_default b ''text'' (JStr '''')))) [] events
          else if obj_get b ''type'' = JStr ''tool_use'' then
            tool_use_event ''Claude Code CLI''
              (py_str (ho_repr host) (obj_get_default b ''name'' (JStr ''unknown''))) events
          else events
      | _ \<Rightarrow> events)"

definition tool_result_block :: "'x host \<Rightarrow> json \<Rightarrow> agent_event list \<Rightarrow> agent_event list" where
  "tool_result_block host block events =
     (case block of
        JObj b \<Rightarrow>
          if obj_get b ''type'' = JStr ''tool_result'' \<and> truthy (obj_get b ''is_error'') then
            add_event EK_ERROR ''tool_result.error''
              (take 2000 (py_str (ho_repr host) (obj_get_default b ''content'' (JStr '''')))) [] events
          else events
      | _ \<Rightarrow> events)"

definition session_event :: "'x host \<Rightarrow> (string \<times> json) list \<Rightarrow> agent_event list \<Rightarrow> agent_event list" where
  "session_event host document =
     add_event EK_PLAN ''session.initialized'' ''Claude Code CLI session started.''
       (case map_of document ''model'' of
          None \<Rightarrow> []
        | Some v \<Rightarrow> [(''model'', opt_str (str_or_none host v))])"

text \<open>The final result: its event, and a second one when token counts were reported.\<close>

definition result_events :: "string \<Rightarrow> string \<Rightarrow> stream_state \<Rightarrow> agent_event list" where
  "result_events agent_name subtype st =
     (let events = add_event (if st_success st then EK_RESULT else EK_ERROR) (''result.'' @ subtype)
                     (agent_name @ '' reported a final result.'') (token_metadata st) (st_events st) in
      if st_input st \<noteq> None \<or> st_output st \<noteq> None
      then add_event EK_USAGE ''usage.reported'' (agent_name @ '' reported token usage.'')
             (token_metadata st) events
      else events)"

definition claude_result :: "'x host \<Rightarrow> (string \<times> json) list \<Rightarrow> stream_state \<Rightarrow> stream_state" where
  "claude_result host document st =
     (let session = (case str_or_none host (obj_get document ''session_id'') of
            None \<Rightarrow> st_session st | Some s \<Rightarrow> if s = [] then st_session st else Some s);
          subtype = py_str (ho_repr host) (obj_get_default document ''subtype'' (JStr ''''));
          st1 = st\<lparr>st_session := session,
                   st_success := \<not> truthy (obj_get_default document ''is_error'' (JBool False))\<rparr>;
          st2 = (case obj_get document ''usage'' of
                   JObj usage \<Rightarrow> read_usage ''cache_read_input_tokens'' usage st1 | _ \<Rightarrow> st1) in
      st2\<lparr>st_events := result_events ''Claude Code CLI'' (if subtype = [] then ''unknown'' else subtype) st2\<rparr>)"

definition claude_document :: "'x host \<Rightarrow> (string \<times> json) list \<Rightarrow> stream_state \<Rightarrow> stream_state" where
  "claude_document host document st =
     (let message_type = py_str (ho_repr host) (obj_get_default document ''type'' (JStr ''runtime.event'')) in
      if message_type = ''system'' \<and> obj_get document ''subtype'' = JStr ''init'' then
        st\<lparr>st_session := str_or_none host (obj_get document ''session_id''),
           st_events := session_event host document (st_events st)\<rparr>
      else if message_type = ''assistant'' then
        st\<lparr>st_events := fold (assistant_block host) (content_blocks document) (st_events st)\<rparr>
      else if message_type = ''user'' then
        st\<lparr>st_events := fold (tool_result_block host) (content_blocks document) (st_events st)\<rparr>
      else if message_type = ''result'' then claude_result host document st
      else
        st\<lparr>st_events := add_event EK_TOOL message_type
             ''Claude Code CLI emitted a structured runtime event.'' [] (st_events st)\<rparr>)"

definition claude_parse :: "'x host \<Rightarrow> string \<Rightarrow> rn_error + stream_state" where
  "claude_parse host stdout =
     parse_lines (ho_loads host) (claude_document host) (splitlines stdout) stream_start"

definition claude_arguments :: "agent_object \<Rightarrow> agent_request \<Rightarrow> string list" where
  "claude_arguments agent request =
     [ao_executable agent, ''-p'', build_prompt request, ''--output-format'', ''stream-json'',
      ''--verbose'', ''--max-turns'', str_int (req_max_turns request), ''--model'', req_model request,
      ''--permission-mode'', ''acceptEdits'']
     @ (if req_authentication_mode request = ''API_KEY_REFERENCE'' then [''--bare''] else [])"

definition claude_execute ::
  "'x host \<Rightarrow> agent_object \<Rightarrow> agent_request \<Rightarrow> ('x, agent_result \<times> agent_object) act" where
  "claude_execute host agent request =
     (if ao_cancelled agent then raiseS RnCancelledE
      else
        bindS (claude_environment agent request) (\<lambda>environment.
        bindS (on_timeout
          (bindS (run_process host (claude_arguments agent request) environment
                   (Some (req_workspace request)) (Some (req_max_duration_seconds request)))
             (\<lambda>process. returnS (Some process)))
          (returnS None)) (\<lambda>outcome.
        case outcome of
          None \<Rightarrow>
            let events = timeout_event ''Claude Code CLI did not finish within max_duration_seconds.'' in
            returnS (failed_agent_result ''Claude Code CLI timed out.'' events,
              (agent_cancel agent)\<lparr>ao_events := events\<rparr>)
        | Some process \<Rightarrow>
            bindS (liftS (claude_parse host (pe_stdout process))) (\<lambda>st.
            let events = stderr_event (pe_stderr process) (st_events st);
                success = (pe_returncode process = 0 \<and> st_success st) in
            bindS (changed_paths host (req_workspace request)) (\<lambda>changed.
            returnS
              (\<lparr>res_success = success,
                res_summary = (if success then ''Claude Code CLI completed.'' else ''Claude Code CLI failed.''),
                res_session_id = st_session st, res_input_tokens = st_input st,
                res_cached_input_tokens = st_cached st, res_output_tokens = st_output st,
                res_turns = count_kind EK_RESULT events, res_changed_paths = changed,
                res_events = events\<rparr>,
               agent\<lparr>ao_events := events\<rparr>))))))"

section \<open>The Claude Agent SDK\<close>

datatype sdk_block = TextBlock string | ToolUseBlock string | OtherBlock

text \<open>
  A message of the SDK: the subtype and the session of a system message, the blocks of an
  assistant message, and the error flag, result text, session, usage and subtype of a result.
\<close>

datatype sdk_message =
    SystemMessage string "string option"
  | AssistantMessage "sdk_block list"
  | ResultMessage bool "string option" "string option" json string
  | OtherMessage

datatype sdk_end = SdkFinished | SdkTimeout | SdkCancelled | SdkRaised string

record sdk_options =
  so_cwd :: string
  so_model :: string
  so_max_turns :: int
  so_permission_mode :: string
  so_allowed_tools :: "string list"
  so_setting_sources :: "string list"
  so_env :: "(string, string) dict"

definition sdk_capabilities :: agent_capabilities where
  "sdk_capabilities =
     \<lparr>cap_supports_resume = False, cap_supports_structured_events = True, cap_supports_usage = True,
      cap_supports_approval = False, cap_supported_authentication_modes = [''API_KEY_REFERENCE'']\<rparr>"

definition sdk_block_event :: "sdk_block \<Rightarrow> agent_event list \<Rightarrow> agent_event list" where
  "sdk_block_event block events =
     (case block of
        TextBlock text \<Rightarrow> add_event EK_PLAN ''assistant.text'' (take 2000 text) [] events
      | ToolUseBlock name \<Rightarrow> tool_use_event ''Claude Agent SDK'' name events
      | OtherBlock \<Rightarrow> events)"

text \<open>The state of the loop: what the stream carries, and the summary of the result.\<close>

definition sdk_message_step :: "sdk_message \<Rightarrow> stream_state \<times> string \<Rightarrow> stream_state \<times> string" where
  "sdk_message_step message acc =
     (case acc of (st, summary) \<Rightarrow>
      (case message of
        SystemMessage subtype session \<Rightarrow>
          if subtype = ''init'' then
            (st\<lparr>st_session := session,
                st_events := add_event EK_PLAN ''session.initialized''
                  ''Claude Agent SDK session started.'' [] (st_events st)\<rparr>, summary)
          else (st, summary)
      | AssistantMessage blocks \<Rightarrow> (st\<lparr>st_events := fold sdk_block_event blocks (st_events st)\<rparr>, summary)
      | ResultMessage is_error text session usage subtype \<Rightarrow>
          let st1 = st\<lparr>st_success := \<not> is_error, st_session := session\<rparr>;
              st2 = (case usage of
                       JObj u \<Rightarrow> read_usage ''cache_read_input_tokens'' u st1 | _ \<Rightarrow> st1) in
          (st2\<lparr>st_events := result_events ''Claude Agent SDK'' subtype st2\<rparr>,
           (case text of None \<Rightarrow> '''' | Some t \<Rightarrow> t))
      | OtherMessage \<Rightarrow> (st, summary)))"

definition sdk_finish :: "sdk_end \<Rightarrow> stream_state \<times> string \<Rightarrow> stream_state \<times> string" where
  "sdk_finish ended acc =
     (case acc of (st, summary) \<Rightarrow>
      (case ended of
        SdkFinished \<Rightarrow> (st, summary)
      | SdkTimeout \<Rightarrow>
          (st\<lparr>st_success := False, st_events := add_event EK_ERROR ''runtime.timeout''
             ''Claude Agent SDK did not finish within max_duration_seconds.'' [] (st_events st)\<rparr>,
           ''Claude Agent SDK timed out.'')
      | SdkCancelled \<Rightarrow>
          (st\<lparr>st_success := False, st_events := add_event EK_ERROR ''runtime.cancelled''
             ''Claude Agent SDK execution was cancelled.'' [] (st_events st)\<rparr>,
           ''Claude Agent SDK was cancelled.'')
      | SdkRaised error \<Rightarrow>
          (st\<lparr>st_success := False, st_events := add_event EK_ERROR ''runtime.sdk_error''
             (take 2000 error) [] (st_events st)\<rparr>,
           take 4000 (''Claude Agent SDK reported an error: '' @ error))))"

definition sdk_settings :: "agent_request \<Rightarrow> string \<Rightarrow> sdk_options" where
  "sdk_settings request secret =
     \<lparr>so_cwd = path_str (req_workspace request), so_model = req_model request,
      so_max_turns = req_max_turns request, so_permission_mode = ''acceptEdits'',
      so_allowed_tools = [''Read'', ''Write'', ''Edit'', ''Bash'', ''Glob'', ''Grep''],
      so_setting_sources = [], so_env = [(''ANTHROPIC_API_KEY'', secret)]\<rparr>"

definition sdk_execute ::
  "'x host \<Rightarrow> (string \<Rightarrow> sdk_options \<Rightarrow> int \<Rightarrow> ('x, sdk_message list \<times> sdk_end) act) \<Rightarrow> bool \<Rightarrow>
     agent_object \<Rightarrow> agent_request \<Rightarrow> ('x, agent_result \<times> agent_object) act" where
  "sdk_execute host sdk_run sdk_available agent request =
     (if ao_cancelled agent then raiseS RnCancelledE
      else if \<not> sdk_available then
        raiseS (RnRuntimeE ''claude-agent-sdk is not installed in this job image'')
      else if req_authentication_mode request \<noteq> ''API_KEY_REFERENCE'' then
        raiseS (RunnerE (UnsupportedAuthenticationMode
          (''claude-agent-sdk only supports API_KEY_REFERENCE -- Anthropic's terms ''
           @ ''do not permit third-party subscription login through the Agent SDK'')))
      else if req_provider request \<noteq> ''anthropic'' then
        raiseS (RunnerE (UnsupportedAuthenticationMode
          (''claude-agent-sdk only supports the first-party '' @ repr_str ''anthropic'' @ '' provider ''
           @ ''in this increment'')))
      else (case ao_secret agent of
          None \<Rightarrow> raiseS (RunnerE (UnsupportedAuthenticationMode
                    ''API_KEY_REFERENCE requires a resolved secret''))
        | Some secret \<Rightarrow>
            bindS (sdk_run (build_prompt request) (sdk_settings request secret)
                     (req_max_duration_seconds request)) (\<lambda>(messages, ended).
            let (st, summary) = sdk_finish ended (fold sdk_message_step messages
                  (stream_start\<lparr>st_success := False\<rparr>, ''Claude Agent SDK produced no result message.''))
            in
            bindS (changed_paths host (req_workspace request)) (\<lambda>changed.
            returnS
              (\<lparr>res_success = st_success st,
                res_summary = (if summary \<noteq> [] then summary
                   else if st_success st then ''Claude Agent SDK completed.''
                   else ''Claude Agent SDK failed.''),
                res_session_id = st_session st, res_input_tokens = st_input st,
                res_cached_input_tokens = st_cached st, res_output_tokens = st_output st,
                res_turns = count_kind EK_RESULT (st_events st), res_changed_paths = changed,
                res_events = st_events st\<rparr>,
               agent\<lparr>ao_events := st_events st\<rparr>)))))"

section \<open>The registry\<close>

datatype agent_adapter = DeterministicAgent | CodexCliAgent | ClaudeCodeCliAgent | ClaudeAgentSdkAgent

fun adapter_capabilities :: "agent_adapter \<Rightarrow> agent_capabilities" where
  "adapter_capabilities DeterministicAgent = deterministic_capabilities"
| "adapter_capabilities CodexCliAgent = codex_capabilities"
| "adapter_capabilities ClaudeCodeCliAgent = claude_capabilities"
| "adapter_capabilities ClaudeAgentSdkAgent = sdk_capabilities"

definition build_agents ::
  "string option \<Rightarrow> provider_endpoint \<Rightarrow> (string, agent_adapter \<times> agent_object) dict" where
  "build_agents secret endpoint =
     [(''deterministic'', DeterministicAgent, new_agent None None ''''),
      (''codex-cli'', CodexCliAgent, new_agent secret (Some endpoint) ''codex''),
      (''claude-code-cli'', ClaudeCodeCliAgent, new_agent secret (Some endpoint) ''claude''),
      (''claude-agent-sdk'', ClaudeAgentSdkAgent, new_agent secret (Some endpoint) '''')]"

text \<open>What the job process is given: its host, and the Agent SDK of its image.\<close>

record 'x job_host =
  jh_host :: "'x host"
  jh_sdk_run :: "string \<Rightarrow> sdk_options \<Rightarrow> int \<Rightarrow> ('x, sdk_message list \<times> sdk_end) act"
  jh_sdk_available :: bool

fun adapter_execute ::
  "'x job_host \<Rightarrow> agent_adapter \<Rightarrow> agent_object \<Rightarrow> agent_request \<Rightarrow> ('x, agent_result \<times> agent_object) act" where
  "adapter_execute jh DeterministicAgent agent request = deterministic_execute (jh_host jh) agent request"
| "adapter_execute jh CodexCliAgent agent request = codex_execute (jh_host jh) agent request"
| "adapter_execute jh ClaudeCodeCliAgent agent request = claude_execute (jh_host jh) agent request"
| "adapter_execute jh ClaudeAgentSdkAgent agent request =
     sdk_execute (jh_host jh) (jh_sdk_run jh) (jh_sdk_available jh) agent request"

definition adapter_available :: "'x job_host \<Rightarrow> agent_adapter \<Rightarrow> agent_object \<Rightarrow> ('x, bool) act" where
  "adapter_available jh adapter agent =
     (case adapter of
        DeterministicAgent \<Rightarrow> returnS True
      | ClaudeAgentSdkAgent \<Rightarrow> returnS (jh_sdk_available jh)
      | _ \<Rightarrow> cli_available (jh_host jh) agent)"

end
