(* ===== verification/RnJob.thy ===== *)
theory RnJob
  imports RnClaude
begin

text \<open>
  \<open>entrypoints/job.py\<close> of the runner: the process inside the agent's container. It reads the job
  from \<open>input.json\<close>, takes the model credential out of its environment, runs the agent the job
  names and writes the result to \<open>output.json\<close>.
\<close>

text \<open>\<open>str(payload[key])\<close> for the fields of the request, and the whole request.\<close>

definition uuid_at :: "'x host \<Rightarrow> json \<Rightarrow> string \<Rightarrow> rn_error + uuid" where
  "uuid_at host payload key =
     (case str_at host payload key of
        Inl e \<Rightarrow> Inl e
      | Inr s \<Rightarrow> (case uuid_of_str s of
            None \<Rightarrow> Inl (RnValueE ''badly formed hexadecimal UUID string'') | Some u \<Rightarrow> Inr u))"

definition reference_payload :: "json \<Rightarrow> rn_error + secret_reference option" where
  "reference_payload payload =
     (case json_get payload ''secret_reference'' JNull of
        Inl e \<Rightarrow> Inl e
      | Inr r \<Rightarrow>
          if \<not> truthy r then Inr None
          else (case secret_reference_of_json r of
                  Inr reference \<Rightarrow> Inr (Some reference)
                | Inl _ \<Rightarrow> Inl (case r of JObj _ \<Rightarrow> RnOtherE ''ValidationError'' | _ \<Rightarrow> RnTypeE)))"

definition request_of :: "'x host \<Rightarrow> json \<Rightarrow> rn_error + agent_request" where
  "request_of host payload =
     (case reference_payload payload of Inl e \<Rightarrow> Inl e | Inr reference \<Rightarrow>
     (case uuid_at host payload ''execution_id'' of Inl e \<Rightarrow> Inl e | Inr execution_id \<Rightarrow>
     (case uuid_at host payload ''organization_id'' of Inl e \<Rightarrow> Inl e | Inr organization_id \<Rightarrow>
     (case json_get payload ''provider'' (JStr ''local'') of Inl e \<Rightarrow> Inl e | Inr provider \<Rightarrow>
     (case str_at host payload ''model'' of Inl e \<Rightarrow> Inl e | Inr model \<Rightarrow>
     (case str_at host payload ''authentication_mode'' of Inl e \<Rightarrow> Inl e | Inr mode \<Rightarrow>
     (case str_at host payload ''title'' of Inl e \<Rightarrow> Inl e | Inr title \<Rightarrow>
     (case str_at host payload ''problem'' of Inl e \<Rightarrow> Inl e | Inr problem \<Rightarrow>
     (case json_at payload ''acceptance_criteria'' of Inl e \<Rightarrow> Inl e | Inr criteria \<Rightarrow>
     (case json_items criteria of Inl e \<Rightarrow> Inl e | Inr items \<Rightarrow>
     (case int_at payload ''max_turns'' of Inl e \<Rightarrow> Inl e | Inr max_turns \<Rightarrow>
     (case int_at payload ''max_duration_seconds'' of Inl e \<Rightarrow> Inl e | Inr max_duration_seconds \<Rightarrow>
        Inr \<lparr>req_execution_id = execution_id, req_organization_id = organization_id,
             req_provider = py_str (ho_repr host) provider, req_model = model,
             req_authentication_mode = mode, req_secret_reference = reference,
             req_workspace = [''workspace''], req_title = title, req_problem = problem,
             req_acceptance_criteria = map (py_str (ho_repr host)) items,
             req_max_turns = max_turns, req_max_duration_seconds = max_duration_seconds\<rparr>))))))))))))"

text \<open>The failed result of a job whose runtime configuration cannot be run.\<close>

definition refused_result :: "runner_error \<Rightarrow> agent_result" where
  "refused_result error =
     failed_agent_result
       (''The isolated runner job could not start: the requested runtime ''
        @ ''configuration is not supported.'')
       [\<lparr>evt_sequence = 1, evt_kind = EK_ERROR,
         evt_name = ''runtime.'' @ lower (runner_error_name error),
         evt_message = runner_error_message error, evt_metadata = []\<rparr>]"

text \<open>The selection of the agent: \<open>Inl\<close> is what the \<open>except\<close> turns into a failed result.\<close>

definition select_agent ::
  "string \<Rightarrow> agent_request \<Rightarrow> string option \<Rightarrow> rn_error + agent_adapter \<times> agent_object" where
  "select_agent runtime request secret =
     (case endpoint_for (req_provider request) of
        Inl e \<Rightarrow> Inl e
      | Inr endpoint \<Rightarrow>
          if runtime \<notin> set SUPPORTED_RUNTIMES
          then Inl (RunnerE (UnsupportedRuntime (''unsupported agent runtime: '' @ repr_str runtime)))
          else (case dget (build_agents secret endpoint) runtime of
              None \<Rightarrow> Inl (RnKeyE runtime)
            | Some (adapter, agent) \<Rightarrow>
                if req_authentication_mode request
                     \<notin> set (cap_supported_authentication_modes (adapter_capabilities adapter))
                then Inl (unsupported_mode runtime (req_authentication_mode request)
                       (adapter_capabilities adapter))
                else Inr (adapter, agent)))"

definition job_execute ::
  "'x job_host \<Rightarrow> string \<Rightarrow> agent_request \<Rightarrow> string option \<Rightarrow> ('x, agent_result) act" where
  "job_execute jh runtime request secret =
     (case select_agent runtime request secret of
        Inr (adapter, agent) \<Rightarrow> bindS (adapter_execute jh adapter agent request) (\<lambda>(result, _). returnS result)
      | Inl (RunnerE (SecretResolutionFailed m)) \<Rightarrow> raiseS (RunnerE (SecretResolutionFailed m))
      | Inl (RunnerE e) \<Rightarrow> returnS (refused_result e)
      | Inl e \<Rightarrow> raiseS e)"

text \<open>\<open>asdict(result)\<close> as JSON.\<close>

definition dump_event :: "agent_event \<Rightarrow> json" where
  "dump_event e =
     JObj [(''sequence'', JInt (evt_sequence e)), (''kind'', JStr (agent_event_kind_value (evt_kind e))),
           (''name'', JStr (evt_name e)), (''message'', JStr (evt_message e)),
           (''metadata'', JObj (evt_metadata e))]"

definition dump_agent_result :: "agent_result \<Rightarrow> json" where
  "dump_agent_result r =
     JObj [(''success'', JBool (res_success r)), (''summary'', JStr (res_summary r)),
           (''session_id'', opt_str (res_session_id r)),
           (''input_tokens'', int_json (res_input_tokens r)),
           (''cached_input_tokens'', int_json (res_cached_input_tokens r)),
           (''output_tokens'', int_json (res_output_tokens r)), (''turns'', JInt (res_turns r)),
           (''changed_paths'', JList (map JStr (res_changed_paths r))),
           (''events'', JList (map dump_event (res_events r)))]"

definition job_run :: "'x job_host \<Rightarrow> path \<Rightarrow> path \<Rightarrow> ('x, unit) act" where
  "job_run jh input output =
     bindS (from_files (read_text input)) (\<lambda>text.
     bindS (requireS (RnValueE ''JSONDecodeError'') (ho_loads (jh_host jh) text)) (\<lambda>payload.
     bindS (liftS (request_of (jh_host jh) payload)) (\<lambda>request.
     bindS (liftS (str_at (jh_host jh) payload ''runtime'')) (\<lambda>runtime.
     bindS (readS (\<lambda>m. dget (m_environ m) ''MVP_MODEL_CREDENTIAL'')) (\<lambda>secret.
     seqS (writeS (\<lambda>m. m\<lparr>m_environ := filter (\<lambda>(k, _). k \<noteq> ''MVP_MODEL_CREDENTIAL'') (m_environ m)\<rparr>))
     (bindS (job_execute jh runtime request secret) (\<lambda>result.
      with_files (write_text output (ho_dumps (jh_host jh) Compact (dump_agent_result result))))))))))"

end
