(* ===== verification/RnReports.thy ===== *)
theory RnReports
  imports RnJob RnRun DlReports
begin

text \<open>
  The report of a job from the agent's container to the delivery service: what an agent returns is
  written by \<open>entrypoints/job.py\<close>, read and sent on by \<open>entrypoints/daemon.py\<close>, and read by the
  models of \<open>entrypoints/api.py\<close> of the delivery service (\<open>DlReports\<close>). Reading JSON back is the
  left inverse of printing it, so the documents are passed on as they are.
\<close>

section \<open>Reading a report\<close>

text \<open>
  The validation of a document by the request models, for documents whose fields have the declared
  JSON types and no other fields; the field constraints are \<open>valid_job_report\<close>. (Pydantic also
  converts some other types; the runner sends none of them.)
\<close>

definition fields_within :: "(string \<times> json) list \<Rightarrow> string list \<Rightarrow> bool" where
  "fields_within kvs names \<longleftrightarrow> set (map fst kvs) \<subseteq> set names"

fun opt_int_of :: "json \<Rightarrow> int option option" where
  "opt_int_of JNull = Some None"
| "opt_int_of (JInt i) = Some (Some i)"
| "opt_int_of _ = None"

fun str_list_of :: "json list \<Rightarrow> string list option" where
  "str_list_of [] = Some []"
| "str_list_of (JStr s # js) = map_option (Cons s) (str_list_of js)"
| "str_list_of (_ # js) = None"

fun list_of :: "(json \<Rightarrow> 'a option) \<Rightarrow> json list \<Rightarrow> 'a list option" where
  "list_of f [] = Some []"
| "list_of f (j # js) =
     (case (f j, list_of f js) of (Some a, Some as) \<Rightarrow> Some (a # as) | _ \<Rightarrow> None)"

definition event_report_of :: "json \<Rightarrow> agent_event_report option" where
  "event_report_of j =
     (case j of
        JObj kvs \<Rightarrow>
          if \<not> fields_within kvs [''sequence'', ''kind'', ''name'', ''message'', ''metadata''] then None
          else (case (map_of kvs ''sequence'', map_of kvs ''kind'', map_of kvs ''name'',
                      map_of kvs ''message'', obj_get_default kvs ''metadata'' (JObj [])) of
                  (Some (JInt s), Some (JStr k), Some (JStr n), Some (JStr m), JObj metadata) \<Rightarrow>
                    Some \<lparr>ar_sequence = s, ar_kind = k, ar_name = n, ar_message = m, ar_metadata = metadata\<rparr>
                | _ \<Rightarrow> None)
      | _ \<Rightarrow> None)"

definition agent_report_of :: "json \<Rightarrow> agent_report option" where
  "agent_report_of j =
     (case j of
        JObj kvs \<Rightarrow>
          if \<not> fields_within kvs [''success'', ''summary'', ''turns'', ''changed_paths'', ''events'',
                 ''session_id'', ''input_tokens'', ''cached_input_tokens'', ''output_tokens''] then None
          else (case (map_of kvs ''success'', map_of kvs ''summary'', map_of kvs ''turns'',
                      map_of kvs ''changed_paths'', map_of kvs ''events'') of
                  (Some (JBool success), Some (JStr summary), Some (JInt turns), Some (JList paths),
                   Some (JList events)) \<Rightarrow>
                    (case (str_list_of paths, list_of event_report_of events, opt_str_field kvs ''session_id'',
                           opt_int_of (obj_get kvs ''input_tokens''),
                           opt_int_of (obj_get kvs ''cached_input_tokens''),
                           opt_int_of (obj_get kvs ''output_tokens'')) of
                       (Some ps, Some es, Some session, Some a, Some b, Some c) \<Rightarrow>
                         Some \<lparr>ag_success = success, ag_summary = summary, ag_turns = turns,
                           ag_changed_paths = ps, ag_events = es, ag_session_id = session,
                           ag_input_tokens = a, ag_cached_input_tokens = b, ag_output_tokens = c\<rparr>
                     | _ \<Rightarrow> None)
                | _ \<Rightarrow> None)
      | _ \<Rightarrow> None)"

definition evidence_report_of :: "json \<Rightarrow> validation_evidence_report option" where
  "evidence_report_of j =
     (case j of
        JObj kvs \<Rightarrow>
          if \<not> fields_within kvs [''executable'', ''arguments'', ''exit_code'', ''stdout'', ''stderr'', ''duration_ms'']
          then None
          else (case (map_of kvs ''executable'', map_of kvs ''arguments'', map_of kvs ''exit_code'',
                      map_of kvs ''stdout'', map_of kvs ''stderr'', map_of kvs ''duration_ms'') of
                  (Some (JStr x), Some (JList args), Some (JInt code), Some (JStr out), Some (JStr err), Some (JInt ms)) \<Rightarrow>
                    map_option (\<lambda>as. \<lparr>ve_executable = x, ve_arguments = as, ve_exit_code = code,
                      ve_stdout = out, ve_stderr = err, ve_duration_ms = ms\<rparr>) (str_list_of args)
                | _ \<Rightarrow> None)
      | _ \<Rightarrow> None)"

definition validation_report_of :: "json \<Rightarrow> validation_report option" where
  "validation_report_of j =
     (case j of
        JObj kvs \<Rightarrow>
          if \<not> fields_within kvs [''passed'', ''validator_image'', ''evidence''] then None
          else (case (map_of kvs ''passed'', map_of kvs ''validator_image'', map_of kvs ''evidence'') of
                  (Some (JBool passed), Some (JStr img), Some (JList evidence)) \<Rightarrow>
                    map_option (\<lambda>es. \<lparr>vr_passed = passed, vr_validator_image = img, vr_evidence = es\<rparr>)
                      (list_of evidence_report_of evidence)
                | _ \<Rightarrow> None)
      | _ \<Rightarrow> None)"

definition job_report_of :: "json \<Rightarrow> runner_job_complete option" where
  "job_report_of j =
     (case j of
        JObj kvs \<Rightarrow>
          if \<not> fields_within kvs [''commit_sha'', ''patch'', ''duration_seconds'', ''cost_minor'', ''agent'', ''validation'']
          then None
          else (case (map_of kvs ''commit_sha'', map_of kvs ''patch'', map_of kvs ''duration_seconds'',
                      map_of kvs ''cost_minor'', map_option agent_report_of (map_of kvs ''agent''),
                      map_option validation_report_of (map_of kvs ''validation'')) of
                  (Some (JStr sha), Some (JStr patch), Some (JInt duration), Some (JInt cost),
                   Some (Some agent), Some (Some validation)) \<Rightarrow>
                    Some \<lparr>rj_commit_sha = sha, rj_patch = patch, rj_duration_seconds = duration,
                      rj_cost_minor = cost, rj_agent = agent, rj_validation = validation\<rparr>
                | _ \<Rightarrow> None)
      | _ \<Rightarrow> None)"

text \<open>The report an agent's result and a validation become.\<close>

definition event_report :: "agent_event \<Rightarrow> agent_event_report" where
  "event_report e = \<lparr>ar_sequence = evt_sequence e, ar_kind = agent_event_kind_value (evt_kind e),
     ar_name = evt_name e, ar_message = evt_message e, ar_metadata = evt_metadata e\<rparr>"

definition agent_report_for :: "agent_result \<Rightarrow> agent_report" where
  "agent_report_for r = \<lparr>ag_success = res_success r, ag_summary = res_summary r, ag_turns = res_turns r,
     ag_changed_paths = res_changed_paths r, ag_events = map event_report (res_events r),
     ag_session_id = res_session_id r, ag_input_tokens = res_input_tokens r,
     ag_cached_input_tokens = res_cached_input_tokens r, ag_output_tokens = res_output_tokens r\<rparr>"

definition evidence_report :: "validation_evidence \<Rightarrow> validation_evidence_report" where
  "evidence_report e = \<lparr>ve_executable = evd_executable e, ve_arguments = evd_arguments e,
     ve_exit_code = evd_exit_code e, ve_stdout = evd_stdout e, ve_stderr = evd_stderr e,
     ve_duration_ms = evd_duration_ms e\<rparr>"

definition validation_report_for :: "validation_result \<Rightarrow> validation_report" where
  "validation_report_for v = \<lparr>vr_passed = vld_passed v, vr_validator_image = vld_validator_image v,
     vr_evidence = map evidence_report (vld_evidence v)\<rparr>"

section \<open>From the agent to the report\<close>

lemma str_list_of_JStr [simp]: "str_list_of (map JStr xs) = Some xs"
  by (induction xs) auto

lemma list_of_map: "(\<And>x. x \<in> set xs \<Longrightarrow> f (g x) = Some (h x)) \<Longrightarrow> list_of f (map g xs) = Some (map h xs)"
  by (induction xs) auto

lemma traverse_map: "(\<And>x. x \<in> set xs \<Longrightarrow> f (g x) = Inr (h x)) \<Longrightarrow> traverse f (map g xs) = Inr (map h xs)"
  by (induction xs) auto

lemma opt_int_of_int_json [simp]: "opt_int_of (int_json v) = Some v"
  by (cases v) (simp_all add: int_json_def)

lemma truthy_metadata: "(if truthy (JObj kvs) then JObj kvs else JObj []) = JObj kvs"
  by simp

lemma event_document_dump [simp]: "event_document host (dump_event e) = Inr (dump_event e)"
  by (simp add: event_document_def dump_event_def int_at_def str_at_def json_at_def json_int_def py_int_def
      py_str_def json_get_def obj_get_default_def truthy_metadata del: truthy.simps)

lemma event_report_dump: "event_report_of (dump_event e) = Some (event_report e)"
  by (simp add: event_report_of_def dump_event_def event_report_def fields_within_def obj_get_default_def)

lemma agent_document_dump:
  "\<exists>doc. agent_document host (dump_agent_result r) = Inr doc \<and> agent_report_of doc = Some (agent_report_for r)"
proof -
  have events: "traverse (event_document host) (map dump_event (res_events r)) = Inr (map dump_event (res_events r))"
    by (rule traverse_map) simp
  have reports: "list_of event_report_of (map dump_event (res_events r)) = Some (map event_report (res_events r))"
    by (rule list_of_map) (rule event_report_dump)
  show ?thesis
    by (simp add: agent_document_def dump_agent_result_def json_at_def str_at_def int_at_def json_int_def
        py_int_def py_str_def obj_get_def events agent_report_of_def fields_within_def reports
        agent_report_for_def opt_str_field_def opt_str_def split: option.split)
qed

lemma validation_document_report: "validation_report_of (validation_document v) = Some (validation_report_for v)"
proof -
  have "evidence_report_of (evidence_document e) = Some (evidence_report e)" for e
    by (simp add: evidence_report_of_def evidence_document_def evidence_report_def fields_within_def)
  then have "list_of evidence_report_of (map evidence_document (vld_evidence v)) =
      Some (map evidence_report (vld_evidence v))" by (intro list_of_map)
  then show ?thesis
    by (simp add: validation_report_of_def validation_document_def validation_report_for_def fields_within_def)
qed

lemma job_report_read:
  "\<exists>doc. job_report host sha patch duration (dump_agent_result r) v = Inr doc \<and>
     job_report_of doc = Some \<lparr>rj_commit_sha = sha, rj_patch = last_chars 131072 patch,
       rj_duration_seconds = duration, rj_cost_minor = 0, rj_agent = agent_report_for r,
       rj_validation = validation_report_for v\<rparr>"
proof -
  obtain doc where "agent_document host (dump_agent_result r) = Inr doc"
    and "agent_report_of doc = Some (agent_report_for r)" using agent_document_dump by blast
  then show ?thesis
    by (simp add: job_report_def job_report_of_def fields_within_def validation_document_report)
qed

section \<open>The events of an agent\<close>

text \<open>Numbered from 1 on, with metadata of strings, numbers and nulls only.\<close>

definition numbered :: "agent_event list \<Rightarrow> bool" where
  "numbered es \<longleftrightarrow> map evt_sequence es = map int [1..<Suc (length es)] \<and>
     (\<forall>e \<in> set es. list_all (\<lambda>p. scalar (snd p)) (evt_metadata e))"

lemma numbered_Nil [simp]: "numbered []"
  by (simp add: numbered_def)

lemma numbered_add_event [simp]:
  "numbered es \<Longrightarrow> list_all (\<lambda>p. scalar (snd p)) md \<Longrightarrow> numbered (add_event k n m md es)"
  by (simp add: numbered_def add_event_def next_sequence_def)

lemma scalar_values [simp]: "scalar (JStr t)" "scalar (int_json v)" "scalar (opt_str u)"
  by (cases v, simp_all add: scalar_def int_json_def opt_str_def split: option.split)

lemma token_metadata_scalar [simp]: "list_all (\<lambda>p. scalar (snd p)) (token_metadata st)"
  by (simp add: token_metadata_def)

lemma numbered_fold: "(\<And>x es. numbered es \<Longrightarrow> numbered (f x es)) \<Longrightarrow> numbered es \<Longrightarrow> numbered (fold f xs es)"
  by (induction xs arbitrary: es) auto

lemma numbered_steps:
  "numbered es \<Longrightarrow> numbered (tool_use_event a n es)"
  "numbered es \<Longrightarrow> numbered (assistant_block host b es)"
  "numbered es \<Longrightarrow> numbered (tool_result_block host b es)"
  "numbered es \<Longrightarrow> numbered (session_event host doc es)"
  "numbered es \<Longrightarrow> numbered (sdk_block_event x es)"
  "numbered es \<Longrightarrow> numbered (stderr_event err es)"
  "numbered (timeout_event t)"
  "numbered (st_events st) \<Longrightarrow> numbered (result_events a t st)"
  by (auto simp: tool_use_event_def assistant_block_def tool_result_block_def session_event_def sdk_block_event_def
      stderr_event_def timeout_event_def result_events_def Let_def
      split: json.splits sdk_block.splits option.split)

lemma read_usage_events [simp]: "st_events (read_usage c u st) = st_events st"
  by (simp add: read_usage_def)

lemma numbered_documents:
  "numbered (st_events st) \<Longrightarrow> numbered (st_events (codex_document host doc st))"
  "numbered (st_events st) \<Longrightarrow> numbered (st_events (claude_document host doc st))"
   apply (auto simp: codex_document_def Let_def split: json.splits)
  apply (auto simp: claude_document_def claude_result_def Let_def intro!: numbered_steps numbered_fold split: json.splits)
  done

lemma numbered_parse:
  assumes "parse_lines loads f lines st = Inr st'" and "numbered (st_events st)"
    and "\<And>doc st. numbered (st_events st) \<Longrightarrow> numbered (st_events (f doc st))"
  shows "numbered (st_events st')"
  using assms(1,2)
  by (induction lines arbitrary: st) (auto dest: assms(3) split: option.splits json.splits)

lemma numbered_sdk:
  "numbered (st_events (fst (fold sdk_message_step messages (st, s)))) \<and>
   numbered (st_events (fst (sdk_finish ended (fold sdk_message_step messages (st, s)))))"
  if "numbered (st_events st)"
proof -
  have step: "numbered (st_events (fst (sdk_message_step m acc)))" if "numbered (st_events (fst acc))" for m acc
    using that
    by (cases acc) (auto simp: sdk_message_step_def Let_def intro!: numbered_steps numbered_fold
      split: sdk_message.splits json.splits)
  have "numbered (st_events (fst (fold sdk_message_step ms acc)))" if "numbered (st_events (fst acc))" for ms acc
    using that
  proof (induction ms arbitrary: acc)
    case (Cons m ms)
    from Cons.IH [OF step [OF Cons.prems]] show ?case by simp
  qed simp
  then have "numbered (st_events (fst (fold sdk_message_step messages (st, s))))" using that by simp
  moreover have "numbered (st_events (fst (sdk_finish ended acc)))" if "numbered (st_events (fst acc))" for acc
    using that by (cases acc) (auto simp: sdk_finish_def split: sdk_end.splits)
  ultimately show ?thesis by blast
qed


text \<open>What every agent returns: numbered events, and no more turns than events.\<close>

definition well_formed_result :: "agent_result \<Rightarrow> bool" where
  "well_formed_result r \<longleftrightarrow> numbered (res_events r) \<and> 0 \<le> res_turns r \<and>
     res_turns r \<le> int (length (res_events r))"

lemma count_kind_bounds: "0 \<le> count_kind k es" "count_kind k es \<le> int (length es)"
  by (simp_all add: count_kind_def)

lemma json_case_Inr:
  "(case j of JObj kvs \<Rightarrow> f kvs | _ \<Rightarrow> raiseS e) s = (Inr a, s') \<longleftrightarrow> (\<exists>kvs. j = JObj kvs \<and> f kvs s = (Inr a, s'))"
  by (cases j) (auto simp: raiseS_def)

lemma failed_result_well_formed: "numbered es \<Longrightarrow> well_formed_result (failed_agent_result t es)"
  by (simp add: well_formed_result_def failed_agent_result_def)

text \<open>What every normal result of an action satisfies, whatever it was started from.\<close>

definition returning :: "('a \<Rightarrow> bool) \<Rightarrow> ('x, 'a) act \<Rightarrow> bool" where
  "returning R f \<longleftrightarrow> (\<forall>s a s'. f s = (Inr a, s') \<longrightarrow> R a)"

lemma returning_bindS: "(\<And>a. returning R (f a)) \<Longrightarrow> returning R (bindS m f)"
  by (auto simp: returning_def bindS_Inr_iff)

lemma returning_liftS: "(\<And>a. x = Inr a \<Longrightarrow> returning R (f a)) \<Longrightarrow> returning R (bindS (liftS x) f)"
  by (cases x) (auto simp: returning_def bindS_Inr_iff liftS_def)

lemma returning_seqS: "returning R f \<Longrightarrow> returning R (seqS m f)"
  by (auto simp: returning_def seqS_iff)

lemma returning_basic:
  "R a \<Longrightarrow> returning R (returnS a)"
  "returning R (raiseS e)"
  by (auto simp: returning_def returnS_def raiseS_def)

lemma returning_cases:
  "(c \<Longrightarrow> returning R f) \<Longrightarrow> (\<not> c \<Longrightarrow> returning R g) \<Longrightarrow> returning R (if c then f else g)"
  "returning R u \<Longrightarrow> (\<And>a. returning R (v a)) \<Longrightarrow> returning R (case x of None \<Rightarrow> u | Some a \<Rightarrow> v a)"
  "(\<And>a b. p = (a, b) \<Longrightarrow> returning R (w a b)) \<Longrightarrow> returning R (case p of (a, b) \<Rightarrow> w a b)"
  "(\<And>kvs. returning R (h kvs)) \<Longrightarrow> returning R (case j of JObj kvs \<Rightarrow> h kvs | _ \<Rightarrow> raiseS e)"
  by (auto simp: returning_basic split: option.split prod.split json.split)

lemmas returning_rules = returning_cases returning_liftS returning_bindS returning_seqS returning_basic

lemma parsed_numbered:
  "codex_parse host out = Inr st \<Longrightarrow> numbered (st_events st)"
  "claude_parse host out = Inr st \<Longrightarrow> numbered (st_events st)"
  unfolding codex_parse_def claude_parse_def
  by (erule numbered_parse, simp add: stream_start_def, erule numbered_documents)+

lemma timeout_well_formed: "well_formed_result (failed_agent_result t (timeout_event message))"
  by (rule failed_result_well_formed) (rule numbered_steps)

lemma deterministic_well_formed:
  "returning (\<lambda>(result, agent'). well_formed_result result) (deterministic_execute host agent request)"
  unfolding deterministic_execute_def Let_def
  by (intro returning_rules) (simp add: well_formed_result_def numbered_def deterministic_events_def)

lemma codex_well_formed:
  "returning (\<lambda>(result, agent'). well_formed_result result) (codex_execute host agent request)"
  unfolding codex_execute_def Let_def
  by (intro returning_rules; simp only: prod.case timeout_well_formed)
    (drule parsed_numbered(1), simp add: well_formed_result_def count_kind_bounds numbered_steps)

lemma claude_well_formed:
  "returning (\<lambda>(result, agent'). well_formed_result result) (claude_execute host agent request)"
  unfolding claude_execute_def Let_def
  by (intro returning_rules; simp only: prod.case timeout_well_formed)
    (drule parsed_numbered(2), simp add: well_formed_result_def count_kind_bounds numbered_steps)

lemma sdk_well_formed:
  "returning (\<lambda>(result, agent'). well_formed_result result)
     (sdk_execute host sdk_run sdk_available agent request)"
  unfolding sdk_execute_def Let_def
proof (intro returning_rules, goal_cases)
  case (1 _ _ messages ended st summary)
  let ?start = "(stream_start\<lparr>st_success := False\<rparr>, ''Claude Agent SDK produced no result message.'')"
  have "numbered (st_events (fst (sdk_finish ended (fold sdk_message_step messages ?start))))"
    by (rule conjunct2 [OF numbered_sdk]) (simp add: stream_start_def)
  with 1 have "numbered (st_events st)" by simp
  then show ?case by (simp add: well_formed_result_def count_kind_bounds)
qed

lemma job_execute_well_formed: "returning well_formed_result (job_execute jh runtime request secret)"
proof -
  have refused: "well_formed_result (refused_result e)" for e
    unfolding refused_result_def by (rule failed_result_well_formed) (simp add: numbered_def)
  have agent: "returning (\<lambda>(result, agent'). well_formed_result result) (adapter_execute jh adapter agent request)"
    for adapter agent
    by (cases adapter)
      (simp_all add: deterministic_well_formed codex_well_formed claude_well_formed sdk_well_formed)
  have run: "returning well_formed_result
      (bindS (adapter_execute jh adapter agent request) (\<lambda>(result, _). returnS result))" for adapter agent
    using agent [of adapter agent] unfolding returning_def by (fastforce simp: bindS_Inr_iff returnS_def)
  show ?thesis
    unfolding job_execute_def
    by (auto split: sum.split rn_error.split runner_error.split intro!: returning_basic refused run)
qed

lemma agent_event_kind_values:
  "agent_event_kind_value k \<in> {''PLAN'', ''TOOL'', ''COMMAND'', ''RESULT'', ''ERROR'', ''APPROVAL'', ''USAGE''}"
  by (cases k) simp_all

section \<open>What the delivery service reads\<close>

text \<open>The field bounds of the delivery service's models that a report made of a result may break.\<close>

lemma report_accepted_iff:
  assumes "well_formed_result result"
  shows "valid_job_report \<lparr>rj_commit_sha = sha, rj_patch = last_chars 131072 patch,
       rj_duration_seconds = duration, rj_cost_minor = 0, rj_agent = agent_report_for result,
       rj_validation = validation_report_for validation\<rparr> \<longleftrightarrow>
     (length sha = 40 \<and> list_all lower_hex sha \<and> 0 \<le> duration) \<and>
     (length (res_summary result) \<le> 4000 \<and> length (res_changed_paths result) \<le> 10000 \<and>
      length (res_events result) \<le> 10000) \<and>
     (\<forall>e \<in> set (res_events result).
        1 \<le> length (evt_name e) \<and> length (evt_name e) \<le> 128 \<and>
        1 \<le> length (evt_message e) \<and> length (evt_message e) \<le> 4000) \<and>
     ((\<forall>t. res_session_id result = Some t \<longrightarrow> length t \<le> 200) \<and>
      (\<forall>n. n \<in> set_option (res_input_tokens result) \<union> set_option (res_cached_input_tokens result) \<union>
           set_option (res_output_tokens result) \<longrightarrow> 0 \<le> n)) \<and>
     (1 \<le> length (vld_validator_image validation) \<and> length (vld_validator_image validation) \<le> 512 \<and>
      length (vld_evidence validation) \<le> 100) \<and>
     (\<forall>e \<in> set (vld_evidence validation).
        1 \<le> length (evd_executable e) \<and> length (evd_executable e) \<le> 512 \<and>
        length (evd_arguments e) \<le> 100 \<and> length (evd_stdout e) \<le> 65536 \<and>
        length (evd_stderr e) \<le> 65536 \<and> 0 \<le> evd_duration_ms e)"
proof -
  have ge0: "ge0 x \<longleftrightarrow> (\<forall>n \<in> set_option x. 0 \<le> n)" for x
    by (cases x) (simp_all add: ge0_def)
  have events: "valid_agent_event (event_report e) \<longleftrightarrow>
      1 \<le> length (evt_name e) \<and> length (evt_name e) \<le> 128 \<and>
      1 \<le> length (evt_message e) \<and> length (evt_message e) \<le> 4000"
    if e: "e \<in> set (res_events result)" for e
  proof -
    have "evt_sequence e \<in> set (map int [1..<Suc (length (res_events result))])"
      using assms e unfolding well_formed_result_def numbered_def by (metis imageI list.set_map)
    then have "1 \<le> evt_sequence e" by auto
    moreover have "list_all (\<lambda>p. scalar (snd p)) (evt_metadata e)"
      using assms e by (simp add: well_formed_result_def numbered_def)
    ultimately show ?thesis
      using agent_event_kind_values [of "evt_kind e"]
      by (simp add: valid_agent_event_def event_report_def field_length_def del: insert_iff)
  qed
  have turns: "0 \<le> res_turns result" "res_turns result \<le> int (length (res_events result))"
    using assms by (simp_all add: well_formed_result_def)
  have patch: "length (last_chars 131072 patch) \<le> 131072" by (simp add: last_chars_def)
  have all: "list_all valid_agent_event (map event_report (res_events result)) \<longleftrightarrow>
     (\<forall>e \<in> set (res_events result).
        1 \<le> length (evt_name e) \<and> length (evt_name e) \<le> 128 \<and>
        1 \<le> length (evt_message e) \<and> length (evt_message e) \<le> 4000)"
    by (simp add: list_all_iff events)
  have evidence: "list_all valid_evidence (map evidence_report (vld_evidence validation)) \<longleftrightarrow>
     (\<forall>e \<in> set (vld_evidence validation).
        1 \<le> length (evd_executable e) \<and> length (evd_executable e) \<le> 512 \<and>
        length (evd_arguments e) \<le> 100 \<and> length (evd_stdout e) \<le> 65536 \<and>
        length (evd_stderr e) \<le> 65536 \<and> 0 \<le> evd_duration_ms e)"
    by (simp add: list_all_iff valid_evidence_def evidence_report_def field_length_def)
  have session: "optional_length 200 (res_session_id result) \<longleftrightarrow>
      (\<forall>t. res_session_id result = Some t \<longrightarrow> length t \<le> 200)"
    by (simp add: optional_length_def split: option.split)
  show ?thesis
    unfolding valid_job_report_def valid_agent_report_def valid_validation_report_def agent_report_for_def
      validation_report_for_def runner_job_complete.select_convs agent_report.select_convs
      validation_report.select_convs length_map all evidence session ge0 field_length_def
    using turns patch by auto
qed

text \<open>C39: Whatever runtime a job names and whatever its agent does, a result the job process writes
  is read by the daemon and becomes a report in which no field is missing or of another type. The
  report counts as verified exactly when the agent reported success and the runner's own
  validation passed; its events are numbered 1, 2, 3 and on, each of a kind the service knows, it
  has no more turns than events, none negative, and the patch is within its bound. The delivery
  service accepts the report if and only if the remaining bounds hold, which the runner does not
  enforce: the lengths of the summary and the session, of every event's name and message (an
  empty one is refused), the numbers of paths and events, the signs of the token counts, the
  form of the commit and the bounds of the validation.\<close>

theorem agent_result_reaches_delivery:
  assumes "job_execute jh runtime request secret m = (Inr result, m')"
  shows "\<exists>doc rep. job_report host sha patch duration (dump_agent_result result) validation = Inr doc \<and>
     job_report_of doc = Some rep \<and>
     report_verified rep = (res_success result \<and> vld_passed validation) \<and>
     map ar_sequence (ag_events (rj_agent rep)) = map int [1..<Suc (length (res_events result))] \<and>
     (\<forall>e \<in> set (ag_events (rj_agent rep)).
        ar_kind e \<in> {''PLAN'', ''TOOL'', ''COMMAND'', ''RESULT'', ''ERROR'', ''APPROVAL'', ''USAGE''}) \<and>
     0 \<le> ag_turns (rj_agent rep) \<and> ag_turns (rj_agent rep) \<le> int (length (ag_events (rj_agent rep))) \<and>
     length (rj_patch rep) \<le> 131072 \<and>
     (valid_job_report rep \<longleftrightarrow>
       (length sha = 40 \<and> list_all lower_hex sha \<and> 0 \<le> duration) \<and>
       (length (res_summary result) \<le> 4000 \<and> length (res_changed_paths result) \<le> 10000 \<and>
        length (res_events result) \<le> 10000) \<and>
       (\<forall>e \<in> set (res_events result).
          1 \<le> length (evt_name e) \<and> length (evt_name e) \<le> 128 \<and>
          1 \<le> length (evt_message e) \<and> length (evt_message e) \<le> 4000) \<and>
       ((\<forall>t. res_session_id result = Some t \<longrightarrow> length t \<le> 200) \<and>
        (\<forall>n. n \<in> set_option (res_input_tokens result) \<union> set_option (res_cached_input_tokens result) \<union>
             set_option (res_output_tokens result) \<longrightarrow> 0 \<le> n)) \<and>
       (1 \<le> length (vld_validator_image validation) \<and> length (vld_validator_image validation) \<le> 512 \<and>
        length (vld_evidence validation) \<le> 100) \<and>
       (\<forall>e \<in> set (vld_evidence validation).
          1 \<le> length (evd_executable e) \<and> length (evd_executable e) \<le> 512 \<and>
          length (evd_arguments e) \<le> 100 \<and> length (evd_stdout e) \<le> 65536 \<and>
          length (evd_stderr e) \<le> 65536 \<and> 0 \<le> evd_duration_ms e))"
proof -
  have result: "well_formed_result result"
    using job_execute_well_formed assms unfolding returning_def by blast
  let ?rep = "\<lparr>rj_commit_sha = sha, rj_patch = last_chars 131072 patch,
       rj_duration_seconds = duration, rj_cost_minor = 0, rj_agent = agent_report_for result,
       rj_validation = validation_report_for validation\<rparr>"
  obtain doc where doc: "job_report host sha patch duration (dump_agent_result result) validation = Inr doc"
    and rep: "job_report_of doc = Some ?rep"
    using job_report_read by blast
  have "map ar_sequence (map event_report es) = map evt_sequence es" for es
    by (simp add: event_report_def)
  then have "map ar_sequence (ag_events (rj_agent ?rep)) = map evt_sequence (res_events result)"
    by (simp only: runner_job_complete.select_convs agent_report_for_def agent_report.select_convs)
  then have numbers: "map ar_sequence (ag_events (rj_agent ?rep)) = map int [1..<Suc (length (res_events result))]"
    using result by (simp only: well_formed_result_def numbered_def)
  have kinds: "\<forall>e \<in> set (ag_events (rj_agent ?rep)).
      ar_kind e \<in> {''PLAN'', ''TOOL'', ''COMMAND'', ''RESULT'', ''ERROR'', ''APPROVAL'', ''USAGE''}"
  proof
    fix e assume "e \<in> set (ag_events (rj_agent ?rep))"
    then have "e \<in> event_report ` set (res_events result)" by (simp add: agent_report_for_def)
    then show "ar_kind e \<in> {''PLAN'', ''TOOL'', ''COMMAND'', ''RESULT'', ''ERROR'', ''APPROVAL'', ''USAGE''}"
      by (elim imageE) (simp only: event_report_def agent_event_report.select_convs agent_event_kind_values)
  qed
  have bounds: "report_verified ?rep = (res_success result \<and> vld_passed validation)"
    "0 \<le> ag_turns (rj_agent ?rep)" "ag_turns (rj_agent ?rep) \<le> int (length (ag_events (rj_agent ?rep)))"
    "length (rj_patch ?rep) \<le> 131072"
    using result by (simp_all add: report_verified_def agent_report_for_def validation_report_for_def
        well_formed_result_def last_chars_def)
  show ?thesis
    by (rule exI [of _ doc], rule exI [of _ ?rep])
       (intro conjI doc rep bounds numbers kinds report_accepted_iff [OF result])
qed

definition demo_sdk :: "unit job_host" where
  "demo_sdk = \<lparr>jh_host = demo_host,
     jh_sdk_run = (\<lambda>prompt options timeout. returnS
       ([SystemMessage ''init'' (Some ''s1''), AssistantMessage [ToolUseBlock ''Edit''],
         ResultMessage False (Some ''done'') (Some ''s1'') JNull ''success''], SdkFinished)),
     jh_sdk_available = True\<rparr>"

definition demo_request :: agent_request where
  "demo_request = \<lparr>req_execution_id = 1, req_organization_id = 2, req_provider = ''anthropic'',
     req_model = ''m'', req_authentication_mode = ''API_KEY_REFERENCE'', req_secret_reference = None,
     req_workspace = [''workspace''], req_title = ''t'', req_problem = ''p'', req_acceptance_criteria = [],
     req_max_turns = 5, req_max_duration_seconds = 60\<rparr>"

definition demo_result :: agent_result where
  "demo_result = \<lparr>res_success = True, res_summary = ''done'', res_session_id = Some ''s1'',
     res_input_tokens = None, res_cached_input_tokens = None, res_output_tokens = None, res_turns = 1,
     res_changed_paths = [],
     res_events =
       [\<lparr>evt_sequence = 1, evt_kind = agent_event_kind.EK_PLAN, evt_name = ''session.initialized'',
          evt_message = ''Claude Agent SDK session started.'', evt_metadata = []\<rparr>,
        \<lparr>evt_sequence = 2, evt_kind = agent_event_kind.EK_TOOL, evt_name = ''tool_use.Edit'',
          evt_message = ''Claude Agent SDK invoked the Edit tool.'', evt_metadata = [(''tool.name'', JStr ''Edit'')]\<rparr>,
        \<lparr>evt_sequence = 3, evt_kind = agent_event_kind.EK_RESULT, evt_name = ''result.success'',
          evt_message = ''Claude Agent SDK reported a final result.'',
          evt_metadata = [(''input_tokens'', JNull), (''cached_input_tokens'', JNull), (''output_tokens'', JNull)]\<rparr>]\<rparr>"

lemma demo_job_execute:
  "\<exists>m'. job_execute demo_sdk ''claude-agent-sdk'' demo_request (Some ''key'') (mach [] []) = (Inr demo_result, m')"
  by (simp add: job_execute_def select_agent_def demo_request_def endpoint_for_def PROVIDER_CATALOG_def ENTRIES_def
      SUPPORTED_RUNTIMES_def build_agents_def sdk_capabilities_def sdk_execute_def new_agent_def demo_sdk_def
      sdk_message_step_def sdk_finish_def stream_start_def sdk_block_event_def tool_use_event_def add_event_def
      next_sequence_def result_events_def token_metadata_def count_kind_def int_json_def demo_result_def
      changed_paths_def run_process_def steps demos splitlines_def)

theorem agent_result_reaches_delivery_witness:
  "\<exists>doc rep. job_report demo_host (replicate 40 (CHR ''a'')) ''p'' 3 (dump_agent_result demo_result)
       \<lparr>vld_passed = True, vld_validator_image = ''v'', vld_evidence = []\<rparr> = Inr doc \<and>
     job_report_of doc = Some rep \<and> report_verified rep \<and> valid_job_report rep"
proof -
  obtain m' where "job_execute demo_sdk ''claude-agent-sdk'' demo_request (Some ''key'') (mach [] []) = (Inr demo_result, m')"
    using demo_job_execute by blast
  note reached = agent_result_reaches_delivery [OF this, of demo_host "replicate 40 (CHR ''a'')" "''p''" 3
      "\<lparr>vld_passed = True, vld_validator_image = ''v'', vld_evidence = []\<rparr>"]
  have sha: "list_all lower_hex (replicate 40 (CHR ''a''))" by (simp add: list_all_iff lower_hex_def)
  have fields: "res_success demo_result" "length (res_summary demo_result) = 4" "length (res_events demo_result) = 3"
    "res_changed_paths demo_result = []" "res_session_id demo_result = Some ''s1''"
    "res_input_tokens demo_result = None" "res_cached_input_tokens demo_result = None"
    "res_output_tokens demo_result = None"
    "\<forall>e \<in> set (res_events demo_result). 1 \<le> length (evt_name e) \<and> length (evt_name e) \<le> 128 \<and>
       1 \<le> length (evt_message e) \<and> length (evt_message e) \<le> 4000"
    by (simp_all add: demo_result_def)
  show ?thesis
    by (insert reached, elim exE conjE, rule exI, rule exI, intro conjI, assumption, assumption)
       (simp_all add: fields sha, use fields(9) in \<open>simp add: Ball_def\<close>)
qed

text \<open>A job that fails before its validation is reported with a document the service accepts.\<close>

lemma failed_job_report_accepted:
  assumes "field_length 1 512 img" and "length (error_name e) \<le> 3000"
  shows "\<exists>rep. job_report_of (failed_job_result e img) = Some rep \<and> valid_job_report rep \<and> \<not> report_verified rep"
proof -
  let ?message = "''Runner job failed with '' @ error_name e @ ''; details remain in runner logs.''"
  let ?agent = "\<lparr>ag_success = False,
    ag_summary = ''The isolated runner job failed before independent verification.'', ag_turns = 0,
    ag_changed_paths = [], ag_events = [\<lparr>ar_sequence = 1, ar_kind = ''ERROR'', ar_name = ''runner.job_failed'',
      ar_message = ?message, ar_metadata = []\<rparr>],
    ag_session_id = None, ag_input_tokens = None, ag_cached_input_tokens = None, ag_output_tokens = None\<rparr>"
  let ?rep = "\<lparr>rj_commit_sha = replicate 40 (CHR ''0''), rj_patch = [], rj_duration_seconds = 0,
    rj_cost_minor = 0, rj_agent = ?agent,
    rj_validation = \<lparr>vr_passed = False, vr_validator_image = img, vr_evidence = []\<rparr>\<rparr>"
  have "job_report_of (failed_job_result e img) = Some ?rep"
    by (simp add: job_report_of_def failed_job_result_def agent_report_of_def event_report_of_def
        validation_report_of_def fields_within_def opt_str_field_def obj_get_def obj_get_default_def)
  moreover have "valid_job_report ?rep"
    using assms by (simp add: valid_job_report_def valid_agent_report_def valid_validation_report_def
        valid_agent_event_def field_length_def optional_length_def ge0_def lower_hex_def list_all_iff)
  moreover have "\<not> report_verified ?rep" by (simp add: report_verified_def)
  ultimately show ?thesis by blast
qed

text \<open>
  The runner passes on a text block without text as an event without a message, which the service
  refuses, with the whole report: the job it belongs to is never completed.
\<close>

lemma empty_text_block_is_refused:
  assumes "job_report host sha patch duration (dump_agent_result result) validation = Inr doc"
    and "res_events result = before @ sdk_block_event (TextBlock []) es @ later"
    and "job_report_of doc = Some rep"
  shows "\<not> valid_job_report rep"
proof -
  obtain doc' where "job_report host sha patch duration (dump_agent_result result) validation = Inr doc'"
    and "job_report_of doc' = Some \<lparr>rj_commit_sha = sha, rj_patch = last_chars 131072 patch,
       rj_duration_seconds = duration, rj_cost_minor = 0, rj_agent = agent_report_for result,
       rj_validation = validation_report_for validation\<rparr>"
    using job_report_read by blast
  then have "rj_agent rep = agent_report_for result" using assms(1,3) by auto
  then have "\<exists>e \<in> set (ag_events (rj_agent rep)). ar_message e = []"
    by (simp add: agent_report_for_def event_report_def assms(2) sdk_block_event_def add_event_def)
  then obtain e where "e \<in> set (ag_events (rj_agent rep))" and "ar_message e = []" by blast
  moreover from this(2) have "\<not> valid_agent_event e" by (simp add: valid_agent_event_def field_length_def)
  ultimately show ?thesis
    by (auto simp: valid_job_report_def valid_agent_report_def list_all_iff)
qed

end
