(* ===== verification/RnRuntimes.thy ===== *)
theory RnRuntimes
  imports RnReports DlRuntimes
begin

text \<open>
  The two tables of what can run: the delivery service's (\<open>domain/agent_runtimes.py\<close>), which decides
  which provider configurations may exist, and the runner's (\<open>adapters/provider_catalog.py\<close> and
  \<open>adapters/agent_registry.py\<close>), which decides what a job starts. They are kept by hand in two services;
  here they are shown to agree.
\<close>

lemma supported_combinations:
  "(\<exists>dev model. ensure_supported runtime provider mode dev model = Inr ()) \<longleftrightarrow>
     (\<exists>dev models. (runtime, provider, mode, dev, models) \<in> set reviewed)"
proof
  assume "\<exists>dev model. ensure_supported runtime provider mode dev model = Inr ()"
  then show "\<exists>dev models. (runtime, provider, mode, dev, models) \<in> set reviewed"
    unfolding ensure_supported_Inr compatibility_of using reviewed_entries by blast
next
  assume "\<exists>dev models. (runtime, provider, mode, dev, models) \<in> set reviewed"
  then obtain dev models where entry: "(runtime, provider, mode, dev, models) \<in> set reviewed" by blast
  then obtain c where "(runtime, c) \<in> set RUNTIME_COMPATIBILITY" "dev = rc_is_development_substitute c"
    using reviewed_known by blast
  then have "ensure_supported runtime provider mode dev None = Inr ()"
    unfolding ensure_supported_Inr compatibility_of option.case using reviewed_entries entry by blast
  then show "\<exists>dev model. ensure_supported runtime provider mode dev model = Inr ()" by blast
qed

text \<open>What the runner's tables say, for a provider it knows.\<close>

lemma endpoint_for_known:
  "endpoint_for ''local'' = Inr (ENTRIES ! 0)" "endpoint_for ''anthropic'' = Inr (ENTRIES ! 1)"
  "endpoint_for ''openai'' = Inr (ENTRIES ! 2)" "endpoint_for ''zhipu-glm'' = Inr (ENTRIES ! 3)"
  "endpoint_for ''moonshot-kimi'' = Inr (ENTRIES ! 4)"
  by (simp_all add: endpoint_for_def PROVIDER_CATALOG_def ENTRIES_def)

lemma endpoint_for_only:
  "endpoint_for provider = Inr endpoint \<Longrightarrow>
     provider \<in> {''local'', ''anthropic'', ''openai'', ''zhipu-glm'', ''moonshot-kimi''}"
  by (auto simp: endpoint_for_def PROVIDER_CATALOG_def ENTRIES_def split: if_splits)

definition startable :: "(string \<times> string) list" where
  "startable =
     [(''deterministic'', ''NONE''), (''codex-cli'', ''LOCAL_SESSION''), (''codex-cli'', ''API_KEY_REFERENCE''),
      (''claude-code-cli'', ''LOCAL_SESSION''), (''claude-code-cli'', ''API_KEY_REFERENCE''),
      (''claude-agent-sdk'', ''API_KEY_REFERENCE'')]"

lemma selected_iff:
  "(\<exists>selected. select_agent runtime request secret = Inr selected) \<longleftrightarrow>
     (\<exists>endpoint. endpoint_for (req_provider request) = Inr endpoint) \<and>
     (runtime, req_authentication_mode request) \<in> set startable"
proof (cases "endpoint_for (req_provider request)")
  case (Inr endpoint)
  show ?thesis
  proof (cases "runtime \<in> set SUPPORTED_RUNTIMES")
    case True
    then show ?thesis
      by (simp add: SUPPORTED_RUNTIMES_def, elim disjE)
        (simp_all add: Inr select_agent_def SUPPORTED_RUNTIMES_def build_agents_def startable_def
          deterministic_capabilities_def codex_capabilities_def claude_capabilities_def sdk_capabilities_def)
  next
    case False
    then show ?thesis by (auto simp: Inr select_agent_def SUPPORTED_RUNTIMES_def startable_def)
  qed
qed (simp add: select_agent_def)

lemma reviewed_endpoint:
  "(runtime, provider, mode, dev, models) \<in> set reviewed \<Longrightarrow>
     \<exists>endpoint. endpoint_for provider = Inr endpoint \<and> runtime \<in> set (pv_compatible_runtimes endpoint) \<and>
       (runtime, mode) \<in> set startable \<and> (mode = ''LOCAL_SESSION'' \<longrightarrow> pv_base_url endpoint = None)"
  unfolding reviewed_def by (simp, elim disjE; simp add: endpoint_for_known ENTRIES_def startable_def)

lemma endpoint_reviewed:
  assumes "endpoint_for provider = Inr endpoint" and "runtime \<in> set (pv_compatible_runtimes endpoint)"
    and "mode = ''LOCAL_SESSION'' \<longrightarrow> pv_base_url endpoint = None" and "(runtime, mode) \<in> set startable"
  shows "\<exists>dev models. (runtime, provider, mode, dev, models) \<in> set reviewed"
proof -
  have modes: "(runtime, mode) \<in> set startable" by (rule assms(4))
  show ?thesis
    using endpoint_for_only [OF assms(1)]
  proof (elim insertE emptyE)
    assume p: "provider = ''local''"
    with assms(1,2) have "runtime = ''deterministic''" by (auto simp: endpoint_for_known ENTRIES_def)
    with modes p show ?thesis by (auto simp: startable_def reviewed_def)
  next
    assume p: "provider = ''anthropic''"
    with assms(1,2) have "runtime = ''claude-agent-sdk'' \<or> runtime = ''claude-code-cli''"
      by (auto simp: endpoint_for_known ENTRIES_def)
    with modes p show ?thesis by (elim disjE) (auto simp: startable_def reviewed_def)
  next
    assume p: "provider = ''openai''"
    with assms(1,2) have "runtime = ''codex-cli''" by (auto simp: endpoint_for_known ENTRIES_def)
    with modes p show ?thesis by (auto simp: startable_def reviewed_def)
  next
    assume p: "provider = ''zhipu-glm''"
    with assms(1-3) have "runtime = ''claude-code-cli''" "mode \<noteq> ''LOCAL_SESSION''"
      by (auto simp: endpoint_for_known ENTRIES_def)
    with modes p show ?thesis by (auto simp: startable_def reviewed_def)
  next
    assume p: "provider = ''moonshot-kimi''"
    with assms(1-3) have "runtime = ''claude-code-cli''" "mode \<noteq> ''LOCAL_SESSION''"
      by (auto simp: endpoint_for_known ENTRIES_def)
    with modes p show ?thesis by (auto simp: startable_def reviewed_def)
  qed
qed

section \<open>A machine on which a job can succeed\<close>

text \<open>Every process ends with code 0 and no output, and the agent reports success.\<close>

definition good_host :: "unit job_host" where
  "good_host = \<lparr>jh_host = demo_host\<lparr>ho_process := (\<lambda>argv environment cwd timeout x fs.
        (Inr \<lparr>pe_returncode = 0, pe_stdout = [], pe_stderr = []\<rparr>, x, fs)),
      ho_resolve := (\<lambda>p. [''w'', ''f'']), ho_loads := (\<lambda>text. Some (JObj []))\<rparr>,
     jh_sdk_run = (\<lambda>prompt options timeout. returnS ([ResultMessage False None None JNull ''success''], SdkFinished)),
     jh_sdk_available = True\<rparr>"

definition good_machine :: "unit machine" where
  "good_machine = mach [([''w'', ''f''], TextFile [])] []"

lemma base_machine: "m_environ good_machine = []"
  by (simp add: good_machine_def mach_def)

lemma good_lines [simp]: "splitlines [] = []"
  by (simp add: splitlines_def)

lemma with_secret_Inr:
  "\<exists>environment'. with_secret (new_agent (Some key) (Some endpoint) x) environment = Inr environment'"
  by (simp add: with_secret_def new_agent_def environment_for_def Let_def split: option.split)

lemma deterministic_good:
  "\<exists>result agent' m'. deterministic_execute (jh_host good_host) (new_agent s e x) request good_machine
     = (Inr (result, agent'), m') \<and> res_success result"
  by (simp add: deterministic_execute_def new_agent_def good_host_def good_machine_def demo_host_def under_def
      read_text_def write_text_def node_at_def steps Let_def)

lemma codex_good:
  assumes "req_authentication_mode request \<in> {''LOCAL_SESSION'', ''API_KEY_REFERENCE''}"
  shows "\<exists>result agent' m'. codex_execute (jh_host good_host) (new_agent (Some key) (Some endpoint) x) request
     good_machine = (Inr (result, agent'), m') \<and> res_success result"
proof -
  have "\<exists>environment. codex_environment [] (new_agent (Some key) (Some endpoint) x) request = Inr environment"
    using assms with_secret_Inr by (auto simp: codex_environment_def Let_def)
  then obtain environment where e: "codex_environment [] (new_agent (Some key) (Some endpoint) x) request = Inr environment"
    by blast
  then show ?thesis
    by (simp add: codex_execute_def new_agent_def good_host_def good_machine_def demo_host_def steps on_timeout_def
        run_process_def codex_parse_def changed_paths_def Let_def)
qed

lemma claude_good:
  assumes "req_authentication_mode request = ''API_KEY_REFERENCE'' \<or>
     req_authentication_mode request = ''LOCAL_SESSION'' \<and> req_provider request = ''anthropic''"
  shows "\<exists>result agent' m'. claude_execute (jh_host good_host) (new_agent (Some key) (Some endpoint) x) request
     good_machine = (Inr (result, agent'), m') \<and> res_success result"
proof -
  have "\<exists>environment. claude_environment (new_agent (Some key) (Some endpoint) x) request good_machine
      = (Inr environment, good_machine)"
  proof (cases "req_authentication_mode request = ''LOCAL_SESSION''")
    case True
    then show ?thesis using assms
      by (simp add: claude_environment_def prepare_local_session_def good_machine_def steps exists_path_def
          node_at_def env_get_def path_of_str_def Let_def under_def)
  next
    case False
    then show ?thesis using assms with_secret_Inr
      by (auto simp: claude_environment_def steps good_machine_def)
  qed
  then obtain environment where e: "claude_environment (new_agent (Some key) (Some endpoint) x) request good_machine
      = (Inr environment, good_machine)" by blast
  then show ?thesis
    by (simp add: claude_execute_def new_agent_def good_host_def good_machine_def demo_host_def steps on_timeout_def
        run_process_def claude_parse_def changed_paths_def stream_start_def Let_def)
qed

lemma sdk_good:
  assumes "req_authentication_mode request = ''API_KEY_REFERENCE''" and "req_provider request = ''anthropic''"
  shows "\<exists>result agent' m'. sdk_execute (jh_host good_host) (jh_sdk_run good_host) (jh_sdk_available good_host)
     (new_agent (Some key) (Some endpoint) x) request good_machine = (Inr (result, agent'), m') \<and> res_success result"
  using assms
  by (simp add: sdk_execute_def new_agent_def good_host_def good_machine_def demo_host_def steps
        run_process_def changed_paths_def stream_start_def sdk_message_step_def sdk_finish_def Let_def)

lemma good_runs:
  assumes "(runtime, req_provider request, req_authentication_mode request, dev, models) \<in> set reviewed"
  shows "\<exists>result m'. job_execute good_host runtime request (Some key) good_machine = (Inr result, m') \<and>
     res_success result"
proof -
  have run: "\<exists>result m'. job_execute good_host runtime request (Some key) good_machine = (Inr result, m') \<and>
     res_success result"
    if "select_agent runtime request (Some key) = Inr (adapter, agent)"
      "\<exists>result agent' m'. adapter_execute good_host adapter agent request good_machine = (Inr (result, agent'), m') \<and>
         res_success result" for adapter agent
    using that by (auto simp: job_execute_def bindS_def returnS_def)
  obtain endpoint where e: "endpoint_for (req_provider request) = Inr endpoint"
    using reviewed_endpoint [OF assms] by blast
  note select = select_agent_def e SUPPORTED_RUNTIMES_def build_agents_def deterministic_capabilities_def
    codex_capabilities_def claude_capabilities_def sdk_capabilities_def
  consider "runtime = ''deterministic''" "req_authentication_mode request = ''NONE''"
    | "runtime = ''codex-cli''" "req_authentication_mode request \<in> {''LOCAL_SESSION'', ''API_KEY_REFERENCE''}"
    | "runtime = ''claude-code-cli''" "req_authentication_mode request = ''API_KEY_REFERENCE'' \<or>
       req_authentication_mode request = ''LOCAL_SESSION'' \<and> req_provider request = ''anthropic''"
    | "runtime = ''claude-agent-sdk''" "req_authentication_mode request = ''API_KEY_REFERENCE''"
      "req_provider request = ''anthropic''"
    using assms unfolding reviewed_def by (simp, elim disjE) simp_all
  then show ?thesis
  proof cases
    case 1
    then show ?thesis
      using deterministic_good [of None None "[]" request] by (intro run) (auto simp add: select)
  next
    case 2
    then show ?thesis using codex_good [OF 2(2)] by (intro run) (auto simp add: select)
  next
    case 3
    then show ?thesis using claude_good [OF 3(2)] by (intro run) (auto simp add: select)
  next
    case 4
    have "select_agent runtime request (Some key)
        = Inr (ClaudeAgentSdkAgent, new_agent (Some key) (Some endpoint) [])"
      by (simp add: select 4(1,2))
    then show ?thesis using sdk_good [OF 4(2,3), of key endpoint "[]"] by (intro run) auto
  qed
qed

section \<open>Jobs that cannot succeed\<close>

lemma claude_session_refused:
  assumes "req_authentication_mode request = ''LOCAL_SESSION''" and "req_provider request \<noteq> ''anthropic''"
  shows "claude_execute host agent request m \<noteq> (Inr r, m')"
  using assms by (simp add: claude_execute_def claude_environment_def bindS_def readS_def raiseS_def)

lemma success_selected:
  assumes "job_execute jh runtime request secret m = (Inr result, m')" and "res_success result"
  obtains adapter agent where "select_agent runtime request secret = Inr (adapter, agent)"
    "\<exists>r. adapter_execute jh adapter agent request m = (Inr r, m')"
  using assms
  by (auto simp: job_execute_def refused_result_def failed_agent_result_def raiseS_def returnS_def bindS_def
      split: sum.splits prod.splits rn_error.splits runner_error.splits)

lemma success_endpoint:
  assumes "job_execute jh runtime request secret m = (Inr result, m')" and "res_success result"
    and "endpoint_for (req_provider request) = Inr endpoint" and "runtime \<in> set (pv_compatible_runtimes endpoint)"
  shows "(runtime, req_authentication_mode request) \<in> set startable \<and>
     (req_authentication_mode request = ''LOCAL_SESSION'' \<longrightarrow> pv_base_url endpoint = None)"
proof -
  obtain adapter agent where sel: "select_agent runtime request secret = Inr (adapter, agent)"
    and run: "\<exists>r. adapter_execute jh adapter agent request m = (Inr r, m')"
    by (rule success_selected [OF assms(1,2)])
  have st: "(runtime, req_authentication_mode request) \<in> set startable"
    using selected_iff sel by blast
  have "pv_base_url endpoint = None" if local_session: "req_authentication_mode request = ''LOCAL_SESSION''"
  proof (cases "runtime = ''claude-code-cli''")
    case True
    then have "adapter = ClaudeCodeCliAgent"
      using sel assms(3) by (auto simp: select_agent_def build_agents_def split: if_splits)
    then obtain r where "claude_execute (jh_host jh) agent request m = (Inr r, m')" using run by auto
    then have "req_provider request = ''anthropic''"
      using claude_session_refused [OF local_session] by metis
    then show ?thesis using assms(3) by (simp add: endpoint_for_known) (auto simp: ENTRIES_def)
  next
    case False
    then have "runtime = ''codex-cli''" using st local_session by (auto simp: startable_def)
    then show ?thesis using endpoint_for_only [OF assms(3)] assms(3,4)
      by (elim insertE emptyE) (auto simp: endpoint_for_known ENTRIES_def)
  qed
  then show ?thesis using st by blast
qed

section \<open>The two services agree\<close>

text \<open>C40: The delivery service accepts a provider configuration of a runtime, a provider and an
  authentication mode (for some model) exactly when the runner's catalog lists the runtime as
  compatible with the provider and a job of that configuration, given a key, can succeed: on some
  machine its process ends with a result that is a success. For a combination it does not
  accept, no process, no Agent SDK and no file system makes the job succeed: in particular a
  subscription session is refused for the endpoint of a third party, by Claude Code itself.\<close>

theorem supported_configurations_run:
  "(\<exists>dev model. ensure_supported runtime (req_provider request) (req_authentication_mode request) dev model
       = Inr ()) \<longleftrightarrow>
   (\<exists>endpoint. endpoint_for (req_provider request) = Inr endpoint \<and>
      runtime \<in> set (pv_compatible_runtimes endpoint)) \<and>
   (\<exists>(jh :: unit job_host) m result m'.
      job_execute jh runtime request (Some key) m = (Inr result, m') \<and> res_success result)"
  unfolding supported_combinations
proof
  assume "\<exists>dev models. (runtime, req_provider request, req_authentication_mode request, dev, models) \<in> set reviewed"
  then show "(\<exists>endpoint. endpoint_for (req_provider request) = Inr endpoint \<and>
      runtime \<in> set (pv_compatible_runtimes endpoint)) \<and>
   (\<exists>(jh :: unit job_host) m result m'.
      job_execute jh runtime request (Some key) m = (Inr result, m') \<and> res_success result)"
    using reviewed_endpoint good_runs by blast
next
  assume "(\<exists>endpoint. endpoint_for (req_provider request) = Inr endpoint \<and>
      runtime \<in> set (pv_compatible_runtimes endpoint)) \<and>
   (\<exists>(jh :: unit job_host) m result m'.
      job_execute jh runtime request (Some key) m = (Inr result, m') \<and> res_success result)"
  then obtain endpoint and jh :: "unit job_host" and m result m'
    where e: "endpoint_for (req_provider request) = Inr endpoint" "runtime \<in> set (pv_compatible_runtimes endpoint)"
      and run: "job_execute jh runtime request (Some key) m = (Inr result, m')" "res_success result" by blast
  from success_endpoint [OF run e] endpoint_reviewed [OF e]
  show "\<exists>dev models. (runtime, req_provider request, req_authentication_mode request, dev, models) \<in> set reviewed"
    by blast
qed

theorem supported_configurations_run_witness:
  "\<exists>dev model. ensure_supported ''claude-agent-sdk'' ''anthropic'' ''API_KEY_REFERENCE'' dev model = Inr ()"
proof -
  have "\<exists>endpoint. endpoint_for (req_provider demo_request) = Inr endpoint \<and>
      ''claude-agent-sdk'' \<in> set (pv_compatible_runtimes endpoint)"
    by (simp add: demo_request_def endpoint_for_known) (simp add: ENTRIES_def)
  moreover have "res_success demo_result" by (simp add: demo_result_def)
  ultimately have "\<exists>dev model. ensure_supported ''claude-agent-sdk'' (req_provider demo_request)
      (req_authentication_mode demo_request) dev model = Inr ()"
    using supported_configurations_run [of "''claude-agent-sdk''" demo_request "''key''"] demo_job_execute by blast
  then show ?thesis by (simp add: demo_request_def)
qed

text \<open>
  The runner's own check is weaker than its catalog: a job for a runtime the provider is not
  compatible with gets an agent all the same.
\<close>

lemma compatibility_is_not_enforced:
  "req_provider request = ''anthropic'' \<Longrightarrow> req_authentication_mode request = ''API_KEY_REFERENCE'' \<Longrightarrow>
     (\<exists>selected. select_agent ''codex-cli'' request secret = Inr selected) \<and>
     (\<exists>endpoint. endpoint_for (req_provider request) = Inr endpoint \<and>
        ''codex-cli'' \<notin> set (pv_compatible_runtimes endpoint))"
  unfolding selected_iff by (simp add: endpoint_for_known startable_def) (simp add: ENTRIES_def)

end
