(* ===== verification/Spec2Isabelle.thy ===== *)
theory Spec2Isabelle
  imports CpOutbox DlApiProperties DlDispatcher InAccess RnProperties RnRuntimes
begin

text \<open>
  A verification development for MVP Master: a platform on which organizations turn approved
  requirements into delivered changes of their repositories. Three services and one runner work
  together, each in its own package of \<open>src/\<close>:

  \<^item> the control plane (\<open>services/control_plane\<close>) keeps intakes, specifications and work items, and
    publishes a ready work item through its outbox;
  \<^item> the delivery service (\<open>services/delivery\<close>) accepts it as an execution, has it approved, queues a
    job for a runner, judges the report that comes back and opens the pull request;
  \<^item> the integrations service (\<open>services/integrations\<close>) owns the connections to source control, the
    stored credentials, and the exchange of short-lived capabilities for credentials;
  \<^item> the runner (\<open>runners/docker_runner\<close>) leases a job, clones the repository, runs an agent and
    then the validation in containers, pushes the result and reports.

  They share \<open>packages/python_common\<close> and talk over HTTP and NATS; the database is PostgreSQL.

  \<^bold>\<open>How the code is modelled.\<close> A dataclass, a table row or a request model is a \<open>record\<close>; an
  enumeration or an error hierarchy is a \<open>datatype\<close>. A function that may raise returns a sum, \<open>Inl\<close>
  the exception. A method that also changes state is an operation \<open>'s \<Rightarrow> ('e + 'a) \<times> 's\<close> (\<open>oper\<close> of
  \<open>Prelude\<close>), composed with \<open>bindS\<close>, \<open>seqS\<close> and \<open>finallyS\<close> in the order of the code, so that the
  state an exception leaves behind is part of the model. A dictionary, in insertion order, is an
  association list. Identifiers are 128-bit words, Python's integers are \<open>int\<close>, timestamps are
  microseconds. A database transaction is an operation on a record of tables whose changes are
  dropped when it raises; row level security is a filter on what the session's organization sees.
  Random identifiers, clocks, signatures, the cipher, JSON and JWT codecs, the servers, Docker and
  the processes of a host are parameters.

  \<^bold>\<open>The library.\<close>
  \<^item> \<open>Prelude\<close>: Python values (UUIDs, \<open>repr\<close>, JSON, dictionaries) and operations that may raise,
    with the collections \<open>preserving\<close> and \<open>following\<close>: what an operation leaves invariant, and what
    preorder it moves the state along, follow from the shape of its definition.
  \<^item> \<open>TenantStore\<close>: the locale of an organization-scoped store, interpreted on each repository.
  \<^item> \<open>Contracts\<close>: \<open>mvp_common/contracts.py\<close> with the field constraints of its models, and the
    redaction of log records of \<open>logging.py\<close>.

  \<^bold>\<open>The control plane.\<close> \<open>CpDomain\<close> has \<open>domain/\<close>: entities, transitions, roles and permissions;
  \<open>CpRepository\<close> has \<open>application/ports.py\<close> and \<open>adapters/memory.py\<close>, the repositories and the unit of
  work; \<open>CpService\<close> has the ten use cases of \<open>application/service.py\<close>. \<open>CpLifecycle\<close> makes them the
  step relation \<open>cp_step\<close> and proves the invariant of every reachable state, \<open>CpLineage\<close> a second
  one, where every intake, specification, approval and work item comes from; \<open>CpProperties\<close> draws
  the properties from them: who may do what, the trace from a ready work item back to its
  specification version, approval, intake and project, and that organizations are isolated. \<open>CpPostgres\<close> has \<open>adapters/postgres.py\<close>, the tables and the unit of
  work over them. \<open>CpRefinement\<close> relates the tables to the memory repository (\<open>represents\<close>): every
  operation on the tables does to the memory what the memory repository does, or the database refuses;
  the rule of composition \<open>refines_bind\<close> carries this through the use cases, so that what
  \<open>CpLifecycle\<close> proves of every reachable memory holds of the database. \<open>CpOutbox\<close> has
  \<open>entrypoints/outbox.py\<close>, the process that publishes the events of the outbox, and shows that it
  loses none and drains the outbox.

  \<^bold>\<open>The delivery service.\<close> \<open>DlRuntimes\<close> (\<open>domain/agent_runtimes.py\<close>), \<open>DlDomain\<close>
  (\<open>domain/models.py\<close>, the execution's state machine, budgets, events), \<open>DlService\<close>
  (\<open>application/\<close>), \<open>DlMemory\<close> and \<open>DlPostgres\<close> (\<open>adapters/memory.py\<close>, \<open>adapters/postgres.py\<close>),
  \<open>DlLeases\<close> (the two work queues, as one locale of leased tables), \<open>DlActivities\<close>
  (\<open>adapters/activities.py\<close>, the Temporal workflow as a machine over its signals, and
  \<open>entrypoints/events.py\<close>), \<open>DlDispatcher\<close> (\<open>entrypoints/workflow_dispatcher.py\<close>; Temporal is a
  parameter that may refuse a call or lose an answer, and commits may fail), \<open>DlReports\<close> and \<open>DlApi\<close>
  (\<open>entrypoints/api.py\<close>). \<open>DlVerifications\<close> and \<open>DlTokens\<close> follow the verifications and the enrollment
  tokens over runs of all the requests of that API. \<open>DlEnrollment\<close> proves enrollment once over the locale
  \<open>enrollment_repository\<close> and interprets it on both adapters. \<open>DlSystem\<close> takes every transaction, by
  whichever process, as the step relation \<open>delivery_step\<close> and proves its invariant; \<open>DlRun\<close> is one
  execution through all of them, at which the properties are applied. \<open>DlProperties\<close> and
  \<open>DlApiProperties\<close> hold the properties: a delivered execution was verified by its runner's report,
  budgets, leases, enrollment, the inbox, roles, and what a capability is bound to.

  \<^bold>\<open>The integrations service.\<close> \<open>InDomain\<close>, \<open>InService\<close>, \<open>InMemory\<close>, \<open>InPostgres\<close>, \<open>InAdapters\<close>
  (encrypted secret files and the local source control), \<open>InGitHub\<close>, and the request handlers in
  \<open>InApi\<close>, \<open>InOrgApi\<close> and \<open>InExchange\<close> (webhook, capability exchanges, reconciliation, events).
  \<open>InRepositories\<close> proves reconciliation over the locale \<open>connected_repositories\<close>, which
  \<open>InReconcile\<close> interprets on the memory adapter and on the tables. \<open>InFrames\<close> shows what each
  operation does to the tables, \<open>InSystem\<close> is the step relation of the service and \<open>InRun\<close> a run of
  it. \<open>InProperties\<close>, \<open>InSecrets\<close> and \<open>InAccess\<close> hold the properties: a capability is redeemed at
  most once, a reconciliation mirrors the provider, secrets round trip and reach only their owner,
  webhooks need a signature, requests need a role.

  \<^bold>\<open>The runner.\<close> \<open>RnDomain\<close> has \<open>domain/\<close> and \<open>application/\<close>; \<open>RnMachine\<close> is what it works on: the files
  of its host, the environment of its process, a log of what it asked of the outside, and the
  record \<open>host\<close> of the outside (processes, HTTP, Docker, clocks), every function of which is a
  parameter that may answer anything or raise. \<open>RnCatalog\<close> (\<open>provider_catalog.py\<close>,
  \<open>agent_prompt.py\<close>), \<open>RnAgents\<close> and \<open>RnClaude\<close> (the four agents, their command lines, environments
  and event parsers, and \<open>agent_registry.py\<close>), \<open>RnJob\<close> (\<open>entrypoints/job.py\<close>, the process in the
  agent's container), \<open>RnIsolation\<close> (containers with every option, validators, the egress proxy,
  workspaces, the clients of the services), \<open>RnGit\<close>, \<open>RnDaemon\<close> and \<open>RnLoop\<close>
  (\<open>entrypoints/daemon.py\<close>: \<open>run_job\<close>, provider verifications, heartbeats and the polling loop).
  \<open>RnLog\<close> has triples with a postcondition for the result and one for the exception; \<open>RnPublish\<close> states
  what a push rests on as a predicate of the log before it, \<open>RnPush\<close> and \<open>RnPushed\<close> carry it through
  the stages of a job. \<open>RnRun\<close> computes a whole job on a concrete host. \<open>RnProperties\<close> shows that
  published work was verified, that a finished job leaves nothing behind, and that a turn of the
  polling loop returns; \<open>RnReports\<close> that what an agent returns reaches the delivery service as a
  report of the right shape, and exactly when its values are within the bounds the service checks;
  \<open>RnRuntimes\<close> that the tables of the runner and of the delivery service agree on which
  configurations can succeed.

  \<^bold>\<open>Termination and bounds.\<close> No definition has fuel. The heartbeat loop of the runner is a
  \<open>partial_function (option)\<close> over a task that the event loop cuts into slices; that it returns is
  proved for every task that ends. \<open>daemon_turn\<close> is one round of the endless polling loop, the
  workflow consumes a list of signals, and \<open>dispatch_pass\<close> is one turn of the dispatcher's endless
  loop, over the commands its query selects. All other functions
  are total. The bounds of the code (45 seconds of a lease, ten minutes of an enrollment token,
  131072 characters of a patch, the budget fields) are in the definitions as the code has them.

  \<^bold>\<open>Not modelled.\<close> The control plane's HTTP handlers, which pass a request on to a use case. The audit
  list of its dashboard differs between the adapters by design: the last hundred events, the latest first,
  from the tables, all of them in order from the memory. OIDC token validation (a library call;
  what it returns is a parameter of the handlers), settings and start-up, seeds, the migrations
  (their tables, keys and row level security are part of the table models), logging set-up and
  OpenTelemetry. NATS, Temporal, PostgreSQL, GitHub, Docker, git and the agents' programs are not in the
  repository. Concurrency is the interleaving of transactions, each of them atomic; inside the runner, the
  slices of a job between heartbeats.
\<close>

end
